(* ===== verification/Zec_Prelude.thy ===== *)
theory Zec_Prelude
  imports Main "HOL-Library.Word" "HOL-Library.Multiset" "HOL-Library.AList"
begin

text \<open>
  Shared vocabulary of the development: how Go values of the controller are represented,
  the parts of Go's standard library its core logic uses, SQL statements over a table as
  functions on a list of rows, and the list, map and word lemmas the component theories share.

  \<^item> \<open>time.Time\<close> is an \<open>int\<close> (nanoseconds relative to the Unix epoch), \<open>time.Duration\<close> an
    \<open>int\<close> (nanoseconds); \<open>time.Time{}\<close> is \<open>zero_time\<close> (1 January of year 1).
  \<^item> a Go string is a \<open>string\<close>, that is its bytes; \<open>len\<close> is \<open>length\<close>.
  \<^item> a nilable pointer is an \<open>option\<close>; an error return is a sum type with the error on the left.
  \<^item> an UPDATE, SELECT or INSERT is a function on the list of rows of its table.
\<close>

section \<open>Types\<close>

type_synonym time = int
type_synonym duration = int
type_synonym uuid = nat

named_theorems row_simps \<open>rewriting of statements over the rows of a table\<close>
named_theorems go_simps \<open>evaluation of the standard library functions\<close>

section \<open>Time\<close>

definition nanosecond :: duration where "nanosecond = 1"
definition second :: duration where "second = 1000000000"
definition minute :: duration where "minute = 60 * second"
definition hour :: duration where "hour = 60 * minute"

lemmas duration_defs = nanosecond_def second_def minute_def hour_def

lemma duration_pos [simp]: "0 < second" "0 < minute" "0 < hour"
  by (simp_all add: duration_defs)

definition zero_time :: time where "zero_time = - 62135596800 * 1000000000"

definition is_zero_time :: "time \<Rightarrow> bool" where "is_zero_time t \<longleftrightarrow> t = zero_time"

section \<open>Strings\<close>

text \<open>
  \<open>strings.TrimSpace\<close> removes leading and trailing Unicode white space. The white-space code
  points are listed by their UTF-8 encodings; a byte string ends in one of these encodings
  exactly when its last rune is that code point, so working on bytes is exact.
\<close>

definition white_space :: "string list" where
  "white_space =
     [[CHR 0x09], [CHR 0x0A], [CHR 0x0B], [CHR 0x0C], [CHR 0x0D], [CHR 0x20],
      [CHR 0xC2, CHR 0x85], [CHR 0xC2, CHR 0xA0], [CHR 0xE1, CHR 0x9A, CHR 0x80],
      [CHR 0xE2, CHR 0x80, CHR 0x80], [CHR 0xE2, CHR 0x80, CHR 0x81],
      [CHR 0xE2, CHR 0x80, CHR 0x82], [CHR 0xE2, CHR 0x80, CHR 0x83],
      [CHR 0xE2, CHR 0x80, CHR 0x84], [CHR 0xE2, CHR 0x80, CHR 0x85],
      [CHR 0xE2, CHR 0x80, CHR 0x86], [CHR 0xE2, CHR 0x80, CHR 0x87],
      [CHR 0xE2, CHR 0x80, CHR 0x88], [CHR 0xE2, CHR 0x80, CHR 0x89],
      [CHR 0xE2, CHR 0x80, CHR 0x8A], [CHR 0xE2, CHR 0x80, CHR 0xA8],
      [CHR 0xE2, CHR 0x80, CHR 0xA9], [CHR 0xE2, CHR 0x80, CHR 0xAF],
      [CHR 0xE2, CHR 0x81, CHR 0x9F], [CHR 0xE3, CHR 0x80, CHR 0x80]]"

fun strip_prefix :: "'a list \<Rightarrow> 'a list \<Rightarrow> 'a list option" where
  "strip_prefix [] ys = Some ys"
| "strip_prefix (x # xs) [] = None"
| "strip_prefix (x # xs) (y # ys) = (if x = y then strip_prefix xs ys else None)"

lemma strip_prefix_Some [simp]: "strip_prefix xs ys = Some zs \<longleftrightarrow> ys = xs @ zs"
  by (induction xs ys rule: strip_prefix.induct) auto

fun strip_any :: "'a list list \<Rightarrow> 'a list \<Rightarrow> 'a list option" where
  "strip_any [] s = None"
| "strip_any (w # ws) s = (case strip_prefix w s of None \<Rightarrow> strip_any ws s | Some s' \<Rightarrow> Some s')"

lemma strip_any_Some: "strip_any ws s = Some s' \<Longrightarrow> \<exists>w\<in>set ws. s = w @ s'"
  by (induction ws) (auto split: option.splits)

text \<open>Trimming runs at most \<open>length s\<close> rounds: every round removes at least one byte.\<close>

fun trim_left_fuel :: "nat \<Rightarrow> 'a list list \<Rightarrow> 'a list \<Rightarrow> 'a list" where
  "trim_left_fuel 0 ws s = s"
| "trim_left_fuel (Suc n) ws s =
     (case strip_any ws s of None \<Rightarrow> s | Some s' \<Rightarrow> trim_left_fuel n ws s')"

definition trim_left :: "'a list list \<Rightarrow> 'a list \<Rightarrow> 'a list" where
  "trim_left ws s = trim_left_fuel (length s) ws s"

definition TrimSpace :: "string \<Rightarrow> string" where
  "TrimSpace s = rev (trim_left (map rev white_space) (rev (trim_left white_space s)))"

lemma trim_left_fuel_done:
  assumes "[] \<notin> set ws" and "length s \<le> n"
  shows "strip_any ws (trim_left_fuel n ws s) = None"
  using assms(2)
proof (induction n arbitrary: s)
  case 0
  have "strip_any ws [] = None"
  proof (cases "strip_any ws []")
    case (Some s')
    with strip_any_Some [OF this] assms(1) show ?thesis by auto
  qed
  with 0 show ?case by simp
next
  case (Suc n)
  show ?case
  proof (cases "strip_any ws s")
    case (Some s')
    from strip_any_Some [OF this] obtain w where "w \<in> set ws" "s = w @ s'" by blast
    with assms(1) Suc.prems have "length s' \<le> n" by (cases w) auto
    with Suc.IH Some show ?thesis by simp
  qed simp
qed

lemma trim_left_done: "[] \<notin> set ws \<Longrightarrow> strip_any ws (trim_left ws s) = None"
  by (simp add: trim_left_def trim_left_fuel_done)

lemma trim_left_id: "strip_any ws s = None \<Longrightarrow> trim_left ws s = s"
  by (cases "length s") (simp_all add: trim_left_def)

lemma strip_any_hd:
  "s \<noteq> [] \<Longrightarrow> \<forall>w\<in>set ws. w \<noteq> [] \<and> hd w \<noteq> hd s \<Longrightarrow> strip_any ws s = None"
proof (induction ws)
  case (Cons w ws)
  then have "strip_prefix w s = None" by (cases w; cases s) auto
  with Cons show ?case by simp
qed simp

lemma TrimSpace_id:
  assumes "s \<noteq> []" and "\<forall>w\<in>set white_space. w \<noteq> [] \<and> hd w \<noteq> hd s \<and> last w \<noteq> last s"
  shows "TrimSpace s = s"
proof -
  have "trim_left white_space s = s" using assms by (intro trim_left_id strip_any_hd) auto
  moreover have "trim_left (map rev white_space) (rev s) = rev s"
    using assms by (intro trim_left_id strip_any_hd) (auto simp: hd_rev)
  ultimately show ?thesis by (simp add: TrimSpace_def)
qed

lemma TrimSpace_Nil [simp]: "TrimSpace [] = []"
  by (simp add: TrimSpace_def trim_left_def)

text \<open>
  \<open>strings.ToUpper\<close> and \<open>strings.ToLower\<close> on the ASCII letters. Two other code points have an
  ASCII upper case, U+0131 (upper case I) and U+017F (upper case S); every other rune maps to a
  rune outside ASCII and is kept here, which no caller in this development distinguishes.
\<close>

definition upper_char :: "char \<Rightarrow> char" where
  "upper_char c = (if 97 \<le> (of_char c :: nat) \<and> (of_char c :: nat) \<le> 122
                   then char_of ((of_char c :: nat) - 32) else c)"

fun ToUpper :: "string \<Rightarrow> string" where
  "ToUpper [] = []"
| "ToUpper (c # d # s) =
     (if c = CHR 0xC4 \<and> d = CHR 0xB1 then CHR ''I'' # ToUpper s
      else if c = CHR 0xC5 \<and> d = CHR 0xBF then CHR ''S'' # ToUpper s
      else upper_char c # ToUpper (d # s))"
| "ToUpper [c] = [upper_char c]"

definition lower_char :: "char \<Rightarrow> char" where
  "lower_char c = (if 65 \<le> (of_char c :: nat) \<and> of_char c \<le> (90 :: nat) then char_of (of_char c + 32 :: nat) else c)"

text \<open>\<open>strconv.Itoa\<close> and \<open>%d\<close>.\<close>

definition digit_char :: "nat \<Rightarrow> char" where "digit_char n = char_of (48 + n)"

fun nat_to_string :: "nat \<Rightarrow> string" where
  "nat_to_string n =
     (if n < 10 then [digit_char n] else nat_to_string (n div 10) @ [digit_char (n mod 10)])"

declare nat_to_string.simps [simp del]

definition Itoa :: "int \<Rightarrow> string" where
  "Itoa i = (if i < 0 then CHR ''-'' # nat_to_string (nat (- i)) else nat_to_string (nat i))"

section \<open>Statements over a table\<close>

text \<open>
  A table is the list of its rows. \<open>update_where\<close> is an UPDATE with its WHERE clause,
  \<open>count_where\<close> the number of rows it affects, \<open>select_where\<close> a SELECT and \<open>select_one\<close> a
  single-row SELECT (the first match; \<open>None\<close> is \<open>pgx.ErrNoRows\<close>).
\<close>

definition update_where :: "('r \<Rightarrow> bool) \<Rightarrow> ('r \<Rightarrow> 'r) \<Rightarrow> 'r list \<Rightarrow> 'r list" where
  "update_where P f rows = map (\<lambda>r. if P r then f r else r) rows"

definition count_where :: "('r \<Rightarrow> bool) \<Rightarrow> 'r list \<Rightarrow> nat" where
  "count_where P rows = length (filter P rows)"

definition select_one :: "('r \<Rightarrow> bool) \<Rightarrow> 'r list \<Rightarrow> 'r option" where
  "select_one P rows = List.find P rows"

lemma set_update_where [row_simps]:
  "set (update_where P f rows) = (\<lambda>r. if P r then f r else r) ` set rows"
  by (simp add: update_where_def)

lemma ball_update_where [row_simps]:
  "(\<forall>r\<in>set (update_where P f rows). Q r) \<longleftrightarrow> (\<forall>r\<in>set rows. if P r then Q (f r) else Q r)"
  by (auto simp: update_where_def)

lemma update_whereE:
  assumes "r \<in> set (update_where P f rows)"
  obtains (hit) q where "q \<in> set rows" "P q" "r = f q"
        | (miss) "r \<in> set rows" "\<not> P r"
  using assms by (auto simp: set_update_where split: if_splits)

lemma length_update_where [simp]: "length (update_where P f rows) = length rows"
  by (simp add: update_where_def)

lemma count_where_0_iff [row_simps]: "count_where P rows = 0 \<longleftrightarrow> (\<forall>r\<in>set rows. \<not> P r)"
  by (auto simp: count_where_def filter_empty_conv)

lemma update_where_no_match [row_simps]: "count_where P rows = 0 \<Longrightarrow> update_where P f rows = rows"
  by (auto simp: update_where_def count_where_0_iff intro!: map_idI)

lemma map_update_where [row_simps]:
  "(\<And>r. r \<in> set rows \<Longrightarrow> P r \<Longrightarrow> g (f r) = g r) \<Longrightarrow> map g (update_where P f rows) = map g rows"
  by (auto simp: update_where_def)

lemma select_one_Some:
  "select_one P rows = Some r \<Longrightarrow> r \<in> set rows \<and> P r"
  by (auto simp: select_one_def find_Some_iff)

lemma select_one_None: "select_one P rows = None \<longleftrightarrow> (\<forall>r\<in>set rows. \<not> P r)"
  by (auto simp: select_one_def find_None_iff)

text \<open>Rows are told apart by a key column; with distinct keys a key names one row.\<close>

lemma distinct_key_eq:
  "distinct (map k rows) \<Longrightarrow> r \<in> set rows \<Longrightarrow> s \<in> set rows \<Longrightarrow> k r = k s \<Longrightarrow> r = s"
  by (metis distinct_map inj_onD)

lemma select_one_key:
  assumes "distinct (map k rows)" and "r \<in> set rows"
  shows "select_one (\<lambda>x. k x = k r) rows = Some r"
proof (cases "select_one (\<lambda>x. k x = k r) rows")
  case None
  then show ?thesis using assms(2) by (auto simp: select_one_None)
next
  case (Some x)
  then show ?thesis using select_one_Some [OF Some] distinct_key_eq [OF assms(1) _ assms(2), of x] by auto
qed

lemma select_one_by_key:
  assumes "distinct (map k rows)" and "r \<in> set rows" and "P r" and "\<And>x. P x \<Longrightarrow> k x = k r"
  shows "select_one P rows = Some r"
proof (cases "select_one P rows")
  case None
  then show ?thesis using assms(2,3) by (auto simp: select_one_None)
next
  case (Some x)
  then show ?thesis using select_one_Some [OF Some] distinct_key_eq [OF assms(1) _ assms(2), of x] assms(4) by auto
qed

lemma count_where_le_one:
  "distinct (map k rows) \<Longrightarrow> (\<And>r. P r \<Longrightarrow> k r = i) \<Longrightarrow> count_where P rows \<le> 1"
proof (induction rows)
  case (Cons r rows)
  have "count_where P rows = 0" if "P r"
    using Cons.prems that by (force simp: count_where_0_iff)
  then show ?case using Cons by (auto simp: count_where_def)
qed (simp add: count_where_def)

section \<open>Lists and sums\<close>

fun sum_bind :: "'e + 'a \<Rightarrow> ('a \<Rightarrow> 'e + 'b) \<Rightarrow> 'e + 'b" where
  "sum_bind (Inl e) f = Inl e"
| "sum_bind (Inr a) f = f a"

lemma sum_bind_Inr [simp]: "sum_bind x f = Inr b \<longleftrightarrow> (\<exists>a. x = Inr a \<and> f a = Inr b)"
  by (cases x) auto

lemma sum_bind_Inl: "sum_bind x f = Inl e \<longleftrightarrow> x = Inl e \<or> (\<exists>a. x = Inr a \<and> f a = Inl e)"
  by (cases x) auto

text \<open>\<open>COALESCE\<close> of an optional argument and a value.\<close>

definition or_else :: "'a option \<Rightarrow> 'a \<Rightarrow> 'a" where
  "or_else x y = (case x of None \<Rightarrow> y | Some v \<Rightarrow> v)"

end
