(* ===== verification/Outbox.thy ===== *)
theory Outbox
  imports Zec_Prelude "HOL-Library.Log_Nat" "HOL-Library.Product_Lexorder"
begin

text \<open>
  The durable event outbox: \<open>controller/internal/outbox\<close> (\<open>event.go\<close>, \<open>backoff.go\<close>,
  \<open>store.go\<close>, \<open>handler.go\<close>, \<open>processor.go\<close>, \<open>recover.go\<close>). The table \<open>outbox_events\<close> is a list
  of rows; every store method is a function that takes the rows and returns its result with
  the new rows. Each SQL statement is one atomic update. Between two statements of one method
  other workers may run: such methods take the interference \<open>env\<close> as an argument.
\<close>

section \<open>Rows and errors\<close>

datatype ev_status = EvPending | EvProcessing | EvDone | EvFailed

record outbox_event =
  ob_id :: uuid
  ob_event_type :: string
  ob_workspace_id :: uuid
  ob_user_id :: "uuid option"
  ob_correlation_id :: uuid
  ob_payload :: string
  ob_traceparent :: "string option"
  ob_status :: ev_status
  ob_retry_count :: int
  ob_created_at :: time
  ob_updated_at :: time
  ob_next_attempt_at :: "time option"
  ob_lease_id :: "uuid option"
  ob_claimed_at :: "time option"
  ob_last_error :: "string option"

type_synonym outbox_table = "outbox_event list"

record event =
  evt_type :: string
  evt_workspace_id :: uuid
  evt_user_id :: "uuid option"
  evt_correlation_id :: uuid
  evt_payload :: string

datatype outbox_error =
    ErrNilTx
  | ErrStaleLease
  | ErrDB
  | ErrNoHandler string
  | HandlerError string
  | ErrNoLease uuid
  | ErrLockWindow
  | ErrReasonRequired
  | ErrOperatorRequired
  | ErrEventMissing
  | ErrNotTerminal
  | ErrOperatorMissing
  | ErrEmptyEventType
  | ErrNilHandler
  | ErrConfig

text \<open>
  What a statement's reply tells: it was applied; it failed; or it was applied but the reply was
  lost, so the caller sees an error.
\<close>

datatype db_outcome = DbOk | DbErr | DbErrApplied

fun exec_update :: "db_outcome \<Rightarrow> ('r \<Rightarrow> bool) \<Rightarrow> ('r \<Rightarrow> 'r) \<Rightarrow> 'r list \<Rightarrow> (outbox_error + nat) \<times> 'r list" where
  "exec_update DbOk P f rows = (Inr (count_where P rows), update_where P f rows)"
| "exec_update DbErr P f rows = (Inl ErrDB, rows)"
| "exec_update DbErrApplied P f rows = (Inl ErrDB, update_where P f rows)"

section \<open>Retry policy\<close>

record retry_policy =
  rp_base :: duration
  rp_max :: duration
  rp_jitter :: rat
  rp_max_retries :: int

definition MaxBackoff :: duration where "MaxBackoff = 5 * minute"

definition DefaultMaxRetries :: int where "DefaultMaxRetries = 100"

definition DefaultRetryPolicy :: retry_policy where
  "DefaultRetryPolicy =
     \<lparr>rp_base = second, rp_max = MaxBackoff, rp_jitter = 1 / 5, rp_max_retries = DefaultMaxRetries\<rparr>"

definition Validate :: "retry_policy \<Rightarrow> outbox_error option" where
  "Validate p =
     (if rp_base p \<le> 0 then Some ErrConfig
      else if rp_max p \<le> 0 then Some ErrConfig
      else if rp_max p > MaxBackoff then Some ErrConfig
      else if rp_jitter p < 0 \<or> rp_jitter p > 1 then Some ErrConfig
      else if rp_max_retries p < 1 \<or> rp_max_retries p > 1000 then Some ErrConfig
      else None)"

text \<open>
  \<open>float64\<close> of an \<open>int64\<close>: exact up to \<open>2 ^ 53\<close>, otherwise rounded to 53 significant bits, ties
  to even. Converting back to \<open>int64\<close> is exact in range and implementation-dependent outside it
  (the Go specification leaves the value open), which is the parameter \<open>conv\<close>.
\<close>

definition f64_of_int :: "int \<Rightarrow> int" where
  "f64_of_int x =
     (if \<bar>x\<bar> \<le> 2 ^ 53 then x
      else let k = nat (bitlen \<bar>x\<bar> - 53); q = \<bar>x\<bar> div 2 ^ k; r = \<bar>x\<bar> mod 2 ^ k;
               q' = (if 2 * r > 2 ^ k \<or> 2 * r = 2 ^ k \<and> odd q then q + 1 else q)
           in sgn x * q' * 2 ^ k)"

definition f64_to_i64 :: "(int \<Rightarrow> int) \<Rightarrow> int \<Rightarrow> int" where
  "f64_to_i64 conv x = (if - (2 ^ 63) \<le> x \<and> x < 2 ^ 63 then x else conv x)"

definition Backoff :: "(int \<Rightarrow> int) \<Rightarrow> retry_policy \<Rightarrow> int \<Rightarrow> duration" where
  "Backoff conv p retryCount =
     (let retryCount = (if retryCount < 0 then 0 else retryCount);
          e = min retryCount 62;
          multiplier = 2 ^ nat e;
          delay = f64_to_i64 conv (f64_of_int (rp_base p) * multiplier)
      in if delay \<le> 0 \<or> delay > rp_max p then rp_max p else delay)"

type_synonym jitter_source = "duration \<Rightarrow> rat \<Rightarrow> duration"

definition NoJitter_Apply :: jitter_source where "NoJitter_Apply d _ = d"

record outbox =
  ox_retryPolicy :: retry_policy
  ox_jitter :: jitter_source
  ox_conv :: "int \<Rightarrow> int"

definition NewOutbox :: "(int \<Rightarrow> int) \<Rightarrow> outbox" where
  "NewOutbox conv =
     \<lparr>ox_retryPolicy = DefaultRetryPolicy, ox_jitter = NoJitter_Apply, ox_conv = conv\<rparr>"

definition NewOutboxWithMaxRetries :: "(int \<Rightarrow> int) \<Rightarrow> int \<Rightarrow> outbox_error + outbox" where
  "NewOutboxWithMaxRetries conv maxRetries =
     (if maxRetries < 1 \<or> maxRetries > 1000 then Inl ErrConfig
      else Inr \<lparr>ox_retryPolicy = DefaultRetryPolicy\<lparr>rp_max_retries := maxRetries\<rparr>,
                ox_jitter = NoJitter_Apply, ox_conv = conv\<rparr>)"

abbreviation max_retries :: "outbox \<Rightarrow> int" where
  "max_retries ob \<equiv> rp_max_retries (ox_retryPolicy ob)"

definition nextAttemptAt :: "outbox \<Rightarrow> time \<Rightarrow> int \<Rightarrow> time option" where
  "nextAttemptAt ob now retryCount =
     (if retryCount \<ge> max_retries ob then None
      else let delay = Backoff (ox_conv ob) (ox_retryPolicy ob) retryCount;
               delay = ox_jitter ob delay (rp_jitter (ox_retryPolicy ob))
           in Some (now + delay))"

definition maxErrorBytes :: nat where "maxErrorBytes = 4096"

definition truncateError :: "string option \<Rightarrow> string option" where
  "truncateError err = map_option (\<lambda>v. if length v > maxErrorBytes then take maxErrorBytes v else v) err"

section \<open>The store\<close>

definition new_row :: "uuid \<Rightarrow> time \<Rightarrow> string option \<Rightarrow> event \<Rightarrow> outbox_event" where
  "new_row i dbnow tp evt =
     \<lparr>ob_id = i, ob_event_type = evt_type evt, ob_workspace_id = evt_workspace_id evt,
      ob_user_id = evt_user_id evt, ob_correlation_id = evt_correlation_id evt,
      ob_payload = evt_payload evt, ob_traceparent = tp, ob_status = EvPending,
      ob_retry_count = 0, ob_created_at = dbnow, ob_updated_at = dbnow,
      ob_next_attempt_at = Some dbnow, ob_lease_id = None, ob_claimed_at = None,
      ob_last_error = None\<rparr>"

text \<open>
  \<open>Enqueue\<close> writes into the caller's transaction; \<open>tx\<close> is \<open>None\<close> for a nil transaction, and the
  rows of the transaction otherwise. \<open>i\<close> is the primary key the database generates.
\<close>

definition Enqueue ::
  "db_outcome \<Rightarrow> uuid \<Rightarrow> time \<Rightarrow> string option \<Rightarrow> event \<Rightarrow> outbox_table option
   \<Rightarrow> outbox_error + outbox_table" where
  "Enqueue dbr i dbnow tp evt tx =
     (case tx of
        None \<Rightarrow> Inl ErrNilTx
      | Some rows \<Rightarrow> (if dbr = DbOk then Inr (rows @ [new_row i dbnow tp evt]) else Inl ErrDB))"

definition eligible :: "int \<Rightarrow> time \<Rightarrow> outbox_event \<Rightarrow> bool" where
  "eligible maxr dbnow r \<longleftrightarrow>
     (ob_status r = EvPending \<or> ob_status r = EvFailed \<and> ob_retry_count r < maxr) \<and>
     (case ob_next_attempt_at r of None \<Rightarrow> False | Some t \<Rightarrow> t \<le> dbnow)"

definition claim_key :: "outbox_event \<Rightarrow> time \<times> time" where
  "claim_key r = (the (ob_next_attempt_at r), ob_created_at r)"

text \<open>
  The candidates of one claim: eligible rows not locked by another transaction (\<open>SKIP LOCKED\<close>),
  in the order of \<open>next_attempt_at, created_at\<close>, at most \<open>limit\<close> of them.
\<close>

definition candidates :: "int \<Rightarrow> time \<Rightarrow> (uuid \<Rightarrow> bool) \<Rightarrow> nat \<Rightarrow> outbox_table \<Rightarrow> uuid list" where
  "candidates maxr dbnow locked limit rows =
     map ob_id (take limit
       (sort_key claim_key (filter (\<lambda>r. eligible maxr dbnow r \<and> \<not> locked (ob_id r)) rows)))"

definition claim_row :: "(uuid \<Rightarrow> uuid) \<Rightarrow> time \<Rightarrow> outbox_event \<Rightarrow> outbox_event" where
  "claim_row fresh dbnow r =
     r\<lparr>ob_status := EvProcessing, ob_lease_id := Some (fresh (ob_id r)),
       ob_claimed_at := Some dbnow, ob_updated_at := dbnow\<rparr>"

definition ClaimEvents ::
  "outbox \<Rightarrow> db_outcome \<Rightarrow> time \<Rightarrow> (uuid \<Rightarrow> bool) \<Rightarrow> (uuid \<Rightarrow> uuid) \<Rightarrow> int \<Rightarrow> outbox_table
   \<Rightarrow> (outbox_error + outbox_event list) \<times> outbox_table" where
  "ClaimEvents ob dbr dbnow locked fresh limit rows =
     (if limit \<le> 0 then (Inr [], rows)
      else let ids = candidates (max_retries ob) dbnow locked (nat limit) rows;
               rows' = update_where (\<lambda>r. ob_id r \<in> set ids) (claim_row fresh dbnow) rows
           in case dbr of
                DbOk \<Rightarrow> (Inr (filter (\<lambda>r. ob_id r \<in> set ids) rows'), rows')
              | DbErr \<Rightarrow> (Inl ErrDB, rows)
              | DbErrApplied \<Rightarrow> (Inl ErrDB, rows'))"

definition holds_lease :: "uuid \<Rightarrow> uuid \<Rightarrow> outbox_event \<Rightarrow> bool" where
  "holds_lease i l r \<longleftrightarrow> ob_id r = i \<and> ob_lease_id r = Some l \<and> ob_status r = EvProcessing"

fun stale_if_none :: "(outbox_error + nat) \<times> 'r list \<Rightarrow> (outbox_error + unit) \<times> 'r list" where
  "stale_if_none (Inl e, rows) = (Inl e, rows)"
| "stale_if_none (Inr n, rows) = (if n = 0 then Inl ErrStaleLease else Inr (), rows)"

definition done_row :: "time \<Rightarrow> outbox_event \<Rightarrow> outbox_event" where
  "done_row dbnow r =
     r\<lparr>ob_status := EvDone, ob_lease_id := None, ob_claimed_at := None, ob_updated_at := dbnow\<rparr>"

definition MarkDone ::
  "db_outcome \<Rightarrow> time \<Rightarrow> uuid \<Rightarrow> uuid \<Rightarrow> outbox_table \<Rightarrow> (outbox_error + unit) \<times> outbox_table" where
  "MarkDone dbr dbnow i l rows =
     stale_if_none (exec_update dbr (holds_lease i l) (done_row dbnow) rows)"

definition terminal_row :: "int \<Rightarrow> time \<Rightarrow> string option \<Rightarrow> outbox_event \<Rightarrow> outbox_event" where
  "terminal_row maxr dbnow err r =
     r\<lparr>ob_status := EvFailed, ob_retry_count := maxr, ob_next_attempt_at := None,
       ob_lease_id := None, ob_claimed_at := None, ob_last_error := err, ob_updated_at := dbnow\<rparr>"

definition MarkFailedTerminal ::
  "outbox \<Rightarrow> db_outcome \<Rightarrow> time \<Rightarrow> uuid \<Rightarrow> uuid \<Rightarrow> string option \<Rightarrow> outbox_table
   \<Rightarrow> (outbox_error + unit) \<times> outbox_table" where
  "MarkFailedTerminal ob dbr dbnow i l err rows =
     stale_if_none (exec_update dbr (holds_lease i l)
       (terminal_row (max_retries ob) dbnow (truncateError err)) rows)"

definition failed_row :: "time option \<Rightarrow> time \<Rightarrow> string option \<Rightarrow> outbox_event \<Rightarrow> outbox_event" where
  "failed_row next dbnow err r =
     r\<lparr>ob_status := EvFailed, ob_retry_count := ob_retry_count r + 1, ob_next_attempt_at := next,
       ob_lease_id := None, ob_claimed_at := None, ob_last_error := err, ob_updated_at := dbnow\<rparr>"

text \<open>
  \<open>MarkFailed\<close> reads the retry count under the lease, computes the next attempt from it, and
  updates the row if the lease still holds. \<open>selr\<close> and \<open>updr\<close> are the outcomes of its two
  statements, \<open>env\<close> is what other workers do to the table in between.
\<close>

definition MarkFailed ::
  "outbox \<Rightarrow> db_outcome \<Rightarrow> (outbox_table \<Rightarrow> outbox_table) \<Rightarrow> db_outcome \<Rightarrow> time \<Rightarrow> time
   \<Rightarrow> uuid \<Rightarrow> uuid \<Rightarrow> string option \<Rightarrow> outbox_table \<Rightarrow> (outbox_error + unit) \<times> outbox_table" where
  "MarkFailed ob selr env updr now dbnow i l err rows =
     (if selr \<noteq> DbOk then (Inl ErrDB, rows)
      else case select_one (holds_lease i l) rows of
        None \<Rightarrow> (Inl ErrStaleLease, rows)
      | Some r \<Rightarrow>
          let retryCount = ob_retry_count r + 1;
              next = nextAttemptAt ob now retryCount
          in stale_if_none (exec_update updr (holds_lease i l)
               (failed_row next dbnow (truncateError err)) (env rows)))"

definition reaped_row :: "time option \<Rightarrow> time \<Rightarrow> outbox_event \<Rightarrow> outbox_event" where
  "reaped_row next dbnow r =
     r\<lparr>ob_status := EvFailed, ob_retry_count := ob_retry_count r + 1, ob_next_attempt_at := next,
       ob_lease_id := None, ob_claimed_at := None, ob_updated_at := dbnow\<rparr>"

definition abandoned :: "time \<Rightarrow> outbox_event \<Rightarrow> bool" where
  "abandoned cutoff r \<longleftrightarrow>
     ob_status r = EvProcessing \<and>
     (case ob_claimed_at r of None \<Rightarrow> False | Some t \<Rightarrow> t \<le> cutoff)"

text \<open>
  \<open>ReapAbandoned\<close>: one scan, then one guarded update per abandoned event. The scan fails on a row
  without a lease (the column is scanned into a non-null UUID). The loop stops at the first
  failing update and returns the number reaped so far. \<open>now\<close> is the clock for the cutoff,
  \<open>clock i\<close> the later reading for event \<open>i\<close>.
\<close>

fun reap_each ::
  "outbox \<Rightarrow> (uuid \<Rightarrow> db_outcome) \<Rightarrow> (outbox_table \<Rightarrow> outbox_table) \<Rightarrow> (uuid \<Rightarrow> time) \<Rightarrow> time
   \<Rightarrow> (uuid \<times> uuid \<times> int) list \<Rightarrow> nat \<Rightarrow> outbox_table \<Rightarrow> nat \<times> outbox_error option \<times> outbox_table" where
  "reap_each ob dbr env clock dbnow [] reaped rows = (reaped, None, rows)"
| "reap_each ob dbr env clock dbnow ((i, l, rc) # evs) reaped rows =
     (let next = nextAttemptAt ob (clock i) (rc + 1) in
      case exec_update (dbr i) (holds_lease i l) (reaped_row next dbnow) (env rows) of
        (Inl e, rows') \<Rightarrow> (reaped, Some e, rows')
      | (Inr n, rows') \<Rightarrow>
          reap_each ob dbr env clock dbnow evs (if n = 1 then reaped + 1 else reaped) rows')"

fun scan_abandoned :: "outbox_event list \<Rightarrow> (uuid \<times> uuid \<times> int) list option" where
  "scan_abandoned [] = Some []"
| "scan_abandoned (r # rs) =
     (case (ob_lease_id r, scan_abandoned rs) of
        (Some l, Some xs) \<Rightarrow> Some ((ob_id r, l, ob_retry_count r) # xs)
      | _ \<Rightarrow> None)"

definition ReapAbandoned ::
  "outbox \<Rightarrow> db_outcome \<Rightarrow> (uuid \<Rightarrow> db_outcome) \<Rightarrow> (outbox_table \<Rightarrow> outbox_table) \<Rightarrow> time
   \<Rightarrow> (uuid \<Rightarrow> time) \<Rightarrow> time \<Rightarrow> duration \<Rightarrow> outbox_table \<Rightarrow> nat \<times> outbox_error option \<times> outbox_table" where
  "ReapAbandoned ob selr dbr env now clock dbnow lockWindow rows =
     (if lockWindow \<le> 0 then (0, Some ErrLockWindow, rows)
      else let cutoff = now - lockWindow in
        if selr \<noteq> DbOk then (0, Some ErrDB, rows)
        else case scan_abandoned (filter (abandoned cutoff) rows) of
          None \<Rightarrow> (0, Some ErrDB, rows)
        | Some evs \<Rightarrow> reap_each ob dbr env clock dbnow evs 0 rows)"

section \<open>Operator recovery\<close>

record audit_entry =
  au_tenant :: uuid
  au_actor :: uuid
  au_actor_email :: string
  au_action :: string
  au_target :: uuid
  au_reason :: string
  au_reset :: bool
  au_previous_retry_count :: int
  au_new_retry_count :: int

definition recovered_row :: "int \<Rightarrow> time \<Rightarrow> outbox_event \<Rightarrow> outbox_event" where
  "recovered_row n dbnow r =
     r\<lparr>ob_status := EvFailed, ob_retry_count := n, ob_next_attempt_at := Some dbnow,
       ob_lease_id := None, ob_claimed_at := None, ob_updated_at := dbnow\<rparr>"

text \<open>
  \<open>Recover\<close> is one transaction over the events and the audit log; any failure before the commit
  rolls both back. \<open>users\<close> gives the e-mail of a user row. \<open>txr\<close> is the outcome of the
  transaction's statements and commit taken together.
\<close>

definition Recover ::
  "outbox \<Rightarrow> db_outcome \<Rightarrow> time \<Rightarrow> (uuid \<Rightarrow> string option) \<Rightarrow> uuid \<Rightarrow> uuid \<Rightarrow> string \<Rightarrow> bool
   \<Rightarrow> outbox_table \<times> audit_entry list \<Rightarrow> (outbox_error + unit) \<times> outbox_table \<times> audit_entry list" where
  "Recover ob txr dbnow users eventID operatorID reason0 resetRetryBudget st =
     (let reason = TrimSpace reason0; (rows, audits) = st in
      if reason = [] then (Inl ErrReasonRequired, st)
      else if operatorID = 0 then (Inl ErrOperatorRequired, st)
      else if txr = DbErr then (Inl ErrDB, st)
      else case select_one (\<lambda>r. ob_id r = eventID) rows of
        None \<Rightarrow> (Inl ErrEventMissing, st)
      | Some r \<Rightarrow>
          if ob_status r \<noteq> EvFailed then (Inl ErrNotTerminal, st)
          else if ob_retry_count r < max_retries ob then (Inl ErrNotTerminal, st)
          else case users operatorID of
            None \<Rightarrow> (Inl ErrOperatorMissing, st)
          | Some email \<Rightarrow>
              let newRetryCount = (if resetRetryBudget then 0 else ob_retry_count r);
                  P = (\<lambda>q. ob_id q = eventID \<and> ob_status q = EvFailed \<and>
                           ob_retry_count q \<ge> max_retries ob)
              in if count_where P rows \<noteq> 1 then (Inl ErrStaleLease, st)
                 else (if txr = DbOk then Inr () else Inl ErrDB,
                       update_where P (recovered_row newRetryCount dbnow) rows,
                       audits @ [\<lparr>au_tenant = ob_workspace_id r, au_actor = operatorID,
                         au_actor_email = email, au_action = ''outbox.recover'',
                         au_target = eventID, au_reason = reason, au_reset = resetRetryBudget,
                         au_previous_retry_count = ob_retry_count r,
                         au_new_retry_count = newRetryCount\<rparr>]))"

section \<open>Handlers and the processor\<close>

text \<open>
  A handler's effect outside the outbox is not part of the table; what the processor sees of it
  is the error it returns, if any.
\<close>

type_synonym event_handler = "outbox_event \<Rightarrow> string option"
type_synonym handler_registry = "string \<rightharpoonup> event_handler"

definition RegisterHandler ::
  "string \<Rightarrow> event_handler option \<Rightarrow> handler_registry \<Rightarrow> outbox_error + handler_registry" where
  "RegisterHandler eventType handler reg =
     (if eventType = [] then Inl ErrEmptyEventType
      else case handler of
        None \<Rightarrow> Inl ErrNilHandler
      | Some h \<Rightarrow> Inr (reg(eventType \<mapsto> h)))"

definition Has :: "handler_registry \<Rightarrow> string \<Rightarrow> bool" where
  "Has reg eventType \<longleftrightarrow> reg eventType \<noteq> None"

definition Dispatch :: "handler_registry \<Rightarrow> outbox_event \<Rightarrow> outbox_error option" where
  "Dispatch reg evt =
     (case reg (ob_event_type evt) of
        None \<Rightarrow> Some (ErrNoHandler (ob_event_type evt))
      | Some h \<Rightarrow> map_option HandlerError (h evt))"

definition error_text :: "outbox_error \<Rightarrow> string" where
  "error_text e =
     (case e of
        ErrNoHandler t \<Rightarrow>
          ''outbox: no handler registered: no handler registered for event_type '' @ t
      | HandlerError m \<Rightarrow> m
      | _ \<Rightarrow> [])"

record processor_config =
  pc_pollInterval :: duration
  pc_lockWindow :: duration
  pc_reaperInterval :: duration
  pc_maxRetries :: int

definition defaultProcessorConfig :: processor_config where
  "defaultProcessorConfig =
     \<lparr>pc_pollInterval = second, pc_lockWindow = 30 * second, pc_reaperInterval = 30 * second,
      pc_maxRetries = DefaultMaxRetries\<rparr>"

record processor =
  pr_outbox :: outbox
  pr_registry :: handler_registry
  pr_pollInterval :: duration
  pr_lockWindow :: duration
  pr_reaperInterval :: duration

definition NewProcessor ::
  "outbox option \<Rightarrow> handler_registry option \<Rightarrow> (processor_config \<Rightarrow> processor_config) option list
   \<Rightarrow> outbox_error + processor" where
  "NewProcessor ob registry opts =
     (case (ob, registry) of
        (None, _) \<Rightarrow> Inl ErrConfig
      | (Some _, None) \<Rightarrow> Inl ErrConfig
      | (Some b, Some reg) \<Rightarrow>
          let cfg = fold (\<lambda>opt c. case opt of None \<Rightarrow> c | Some f \<Rightarrow> f c) opts defaultProcessorConfig in
          if pc_pollInterval cfg \<le> 0 then Inl ErrConfig
          else if pc_lockWindow cfg < 5 * second \<or> pc_lockWindow cfg > hour then Inl ErrConfig
          else if pc_reaperInterval cfg < second \<or> pc_reaperInterval cfg > 5 * minute then Inl ErrConfig
          else if pc_reaperInterval cfg > pc_lockWindow cfg then Inl ErrConfig
          else if pc_maxRetries cfg < 1 \<or> pc_maxRetries cfg > 1000 then Inl ErrConfig
          else if max_retries b \<noteq> pc_maxRetries cfg then Inl ErrConfig
          else Inr \<lparr>pr_outbox = b, pr_registry = reg, pr_pollInterval = pc_pollInterval cfg,
                    pr_lockWindow = pc_lockWindow cfg, pr_reaperInterval = pc_reaperInterval cfg\<rparr>)"

text \<open>
  The surroundings of one event's processing: the outcomes of its statements, the clocks, and the
  interference of other workers while the handler runs and between the two statements of
  \<open>MarkFailed\<close>.
\<close>

record proc_env =
  pe_markr :: db_outcome
  pe_selr :: db_outcome
  pe_during :: "outbox_table \<Rightarrow> outbox_table"
  pe_between :: "outbox_table \<Rightarrow> outbox_table"
  pe_now :: time
  pe_dbnow :: time

definition quiet_env :: "time \<Rightarrow> time \<Rightarrow> proc_env" where
  "quiet_env now dbnow =
     \<lparr>pe_markr = DbOk, pe_selr = DbOk, pe_during = id, pe_between = id,
      pe_now = now, pe_dbnow = dbnow\<rparr>"

definition processEvent ::
  "processor \<Rightarrow> proc_env \<Rightarrow> outbox_event \<Rightarrow> outbox_table \<Rightarrow> outbox_error option \<times> outbox_table" where
  "processEvent p e evt rows =
     (case ob_lease_id evt of
        None \<Rightarrow> (Some (ErrNoLease (ob_id evt)), rows)
      | Some leaseID \<Rightarrow>
          let rows = pe_during e rows in
          case Dispatch (pr_registry p) evt of
            None \<Rightarrow>
              (case MarkDone (pe_markr e) (pe_dbnow e) (ob_id evt) leaseID rows of
                 (Inl x, rows') \<Rightarrow> (Some x, rows')
               | (Inr _, rows') \<Rightarrow> (None, rows'))
          | Some (ErrNoHandler t) \<Rightarrow>
              (case MarkFailedTerminal (pr_outbox p) (pe_markr e) (pe_dbnow e) (ob_id evt) leaseID
                      (Some (error_text (ErrNoHandler t))) rows of
                 (Inl x, rows') \<Rightarrow> (Some x, rows')
               | (Inr _, rows') \<Rightarrow> (Some (ErrNoHandler t), rows'))
          | Some err \<Rightarrow>
              (case MarkFailed (pr_outbox p) (pe_selr e) (pe_between e) (pe_markr e) (pe_now e)
                      (pe_dbnow e) (ob_id evt) leaseID (Some (error_text err)) rows of
                 (Inl x, rows') \<Rightarrow> (Some x, rows')
               | (Inr _, rows') \<Rightarrow> (Some err, rows')))"

text \<open>
  One tick of each of the two loops of \<open>Run\<close>. The poll loop claims a batch and processes its
  events in order, ignoring their errors; the reaper loop resets expired leases.
\<close>

definition poll_tick ::
  "processor \<Rightarrow> db_outcome \<Rightarrow> (uuid \<Rightarrow> proc_env) \<Rightarrow> time \<Rightarrow> (uuid \<Rightarrow> bool) \<Rightarrow> (uuid \<Rightarrow> uuid) \<Rightarrow> int
   \<Rightarrow> outbox_table \<Rightarrow> outbox_table" where
  "poll_tick p claimr pe dbnow locked fresh batchSize rows =
     (case ClaimEvents (pr_outbox p) claimr dbnow locked fresh batchSize rows of
        (Inl e, rows') \<Rightarrow> rows'
      | (Inr events, rows') \<Rightarrow>
          fold (\<lambda>evt rs. snd (processEvent p (pe (ob_id evt)) evt rs)) events rows')"

definition reaper_tick ::
  "processor \<Rightarrow> db_outcome \<Rightarrow> (uuid \<Rightarrow> db_outcome) \<Rightarrow> (outbox_table \<Rightarrow> outbox_table) \<Rightarrow> time
   \<Rightarrow> (uuid \<Rightarrow> time) \<Rightarrow> time \<Rightarrow> outbox_table \<Rightarrow> outbox_table" where
  "reaper_tick p selr dbr env now clock dbnow rows =
     snd (snd (ReapAbandoned (pr_outbox p) selr dbr env now clock dbnow (pr_lockWindow p) rows))"

end
