(* ===== verification/Zec_Interfaces.thy ===== *)
theory Zec_Interfaces
  imports Zec_Prelude
begin

text \<open>
  Contracts that several components of the controller share, as locales: the operations a client
  uses are the parameters, the laws a provider promises the assumptions, and what every client
  may conclude is proved once. The component theories interpret them on their own definitions.
\<close>

section \<open>Transition systems and their invariants\<close>

text \<open>States reachable from the initial ones by the steps of a component.\<close>

inductive reach :: "('s \<Rightarrow> bool) \<Rightarrow> ('s \<Rightarrow> 's \<Rightarrow> bool) \<Rightarrow> 's \<Rightarrow> bool"
  for init :: "'s \<Rightarrow> bool" and step :: "'s \<Rightarrow> 's \<Rightarrow> bool" where
  reach_init: "init s \<Longrightarrow> reach init step s"
| reach_step: "reach init step s \<Longrightarrow> step s t \<Longrightarrow> reach init step t"

lemma reach_steps: "reach init step s \<Longrightarrow> step\<^sup>*\<^sup>* s t \<Longrightarrow> reach init step t"
  by (rotate_tac, induction rule: rtranclp_induct) (auto intro: reach_step)

locale inductive_invariant =
  fixes init :: "'s \<Rightarrow> bool"
    and step :: "'s \<Rightarrow> 's \<Rightarrow> bool"
    and inv :: "'s \<Rightarrow> bool"
  assumes inv_init: "init s \<Longrightarrow> inv s"
    and inv_step: "inv s \<Longrightarrow> step s t \<Longrightarrow> inv t"
begin

lemma inv_steps: "step\<^sup>*\<^sup>* s t \<Longrightarrow> inv s \<Longrightarrow> inv t"
  by (induction rule: rtranclp_induct) (auto intro: inv_step)

lemma inv_reach: "reach init step s \<Longrightarrow> inv s"
  by (induction rule: reach.induct) (auto intro: inv_init inv_step)

text \<open>A property every step keeps under the invariant is kept along every run.\<close>

lemma stable_steps:
  assumes "step\<^sup>*\<^sup>* s t" and "inv s" and "P s"
    and "\<And>u v. inv u \<Longrightarrow> P u \<Longrightarrow> step u v \<Longrightarrow> P v"
  shows "P t"
proof -
  from assms(1) have "inv t \<and> P t"
    by (induction rule: rtranclp_induct) (use assms in \<open>auto intro: inv_step\<close>)
  then show ?thesis by simp
qed

end

end
