(* ===== verification/Outbox_Machine.thy ===== *)
theory Outbox_Machine
  imports Outbox Zec_Interfaces
begin

text \<open>
  The outbox as a transition system. One step is one SQL statement of one worker, so a run is any
  interleaving of any number of workers, reapers and operators. Besides the rows the state records
  what workers have read and not yet used (a SELECT of \<open>MarkFailed\<close> or of the reaper) and the
  lease identifiers handed out so far; a claim uses identifiers never used before, which is what
  \<open>gen_random_uuid()\<close> provides.
\<close>

section \<open>Steps\<close>

record osys =
  os_tbl :: outbox_table
  os_reads :: "(uuid \<times> uuid \<times> int) set"
  os_used :: "uuid set"

definition recover_where :: "outbox \<Rightarrow> uuid \<Rightarrow> outbox_event \<Rightarrow> bool" where
  "recover_where ob i q \<longleftrightarrow> ob_id q = i \<and> ob_status q = EvFailed \<and> ob_retry_count q \<ge> max_retries ob"

definition recover_set :: "bool \<Rightarrow> time \<Rightarrow> outbox_event \<Rightarrow> outbox_event" where
  "recover_set reset dbnow r = recovered_row (if reset then 0 else ob_retry_count r) dbnow r"

inductive outbox_step :: "outbox \<Rightarrow> osys \<Rightarrow> osys \<Rightarrow> bool" for ob where
  enqueue: "i \<notin> ob_id ` set (os_tbl s) \<Longrightarrow>
     outbox_step ob s (s\<lparr>os_tbl := os_tbl s @ [new_row i dbnow tp evt]\<rparr>)"
| claim: "\<forall>r\<in>set (os_tbl s). ob_id r \<in> ids \<longrightarrow> eligible (max_retries ob) dbnow r \<Longrightarrow>
     inj_on fresh ids \<Longrightarrow> \<forall>j\<in>ids. fresh j \<notin> os_used s \<Longrightarrow>
     outbox_step ob s (s\<lparr>os_tbl := update_where (\<lambda>r. ob_id r \<in> ids) (claim_row fresh dbnow) (os_tbl s),
                         os_used := os_used s \<union> fresh ` ids\<rparr>)"
| mark_done: "outbox_step ob s
     (s\<lparr>os_tbl := update_where (holds_lease i l) (done_row dbnow) (os_tbl s)\<rparr>)"
| mark_terminal: "outbox_step ob s
     (s\<lparr>os_tbl := update_where (holds_lease i l) (terminal_row (max_retries ob) dbnow err) (os_tbl s)\<rparr>)"
| read_count: "r \<in> set (os_tbl s) \<Longrightarrow> holds_lease i l r \<Longrightarrow>
     outbox_step ob s (s\<lparr>os_reads := insert (i, l, ob_retry_count r) (os_reads s)\<rparr>)"
| mark_failed: "(i, l, rc) \<in> os_reads s \<Longrightarrow> outbox_step ob s
     (s\<lparr>os_tbl := update_where (holds_lease i l)
         (failed_row (nextAttemptAt ob now (rc + 1)) dbnow err) (os_tbl s)\<rparr>)"
| reap: "(i, l, rc) \<in> os_reads s \<Longrightarrow> outbox_step ob s
     (s\<lparr>os_tbl := update_where (holds_lease i l)
         (reaped_row (nextAttemptAt ob now (rc + 1)) dbnow) (os_tbl s)\<rparr>)"
| recover: "outbox_step ob s
     (s\<lparr>os_tbl := update_where (recover_where ob i) (recover_set reset dbnow) (os_tbl s)\<rparr>)"

text \<open>A run starts with an empty table and an outbox whose retry policy passed validation.\<close>

definition outbox_init :: "outbox \<Rightarrow> osys \<Rightarrow> bool" where
  "outbox_init ob s \<longleftrightarrow>
     Validate (ox_retryPolicy ob) = None \<and> os_tbl s = [] \<and> os_reads s = {} \<and> os_used s = {}"

section \<open>The invariant\<close>

definition row_ok :: "int \<Rightarrow> outbox_event \<Rightarrow> bool" where
  "row_ok maxr r \<longleftrightarrow>
     (ob_status r = EvProcessing \<longleftrightarrow> ob_lease_id r \<noteq> None) \<and>
     (ob_claimed_at r \<noteq> None \<longleftrightarrow> ob_lease_id r \<noteq> None) \<and>
     0 \<le> ob_retry_count r \<and> ob_retry_count r \<le> maxr \<and>
     (ob_status r = EvPending \<longrightarrow> ob_retry_count r = 0 \<and> ob_next_attempt_at r \<noteq> None) \<and>
     (ob_status r = EvProcessing \<longrightarrow> ob_retry_count r < maxr) \<and>
     (ob_status r = EvFailed \<and> ob_retry_count r < maxr \<longrightarrow> ob_next_attempt_at r \<noteq> None)"

definition lease_ok :: "uuid set \<Rightarrow> outbox_table \<Rightarrow> bool" where
  "lease_ok used rows \<longleftrightarrow>
     (\<forall>r\<in>set rows. \<forall>l. ob_lease_id r = Some l \<longrightarrow> l \<in> used) \<and>
     (\<forall>r\<in>set rows. \<forall>q\<in>set rows. \<forall>l.
        ob_lease_id r = Some l \<and> ob_lease_id q = Some l \<longrightarrow> ob_id r = ob_id q)"

definition reads_ok :: "uuid set \<Rightarrow> (uuid \<times> uuid \<times> int) set \<Rightarrow> outbox_table \<Rightarrow> bool" where
  "reads_ok used reads rows \<longleftrightarrow>
     (\<forall>i l rc. (i, l, rc) \<in> reads \<longrightarrow> l \<in> used \<and>
        (\<forall>r\<in>set rows. holds_lease i l r \<longrightarrow> ob_retry_count r = rc))"

definition outbox_inv :: "outbox \<Rightarrow> osys \<Rightarrow> bool" where
  "outbox_inv ob s \<longleftrightarrow>
     1 \<le> max_retries ob \<and>
     distinct (map ob_id (os_tbl s)) \<and>
     (\<forall>r\<in>set (os_tbl s). row_ok (max_retries ob) r) \<and>
     lease_ok (os_used s) (os_tbl s) \<and> reads_ok (os_used s) (os_reads s) (os_tbl s)"

lemmas outbox_row_defs =
  new_row_def claim_row_def done_row_def terminal_row_def failed_row_def reaped_row_def
  recovered_row_def recover_set_def

lemma row_id_kept [simp]:
  "ob_id (claim_row fr t r) = ob_id r" "ob_id (done_row t r) = ob_id r"
  "ob_id (terminal_row m t e r) = ob_id r" "ob_id (failed_row n t e r) = ob_id r"
  "ob_id (reaped_row n t r) = ob_id r" "ob_id (recover_set b t r) = ob_id r"
  by (simp_all add: outbox_row_defs)

text \<open>Each row transformation keeps a row well formed under the guard it is applied with.\<close>

lemma row_ok_new: "1 \<le> m \<Longrightarrow> row_ok m (new_row i t tp e)"
  by (simp add: row_ok_def outbox_row_defs)

lemma row_ok_claim: "1 \<le> m \<Longrightarrow> row_ok m r \<Longrightarrow> eligible m t r \<Longrightarrow> row_ok m (claim_row fr t r)"
  by (auto simp: row_ok_def outbox_row_defs eligible_def)

lemma row_ok_done: "row_ok m r \<Longrightarrow> row_ok m (done_row t r)"
  by (auto simp: row_ok_def outbox_row_defs)

lemma row_ok_terminal: "1 \<le> m \<Longrightarrow> row_ok m r \<Longrightarrow> row_ok m (terminal_row m t e r)"
  by (auto simp: row_ok_def outbox_row_defs)

lemma nextAttemptAt_None [simp]: "nextAttemptAt ob now rc = None \<longleftrightarrow> max_retries ob \<le> rc"
  by (simp add: nextAttemptAt_def Let_def)

lemma row_ok_failed:
  assumes "row_ok (max_retries ob) r" "holds_lease i l r" "ob_retry_count r = rc"
  shows "row_ok (max_retries ob) (failed_row (nextAttemptAt ob now (rc + 1)) t e r)"
    and "row_ok (max_retries ob) (reaped_row (nextAttemptAt ob now (rc + 1)) t r)"
  using assms nextAttemptAt_None [of ob now "rc + 1"]
  by (auto simp: row_ok_def outbox_row_defs holds_lease_def simp del: nextAttemptAt_None)

lemma row_ok_recover:
  "1 \<le> max_retries ob \<Longrightarrow> row_ok (max_retries ob) r \<Longrightarrow> recover_where ob i r \<Longrightarrow>
   row_ok (max_retries ob) (recover_set reset t r)"
  by (auto simp: row_ok_def outbox_row_defs recover_where_def)

lemmas row_ok_intros =
  row_ok_new row_ok_claim row_ok_done row_ok_terminal row_ok_failed row_ok_recover

text \<open>
  The part of the invariant about leases survives an update that only clears leases and leaves
  retry counts of rows that keep their lease alone.
\<close>

lemma lease_okI:
  "(\<And>r l. r \<in> set rows \<Longrightarrow> ob_lease_id r = Some l \<Longrightarrow> l \<in> used) \<Longrightarrow>
   (\<And>r q l. r \<in> set rows \<Longrightarrow> q \<in> set rows \<Longrightarrow> ob_lease_id r = Some l \<Longrightarrow> ob_lease_id q = Some l \<Longrightarrow>
      ob_id r = ob_id q) \<Longrightarrow> lease_ok used rows"
  unfolding lease_ok_def by blast

lemma lease_okD:
  assumes "lease_ok used rows" "r \<in> set rows" "ob_lease_id r = Some l"
  shows "l \<in> used" and "q \<in> set rows \<Longrightarrow> ob_lease_id q = Some l \<Longrightarrow> ob_id r = ob_id q"
  using assms unfolding lease_ok_def by blast+

lemma lease_clear:
  assumes ok: "lease_ok used rows" and clear: "\<And>r. P r \<Longrightarrow> ob_lease_id (f r) = None"
  shows "lease_ok used (update_where P f rows)"
proof (rule lease_okI)
  fix r l assume "r \<in> set (update_where P f rows)" "ob_lease_id r = Some l"
  then show "l \<in> used" by (cases rule: update_whereE) (auto simp: clear dest: lease_okD(1) [OF ok])
next
  fix r q l assume r: "r \<in> set (update_where P f rows)" "ob_lease_id r = Some l"
    and q: "q \<in> set (update_where P f rows)" "ob_lease_id q = Some l"
  from r have "r \<in> set rows" by (cases rule: update_whereE) (auto simp: clear)
  moreover from q have "q \<in> set rows" by (cases rule: update_whereE) (auto simp: clear)
  ultimately show "ob_id r = ob_id q" using r q by (auto intro: lease_okD(2) [OF ok])
qed

lemma reads_clear:
  assumes "reads_ok used reads rows" and "\<And>r. P r \<Longrightarrow> ob_lease_id (f r) = None"
  shows "reads_ok used reads (update_where P f rows)"
  using assms unfolding reads_ok_def holds_lease_def
  by (auto elim!: update_whereE)

lemma claim_lease [simp]: "ob_lease_id (claim_row fresh t r) = Some (fresh (ob_id r))"
  by (simp add: claim_row_def)

lemma lease_claim:
  assumes ok: "lease_ok used rows" and inj: "inj_on fresh ids" and new: "\<forall>j\<in>ids. fresh j \<notin> used"
  shows "lease_ok (used \<union> fresh ` ids) (update_where (\<lambda>r. ob_id r \<in> ids) (claim_row fresh t) rows)"
    (is "lease_ok _ ?rows")
proof (rule lease_okI)
  fix r l assume "r \<in> set ?rows" "ob_lease_id r = Some l"
  then show "l \<in> used \<union> fresh ` ids"
    by (cases rule: update_whereE) (auto dest: lease_okD(1) [OF ok])
next
  fix r q l
  assume r: "r \<in> set ?rows" and rl: "ob_lease_id r = Some l"
    and q: "q \<in> set ?rows" and ql: "ob_lease_id q = Some l"
  have fresh_new: "fresh i \<notin> used" if "i \<in> ids" for i using new that by blast
  from r show "ob_id r = ob_id q"
  proof (cases rule: update_whereE)
    case r': (hit r')
    from q show ?thesis
    proof (cases rule: update_whereE)
      case (hit q')
      with r' rl ql inj show ?thesis by (auto simp: inj_on_eq_iff)
    next
      case miss
      with r' rl ql fresh_new lease_okD(1) [OF ok, of q l] show ?thesis by auto
    qed
  next
    case r': miss
    from q show ?thesis
    proof (cases rule: update_whereE)
      case (hit q')
      with r' rl ql fresh_new lease_okD(1) [OF ok, of r l] show ?thesis by auto
    next
      case miss
      with r' rl ql show ?thesis by (auto intro: lease_okD(2) [OF ok])
    qed
  qed
qed

lemma reads_claim:
  assumes "reads_ok used reads rows" and "\<forall>j\<in>ids. fresh j \<notin> used"
  shows "reads_ok (used \<union> fresh ` ids) reads (update_where (\<lambda>r. ob_id r \<in> ids) (claim_row fresh t) rows)"
  using assms unfolding reads_ok_def holds_lease_def
  by (auto elim!: update_whereE)

lemma distinct_update_where [simp]:
  "(\<And>r. ob_id (f r) = ob_id r) \<Longrightarrow> distinct (map ob_id (update_where P f rows)) = distinct (map ob_id rows)"
  by (simp add: map_update_where)

lemma cleared [simp]:
  "ob_lease_id (done_row t r) = None" "ob_lease_id (terminal_row m t e r) = None"
  "ob_lease_id (failed_row n t e r) = None" "ob_lease_id (reaped_row n t r) = None"
  "ob_lease_id (recover_set b t r) = None"
  by (simp_all add: outbox_row_defs)

lemma outbox_inv_clear:
  assumes "outbox_inv ob s" and "\<And>r. ob_id (f r) = ob_id r" and "\<And>r. ob_lease_id (f r) = None"
    and "\<And>r. r \<in> set (os_tbl s) \<Longrightarrow> P r \<Longrightarrow> row_ok (max_retries ob) r \<Longrightarrow> row_ok (max_retries ob) (f r)"
  shows "outbox_inv ob (s\<lparr>os_tbl := update_where P f (os_tbl s)\<rparr>)"
  using assms unfolding outbox_inv_def
  by (simp add: lease_clear reads_clear ball_update_where)

lemma outbox_invD:
  assumes "outbox_inv ob s"
  shows "1 \<le> max_retries ob" and "distinct (map ob_id (os_tbl s))"
    and "r \<in> set (os_tbl s) \<Longrightarrow> row_ok (max_retries ob) r"
    and "r \<in> set (os_tbl s) \<Longrightarrow> ob_lease_id r = Some l \<Longrightarrow> l \<in> os_used s"
    and "(i, l, rc) \<in> os_reads s \<Longrightarrow> r \<in> set (os_tbl s) \<Longrightarrow> holds_lease i l r \<Longrightarrow> ob_retry_count r = rc"
  using assms by (auto simp: outbox_inv_def reads_ok_def dest: lease_okD(1))

lemma outbox_inv_step:
  assumes inv: "outbox_inv ob s" and step: "outbox_step ob s t"
  shows "outbox_inv ob t"
  using step
proof (cases rule: outbox_step.cases)
  case (enqueue i dbnow tp evt)
  then show ?thesis using inv
    by (auto simp: outbox_inv_def lease_ok_def reads_ok_def holds_lease_def new_row_def
        intro: row_ok_new [unfolded new_row_def])
next
  case (claim ids dbnow fresh)
  then show ?thesis using inv
    by (simp add: outbox_inv_def lease_claim reads_claim ball_update_where row_ok_claim)
next
  case (read_count r i l)
  have "ob_retry_count q = ob_retry_count r" if "q \<in> set (os_tbl s)" "holds_lease i l q" for q
    using that read_count(2,3) outbox_invD(2) [OF inv] distinct_key_eq [of ob_id "os_tbl s" q r]
    by (auto simp: holds_lease_def)
  moreover have "l \<in> os_used s"
    using read_count(2,3) outbox_invD(4) [OF inv] by (auto simp: holds_lease_def)
  ultimately show ?thesis using read_count(1) inv by (auto simp: outbox_inv_def reads_ok_def)
next
  case (recover i reset dbnow)
  then show ?thesis using inv outbox_invD(1) [OF inv]
    by (auto intro!: outbox_inv_clear row_ok_recover)
qed (use inv outbox_invD(1) [OF inv] in
      \<open>auto intro!: outbox_inv_clear row_ok_done row_ok_terminal row_ok_failed intro: outbox_invD(5) [OF inv]\<close>)

lemma Validate_None:
  "Validate p = None \<longleftrightarrow>
     0 < rp_base p \<and> 0 < rp_max p \<and> rp_max p \<le> MaxBackoff \<and> 0 \<le> rp_jitter p \<and> rp_jitter p \<le> 1 \<and>
     1 \<le> rp_max_retries p \<and> rp_max_retries p \<le> 1000"
  by (auto simp: Validate_def)

lemma outbox_inv_init: "outbox_init ob s \<Longrightarrow> outbox_inv ob s"
  by (simp add: outbox_inv_def outbox_init_def lease_ok_def reads_ok_def Validate_None)

interpretation obm: inductive_invariant "outbox_init ob" "outbox_step ob" "outbox_inv ob" for ob
  by unfold_locales (auto intro: outbox_inv_init outbox_inv_step)

section \<open>Rows that no step touches\<close>

lemma untouched_update_where:
  "r \<in> set rows \<Longrightarrow> \<not> P r \<Longrightarrow> r \<in> set (update_where P f rows)"
  by (auto simp: update_where_def)

text \<open>A completed row is never written again, by any statement.\<close>

lemma done_row_step:
  assumes "r \<in> set (os_tbl s)" "ob_status r = EvDone" "outbox_step ob s t"
  shows "r \<in> set (os_tbl t)"
  using assms(3,1,2)
  by (cases rule: outbox_step.cases)
    (auto intro!: untouched_update_where simp: holds_lease_def recover_where_def eligible_def)

lemma done_row_steps:
  "(outbox_step ob)\<^sup>*\<^sup>* s t \<Longrightarrow> r \<in> set (os_tbl s) \<Longrightarrow> ob_status r = EvDone \<Longrightarrow> r \<in> set (os_tbl t)"
  by (induction rule: rtranclp_induct) (auto intro: done_row_step)

text \<open>
  A row that is out of retry budget is not claimed: only an operator's recovery can write it, and
  only a recovery that resets the budget makes it eligible again.
\<close>

definition stuck_row :: "outbox \<Rightarrow> outbox_event \<Rightarrow> bool" where
  "stuck_row ob r \<longleftrightarrow> ob_status r = EvFailed \<and> max_retries ob \<le> ob_retry_count r"

lemma stuck_row_not_eligible: "stuck_row ob r \<Longrightarrow> \<not> eligible (max_retries ob) t r"
  by (auto simp: stuck_row_def eligible_def)

section \<open>Spent leases\<close>

definition lease_spent :: "uuid \<Rightarrow> osys \<Rightarrow> bool" where
  "lease_spent l s \<longleftrightarrow> l \<in> os_used s \<and> (\<forall>r\<in>set (os_tbl s). ob_lease_id r \<noteq> Some l)"

lemma lease_spent_step:
  assumes "lease_spent l s" and "outbox_step ob s t"
  shows "lease_spent l t"
  using assms(2,1)
  by (cases rule: outbox_step.cases)
    (auto simp: lease_spent_def ball_update_where new_row_def)

lemma lease_spent_steps: "(outbox_step ob)\<^sup>*\<^sup>* s t \<Longrightarrow> lease_spent l s \<Longrightarrow> lease_spent l t"
  by (induction rule: rtranclp_induct) (auto intro: lease_spent_step)

text \<open>Whoever still holds a spent lease can change nothing with it and is told so.\<close>

lemma lease_spent_no_holder: "lease_spent l s \<Longrightarrow> count_where (holds_lease i l) (os_tbl s) = 0"
  by (auto simp: lease_spent_def count_where_0_iff holds_lease_def)

lemma exec_update_no_match:
  "count_where P rows = 0 \<Longrightarrow> stale_if_none (exec_update DbOk P f rows) = (Inl ErrStaleLease, rows)"
  by (simp add: update_where_no_match)

lemma spent_lease_refused:
  assumes "lease_spent l s"
  shows "MarkDone DbOk dbnow i l (os_tbl s) = (Inl ErrStaleLease, os_tbl s)"
    and "MarkFailedTerminal ob DbOk dbnow i l err (os_tbl s) = (Inl ErrStaleLease, os_tbl s)"
    and "MarkFailed ob DbOk env DbOk now dbnow i l err (os_tbl s) = (Inl ErrStaleLease, os_tbl s)"
proof -
  note none = lease_spent_no_holder [OF assms, of i]
  from none have "select_one (holds_lease i l) (os_tbl s) = None"
    by (simp add: select_one_None count_where_0_iff)
  then show "MarkFailed ob DbOk env DbOk now dbnow i l err (os_tbl s) = (Inl ErrStaleLease, os_tbl s)"
    by (simp add: MarkFailed_def)
qed (simp_all add: MarkDone_def MarkFailedTerminal_def exec_update_no_match
       lease_spent_no_holder [OF assms] del: exec_update.simps)

text \<open>Completing an event spends its lease.\<close>

lemma clear_spends_lease:
  assumes "outbox_inv ob s" "r \<in> set (os_tbl s)" "holds_lease i l r"
    and "\<And>q. ob_lease_id (f q) = None"
  shows "lease_spent l (s\<lparr>os_tbl := update_where (holds_lease i l) f (os_tbl s)\<rparr>)"
proof -
  have l: "l \<in> os_used s"
    using outbox_invD(4) [OF assms(1,2)] assms(3) by (simp add: holds_lease_def)
  have "holds_lease i l q" if "q \<in> set (os_tbl s)" "ob_lease_id q = Some l" for q
  proof -
    from assms(1,2,3) that have "ob_id r = ob_id q"
      by (auto simp: outbox_inv_def holds_lease_def intro: lease_okD(2))
    with distinct_key_eq [OF outbox_invD(2) [OF assms(1)] assms(2) that(1)] assms(3)
    show ?thesis by simp
  qed
  with l assms(4) show ?thesis by (auto simp: lease_spent_def ball_update_where)
qed

end
