(* ===== verification/Outbox_Refine.thy ===== *)
theory Outbox_Refine
  imports Outbox_Machine
begin

text \<open>
  Every store method and every tick of the processor, with whatever failures and interference it
  meets, changes the table only by steps of the machine. So what holds of the machine's reachable
  states holds of the running program.
\<close>

definition reaches :: "outbox \<Rightarrow> osys \<Rightarrow> outbox_table \<Rightarrow> bool" where
  "reaches ob s rows \<longleftrightarrow> (\<exists>t. (outbox_step ob)\<^sup>*\<^sup>* s t \<and> os_tbl t = rows)"

text \<open>Interference that other workers' statements can produce.\<close>

definition interference :: "outbox \<Rightarrow> (outbox_table \<Rightarrow> outbox_table) \<Rightarrow> bool" where
  "interference ob env \<longleftrightarrow> (\<forall>s. reaches ob s (env (os_tbl s)))"

lemma reaches_refl [simp, intro]: "reaches ob s (os_tbl s)"
  by (auto simp: reaches_def)

lemma interference_id [simp]: "interference ob id"
  by (simp add: interference_def)

lemma reaches_step: "outbox_step ob s t \<Longrightarrow> rows = os_tbl t \<Longrightarrow> reaches ob s rows"
  by (auto simp: reaches_def)

lemma reaches_trans:
  assumes "reaches ob s rows" and "\<And>t. os_tbl t = rows \<Longrightarrow> os_reads s \<subseteq> os_reads t \<Longrightarrow> reaches ob t rows'"
    and mono: "\<And>t. (outbox_step ob)\<^sup>*\<^sup>* s t \<Longrightarrow> os_reads s \<subseteq> os_reads t"
  shows "reaches ob s rows'"
proof -
  from assms(1) obtain t where t: "(outbox_step ob)\<^sup>*\<^sup>* s t" "os_tbl t = rows"
    by (auto simp: reaches_def)
  with assms(2) mono obtain u where "(outbox_step ob)\<^sup>*\<^sup>* t u" "os_tbl u = rows'"
    unfolding reaches_def by blast
  with t show ?thesis unfolding reaches_def by (blast intro: rtranclp_trans)
qed

lemma reads_step_mono: "outbox_step ob s t \<Longrightarrow> os_reads s \<subseteq> os_reads t"
  by (cases rule: outbox_step.cases) auto

lemma reads_mono: "(outbox_step ob)\<^sup>*\<^sup>* s t \<Longrightarrow> os_reads s \<subseteq> os_reads t"
  by (induction rule: rtranclp_induct) (auto dest: reads_step_mono)

lemmas reaches_then = reaches_trans [OF _ _ reads_mono]

lemma exec_update_refines:
  assumes "outbox_step ob s (s\<lparr>os_tbl := update_where P f (os_tbl s)\<rparr>)"
  shows "reaches ob s (snd (exec_update dbr P f (os_tbl s)))"
  using reaches_step [OF assms] by (cases dbr) auto

lemma snd_stale_if_none [simp]: "snd (stale_if_none x) = snd x"
  by (cases x rule: stale_if_none.cases) auto

lemma MarkDone_refines: "reaches ob s (snd (MarkDone dbr dbnow i l (os_tbl s)))"
  unfolding MarkDone_def snd_stale_if_none
  by (rule exec_update_refines) (rule outbox_step.mark_done)

lemma MarkFailedTerminal_refines:
  "reaches ob s (snd (MarkFailedTerminal ob dbr dbnow i l err (os_tbl s)))"
  unfolding MarkFailedTerminal_def snd_stale_if_none
  by (rule exec_update_refines) (rule outbox_step.mark_terminal)

lemma reaches_after: "outbox_step ob s t \<Longrightarrow> reaches ob t rows \<Longrightarrow> reaches ob s rows"
  unfolding reaches_def by (blast intro: converse_rtranclp_into_rtranclp)

lemma MarkFailed_refines:
  assumes "interference ob env"
  shows "reaches ob s (snd (MarkFailed ob selr env updr now dbnow i l err (os_tbl s)))"
proof (cases "selr = DbOk \<and> select_one (holds_lease i l) (os_tbl s) \<noteq> None")
  case True
  then obtain r where r: "select_one (holds_lease i l) (os_tbl s) = Some r" by auto
  let ?s = "s\<lparr>os_reads := insert (i, l, ob_retry_count r) (os_reads s)\<rparr>"
  let ?f = "failed_row (nextAttemptAt ob now (ob_retry_count r + 1)) dbnow (truncateError err)"
  have read: "outbox_step ob s ?s"
    using select_one_Some [OF r] by (auto intro: outbox_step.read_count)
  have "reaches ob ?s (env (os_tbl s))"
    using assms [unfolded interference_def, rule_format, of ?s] by simp
  then have "reaches ob ?s (snd (exec_update updr (holds_lease i l) ?f (env (os_tbl s))))"
  proof (rule reaches_then)
    fix t :: osys assume t: "os_tbl t = env (os_tbl s)" "os_reads ?s \<subseteq> os_reads t"
    then have "outbox_step ob t (t\<lparr>os_tbl := update_where (holds_lease i l) ?f (os_tbl t)\<rparr>)"
      by (intro outbox_step.mark_failed) auto
    from exec_update_refines [OF this] t(1)
    show "reaches ob t (snd (exec_update updr (holds_lease i l) ?f (env (os_tbl s))))" by simp
  qed
  with read have "reaches ob s (snd (exec_update updr (holds_lease i l) ?f (env (os_tbl s))))"
    by (rule reaches_after)
  with True r show ?thesis by (simp add: MarkFailed_def Let_def)
qed (auto simp: MarkFailed_def)

lemma processEvent_refines:
  assumes "interference (pr_outbox p) (pe_during e)" and "interference (pr_outbox p) (pe_between e)"
  shows "reaches (pr_outbox p) s (snd (processEvent p e evt (os_tbl s)))"
proof (cases "ob_lease_id evt")
  case None
  then show ?thesis by (simp add: processEvent_def)
next
  case (Some l)
  have "reaches (pr_outbox p) s (pe_during e (os_tbl s))"
    using assms(1) unfolding interference_def by blast
  then show ?thesis
  proof (rule reaches_then)
    fix t :: osys assume t: "os_tbl t = pe_during e (os_tbl s)"
    have snd_case: "snd (case x of (Inl a, b) \<Rightarrow> (f a, b) | (Inr c, b) \<Rightarrow> (g c, b)) = snd x"
      for x :: "(outbox_error + unit) \<times> outbox_table" and f g
      by (cases x) (auto split: sum.split)
    show "reaches (pr_outbox p) t (snd (processEvent p e evt (os_tbl s)))"
      using MarkDone_refines [where s = t] MarkFailedTerminal_refines [where s = t]
        MarkFailed_refines [OF assms(2), where s = t] Some
      unfolding t processEvent_def Let_def
      by (simp add: snd_case split: option.split outbox_error.split)
  qed
qed

lemma fold_refines:
  assumes "\<And>x s. x \<in> set xs \<Longrightarrow> reaches ob s (f x (os_tbl s))"
  shows "reaches ob s (fold f xs (os_tbl s))"
  using assms
proof (induction xs arbitrary: s)
  case (Cons x xs)
  have "reaches ob s (f x (os_tbl s))" using Cons.prems by simp
  then show ?case
  proof (rule reaches_then)
    fix t :: osys assume "os_tbl t = f x (os_tbl s)"
    with Cons.IH [of t] Cons.prems show "reaches ob t (fold f (x # xs) (os_tbl s))" by simp
  qed
qed simp

lemma candidates_eligible:
  assumes "distinct (map ob_id rows)" "r \<in> set rows" "ob_id r \<in> set (candidates m t locked n rows)"
  shows "eligible m t r"
proof -
  from assms(3) obtain q where "q \<in> set rows" "eligible m t q" "ob_id q = ob_id r"
    unfolding candidates_def by (auto dest!: in_set_takeD)
  with distinct_key_eq [OF assms(1,2)] show ?thesis by metis
qed

lemma ClaimEvents_refines:
  assumes "distinct (map ob_id (os_tbl s))"
    and "inj fresh" and "range fresh \<inter> os_used s = {}"
  shows "reaches ob s (snd (ClaimEvents ob dbr dbnow locked fresh limit (os_tbl s)))"
proof -
  let ?ids = "set (candidates (max_retries ob) dbnow locked (nat limit) (os_tbl s))"
  let ?rows = "update_where (\<lambda>r. ob_id r \<in> ?ids) (claim_row fresh dbnow) (os_tbl s)"
  have "outbox_step ob s (s\<lparr>os_tbl := ?rows, os_used := os_used s \<union> fresh ` ?ids\<rparr>)"
    using assms by (intro outbox_step.claim) (auto intro: candidates_eligible inj_on_subset)
  then have "reaches ob s ?rows" by (rule reaches_step) simp
  then show ?thesis by (cases dbr) (auto simp: ClaimEvents_def Let_def)
qed

lemma poll_tick_refines:
  assumes "distinct (map ob_id (os_tbl s))"
    and "inj fresh" and "range fresh \<inter> os_used s = {}"
    and "\<And>i. interference (pr_outbox p) (pe_during (pe i))"
    and "\<And>i. interference (pr_outbox p) (pe_between (pe i))"
  shows "reaches (pr_outbox p) s (poll_tick p claimr pe dbnow locked fresh batch (os_tbl s))"
proof -
  obtain res rows where c: "ClaimEvents (pr_outbox p) claimr dbnow locked fresh batch (os_tbl s) = (res, rows)"
    by fastforce
  from ClaimEvents_refines [OF assms(1-3)] c have "reaches (pr_outbox p) s rows" by (metis snd_conv)
  then show ?thesis
  proof (rule reaches_then)
    fix t :: osys assume t: "os_tbl t = rows"
    show "reaches (pr_outbox p) t (poll_tick p claimr pe dbnow locked fresh batch (os_tbl s))"
    proof (cases res)
      case (Inl e)
      with t show ?thesis using reaches_refl [of "pr_outbox p" t] by (simp add: poll_tick_def c)
    next
      case (Inr evs)
      have "reaches (pr_outbox p) t (fold (\<lambda>evt rs. snd (processEvent p (pe (ob_id evt)) evt rs)) evs (os_tbl t))"
        by (rule fold_refines) (rule processEvent_refines [OF assms(4,5)])
      with Inr t show ?thesis by (simp add: poll_tick_def c)
    qed
  qed
qed

section \<open>The reaper\<close>

text \<open>The scan reads the lease and retry count of each abandoned row.\<close>

lemma scan_refines:
  assumes "scan_abandoned rs = Some evs" and "set rs \<subseteq> set (os_tbl s)"
    and "\<And>r. r \<in> set rs \<Longrightarrow> ob_status r = EvProcessing"
  shows "(outbox_step ob)\<^sup>*\<^sup>* s (s\<lparr>os_reads := set evs \<union> os_reads s\<rparr>)"
  using assms
proof (induction rs arbitrary: evs)
  case (Cons r rs)
  then obtain l xs where ev: "ob_lease_id r = Some l" "scan_abandoned rs = Some xs"
      "evs = (ob_id r, l, ob_retry_count r) # xs"
    by (auto split: option.splits)
  let ?t = "s\<lparr>os_reads := set xs \<union> os_reads s\<rparr>"
  have "(outbox_step ob)\<^sup>*\<^sup>* s ?t" using Cons ev by auto
  moreover have "outbox_step ob ?t (?t\<lparr>os_reads := insert (ob_id r, l, ob_retry_count r) (os_reads ?t)\<rparr>)"
    using Cons.prems ev by (intro outbox_step.read_count) (auto simp: holds_lease_def)
  ultimately show ?case using ev by (simp add: rtranclp.rtrancl_into_rtrancl)
qed simp

lemma reap_each_refines:
  assumes "interference ob env" and "set evs \<subseteq> os_reads s" and "rows = os_tbl s"
  shows "reaches ob s (snd (snd (reap_each ob dbr env clock dbnow evs n rows)))"
  using assms(2,3)
proof (induction evs arbitrary: s n rows)
  case (Cons ev evs)
  obtain i l rc where ev: "ev = (i, l, rc)" by (cases ev)
  let ?f = "reaped_row (nextAttemptAt ob (clock i) (rc + 1)) dbnow"
  obtain res rows' where x: "exec_update (dbr i) (holds_lease i l) ?f (env rows) = (res, rows')"
    by fastforce
  have "reaches ob s (env rows)" using assms(1) Cons.prems(2) by (auto simp: interference_def)
  then have "reaches ob s rows'"
  proof (rule reaches_then)
    fix t :: osys assume t: "os_tbl t = env rows" "os_reads s \<subseteq> os_reads t"
    with Cons.prems(1) ev have "outbox_step ob t (t\<lparr>os_tbl := update_where (holds_lease i l) ?f (os_tbl t)\<rparr>)"
      by (intro outbox_step.reap) auto
    from exec_update_refines [OF this, of "dbr i"] t(1) x show "reaches ob t rows'" by simp
  qed
  then show ?case
  proof (rule reaches_then)
    fix t :: osys assume t: "os_tbl t = rows'" "os_reads s \<subseteq> os_reads t"
    with Cons.prems(1) have "set evs \<subseteq> os_reads t" by auto
    from Cons.IH [OF this t(1) [symmetric]] x t(1)
    show "reaches ob t (snd (snd (reap_each ob dbr env clock dbnow (ev # evs) n rows)))"
      unfolding ev by (cases res) (auto simp: Let_def)
  qed
qed (auto simp: reaches_def)

lemma ReapAbandoned_refines:
  assumes "interference ob env"
  shows "reaches ob s (snd (snd (ReapAbandoned ob selr dbr env now clock dbnow w (os_tbl s))))"
proof (cases "w \<le> 0 \<or> selr \<noteq> DbOk \<or> scan_abandoned (filter (abandoned (now - w)) (os_tbl s)) = None")
  case False
  then obtain evs where evs: "scan_abandoned (filter (abandoned (now - w)) (os_tbl s)) = Some evs" by auto
  let ?s = "s\<lparr>os_reads := set evs \<union> os_reads s\<rparr>"
  have "(outbox_step ob)\<^sup>*\<^sup>* s ?s"
    by (rule scan_refines [OF evs]) (auto simp: abandoned_def)
  moreover have "reaches ob ?s (snd (snd (reap_each ob dbr env clock dbnow evs 0 (os_tbl s))))"
    by (rule reap_each_refines [OF assms]) auto
  ultimately have "reaches ob s (snd (snd (reap_each ob dbr env clock dbnow evs 0 (os_tbl s))))"
    unfolding reaches_def by (blast intro: rtranclp_trans)
  with False evs show ?thesis by (simp add: ReapAbandoned_def Let_def)
qed (auto simp: ReapAbandoned_def Let_def)

section \<open>Recovery and enqueueing\<close>

lemma Recover_refines:
  assumes "distinct (map ob_id (os_tbl s))"
  shows "reaches ob s (fst (snd (Recover ob txr dbnow users i op reason reset (os_tbl s, au))))"
proof -
  have "update_where (\<lambda>q. ob_id q = i \<and> ob_status q = EvFailed \<and> max_retries ob \<le> ob_retry_count q)
          (recovered_row (if reset then 0 else ob_retry_count r) dbnow) (os_tbl s)
        = update_where (recover_where ob i) (recover_set reset dbnow) (os_tbl s)"
    if "select_one (\<lambda>r. ob_id r = i) (os_tbl s) = Some r" for r
    using select_one_Some [OF that] distinct_key_eq [OF assms]
    by (force simp: update_where_def recover_where_def recover_set_def intro!: map_cong)
  with reaches_step [OF outbox_step.recover refl, of ob s i reset dbnow] show ?thesis
    by (auto simp: Recover_def Let_def split: option.splits)
qed

lemma Enqueue_refines:
  "Enqueue dbr i dbnow tp evt (Some (os_tbl s)) = Inr rows \<Longrightarrow> i \<notin> ob_id ` set (os_tbl s) \<Longrightarrow> reaches ob s rows"
  using reaches_step [OF outbox_step.enqueue refl, of i s ob dbnow tp evt]
  by (auto simp: Enqueue_def split: if_splits)

end
