(* ===== verification/Outbox_Progress.thy ===== *)
theory Outbox_Progress
  imports Outbox_Correct
begin

text \<open>
  Progress of the outbox when nothing fails underneath it: a tick completes every due event whose
  handler succeeds, an event whose handler keeps failing is attempted exactly as often as the retry
  limit allows and then dead-lettered, and what an operator's recovery does to a dead letter.
\<close>

section \<open>One tick completes what is due\<close>

lemma candidates_all:
  assumes "length (filter (eligible m t) rows) \<le> n"
  shows "set (candidates m t (\<lambda>_. False) n rows) = ob_id ` {r \<in> set rows. eligible m t r}"
  using assms by (auto simp: candidates_def)

text \<open>Marking rows of the table one after the other, each under the lease it carries.\<close>

lemma update_where_cong:
  "(\<And>r. r \<in> set rows \<Longrightarrow> P r \<longleftrightarrow> Q r) \<Longrightarrow> update_where P f rows = update_where Q f rows"
  by (simp add: update_where_def)

lemma update_where_ids:
  assumes "i \<notin> I" and "\<And>r. ob_id (f r) = ob_id r"
  shows "update_where (\<lambda>r. ob_id r \<in> I) f (update_where (\<lambda>r. ob_id r = i) f rows)
       = update_where (\<lambda>r. ob_id r \<in> insert i I) f rows"
  using assms by (auto simp: update_where_def)

lemma fold_marks:
  assumes "distinct (map ob_id evs)"
    and "\<And>e rs. e \<in> set evs \<Longrightarrow> F e rs = update_where (holds_lease (ob_id e) (L e)) f rs"
    and "\<And>e r. e \<in> set evs \<Longrightarrow> r \<in> set rows \<Longrightarrow> ob_id r = ob_id e \<Longrightarrow> holds_lease (ob_id e) (L e) r"
    and "\<And>r. ob_id (f r) = ob_id r"
  shows "fold F evs rows = update_where (\<lambda>r. ob_id r \<in> ob_id ` set evs) f rows"
  using assms(1-3)
proof (induction evs arbitrary: rows)
  case Nil
  then show ?case by (simp add: update_where_def)
next
  case (Cons e evs)
  let ?rows = "update_where (\<lambda>r. ob_id r = ob_id e) f rows"
  have "F e rows = ?rows"
    using Cons.prems(2,3) by (auto intro!: update_where_cong simp: holds_lease_def)
  moreover have "fold F evs ?rows = update_where (\<lambda>r. ob_id r \<in> ob_id ` set evs) f ?rows"
  proof (rule Cons.IH)
    fix x r assume x: "x \<in> set evs" and r: "r \<in> set ?rows" "ob_id r = ob_id x"
    with Cons.prems(1) have "ob_id r \<noteq> ob_id e" by force
    with r(1) assms(4) have "r \<in> set rows" by (auto elim: update_whereE)
    with Cons.prems(3) x r(2) show "holds_lease (ob_id x) (L x) r" by simp
  qed (use Cons.prems in auto)
  ultimately show ?case using Cons.prems(1) by (simp add: update_where_ids assms(4))
qed

lemma snd_processEvent_ok:
  assumes "Dispatch (pr_registry p) e = None" and "ob_lease_id e = Some l"
  shows "snd (processEvent p (quiet_env now t) e rs) = update_where (holds_lease (ob_id e) l) (done_row t) rs"
  using assms by (simp add: processEvent_def quiet_env_def MarkDone_def)



section \<open>A failing handler\<close>

text \<open>\<open>n\<close> poll ticks, the \<open>k\<close>-th at time \<open>tick k\<close> with the lease identifiers \<open>fresh k\<close>.\<close>

fun polls ::
  "processor \<Rightarrow> (nat \<Rightarrow> time) \<Rightarrow> (nat \<Rightarrow> uuid \<Rightarrow> uuid) \<Rightarrow> nat \<Rightarrow> outbox_table \<Rightarrow> outbox_table" where
  "polls p tick fresh 0 rows = rows"
| "polls p tick fresh (Suc n) rows =
     poll_tick p DbOk (\<lambda>_. quiet_env (tick n) (tick n)) (tick n) (\<lambda>_. False) (fresh n) 10
       (polls p tick fresh n rows)"

lemma ClaimEvents_single:
  "ClaimEvents ob DbOk t (\<lambda>_. False) fr 10 [r] =
     (if eligible (max_retries ob) t r then (Inr [claim_row fr t r], [claim_row fr t r]) else (Inr [], [r]))"
  by (simp add: ClaimEvents_def candidates_def update_where_def Let_def)

lemma poll_tick_not_due:
  "\<not> eligible (max_retries (pr_outbox p)) t r \<Longrightarrow>
   poll_tick p DbOk pe t (\<lambda>_. False) fr 10 [r] = [r]"
  by (simp add: poll_tick_def ClaimEvents_single)

lemma poll_tick_failing:
  assumes "eligible (max_retries (pr_outbox p)) t r"
    and "pr_registry p (ob_event_type r) = Some h" and "\<And>e. h e = Some m"
  shows "poll_tick p DbOk (\<lambda>_. quiet_env t t) t (\<lambda>_. False) fr 10 [r]
       = [failed_row (nextAttemptAt (pr_outbox p) t (ob_retry_count r + 1)) t (truncateError (Some m))
            (claim_row fr t r)]"
proof -
  let ?e = "claim_row fr t r"
  have d: "Dispatch (pr_registry p) ?e = Some (HandlerError m)"
    using assms(2,3) by (simp add: Dispatch_def claim_row_def)
  have h: "holds_lease (ob_id r) (fr (ob_id r)) ?e" by (simp add: holds_lease_def claim_row_def)
  have "snd (processEvent p (quiet_env t t) ?e [?e])
      = [failed_row (nextAttemptAt (pr_outbox p) t (ob_retry_count r + 1)) t (truncateError (Some m)) ?e]"
    using h by (simp add: processEvent_def d quiet_env_def MarkFailed_def select_one_def Let_def
        count_where_def update_where_def error_text_def split_beta)
      (simp add: claim_row_def)
  then show ?thesis using assms(1) by (simp add: poll_tick_def ClaimEvents_single)
qed

definition failing_after :: "outbox \<Rightarrow> (nat \<Rightarrow> time) \<Rightarrow> string \<Rightarrow> nat \<Rightarrow> outbox_event \<Rightarrow> bool" where
  "failing_after ob tick ty n r \<longleftrightarrow>
     ob_event_type r = ty \<and> ob_retry_count r = min (int n) (max_retries ob) \<and>
     (if n = 0 then ob_status r = EvPending else ob_status r = EvFailed) \<and>
     (if max_retries ob \<le> int n then ob_next_attempt_at r = None
      else \<exists>t. ob_next_attempt_at r = Some t \<and> t \<le> tick n)"

lemma failing_after_step:
  assumes "Validate (ox_retryPolicy (pr_outbox p)) = None" and "ox_jitter (pr_outbox p) = NoJitter_Apply"
    and "\<And>n. tick n + MaxBackoff \<le> tick (Suc n)"
    and "pr_registry p ty = Some h" and "\<And>e. h e = Some m"
    and "failing_after (pr_outbox p) tick ty n r"
  shows "\<exists>r'. poll_tick p DbOk (\<lambda>_. quiet_env (tick n) (tick n)) (tick n) (\<lambda>_. False) fr 10 [r] = [r'] \<and>
              failing_after (pr_outbox p) tick ty (Suc n) r'"
proof (cases "max_retries (pr_outbox p) \<le> int n")
  case True
  then have "\<not> eligible (max_retries (pr_outbox p)) (tick n) r"
    using assms(6) by (auto simp: failing_after_def eligible_def)
  then have "poll_tick p DbOk (\<lambda>_. quiet_env (tick n) (tick n)) (tick n) (\<lambda>_. False) fr 10 [r] = [r]"
    by (rule poll_tick_not_due)
  moreover have "n \<noteq> 0" using True assms(1) by (auto simp: Validate_None)
  ultimately show ?thesis using True assms(6) by (auto simp: failing_after_def)
next
  case False
  let ?ob = "pr_outbox p"
  have el: "eligible (max_retries ?ob) (tick n) r"
    using False assms(6) by (auto simp: failing_after_def eligible_def split: if_splits)
  have "0 < rp_max (ox_retryPolicy ?ob)" "rp_max (ox_retryPolicy ?ob) \<le> MaxBackoff"
    using assms(1) by (auto simp: Validate_None)
  then have "Backoff (ox_conv ?ob) (ox_retryPolicy ?ob) k \<le> MaxBackoff" for k
    using Backoff_bounds_aux(2) [of "ox_retryPolicy ?ob" "ox_conv ?ob" k] by simp
  then have nxt: "\<exists>t. nextAttemptAt ?ob (tick n) k = Some t \<and> t \<le> tick (Suc n)" if "k < max_retries ?ob" for k
    using that assms(2) assms(3) [of n]
    by (auto simp: nextAttemptAt_def Let_def NoJitter_Apply_def) (smt (verit))
  have "pr_registry p (ob_event_type r) = Some h" using assms(4,6) by (simp add: failing_after_def)
  from poll_tick_failing [OF el this assms(5)] show ?thesis
    using assms(6) False nxt [of "int n + 1"]
    by (auto simp: failing_after_def failed_row_def claim_row_def)
qed


definition ex_failing :: processor where
  "ex_failing = ex_proc\<lparr>pr_registry := [''t'' \<mapsto> (\<lambda>e. Some ''boom'')]\<rparr>"


section \<open>Operator recovery\<close>

lemma Recover_ok:
  assumes "Recover ob DbOk dbnow users i op reason reset (rows, au) = (Inr (), rows', au')"
  obtains r email where "select_one (\<lambda>r. ob_id r = i) rows = Some r" "stuck_row ob r"
    "users op = Some email" "op \<noteq> 0" "TrimSpace reason \<noteq> []"
    "rows' = update_where (recover_where ob i)
               (recovered_row (if reset then 0 else ob_retry_count r) dbnow) rows"
    "au' = au @ [\<lparr>au_tenant = ob_workspace_id r, au_actor = op, au_actor_email = email,
                  au_action = ''outbox.recover'', au_target = i, au_reason = TrimSpace reason,
                  au_reset = reset, au_previous_retry_count = ob_retry_count r,
                  au_new_retry_count = (if reset then 0 else ob_retry_count r)\<rparr>]"
  using assms
  by (auto simp: Recover_def Let_def stuck_row_def recover_where_def [abs_def]
      split: if_splits option.splits)

text \<open>
  A recovery that resets the retry budget succeeds only for a dead letter, with a reason that
  is not blank and a known operator; it makes exactly that event claimable from the time of the
  recovery on, with a fresh budget, and appends exactly one audit entry with the old and the new
  count.
\<close>

theorem Recover_with_reset:
  assumes "Recover ob DbOk dbnow users i op reason True (rows, au) = (Inr (), rows', au')"
    and "1 \<le> max_retries ob" and "dbnow \<le> t"
  shows "(\<exists>r\<in>set rows'. ob_id r = i \<and> eligible (max_retries ob) t r \<and> ob_retry_count r = 0) \<and>
         (\<exists>old e. au' = au @ [e] \<and> au_target e = i \<and> au_actor e = op \<and> au_reason e \<noteq> [] \<and>
           au_previous_retry_count e = old \<and> max_retries ob \<le> old \<and> au_new_retry_count e = 0)"
proof -
  from assms(1) obtain r email where r: "select_one (\<lambda>r. ob_id r = i) rows = Some r" "stuck_row ob r"
    and reason: "TrimSpace reason \<noteq> []"
    and rows': "rows' = update_where (recover_where ob i) (recovered_row 0 dbnow) rows"
    and au': "au' = au @ [\<lparr>au_tenant = ob_workspace_id r, au_actor = op, au_actor_email = email,
                  au_action = ''outbox.recover'', au_target = i, au_reason = TrimSpace reason,
                  au_reset = True, au_previous_retry_count = ob_retry_count r, au_new_retry_count = 0\<rparr>]"
    by (rule Recover_ok) auto
  have "r \<in> set rows" "ob_id r = i" using select_one_Some [OF r(1)] by auto
  with r(2) have "recovered_row 0 dbnow r \<in> set rows'"
    by (auto simp: rows' update_where_def recover_where_def stuck_row_def)
  moreover have "eligible (max_retries ob) t (recovered_row 0 dbnow r)"
    using assms(2,3) by (simp add: eligible_def recovered_row_def)
  moreover have "ob_id (recovered_row 0 dbnow r) = i" "ob_retry_count (recovered_row 0 dbnow r) = 0"
    using \<open>ob_id r = i\<close> by (simp_all add: recovered_row_def)
  ultimately have "\<exists>r\<in>set rows'. ob_id r = i \<and> eligible (max_retries ob) t r \<and> ob_retry_count r = 0"
    by blast
  then show ?thesis using au' reason r(2) by (auto simp: stuck_row_def)
qed

definition ex_dead :: outbox_event where
  "ex_dead = ex_row\<lparr>ob_status := EvFailed, ob_retry_count := 100, ob_next_attempt_at := None\<rparr>"

lemma ex_Recover:
  "Recover ex_ob DbOk 500 [9 \<mapsto> ''op@x''] 1 9 '' retry '' reset ([ex_dead], []) =
     (Inr (), [recovered_row (if reset then 0 else 100) 500 ex_dead],
      [\<lparr>au_tenant = 1, au_actor = 9, au_actor_email = ''op@x'', au_action = ''outbox.recover'',
        au_target = 1, au_reason = ''retry'', au_reset = reset, au_previous_retry_count = 100,
        au_new_retry_count = (if reset then 0 else 100)\<rparr>])"
proof -
  have "TrimSpace '' retry '' = ''retry''" by code_simp
  moreover have "ob_id ex_dead = 1" "ob_status ex_dead = EvFailed" "ob_retry_count ex_dead = 100"
    "ob_workspace_id ex_dead = 1"
    by (simp_all add: ex_dead_def ex_row_def new_row_def ex_evt_def)
  ultimately show ?thesis
    by (simp add: Recover_def select_one_def count_where_def update_where_def)
qed

theorem Recover_with_reset_witness:
  "\<exists>rows' au'. Recover ex_ob DbOk 500 [9 \<mapsto> ''op@x''] 1 9 '' retry '' True ([ex_dead], []) = (Inr (), rows', au') \<and>
     (\<exists>r\<in>set rows'. ob_id r = 1 \<and> eligible 100 600 r \<and> ob_retry_count r = 0)"
  using Recover_with_reset [OF ex_Recover [of True], of 600] ex_Recover [of True] by simp

text \<open>
  C6. A recovery that keeps the retry count also succeeds, and sets the next attempt to the time
  of the recovery, but the event stays out of reach of the poller: no claim, at any time, of any
  size and whatever rows other transactions hold, returns it or changes its row.
\<close>

theorem Recover_without_reset_never_claimed:
  assumes "Recover ob DbOk dbnow users i op reason False (rows, au) = (Inr (), rows', au')"
    and "distinct (map ob_id rows)"
    and "ClaimEvents ob dbr t locked fresh limit rows' = (res, rows'')"
  shows "\<exists>r. r \<in> set rows' \<and> r \<in> set rows'' \<and> ob_id r = i \<and> ob_status r = EvFailed \<and>
             ob_next_attempt_at r = Some dbnow \<and> \<not> isl res = (limit \<le> 0 \<or> dbr = DbOk) \<and>
             (\<forall>evs. res = Inr evs \<longrightarrow> i \<notin> ob_id ` set evs)"
proof -
  from assms(1) obtain r where r: "select_one (\<lambda>r. ob_id r = i) rows = Some r" "stuck_row ob r"
    and rows': "rows' = update_where (recover_where ob i) (recovered_row (ob_retry_count r) dbnow) rows"
    by (rule Recover_ok) auto
  define q where "q = recovered_row (ob_retry_count r) dbnow r"
  have rid: "r \<in> set rows" "ob_id r = i" using select_one_Some [OF r(1)] by auto
  have "q \<in> set rows'"
    using r(2) rid by (auto simp: rows' q_def update_where_def recover_where_def stuck_row_def)
  moreover have "ob_id q = i" "stuck_row ob q" "ob_next_attempt_at q = Some dbnow"
    using r(2) rid by (auto simp: q_def stuck_row_def recovered_row_def)
  ultimately have q: "q \<in> set rows'" "ob_id q = i" "stuck_row ob q" "ob_next_attempt_at q = Some dbnow"
    by auto
  have d: "distinct (map ob_id rows')"
    using assms(2) by (simp add: rows' map_update_where recovered_row_def)
  have no: "i \<notin> set (candidates (max_retries ob) t locked n rows')" for n
    using candidates_eligible [OF d q(1)] stuck_row_not_eligible [OF q(3)] q(2) by blast
  then have "q \<in> set (update_where (\<lambda>r. ob_id r \<in> set (candidates (max_retries ob) t locked n rows'))
                        (claim_row fresh t) rows')" for n
    using q(1,2) by (force simp: update_where_def)
  then show ?thesis
    using assms(3) q no
    by (intro exI [of _ q]) (auto simp: ClaimEvents_def Let_def stuck_row_def split: if_splits db_outcome.splits
        elim!: update_whereE)
qed

theorem Recover_without_reset_never_claimed_witness:
  "\<exists>rows'. fst (snd (Recover ex_ob DbOk 500 [9 \<mapsto> ''op@x''] 1 9 '' retry '' False ([ex_dead], []))) = rows' \<and>
     (\<exists>r\<in>set rows'. ob_next_attempt_at r = Some 500) \<and>
     (\<forall>evs. fst (ClaimEvents ex_ob DbOk 600 (\<lambda>_. False) (\<lambda>i. i) 10 rows') = Inr evs \<longrightarrow> 1 \<notin> ob_id ` set evs)"
  using Recover_without_reset_never_claimed [OF ex_Recover [of False] _ surjective_pairing,
      of DbOk 600 "\<lambda>_. False" "\<lambda>i. i" 10]
  by (simp add: ex_Recover del: One_nat_def)

section \<open>Backoff\<close>

text \<open>
  C7. For every policy that passed validation the delay computed with the clamped exponent, the
  float multiplication and the conversion back is exactly the smaller of the maximum and
  base times two to the retry count, over the whole range of counts and not only where the
  product fits 64 bits; this holds on every platform whose out-of-range conversion saturates or
  yields the most negative integer. The delay is positive and at most the maximum.
\<close>

theorem Backoff_exact:
  assumes "Validate p = None" and "saturating_or_min conv"
  shows "Backoff conv p n = min (rp_max p) (rp_base p * 2 ^ nat n) \<and>
         0 < Backoff conv p n \<and> Backoff conv p n \<le> rp_max p \<and>
         (m \<le> n \<longrightarrow> Backoff conv p m \<le> Backoff conv p n)"
proof -
  have "0 < rp_max p" "0 < rp_base p" using assms(1) by (auto simp: Validate_None)
  then have "m \<le> n \<Longrightarrow> rp_base p * 2 ^ nat m \<le> rp_base p * (2::int) ^ nat n"
    by (intro mult_left_mono power_increasing) auto
  then have "m \<le> n \<longrightarrow> Backoff conv p m \<le> Backoff conv p n"
    using Backoff_exact_aux [OF assms] by (auto simp: min_le_iff_disj)
  then show ?thesis
    using \<open>0 < rp_max p\<close> Backoff_exact_aux [OF assms, of n] Backoff_bounds_aux [of p conv n] by blast
qed

theorem Backoff_exact_witness:
  "Backoff amd64_conv DefaultRetryPolicy 3 = 8 * second \<and>
   Backoff amd64_conv DefaultRetryPolicy 3 \<le> Backoff amd64_conv DefaultRetryPolicy 200"
proof -
  have "Validate DefaultRetryPolicy = None" using ex_ob_valid by (simp add: ex_ob_def NewOutbox_def)
  from Backoff_exact [OF this ex_conv, of 3 3] Backoff_exact [OF this ex_conv, of 200 3]
  show ?thesis by (simp add: DefaultRetryPolicy_def duration_defs MaxBackoff_def)
qed

end
