(* ===== verification/Zec_Net.thy ===== *)
theory Zec_Net
  imports Zec_Prelude "HOL-Library.List_Lexorder" "HOL-Library.Product_Lexorder" "HOL-Library.Char_ord"
begin

text \<open>
  Host and port strings as \<open>net.SplitHostPort\<close> and \<open>net.JoinHostPort\<close> of the Go library treat them,
  and the SPIFFE identity strings of \<open>internal/appmeta\<close>. Strings are ordered bytewise, as Go
  compares them and \<open>sort.Strings\<close> sorts them.
\<close>

section \<open>Host and port\<close>

text \<open>\<open>IndexByte\<close> and \<open>LastIndexByte\<close>, with \<open>None\<close> for -1.\<close>

fun IndexByte :: "char \<Rightarrow> string \<Rightarrow> nat option" where
  "IndexByte c [] = None"
| "IndexByte c (x # xs) = (if x = c then Some 0 else map_option Suc (IndexByte c xs))"

fun LastIndexByte :: "char \<Rightarrow> string \<Rightarrow> nat option" where
  "LastIndexByte c [] = None"
| "LastIndexByte c (x # xs) =
     (case LastIndexByte c xs of Some i \<Rightarrow> Some (Suc i) | None \<Rightarrow> if x = c then Some 0 else None)"

definition SplitHostPort :: "string \<Rightarrow> (string \<times> string) option" where
  "SplitHostPort s =
     (case LastIndexByte (CHR '':'') s of
        None \<Rightarrow> None
      | Some i \<Rightarrow>
          let tail = (\<lambda>host j k.
                if CHR ''['' \<in> set (drop j s) \<or> CHR '']'' \<in> set (drop k s) then None
                else Some (host, drop (Suc i) s))
          in if hd s = CHR ''['' then
               (case IndexByte (CHR '']'') s of
                  None \<Rightarrow> None
                | Some e \<Rightarrow> if Suc e \<noteq> i then None else tail (drop 1 (take e s)) 1 (Suc e))
             else if CHR '':'' \<in> set (take i s) then None
             else tail (take i s) 0 0)"

definition JoinHostPort :: "string \<Rightarrow> string \<Rightarrow> string" where
  "JoinHostPort host port =
     (if CHR '':'' \<in> set host then ''['' @ host @ '']:'' @ port else host @ '':'' @ port)"

lemma IndexByte_None [simp]: "IndexByte c s = None \<longleftrightarrow> c \<notin> set s"
  by (induction s) auto

lemma IndexByte_append [simp]: "c \<notin> set xs \<Longrightarrow> IndexByte c (xs @ c # ys) = Some (length xs)"
  by (induction xs) auto

lemma LastIndexByte_None: "LastIndexByte c s = None \<longleftrightarrow> c \<notin> set s"
  by (induction s) (auto split: option.splits)

lemma LastIndexByte_append [simp]: "c \<notin> set ys \<Longrightarrow> LastIndexByte c (xs @ c # ys) = Some (length xs)"
proof (induction xs)
  case Nil
  then have "LastIndexByte c ys = None" by (simp add: LastIndexByte_None)
  then show ?case by simp
qed simp

text \<open>A host without brackets and a numeric port survive joining and splitting.\<close>

lemma SplitHostPort_JoinHostPort:
  assumes "CHR ''['' \<notin> set h" "CHR '']'' \<notin> set h"
    and "CHR ''['' \<notin> set p" "CHR '']'' \<notin> set p" "CHR '':'' \<notin> set p"
  shows "SplitHostPort (JoinHostPort h p) = Some (h, p)"
proof (cases "CHR '':'' \<in> set h")
  case True
  let ?s = "CHR ''['' # h @ CHR '']'' # CHR '':'' # p"
  have "LastIndexByte (CHR '':'') ((CHR ''['' # h @ [CHR '']'']) @ CHR '':'' # p) = Some (length h + 2)"
    using assms(5) by (subst LastIndexByte_append) auto
  then have l: "LastIndexByte (CHR '':'') ?s = Some (length h + 2)" by simp
  have "IndexByte (CHR '']'') ((CHR ''['' # h) @ CHR '']'' # CHR '':'' # p) = Some (length h + 1)"
    using assms(2) by (subst IndexByte_append) auto
  then have i: "IndexByte (CHR '']'') ?s = Some (length h + 1)" by simp
  have "SplitHostPort ?s = Some (h, p)" unfolding SplitHostPort_def l i using assms by (simp add: Let_def)
  then show ?thesis using True by (simp add: JoinHostPort_def)
next
  case False
  have l: "LastIndexByte (CHR '':'') (h @ CHR '':'' # p) = Some (length h)" using assms(5) by simp
  have "hd (h @ CHR '':'' # p) \<noteq> CHR ''[''" using assms(1) by (cases h) auto
  then have "SplitHostPort (h @ CHR '':'' # p) = Some (h, p)"
    unfolding SplitHostPort_def l using assms False by (simp add: Let_def)
  then show ?thesis using False by (simp add: JoinHostPort_def)
qed

section \<open>SPIFFE identities\<close>

definition SPIFFEGlobalTrustDomain :: string where "SPIFFEGlobalTrustDomain = ''zecurity.in''"

definition SPIFFEControllerID :: string where
  "SPIFFEControllerID = ''spiffe://'' @ SPIFFEGlobalTrustDomain @ ''/controller/global''"

definition WorkspaceTrustDomain :: "string \<Rightarrow> string" where
  "WorkspaceTrustDomain slug = ''ws-'' @ slug @ ''.'' @ SPIFFEGlobalTrustDomain"

definition SPIFFERoleConnector :: string where "SPIFFERoleConnector = ''connector''"
definition SPIFFERoleClient :: string where "SPIFFERoleClient = ''client''"
definition SPIFFERoleRelay :: string where "SPIFFERoleRelay = ''relay''"
definition SPIFFERoleShield :: string where "SPIFFERoleShield = ''shield''"

definition ConnectorSPIFFEID :: "string \<Rightarrow> string \<Rightarrow> string" where
  "ConnectorSPIFFEID trustDomain connectorID =
     ''spiffe://'' @ trustDomain @ ''/'' @ SPIFFERoleConnector @ ''/'' @ connectorID"

definition ShieldSPIFFEID :: "string \<Rightarrow> string \<Rightarrow> string" where
  "ShieldSPIFFEID trustDomain shieldID =
     ''spiffe://'' @ trustDomain @ ''/'' @ SPIFFERoleShield @ ''/'' @ shieldID"

definition ClientSPIFFEID :: "string \<Rightarrow> string \<Rightarrow> string" where
  "ClientSPIFFEID trustDomain deviceID =
     ''spiffe://'' @ trustDomain @ ''/'' @ SPIFFERoleClient @ ''/'' @ deviceID"

definition RelaySPIFFEID :: "string \<Rightarrow> string" where
  "RelaySPIFFEID relayID =
     ''spiffe://'' @ SPIFFEGlobalTrustDomain @ ''/'' @ SPIFFERoleRelay @ ''/'' @ relayID"

end
