(* ===== verification/Zec_Db.thy ===== *)
theory Zec_Db
  imports Zec_Net
begin

text \<open>
  The tables of the controller's database that the policy and the posture components read and
  write, as lists of rows, with the columns their queries mention. Columns kept only for display
  (mostly creation and update times and descriptions) are left out. An identifier column is a \<open>uuid\<close>, which also
  stands for the canonical text form the queries convert it to: the text form is injective and its
  bytewise order is the order of the values. An empty string that a query puts in place of \<open>NULL\<close>
  is \<open>None\<close>.
\<close>

section \<open>Access rules and what they join\<close>

record access_rule =
  ar_id :: uuid
  ar_workspace_id :: uuid
  ar_resource_id :: uuid
  ar_group_id :: uuid
  ar_enabled :: bool

record resource_row =
  rs_id :: uuid
  rs_tenant_id :: uuid
  rs_name :: string
  rs_host :: string
  rs_port_from :: nat
  rs_protocol :: string
  rs_status :: string
  rs_shield_id :: "uuid option"
  rs_remote_network_id :: uuid
  rs_policy_id :: uuid

record group_row =
  gr_id :: uuid
  gr_workspace_id :: uuid
  gr_name :: string
  gr_description :: "string option"
  gr_created_at :: time
  gr_origin :: string
  gr_external_id :: "string option"
  gr_connection_id :: "uuid option"

record group_member =
  gm_group_id :: uuid
  gm_user_id :: uuid

record user_row =
  us_id :: uuid
  us_tenant_id :: uuid
  us_role :: string
  us_status :: string

record workspace_member =
  wm_workspace_id :: uuid
  wm_user_id :: uuid
  wm_role :: string
  wm_status :: string

record client_device =
  cd_id :: uuid
  cd_workspace_id :: uuid
  cd_user_id :: uuid
  cd_spiffe_id :: "string option"
  cd_revoked_at :: "time option"
  cd_approved_at :: "time option"

record remote_network =
  rn_id :: uuid
  rn_tenant_id :: uuid
  rn_name :: string
  rn_status :: string

record shield_row =
  sh_id :: uuid
  sh_tenant_id :: uuid
  sh_status :: string
  sh_connector_id :: "uuid option"

record connector_row =
  co_id :: uuid
  co_tenant_id :: uuid
  co_remote_network_id :: uuid
  co_status :: string
  co_lan_addr :: "string option"
  co_trust_domain :: "string option"
  co_last_heartbeat_at :: "time option"
  co_revoked_at :: "time option"

record relay_placement =
  crp_connector_id :: uuid
  crp_relay_id :: uuid

record relay_row =
  rl_id :: uuid
  rl_status :: string
  rl_public_addr :: "string option"
  rl_observed_ip :: "string option"
  rl_address_scope :: "string option"
  rl_last_heartbeat_at :: "time option"
  rl_drain_started_at :: "time option"

record connector_certificate =
  cc_connector_id :: uuid
  cc_tenant_id :: uuid
  cc_not_after :: time

record workspace_row =
  ws_id :: uuid
  ws_trust_domain :: "string option"

section \<open>Posture\<close>

record country_rule =
  cr_Allow :: "string list"
  cr_Deny :: "string list"

record profile =
  pf_ID :: uuid
  pf_WorkspaceID :: uuid
  pf_Name :: string
  pf_Revision :: int
  pf_ManualTrustEnabled :: bool

record requirement =
  rq_ProfileID :: uuid
  rq_CheckID :: string
  rq_AllowUnsupported :: bool
  rq_Countries :: "country_rule option"

record observation =
  os_ReportID :: uuid
  os_CheckID :: string
  os_Status :: string
  os_Detail :: "string option"

record posture_report =
  rp_ID :: uuid
  rp_ReportID :: string
  rp_DeviceID :: uuid
  rp_WorkspaceID :: uuid
  rp_ReportedAt :: time
  rp_ReceivedAt :: time

record evaluation_row =
  er_device_id :: uuid
  er_profile_id :: uuid
  er_workspace_id :: uuid
  er_satisfied :: bool
  er_profile_revision :: int
  er_reason :: "string option"
  er_report_id :: "uuid option"

record network_observation =
  no_DeviceID :: uuid
  no_WorkspaceID :: uuid
  no_Country :: string
  no_ObservedAt :: time
  no_CountrySince :: time

record resource_policy =
  rpo_ID :: uuid
  rpo_WorkspaceID :: uuid
  rpo_Name :: string
  rpo_Description :: "string option"
  rpo_IsDefault :: bool

record policy_profile =
  rpp_policy_id :: uuid
  rpp_profile_id :: uuid
  rpp_workspace_id :: uuid

section \<open>The database\<close>

record zdb =
  db_access_rules :: "access_rule list"
  db_resources :: "resource_row list"
  db_groups :: "group_row list"
  db_group_members :: "group_member list"
  db_users :: "user_row list"
  db_workspace_members :: "workspace_member list"
  db_client_devices :: "client_device list"
  db_remote_networks :: "remote_network list"
  db_shields :: "shield_row list"
  db_shield_revocations :: "uuid list"
  db_connectors :: "connector_row list"
  db_placements :: "relay_placement list"
  db_relays :: "relay_row list"
  db_connector_certificates :: "connector_certificate list"
  db_workspaces :: "workspace_row list"
  db_profiles :: "profile list"
  db_requirements :: "requirement list"
  db_reports :: "posture_report list"
  db_observations :: "observation list"
  db_evaluations :: "evaluation_row list"
  db_network_observations :: "network_observation list"
  db_policies :: "resource_policy list"
  db_policy_profiles :: "policy_profile list"

end
