(* ===== verification/Posture.thy ===== *)
theory Posture
  imports Zec_Db
begin

text \<open>
  Device posture (\<open>internal/posture\<close>): validation of the reports devices send
  (\<open>validate.go\<close>), the country rule (\<open>country.go\<close>), the evaluation of a device against the profiles of
  its workspace (\<open>evaluate.go\<close>), and the queries of \<open>store.go\<close> these use.
\<close>

section \<open>Constants\<close>

definition MaxChecks :: nat where "MaxChecks = 32"
definition MaxDetailBytes :: nat where "MaxDetailBytes = 256"
definition MaxMetadataBytes :: nat where "MaxMetadataBytes = 64"
definition MaxReportAge :: duration where "MaxReportAge = 10 * minute"
definition MaxFutureClockSkew :: duration where "MaxFutureClockSkew = 5 * minute"

definition CheckOSVersion :: string where "CheckOSVersion = ''linux.os.version''"
definition CheckLUKS :: string where "CheckLUKS = ''linux.disk_encryption.luks''"
definition CheckFirewall :: string where "CheckFirewall = ''linux.firewall.active''"
definition CheckSecureBoot :: string where "CheckSecureBoot = ''linux.secure_boot.enabled''"
definition CheckDeviceApproved :: string where "CheckDeviceApproved = ''zecurity.device.approved''"
definition CheckNetworkCountry :: string where "CheckNetworkCountry = ''zecurity.network.country''"

definition ObservationStatusPass :: string where "ObservationStatusPass = ''PASS''"
definition ObservationStatusFail :: string where "ObservationStatusFail = ''FAIL''"
definition ObservationStatusUnsupported :: string where "ObservationStatusUnsupported = ''UNSUPPORTED''"
definition ObservationStatusUnknown :: string where "ObservationStatusUnknown = ''UNKNOWN''"
definition ObservationStatusError :: string where "ObservationStatusError = ''ERROR''"

definition recognizedStatuses :: "string list" where
  "recognizedStatuses = [ObservationStatusPass, ObservationStatusFail, ObservationStatusUnsupported,
     ObservationStatusUnknown, ObservationStatusError]"

definition recognizedChecks :: "string list" where
  "recognizedChecks = [CheckOSVersion, CheckLUKS, CheckFirewall, CheckSecureBoot]"

definition serverCheckDescriptors :: "string list" where
  "serverCheckDescriptors = [CheckDeviceApproved, CheckNetworkCountry]"

definition IsServerCheck :: "string \<Rightarrow> bool" where
  "IsServerCheck c \<longleftrightarrow> c \<in> set serverCheckDescriptors"

definition IsRecognizedCheck :: "string \<Rightarrow> bool" where
  "IsRecognizedCheck c \<longleftrightarrow> c \<in> set recognizedChecks \<or> IsServerCheck c"

datatype posture_error =
  ErrNotFound | ErrDuplicateReport | ErrDuplicateRequirement | ErrWorkspaceMismatch | ErrLastRequirement
  | ErrInvalidProfileName | ErrNoVerificationMethod | ErrInvalidReport | ErrNoRecognizedChecks
  | ErrDuplicateCheck | ErrInvalidReportID | ErrInvalidReportedTime | ErrInvalidCountryRule
  | ErrPostureDB | ErrNotify
  | ErrPolicyNotFound | ErrPolicyResourceGone | ErrDefaultPolicyFixed | ErrPolicyNameTaken | ErrInvalidPolicyName
  | ErrPolicyProfileMissing | ErrEmptyProfileInPolicy | ErrProfileInUse "(uuid \<times> string) list"

section \<open>Valid UTF-8\<close>

text \<open>
  \<open>utf8.ValidString\<close>: no overlong forms, no surrogates, nothing above U+10FFFF. The bytes are given
  by their values.
\<close>

fun valid_utf8 :: "nat list \<Rightarrow> bool" where
  "valid_utf8 [] = True"
| "valid_utf8 (a # xs) =
     (if a < 128 then valid_utf8 xs
      else let cont = (\<lambda>b. 128 \<le> b \<and> b < 192) in
        if 194 \<le> a \<and> a < 224 then
          (case xs of b # ys \<Rightarrow> cont b \<and> valid_utf8 ys | _ \<Rightarrow> False)
        else if 224 \<le> a \<and> a < 240 then
          (case xs of b # c # ys \<Rightarrow>
             cont b \<and> cont c \<and> (a = 224 \<longrightarrow> 160 \<le> b) \<and> (a = 237 \<longrightarrow> b < 160) \<and> valid_utf8 ys
           | _ \<Rightarrow> False)
        else if 240 \<le> a \<and> a < 245 then
          (case xs of b # c # d # ys \<Rightarrow>
             cont b \<and> cont c \<and> cont d \<and> (a = 240 \<longrightarrow> 144 \<le> b) \<and> (a = 244 \<longrightarrow> b < 144) \<and> valid_utf8 ys
           | _ \<Rightarrow> False)
        else False)"

definition ValidString :: "string \<Rightarrow> bool" where
  "ValidString s = valid_utf8 (map of_char s)"

section \<open>Reports\<close>

record check_input =
  ci_CheckID :: string
  ci_Status :: string
  ci_Detail :: string

record report_input =
  ri_ReportID :: string
  ri_ReportedAt :: time
  ri_ClientVersion :: string
  ri_OSName :: string
  ri_OSVersion :: string
  ri_Checks :: "check_input list"

record report =
  rep_ReportID :: string
  rep_ClientVersion :: string
  rep_OSInfo :: "string \<times> string"
  rep_ReportedAt :: time
  rep_Observations :: "observation list"

text \<open>The loop over the checks: \<open>seen\<close> holds the trimmed identifiers so far, \<open>acc\<close> the observations.\<close>

fun validate_checks ::
  "string list \<Rightarrow> observation list \<Rightarrow> check_input list \<Rightarrow> posture_error + observation list" where
  "validate_checks seen acc [] = Inr acc"
| "validate_checks seen acc (c # cs) =
     (let checkID = TrimSpace (ci_CheckID c) in
      if checkID = [] then Inl ErrInvalidReport
      else if checkID \<in> set seen then Inl ErrDuplicateCheck
      else let seen' = seen @ [checkID] in
        if checkID \<notin> set recognizedChecks then validate_checks seen' acc cs
        else if ci_Status c \<notin> set recognizedStatuses then validate_checks seen' acc cs
        else if \<not> ValidString (ci_Detail c) then validate_checks seen' acc cs
        else if length (ci_Detail c) > MaxDetailBytes then validate_checks seen' acc cs
        else validate_checks seen'
          (acc @ [\<lparr>os_ReportID = 0, os_CheckID = checkID, os_Status = ci_Status c,
                   os_Detail = (if ci_Detail c = [] then None else Some (ci_Detail c))\<rparr>]) cs)"

text \<open>
  \<open>uuid.Parse\<close> and \<open>UUID.String\<close> are parameters. The three metadata fields are checked in the
  unspecified order of a map; the error is the same.
\<close>

definition ValidateReport ::
  "(string \<Rightarrow> uuid option) \<Rightarrow> (uuid \<Rightarrow> string) \<Rightarrow> time \<Rightarrow> report_input \<Rightarrow> posture_error + report" where
  "ValidateReport parse str now input =
     (if (case parse (ri_ReportID input) of None \<Rightarrow> True | Some u \<Rightarrow> str u \<noteq> ri_ReportID input)
      then Inl ErrInvalidReportID
      else if ri_ReportedAt input < now - MaxReportAge \<or> ri_ReportedAt input > now + MaxFutureClockSkew
      then Inl ErrInvalidReportedTime
      else if ri_Checks input = [] then Inl ErrNoRecognizedChecks
      else if length (ri_Checks input) > MaxChecks then Inl ErrInvalidReport
      else if (\<exists>v\<in>set [ri_ClientVersion input, ri_OSName input, ri_OSVersion input].
                 \<not> ValidString v \<or> length v > MaxMetadataBytes)
      then Inl ErrInvalidReport
      else case validate_checks [] [] (ri_Checks input) of
             Inl e \<Rightarrow> Inl e
           | Inr obs \<Rightarrow>
               if obs = [] then Inl ErrNoRecognizedChecks
               else Inr \<lparr>rep_ReportID = ri_ReportID input, rep_ClientVersion = ri_ClientVersion input,
                         rep_OSInfo = (ri_OSName input, ri_OSVersion input),
                         rep_ReportedAt = ri_ReportedAt input, rep_Observations = obs\<rparr>)"

section \<open>Country rules\<close>

definition MaxCountryRuleEntries :: nat where "MaxCountryRuleEntries = 250"

definition ValidCountryCode :: "string \<Rightarrow> bool" where
  "ValidCountryCode s \<longleftrightarrow>
     length s = 2 \<and> CHR ''A'' \<le> s ! 0 \<and> s ! 0 \<le> CHR ''Z'' \<and> CHR ''A'' \<le> s ! 1 \<and> s ! 1 \<le> CHR ''Z''"

fun norm_codes :: "string list \<Rightarrow> string list \<Rightarrow> posture_error + string list" where
  "norm_codes out [] = Inr out"
| "norm_codes out (c # cs) =
     (let c' = ToUpper (TrimSpace c) in
      if \<not> ValidCountryCode c' then Inl ErrInvalidCountryRule
      else norm_codes (if c' \<in> set out then out else out @ [c']) cs)"

definition norm_list :: "string list \<Rightarrow> posture_error + string list" where
  "norm_list xs =
     (if length xs > MaxCountryRuleEntries then Inl ErrInvalidCountryRule
      else map_sum id sort (norm_codes [] xs))"

definition NormalizeCountryRule :: "country_rule \<Rightarrow> posture_error + country_rule" where
  "NormalizeCountryRule rule =
     sum_bind (norm_list (cr_Allow rule)) (\<lambda>allow.
     sum_bind (norm_list (cr_Deny rule)) (\<lambda>deny.
       if allow = [] \<and> deny = [] then Inl ErrInvalidCountryRule
       else if (\<exists>c\<in>set allow. c \<in> set deny) then Inl ErrInvalidCountryRule
       else Inr \<lparr>cr_Allow = allow, cr_Deny = deny\<rparr>))"

definition Allows :: "country_rule \<Rightarrow> string \<Rightarrow> bool" where
  "Allows r country =
     (if country = [] \<or> country \<in> set (cr_Deny r) then False
      else cr_Allow r = [] \<or> country \<in> set (cr_Allow r))"

section \<open>Judging one requirement\<close>

definition stringValue :: "string option \<Rightarrow> string" where
  "stringValue v = (case v of None \<Rightarrow> [] | Some s \<Rightarrow> s)"

definition approvalObservation :: "uuid \<Rightarrow> bool \<Rightarrow> observation" where
  "approvalObservation reportID approved =
     (let (status, detail) =
            (if approved then (ObservationStatusPass, ''approved by an admin'')
             else (ObservationStatusFail, ''device not approved by an admin''))
      in \<lparr>os_ReportID = reportID, os_CheckID = CheckDeviceApproved, os_Status = status, os_Detail = Some detail\<rparr>)"

definition countryObservation :: "uuid \<Rightarrow> network_observation option \<Rightarrow> time \<Rightarrow> observation" where
  "countryObservation reportID obs now =
     (let (status, detail) =
            (case obs of
               None \<Rightarrow> (ObservationStatusUnknown, ''device not seen yet'')
             | Some seen \<Rightarrow>
                 if now - no_ObservedAt seen > MaxReportAge then (ObservationStatusUnknown, ''device location is stale'')
                 else if no_Country seen = []
                 then (ObservationStatusUnknown, ''device location unknown (no country for its address)'')
                 else (ObservationStatusPass, no_Country seen))
      in \<lparr>os_ReportID = reportID, os_CheckID = CheckNetworkCountry, os_Status = status, os_Detail = Some detail\<rparr>)"

definition countryRequirementSatisfied :: "requirement \<Rightarrow> observation \<Rightarrow> bool \<times> string" where
  "countryRequirementSatisfied requirement observation =
     (case rq_Countries requirement of
        None \<Rightarrow> (False, ''check '' @ CheckNetworkCountry @ '' has no country rule'')
      | Some rule \<Rightarrow>
          (case (os_Status observation = ObservationStatusPass, os_Detail observation) of
             (True, Some country) \<Rightarrow>
               if Allows rule country then (True, [])
               else if country \<in> set (cr_Deny rule)
               then (False, ''check '' @ CheckNetworkCountry @ '': '' @ country @ '' is denied'')
               else (False, ''check '' @ CheckNetworkCountry @ '': '' @ country @ '' is not allowed'')
           | _ \<Rightarrow> (False, ''check '' @ CheckNetworkCountry @ '': '' @ stringValue (os_Detail observation))))"

definition requirementSatisfied :: "requirement \<Rightarrow> observation \<Rightarrow> bool" where
  "requirementSatisfied requirement observation =
     (if os_Status observation = ObservationStatusPass then True
      else if os_Status observation = ObservationStatusUnsupported then rq_AllowUnsupported requirement
      else False)"

definition requirementFailureReason :: "requirement \<Rightarrow> observation \<Rightarrow> string" where
  "requirementFailureReason requirement observation =
     (if os_Status observation = ObservationStatusUnsupported \<and> \<not> rq_AllowUnsupported requirement
      then ''check '' @ rq_CheckID requirement @ '' is unsupported''
      else let detail = (case os_Detail observation of
                           None \<Rightarrow> []
                         | Some d \<Rightarrow> if TrimSpace d \<noteq> [] then '': '' @ TrimSpace d else [])
           in ''check '' @ rq_CheckID requirement @ '': '' @ os_Status observation @ detail)"

section \<open>Evaluating a profile\<close>

record profile_result =
  pres_ProfileID :: uuid
  pres_Satisfied :: bool
  pres_Reason :: string
  pres_Revision :: int
  pres_ExpiresAt :: time

text \<open>The loop over the requirements: the reason of the first one that fails, if any.\<close>

fun first_failure :: "(string \<rightharpoonup> observation) \<Rightarrow> requirement list \<Rightarrow> string option" where
  "first_failure observations [] = None"
| "first_failure observations (r # rs) =
     (case observations (rq_CheckID r) of
        None \<Rightarrow> Some (''missing required check '' @ rq_CheckID r)
      | Some obs \<Rightarrow>
          if rq_CheckID r = CheckNetworkCountry then
            (let (ok, reason) = countryRequirementSatisfied r obs
             in if ok then first_failure observations rs else Some reason)
          else if requirementSatisfied r obs then first_failure observations rs
          else Some (requirementFailureReason r obs))"

definition EvaluateProfile ::
  "time \<Rightarrow> time \<Rightarrow> profile \<Rightarrow> requirement list \<Rightarrow> (string \<rightharpoonup> observation) \<Rightarrow> profile_result" where
  "EvaluateProfile now reportReceivedAt profile requirements observations =
     (let result = \<lparr>pres_ProfileID = pf_ID profile, pres_Satisfied = False, pres_Reason = [],
                    pres_Revision = pf_Revision profile, pres_ExpiresAt = reportReceivedAt + MaxReportAge\<rparr>
      in if requirements = [] then result\<lparr>pres_Reason := ''profile has no requirements''\<rparr>
         else if now > pres_ExpiresAt result then result\<lparr>pres_Reason := ''posture report is stale''\<rparr>
         else case first_failure observations requirements of
                Some reason \<Rightarrow> result\<lparr>pres_Reason := reason\<rparr>
              | None \<Rightarrow> result\<lparr>pres_Satisfied := True, pres_Reason := ''all requirements satisfied''\<rparr>)"

end
