(* ===== verification/Posture_Eval.thy ===== *)
theory Posture_Eval
  imports Posture
begin

text \<open>
  The evaluation of a device (\<open>evaluate.go\<close>) over the tables, with the queries of \<open>store.go\<close> and
  \<open>country.go\<close> it issues. A query that fails is given by a predicate on the queries. The loop stores
  each result in its own statement, so an error in the middle leaves the results before it stored.
\<close>

section \<open>Queries\<close>

datatype posture_query =
  QReport | QObservations | QProfiles | QApproved | QNetwork | QRequirements uuid | QPrevious uuid | QUpsert uuid

definition LatestReport :: "zdb \<Rightarrow> uuid \<Rightarrow> uuid \<Rightarrow> posture_report option" where
  "LatestReport db workspaceID deviceID =
     (case sort_key (\<lambda>r. - rp_ReceivedAt r)
             (filter (\<lambda>r. rp_WorkspaceID r = workspaceID \<and> rp_DeviceID r = deviceID) (db_reports db)) of
        [] \<Rightarrow> None | r # _ \<Rightarrow> Some r)"

definition ListObservations :: "zdb \<Rightarrow> uuid \<Rightarrow> observation list" where
  "ListObservations db reportID = sort_key os_CheckID (filter (\<lambda>x. os_ReportID x = reportID) (db_observations db))"

definition ListProfiles :: "zdb \<Rightarrow> uuid \<Rightarrow> profile list" where
  "ListProfiles db workspaceID = sort_key pf_Name (filter (\<lambda>p. pf_WorkspaceID p = workspaceID) (db_profiles db))"

definition DeviceApproved :: "zdb \<Rightarrow> uuid \<Rightarrow> uuid \<Rightarrow> bool" where
  "DeviceApproved db workspaceID deviceID =
     (case select_one (\<lambda>d. cd_id d = deviceID \<and> cd_workspace_id d = workspaceID) (db_client_devices db) of
        None \<Rightarrow> False
      | Some d \<Rightarrow> cd_approved_at d \<noteq> None \<and> cd_revoked_at d = None)"

definition LatestNetworkObservation :: "zdb \<Rightarrow> uuid \<Rightarrow> uuid \<Rightarrow> network_observation option" where
  "LatestNetworkObservation db workspaceID deviceID =
     select_one (\<lambda>x. no_DeviceID x = deviceID \<and> no_WorkspaceID x = workspaceID) (db_network_observations db)"

text \<open>
  The stored parameters are the JSON of the rule, or \<open>{}\<close> when there is none; decoding \<open>{}\<close> gives the
  rule with two empty lists.
\<close>

definition countryRuleFromParams :: "country_rule option \<Rightarrow> country_rule" where
  "countryRuleFromParams raw = (case raw of None \<Rightarrow> \<lparr>cr_Allow = [], cr_Deny = []\<rparr> | Some r \<Rightarrow> r)"

definition ListRequirements :: "zdb \<Rightarrow> uuid \<Rightarrow> uuid \<Rightarrow> requirement list" where
  "ListRequirements db workspaceID profileID =
     (if \<exists>p\<in>set (db_profiles db). pf_WorkspaceID p = workspaceID \<and> pf_ID p = profileID then
        map (\<lambda>r. r\<lparr>rq_Countries := (if rq_CheckID r = CheckNetworkCountry
                                    then Some (countryRuleFromParams (rq_Countries r)) else None)\<rparr>)
          (sort_key rq_CheckID (filter (\<lambda>r. rq_ProfileID r = profileID) (db_requirements db)))
      else [])"

record evaluation =
  evl_DeviceID :: uuid
  evl_ProfileID :: uuid
  evl_Satisfied :: bool
  evl_ProfileRevision :: int
  evl_Reason :: "string option"
  evl_ReportID :: "uuid option"
  evl_ReportReceivedAt :: "time option"

definition join_report :: "zdb \<Rightarrow> evaluation_row \<Rightarrow> evaluation" where
  "join_report db e =
     \<lparr>evl_DeviceID = er_device_id e, evl_ProfileID = er_profile_id e, evl_Satisfied = er_satisfied e,
      evl_ProfileRevision = er_profile_revision e, evl_Reason = er_reason e, evl_ReportID = er_report_id e,
      evl_ReportReceivedAt =
        (case er_report_id e of
           None \<Rightarrow> None
         | Some i \<Rightarrow> map_option rp_ReceivedAt (select_one (\<lambda>r. rp_ID r = i) (db_reports db)))\<rparr>"

definition LatestEvaluation :: "zdb \<Rightarrow> uuid \<Rightarrow> uuid \<Rightarrow> uuid \<Rightarrow> evaluation option" where
  "LatestEvaluation db workspaceID deviceID profileID =
     map_option (join_report db)
       (select_one (\<lambda>e. er_workspace_id e = workspaceID \<and> er_device_id e = deviceID \<and> er_profile_id e = profileID)
          (db_evaluations db))"

definition evaluation_key :: "uuid \<Rightarrow> uuid \<Rightarrow> evaluation_row \<Rightarrow> bool" where
  "evaluation_key d p e \<longleftrightarrow> er_device_id e = d \<and> er_profile_id e = p"

definition UpsertEvaluation ::
  "zdb \<Rightarrow> uuid \<Rightarrow> uuid \<Rightarrow> uuid \<Rightarrow> int \<Rightarrow> bool \<Rightarrow> string option \<Rightarrow> uuid option \<Rightarrow> (posture_error + unit) \<times> zdb" where
  "UpsertEvaluation db w d p revision satisfied reason reportID =
     (let row = \<lparr>er_device_id = d, er_profile_id = p, er_workspace_id = w, er_satisfied = satisfied,
                 er_profile_revision = revision, er_reason = reason, er_report_id = reportID\<rparr>
      in if (\<exists>x\<in>set (db_client_devices db). cd_id x = d \<and> cd_workspace_id x = w) \<and>
            (\<exists>x\<in>set (db_profiles db). pf_ID x = p \<and> pf_WorkspaceID x = w) \<and>
            (case reportID of
               None \<Rightarrow> True
             | Some i \<Rightarrow> \<exists>r\<in>set (db_reports db). rp_ID r = i \<and> rp_WorkspaceID r = w \<and> rp_DeviceID r = d)
         then (Inr (),
               db\<lparr>db_evaluations :=
                 (if \<exists>e\<in>set (db_evaluations db). evaluation_key d p e
                  then update_where (evaluation_key d p) (\<lambda>_. row) (db_evaluations db)
                  else db_evaluations db @ [row])\<rparr>)
         else (Inl ErrWorkspaceMismatch, db))"

section \<open>Evaluating a device\<close>

definition evaluation_changed :: "evaluation option \<Rightarrow> profile_result \<Rightarrow> bool" where
  "evaluation_changed previous result \<longleftrightarrow>
     (case previous of
        None \<Rightarrow> True
      | Some e \<Rightarrow> evl_Satisfied e \<noteq> pres_Satisfied result \<or> evl_ProfileRevision e \<noteq> pres_Revision result \<or>
                  stringValue (evl_Reason e) \<noteq> pres_Reason result)"

fun evaluate_profiles ::
  "(posture_query \<Rightarrow> bool) \<Rightarrow> time \<Rightarrow> uuid \<Rightarrow> uuid \<Rightarrow> posture_report \<Rightarrow> (string \<rightharpoonup> observation)
   \<Rightarrow> profile_result list \<Rightarrow> bool \<Rightarrow> profile list \<Rightarrow> zdb
   \<Rightarrow> (posture_error + profile_result list \<times> bool) \<times> zdb" where
  "evaluate_profiles fails now w d report obs results changed [] db = (Inr (results, changed), db)"
| "evaluate_profiles fails now w d report obs results changed (p # ps) db =
     (if fails (QRequirements (pf_ID p)) then (Inl ErrPostureDB, db)
      else let result = EvaluateProfile now (rp_ReceivedAt report) p (ListRequirements db w (pf_ID p)) obs in
        if fails (QPrevious (pf_ID p)) then (Inl ErrPostureDB, db)
        else let previous = LatestEvaluation db w d (pf_ID p) in
          if fails (QUpsert (pf_ID p)) then (Inl ErrPostureDB, db)
          else case UpsertEvaluation db w d (pf_ID p) (pf_Revision p) (pres_Satisfied result)
                      (Some (pres_Reason result)) (Some (rp_ID report)) of
                 (Inl e, db') \<Rightarrow> (Inl e, db')
               | (Inr _, db') \<Rightarrow>
                   evaluate_profiles fails now w d report obs (results @ [result])
                     (changed \<or> evaluation_changed previous result) ps db')"

definition observation_map :: "zdb \<Rightarrow> uuid \<Rightarrow> uuid \<Rightarrow> posture_report \<Rightarrow> time \<Rightarrow> string \<rightharpoonup> observation" where
  "observation_map db w d report now =
     (foldl (\<lambda>m x. m(os_CheckID x \<mapsto> x)) Map.empty (ListObservations db (rp_ID report)))
       (CheckDeviceApproved \<mapsto> approvalObservation (rp_ID report) (DeviceApproved db w d),
        CheckNetworkCountry \<mapsto> countryObservation (rp_ID report) (LatestNetworkObservation db w d) now)"

definition evaluateDevice ::
  "(posture_query \<Rightarrow> bool) \<Rightarrow> time \<Rightarrow> uuid \<Rightarrow> uuid \<Rightarrow> zdb \<Rightarrow> (posture_error + profile_result list \<times> bool) \<times> zdb" where
  "evaluateDevice fails now w d db =
     (if fails QReport then (Inl ErrPostureDB, db)
      else case LatestReport db w d of
        None \<Rightarrow> (Inl ErrNotFound, db)
      | Some report \<Rightarrow>
          if fails QObservations \<or> fails QProfiles \<or> fails QApproved \<or> fails QNetwork
          then (Inl ErrPostureDB, db)
          else evaluate_profiles fails now w d report (observation_map db w d report now) [] False
                 (ListProfiles db w) db)"

text \<open>
  \<open>notify\<close> is the policy notifier, \<open>None\<close> when there is none; the flag says whether it was called. The
  result of \<open>NotifyPolicyChange\<close> is an argument.
\<close>

definition EvaluateDevice ::
  "(posture_query \<Rightarrow> bool) \<Rightarrow> bool option \<Rightarrow> time \<Rightarrow> uuid \<Rightarrow> uuid \<Rightarrow> zdb
   \<Rightarrow> (posture_error + profile_result list) \<times> bool \<times> zdb" where
  "EvaluateDevice fails notify now w d db =
     (case evaluateDevice fails now w d db of
        (Inl e, db') \<Rightarrow> (Inl e, False, db')
      | (Inr (results, changed), db') \<Rightarrow>
          (case (changed, notify) of
             (True, Some ok) \<Rightarrow> (if ok then Inr results else Inl ErrNotify, True, db')
           | _ \<Rightarrow> (Inr results, False, db')))"

text \<open>The batch: every device is evaluated whatever happened to the others, one notification at most.\<close>

fun reevaluateDevices ::
  "(uuid \<Rightarrow> posture_query \<Rightarrow> bool) \<Rightarrow> time \<Rightarrow> uuid \<Rightarrow> nat \<Rightarrow> bool \<Rightarrow> uuid list \<Rightarrow> zdb \<Rightarrow> nat \<times> bool \<times> zdb" where
  "reevaluateDevices fails now w errors changed [] db = (errors, changed, db)"
| "reevaluateDevices fails now w errors changed (d # ds) db =
     (case evaluateDevice (fails d) now w d db of
        (Inl _, db') \<Rightarrow> reevaluateDevices fails now w (Suc errors) changed ds db'
      | (Inr (_, c), db') \<Rightarrow> reevaluateDevices fails now w errors (changed \<or> c) ds db')"

definition DeviceIDsWithReports :: "zdb \<Rightarrow> uuid \<Rightarrow> uuid list" where
  "DeviceIDsWithReports db w =
     sort (remdups (map rp_DeviceID (filter (\<lambda>r. rp_WorkspaceID r = w) (db_reports db))))"

definition ReevaluateWorkspace ::
  "bool \<Rightarrow> (uuid \<Rightarrow> posture_query \<Rightarrow> bool) \<Rightarrow> bool option \<Rightarrow> time \<Rightarrow> uuid \<Rightarrow> zdb
   \<Rightarrow> (posture_error + unit) \<times> bool \<times> zdb" where
  "ReevaluateWorkspace listFails fails notify now w db =
     (if listFails then (Inl ErrPostureDB, False, db)
      else let (errors, changed, db') = reevaluateDevices fails now w 0 False (DeviceIDsWithReports db w) db;
               notified = (changed \<and> notify \<noteq> None);
               errors' = (if changed \<and> notify = Some False then Suc errors else errors)
           in (if errors' > 0 then Inl ErrPostureDB else Inr (), notified, db'))"

end
