(* ===== verification/Posture_Correct.thy ===== *)
theory Posture_Correct
  imports Posture_Eval
begin

text \<open>
  Correctness of posture evaluation: when a profile is satisfied, what an evaluation stores and when
  it asks for a policy notification, that repeating it changes nothing, which checks a device cannot
  speak for, and the normal form of country rules.
\<close>

section \<open>A profile\<close>

definition requirement_met :: "(string \<rightharpoonup> observation) \<Rightarrow> requirement \<Rightarrow> bool" where
  "requirement_met obs r \<longleftrightarrow>
     (\<exists>x. obs (rq_CheckID r) = Some x \<and>
        (if rq_CheckID r = CheckNetworkCountry
         then os_Status x = ObservationStatusPass \<and>
              (\<exists>rule c. rq_Countries r = Some rule \<and> os_Detail x = Some c \<and> Allows rule c)
         else os_Status x = ObservationStatusPass \<or>
              os_Status x = ObservationStatusUnsupported \<and> rq_AllowUnsupported r))"

lemma country_satisfied_iff:
  "fst (countryRequirementSatisfied r x) \<longleftrightarrow>
     os_Status x = ObservationStatusPass \<and>
     (\<exists>rule c. rq_Countries r = Some rule \<and> os_Detail x = Some c \<and> Allows rule c)"
  by (auto simp: countryRequirementSatisfied_def split: option.splits bool.splits)

lemma requirementSatisfied_iff:
  "requirementSatisfied r x \<longleftrightarrow>
     os_Status x = ObservationStatusPass \<or> os_Status x = ObservationStatusUnsupported \<and> rq_AllowUnsupported r"
  by (auto simp: requirementSatisfied_def)

lemma requirement_met_code:
  "requirement_met obs r \<longleftrightarrow>
     (case obs (rq_CheckID r) of
        None \<Rightarrow> False
      | Some x \<Rightarrow> if rq_CheckID r = CheckNetworkCountry then fst (countryRequirementSatisfied r x)
                  else requirementSatisfied r x)"
  by (auto simp: requirement_met_def country_satisfied_iff requirementSatisfied_iff split: option.splits)

lemma first_failure_None: "first_failure obs rs = None \<longleftrightarrow> (\<forall>r\<in>set rs. requirement_met obs r)"
  by (induction rs) (auto simp: requirement_met_code split_beta split: option.splits)

lemma EvaluateProfile_satisfied:
  "pres_Satisfied (EvaluateProfile now recv p rs obs) \<longleftrightarrow>
     rs \<noteq> [] \<and> now \<le> recv + MaxReportAge \<and> first_failure obs rs = None"
  by (auto simp: EvaluateProfile_def Let_def split: option.splits)

lemma EvaluateProfile_sel [simp]:
  "pres_ProfileID (EvaluateProfile now recv p rs obs) = pf_ID p"
  "pres_Revision (EvaluateProfile now recv p rs obs) = pf_Revision p"
  "pres_ExpiresAt (EvaluateProfile now recv p rs obs) = recv + MaxReportAge"
  by (auto simp: EvaluateProfile_def Let_def split: option.splits)


definition ex_profile :: profile where
  "ex_profile = \<lparr>pf_ID = 5, pf_WorkspaceID = 4, pf_Name = ''p'', pf_Revision = 3, pf_ManualTrustEnabled = True\<rparr>"

definition ex_obs :: "string \<rightharpoonup> observation" where
  "ex_obs = [CheckFirewall \<mapsto> \<lparr>os_ReportID = 9, os_CheckID = CheckFirewall,
                               os_Status = ObservationStatusPass, os_Detail = None\<rparr>]"

definition ex_req :: "string \<Rightarrow> requirement" where
  "ex_req c = \<lparr>rq_ProfileID = 5, rq_CheckID = c, rq_AllowUnsupported = True, rq_Countries = None\<rparr>"


section \<open>A device\<close>

definition upsert_row :: "evaluation_row \<Rightarrow> evaluation_row list \<Rightarrow> evaluation_row list" where
  "upsert_row row evs =
     (if \<exists>e\<in>set evs. evaluation_key (er_device_id row) (er_profile_id row) e
      then update_where (evaluation_key (er_device_id row) (er_profile_id row)) (\<lambda>_. row) evs
      else evs @ [row])"

definition select_eval :: "uuid \<Rightarrow> uuid \<Rightarrow> uuid \<Rightarrow> evaluation_row list \<Rightarrow> evaluation_row option" where
  "select_eval w d p = select_one (\<lambda>e. er_workspace_id e = w \<and> er_device_id e = d \<and> er_profile_id e = p)"

lemma find_update_where_same:
  "\<lbrakk>\<And>e. K e \<Longrightarrow> P row; \<And>e. P e \<Longrightarrow> K e; \<exists>e\<in>set xs. K e\<rbrakk>
   \<Longrightarrow> List.find P (map (\<lambda>r. if K r then row else r) xs) = Some row"
  by (induction xs) auto

lemma find_update_where_other:
  "\<lbrakk>\<not> P row; \<And>e. P e \<Longrightarrow> \<not> K e\<rbrakk>
   \<Longrightarrow> List.find P (map (\<lambda>r. if K r then row else r) xs) = List.find P xs"
  by (induction xs) auto

lemma find_append_None: "List.find P (xs @ [y]) = (case List.find P xs of None \<Rightarrow> if P y then Some y else None | r \<Rightarrow> r)"
  by (induction xs) auto

lemma select_upsert_same:
  "select_eval (er_workspace_id row) (er_device_id row) (er_profile_id row) (upsert_row row evs) = Some row"
proof (cases "\<exists>e\<in>set evs. evaluation_key (er_device_id row) (er_profile_id row) e")
  case True
  then show ?thesis
    unfolding select_eval_def select_one_def upsert_row_def update_where_def
    by (simp, intro find_update_where_same) (auto simp: evaluation_key_def)
next
  case False
  then have "List.find (\<lambda>e. er_workspace_id e = er_workspace_id row \<and> er_device_id e = er_device_id row \<and>
      er_profile_id e = er_profile_id row) evs = None"
    by (auto simp: find_None_iff evaluation_key_def)
  with False show ?thesis by (simp add: select_eval_def select_one_def upsert_row_def find_append_None)
qed

lemma select_upsert_other:
  assumes "d \<noteq> er_device_id row \<or> p \<noteq> er_profile_id row"
  shows "select_eval w d p (upsert_row row evs) = select_eval w d p evs"
proof -
  let ?P = "\<lambda>e. er_workspace_id e = w \<and> er_device_id e = d \<and> er_profile_id e = p"
  let ?K = "evaluation_key (er_device_id row) (er_profile_id row)"
  have "\<not> ?P row" using assms by auto
  moreover from this have "List.find ?P (map (\<lambda>r. if ?K r then row else r) evs) = List.find ?P evs"
    using assms by (intro find_update_where_other) (auto simp: evaluation_key_def)
  ultimately show ?thesis
    by (auto simp: select_eval_def select_one_def upsert_row_def update_where_def find_append_None
        split: option.splits)
qed

definition result_row :: "uuid \<Rightarrow> uuid \<Rightarrow> posture_report \<Rightarrow> profile_result \<Rightarrow> evaluation_row" where
  "result_row w d report res =
     \<lparr>er_device_id = d, er_profile_id = pres_ProfileID res, er_workspace_id = w, er_satisfied = pres_Satisfied res,
      er_profile_revision = pres_Revision res, er_reason = Some (pres_Reason res), er_report_id = Some (rp_ID report)\<rparr>"

lemma result_row_sel [simp]:
  "er_device_id (result_row w d report res) = d" "er_profile_id (result_row w d report res) = pres_ProfileID res"
  "er_workspace_id (result_row w d report res) = w"
  by (simp_all add: result_row_def)

lemma UpsertEvaluation_ok:
  assumes "UpsertEvaluation db w d (pres_ProfileID res) (pres_Revision res) (pres_Satisfied res)
             (Some (pres_Reason res)) (Some (rp_ID report)) = (Inr u, db')"
  shows "db' = db\<lparr>db_evaluations := upsert_row (result_row w d report res) (db_evaluations db)\<rparr>"
  using assms by (auto simp: UpsertEvaluation_def Let_def upsert_row_def result_row_def split: if_splits)

lemma join_report_evaluations [simp]: "join_report (db\<lparr>db_evaluations := evs\<rparr>) = join_report db"
  by (simp add: join_report_def fun_eq_iff split: option.split)

lemma queries_ignore_evaluations [simp]:
  "ListRequirements (db\<lparr>db_evaluations := evs\<rparr>) w p = ListRequirements db w p"
  "ListProfiles (db\<lparr>db_evaluations := evs\<rparr>) w = ListProfiles db w"
  "LatestReport (db\<lparr>db_evaluations := evs\<rparr>) w d = LatestReport db w d"
  "observation_map (db\<lparr>db_evaluations := evs\<rparr>) w d rep now = observation_map db w d rep now"
  by (auto simp: ListRequirements_def ListProfiles_def LatestReport_def observation_map_def
      ListObservations_def DeviceApproved_def LatestNetworkObservation_def)

lemma LatestEvaluation_select:
  "LatestEvaluation db w d p = map_option (join_report db) (select_eval w d p (db_evaluations db))"
  by (simp add: LatestEvaluation_def select_eval_def)

lemma evaluate_profiles_ok:
  assumes "evaluate_profiles fails now w d report obs results changed ps db = (Inr (results', changed'), db')"
    and "distinct (map pf_ID ps)"
  defines "res \<equiv> \<lambda>p. EvaluateProfile now (rp_ReceivedAt report) p (ListRequirements db w (pf_ID p)) obs"
  shows "\<exists>evs. db' = db\<lparr>db_evaluations := evs\<rparr> \<and> results' = results @ map res ps \<and>
     changed' = (changed \<or> (\<exists>p\<in>set ps. evaluation_changed (LatestEvaluation db w d (pf_ID p)) (res p))) \<and>
     (\<forall>p\<in>set ps. select_eval w d (pf_ID p) evs = Some (result_row w d report (res p))) \<and>
     (\<forall>w' d' q. d' \<noteq> d \<or> q \<notin> pf_ID ` set ps \<longrightarrow> select_eval w' d' q evs = select_eval w' d' q (db_evaluations db))"
  using assms(1,2) unfolding res_def
proof (induction ps arbitrary: results changed db)
  case Nil
  then show ?case by (intro exI [of _ "db_evaluations db"]) auto
next
  case (Cons p ps)
  let ?r = "EvaluateProfile now (rp_ReceivedAt report) p (ListRequirements db w (pf_ID p)) obs"
  let ?evs1 = "upsert_row (result_row w d report ?r) (db_evaluations db)"
  let ?db1 = "db\<lparr>db_evaluations := ?evs1\<rparr>"
  have rest: "evaluate_profiles fails now w d report obs (results @ [?r])
      (changed \<or> evaluation_changed (LatestEvaluation db w d (pf_ID p)) ?r) ps ?db1 = (Inr (results', changed'), db')"
    using Cons.prems(1) UpsertEvaluation_ok [of db w d ?r report]
    by (auto simp: Let_def split: if_splits prod.splits sum.splits)
  have dist: "distinct (map pf_ID ps)" using Cons.prems(2) by simp
  from Cons.IH [OF rest dist] obtain evs where evs: "db' = ?db1\<lparr>db_evaluations := evs\<rparr>"
    and r: "results' = (results @ [?r]) @
       map (\<lambda>p. EvaluateProfile now (rp_ReceivedAt report) p (ListRequirements db w (pf_ID p)) obs) ps"
    and c: "changed' = ((changed \<or> evaluation_changed (LatestEvaluation db w d (pf_ID p)) ?r) \<or>
       (\<exists>q\<in>set ps. evaluation_changed (LatestEvaluation ?db1 w d (pf_ID q))
          (EvaluateProfile now (rp_ReceivedAt report) q (ListRequirements db w (pf_ID q)) obs)))"
    and s: "\<forall>q\<in>set ps. select_eval w d (pf_ID q) evs =
       Some (result_row w d report (EvaluateProfile now (rp_ReceivedAt report) q (ListRequirements db w (pf_ID q)) obs))"
    and o1: "\<forall>w' d' q. d' \<noteq> d \<or> q \<notin> pf_ID ` set ps \<longrightarrow> select_eval w' d' q evs = select_eval w' d' q ?evs1"
    by auto
  have notin: "pf_ID p \<notin> pf_ID ` set ps" using Cons.prems(2) by simp
  have same: "LatestEvaluation ?db1 w d (pf_ID q) = LatestEvaluation db w d (pf_ID q)" if "q \<in> set ps" for q
  proof -
    have "pf_ID q \<noteq> pf_ID p" using notin that by (metis imageI)
    then show ?thesis by (simp add: LatestEvaluation_select select_upsert_other)
  qed
  have head: "select_eval w d (pf_ID p) evs = Some (result_row w d report ?r)"
    using o1 notin select_upsert_same [of "result_row w d report ?r" "db_evaluations db"] by simp
  have other: "select_eval w' d' q evs = select_eval w' d' q (db_evaluations db)"
    if "d' \<noteq> d \<or> q \<notin> pf_ID ` set (p # ps)" for w' d' q
    using o1 that select_upsert_other [of d' "result_row w d report ?r" q w'] by auto
  show ?case
    using evs r c s head other same by (intro exI [of _ evs]) auto
qed

definition upsert_allowed :: "zdb \<Rightarrow> uuid \<Rightarrow> uuid \<Rightarrow> uuid \<Rightarrow> uuid \<Rightarrow> bool" where
  "upsert_allowed db w d p i \<longleftrightarrow>
     (\<exists>x\<in>set (db_client_devices db). cd_id x = d \<and> cd_workspace_id x = w) \<and>
     (\<exists>x\<in>set (db_profiles db). pf_ID x = p \<and> pf_WorkspaceID x = w) \<and>
     (\<exists>r\<in>set (db_reports db). rp_ID r = i \<and> rp_WorkspaceID r = w \<and> rp_DeviceID r = d)"

lemma upsert_allowed_evaluations [simp]:
  "upsert_allowed (db\<lparr>db_evaluations := evs\<rparr>) w d p i = upsert_allowed db w d p i"
  by (simp add: upsert_allowed_def)

lemma UpsertEvaluation_alt:
  "UpsertEvaluation db w d p revision sat reason (Some i) =
     (if upsert_allowed db w d p i
      then (Inr (), db\<lparr>db_evaluations := upsert_row
              \<lparr>er_device_id = d, er_profile_id = p, er_workspace_id = w, er_satisfied = sat,
               er_profile_revision = revision, er_reason = reason, er_report_id = Some i\<rparr> (db_evaluations db)\<rparr>)
      else (Inl ErrWorkspaceMismatch, db))"
  by (auto simp: UpsertEvaluation_def upsert_allowed_def upsert_row_def Let_def)

lemma evaluate_profiles_succeeds:
  "\<not> isl (fst (evaluate_profiles fails now w d report obs results changed ps db)) \<longleftrightarrow>
     (\<forall>p\<in>set ps. \<not> fails (QRequirements (pf_ID p)) \<and> \<not> fails (QPrevious (pf_ID p)) \<and> \<not> fails (QUpsert (pf_ID p)) \<and>
        upsert_allowed db w d (pf_ID p) (rp_ID report))"
  by (induction ps arbitrary: results changed db) (auto simp: Let_def UpsertEvaluation_alt)

lemma LatestReport_in: "LatestReport db w d = Some r \<Longrightarrow> r \<in> set (db_reports db)"
  unfolding LatestReport_def
  by (auto split: list.splits dest!: arg_cong [where f = set])

lemma evaluateDevice_ok:
  assumes "evaluateDevice fails now w d db = (Inr (results, changed), db')"
    and "distinct (map pf_ID (db_profiles db))"
  obtains report evs where "LatestReport db w d = Some report" "db' = db\<lparr>db_evaluations := evs\<rparr>"
    "results = map (\<lambda>p. EvaluateProfile now (rp_ReceivedAt report) p (ListRequirements db w (pf_ID p))
                         (observation_map db w d report now)) (ListProfiles db w)"
    "changed = (\<exists>res\<in>set results. evaluation_changed (LatestEvaluation db w d (pres_ProfileID res)) res)"
    "\<forall>res\<in>set results. select_eval w d (pres_ProfileID res) evs = Some (result_row w d report res)"
    "\<forall>w' d' q. d' \<noteq> d \<or> q \<notin> pres_ProfileID ` set results \<longrightarrow>
        select_eval w' d' q evs = select_eval w' d' q (db_evaluations db)"
proof -
  from assms(1) obtain report where report: "LatestReport db w d = Some report"
    and run: "evaluate_profiles fails now w d report (observation_map db w d report now) [] False
                (ListProfiles db w) db = (Inr (results, changed), db')"
    by (auto simp: evaluateDevice_def split: if_splits option.splits)
  have "distinct (map pf_ID (ListProfiles db w))"
    using assms(2) by (auto simp: ListProfiles_def distinct_map intro: inj_on_subset)
  from evaluate_profiles_ok [OF run this] obtain evs where
    "db' = db\<lparr>db_evaluations := evs\<rparr>"
    "results = map (\<lambda>p. EvaluateProfile now (rp_ReceivedAt report) p (ListRequirements db w (pf_ID p))
                         (observation_map db w d report now)) (ListProfiles db w)"
    "changed = (\<exists>p\<in>set (ListProfiles db w). evaluation_changed (LatestEvaluation db w d (pf_ID p))
       (EvaluateProfile now (rp_ReceivedAt report) p (ListRequirements db w (pf_ID p)) (observation_map db w d report now)))"
    "\<forall>p\<in>set (ListProfiles db w). select_eval w d (pf_ID p) evs = Some (result_row w d report
       (EvaluateProfile now (rp_ReceivedAt report) p (ListRequirements db w (pf_ID p)) (observation_map db w d report now)))"
    "\<forall>w' d' q. d' \<noteq> d \<or> q \<notin> pf_ID ` set (ListProfiles db w) \<longrightarrow>
       select_eval w' d' q evs = select_eval w' d' q (db_evaluations db)"
    by auto
  then show ?thesis by (intro that [OF report]) (auto simp: image_image)
qed

text \<open>
  C9. An evaluation that succeeds returns the verdict on every profile of the workspace, from the
  device's latest report, and stores exactly these verdicts, each with the profile revision it was
  reached for and the time the report was received; no evaluation of another device or profile
  changes. It asks for a policy notification exactly when some stored verdict was missing or differs in
  outcome, revision or reason.
\<close>

theorem evaluateDevice_stores:
  assumes "evaluateDevice fails now w d db = (Inr (results, changed), db')"
    and "distinct (map pf_ID (db_profiles db))" and "distinct (map rp_ID (db_reports db))"
  shows "\<exists>report. LatestReport db w d = Some report \<and>
     results = map (\<lambda>p. EvaluateProfile now (rp_ReceivedAt report) p (ListRequirements db w (pf_ID p))
                          (observation_map db w d report now)) (ListProfiles db w) \<and>
     (\<forall>res\<in>set results. \<exists>e. LatestEvaluation db' w d (pres_ProfileID res) = Some e \<and>
        evl_Satisfied e = pres_Satisfied res \<and> evl_ProfileRevision e = pres_Revision res \<and>
        evl_Reason e = Some (pres_Reason res) \<and> evl_ReportReceivedAt e = Some (rp_ReceivedAt report)) \<and>
     (\<forall>w' d' q. d' \<noteq> d \<or> q \<notin> pres_ProfileID ` set results \<longrightarrow>
        LatestEvaluation db' w' d' q = LatestEvaluation db w' d' q) \<and>
     changed = (\<exists>res\<in>set results. evaluation_changed (LatestEvaluation db w d (pres_ProfileID res)) res)"
proof -
  from evaluateDevice_ok [OF assms(1,2)] obtain report evs where
    r: "LatestReport db w d = Some report" "db' = db\<lparr>db_evaluations := evs\<rparr>"
      "results = map (\<lambda>p. EvaluateProfile now (rp_ReceivedAt report) p (ListRequirements db w (pf_ID p))
                         (observation_map db w d report now)) (ListProfiles db w)"
      "changed = (\<exists>res\<in>set results. evaluation_changed (LatestEvaluation db w d (pres_ProfileID res)) res)"
      "\<forall>res\<in>set results. select_eval w d (pres_ProfileID res) evs = Some (result_row w d report res)"
      "\<forall>w' d' q. d' \<noteq> d \<or> q \<notin> pres_ProfileID ` set results \<longrightarrow>
        select_eval w' d' q evs = select_eval w' d' q (db_evaluations db)" .
  have "select_one (\<lambda>x. rp_ID x = rp_ID report) (db_reports db) = Some report"
    using select_one_key [OF assms(3) LatestReport_in [OF r(1)]] .
  then have "evl_ReportReceivedAt (join_report db (result_row w d report res)) = Some (rp_ReceivedAt report)" for res
    by (simp add: join_report_def result_row_def)
  moreover have "evl_Satisfied (join_report db (result_row w d report res)) = pres_Satisfied res"
    "evl_ProfileRevision (join_report db (result_row w d report res)) = pres_Revision res"
    "evl_Reason (join_report db (result_row w d report res)) = Some (pres_Reason res)" for res
    by (simp_all add: join_report_def result_row_def)
  ultimately show ?thesis
    using r by (intro exI [of _ report]) (simp add: LatestEvaluation_select)
qed

text \<open>A workspace with one device, one profile that wants the firewall check, and a report that passes it.\<close>

definition ex_db :: zdb where
  "ex_db = \<lparr>db_access_rules = [], db_resources = [], db_groups = [], db_group_members = [], db_users = [],
     db_workspace_members = [],
     db_client_devices = [\<lparr>cd_id = 7, cd_workspace_id = 4, cd_user_id = 2, cd_spiffe_id = Some ''s'',
                            cd_revoked_at = None, cd_approved_at = None\<rparr>],
     db_remote_networks = [], db_shields = [], db_shield_revocations = [], db_connectors = [],
     db_placements = [], db_relays = [], db_connector_certificates = [], db_workspaces = [],
     db_profiles = [ex_profile], db_requirements = [ex_req CheckFirewall],
     db_reports = [\<lparr>rp_ID = 9, rp_ReportID = ''r'', rp_DeviceID = 7, rp_WorkspaceID = 4,
                     rp_ReportedAt = 600, rp_ReceivedAt = 600\<rparr>],
     db_observations = [\<lparr>os_ReportID = 9, os_CheckID = CheckFirewall, os_Status = ObservationStatusPass,
                          os_Detail = None\<rparr>],
     db_evaluations = [], db_network_observations = [], db_policies = [], db_policy_profiles = []\<rparr>"

lemma ex_evaluate:
  obtains res changed db' where "evaluateDevice (\<lambda>_. False) now 4 7 ex_db = (Inr ([res], changed), db')"
    "pres_ProfileID res = 5"
proof -
  let ?e = "evaluateDevice (\<lambda>_. False) now 4 7 ex_db"
  have rep: "LatestReport ex_db 4 7 = Some \<lparr>rp_ID = 9, rp_ReportID = ''r'', rp_DeviceID = 7, rp_WorkspaceID = 4,
      rp_ReportedAt = 600, rp_ReceivedAt = 600\<rparr>"
    by (simp add: LatestReport_def ex_db_def)
  have ps: "ListProfiles ex_db 4 = [ex_profile]" by (simp add: ListProfiles_def ex_db_def ex_profile_def)
  have "upsert_allowed ex_db 4 7 5 9" by (simp add: upsert_allowed_def ex_db_def ex_profile_def)
  then have ok: "\<not> isl (fst ?e)"
    by (simp add: evaluateDevice_def rep ps Let_def UpsertEvaluation_alt ex_profile_def)
  then obtain results changed db' where e: "?e = (Inr (results, changed), db')"
    by (cases ?e; cases "fst ?e") auto
  have "distinct (map pf_ID (db_profiles ex_db))" by (simp add: ex_db_def)
  from evaluateDevice_ok [OF e this] have "map pres_ProfileID results = map pf_ID (ListProfiles ex_db 4)"
    by (metis (no_types, lifting) EvaluateProfile_sel(1) comp_apply map_eq_conv map_map)
  then have "map pres_ProfileID results = [5]" by (simp add: ps ex_profile_def)
  then obtain res where "results = [res]" "pres_ProfileID res = 5" by auto
  then show ?thesis using e that by simp
qed

lemma ex_db_keys: "distinct (map pf_ID (db_profiles ex_db))" "distinct (map rp_ID (db_reports ex_db))"
  by (simp_all add: ex_db_def)

theorem evaluateDevice_stores_witness:
  "\<exists>results changed db'. evaluateDevice (\<lambda>_. False) 700 4 7 ex_db = (Inr (results, changed), db') \<and> changed \<and>
     (\<exists>e. LatestEvaluation db' 4 7 5 = Some e \<and> evl_ReportReceivedAt e = Some 600)"
proof -
  obtain res changed db' where
    e: "evaluateDevice (\<lambda>_. False) 700 4 7 ex_db = (Inr ([res], changed), db')" and r: "pres_ProfileID res = 5"
    by (rule ex_evaluate)
  have "LatestEvaluation ex_db 4 7 5 = None" by (simp add: LatestEvaluation_def select_one_def ex_db_def)
  moreover have "LatestReport ex_db 4 7 = Some report \<Longrightarrow> rp_ReceivedAt report = 600" for report
    by (auto simp: LatestReport_def ex_db_def)
  ultimately show ?thesis
    using evaluateDevice_stores [OF e ex_db_keys] e r by (auto simp: evaluation_changed_def)
qed

lemma evaluateDevice_succeeds:
  "\<not> isl (fst (evaluateDevice fails now w d db)) \<longleftrightarrow>
     \<not> fails QReport \<and> \<not> fails QObservations \<and> \<not> fails QProfiles \<and> \<not> fails QApproved \<and> \<not> fails QNetwork \<and>
     (\<exists>report. LatestReport db w d = Some report \<and>
        (\<forall>p\<in>set (ListProfiles db w). \<not> fails (QRequirements (pf_ID p)) \<and> \<not> fails (QPrevious (pf_ID p)) \<and>
           \<not> fails (QUpsert (pf_ID p)) \<and> upsert_allowed db w d (pf_ID p) (rp_ID report)))"
  by (auto simp: evaluateDevice_def evaluate_profiles_succeeds split: option.splits)

text \<open>
  Repeating an evaluation while nothing else changed succeeds again, gives the same verdicts,
  keeps what is stored and asks for no notification, so the connectors are not woken for nothing.
\<close>

theorem evaluateDevice_idempotent:
  assumes "evaluateDevice fails now w d db = (Inr (results, changed), db')"
    and "distinct (map pf_ID (db_profiles db))"
  shows "\<exists>db''. evaluateDevice fails now w d db' = (Inr (results, False), db'') \<and>
           (\<forall>d' q. LatestEvaluation db'' w d' q = LatestEvaluation db' w d' q)"
proof -
  from evaluateDevice_ok [OF assms] obtain report evs where
    r: "LatestReport db w d = Some report" "db' = db\<lparr>db_evaluations := evs\<rparr>"
      "results = map (\<lambda>p. EvaluateProfile now (rp_ReceivedAt report) p (ListRequirements db w (pf_ID p))
                         (observation_map db w d report now)) (ListProfiles db w)"
      "changed = (\<exists>res\<in>set results. evaluation_changed (LatestEvaluation db w d (pres_ProfileID res)) res)"
      "\<forall>res\<in>set results. select_eval w d (pres_ProfileID res) evs = Some (result_row w d report res)"
      "\<forall>w' d' q. d' \<noteq> d \<or> q \<notin> pres_ProfileID ` set results \<longrightarrow>
        select_eval w' d' q evs = select_eval w' d' q (db_evaluations db)" .
  have "\<not> isl (fst (evaluateDevice fails now w d db))" using assms(1) by simp
  then have "\<not> isl (fst (evaluateDevice fails now w d db'))"
    unfolding evaluateDevice_succeeds r(2) queries_ignore_evaluations upsert_allowed_evaluations .
  then obtain results2 changed2 db'' where e: "evaluateDevice fails now w d db' = (Inr (results2, changed2), db'')"
    by (cases "evaluateDevice fails now w d db'"; cases "fst (evaluateDevice fails now w d db')") auto
  have "distinct (map pf_ID (db_profiles db'))" using assms(2) by (simp add: r(2))
  from evaluateDevice_ok [OF e this] obtain report2 evs2 where
    q: "LatestReport db' w d = Some report2" "db'' = db'\<lparr>db_evaluations := evs2\<rparr>"
      "results2 = map (\<lambda>p. EvaluateProfile now (rp_ReceivedAt report2) p (ListRequirements db' w (pf_ID p))
                         (observation_map db' w d report2 now)) (ListProfiles db' w)"
      "changed2 = (\<exists>res\<in>set results2. evaluation_changed (LatestEvaluation db' w d (pres_ProfileID res)) res)"
      "\<forall>res\<in>set results2. select_eval w d (pres_ProfileID res) evs2 = Some (result_row w d report2 res)"
      "\<forall>w' d' q. d' \<noteq> d \<or> q \<notin> pres_ProfileID ` set results2 \<longrightarrow>
        select_eval w' d' q evs2 = select_eval w' d' q (db_evaluations db')" .
  have same: "report2 = report" "results2 = results" using q(1,3) r(1,3) by (simp_all add: r(2))
  have "\<not> changed2"
    using r(5) unfolding q(4) same
    by (simp add: r(2) LatestEvaluation_select evaluation_changed_def join_report_def result_row_def stringValue_def)
  moreover have "select_eval w d' p evs2 = select_eval w d' p evs" for d' p
  proof (cases "d' = d \<and> p \<in> pres_ProfileID ` set results")
    case True
    then show ?thesis using r(5) q(5) by (auto simp: same)
  next
    case False
    then show ?thesis using q(6) by (simp add: same r(2))
  qed
  then have "LatestEvaluation db'' w d' p = LatestEvaluation db' w d' p" for d' p
    by (simp add: r(2) q(2) LatestEvaluation_select)
  ultimately show ?thesis using e same(2) by simp
qed

theorem evaluateDevice_idempotent_witness:
  "\<exists>res db' db''. evaluateDevice (\<lambda>_. False) 700 4 7 ex_db = (Inr ([res], True), db') \<and>
     evaluateDevice (\<lambda>_. False) 700 4 7 db' = (Inr ([res], False), db'')"
proof -
  obtain res changed db' where
    e: "evaluateDevice (\<lambda>_. False) 700 4 7 ex_db = (Inr ([res], changed), db')" and r: "pres_ProfileID res = 5"
    by (rule ex_evaluate)
  have "LatestEvaluation ex_db 4 7 5 = None" by (simp add: LatestEvaluation_def select_one_def ex_db_def)
  then have changed using r by (auto intro: evaluateDevice_ok [OF e ex_db_keys(1)] simp: evaluation_changed_def)
  then show ?thesis using evaluateDevice_idempotent [OF e ex_db_keys(1)] e by auto
qed

section \<open>What a device cannot report\<close>

lemma observation_map_server:
  "observation_map db w d rep now CheckNetworkCountry =
     Some (countryObservation (rp_ID rep) (LatestNetworkObservation db w d) now)"
  "observation_map db w d rep now CheckDeviceApproved =
     Some (approvalObservation (rp_ID rep) (DeviceApproved db w d))"
  by (simp_all add: observation_map_def CheckNetworkCountry_def CheckDeviceApproved_def)

lemma approval_met:
  assumes "requirement_met (observation_map db w d rep now) r" and "rq_CheckID r = CheckDeviceApproved"
  shows "DeviceApproved db w d"
proof -
  have "CheckDeviceApproved \<noteq> CheckNetworkCountry" by (simp add: CheckDeviceApproved_def CheckNetworkCountry_def)
  then show ?thesis
    using assms by (auto simp: requirement_met_def observation_map_server approvalObservation_def
        ObservationStatusPass_def ObservationStatusFail_def ObservationStatusUnsupported_def split: if_splits)
qed

lemma country_met:
  assumes "requirement_met (observation_map db w d rep now) r" and "rq_CheckID r = CheckNetworkCountry"
  shows "\<exists>seen rule. LatestNetworkObservation db w d = Some seen \<and> now - no_ObservedAt seen \<le> MaxReportAge \<and>
           rq_Countries r = Some rule \<and> Allows rule (no_Country seen)"
  using assms
  by (auto simp: requirement_met_def observation_map_server countryObservation_def
      ObservationStatusPass_def ObservationStatusUnknown_def split: option.splits if_splits)


definition ex_db_approved :: zdb where
  "ex_db_approved = ex_db\<lparr>
     db_client_devices := [\<lparr>cd_id = 7, cd_workspace_id = 4, cd_user_id = 2, cd_spiffe_id = Some ''s'',
                            cd_revoked_at = None, cd_approved_at = Some 50\<rparr>],
     db_requirements := [ex_req CheckDeviceApproved]\<rparr>"


end
