(* ===== verification/Posture_Reports.thy ===== *)
theory Posture_Reports
  imports Posture
begin

text \<open>
  Correctness of report validation (\<open>validate.go\<close>) and of country rules (\<open>country.go\<close>).
\<close>

section \<open>Reports\<close>

definition check_kept :: "check_input \<Rightarrow> bool" where
  "check_kept c \<longleftrightarrow> TrimSpace (ci_CheckID c) \<in> set recognizedChecks \<and> ci_Status c \<in> set recognizedStatuses \<and>
     ValidString (ci_Detail c) \<and> length (ci_Detail c) \<le> MaxDetailBytes"

definition check_observation :: "check_input \<Rightarrow> observation" where
  "check_observation c =
     \<lparr>os_ReportID = 0, os_CheckID = TrimSpace (ci_CheckID c), os_Status = ci_Status c,
      os_Detail = (if ci_Detail c = [] then None else Some (ci_Detail c))\<rparr>"

lemma validate_checks_ok:
  "validate_checks seen acc cs = Inr obs \<longleftrightarrow>
     (\<forall>c\<in>set cs. TrimSpace (ci_CheckID c) \<noteq> []) \<and> distinct (map (TrimSpace \<circ> ci_CheckID) cs) \<and>
     set (map (TrimSpace \<circ> ci_CheckID) cs) \<inter> set seen = {} \<and>
     obs = acc @ map check_observation (filter check_kept cs)"
proof (induction cs arbitrary: seen acc)
  case (Cons c cs)
  show ?case
    by (simp only: validate_checks.simps Let_def) (auto simp: Cons.IH check_kept_def check_observation_def)
qed auto

lemma kept_not_server: "check_kept c \<Longrightarrow> \<not> IsServerCheck (os_CheckID (check_observation c))"
  by (auto simp: check_kept_def check_observation_def IsServerCheck_def serverCheckDescriptors_def
      recognizedChecks_def CheckOSVersion_def CheckLUKS_def CheckFirewall_def CheckSecureBoot_def
      CheckDeviceApproved_def CheckNetworkCountry_def)

text \<open>The report-level conditions.\<close>

definition report_fields_ok :: "(string \<Rightarrow> uuid option) \<Rightarrow> (uuid \<Rightarrow> string) \<Rightarrow> time \<Rightarrow> report_input \<Rightarrow> bool" where
  "report_fields_ok parse str now input \<longleftrightarrow>
     (\<exists>u. parse (ri_ReportID input) = Some u \<and> str u = ri_ReportID input) \<and>
     now - MaxReportAge \<le> ri_ReportedAt input \<and> ri_ReportedAt input \<le> now + MaxFutureClockSkew \<and>
     length (ri_Checks input) \<le> MaxChecks \<and>
     (\<forall>v\<in>{ri_ClientVersion input, ri_OSName input, ri_OSVersion input}. ValidString v \<and> length v \<le> MaxMetadataBytes)"

definition accepted_report :: "report_input \<Rightarrow> report" where
  "accepted_report input =
     \<lparr>rep_ReportID = ri_ReportID input, rep_ClientVersion = ri_ClientVersion input,
      rep_OSInfo = (ri_OSName input, ri_OSVersion input), rep_ReportedAt = ri_ReportedAt input,
      rep_Observations = map check_observation (filter check_kept (ri_Checks input))\<rparr>"

lemma ValidateReport_steps:
  "ValidateReport parse str now input = Inr rep \<longleftrightarrow>
     report_fields_ok parse str now input \<and> ri_Checks input \<noteq> [] \<and>
     (\<exists>obs. validate_checks [] [] (ri_Checks input) = Inr obs \<and> obs \<noteq> [] \<and>
        rep = (accepted_report input)\<lparr>rep_Observations := obs\<rparr>)"
  unfolding ValidateReport_def report_fields_ok_def accepted_report_def
  by (auto split: option.splits sum.splits if_splits simp: not_less)

text \<open>
  C11. A report is accepted exactly when its identifier is a canonical UUID, its time is inside
  the window, it has at most the maximum number of checks, with distinct non-blank identifiers, its
  metadata are short and valid UTF-8, and at least one check is recognized and well formed. The
  accepted report holds exactly the recognized and well-formed checks, in order; in particular it never
  holds an observation for a check that the controller makes itself.
\<close>

theorem ValidateReport_accepts:
  "ValidateReport parse str now input = Inr rep \<longleftrightarrow>
     report_fields_ok parse str now input \<and>
     (\<forall>c\<in>set (ri_Checks input). TrimSpace (ci_CheckID c) \<noteq> []) \<and>
     distinct (map (TrimSpace \<circ> ci_CheckID) (ri_Checks input)) \<and>
     filter check_kept (ri_Checks input) \<noteq> [] \<and> rep = accepted_report input \<and>
     (\<forall>x\<in>set (rep_Observations rep). \<not> IsServerCheck (os_CheckID x))"
proof -
  have eqv: "(\<exists>obs. validate_checks [] [] (ri_Checks input) = Inr obs \<and> obs \<noteq> [] \<and>
       rep = (accepted_report input)\<lparr>rep_Observations := obs\<rparr>) \<longleftrightarrow>
     (\<forall>c\<in>set (ri_Checks input). TrimSpace (ci_CheckID c) \<noteq> []) \<and>
     distinct (map (TrimSpace \<circ> ci_CheckID) (ri_Checks input)) \<and> filter check_kept (ri_Checks input) \<noteq> [] \<and>
     rep = accepted_report input"
    by (auto simp: validate_checks_ok accepted_report_def)
  have server: "\<forall>x\<in>set (rep_Observations (accepted_report input)). \<not> IsServerCheck (os_CheckID x)"
    using kept_not_server by (auto simp: accepted_report_def)
  show ?thesis
    unfolding ValidateReport_steps eqv using server by (cases "ri_Checks input = []") auto
qed

definition ex_input :: report_input where
  "ex_input = \<lparr>ri_ReportID = ''u'', ri_ReportedAt = 0, ri_ClientVersion = ''1.2'', ri_OSName = ''Linux'',
     ri_OSVersion = ''6'', ri_Checks =
       [\<lparr>ci_CheckID = '' linux.firewall.active'', ci_Status = ''PASS'', ci_Detail = []\<rparr>,
        \<lparr>ci_CheckID = CheckDeviceApproved, ci_Status = ''PASS'', ci_Detail = []\<rparr>]\<rparr>"

theorem ValidateReport_accepts_witness:
  "\<exists>rep. ValidateReport (\<lambda>s. if s = ''u'' then Some 3 else None) (\<lambda>_. ''u'') 0 ex_input = Inr rep \<and>
     map os_CheckID (rep_Observations rep) = [CheckFirewall]"
proof -
  have t: "TrimSpace '' linux.firewall.active'' = CheckFirewall" "TrimSpace CheckDeviceApproved = CheckDeviceApproved"
    by code_simp+
  have v: "ValidString ''1.2''" "ValidString ''Linux''" "ValidString ''6''" "ValidString []"
    by code_simp+
  have neq: "CheckDeviceApproved \<notin> set recognizedChecks" "CheckFirewall \<in> set recognizedChecks" "CheckFirewall \<noteq> []"
    "CheckDeviceApproved \<noteq> []" "CheckFirewall \<noteq> CheckDeviceApproved" "\<not> IsServerCheck CheckFirewall"
    "''PASS'' \<in> set recognizedStatuses"
    by code_simp+
  have kept: "filter check_kept (ri_Checks ex_input) = [hd (ri_Checks ex_input)]"
    using t v neq by (simp add: check_kept_def ex_input_def)
  show ?thesis
    unfolding ValidateReport_accepts kept accepted_report_def
    using t v neq
    by (simp add: ex_input_def check_observation_def report_fields_ok_def MaxReportAge_def MaxFutureClockSkew_def
        duration_defs MaxChecks_def MaxMetadataBytes_def)
qed

section \<open>Country rules\<close>

definition country_key :: "string \<Rightarrow> string" where
  "country_key c = ToUpper (TrimSpace c)"

lemma norm_codes_ok:
  "norm_codes out cs = Inr out' \<longleftrightarrow>
     (\<forall>c\<in>set cs. ValidCountryCode (country_key c)) \<and> out' = fold (\<lambda>c xs. if c \<in> set xs then xs else xs @ [c]) (map country_key cs) out"
  by (induction cs arbitrary: out) (auto simp: Let_def country_key_def)

lemma norm_codes_Inl: "norm_codes out cs = Inl e \<Longrightarrow> e = ErrInvalidCountryRule"
  by (induction cs arbitrary: out) (auto simp: Let_def split: if_splits)

lemma fold_insert_new:
  "set (fold (\<lambda>c xs. if c \<in> set xs then xs else xs @ [c]) cs out) = set out \<union> set cs"
  "distinct out \<Longrightarrow> distinct (fold (\<lambda>c xs. if c \<in> set xs then xs else xs @ [c]) cs out)"
  by (induction cs arbitrary: out) auto

lemma norm_list_ok:
  "norm_list xs = Inr ys \<longleftrightarrow>
     length xs \<le> MaxCountryRuleEntries \<and> (\<forall>c\<in>set xs. ValidCountryCode (country_key c)) \<and>
     ys = sorted_list_of_set (country_key ` set xs)"
proof -
  let ?f = "fold (\<lambda>c xs. if c \<in> set xs then xs else xs @ [c]) (map country_key xs) []"
  have "sort ?f = sorted_list_of_set (country_key ` set xs)"
    using fold_insert_new [where out = "[]" and cs = "map country_key xs"]
    by (intro sorted_distinct_set_unique) auto
  moreover have "norm_codes [] xs = (if \<forall>c\<in>set xs. ValidCountryCode (country_key c) then Inr ?f else Inl ErrInvalidCountryRule)"
    using norm_codes_ok [of "[]" xs ?f] norm_codes_Inl [of "[]" xs] by (cases "norm_codes [] xs") (simp_all add: norm_codes_ok)
  ultimately show ?thesis by (auto simp: norm_list_def)
qed

lemma code_letters:
  assumes "ValidCountryCode c"
  obtains a b where "c = [a, b]" "65 \<le> (of_char a :: nat)" "(of_char a :: nat) \<le> 90"
    "65 \<le> (of_char b :: nat)" "(of_char b :: nat) \<le> 90"
proof -
  from assms obtain a b where "c = [a, b]" by (auto simp: ValidCountryCode_def numeral_2_eq_2 length_Suc_conv)
  then show ?thesis using assms that by (auto simp: ValidCountryCode_def less_eq_char_def)
qed

lemma country_key_code:
  assumes "ValidCountryCode c"
  shows "country_key c = c"
proof -
  from assms obtain a b where c: "c = [a, b]" and r: "65 \<le> (of_char a :: nat)" "(of_char a :: nat) \<le> 90"
    "65 \<le> (of_char b :: nat)" "(of_char b :: nat) \<le> 90" by (rule code_letters)
  have ws: "\<forall>w\<in>set white_space. w \<noteq> [] \<and> \<not> (65 \<le> (of_char (hd w) :: nat) \<and> (of_char (hd w) :: nat) \<le> 90) \<and>
      \<not> (65 \<le> (of_char (last w) :: nat) \<and> (of_char (last w) :: nat) \<le> 90)"
    by (simp add: white_space_def)
  have "TrimSpace c = c"
    using ws r by (intro TrimSpace_id) (auto simp: c)
  moreover have "a \<noteq> CHR 0xC4" "a \<noteq> CHR 0xC5" using r by auto
  ultimately show ?thesis using r by (simp add: country_key_def c upper_char_def)
qed

lemma norm_list_idem: "norm_list xs = Inr ys \<Longrightarrow> norm_list ys = Inr ys"
proof -
  assume "norm_list xs = Inr ys"
  then have len: "length xs \<le> MaxCountryRuleEntries" and val: "\<forall>c\<in>set xs. ValidCountryCode (country_key c)"
    and ys: "ys = sorted_list_of_set (country_key ` set xs)" by (simp_all add: norm_list_ok)
  have "length ys \<le> MaxCountryRuleEntries"
    using len card_image_le [of "set xs" country_key] card_length [of xs] by (simp add: ys)
  moreover have "\<forall>c\<in>set ys. ValidCountryCode c" using val by (auto simp: ys)
  moreover from this have "country_key ` set ys = set ys" by (simp add: country_key_code)
  then have "ys = sorted_list_of_set (country_key ` set ys)" by (simp add: ys)
  ultimately show ?thesis by (auto simp: norm_list_ok country_key_code)
qed

lemma NormalizeCountryRule_lists:
  "NormalizeCountryRule rule = Inr r \<longleftrightarrow>
     norm_list (cr_Allow rule) = Inr (cr_Allow r) \<and> norm_list (cr_Deny rule) = Inr (cr_Deny r) \<and>
     (cr_Allow r \<noteq> [] \<or> cr_Deny r \<noteq> []) \<and> set (cr_Allow r) \<inter> set (cr_Deny r) = {}"
  by (cases "norm_list (cr_Allow rule)"; cases "norm_list (cr_Deny rule)"; cases r)
    (auto simp: NormalizeCountryRule_def)

definition country_codes :: "string list \<Rightarrow> string set" where
  "country_codes xs = country_key ` set xs"

text \<open>
  A country rule is accepted exactly when both lists are within the limit, every entry is a country
  code after trimming and upper-casing, the lists are not both empty and do not overlap; the accepted
  rule holds each list sorted and without duplicates, and accepting it again returns it unchanged. The
  accepted rule allows a country exactly when it is known, not denied, and allowed or no allow list is
  given.
\<close>

theorem NormalizeCountryRule_accepts:
  "(NormalizeCountryRule rule = Inr r \<longleftrightarrow>
     length (cr_Allow rule) \<le> MaxCountryRuleEntries \<and> length (cr_Deny rule) \<le> MaxCountryRuleEntries \<and>
     (\<forall>c\<in>set (cr_Allow rule) \<union> set (cr_Deny rule). ValidCountryCode (country_key c)) \<and>
     (cr_Allow rule \<noteq> [] \<or> cr_Deny rule \<noteq> []) \<and> country_codes (cr_Allow rule) \<inter> country_codes (cr_Deny rule) = {} \<and>
     cr_Allow r = sorted_list_of_set (country_codes (cr_Allow rule)) \<and>
     cr_Deny r = sorted_list_of_set (country_codes (cr_Deny rule))) \<and>
   (NormalizeCountryRule rule = Inr r \<longrightarrow>
      NormalizeCountryRule r = Inr r \<and>
      (\<forall>c. Allows r c \<longleftrightarrow> c \<noteq> [] \<and> c \<notin> country_codes (cr_Deny rule) \<and>
                         (cr_Allow rule = [] \<or> c \<in> country_codes (cr_Allow rule))))"
proof -
  have fin: "finite (country_codes xs)" "country_codes xs = {} \<longleftrightarrow> xs = []" for xs
    by (auto simp: country_codes_def)
  have nil: "sorted_list_of_set (country_codes xs) = [] \<longleftrightarrow> xs = []" for xs
    using fin [of xs] by simp
  have "NormalizeCountryRule r = Inr r" if "NormalizeCountryRule rule = Inr r"
    using that norm_list_idem unfolding NormalizeCountryRule_lists by blast
  moreover have "Allows r c \<longleftrightarrow> c \<noteq> [] \<and> c \<notin> country_codes (cr_Deny rule) \<and>
      (cr_Allow rule = [] \<or> c \<in> country_codes (cr_Allow rule))" if "NormalizeCountryRule rule = Inr r" for c
    using that fin unfolding NormalizeCountryRule_lists norm_list_ok country_codes_def [symmetric]
    by (auto simp: Allows_def)
  moreover have "NormalizeCountryRule rule = Inr r \<longleftrightarrow>
     length (cr_Allow rule) \<le> MaxCountryRuleEntries \<and> length (cr_Deny rule) \<le> MaxCountryRuleEntries \<and>
     (\<forall>c\<in>set (cr_Allow rule) \<union> set (cr_Deny rule). ValidCountryCode (country_key c)) \<and>
     (cr_Allow rule \<noteq> [] \<or> cr_Deny rule \<noteq> []) \<and> country_codes (cr_Allow rule) \<inter> country_codes (cr_Deny rule) = {} \<and>
     cr_Allow r = sorted_list_of_set (country_codes (cr_Allow rule)) \<and>
     cr_Deny r = sorted_list_of_set (country_codes (cr_Deny rule))"
    using fin nil nil [THEN eq_iff_swap]
    unfolding NormalizeCountryRule_lists norm_list_ok country_codes_def [symmetric] by auto
  ultimately show ?thesis by simp
qed

theorem NormalizeCountryRule_accepts_witness:
  "\<exists>r. NormalizeCountryRule \<lparr>cr_Allow = ['' in'', ''IN''], cr_Deny = []\<rparr> = Inr r \<and>
     Allows r ''IN'' \<and> \<not> Allows r ''US'' \<and> NormalizeCountryRule r = Inr r"
proof -
  let ?rule = "\<lparr>cr_Allow = ['' in'', ''IN''], cr_Deny = []\<rparr>"
  have k: "country_key '' in'' = ''IN''" "country_key ''IN'' = ''IN''" "ValidCountryCode ''IN''" by code_simp+
  then have c: "country_codes (cr_Allow ?rule) = {''IN''}" "country_codes (cr_Deny ?rule) = {}"
    by (auto simp: country_codes_def)
  have ok: "NormalizeCountryRule ?rule = Inr \<lparr>cr_Allow = [''IN''], cr_Deny = []\<rparr>"
    unfolding NormalizeCountryRule_accepts [THEN conjunct1] c using k by (simp add: MaxCountryRuleEntries_def)
  let ?r = "\<lparr>cr_Allow = [''IN''], cr_Deny = []\<rparr>"
  from NormalizeCountryRule_accepts [THEN conjunct2, rule_format, OF ok]
  have "NormalizeCountryRule ?r = Inr ?r" "Allows ?r ''IN''" "\<not> Allows ?r ''US''" unfolding c by simp_all
  with ok show ?thesis by blast
qed

end
