(* ===== verification/Acl_Store.thy ===== *)
theory Acl_Store
  imports Posture_Eval
begin

text \<open>
  The queries of \<open>internal/policy/store.go\<close> that the ACL compiler issues, and those of
  \<open>internal/posture\<close> it uses, as functions of the tables. A join is a nested comprehension in the
  order of the FROM clause; a LEFT JOIN yields \<open>None\<close> when nothing matches. The order of a result is the
  query's ORDER BY where it has one.
\<close>

definition left_join :: "('a \<Rightarrow> bool) \<Rightarrow> 'a list \<Rightarrow> 'a option list" where
  "left_join P xs = (case filter P xs of [] \<Rightarrow> [None] | ys \<Rightarrow> map Some ys)"

text \<open>\<open>ORDER BY last_heartbeat_at DESC NULLS LAST\<close>.\<close>

definition freshest :: "time option \<Rightarrow> nat \<times> int" where
  "freshest t = (case t of Some x \<Rightarrow> (0, - x) | None \<Rightarrow> (1, 0))"

section \<open>Rules\<close>

record compiler_row =
  cp_ResourceID :: uuid
  cp_Name :: string
  cp_Address :: string
  cp_Port :: nat
  cp_Protocol :: string
  cp_GroupID :: uuid
  cp_ShieldID :: "uuid option"
  cp_ShieldConnectorID :: "uuid option"
  cp_Status :: string
  cp_RemoteNetworkID :: uuid
  cp_RemoteNetworkName :: string
  cp_ShieldRevoked :: bool

definition shield_revoked :: "zdb \<Rightarrow> resource_row \<Rightarrow> shield_row option \<Rightarrow> bool" where
  "shield_revoked db r s \<longleftrightarrow>
     (case rs_shield_id r of
        None \<Rightarrow> False
      | Some sid \<Rightarrow> (case s of None \<Rightarrow> True | Some x \<Rightarrow> sh_status x = ''revoked'') \<or>
                    sid \<in> set (db_shield_revocations db))"

definition rule_row ::
  "zdb \<Rightarrow> access_rule \<Rightarrow> resource_row \<Rightarrow> remote_network \<Rightarrow> shield_row option \<Rightarrow> compiler_row" where
  "rule_row db ar r rn s =
     \<lparr>cp_ResourceID = ar_resource_id ar, cp_Name = rs_name r, cp_Address = rs_host r,
      cp_Port = rs_port_from r, cp_Protocol = rs_protocol r, cp_GroupID = ar_group_id ar,
      cp_ShieldID = rs_shield_id r,
      cp_ShieldConnectorID = (case s of None \<Rightarrow> None | Some x \<Rightarrow> sh_connector_id x),
      cp_Status = rs_status r, cp_RemoteNetworkID = rs_remote_network_id r,
      cp_RemoteNetworkName = rn_name rn, cp_ShieldRevoked = shield_revoked db r s\<rparr>"

definition ListEnabledRulesWithResources :: "zdb \<Rightarrow> uuid \<Rightarrow> compiler_row list" where
  "ListEnabledRulesWithResources db w =
     [rule_row db ar r rn s.
        ar \<leftarrow> filter (\<lambda>ar. ar_workspace_id ar = w \<and> ar_enabled ar) (db_access_rules db),
        r \<leftarrow> filter (\<lambda>r. rs_id r = ar_resource_id ar \<and> rs_tenant_id r = w \<and> rs_status r \<noteq> ''deleting'') (db_resources db),
        g \<leftarrow> filter (\<lambda>g. gr_id g = ar_group_id ar \<and> gr_workspace_id g = w) (db_groups db),
        rn \<leftarrow> filter (\<lambda>n. rn_id n = rs_remote_network_id r \<and> rn_tenant_id n = w) (db_remote_networks db),
        s \<leftarrow> left_join (\<lambda>s. Some (sh_id s) = rs_shield_id r \<and> sh_tenant_id s = w) (db_shields db)]"

section \<open>Devices\<close>

text \<open>A device authorizes while its user is active in the workspace and no membership row says otherwise.\<close>

definition device_active :: "zdb \<Rightarrow> uuid \<Rightarrow> client_device \<Rightarrow> bool" where
  "device_active db w cd \<longleftrightarrow>
     cd_workspace_id cd = w \<and> cd_revoked_at cd = None \<and>
     (\<exists>u\<in>set (db_users db). us_id u = cd_user_id cd \<and> us_tenant_id u = w \<and> us_status u = ''active'') \<and>
     \<not> (\<exists>m\<in>set (db_workspace_members db).
           wm_workspace_id m = w \<and> wm_user_id m = cd_user_id cd \<and> wm_status m \<noteq> ''active'')"

definition ListActiveDeviceSPIFFEsForGroups :: "zdb \<Rightarrow> uuid \<Rightarrow> uuid list \<Rightarrow> uuid \<Rightarrow> (uuid \<times> string) list" where
  "ListActiveDeviceSPIFFEsForGroups db w groupIDs gid =
     (if gid \<notin> set groupIDs then []
      else remdups [(cd_id cd, the (cd_spiffe_id cd)).
             gm \<leftarrow> filter (\<lambda>m. gm_group_id m = gid) (db_group_members db),
             cd \<leftarrow> filter (\<lambda>d. cd_user_id d = gm_user_id gm \<and> cd_spiffe_id d \<noteq> None \<and> device_active db w d)
                     (db_client_devices db)])"

section \<open>Connectors and relays\<close>

record remote_network_connectors_row =
  rc_RemoteNetworkID :: uuid
  rc_ConnectorID :: uuid
  rc_LanAddr :: string
  rc_TrustDomain :: string
  rc_RelayPublicAddr :: string
  rc_RelayObservedHost :: string
  rc_RelayID :: "uuid option"

definition coalesce :: "string option \<Rightarrow> string" where
  "coalesce v = (case v of None \<Rightarrow> [] | Some s \<Rightarrow> s)"

definition connector_info :: "connector_row \<Rightarrow> relay_row option \<Rightarrow> remote_network_connectors_row" where
  "connector_info c r =
     \<lparr>rc_RemoteNetworkID = co_remote_network_id c, rc_ConnectorID = co_id c, rc_LanAddr = coalesce (co_lan_addr c),
      rc_TrustDomain = coalesce (co_trust_domain c),
      rc_RelayPublicAddr = (case r of None \<Rightarrow> [] | Some x \<Rightarrow> coalesce (rl_public_addr x)),
      rc_RelayObservedHost =
        (case r of
           None \<Rightarrow> []
         | Some x \<Rightarrow> if rl_address_scope x = Some ''public'' then coalesce (rl_observed_ip x) else []),
      rc_RelayID = map_option rl_id r\<rparr>"

text \<open>The relay a connector is placed on, while that relay is active.\<close>

definition placed_relays :: "zdb \<Rightarrow> connector_row \<Rightarrow> relay_row option list" where
  "placed_relays db c =
     concat (map (\<lambda>p. case p of
                        None \<Rightarrow> [None]
                      | Some x \<Rightarrow> left_join (\<lambda>r. rl_id r = crp_relay_id x \<and> rl_status r = ''active'') (db_relays db))
               (left_join (\<lambda>p. crp_connector_id p = co_id c) (db_placements db)))"

definition GetConnectorsForRemoteNetworks :: "zdb \<Rightarrow> uuid \<Rightarrow> uuid list \<Rightarrow> remote_network_connectors_row list" where
  "GetConnectorsForRemoteNetworks db w remoteNetworkIDs =
     (if remoteNetworkIDs = [] then []
      else [connector_info c r.
             c \<leftarrow> sort_key (\<lambda>c. (co_remote_network_id c, freshest (co_last_heartbeat_at c)))
                   (filter (\<lambda>c. co_remote_network_id c \<in> set remoteNetworkIDs \<and> co_tenant_id c = w \<and>
                                co_status c = ''active'') (db_connectors db)),
             r \<leftarrow> placed_relays db c])"

definition GetActiveRelay :: "zdb \<Rightarrow> relay_row option" where
  "GetActiveRelay db =
     (case sort_key (\<lambda>r. freshest (rl_last_heartbeat_at r))
             (filter (\<lambda>r. rl_status r = ''active'' \<and> rl_drain_started_at r = None \<and>
                          (rl_public_addr r \<noteq> None \<or> rl_address_scope r = Some ''public'')) (db_relays db)) of
        [] \<Rightarrow> None | r # _ \<Rightarrow> Some r)"

text \<open>Revoked connectors while a certificate of theirs may still be valid.\<close>

definition connector_gone_or_revoked :: "zdb \<Rightarrow> uuid \<Rightarrow> bool" where
  "connector_gone_or_revoked db i \<longleftrightarrow>
     (case select_one (\<lambda>c. co_id c = i) (db_connectors db) of
        None \<Rightarrow> True
      | Some c \<Rightarrow> co_status c = ''revoked'' \<or> co_revoked_at c \<noteq> None)"

definition revoked_trust_domain :: "zdb \<Rightarrow> uuid \<Rightarrow> uuid \<Rightarrow> string" where
  "revoked_trust_domain db w i =
     (case (case select_one (\<lambda>c. co_id c = i) (db_connectors db) of
              None \<Rightarrow> None | Some c \<Rightarrow> if co_trust_domain c = Some [] then None else co_trust_domain c) of
        Some t \<Rightarrow> t
      | None \<Rightarrow> coalesce (case select_one (\<lambda>x. ws_id x = w) (db_workspaces db) of
                            None \<Rightarrow> None | Some x \<Rightarrow> ws_trust_domain x))"

definition GetRevokedConnectors :: "zdb \<Rightarrow> time \<Rightarrow> uuid \<Rightarrow> (uuid \<times> string) list" where
  "GetRevokedConnectors db now w =
     (if \<exists>x\<in>set (db_workspaces db). ws_id x = w then
        map (\<lambda>i. (i, revoked_trust_domain db w i))
          (sort (remdups (map cc_connector_id
             (filter (\<lambda>cc. cc_tenant_id cc = w \<and> cc_not_after cc > now \<and> connector_gone_or_revoked db (cc_connector_id cc))
               (db_connector_certificates db)))))
      else [])"

section \<open>Posture\<close>

definition EvaluationsForDevices :: "zdb \<Rightarrow> uuid \<Rightarrow> uuid list \<Rightarrow> uuid \<Rightarrow> evaluation list" where
  "EvaluationsForDevices db w deviceIDs d =
     (if d \<in> set deviceIDs then
        map (join_report db)
          (sort_key er_profile_id (filter (\<lambda>e. er_workspace_id e = w \<and> er_device_id e = d) (db_evaluations db)))
      else [])"

definition ResourceProfilesForWorkspace :: "zdb \<Rightarrow> uuid \<Rightarrow> uuid \<Rightarrow> uuid list" where
  "ResourceProfilesForWorkspace db w rid =
     sort [rpp_profile_id pp.
             r \<leftarrow> filter (\<lambda>r. rs_tenant_id r = w \<and> rs_id r = rid) (db_resources db),
             pp \<leftarrow> filter (\<lambda>p. rpp_policy_id p = rs_policy_id r) (db_policy_profiles db)]"

end
