(* ===== verification/Acl_Compiler.thy ===== *)
theory Acl_Compiler
  imports Acl_Store "HOL-Library.AList" "HOL-Library.Word"
begin

text \<open>
  The ACL compiler (\<open>internal/policy/compiler.go\<close>) and the policy preview (\<open>preview.go\<close>). The loops
  over Go maps become loops over the lists of their keys; where the source sorts afterwards so does the
  model, and where it does not (the devices of an entry) the iteration order is the order of
  insertion, on which no result depends.
\<close>

section \<open>Routing\<close>

datatype acl_error = ErrBadWorkspace | ErrQuery | ErrRouteType uuid | ErrPolicyProfileMissing

definition shieldUnavailable :: "compiler_row \<Rightarrow> bool" where
  "shieldUnavailable rule \<longleftrightarrow>
     (if cp_Status rule \<in> {''protecting'', ''protected'', ''failed''}
      then cp_ShieldID rule = None \<or> cp_ShieldRevoked rule else False)"

definition routeTypeForResource :: "string \<Rightarrow> uuid option \<Rightarrow> string option" where
  "routeTypeForResource status shieldID =
     (if status \<in> {''pending'', ''unprotected''} then Some ''connector''
      else if status \<in> {''protecting'', ''protected'', ''failed''}
      then (if shieldID = None then None else Some ''shield'')
      else None)"

definition defaultRelayPort :: string where "defaultRelayPort = ''9093''"

definition resolveConnectorRelayAddr :: "string \<Rightarrow> string \<Rightarrow> string" where
  "resolveConnectorRelayAddr publicAddr observedHost =
     (if publicAddr \<noteq> [] then publicAddr
      else if observedHost \<noteq> [] then JoinHostPort observedHost defaultRelayPort
      else [])"

section \<open>Posture\<close>

definition requiredProfiles :: "profile list \<Rightarrow> (uuid \<Rightarrow> uuid list) \<Rightarrow> uuid \<Rightarrow> profile list" where
  "requiredProfiles profiles resourceProfiles rid =
     List.map_filter (foldl (\<lambda>m p. m(pf_ID p \<mapsto> p)) Map.empty profiles) (resourceProfiles rid)"

text \<open>
  The inner loop over the evaluations of a device: the first evaluation of the profile decides, every
  branch after it leaves the loop.
\<close>

definition profile_expiry :: "time \<Rightarrow> profile \<Rightarrow> evaluation list \<Rightarrow> time option" where
  "profile_expiry now profile evs =
     (case List.find (\<lambda>e. evl_ProfileID e = pf_ID profile) evs of
        None \<Rightarrow> None
      | Some e \<Rightarrow>
          if \<not> evl_Satisfied e then None
          else if evl_ProfileRevision e \<noteq> pf_Revision profile then None
          else case evl_ReportReceivedAt e of
                 None \<Rightarrow> None
               | Some t \<Rightarrow> if t + MaxReportAge > now then Some (t + MaxReportAge) else None)"

fun device_posture :: "time \<Rightarrow> evaluation list \<Rightarrow> bool \<times> time \<Rightarrow> profile list \<Rightarrow> bool \<times> time" where
  "device_posture now evs st [] = st"
| "device_posture now evs (ok, until) (p # ps) =
     (case profile_expiry now p evs of
        None \<Rightarrow> device_posture now evs (ok, until) ps
      | Some t \<Rightarrow> device_posture now evs (True, if t > until then t else until) ps)"

fun gate_devices ::
  "time \<Rightarrow> profile list \<Rightarrow> (uuid \<Rightarrow> evaluation list) \<Rightarrow> string list \<times> time \<Rightarrow> (uuid \<times> string) list \<Rightarrow> string list \<times> time" where
  "gate_devices now required evaluations st [] = st"
| "gate_devices now required evaluations (allowed, until) ((d, spiffe) # ds) =
     (let (ok, t) = device_posture now (evaluations d) (False, zero_time) required in
      gate_devices now required evaluations
        (if ok then (allowed @ [spiffe], if t > until then t else until) else (allowed, until)) ds)"

definition applyPosture ::
  "time \<Rightarrow> (uuid \<times> string) list \<Rightarrow> profile list \<Rightarrow> (uuid \<Rightarrow> evaluation list) \<Rightarrow> string list \<times> time \<times> bool" where
  "applyPosture now entryDevices required evaluations =
     (if required = [] then (map snd entryDevices, zero_time, False)
      else let (allowed, until) = gate_devices now required evaluations ([], zero_time) entryDevices
           in (allowed, until, True))"

section \<open>The snapshot\<close>

type_synonym acl_key = "uuid \<times> string \<times> nat \<times> string"

record acl_entry =
  ae_ResourceId :: uuid
  ae_Name :: string
  ae_Address :: string
  ae_Port :: nat
  ae_Protocol :: string
  ae_AllowedSpiffeIds :: "string list"
  ae_RouteType :: string
  ae_ShieldId :: "uuid option"
  ae_RemoteNetworkId :: uuid
  ae_PreferredConnectorId :: "uuid option"

record acl_connector =
  acn_ConnectorId :: uuid
  acn_ConnectorTunnelAddr :: string
  acn_ConnectorSpiffe :: string
  acn_RelayAddr :: string
  acn_RelaySpiffeId :: string

record acl_remote_network =
  arn_RemoteNetworkId :: uuid
  arn_Name :: string
  arn_Connectors :: "acl_connector list"

record acl_snapshot =
  as_WorkspaceId :: string
  as_Version :: "64 word"
  as_GeneratedAt :: int
  as_Entries :: "acl_entry list"
  as_RemoteNetworks :: "acl_remote_network list"
  as_RelayAddr :: string
  as_RelaySpiffeId :: string
  as_RevokedConnectors :: "(uuid \<times> string) list"

record compiled_acl =
  ca_Snapshot :: acl_snapshot
  ca_ValidUntil :: time

section \<open>Collecting the rules\<close>

record acl_acc =
  ac_keys :: "acl_key list"
  ac_first :: "acl_key \<rightharpoonup> compiler_row \<times> string"
  ac_keyGroups :: "acl_key \<Rightarrow> uuid list"
  ac_groupIDs :: "uuid list"
  ac_rnIDs :: "uuid list"
  ac_rnNames :: "uuid \<rightharpoonup> string"

definition acc_empty :: acl_acc where
  "acc_empty = \<lparr>ac_keys = [], ac_first = Map.empty, ac_keyGroups = (\<lambda>_. []), ac_groupIDs = [],
                ac_rnIDs = [], ac_rnNames = Map.empty\<rparr>"

definition entryKey :: "compiler_row \<Rightarrow> acl_key" where
  "entryKey rule = (cp_ResourceID rule, cp_Address rule, cp_Port rule, cp_Protocol rule)"

definition add_new :: "'a \<Rightarrow> 'a list \<Rightarrow> 'a list" where
  "add_new x xs = (if x \<in> set xs then xs else xs @ [x])"

definition note_rule :: "compiler_row \<Rightarrow> acl_acc \<Rightarrow> acl_acc" where
  "note_rule rule acc =
     acc\<lparr>ac_keyGroups := (ac_keyGroups acc)(entryKey rule := ac_keyGroups acc (entryKey rule) @ [cp_GroupID rule]),
         ac_groupIDs := add_new (cp_GroupID rule) (ac_groupIDs acc),
         ac_rnIDs := add_new (cp_RemoteNetworkID rule) (ac_rnIDs acc),
         ac_rnNames := (ac_rnNames acc)(cp_RemoteNetworkID rule \<mapsto> cp_RemoteNetworkName rule)\<rparr>"

fun collect_rules :: "acl_acc \<Rightarrow> compiler_row list \<Rightarrow> acl_error + acl_acc" where
  "collect_rules acc [] = Inr acc"
| "collect_rules acc (rule # rules) =
     (if shieldUnavailable rule then collect_rules acc rules
      else if ac_first acc (entryKey rule) \<noteq> None then collect_rules (note_rule rule acc) rules
      else case routeTypeForResource (cp_Status rule) (cp_ShieldID rule) of
             None \<Rightarrow> Inl (ErrRouteType (cp_ResourceID rule))
           | Some routeType \<Rightarrow>
               collect_rules (note_rule rule (acc\<lparr>ac_keys := ac_keys acc @ [entryKey rule],
                                ac_first := (ac_first acc)(entryKey rule \<mapsto> (rule, routeType))\<rparr>)) rules)"

section \<open>Entries\<close>

definition entry_devices :: "(uuid \<Rightarrow> (uuid \<times> string) list) \<Rightarrow> uuid list \<Rightarrow> (uuid \<times> string) list" where
  "entry_devices groupSPIFFEs groups =
     foldl (\<lambda>al (d, s). AList.update d s al) [] (concat (map groupSPIFFEs groups))"

definition make_entry :: "acl_acc \<Rightarrow> acl_key \<Rightarrow> string list \<Rightarrow> acl_entry" where
  "make_entry acc key allowed =
     (case key of (rid, address, port, protocol) \<Rightarrow>
        case ac_first acc key of
          Some (rule, routeType) \<Rightarrow>
            \<lparr>ae_ResourceId = rid, ae_Name = cp_Name rule, ae_Address = address, ae_Port = port,
             ae_Protocol = protocol, ae_AllowedSpiffeIds = sort allowed, ae_RouteType = routeType,
             ae_ShieldId = cp_ShieldID rule, ae_RemoteNetworkId = cp_RemoteNetworkID rule,
             ae_PreferredConnectorId = cp_ShieldConnectorID rule\<rparr>
        | None \<Rightarrow>
            \<lparr>ae_ResourceId = rid, ae_Name = [], ae_Address = address, ae_Port = port,
             ae_Protocol = protocol, ae_AllowedSpiffeIds = sort allowed, ae_RouteType = [],
             ae_ShieldId = None, ae_RemoteNetworkId = 0, ae_PreferredConnectorId = None\<rparr>)"

text \<open>The loop over the sorted keys; \<open>gated\<close> and \<open>until\<close> are \<open>hasPostureGatedEntry\<close> and \<open>snapshotValidUntil\<close>.\<close>

fun build_entries ::
  "time \<Rightarrow> acl_acc \<Rightarrow> (uuid \<Rightarrow> (uuid \<times> string) list) \<Rightarrow> (uuid \<Rightarrow> profile list) \<Rightarrow> (uuid \<Rightarrow> evaluation list)
   \<Rightarrow> bool \<times> time \<Rightarrow> acl_key list \<Rightarrow> acl_entry list \<times> time" where
  "build_entries now acc groupSPIFFEs required evaluations (gated, until) [] = ([], until)"
| "build_entries now acc groupSPIFFEs required evaluations (gated, until) (key # keys) =
     (let (allowed, pairValidUntil, isGated) =
            applyPosture now (entry_devices groupSPIFFEs (ac_keyGroups acc key)) (required (fst key)) evaluations;
          st = (if isGated \<and> allowed \<noteq> [] then
                  (if \<not> gated then (True, pairValidUntil)
                   else if pairValidUntil < until then (gated, pairValidUntil) else (gated, until))
                else (gated, until));
          (entries, t) = build_entries now acc groupSPIFFEs required evaluations st keys
      in (make_entry acc key allowed # entries, t))"

section \<open>Connectors\<close>

definition make_connector :: "(uuid \<Rightarrow> string) \<Rightarrow> remote_network_connectors_row \<Rightarrow> acl_connector" where
  "make_connector utext row =
     (let host = (case SplitHostPort (rc_LanAddr row) of Some (h, _) \<Rightarrow> h | None \<Rightarrow> rc_LanAddr row) in
      \<lparr>acn_ConnectorId = rc_ConnectorID row,
       acn_ConnectorTunnelAddr = (if host \<noteq> [] then JoinHostPort host ''9092'' else []),
       acn_ConnectorSpiffe =
         (if rc_TrustDomain row \<noteq> [] then ConnectorSPIFFEID (rc_TrustDomain row) (utext (rc_ConnectorID row)) else []),
       acn_RelayAddr = resolveConnectorRelayAddr (rc_RelayPublicAddr row) (rc_RelayObservedHost row),
       acn_RelaySpiffeId = (case rc_RelayID row of None \<Rightarrow> [] | Some i \<Rightarrow> RelaySPIFFEID (utext i))\<rparr>)"

definition make_remote_network ::
  "(uuid \<Rightarrow> string) \<Rightarrow> acl_acc \<Rightarrow> remote_network_connectors_row list \<Rightarrow> uuid \<Rightarrow> acl_remote_network" where
  "make_remote_network utext acc rows i =
     \<lparr>arn_RemoteNetworkId = i, arn_Name = (case ac_rnNames acc i of Some n \<Rightarrow> n | None \<Rightarrow> []),
      arn_Connectors = map (make_connector utext) (filter (\<lambda>r. rc_RemoteNetworkID r = i) rows)\<rparr>"

definition relay_coordinates :: "(uuid \<Rightarrow> string) \<Rightarrow> relay_row option \<Rightarrow> string \<times> string" where
  "relay_coordinates utext relay =
     (case relay of
        None \<Rightarrow> ([], [])
      | Some r \<Rightarrow>
          let addr = (if coalesce (rl_public_addr r) \<noteq> [] then coalesce (rl_public_addr r)
                      else if coalesce (rl_address_scope r) = ''public'' \<and> coalesce (rl_observed_ip r) \<noteq> []
                      then JoinHostPort (coalesce (rl_observed_ip r)) defaultRelayPort
                      else [])
          in (addr, if addr \<noteq> [] then RelaySPIFFEID (utext (rl_id r)) else []))"

section \<open>Compiling\<close>

datatype acl_query =
  QRules | QDevices | QConnectors | QAclProfiles | QResourceProfiles | QEvaluations | QRelay | QRevoked

definition all_device_ids :: "(uuid \<Rightarrow> (uuid \<times> string) list) \<Rightarrow> uuid list \<Rightarrow> uuid list" where
  "all_device_ids groupSPIFFEs groupIDs = remdups (map fst (concat (map groupSPIFFEs groupIDs)))"

text \<open>
  \<open>parse\<close> is \<open>uuid.Parse\<close>, \<open>utext\<close> the text form of an identifier, \<open>fails\<close> says which queries fail,
  \<open>version\<close> is \<open>notifier.Version\<close>, \<open>now\<close> the clock of the controller and \<open>dbnow\<close> that of the database.
\<close>

definition CompileACLSnapshot ::
  "(string \<Rightarrow> uuid option) \<Rightarrow> (uuid \<Rightarrow> string) \<Rightarrow> (acl_query \<Rightarrow> bool) \<Rightarrow> 64 word \<Rightarrow> time \<Rightarrow> time \<Rightarrow> string \<Rightarrow> zdb
   \<Rightarrow> acl_error + compiled_acl" where
  "CompileACLSnapshot parse utext fails version now dbnow workspaceID db =
     (case parse workspaceID of
        None \<Rightarrow> Inl ErrBadWorkspace
      | Some w \<Rightarrow>
          if fails QRules then Inl ErrQuery
          else case collect_rules acc_empty (ListEnabledRulesWithResources db w) of
            Inl e \<Rightarrow> Inl e
          | Inr acc \<Rightarrow>
              if \<exists>q\<in>{QDevices, QConnectors, QAclProfiles, QResourceProfiles, QEvaluations, QRelay, QRevoked}. fails q
              then Inl ErrQuery
              else
                let groupIDs = sort (ac_groupIDs acc);
                    rnIDs = sort (ac_rnIDs acc);
                    groupSPIFFEs = ListActiveDeviceSPIFFEsForGroups db w groupIDs;
                    connectorRows = GetConnectorsForRemoteNetworks db w rnIDs;
                    required = requiredProfiles (ListProfiles db w) (ResourceProfilesForWorkspace db w);
                    evaluations = EvaluationsForDevices db w (all_device_ids groupSPIFFEs groupIDs);
                    (entries, validUntil) =
                      build_entries now acc groupSPIFFEs required evaluations (False, zero_time) (sort (ac_keys acc));
                    (relayAddr, relaySPIFFEID) = relay_coordinates utext (GetActiveRelay db)
                in Inr \<lparr>ca_Snapshot =
                     \<lparr>as_WorkspaceId = workspaceID, as_Version = version, as_GeneratedAt = now div second,
                      as_Entries = entries,
                      as_RemoteNetworks = map (make_remote_network utext acc connectorRows) rnIDs,
                      as_RelayAddr = relayAddr, as_RelaySpiffeId = relaySPIFFEID,
                      as_RevokedConnectors =
                        map (\<lambda>(i, td). (i, ConnectorSPIFFEID td (utext i))) (GetRevokedConnectors db dbnow w)\<rparr>,
                     ca_ValidUntil = validUntil\<rparr>)"

section \<open>Preview\<close>

definition PreviewResourcePolicy ::
  "(string \<Rightarrow> uuid option) \<Rightarrow> (acl_query \<Rightarrow> bool) \<Rightarrow> time \<Rightarrow> string \<Rightarrow> uuid list \<Rightarrow> uuid list \<Rightarrow> zdb
   \<Rightarrow> acl_error + nat \<times> nat" where
  "PreviewResourcePolicy parse fails now workspaceID resourceIDs profileIDs db =
     (case parse workspaceID of
        None \<Rightarrow> Inl ErrBadWorkspace
      | Some w \<Rightarrow>
          if fails QRules \<or> fails QDevices \<or> fails QAclProfiles then Inl ErrQuery
          else
            let groupIDs = sort (remdups (map cp_GroupID
                  (filter (\<lambda>r. cp_ResourceID r \<in> set resourceIDs) (ListEnabledRulesWithResources db w))));
                devices = entry_devices (ListActiveDeviceSPIFFEsForGroups db w groupIDs) groupIDs;
                byID = foldl (\<lambda>m p. m(pf_ID p \<mapsto> p)) Map.empty (ListProfiles db w)
            in if \<exists>i\<in>set profileIDs. byID i = None then Inl ErrPolicyProfileMissing
               else if fails QEvaluations then Inl ErrQuery
               else let (allowed, _, _) = applyPosture now devices (map (the \<circ> byID) profileIDs)
                          (EvaluationsForDevices db w (map fst devices))
                    in Inr (length devices, length allowed))"

end
