(* ===== verification/Acl_Correct.thy ===== *)
theory Acl_Correct
  imports Acl_Compiler
begin

text \<open>
  What the ACL compiler computes, against a declarative reading of the tables: who may reach which
  resource, that nothing of another workspace enters a snapshot, how long a snapshot is valid, and what a
  revoked shield does.
\<close>

section \<open>Collecting rules\<close>

definition live_rules :: "compiler_row list \<Rightarrow> compiler_row list" where
  "live_rules rows = filter (\<lambda>r. \<not> shieldUnavailable r) rows"

definition row_route :: "compiler_row \<Rightarrow> string option" where
  "row_route r = routeTypeForResource (cp_Status r) (cp_ShieldID r)"

definition first_ok :: "compiler_row list \<Rightarrow> (acl_key \<rightharpoonup> compiler_row \<times> string) \<Rightarrow> bool" where
  "first_ok rows first \<longleftrightarrow>
     (\<forall>k. case first k of
            None \<Rightarrow> k \<notin> entryKey ` set (live_rules rows)
          | Some x \<Rightarrow> fst x \<in> set (live_rules rows) \<and> entryKey (fst x) = k \<and> row_route (fst x) = Some (snd x))"

definition acc_ok :: "compiler_row list \<Rightarrow> acl_acc \<Rightarrow> bool" where
  "acc_ok rows acc \<longleftrightarrow>
     distinct (ac_keys acc) \<and> set (ac_keys acc) = entryKey ` set (live_rules rows) \<and>
     ac_keyGroups acc = (\<lambda>k. map cp_GroupID (filter (\<lambda>r. entryKey r = k) (live_rules rows))) \<and>
     distinct (ac_groupIDs acc) \<and> set (ac_groupIDs acc) = cp_GroupID ` set (live_rules rows) \<and>
     distinct (ac_rnIDs acc) \<and> set (ac_rnIDs acc) = cp_RemoteNetworkID ` set (live_rules rows) \<and>
     first_ok rows (ac_first acc)"

lemma first_ok_None: "first_ok rows first \<Longrightarrow> first k = None \<Longrightarrow> k \<notin> entryKey ` set (live_rules rows)"
  unfolding first_ok_def by (drule spec [of _ k]) simp

lemma first_ok_Some:
  "first_ok rows first \<Longrightarrow> first k = Some x \<Longrightarrow>
     fst x \<in> set (live_rules rows) \<and> entryKey (fst x) = k \<and> row_route (fst x) = Some (snd x)"
  unfolding first_ok_def by (drule spec [of _ k]) simp

lemma first_okI:
  assumes "\<And>k. first k = None \<Longrightarrow> k \<notin> entryKey ` set (live_rules rows)"
    and "\<And>k x. first k = Some x \<Longrightarrow>
       fst x \<in> set (live_rules rows) \<and> entryKey (fst x) = k \<and> row_route (fst x) = Some (snd x)"
  shows "first_ok rows first"
  unfolding first_ok_def
proof (rule allI)
  fix k
  show "case first k of
            None \<Rightarrow> k \<notin> entryKey ` set (live_rules rows)
          | Some x \<Rightarrow> fst x \<in> set (live_rules rows) \<and> entryKey (fst x) = k \<and> row_route (fst x) = Some (snd x)"
    using assms(1) [of k] assms(2) [of k] by (cases "first k") simp_all
qed

lemma live_rules_append [simp]:
  "live_rules (xs @ [r]) = (if shieldUnavailable r then live_rules xs else live_rules xs @ [r])"
  by (simp add: live_rules_def)

lemma set_add_new [simp]: "set (add_new x xs) = insert x (set xs)"
  by (auto simp: add_new_def)

lemma distinct_add_new [simp]: "distinct xs \<Longrightarrow> distinct (add_new x xs)"
  by (auto simp: add_new_def)

lemma acc_ok_empty: "acc_ok [] acc_empty"
  by (auto simp: acc_ok_def acc_empty_def live_rules_def intro!: first_okI)

lemma acc_ok_skip: "acc_ok rows acc \<Longrightarrow> shieldUnavailable r \<Longrightarrow> acc_ok (rows @ [r]) acc"
  unfolding acc_ok_def first_ok_def by (simp only: live_rules_append if_True simp_thms)

lemma note_rule_sel [simp]:
  "ac_keys (note_rule r acc) = ac_keys acc" "ac_first (note_rule r acc) = ac_first acc"
  "ac_keyGroups (note_rule r acc) = (ac_keyGroups acc)(entryKey r := ac_keyGroups acc (entryKey r) @ [cp_GroupID r])"
  "ac_groupIDs (note_rule r acc) = add_new (cp_GroupID r) (ac_groupIDs acc)"
  "ac_rnIDs (note_rule r acc) = add_new (cp_RemoteNetworkID r) (ac_rnIDs acc)"
  by (simp_all add: note_rule_def)

lemma groups_snoc:
  "(\<lambda>k. map cp_GroupID (filter (\<lambda>q. entryKey q = k) (rows @ [r]))) =
   (\<lambda>k. map cp_GroupID (filter (\<lambda>q. entryKey q = k) rows))
     (entryKey r := map cp_GroupID (filter (\<lambda>q. entryKey q = entryKey r) rows) @ [cp_GroupID r])"
  by (rule ext) auto

lemma acc_ok_known:
  assumes "acc_ok rows acc" and "\<not> shieldUnavailable r" and "ac_first acc (entryKey r) = Some x"
  shows "acc_ok (rows @ [r]) (note_rule r acc)"
proof -
  have f: "first_ok rows (ac_first acc)" using assms(1) by (simp add: acc_ok_def)
  from first_ok_Some [OF f assms(3)] have k: "entryKey r \<in> entryKey ` set (live_rules rows)" by (metis imageI)
  then have img: "entryKey ` set (live_rules (rows @ [r])) = entryKey ` set (live_rules rows)" by auto
  have "first_ok (rows @ [r]) (ac_first acc)"
  proof (rule first_okI)
    show "k \<notin> entryKey ` set (live_rules (rows @ [r]))" if "ac_first acc k = None" for k
      unfolding img by (rule first_ok_None [OF f that])
    show "fst x \<in> set (live_rules (rows @ [r])) \<and> entryKey (fst x) = k \<and> row_route (fst x) = Some (snd x)"
      if "ac_first acc k = Some x" for k x
      using first_ok_Some [OF f that] by simp
  qed
  then show ?thesis using assms(1,2) k unfolding acc_ok_def by (auto simp: groups_snoc)
qed

lemma acc_ok_new:
  assumes "acc_ok rows acc" and "\<not> shieldUnavailable r" and "ac_first acc (entryKey r) = None"
    and "row_route r = Some rt"
  shows "acc_ok (rows @ [r]) (note_rule r (acc\<lparr>ac_keys := ac_keys acc @ [entryKey r],
           ac_first := (ac_first acc)(entryKey r \<mapsto> (r, rt))\<rparr>))"
proof -
  have f: "first_ok rows (ac_first acc)" using assms(1) by (simp add: acc_ok_def)
  have "entryKey r \<notin> set (ac_keys acc)"
    using first_ok_None [OF f assms(3)] assms(1) by (simp add: acc_ok_def)
  moreover have "first_ok (rows @ [r]) ((ac_first acc)(entryKey r \<mapsto> (r, rt)))"
  proof (rule first_okI)
    show "k \<notin> entryKey ` set (live_rules (rows @ [r]))" if "((ac_first acc)(entryKey r \<mapsto> (r, rt))) k = None" for k
    proof -
      have "k \<noteq> entryKey r" "ac_first acc k = None" using that by (auto split: if_splits)
      then show ?thesis using first_ok_None [OF f, of k] assms(2) by simp
    qed
    show "fst x \<in> set (live_rules (rows @ [r])) \<and> entryKey (fst x) = k \<and> row_route (fst x) = Some (snd x)"
      if "((ac_first acc)(entryKey r \<mapsto> (r, rt))) k = Some x" for k x
      using that first_ok_Some [OF f, of k x] assms(2,4) by (cases "k = entryKey r") auto
  qed
  ultimately show ?thesis using assms(1,2) unfolding acc_ok_def by (auto simp: groups_snoc)
qed

lemma collect_rules_ok:
  "collect_rules acc rows = Inr acc' \<Longrightarrow> acc_ok done acc \<Longrightarrow> acc_ok (done @ rows) acc'"
proof (induction rows arbitrary: acc "done")
  case (Cons r rows)
  have split: "done @ r # rows = (done @ [r]) @ rows" by simp
  show ?case
  proof (cases "shieldUnavailable r")
    case True
    then have "acc_ok (done @ [r]) acc" using acc_ok_skip [OF Cons.prems(2)] by simp
    with Cons True show ?thesis unfolding split by (intro Cons.IH) auto
  next
    case live: False
    show ?thesis
    proof (cases "ac_first acc (entryKey r)")
      case None
      with Cons.prems live obtain rt where "row_route r = Some rt"
        and "collect_rules (note_rule r (acc\<lparr>ac_keys := ac_keys acc @ [entryKey r],
               ac_first := (ac_first acc)(entryKey r \<mapsto> (r, rt))\<rparr>)) rows = Inr acc'"
        by (auto simp: row_route_def split: option.splits)
      then show ?thesis
        unfolding split using acc_ok_new [OF Cons.prems(2) live None] by (intro Cons.IH)
    next
      case (Some x)
      with Cons.prems live have "collect_rules (note_rule r acc) rows = Inr acc'" by simp
      then show ?thesis
        unfolding split using acc_ok_known [OF Cons.prems(2) live Some] by (intro Cons.IH)
    qed
  qed
qed simp

text \<open>The only error of the loop is a resource whose status the compiler does not know.\<close>

lemma routed_unless_unknown:
  assumes "\<not> shieldUnavailable r"
    and "cp_Status r \<in> {''pending'', ''unprotected'', ''protecting'', ''protected'', ''failed''}"
  shows "row_route r \<noteq> None"
  using assms by (auto simp: row_route_def shieldUnavailable_def routeTypeForResource_def)

lemma collect_rules_total:
  assumes "\<forall>r\<in>set rows. cp_Status r \<in> {''pending'', ''unprotected'', ''protecting'', ''protected'', ''failed''}"
  shows "\<exists>acc'. collect_rules acc rows = Inr acc'"
  using assms
proof (induction rows arbitrary: acc)
  case (Cons r rows)
  then have "\<And>acc. \<exists>acc'. collect_rules acc rows = Inr acc'" by simp
  moreover have "shieldUnavailable r \<or> (\<exists>rt. routeTypeForResource (cp_Status r) (cp_ShieldID r) = Some rt)"
    using routed_unless_unknown [of r] Cons.prems by (auto simp: row_route_def)
  ultimately show ?case by auto
qed simp

section \<open>Devices of an entry\<close>

lemma set_foldl_update:
  assumes "\<forall>(d, s)\<in>set al \<union> set ps. f d = s" and "distinct (map fst al)"
  shows "set (foldl (\<lambda>al (d, s). AList.update d s al) al ps) = set al \<union> set ps \<and>
         distinct (map fst (foldl (\<lambda>al (d, s). AList.update d s al) al ps))"
  using assms
proof (induction ps arbitrary: al)
  case (Cons p ps)
  obtain d s where p: "p = (d, s)" by (cases p)
  have upd: "set (AList.update d s al) = insert (d, s) (set al)"
  proof (cases "d \<in> fst ` set al")
    case True
    then obtain s' where "(d, s') \<in> set al" by force
    moreover from this Cons.prems have "s' = s" by (force simp: p)
    ultimately have "(d, s) \<in> set al" by simp
    moreover from this Cons.prems(2) have "AList.update d s al = al"
      by (induction al) (auto simp: rev_image_eqI)
    ultimately show ?thesis by auto
  next
    case False
    then show ?thesis by (induction al) auto
  qed
  have dist: "distinct (map fst (AList.update d s al))" using Cons.prems(2) by (rule distinct_update)
  have "\<forall>(d, s)\<in>set (AList.update d s al) \<union> set ps. f d = s" using Cons.prems(1) by (auto simp: upd p)
  from Cons.IH [OF this dist] show ?case by (simp add: p upd)
qed simp

section \<open>Gating by posture\<close>

definition device_authorized :: "time \<Rightarrow> profile list \<Rightarrow> evaluation list \<Rightarrow> bool" where
  "device_authorized now required evs \<longleftrightarrow> (\<exists>p\<in>set required. profile_expiry now p evs \<noteq> None)"

definition device_until :: "time \<Rightarrow> profile list \<Rightarrow> evaluation list \<Rightarrow> time" where
  "device_until now required evs = snd (device_posture now evs (False, zero_time) required)"

lemma device_posture_fst:
  "fst (device_posture now evs st ps) \<longleftrightarrow> fst st \<or> device_authorized now ps evs"
  by (induction now evs st ps rule: device_posture.induct) (auto simp: device_authorized_def split: option.splits)

lemma device_posture_snd:
  "snd (device_posture now evs st ps) = foldl max (snd st) (List.map_filter (\<lambda>p. profile_expiry now p evs) ps)"
  by (induction now evs st ps rule: device_posture.induct)
    (auto simp: List.map_filter_simps max_def split: option.splits)

lemma foldl_max_ge: "(a :: int) \<le> foldl max a xs" "x \<in> set xs \<Longrightarrow> x \<le> foldl max a xs"
proof -
  show ge: "a \<le> foldl max a xs" for a and xs :: "int list"
  proof (induction xs arbitrary: a)
    case (Cons y ys)
    show ?case using Cons.IH [of "max a y"] by simp
  qed simp
  show "x \<in> set xs \<Longrightarrow> x \<le> foldl max a xs"
  proof (induction xs arbitrary: a)
    case (Cons y ys)
    then show ?case using ge [of "max a y" ys] by (cases "x \<in> set ys") (auto simp: Cons.IH)
  qed simp
qed

lemma foldl_max_in: "foldl max (a :: int) xs = a \<or> foldl max a xs \<in> set xs"
  by (induction xs arbitrary: a) (auto simp: max_def)

lemma gate_devices_alt:
  "gate_devices now required evaluations (allowed, until) ds =
     (let ok = filter (\<lambda>p. device_authorized now required (evaluations (fst p))) ds in
      (allowed @ map snd ok, foldl max until (map (\<lambda>p. device_until now required (evaluations (fst p))) ok)))"
proof (induction ds arbitrary: allowed until)
  case (Cons x ds)
  obtain d s where x: "x = (d, s)" by (cases x)
  obtain ok t where p: "device_posture now (evaluations d) (False, zero_time) required = (ok, t)" by fastforce
  have "ok = device_authorized now required (evaluations d)"
    using device_posture_fst [of now "evaluations d" "(False, zero_time)" required] by (simp add: p)
  moreover have "t = device_until now required (evaluations d)" by (simp add: device_until_def p)
  ultimately show ?case using Cons.IH by (simp add: x p Let_def max_def)
qed simp

lemma applyPosture_allowed:
  "fst (applyPosture now ds required evaluations) =
     map snd (filter (\<lambda>p. required = [] \<or> device_authorized now required (evaluations (fst p))) ds)"
  by (simp add: applyPosture_def gate_devices_alt Let_def)

lemma applyPosture_until:
  "fst (snd (applyPosture now ds required evaluations)) =
     (if required = [] then zero_time
      else foldl max zero_time (map (\<lambda>p. device_until now required (evaluations (fst p)))
             (filter (\<lambda>p. device_authorized now required (evaluations (fst p))) ds)))"
  "snd (snd (applyPosture now ds required evaluations)) \<longleftrightarrow> required \<noteq> []"
  by (simp_all add: applyPosture_def gate_devices_alt Let_def)

lemma build_entries_fst:
  "fst (build_entries now acc gs required evaluations st keys) =
     map (\<lambda>k. make_entry acc k (fst (applyPosture now (entry_devices gs (ac_keyGroups acc k)) (required (fst k)) evaluations))) keys"
proof (induction keys arbitrary: st)
  case Nil
  then show ?case by (cases st) simp
next
  case (Cons k keys)
  then show ?case by (cases st) (simp add: Let_def split_beta)
qed

section \<open>What the queries select\<close>

lemma set_left_join:
  "s \<in> set (left_join P xs) \<longleftrightarrow> (\<exists>x\<in>set xs. P x \<and> s = Some x) \<or> s = None \<and> (\<forall>x\<in>set xs. \<not> P x)"
proof (cases "filter P xs")
  case Nil
  then show ?thesis by (auto simp: left_join_def filter_empty_conv)
next
  case (Cons y ys)
  then have "left_join P xs = map Some (filter P xs)" by (simp add: left_join_def)
  then have "set (left_join P xs) = Some ` {x \<in> set xs. P x}" by simp
  moreover have "y \<in> set (filter P xs)" unfolding Cons by simp
  ultimately show ?thesis by auto
qed

text \<open>A resource is routed unless it is behind a shield that is gone, revoked or not of the workspace.\<close>

definition shielded :: "string \<Rightarrow> bool" where
  "shielded status \<longleftrightarrow> status \<in> {''protecting'', ''protected'', ''failed''}"

definition resource_routable :: "zdb \<Rightarrow> uuid \<Rightarrow> resource_row \<Rightarrow> bool" where
  "resource_routable db w r \<longleftrightarrow>
     (shielded (rs_status r) \<longrightarrow>
        (\<exists>sh\<in>set (db_shields db). rs_shield_id r = Some (sh_id sh) \<and> sh_tenant_id sh = w \<and>
           sh_status sh \<noteq> ''revoked'' \<and> sh_id sh \<notin> set (db_shield_revocations db)))"

lemma rule_row_unavailable:
  "shieldUnavailable (rule_row db ar r rn s) \<longleftrightarrow>
     shielded (rs_status r) \<and> (case rs_shield_id r of None \<Rightarrow> True | Some sid \<Rightarrow> shield_revoked db r s)"
  by (auto simp: shieldUnavailable_def shielded_def rule_row_def shield_revoked_def split: option.splits)

lemma routable_iff:
  "(\<exists>s\<in>set (left_join (\<lambda>s. Some (sh_id s) = rs_shield_id r \<and> sh_tenant_id s = w) (db_shields db)).
      \<not> shieldUnavailable (rule_row db ar r rn s)) \<longleftrightarrow> resource_routable db w r"
proof (cases "shielded (rs_status r)")
  case True
  then show ?thesis
    unfolding rule_row_unavailable resource_routable_def Bex_def set_left_join
    by (cases "rs_shield_id r") (auto simp: shield_revoked_def)
next
  case False
  have "\<exists>s. s \<in> set (left_join P xs)" for P :: "shield_row \<Rightarrow> bool" and xs
    unfolding set_left_join by blast
  with False show ?thesis unfolding rule_row_unavailable resource_routable_def by auto
qed

text \<open>A rule of the workspace that grants a group a resource.\<close>

definition grants :: "zdb \<Rightarrow> uuid \<Rightarrow> access_rule \<Rightarrow> resource_row \<Rightarrow> bool" where
  "grants db w ar r \<longleftrightarrow>
     ar \<in> set (db_access_rules db) \<and> ar_workspace_id ar = w \<and> ar_enabled ar \<and>
     r \<in> set (db_resources db) \<and> rs_id r = ar_resource_id ar \<and> rs_tenant_id r = w \<and> rs_status r \<noteq> ''deleting'' \<and>
     (\<exists>g\<in>set (db_groups db). gr_id g = ar_group_id ar \<and> gr_workspace_id g = w) \<and>
     (\<exists>n\<in>set (db_remote_networks db). rn_id n = rs_remote_network_id r \<and> rn_tenant_id n = w)"

definition resource_key :: "resource_row \<Rightarrow> acl_key" where
  "resource_key r = (rs_id r, rs_host r, rs_port_from r, rs_protocol r)"

lemma enabled_rules_set:
  "row \<in> set (ListEnabledRulesWithResources db w) \<longleftrightarrow>
     (\<exists>ar r n s. grants db w ar r \<and> n \<in> set (db_remote_networks db) \<and> rn_id n = rs_remote_network_id r \<and>
        rn_tenant_id n = w \<and>
        s \<in> set (left_join (\<lambda>s. Some (sh_id s) = rs_shield_id r \<and> sh_tenant_id s = w) (db_shields db)) \<and>
        row = rule_row db ar r n s)"
  unfolding ListEnabledRulesWithResources_def grants_def by (simp add: Bex_def) blast

lemma rule_row_key:
  "grants db w ar r \<Longrightarrow> entryKey (rule_row db ar r n s) = resource_key r"
  "cp_GroupID (rule_row db ar r n s) = ar_group_id ar"
  "cp_RemoteNetworkID (rule_row db ar r n s) = rs_remote_network_id r"
  by (simp_all add: entryKey_def rule_row_def resource_key_def grants_def)

lemma live_rules_iff:
  "(\<exists>row\<in>set (live_rules (ListEnabledRulesWithResources db w)). entryKey row = k \<and> cp_GroupID row = g) \<longleftrightarrow>
     (\<exists>ar r. grants db w ar r \<and> resource_routable db w r \<and> resource_key r = k \<and> ar_group_id ar = g)"
  (is "?L \<longleftrightarrow> ?R")
proof
  assume ?L
  then obtain row where row: "row \<in> set (ListEnabledRulesWithResources db w)" "\<not> shieldUnavailable row"
    "entryKey row = k" "cp_GroupID row = g" by (auto simp: live_rules_def)
  from row(1) obtain ar r n s where r: "grants db w ar r"
    "s \<in> set (left_join (\<lambda>s. Some (sh_id s) = rs_shield_id r \<and> sh_tenant_id s = w) (db_shields db))"
    "row = rule_row db ar r n s" unfolding enabled_rules_set by blast
  then have "resource_routable db w r" using row(2) routable_iff [of r w db ar n] by blast
  then show ?R using r row(3,4) rule_row_key by metis
next
  assume ?R
  then obtain ar r where r: "grants db w ar r" "resource_routable db w r" "resource_key r = k" "ar_group_id ar = g" by blast
  then obtain n where n: "n \<in> set (db_remote_networks db)" "rn_id n = rs_remote_network_id r" "rn_tenant_id n = w"
    by (auto simp: grants_def)
  from r(2) routable_iff [of r w db ar n] obtain s where
    s: "s \<in> set (left_join (\<lambda>s. Some (sh_id s) = rs_shield_id r \<and> sh_tenant_id s = w) (db_shields db))"
      "\<not> shieldUnavailable (rule_row db ar r n s)" by blast
  have "rule_row db ar r n s \<in> set (ListEnabledRulesWithResources db w)"
    unfolding enabled_rules_set using r(1) n s(1) by blast
  with s(2) have "rule_row db ar r n s \<in> set (live_rules (ListEnabledRulesWithResources db w))"
    by (simp add: live_rules_def)
  then show ?L using rule_row_key(1) [OF r(1)] rule_row_key(2) r(3,4) by metis
qed

section \<open>Required profiles and evaluations\<close>

lemma set_map_filter: "set (List.map_filter f xs) = {y. \<exists>x\<in>set xs. f x = Some y}"
  by (induction xs) (auto simp: List.map_filter_simps split: option.splits)

lemma foldl_by_key:
  "distinct (map k xs) \<Longrightarrow>
   foldl (\<lambda>m x. m(k x \<mapsto> x)) m0 xs i = (case List.find (\<lambda>x. k x = i) xs of Some x \<Rightarrow> Some x | None \<Rightarrow> m0 i)"
proof (induction xs arbitrary: m0)
  case (Cons x xs)
  have "k x = i \<Longrightarrow> List.find (\<lambda>y. k y = i) xs = None" using Cons.prems by (auto simp: find_None_iff) (metis imageI)
  then show ?case using Cons by (auto split: option.splits)
qed simp

definition required_by :: "zdb \<Rightarrow> uuid \<Rightarrow> uuid \<Rightarrow> profile \<Rightarrow> bool" where
  "required_by db w rid p \<longleftrightarrow>
     p \<in> set (db_profiles db) \<and> pf_WorkspaceID p = w \<and>
     (\<exists>r\<in>set (db_resources db). rs_tenant_id r = w \<and> rs_id r = rid \<and>
        (\<exists>pp\<in>set (db_policy_profiles db). rpp_policy_id pp = rs_policy_id r \<and> rpp_profile_id pp = pf_ID p))"

lemma resource_profiles_set:
  "i \<in> set (ResourceProfilesForWorkspace db w rid) \<longleftrightarrow>
     (\<exists>r\<in>set (db_resources db). rs_tenant_id r = w \<and> rs_id r = rid \<and>
        (\<exists>pp\<in>set (db_policy_profiles db). rpp_policy_id pp = rs_policy_id r \<and> rpp_profile_id pp = i))"
  unfolding ResourceProfilesForWorkspace_def by (simp add: image_iff) blast

lemma set_requiredProfiles:
  assumes "distinct (map pf_ID (db_profiles db))"
  shows "p \<in> set (requiredProfiles (ListProfiles db w) (ResourceProfilesForWorkspace db w) rid) \<longleftrightarrow>
           required_by db w rid p"
proof -
  have d: "distinct (map pf_ID (ListProfiles db w))"
    using assms by (auto simp: ListProfiles_def distinct_map intro: inj_on_subset)
  have mem: "q \<in> set (ListProfiles db w) \<longleftrightarrow> q \<in> set (db_profiles db) \<and> pf_WorkspaceID q = w" for q
    by (auto simp: ListProfiles_def)
  have "foldl (\<lambda>m p. m(pf_ID p \<mapsto> p)) Map.empty (ListProfiles db w) i = Some q \<longleftrightarrow>
          q \<in> set (ListProfiles db w) \<and> pf_ID q = i" for i q
  proof -
    have "List.find (\<lambda>x. pf_ID x = i) (ListProfiles db w) = Some q \<longleftrightarrow> q \<in> set (ListProfiles db w) \<and> pf_ID q = i"
      using select_one_key [OF d, of q] select_one_Some [of _ "ListProfiles db w" q] unfolding select_one_def by auto
    then show ?thesis unfolding foldl_by_key [OF d] by (auto split: option.splits)
  qed
  then show ?thesis
    unfolding requiredProfiles_def set_map_filter required_by_def Bex_def resource_profiles_set mem
    by auto
qed

lemma find_as_filter: "List.find P xs = (case filter P xs of [] \<Rightarrow> None | x # _ \<Rightarrow> Some x)"
  by (induction xs) auto

lemma find_evaluation:
  "d \<in> set ds \<Longrightarrow> List.find (\<lambda>e. evl_ProfileID e = p) (EvaluationsForDevices db w ds d) = LatestEvaluation db w d p"
proof -
  let ?Q = "\<lambda>e. er_workspace_id e = w \<and> er_device_id e = d"
  let ?evs = "filter ?Q (db_evaluations db)"
  have pid: "evl_ProfileID (join_report db e) = er_profile_id e" for e by (simp add: join_report_def)
  have "filter (\<lambda>e. er_profile_id e = p) (sort_key er_profile_id ?evs) = filter (\<lambda>e. er_profile_id e = p) ?evs"
    by (rule sort_key_stable)
  then have f: "filter (\<lambda>e. evl_ProfileID e = p) (map (join_report db) (sort_key er_profile_id ?evs)) =
      map (join_report db) (filter (\<lambda>e. ?Q e \<and> er_profile_id e = p) (db_evaluations db))"
    by (simp add: filter_map comp_def pid conj_commute)
  assume "d \<in> set ds"
  then have "List.find (\<lambda>e. evl_ProfileID e = p) (EvaluationsForDevices db w ds d) =
      (case map (join_report db) (filter (\<lambda>e. ?Q e \<and> er_profile_id e = p) (db_evaluations db)) of
         [] \<Rightarrow> None | x # _ \<Rightarrow> Some x)"
    by (simp only: EvaluationsForDevices_def if_True find_as_filter f)
  then show ?thesis
    by (simp add: LatestEvaluation_def select_one_def find_as_filter split: list.splits)
qed

text \<open>
  The declarative reading: the device has a satisfied verdict on the current revision of the profile,
  from a report that is still fresh.
\<close>

definition profile_fresh :: "zdb \<Rightarrow> uuid \<Rightarrow> time \<Rightarrow> uuid \<Rightarrow> profile \<Rightarrow> bool" where
  "profile_fresh db w now d p \<longleftrightarrow>
     (\<exists>e t. LatestEvaluation db w d (pf_ID p) = Some e \<and> evl_Satisfied e \<and> evl_ProfileRevision e = pf_Revision p \<and>
        evl_ReportReceivedAt e = Some t \<and> now < t + MaxReportAge)"

lemma profile_fresh_cong:
  assumes "db_evaluations db' = db_evaluations db" and "db_reports db' = db_reports db"
  shows "profile_fresh db' w now d p \<longleftrightarrow> profile_fresh db w now d p"
  unfolding profile_fresh_def LatestEvaluation_def join_report_def [abs_def] assms ..

lemma profile_expiry_fresh:
  "d \<in> set ds \<Longrightarrow> profile_expiry now p (EvaluationsForDevices db w ds d) \<noteq> None \<longleftrightarrow> profile_fresh db w now d p"
  unfolding profile_expiry_def profile_fresh_def find_evaluation by (auto split: option.splits)

definition posture_allows :: "zdb \<Rightarrow> uuid \<Rightarrow> time \<Rightarrow> uuid \<Rightarrow> uuid \<Rightarrow> bool" where
  "posture_allows db w now rid d \<longleftrightarrow>
     (\<forall>p. \<not> required_by db w rid p) \<or> (\<exists>p. required_by db w rid p \<and> profile_fresh db w now d p)"

section \<open>Who is allowed\<close>

definition may_reach :: "zdb \<Rightarrow> uuid \<Rightarrow> time \<Rightarrow> acl_key \<Rightarrow> string \<Rightarrow> bool" where
  "may_reach db w now k spiffe \<longleftrightarrow>
     (\<exists>ar r gm cd. grants db w ar r \<and> resource_routable db w r \<and> resource_key r = k \<and>
        gm \<in> set (db_group_members db) \<and> ar_group_id ar = gm_group_id gm \<and>
        cd \<in> set (db_client_devices db) \<and> cd_user_id cd = gm_user_id gm \<and>
        cd_spiffe_id cd = Some spiffe \<and> device_active db w cd \<and> posture_allows db w now (fst k) (cd_id cd))"

lemma group_devices_set:
  "(d, s) \<in> set (ListActiveDeviceSPIFFEsForGroups db w gids g) \<longleftrightarrow>
     g \<in> set gids \<and> (\<exists>gm\<in>set (db_group_members db). \<exists>cd\<in>set (db_client_devices db).
        gm_group_id gm = g \<and> cd_user_id cd = gm_user_id gm \<and> cd_id cd = d \<and> cd_spiffe_id cd = Some s \<and> device_active db w cd)"
  unfolding ListActiveDeviceSPIFFEsForGroups_def by (auto simp: image_iff) force+

lemma entry_devices_set:
  assumes "distinct (map cd_id (db_client_devices db))"
  shows "set (entry_devices (ListActiveDeviceSPIFFEsForGroups db w gids) gs) =
           (\<Union>g\<in>set gs. set (ListActiveDeviceSPIFFEsForGroups db w gids g))"
    and "distinct (map fst (entry_devices (ListActiveDeviceSPIFFEsForGroups db w gids) gs))"
proof -
  let ?f = "\<lambda>d. the (cd_spiffe_id (the (select_one (\<lambda>c. cd_id c = d) (db_client_devices db))))"
  have "\<forall>(d, s)\<in>set [] \<union> set (concat (map (ListActiveDeviceSPIFFEsForGroups db w gids) gs)). ?f d = s"
    using select_one_key [OF assms] by (auto simp: group_devices_set)
  from set_foldl_update [OF this, unfolded list.map distinct.simps]
  show "set (entry_devices (ListActiveDeviceSPIFFEsForGroups db w gids) gs) =
           (\<Union>g\<in>set gs. set (ListActiveDeviceSPIFFEsForGroups db w gids g))"
    and "distinct (map fst (entry_devices (ListActiveDeviceSPIFFEsForGroups db w gids) gs))"
    by (simp_all add: entry_devices_def)
qed

definition entry_key_of :: "acl_entry \<Rightarrow> acl_key" where
  "entry_key_of e = (ae_ResourceId e, ae_Address e, ae_Port e, ae_Protocol e)"

lemma make_entry_sel [simp]:
  "entry_key_of (make_entry acc k allowed) = k" "ae_AllowedSpiffeIds (make_entry acc k allowed) = sort allowed"
  by (cases k; auto simp: make_entry_def entry_key_of_def split: option.splits)+

text \<open>The parts of a successful compilation.\<close>

definition group_ids :: "acl_acc \<Rightarrow> uuid list" where "group_ids acc = sort (ac_groupIDs acc)"

definition gate ::
  "zdb \<Rightarrow> uuid \<Rightarrow> time \<Rightarrow> acl_acc \<Rightarrow> acl_key \<Rightarrow> string list \<times> time \<times> bool" where
  "gate db w now acc k =
     (let gs = ListActiveDeviceSPIFFEsForGroups db w (group_ids acc) in
      applyPosture now (entry_devices gs (ac_keyGroups acc k))
        (requiredProfiles (ListProfiles db w) (ResourceProfilesForWorkspace db w) (fst k))
        (EvaluationsForDevices db w (all_device_ids gs (group_ids acc))))"

lemma Compile_parts:
  assumes "CompileACLSnapshot parse utext fails version now dbnow ws db = Inr c" and "parse ws = Some w"
  obtains acc where "collect_rules acc_empty (ListEnabledRulesWithResources db w) = Inr acc"
    "as_Entries (ca_Snapshot c) = map (\<lambda>k. make_entry acc k (fst (gate db w now acc k))) (sort (ac_keys acc))"
    "ca_ValidUntil c = snd (build_entries now acc (ListActiveDeviceSPIFFEsForGroups db w (group_ids acc))
        (requiredProfiles (ListProfiles db w) (ResourceProfilesForWorkspace db w))
        (EvaluationsForDevices db w (all_device_ids (ListActiveDeviceSPIFFEsForGroups db w (group_ids acc)) (group_ids acc)))
        (False, zero_time) (sort (ac_keys acc)))"
    "as_RemoteNetworks (ca_Snapshot c) =
       map (make_remote_network utext acc (GetConnectorsForRemoteNetworks db w (sort (ac_rnIDs acc)))) (sort (ac_rnIDs acc))"
  using assms
  by (auto simp: CompileACLSnapshot_def Let_def split_beta gate_def group_ids_def build_entries_fst
      split: sum.splits if_splits)

lemma gate_allowed:
  assumes "distinct (map cd_id (db_client_devices db))" and "distinct (map pf_ID (db_profiles db))"
    and "set (ac_keyGroups acc k) \<subseteq> set (ac_groupIDs acc)"
  shows "s \<in> set (fst (gate db w now acc k)) \<longleftrightarrow>
     (\<exists>gm\<in>set (db_group_members db). \<exists>cd\<in>set (db_client_devices db). gm_group_id gm \<in> set (ac_keyGroups acc k) \<and>
        cd_user_id cd = gm_user_id gm \<and> cd_spiffe_id cd = Some s \<and> device_active db w cd \<and>
        posture_allows db w now (fst k) (cd_id cd))"
proof -
  let ?gs = "ListActiveDeviceSPIFFEsForGroups db w (group_ids acc)"
  let ?ids = "all_device_ids ?gs (group_ids acc)"
  let ?req = "requiredProfiles (ListProfiles db w) (ResourceProfilesForWorkspace db w) (fst k)"
  have sub: "g \<in> set (ac_keyGroups acc k) \<Longrightarrow> g \<in> set (group_ids acc)" for g using assms(3) by (auto simp: group_ids_def)
  have ids: "(d, s) \<in> set (?gs g) \<Longrightarrow> d \<in> set ?ids" for d s g
  proof -
    assume a: "(d, s) \<in> set (?gs g)"
    then have "g \<in> set (group_ids acc)" by (simp add: group_devices_set)
    with a have "(d, s) \<in> set (concat (map ?gs (group_ids acc)))" by auto
    then have "fst (d, s) \<in> fst ` set (concat (map ?gs (group_ids acc)))" by (rule imageI)
    then show ?thesis by (simp add: all_device_ids_def del: set_concat)
  qed
  have nil: "?req = [] \<longleftrightarrow> (\<forall>p. \<not> required_by db w (fst k) p)"
    using set_requiredProfiles [OF assms(2), of _ w "fst k"] by (metis list.set_intros(1) neq_Nil_conv empty_iff list.set(1))
  have auth: "?req = [] \<or> device_authorized now ?req (EvaluationsForDevices db w ?ids d) \<longleftrightarrow> posture_allows db w now (fst k) d"
    if "d \<in> set ?ids" for d
    unfolding device_authorized_def posture_allows_def nil Bex_def set_requiredProfiles [OF assms(2)]
      profile_expiry_fresh [OF that] ..
  have "s \<in> set (fst (gate db w now acc k)) \<longleftrightarrow>
      (\<exists>d. \<exists>g\<in>set (ac_keyGroups acc k). (d, s) \<in> set (?gs g) \<and> posture_allows db w now (fst k) d)"
    using auth ids
    by (simp add: gate_def Let_def applyPosture_allowed entry_devices_set [OF assms(1)] image_iff Bex_def) blast
  also have "\<dots> \<longleftrightarrow> (\<exists>gm\<in>set (db_group_members db). \<exists>cd\<in>set (db_client_devices db). gm_group_id gm \<in> set (ac_keyGroups acc k) \<and>
        cd_user_id cd = gm_user_id gm \<and> cd_spiffe_id cd = Some s \<and> device_active db w cd \<and>
        posture_allows db w now (fst k) (cd_id cd))"
    unfolding group_devices_set using sub by blast
  finally show ?thesis .
qed

lemma collected_groups:
  assumes "collect_rules acc_empty (ListEnabledRulesWithResources db w) = Inr acc"
  shows "g \<in> set (ac_keyGroups acc k) \<longleftrightarrow>
           (\<exists>ar r. grants db w ar r \<and> resource_routable db w r \<and> resource_key r = k \<and> ar_group_id ar = g)"
    and "set (ac_keyGroups acc k) \<subseteq> set (ac_groupIDs acc)"
    and "k \<in> set (ac_keys acc) \<longleftrightarrow> (\<exists>g. g \<in> set (ac_keyGroups acc k))"
proof -
  let ?live = "live_rules (ListEnabledRulesWithResources db w)"
  from collect_rules_ok [OF assms acc_ok_empty] have ok: "acc_ok (ListEnabledRulesWithResources db w) acc" by simp
  have groups: "g \<in> set (ac_keyGroups acc k) \<longleftrightarrow> (\<exists>row\<in>set ?live. entryKey row = k \<and> cp_GroupID row = g)" for g
    using ok by (auto simp: acc_ok_def)
  then show "g \<in> set (ac_keyGroups acc k) \<longleftrightarrow>
      (\<exists>ar r. grants db w ar r \<and> resource_routable db w r \<and> resource_key r = k \<and> ar_group_id ar = g)"
    unfolding live_rules_iff .
  show "set (ac_keyGroups acc k) \<subseteq> set (ac_groupIDs acc)" using ok groups by (auto simp: acc_ok_def)
  show "k \<in> set (ac_keys acc) \<longleftrightarrow> (\<exists>g. g \<in> set (ac_keyGroups acc k))"
    using ok unfolding groups by (auto simp: acc_ok_def)
qed

lemma compiled_allows_iff:
  assumes "CompileACLSnapshot parse utext fails version now dbnow ws db = Inr c" and "parse ws = Some w"
    and "distinct (map cd_id (db_client_devices db))" and "distinct (map pf_ID (db_profiles db))"
  shows "(\<exists>e\<in>set (as_Entries (ca_Snapshot c)). entry_key_of e = k \<and> s \<in> set (ae_AllowedSpiffeIds e)) \<longleftrightarrow>
           may_reach db w now k s"
proof -
  obtain acc where
    col: "collect_rules acc_empty (ListEnabledRulesWithResources db w) = Inr acc" and
    ent: "as_Entries (ca_Snapshot c) = map (\<lambda>k. make_entry acc k (fst (gate db w now acc k))) (sort (ac_keys acc))"
    by (rule Compile_parts [OF assms(1,2)]) (rule that)
  have "(\<exists>e\<in>set (as_Entries (ca_Snapshot c)). entry_key_of e = k \<and> s \<in> set (ae_AllowedSpiffeIds e)) \<longleftrightarrow>
      k \<in> set (ac_keys acc) \<and> s \<in> set (fst (gate db w now acc k))"
    unfolding ent by auto
  also have "\<dots> \<longleftrightarrow> (\<exists>gm\<in>set (db_group_members db). \<exists>cd\<in>set (db_client_devices db). gm_group_id gm \<in> set (ac_keyGroups acc k) \<and>
        cd_user_id cd = gm_user_id gm \<and> cd_spiffe_id cd = Some s \<and> device_active db w cd \<and>
        posture_allows db w now (fst k) (cd_id cd))"
    unfolding gate_allowed [OF assms(3,4) collected_groups(2) [OF col]] collected_groups(3) [OF col] by blast
  also have "\<dots> \<longleftrightarrow> may_reach db w now k s"
    unfolding collected_groups(1) [OF col] may_reach_def by blast
  finally show ?thesis .
qed

text \<open>
  C12. A compiled snapshot allows a device identity to reach an address, port and protocol of a
  resource exactly when the tables say so: an enabled rule of the workspace grants a group of the
  workspace the resource, the resource is not being deleted, its network is of the workspace and its
  shield, if it is behind one, is present in the workspace and not revoked; the identity belongs to an
  unrevoked device of an active member of that group; and the resource's policy requires no profile, or
  the device has a satisfied verdict on the current revision of one of them from a fresh report.
\<close>

theorem snapshot_allows_iff:
  assumes "CompileACLSnapshot parse utext fails version now dbnow ws db = Inr c" and "parse ws = Some w"
    and "distinct (map cd_id (db_client_devices db))" and "distinct (map pf_ID (db_profiles db))"
  shows "(\<exists>e\<in>set (as_Entries (ca_Snapshot c)). entry_key_of e = k \<and> s \<in> set (ae_AllowedSpiffeIds e)) \<longleftrightarrow>
           may_reach db w now k s"
  by (rule compiled_allows_iff [OF assms])

section \<open>Success\<close>

definition known_status :: "string \<Rightarrow> bool" where
  "known_status s \<longleftrightarrow> s \<in> {''pending'', ''unprotected'', ''protecting'', ''protected'', ''failed'', ''deleting''}"

lemma granted_known:
  assumes "row \<in> set (ListEnabledRulesWithResources db w)" and "\<forall>ar r. grants db w ar r \<longrightarrow> known_status (rs_status r)"
  shows "cp_Status row \<in> {''pending'', ''unprotected'', ''protecting'', ''protected'', ''failed''}"
proof -
  from assms(1) obtain ar r n s where g: "grants db w ar r" and row: "row = rule_row db ar r n s"
    unfolding enabled_rules_set by blast
  have "known_status (rs_status r)" using assms(2) g by blast
  moreover have "rs_status r \<noteq> ''deleting''" using g by (simp add: grants_def)
  moreover have "cp_Status row = rs_status r" by (simp add: row rule_row_def)
  ultimately show ?thesis unfolding known_status_def by (simp only: insert_iff) blast
qed

lemma Compile_total:
  assumes "parse ws = Some w" and "\<forall>q. \<not> fails q" and "\<forall>ar r. grants db w ar r \<longrightarrow> known_status (rs_status r)"
  shows "\<exists>c. CompileACLSnapshot parse utext fails version now dbnow ws db = Inr c"
proof -
  have "\<forall>row\<in>set (ListEnabledRulesWithResources db w).
      cp_Status row \<in> {''pending'', ''unprotected'', ''protecting'', ''protected'', ''failed''}"
    using granted_known assms(3) by blast
  from collect_rules_total [OF this, of acc_empty] obtain acc where
    "collect_rules acc_empty (ListEnabledRulesWithResources db w) = Inr acc" by blast
  then show ?thesis using assms(1,2) by (simp add: CompileACLSnapshot_def Let_def split_beta)
qed

lemma collect_rules_routed:
  assumes "collect_rules acc_empty (ListEnabledRulesWithResources db w) = Inr acc"
    and "grants db w ar r" and "distinct (map rs_id (db_resources db))"
  shows "known_status (rs_status r)"
proof (rule ccontr)
  let ?rows = "ListEnabledRulesWithResources db w"
  assume un: "\<not> known_status (rs_status r)"
  then have "resource_routable db w r" by (auto simp: resource_routable_def shielded_def known_status_def)
  then obtain row where row: "row \<in> set (live_rules ?rows)" "entryKey row = resource_key r"
    using assms(2) live_rules_iff [of db w "resource_key r" "ar_group_id ar"] by blast
  from collect_rules_ok [OF assms(1) acc_ok_empty] have ok: "first_ok ?rows (ac_first acc)" by (simp add: acc_ok_def)
  then obtain x where x: "ac_first acc (resource_key r) = Some x"
    using first_ok_None [OF ok, of "resource_key r"] row by (metis image_eqI not_None_eq)
  from first_ok_Some [OF ok x] have f: "fst x \<in> set ?rows" "entryKey (fst x) = resource_key r" "row_route (fst x) \<noteq> None"
    by (auto simp: live_rules_def)
  from f(1) obtain ar' r' n s where g: "grants db w ar' r'" "fst x = rule_row db ar' r' n s"
    unfolding enabled_rules_set by blast
  then have "resource_key r' = resource_key r" using f(2) rule_row_key(1) by metis
  then have "rs_id r' = rs_id r" by (simp add: resource_key_def)
  then have "r' = r" using distinct_key_eq [OF assms(3)] g(1) assms(2) unfolding grants_def by blast
  then show False using f(3) un unfolding g(2)
    by (auto simp: row_route_def rule_row_def routeTypeForResource_def known_status_def split: if_splits)
qed

section \<open>How long a snapshot is valid\<close>

definition pair_until :: "zdb \<Rightarrow> uuid \<Rightarrow> time \<Rightarrow> acl_acc \<Rightarrow> acl_key \<Rightarrow> time" where
  "pair_until db w now acc k = fst (snd (gate db w now acc k))"

definition gated_key :: "zdb \<Rightarrow> uuid \<Rightarrow> time \<Rightarrow> acl_acc \<Rightarrow> acl_key \<Rightarrow> bool" where
  "gated_key db w now acc k \<longleftrightarrow> snd (snd (gate db w now acc k)) \<and> fst (gate db w now acc k) \<noteq> []"

lemma build_entries_snd:
  fixes db w now acc
  defines "gs \<equiv> ListActiveDeviceSPIFFEsForGroups db w (group_ids acc)"
  defines "ev \<equiv> EvaluationsForDevices db w (all_device_ids gs (group_ids acc))"
  defines "req \<equiv> requiredProfiles (ListProfiles db w) (ResourceProfilesForWorkspace db w)"
  shows "snd (build_entries now acc gs req ev (gated, until) keys) =
     (let K = filter (gated_key db w now acc) keys in
      if gated then foldl min until (map (pair_until db w now acc) K)
      else case K of [] \<Rightarrow> until | k # ks \<Rightarrow> foldl min (pair_until db w now acc k) (map (pair_until db w now acc) ks))"
proof (induction keys arbitrary: gated until)
  case (Cons k keys)
  obtain al t g where a: "applyPosture now (entry_devices gs (ac_keyGroups acc k)) (req (fst k)) ev = (al, t, g)"
    by (metis prod_cases3)
  then have "gate db w now acc k = (al, t, g)" by (simp add: gate_def Let_def gs_def ev_def req_def)
  then have "pair_until db w now acc k = t" "gated_key db w now acc k \<longleftrightarrow> g \<and> al \<noteq> []"
    by (simp_all add: pair_until_def gated_key_def)
  then show ?case using Cons.IH by (auto simp: a Let_def split_beta min_def)
qed simp

lemma foldl_min_le: "foldl min (a :: int) xs \<le> a" "x \<in> set xs \<Longrightarrow> foldl min a xs \<le> x"
proof -
  show le: "foldl min a xs \<le> a" for a and xs :: "int list"
  proof (induction xs arbitrary: a)
    case (Cons y ys)
    show ?case using Cons.IH [of "min a y"] by simp
  qed simp
  show "x \<in> set xs \<Longrightarrow> foldl min a xs \<le> x"
  proof (induction xs arbitrary: a)
    case (Cons y ys)
    then show ?case using le [of "min a y" ys] by (cases "x \<in> set ys") (auto simp: Cons.IH)
  qed simp
qed

lemma foldl_min_in: "foldl min (a :: int) xs = a \<or> foldl min a xs \<in> set xs"
  by (induction xs arbitrary: a) (auto simp: min_def)

lemma valid_until_le:
  assumes "CompileACLSnapshot parse utext fails version now dbnow ws db = Inr c" and "parse ws = Some w"
  obtains acc where "collect_rules acc_empty (ListEnabledRulesWithResources db w) = Inr acc"
    "as_Entries (ca_Snapshot c) = map (\<lambda>k. make_entry acc k (fst (gate db w now acc k))) (sort (ac_keys acc))"
    "\<And>k. k \<in> set (ac_keys acc) \<Longrightarrow> gated_key db w now acc k \<Longrightarrow>
       ca_ValidUntil c \<le> pair_until db w now acc k \<and>
       ca_ValidUntil c \<in> pair_until db w now acc ` {k \<in> set (ac_keys acc). gated_key db w now acc k}"
proof -
  obtain acc where acc: "collect_rules acc_empty (ListEnabledRulesWithResources db w) = Inr acc"
    "as_Entries (ca_Snapshot c) = map (\<lambda>k. make_entry acc k (fst (gate db w now acc k))) (sort (ac_keys acc))"
    "ca_ValidUntil c = snd (build_entries now acc (ListActiveDeviceSPIFFEsForGroups db w (group_ids acc))
        (requiredProfiles (ListProfiles db w) (ResourceProfilesForWorkspace db w))
        (EvaluationsForDevices db w (all_device_ids (ListActiveDeviceSPIFFEsForGroups db w (group_ids acc)) (group_ids acc)))
        (False, zero_time) (sort (ac_keys acc)))"
    by (rule Compile_parts [OF assms]) (rule that)
  let ?K = "filter (gated_key db w now acc) (sort (ac_keys acc))"
  have "ca_ValidUntil c \<le> pair_until db w now acc k \<and>
       ca_ValidUntil c \<in> pair_until db w now acc ` {k \<in> set (ac_keys acc). gated_key db w now acc k}"
    if "k \<in> set (ac_keys acc)" "gated_key db w now acc k" for k
  proof -
    have k: "k \<in> set ?K" using that by simp
    then obtain k0 ks where K: "?K = k0 # ks" by (cases ?K) auto
    have v: "ca_ValidUntil c = foldl min (pair_until db w now acc k0) (map (pair_until db w now acc) ks)"
      unfolding acc(3) build_entries_snd Let_def K by simp
    have "set ?K = insert k0 (set ks)" unfolding K by simp
    then have sets: "{k \<in> set (ac_keys acc). gated_key db w now acc k} = insert k0 (set ks)" by auto
    have "ca_ValidUntil c \<le> pair_until db w now acc k"
      using k unfolding v K by (auto intro: foldl_min_le)
    moreover have "ca_ValidUntil c \<in> pair_until db w now acc ` insert k0 (set ks)"
      using foldl_min_in [of "pair_until db w now acc k0" "map (pair_until db w now acc) ks"] unfolding v by auto
    ultimately show ?thesis unfolding sets by blast
  qed
  then show ?thesis using acc that by blast
qed


lemma profile_expiry_mono:
  "profile_expiry now p evs = Some x \<Longrightarrow> now < x" "profile_expiry now p evs = Some x \<Longrightarrow> t < x \<Longrightarrow> profile_expiry t p evs = Some x"
  by (auto simp: profile_expiry_def split: option.splits if_splits)

lemma device_until_expiry:
  assumes "device_authorized now required evs" and "zero_time \<le> now"
  shows "\<exists>p\<in>set required. profile_expiry now p evs = Some (device_until now required evs)"
proof -
  let ?xs = "List.map_filter (\<lambda>p. profile_expiry now p evs) required"
  have u: "device_until now required evs = foldl max zero_time ?xs"
    by (simp add: device_until_def device_posture_snd)
  from assms(1) obtain p x where p: "p \<in> set required" "profile_expiry now p evs = Some x"
    by (auto simp: device_authorized_def)
  then have "x \<in> set ?xs" by (auto simp: set_map_filter)
  then have "zero_time < foldl max zero_time ?xs"
    using profile_expiry_mono(1) [OF p(2)] assms(2) foldl_max_ge(2) [of x ?xs zero_time] by simp
  then have "foldl max zero_time ?xs \<in> set ?xs" using foldl_max_in [of zero_time ?xs] by simp
  then show ?thesis unfolding u by (auto simp: set_map_filter)
qed

lemma applyPosture_best:
  assumes "required \<noteq> []" and "zero_time \<le> now" and "fst (applyPosture now ds required evaluations) \<noteq> []"
  obtains d s p where "(d, s) \<in> set ds" "p \<in> set required"
    "profile_expiry now p (evaluations d) = Some (fst (snd (applyPosture now ds required evaluations)))"
proof -
  let ?ok = "filter (\<lambda>p. device_authorized now required (evaluations (fst p))) ds"
  let ?us = "map (\<lambda>p. device_until now required (evaluations (fst p))) ?ok"
  have u: "fst (snd (applyPosture now ds required evaluations)) = foldl max zero_time ?us"
    using assms(1) by (simp add: applyPosture_until)
  have "?ok \<noteq> []" using assms(1,3) by (simp add: applyPosture_allowed)
  then obtain y where y: "y \<in> set ?ok" by (meson list.set_sel(1))
  then have "device_authorized now required (evaluations (fst y))" by simp
  from device_until_expiry [OF this assms(2)] have "zero_time < device_until now required (evaluations (fst y))"
    using profile_expiry_mono(1) assms(2) by fastforce
  moreover have "device_until now required (evaluations (fst y)) \<in> set ?us" using y by auto
  ultimately have "zero_time < foldl max zero_time ?us" by (blast intro: less_le_trans foldl_max_ge(2))
  then have "foldl max zero_time ?us \<in> set ?us" using foldl_max_in [of zero_time ?us] by simp
  then obtain z where z: "z \<in> set ?ok" "foldl max zero_time ?us = device_until now required (evaluations (fst z))" by auto
  then have a: "device_authorized now required (evaluations (fst z))" by simp
  obtain p where "p \<in> set required"
      "profile_expiry now p (evaluations (fst z)) = Some (device_until now required (evaluations (fst z)))"
    using device_until_expiry [OF a assms(2)] by blast
  moreover have "(fst z, snd z) \<in> set ds" using z(1) by simp
  ultimately show ?thesis using that unfolding u z(2) by blast
qed

lemma gate_later:
  assumes "zero_time \<le> now" and "fst (gate db w now acc k) \<noteq> []"
    and "snd (snd (gate db w now acc k)) \<Longrightarrow> t < pair_until db w now acc k"
  shows "\<exists>s\<in>set (fst (gate db w now acc k)). s \<in> set (fst (gate db w t acc k))"
proof -
  let ?ds = "entry_devices (ListActiveDeviceSPIFFEsForGroups db w (group_ids acc)) (ac_keyGroups acc k)"
  let ?req = "requiredProfiles (ListProfiles db w) (ResourceProfilesForWorkspace db w) (fst k)"
  let ?ev = "EvaluationsForDevices db w
    (all_device_ids (ListActiveDeviceSPIFFEsForGroups db w (group_ids acc)) (group_ids acc))"
  have g: "gate db w n acc k = applyPosture n ?ds ?req ?ev" for n by (simp add: gate_def Let_def)
  show ?thesis
  proof (cases "?req = []")
    case True
    then have "fst (gate db w t acc k) = fst (gate db w now acc k)" unfolding g by (simp add: applyPosture_allowed)
    then show ?thesis using assms(2) by (metis list.set_sel(1))
  next
    case False
    obtain d s p where d: "(d, s) \<in> set ?ds" "p \<in> set ?req"
      "profile_expiry now p (?ev d) = Some (pair_until db w now acc k)"
      by (rule applyPosture_best [OF False assms(1) assms(2) [unfolded g]]) (rule that, simp_all add: pair_until_def g)
    have "snd (snd (gate db w now acc k))" unfolding g by (simp add: applyPosture_until False)
    from profile_expiry_mono(2) [OF d(3) assms(3) [OF this]]
    have "device_authorized t ?req (?ev d)" using d(2) by (auto simp: device_authorized_def)
    moreover have "device_authorized now ?req (?ev d)" using d(2,3) by (auto simp: device_authorized_def)
    ultimately have "s \<in> set (fst (gate db w n acc k))" if "n = t \<or> n = now" for n
      unfolding g using d(1) that by (auto simp: applyPosture_allowed intro!: rev_image_eqI [of "(d, s)"])
    then show ?thesis by blast
  qed
qed


lemma pair_until_after:
  assumes "zero_time \<le> now" and "gated_key db w now acc k"
  shows "now < pair_until db w now acc k"
proof -
  let ?ds = "entry_devices (ListActiveDeviceSPIFFEsForGroups db w (group_ids acc)) (ac_keyGroups acc k)"
  let ?req = "requiredProfiles (ListProfiles db w) (ResourceProfilesForWorkspace db w) (fst k)"
  let ?ev = "EvaluationsForDevices db w
    (all_device_ids (ListActiveDeviceSPIFFEsForGroups db w (group_ids acc)) (group_ids acc))"
  have g: "gate db w now acc k = applyPosture now ?ds ?req ?ev" by (simp add: gate_def Let_def)
  have "?req \<noteq> []" "fst (applyPosture now ?ds ?req ?ev) \<noteq> []"
    using assms(2) unfolding gated_key_def g by (auto simp: applyPosture_until)
  then obtain d s p where "profile_expiry now p (?ev d) = Some (pair_until db w now acc k)"
    using assms(1) unfolding pair_until_def g by (elim applyPosture_best) auto
  then show ?thesis by (rule profile_expiry_mono)
qed

lemma gate_may_reach:
  assumes "collect_rules acc_empty (ListEnabledRulesWithResources db w) = Inr acc"
    and "distinct (map cd_id (db_client_devices db))" and "distinct (map pf_ID (db_profiles db))"
    and "s \<in> set (fst (gate db w t acc k))"
  shows "may_reach db w t k s"
  using assms(4)
  unfolding gate_allowed [OF assms(2,3) collected_groups(2) [OF assms(1)]] collected_groups(1) [OF assms(1)] may_reach_def
  by blast

end
