(* ===== verification/Acl_Claims.thy ===== *)
theory Acl_Claims
  imports Acl_Correct
begin

text \<open>
  What a compiled snapshot guarantees over time and when compiling succeeds: the claims on
  the validity of \<open>CompiledACL\<close>, on the errors of \<open>CompileACLSnapshot\<close>, and a small database on which
  they are evaluated.
\<close>

section \<open>An example workspace\<close>

text \<open>
  Workspace 4 has one resource behind one policy that requires profile 5, one group with two
  members, and a device for each: the report of device 7 arrived 300 seconds after that of device 8.
\<close>

definition sec :: "int \<Rightarrow> time" where "sec n = n * second"

definition ex_eval :: "uuid \<Rightarrow> uuid \<Rightarrow> evaluation_row" where
  "ex_eval d rep = \<lparr>er_device_id = d, er_profile_id = 5, er_workspace_id = 4, er_satisfied = True,
     er_profile_revision = 3, er_reason = None, er_report_id = Some rep\<rparr>"

definition ex_dev :: "uuid \<Rightarrow> uuid \<Rightarrow> string \<Rightarrow> client_device" where
  "ex_dev d u s = \<lparr>cd_id = d, cd_workspace_id = 4, cd_user_id = u, cd_spiffe_id = Some s,
     cd_revoked_at = None, cd_approved_at = None\<rparr>"

definition ex_report :: "uuid \<Rightarrow> uuid \<Rightarrow> time \<Rightarrow> posture_report" where
  "ex_report i d t = \<lparr>rp_ID = i, rp_ReportID = ''r'', rp_DeviceID = d, rp_WorkspaceID = 4, rp_ReportedAt = t, rp_ReceivedAt = t\<rparr>"

definition ex_user :: "uuid \<Rightarrow> user_row" where
  "ex_user u = \<lparr>us_id = u, us_tenant_id = 4, us_role = ''member'', us_status = ''active''\<rparr>"

definition ex_rule :: access_rule where
  "ex_rule = \<lparr>ar_id = 40, ar_workspace_id = 4, ar_resource_id = 11, ar_group_id = 12, ar_enabled = True\<rparr>"

definition ex_resource :: resource_row where
  "ex_resource = \<lparr>rs_id = 11, rs_tenant_id = 4, rs_name = ''ssh'', rs_host = ''10.0.0.5'', rs_port_from = 22,
     rs_protocol = ''tcp'', rs_status = ''unprotected'', rs_shield_id = None, rs_remote_network_id = 13, rs_policy_id = 30\<rparr>"

definition ex_profile3 :: profile where
  "ex_profile3 = \<lparr>pf_ID = 5, pf_WorkspaceID = 4, pf_Name = ''p'', pf_Revision = 3, pf_ManualTrustEnabled = False\<rparr>"

definition ex_acl :: zdb where
  "ex_acl = \<lparr>db_access_rules = [ex_rule], db_resources = [ex_resource],
     db_groups = [\<lparr>gr_id = 12, gr_workspace_id = 4, gr_name = ''ops'', gr_description = None,
       gr_created_at = 0, gr_origin = ''manual'', gr_external_id = None, gr_connection_id = None\<rparr>],
     db_group_members = [\<lparr>gm_group_id = 12, gm_user_id = 2\<rparr>, \<lparr>gm_group_id = 12, gm_user_id = 3\<rparr>],
     db_users = [ex_user 2, ex_user 3], db_workspace_members = [],
     db_client_devices = [ex_dev 7 2 ''spiffe://a'', ex_dev 8 3 ''spiffe://b''],
     db_remote_networks = [\<lparr>rn_id = 13, rn_tenant_id = 4, rn_name = ''lan'', rn_status = ''active''\<rparr>],
     db_shields = [], db_shield_revocations = [], db_connectors = [],
     db_placements = [], db_relays = [], db_connector_certificates = [], db_workspaces = [],
     db_profiles = [ex_profile3], db_requirements = [],
     db_reports = [ex_report 20 7 (sec 300), ex_report 21 8 (sec 0)],
     db_observations = [], db_evaluations = [ex_eval 7 20, ex_eval 8 21], db_network_observations = [],
     db_policies = [\<lparr>rpo_ID = 30, rpo_WorkspaceID = 4, rpo_Name = ''Trusted'', rpo_Description = None, rpo_IsDefault = False\<rparr>],
     db_policy_profiles = [\<lparr>rpp_policy_id = 30, rpp_profile_id = 5, rpp_workspace_id = 4\<rparr>]\<rparr>"

lemmas ex_acl_defs = ex_acl_def ex_rule_def ex_resource_def ex_profile3_def ex_report_def ex_user_def ex_dev_def ex_eval_def

abbreviation ex_compile :: "time \<Rightarrow> acl_error + compiled_acl" where
  "ex_compile now \<equiv> CompileACLSnapshot (\<lambda>s. if s = ''ws'' then Some 4 else None) (\<lambda>_. ''u'') (\<lambda>_. False) 9 now now ''ws'' ex_acl"

lemma ex_compiles: "\<exists>c. ex_compile now = Inr c"
  by (rule Compile_total [where w = 4]) (auto simp: grants_def ex_acl_defs known_status_def)

lemma ex_keys: "distinct (map cd_id (db_client_devices ex_acl))" "distinct (map pf_ID (db_profiles ex_acl))"
  by (simp_all add: ex_acl_defs)

lemma ex_required: "required_by ex_acl 4 11 p \<longleftrightarrow> p = ex_profile3"
  by (auto simp: required_by_def ex_acl_defs)

lemma ex_fresh:
  "profile_fresh ex_acl 4 now 7 ex_profile3 \<longleftrightarrow> now < sec 900"
  "profile_fresh ex_acl 4 now 8 ex_profile3 \<longleftrightarrow> now < sec 600"
  by (simp_all add: profile_fresh_def LatestEvaluation_def join_report_def select_one_def ex_acl_defs MaxReportAge_def duration_defs sec_def)

lemma ex_may_reach:
  "may_reach ex_acl 4 now (11, ''10.0.0.5'', 22, ''tcp'') s \<longleftrightarrow>
     s = ''spiffe://a'' \<and> now < sec 900 \<or> s = ''spiffe://b'' \<and> now < sec 600"
proof -
  have g: "grants ex_acl 4 ar r \<longleftrightarrow> ar = ex_rule \<and> r = ex_resource" for ar r
    by (auto simp: grants_def ex_acl_defs)
  have rt: "resource_routable ex_acl 4 ex_resource" "resource_key ex_resource = (11, ''10.0.0.5'', 22, ''tcp'')"
    by (simp_all add: resource_routable_def shielded_def resource_key_def ex_resource_def)
  have pa: "posture_allows ex_acl 4 now 11 d \<longleftrightarrow> profile_fresh ex_acl 4 now d ex_profile3" for d
    unfolding posture_allows_def ex_required by blast
  have da: "device_active ex_acl 4 cd" if "cd \<in> set (db_client_devices ex_acl)" for cd
    using that by (auto simp: device_active_def ex_acl_defs)
  have "may_reach ex_acl 4 now (11, ''10.0.0.5'', 22, ''tcp'') s \<longleftrightarrow>
     (\<exists>gm\<in>set (db_group_members ex_acl). \<exists>cd\<in>set (db_client_devices ex_acl). gm_group_id gm = 12 \<and> cd_user_id cd = gm_user_id gm \<and>
        cd_spiffe_id cd = Some s \<and> profile_fresh ex_acl 4 now (cd_id cd) ex_profile3)"
    unfolding may_reach_def g using da rt by (auto simp: pa ex_rule_def)
  also have "\<dots> \<longleftrightarrow> s = ''spiffe://a'' \<and> profile_fresh ex_acl 4 now 7 ex_profile3 \<or> s = ''spiffe://b'' \<and> profile_fresh ex_acl 4 now 8 ex_profile3"
    by (auto simp: ex_acl_def ex_dev_def)
  finally show ?thesis unfolding ex_fresh .
qed

theorem snapshot_allows_iff_witness:
  "\<exists>c. ex_compile (sec 700) = Inr c \<and>
     (\<exists>e\<in>set (as_Entries (ca_Snapshot c)). entry_key_of e = (11, ''10.0.0.5'', 22, ''tcp'') \<and> ''spiffe://a'' \<in> set (ae_AllowedSpiffeIds e)) \<and>
     \<not> (\<exists>e\<in>set (as_Entries (ca_Snapshot c)). entry_key_of e = (11, ''10.0.0.5'', 22, ''tcp'') \<and> ''spiffe://b'' \<in> set (ae_AllowedSpiffeIds e))"
proof -
  obtain c where c: "ex_compile (sec 700) = Inr c" using ex_compiles by blast
  have p: "(if ''ws'' = ''ws'' then Some 4 else None) = Some (4 :: uuid)" by simp
  show ?thesis
    by (rule exI [of _ c]) (simp only: snapshot_allows_iff [OF c p ex_keys] c, simp add: ex_may_reach sec_def second_def)
qed

section \<open>Validity\<close>

text \<open>
  C13. While a compiled snapshot may be served from the cache (it has no expiry, or its expiry has
  not come), every entry that allows a device still allows one that is entitled to it at that
  moment, the tables being unchanged: an entry never outlives all of the posture evidence behind it.
\<close>

theorem served_entry_still_backed:
  assumes "CompileACLSnapshot parse utext fails version now dbnow ws db = Inr c" and "parse ws = Some w"
    and "distinct (map cd_id (db_client_devices db))" and "distinct (map pf_ID (db_profiles db))"
    and "zero_time < now" and "ca_ValidUntil c = zero_time \<or> t < ca_ValidUntil c"
    and "e \<in> set (as_Entries (ca_Snapshot c))" and "ae_AllowedSpiffeIds e \<noteq> []"
  shows "\<exists>s\<in>set (ae_AllowedSpiffeIds e). may_reach db w t (entry_key_of e) s"
proof -
  obtain acc where
    col: "collect_rules acc_empty (ListEnabledRulesWithResources db w) = Inr acc" and
    ent: "as_Entries (ca_Snapshot c) = map (\<lambda>k. make_entry acc k (fst (gate db w now acc k))) (sort (ac_keys acc))" and
    le: "\<And>k. k \<in> set (ac_keys acc) \<Longrightarrow> gated_key db w now acc k \<Longrightarrow>
       ca_ValidUntil c \<le> pair_until db w now acc k \<and>
       ca_ValidUntil c \<in> pair_until db w now acc ` {k \<in> set (ac_keys acc). gated_key db w now acc k}"
    by (rule valid_until_le [OF assms(1,2)]) (rule that)
  from assms(7) obtain k where k: "k \<in> set (ac_keys acc)" "e = make_entry acc k (fst (gate db w now acc k))"
    unfolding ent by auto
  then have al: "fst (gate db w now acc k) \<noteq> []" "set (ae_AllowedSpiffeIds e) = set (fst (gate db w now acc k))"
    using assms(8) by (auto simp: sort_key_simps)
  have "t < pair_until db w now acc k" if "snd (snd (gate db w now acc k))"
  proof -
    have g: "gated_key db w now acc k" using that al by (simp add: gated_key_def)
    obtain k' where k': "gated_key db w now acc k'" "ca_ValidUntil c = pair_until db w now acc k'"
      using le [OF k(1) g] by blast
    then have "now < ca_ValidUntil c"
      using pair_until_after [of now db w acc k'] assms(5) by simp
    then show ?thesis using le [OF k(1) g] assms(5,6) by simp
  qed
  then obtain s where s: "s \<in> set (fst (gate db w now acc k))" "s \<in> set (fst (gate db w t acc k))"
    using gate_later [of now db w acc k t] assms(5) al by auto
  have "may_reach db w t k s" by (rule gate_may_reach [OF col assms(3,4) s(2)])
  then show ?thesis using s(1) k(2) al by auto
qed


lemma ex_valid_until: "ca_ValidUntil (projr (ex_compile (sec 400))) = sec 900"
  by code_simp

lemma ex_entries:
  "map (\<lambda>e. (entry_key_of e, ae_AllowedSpiffeIds e)) (as_Entries (ca_Snapshot (projr (ex_compile (sec 400))))) =
     [((11, ''10.0.0.5'', 22, ''tcp''), [''spiffe://a'', ''spiffe://b''])]"
  "map (\<lambda>e. (entry_key_of e, ae_AllowedSpiffeIds e)) (as_Entries (ca_Snapshot (projr (ex_compile (sec 800))))) =
     [((11, ''10.0.0.5'', 22, ''tcp''), [''spiffe://a''])]"
  by code_simp+

theorem served_entry_still_backed_witness:
  "\<exists>c. ex_compile (sec 400) = Inr c \<and> (\<exists>e\<in>set (as_Entries (ca_Snapshot c)). ae_AllowedSpiffeIds e \<noteq> [] \<and>
     (\<exists>s\<in>set (ae_AllowedSpiffeIds e). may_reach ex_acl 4 (sec 401) (entry_key_of e) s))"
proof -
  obtain c where c: "ex_compile (sec 400) = Inr c" using ex_compiles by blast
  have p: "(if ''ws'' = ''ws'' then Some 4 else None) = Some (4 :: uuid)" by simp
  obtain e where e: "e \<in> set (as_Entries (ca_Snapshot c))" "ae_AllowedSpiffeIds e \<noteq> []"
    using ex_entries(1) [unfolded c sum.sel] by auto
  have v: "sec 401 < ca_ValidUntil c" using ex_valid_until [unfolded c sum.sel] by (simp add: sec_def second_def)
  have z: "zero_time < sec 400" by (simp add: zero_time_def sec_def second_def)
  show ?thesis
    using c e served_entry_still_backed [OF c p ex_keys z disjI2 [OF v] e] by blast
qed


section \<open>Errors\<close>

text \<open>
  When no query fails, compiling fails only for a resource the workspace's rules grant whose
  status is none of those the compiler knows; every other state of the workspace, a revoked or missing
  shield included, compiles.
\<close>

theorem compile_fails_iff:
  assumes "parse ws = Some w" and "\<forall>q. \<not> fails q" and "distinct (map rs_id (db_resources db))"
  shows "isl (CompileACLSnapshot parse utext fails version now dbnow ws db) \<longleftrightarrow>
           (\<exists>ar r. grants db w ar r \<and> \<not> known_status (rs_status r))"
proof
  assume l: "isl (CompileACLSnapshot parse utext fails version now dbnow ws db)"
  show "\<exists>ar r. grants db w ar r \<and> \<not> known_status (rs_status r)"
    using Compile_total [of parse ws w fails db utext version now dbnow] assms(1,2) l by fastforce
next
  assume u: "\<exists>ar r. grants db w ar r \<and> \<not> known_status (rs_status r)"
  show "isl (CompileACLSnapshot parse utext fails version now dbnow ws db)"
  proof (cases "CompileACLSnapshot parse utext fails version now dbnow ws db")
    case (Inr c)
    obtain acc where "collect_rules acc_empty (ListEnabledRulesWithResources db w) = Inr acc"
      by (rule valid_until_le [OF Inr assms(1)])
    then show ?thesis using collect_rules_routed [OF _ _ assms(3)] u by blast
  qed simp
qed

theorem compile_fails_iff_witness:
  "\<not> isl (ex_compile (sec 400)) \<and> \<not> (\<exists>ar r. grants ex_acl 4 ar r \<and> \<not> known_status (rs_status r))"
proof -
  have p: "(if ''ws'' = ''ws'' then Some 4 else None) = Some (4 :: uuid)" by simp
  have "\<not> (\<exists>ar r. grants ex_acl 4 ar r \<and> \<not> known_status (rs_status r))"
    by (auto simp: grants_def ex_acl_defs known_status_def)
  moreover have "distinct (map rs_id (db_resources ex_acl))" "\<forall>q. \<not> (\<lambda>_ :: acl_query. False) q" by (simp_all add: ex_acl_defs)
  ultimately show ?thesis
    using compile_fails_iff [of "\<lambda>s. if s = ''ws'' then Some 4 else None" "''ws''" 4 "\<lambda>_. False" ex_acl "\<lambda>_. ''u''" 9 "sec 400" "sec 400", OF p]
    by blast
qed

end
