(* ===== verification/Acl_Isolation.thy ===== *)
theory Acl_Isolation
  imports Acl_Claims
begin

text \<open>
  Tenant isolation of the compiler: a workspace's snapshot is a function of that workspace's own
  rows (and of the relay pool, which all workspaces share).
\<close>

section \<open>What belongs to a workspace\<close>

definition own_group :: "uuid \<Rightarrow> zdb \<Rightarrow> uuid \<Rightarrow> bool" where
  "own_group w db g \<longleftrightarrow> (\<exists>x\<in>set (db_groups db). gr_id x = g \<and> gr_workspace_id x = w)"

definition own_connector :: "uuid \<Rightarrow> zdb \<Rightarrow> uuid \<Rightarrow> bool" where
  "own_connector w db i \<longleftrightarrow> (\<exists>x\<in>set (db_connectors db). co_id x = i \<and> co_tenant_id x = w)"

definition own_shield :: "uuid \<Rightarrow> zdb \<Rightarrow> uuid \<Rightarrow> bool" where
  "own_shield w db i \<longleftrightarrow> (\<exists>x\<in>set (db_shields db). sh_id x = i \<and> sh_tenant_id x = w)"

definition tenant_view :: "uuid \<Rightarrow> zdb \<Rightarrow> zdb" where
  "tenant_view w db = db\<lparr>
     db_access_rules := filter (\<lambda>x. ar_workspace_id x = w) (db_access_rules db),
     db_resources := filter (\<lambda>x. rs_tenant_id x = w) (db_resources db),
     db_groups := filter (\<lambda>x. gr_workspace_id x = w) (db_groups db),
     db_group_members := filter (\<lambda>x. own_group w db (gm_group_id x)) (db_group_members db),
     db_users := filter (\<lambda>x. us_tenant_id x = w) (db_users db),
     db_workspace_members := filter (\<lambda>x. wm_workspace_id x = w) (db_workspace_members db),
     db_client_devices := filter (\<lambda>x. cd_workspace_id x = w) (db_client_devices db),
     db_remote_networks := filter (\<lambda>x. rn_tenant_id x = w) (db_remote_networks db),
     db_shields := filter (\<lambda>x. sh_tenant_id x = w) (db_shields db),
     db_shield_revocations := filter (own_shield w db) (db_shield_revocations db),
     db_connectors := filter (\<lambda>x. co_tenant_id x = w) (db_connectors db),
     db_placements := filter (\<lambda>x. own_connector w db (crp_connector_id x)) (db_placements db),
     db_connector_certificates := filter (\<lambda>x. cc_tenant_id x = w) (db_connector_certificates db),
     db_workspaces := filter (\<lambda>x. ws_id x = w) (db_workspaces db),
     db_profiles := filter (\<lambda>x. pf_WorkspaceID x = w) (db_profiles db),
     db_requirements := [], db_observations := [], db_network_observations := [],
     db_reports := filter (\<lambda>x. rp_WorkspaceID x = w) (db_reports db),
     db_evaluations := filter (\<lambda>x. er_workspace_id x = w) (db_evaluations db),
     db_policies := filter (\<lambda>x. rpo_WorkspaceID x = w) (db_policies db),
     db_policy_profiles := filter (\<lambda>x. rpp_workspace_id x = w) (db_policy_profiles db)\<rparr>"

text \<open>References that three queries follow without repeating the workspace; foreign keys keep them inside it.\<close>

definition refs_inside :: "uuid \<Rightarrow> zdb \<Rightarrow> bool" where
  "refs_inside w db \<longleftrightarrow>
     (\<forall>r\<in>set (db_resources db). \<forall>p\<in>set (db_policy_profiles db).
        rs_tenant_id r = w \<and> rpp_policy_id p = rs_policy_id r \<longrightarrow> rpp_workspace_id p = w) \<and>
     (\<forall>e\<in>set (db_evaluations db). \<forall>r\<in>set (db_reports db).
        er_workspace_id e = w \<and> er_report_id e = Some (rp_ID r) \<longrightarrow> rp_WorkspaceID r = w) \<and>
     (\<forall>cc\<in>set (db_connector_certificates db). \<forall>c\<in>set (db_connectors db).
        cc_tenant_id cc = w \<and> co_id c = cc_connector_id cc \<longrightarrow> co_tenant_id c = w)"

section \<open>The queries\<close>

lemma select_one_filter: "(\<And>x. x \<in> set xs \<Longrightarrow> P x \<Longrightarrow> Q x) \<Longrightarrow> select_one P (filter Q xs) = select_one P xs"
  by (induction xs) (auto simp: select_one_def)

lemma left_join_filter: "(\<And>x. x \<in> set xs \<Longrightarrow> P x \<Longrightarrow> Q x) \<Longrightarrow> left_join P (filter Q xs) = left_join P xs"
proof -
  assume "\<And>x. x \<in> set xs \<Longrightarrow> P x \<Longrightarrow> Q x"
  then have "filter (\<lambda>x. Q x \<and> P x) xs = filter P xs" by (intro filter_cong) auto
  then show ?thesis by (simp add: left_join_def)
qed

lemma view_rule_row:
  assumes "s \<in> set (left_join (\<lambda>s. Some (sh_id s) = rs_shield_id r \<and> sh_tenant_id s = w) (db_shields db))"
  shows "rule_row (tenant_view w db) ar r n s = rule_row db ar r n s"
proof -
  have "shield_revoked (tenant_view w db) r s = shield_revoked db r s"
    using assms unfolding set_left_join
    by (cases s) (auto simp: shield_revoked_def tenant_view_def own_shield_def split: option.splits)
  then show ?thesis by (simp add: rule_row_def)
qed

lemma view_rules: "ListEnabledRulesWithResources (tenant_view w db) w = ListEnabledRulesWithResources db w"
proof -
  have lj: "left_join (\<lambda>s. Some (sh_id s) = rs_shield_id r \<and> sh_tenant_id s = w) (db_shields (tenant_view w db)) =
      left_join (\<lambda>s. Some (sh_id s) = rs_shield_id r \<and> sh_tenant_id s = w) (db_shields db)" for r
    unfolding tenant_view_def by (simp, rule left_join_filter, simp)
  have m: "map (rule_row (tenant_view w db) ar r n) (left_join (\<lambda>s. Some (sh_id s) = rs_shield_id r \<and> sh_tenant_id s = w) (db_shields db)) =
      map (rule_row db ar r n) (left_join (\<lambda>s. Some (sh_id s) = rs_shield_id r \<and> sh_tenant_id s = w) (db_shields db))" for ar r n
    by (intro map_cong refl view_rule_row)
  show ?thesis
    unfolding ListEnabledRulesWithResources_def lj m
    by (simp add: tenant_view_def conj_commute conj_left_commute cong: conj_cong)
qed

lemma view_device_active: "device_active (tenant_view w db) w cd \<longleftrightarrow> device_active db w cd"
  by (auto simp: device_active_def tenant_view_def)

lemma view_devices:
  assumes "\<And>g. g \<in> set gids \<Longrightarrow> own_group w db g"
  shows "ListActiveDeviceSPIFFEsForGroups (tenant_view w db) w gids = ListActiveDeviceSPIFFEsForGroups db w gids"
proof (rule ext)
  fix g
  have m: "filter (\<lambda>m. gm_group_id m = g) (db_group_members (tenant_view w db)) = filter (\<lambda>m. gm_group_id m = g) (db_group_members db)"
    if "g \<in> set gids"
    using assms [OF that] by (auto simp: tenant_view_def intro: filter_cong)
  have d: "filter (\<lambda>d. cd_user_id d = u \<and> cd_spiffe_id d \<noteq> None \<and> device_active db w d) (db_client_devices (tenant_view w db)) =
      filter (\<lambda>d. cd_user_id d = u \<and> cd_spiffe_id d \<noteq> None \<and> device_active db w d) (db_client_devices db)" for u
    by (auto simp: tenant_view_def device_active_def intro: filter_cong)
  show "ListActiveDeviceSPIFFEsForGroups (tenant_view w db) w gids g = ListActiveDeviceSPIFFEsForGroups db w gids g"
    unfolding ListActiveDeviceSPIFFEsForGroups_def view_device_active d by (cases "g \<in> set gids") (simp_all add: m)
qed

lemma view_placed:
  assumes "c \<in> set (db_connectors db)" and "co_tenant_id c = w"
  shows "placed_relays (tenant_view w db) c = placed_relays db c"
proof -
  have "left_join (\<lambda>p. crp_connector_id p = co_id c) (db_placements (tenant_view w db)) =
      left_join (\<lambda>p. crp_connector_id p = co_id c) (db_placements db)"
    unfolding tenant_view_def using assms by (simp, intro left_join_filter) (auto simp: own_connector_def)
  moreover have "db_relays (tenant_view w db) = db_relays db" by (simp add: tenant_view_def)
  ultimately show ?thesis unfolding placed_relays_def by (simp only:)
qed

lemma view_connectors: "GetConnectorsForRemoteNetworks (tenant_view w db) w ids = GetConnectorsForRemoteNetworks db w ids"
proof -
  have f: "filter (\<lambda>c. co_remote_network_id c \<in> set ids \<and> co_tenant_id c = w \<and> co_status c = ''active'') (db_connectors (tenant_view w db)) =
      filter (\<lambda>c. co_remote_network_id c \<in> set ids \<and> co_tenant_id c = w \<and> co_status c = ''active'') (db_connectors db)"
    by (auto simp: tenant_view_def intro: filter_cong)
  show ?thesis
    unfolding GetConnectorsForRemoteNetworks_def f
    by (auto intro!: arg_cong [of _ _ concat] simp: view_placed)
qed

lemma view_relay: "GetActiveRelay (tenant_view w db) = GetActiveRelay db"
  by (simp add: GetActiveRelay_def tenant_view_def)

lemma view_profiles: "ListProfiles (tenant_view w db) w = ListProfiles db w"
  by (simp add: ListProfiles_def tenant_view_def)

lemma view_resource_profiles:
  assumes "refs_inside w db"
  shows "ResourceProfilesForWorkspace (tenant_view w db) w = ResourceProfilesForWorkspace db w"
proof (rule ext)
  fix rid
  have pp: "filter (\<lambda>p. rpp_policy_id p = rs_policy_id r) (db_policy_profiles (tenant_view w db)) =
      filter (\<lambda>p. rpp_policy_id p = rs_policy_id r) (db_policy_profiles db)"
    if "r \<in> set (db_resources db)" "rs_tenant_id r = w" for r
    using assms that by (auto simp: refs_inside_def tenant_view_def intro!: filter_cong)
  have r: "filter (\<lambda>r. rs_tenant_id r = w \<and> rs_id r = rid) (db_resources (tenant_view w db)) =
      filter (\<lambda>r. rs_tenant_id r = w \<and> rs_id r = rid) (db_resources db)"
    by (auto simp: tenant_view_def intro: filter_cong)
  show "ResourceProfilesForWorkspace (tenant_view w db) w rid = ResourceProfilesForWorkspace db w rid"
    unfolding ResourceProfilesForWorkspace_def r
    by (auto intro!: arg_cong [of _ _ sort] arg_cong [of _ _ concat] simp: pp)
qed

lemma view_evaluations:
  assumes "refs_inside w db"
  shows "EvaluationsForDevices (tenant_view w db) w ids = EvaluationsForDevices db w ids"
proof (rule ext)
  fix d
  have j: "join_report (tenant_view w db) e = join_report db e" if e: "e \<in> set (db_evaluations db)" "er_workspace_id e = w" for e
  proof -
    have "select_one (\<lambda>r. rp_ID r = i) (db_reports (tenant_view w db)) = select_one (\<lambda>r. rp_ID r = i) (db_reports db)"
      if "er_report_id e = Some i" for i
      unfolding tenant_view_def using assms e that by (simp, intro select_one_filter) (auto simp: refs_inside_def)
    then show ?thesis by (auto simp: join_report_def split: option.splits)
  qed
  have f: "filter (\<lambda>e. er_workspace_id e = w \<and> er_device_id e = d) (db_evaluations (tenant_view w db)) =
      filter (\<lambda>e. er_workspace_id e = w \<and> er_device_id e = d) (db_evaluations db)"
    by (auto simp: tenant_view_def intro: filter_cong)
  show "EvaluationsForDevices (tenant_view w db) w ids d = EvaluationsForDevices db w ids d"
    unfolding EvaluationsForDevices_def f by (auto simp: j)
qed

lemma view_connector_row:
  assumes "refs_inside w db" and "cc \<in> set (db_connector_certificates db)" and "cc_tenant_id cc = w"
  shows "select_one (\<lambda>c. co_id c = cc_connector_id cc) (db_connectors (tenant_view w db)) =
           select_one (\<lambda>c. co_id c = cc_connector_id cc) (db_connectors db)"
  unfolding tenant_view_def using assms by (simp, intro select_one_filter) (auto simp: refs_inside_def)

lemma view_revoked:
  assumes "refs_inside w db"
  shows "GetRevokedConnectors (tenant_view w db) now w = GetRevokedConnectors db now w"
proof -
  let ?P = "\<lambda>cc. cc_tenant_id cc = w \<and> cc_not_after cc > now \<and> connector_gone_or_revoked db (cc_connector_id cc)"
  let ?Q = "\<lambda>cc. cc_tenant_id cc = w \<and> cc_not_after cc > now \<and> connector_gone_or_revoked (tenant_view w db) (cc_connector_id cc)"
  have f: "filter ?Q (db_connector_certificates (tenant_view w db)) = filter ?P (db_connector_certificates db)"
    using view_connector_row [OF assms]
    by (auto simp: tenant_view_def connector_gone_or_revoked_def intro!: filter_cong)
  have t: "revoked_trust_domain (tenant_view w db) w (cc_connector_id cc) = revoked_trust_domain db w (cc_connector_id cc)"
    if "cc \<in> set (db_connector_certificates db)" "cc_tenant_id cc = w" for cc
  proof -
    have "select_one (\<lambda>x. ws_id x = w) (db_workspaces (tenant_view w db)) = select_one (\<lambda>x. ws_id x = w) (db_workspaces db)"
      unfolding tenant_view_def by (simp, rule select_one_filter, simp)
    then show ?thesis unfolding revoked_trust_domain_def view_connector_row [OF assms that] by (simp only:)
  qed
  have "(\<exists>x\<in>set (db_workspaces (tenant_view w db)). ws_id x = w) \<longleftrightarrow> (\<exists>x\<in>set (db_workspaces db). ws_id x = w)"
    by (auto simp: tenant_view_def)
  then show ?thesis unfolding GetRevokedConnectors_def f using t by (auto simp: image_iff)
qed


section \<open>The snapshot\<close>

lemma collected_own_groups:
  assumes "collect_rules acc_empty (ListEnabledRulesWithResources db w) = Inr acc" and "g \<in> set (ac_groupIDs acc)"
  shows "own_group w db g"
proof -
  from collect_rules_ok [OF assms(1) acc_ok_empty] have "set (ac_groupIDs acc) = cp_GroupID ` set (live_rules (ListEnabledRulesWithResources db w))"
    by (simp add: acc_ok_def)
  then obtain row where "row \<in> set (ListEnabledRulesWithResources db w)" "g = cp_GroupID row"
    using assms(2) by (auto simp: live_rules_def)
  then obtain ar r where "grants db w ar r" "g = ar_group_id ar"
    unfolding enabled_rules_set using rule_row_key(2) by metis
  then show ?thesis by (auto simp: grants_def own_group_def)
qed

lemma view_compile:
  assumes "parse ws = Some w" and "refs_inside w db"
  shows "CompileACLSnapshot parse utext fails version now dbnow ws (tenant_view w db) =
           CompileACLSnapshot parse utext fails version now dbnow ws db"
proof (cases "collect_rules acc_empty (ListEnabledRulesWithResources db w)")
  case (Inr acc)
  have d: "ListActiveDeviceSPIFFEsForGroups (tenant_view w db) w (sort (ac_groupIDs acc)) =
      ListActiveDeviceSPIFFEsForGroups db w (sort (ac_groupIDs acc))"
    by (rule view_devices) (simp add: collected_own_groups [OF Inr])
  show ?thesis
    unfolding CompileACLSnapshot_def assms(1) option.case view_rules Inr sum.case Let_def d view_connectors view_profiles
      view_resource_profiles [OF assms(2)] view_evaluations [OF assms(2)] view_relay view_revoked [OF assms(2)] ..
qed (simp add: CompileACLSnapshot_def assms(1) view_rules)

text \<open>
  C15. Tenant isolation: the snapshot compiled for a workspace, its entries, networks, connectors,
  revocations and expiry, is the same in any two databases that agree on the rows of that workspace
  and on the relays, whatever rows other workspaces have, provided the workspace's rows refer
  to rows of the workspace.
\<close>

theorem compile_tenant_isolation:
  assumes "parse ws = Some w" and "refs_inside w db" and "refs_inside w db'" and "tenant_view w db = tenant_view w db'"
  shows "CompileACLSnapshot parse utext fails version now dbnow ws db =
           CompileACLSnapshot parse utext fails version now dbnow ws db'"
  using view_compile [of parse ws w db] view_compile [of parse ws w db'] assms by metis

definition ex_acl_other :: zdb where
  "ex_acl_other = ex_acl\<lparr>
     db_access_rules := \<lparr>ar_id = 41, ar_workspace_id = 6, ar_resource_id = 11, ar_group_id = 12, ar_enabled = True\<rparr> # db_access_rules ex_acl,
     db_resources := \<lparr>rs_id = 14, rs_tenant_id = 6, rs_name = ''db'', rs_host = ''10.0.0.5'', rs_port_from = 22,
       rs_protocol = ''tcp'', rs_status = ''unprotected'', rs_shield_id = None, rs_remote_network_id = 13, rs_policy_id = 30\<rparr>
       # db_resources ex_acl,
     db_client_devices := \<lparr>cd_id = 9, cd_workspace_id = 6, cd_user_id = 2, cd_spiffe_id = Some ''spiffe://other'',
       cd_revoked_at = None, cd_approved_at = None\<rparr> # db_client_devices ex_acl\<rparr>"

theorem compile_tenant_isolation_witness:
  "ex_acl_other \<noteq> ex_acl \<and>
   CompileACLSnapshot (\<lambda>s. if s = ''ws'' then Some 4 else None) (\<lambda>_. ''u'') (\<lambda>_. False) 9 (sec 400) (sec 400) ''ws'' ex_acl_other =
     ex_compile (sec 400)"
proof
  have "db_resources ex_acl_other \<noteq> db_resources ex_acl" by (simp add: ex_acl_other_def)
  then show "ex_acl_other \<noteq> ex_acl" by metis
  have g: "own_group w ex_acl_other = own_group w ex_acl" "own_connector w ex_acl_other = own_connector w ex_acl"
      "own_shield w ex_acl_other = own_shield w ex_acl" for w
    by (simp_all add: fun_eq_iff own_group_def own_connector_def own_shield_def ex_acl_other_def)
  have v: "tenant_view 4 ex_acl_other = tenant_view 4 ex_acl"
    unfolding tenant_view_def g by (simp add: ex_acl_other_def)
  have r: "refs_inside 4 ex_acl" "refs_inside 4 ex_acl_other"
    by (simp_all add: refs_inside_def ex_acl_other_def ex_acl_defs)
  show "CompileACLSnapshot (\<lambda>s. if s = ''ws'' then Some 4 else None) (\<lambda>_. ''u'') (\<lambda>_. False) 9 (sec 400) (sec 400) ''ws'' ex_acl_other =
     ex_compile (sec 400)"
    by (rule compile_tenant_isolation [where w = 4]) (simp_all add: r v)
qed

end
