(* ===== verification/Zec_Caches.thy ===== *)
theory Zec_Caches
  imports Zec_Interfaces "HOL-Library.Word" "HOL-Library.Multiset"
begin

text \<open>
  The contract of a cache whose stores are guarded by an invalidation token. Three components of
  the controller use the pattern: the policy snapshot cache and the transport snapshot cache, with a
  counter per workspace, and the role cache of the access checker, with a counter per user and one
  per workspace. A reader captures the token of a key, computes a value from the database without
  holding a lock, and stores it only if the token is unchanged.

  The machine below interleaves any number of such readers with writers that commit a change and
  invalidate afterwards. A value is computed from several database reads, so a reader that a commit
  overlapped may come out with any value at all. The locale shows once that nevertheless every cached
  value is one the current database gives, as soon as no invalidation is outstanding for its key.
\<close>

section \<open>Readers and writers\<close>

record ('k, 't, 'v) cread =
  cr_key :: 'k
  cr_token :: 't
  cr_age :: nat
  cr_dirty :: bool
  cr_val :: "'v option"

record ('s, 'd, 'k, 't, 'v, 'i) csys =
  cs_cache :: 's
  cs_db :: 'd
  cs_pending :: "'i multiset"
  cs_reads :: "nat \<rightharpoonup> ('k, 't, 'v) cread"

text \<open>
  \<open>cr_dirty\<close> says that a change affecting the key was committed since the reader captured its token,
  \<open>cr_age\<close> counts the invalidations of the key since then. Both are bookkeeping of the machine; the
  program has neither.
\<close>

definition aged :: "('i \<Rightarrow> 'k \<Rightarrow> bool) \<Rightarrow> 'i \<Rightarrow> ('k, 't, 'v) cread \<Rightarrow> ('k, 't, 'v) cread" where
  "aged affects i q = q\<lparr>cr_age := cr_age q + (if affects i (cr_key q) then 1 else 0)\<rparr>"

definition dirtied :: "('i \<Rightarrow> 'k \<Rightarrow> bool) \<Rightarrow> 'i \<Rightarrow> ('k, 't, 'v) cread \<Rightarrow> ('k, 't, 'v) cread" where
  "dirtied affects i q = q\<lparr>cr_dirty := (cr_dirty q \<or> affects i (cr_key q))\<rparr>"

inductive cache_step ::
  "('s \<Rightarrow> 'k \<Rightarrow> 't) \<Rightarrow> ('s \<Rightarrow> 'k \<Rightarrow> 'v \<Rightarrow> 't \<Rightarrow> 's) \<Rightarrow> ('s \<Rightarrow> 'i \<Rightarrow> 's) \<Rightarrow> ('s \<Rightarrow> 'e \<Rightarrow> 's) \<Rightarrow> ('i \<Rightarrow> 'k \<Rightarrow> bool)
   \<Rightarrow> ('d \<Rightarrow> 'k \<Rightarrow> 'v \<Rightarrow> bool)
   \<Rightarrow> ('s, 'd, 'k, 't, 'v, 'i) csys \<Rightarrow> ('s, 'd, 'k, 't, 'v, 'i) csys \<Rightarrow> bool"
  for token store inval evict affects computes where
  capture: "cs_reads \<sigma> r = None \<Longrightarrow>
     q = \<lparr>cr_key = k, cr_token = token (cs_cache \<sigma>) k, cr_age = 0, cr_dirty = False, cr_val = None\<rparr> \<Longrightarrow>
     cache_step token store inval evict affects computes \<sigma> (\<sigma>\<lparr>cs_reads := (cs_reads \<sigma>)(r \<mapsto> q)\<rparr>)"
| compute: "cs_reads \<sigma> r = Some q \<Longrightarrow> cr_dirty q \<or> computes (cs_db \<sigma>) (cr_key q) v \<Longrightarrow>
     cache_step token store inval evict affects computes \<sigma>
       (\<sigma>\<lparr>cs_reads := (cs_reads \<sigma>)(r \<mapsto> q\<lparr>cr_val := Some v\<rparr>)\<rparr>)"
| store: "cs_reads \<sigma> r = Some q \<Longrightarrow> cr_val q = Some v \<Longrightarrow>
     cache_step token store inval evict affects computes \<sigma>
       (\<sigma>\<lparr>cs_cache := store (cs_cache \<sigma>) (cr_key q) v (cr_token q), cs_reads := (cs_reads \<sigma>)(r := None)\<rparr>)"
| abort: "cache_step token store inval evict affects computes \<sigma> (\<sigma>\<lparr>cs_reads := (cs_reads \<sigma>)(r := None)\<rparr>)"
| commit: "\<forall>k v. \<not> affects i k \<longrightarrow> computes db' k v = computes (cs_db \<sigma>) k v \<Longrightarrow>
     cache_step token store inval evict affects computes \<sigma>
       (\<sigma>\<lparr>cs_db := db', cs_pending := add_mset i (cs_pending \<sigma>),
         cs_reads := (\<lambda>r. map_option (dirtied affects i) (cs_reads \<sigma> r))\<rparr>)"
| invalidate: "\<forall>q\<in>ran (cs_reads \<sigma>). cr_age q + 1 < 2 ^ 64 \<Longrightarrow>
     cache_step token store inval evict affects computes \<sigma>
       (\<sigma>\<lparr>cs_cache := inval (cs_cache \<sigma>) i, cs_pending := cs_pending \<sigma> - {#i#},
         cs_reads := (\<lambda>r. map_option (aged affects i) (cs_reads \<sigma> r))\<rparr>)"
| evict: "cache_step token store inval evict affects computes \<sigma> (\<sigma>\<lparr>cs_cache := evict (cs_cache \<sigma>) e\<rparr>)"

definition cache_init :: "('s \<Rightarrow> 'k \<Rightarrow> 'v option) \<Rightarrow> ('s, 'd, 'k, 't, 'v, 'i) csys \<Rightarrow> bool" where
  "cache_init lookup \<sigma> \<longleftrightarrow>
     (\<forall>k. lookup (cs_cache \<sigma>) k = None) \<and> cs_pending \<sigma> = {#} \<and> cs_reads \<sigma> = Map.empty"

lemma in_minus_other: "j \<in># M \<Longrightarrow> j \<noteq> i \<Longrightarrow> j \<in># M - {#i#}"
  by (simp flip: count_greater_zero_iff)

text \<open>One reader alone: capture, compute, store.\<close>

lemma reach_stored:
  assumes "\<forall>k. lookup c k = None" and "computes db k v"
  shows "reach (cache_init lookup) (cache_step token store inval evict affects computes)
     \<lparr>cs_cache = store c k v (token c k), cs_db = db, cs_pending = {#}, cs_reads = Map.empty\<rparr>"
proof -
  let ?step = "cache_step token store inval evict affects computes"
  let ?s = "\<lambda>rs. \<lparr>cs_cache = c, cs_db = db, cs_pending = {#}, cs_reads = rs\<rparr>"
  let ?q = "\<lambda>x. \<lparr>cr_key = k, cr_token = token c k, cr_age = 0, cr_dirty = False, cr_val = x\<rparr>"
  have "reach (cache_init lookup) ?step (?s Map.empty)"
    using assms(1) by (intro reach.intros) (simp add: cache_init_def)
  moreover have "?step (?s Map.empty) (?s [0 \<mapsto> ?q None])"
    using cache_step.capture [of "?s Map.empty" 0 "?q None" k token] by simp
  ultimately have "reach (cache_init lookup) ?step (?s [0 \<mapsto> ?q None])" by (rule reach.intros)
  moreover have "?step (?s [0 \<mapsto> ?q None]) (?s [0 \<mapsto> ?q (Some v)])"
    using cache_step.compute [of "?s [0 \<mapsto> ?q None]" 0 "?q None" computes v] assms(2) by simp
  ultimately have "reach (cache_init lookup) ?step (?s [0 \<mapsto> ?q (Some v)])" by (rule reach.intros)
  moreover have "?step (?s [0 \<mapsto> ?q (Some v)]) \<lparr>cs_cache = store c k v (token c k), cs_db = db, cs_pending = {#}, cs_reads = Map.empty\<rparr>"
    using cache_step.store [of "?s [0 \<mapsto> ?q (Some v)]" 0 "?q (Some v)" v token store] by simp
  ultimately show ?thesis by (rule reach.intros)
qed

section \<open>The contract\<close>

text \<open>
  \<open>lookup\<close> reads the stored value of a key whatever its expiry, \<open>ticks\<close> folds a token into one
  64-bit count that every invalidation of the key raises by one.
\<close>

locale guarded_cache =
  fixes token :: "'s \<Rightarrow> 'k \<Rightarrow> 't"
    and store :: "'s \<Rightarrow> 'k \<Rightarrow> 'v \<Rightarrow> 't \<Rightarrow> 's"
    and inval :: "'s \<Rightarrow> 'i \<Rightarrow> 's"
    and evict :: "'s \<Rightarrow> 'e \<Rightarrow> 's"
    and lookup :: "'s \<Rightarrow> 'k \<Rightarrow> 'v option"
    and affects :: "'i \<Rightarrow> 'k \<Rightarrow> bool"
    and ticks :: "'t \<Rightarrow> 64 word"
  assumes store_stale: "t \<noteq> token s k \<Longrightarrow> store s k v t = s"
    and store_lookup: "lookup (store s k v t) k' = lookup s k' \<or> k' = k \<and> lookup (store s k v t) k' = Some v"
    and store_token: "token (store s k v t) k' = token s k'"
    and inval_lookup: "affects i k \<Longrightarrow> lookup (inval s i) k = None"
    and inval_other: "\<not> affects i k \<Longrightarrow> lookup (inval s i) k = lookup s k"
    and inval_ticks: "ticks (token (inval s i) k) = ticks (token s k) + (if affects i k then 1 else 0)"
    and evict_lookup: "lookup (evict s e) k = None \<or> lookup (evict s e) k = lookup s k"
    and evict_token: "token (evict s e) k = token s k"
begin

definition read_ok :: "('d \<Rightarrow> 'k \<Rightarrow> 'v \<Rightarrow> bool) \<Rightarrow> 's \<Rightarrow> 'd \<Rightarrow> 'i multiset \<Rightarrow> ('k, 't, 'v) cread \<Rightarrow> bool" where
  "read_ok computes s db pend q \<longleftrightarrow>
     ticks (cr_token q) + of_nat (cr_age q) = ticks (token s (cr_key q)) \<and> cr_age q < 2 ^ 64 \<and>
     (cr_dirty q \<longrightarrow> 0 < cr_age q \<or> (\<exists>i\<in>#pend. affects i (cr_key q))) \<and>
     (\<forall>v. cr_val q = Some v \<and> \<not> cr_dirty q \<longrightarrow> computes db (cr_key q) v)"

definition entries_ok :: "('d \<Rightarrow> 'k \<Rightarrow> 'v \<Rightarrow> bool) \<Rightarrow> 's \<Rightarrow> 'd \<Rightarrow> 'i multiset \<Rightarrow> bool" where
  "entries_ok computes s db pend \<longleftrightarrow>
     (\<forall>k v. lookup s k = Some v \<and> (\<forall>i\<in>#pend. \<not> affects i k) \<longrightarrow> computes db k v)"

definition coherent :: "('d \<Rightarrow> 'k \<Rightarrow> 'v \<Rightarrow> bool) \<Rightarrow> ('s, 'd, 'k, 't, 'v, 'i) csys \<Rightarrow> bool" where
  "coherent computes \<sigma> \<longleftrightarrow>
     entries_ok computes (cs_cache \<sigma>) (cs_db \<sigma>) (cs_pending \<sigma>) \<and>
     (\<forall>r q. cs_reads \<sigma> r = Some q \<longrightarrow> read_ok computes (cs_cache \<sigma>) (cs_db \<sigma>) (cs_pending \<sigma>) q)"

lemma clean_if_token:
  assumes "read_ok computes s db pend q" and "cr_token q = token s (cr_key q)"
  shows "cr_age q = 0"
proof -
  have "of_nat (cr_age q) = (0 :: 64 word)" and "cr_age q < 2 ^ 64"
    using assms by (auto simp: read_ok_def)
  then have "2 ^ 64 dvd cr_age q" by (simp add: word_of_nat_eq_0_iff)
  with \<open>cr_age q < 2 ^ 64\<close> show ?thesis by (meson dvd_imp_le gr0I leD)
qed

lemma store_entries_ok:
  assumes "entries_ok computes s db pend" and "read_ok computes s db pend q" and "cr_val q = Some v"
  shows "entries_ok computes (store s (cr_key q) v (cr_token q)) db pend"
proof (cases "cr_token q = token s (cr_key q)")
  case True
  with clean_if_token [OF assms(2)] have "cr_age q = 0" by simp
  then have "(\<exists>i\<in>#pend. affects i (cr_key q)) \<or> computes db (cr_key q) v"
    using assms(2,3) by (auto simp: read_ok_def)
  then show ?thesis
    using assms(1) store_lookup [of s "cr_key q" v "cr_token q"] unfolding entries_ok_def by (metis option.inject)
next
  case False
  then show ?thesis using assms(1) by (simp add: store_stale)
qed

lemma inval_entries_ok:
  assumes "entries_ok computes s db pend"
  shows "entries_ok computes (inval s i) db (pend - {#i#})"
  unfolding entries_ok_def
proof (intro allI impI)
  fix k v
  assume a: "lookup (inval s i) k = Some v \<and> (\<forall>j\<in>#pend - {#i#}. \<not> affects j k)"
  then have "\<not> affects i k" using inval_lookup by force
  moreover from this a have "\<forall>j\<in>#pend. \<not> affects j k" by (metis in_minus_other)
  ultimately show "computes db k v" using a assms inval_other by (auto simp: entries_ok_def)
qed

lemma inval_read_ok:
  assumes "read_ok computes s db pend q" and "cr_age q + 1 < 2 ^ 64"
  shows "read_ok computes (inval s i) db (pend - {#i#}) (aged affects i q)"
proof -
  have "ticks (cr_token q) + of_nat (cr_age (aged affects i q)) = ticks (token (inval s i) (cr_key q))"
    using assms(1) by (simp add: read_ok_def aged_def inval_ticks add.assoc)
  moreover have "cr_dirty q \<Longrightarrow> 0 < cr_age (aged affects i q) \<or> (\<exists>j\<in>#pend - {#i#}. affects j (cr_key q))"
    using assms(1) by (auto simp: read_ok_def aged_def) (metis in_minus_other)
  ultimately show ?thesis using assms by (simp add: read_ok_def aged_def)
qed

lemma commit_read_ok:
  assumes "read_ok computes s db pend q" and "\<forall>k v. \<not> affects i k \<longrightarrow> computes db' k v = computes db k v"
  shows "read_ok computes s db' (add_mset i pend) (dirtied affects i q)"
  using assms by (cases "affects i (cr_key q)") (auto simp: read_ok_def dirtied_def)

lemma commit_entries_ok:
  assumes "entries_ok computes s db pend" and "\<forall>k v. \<not> affects i k \<longrightarrow> computes db' k v = computes db k v"
  shows "entries_ok computes s db' (add_mset i pend)"
  using assms by (auto simp: entries_ok_def)

lemma coherent_step:
  assumes "coherent computes \<sigma>" and "cache_step token store inval evict affects computes \<sigma> \<sigma>'"
  shows "coherent computes \<sigma>'"
proof -
  have E: "entries_ok computes (cs_cache \<sigma>) (cs_db \<sigma>) (cs_pending \<sigma>)"
    using assms(1) by (simp add: coherent_def)
  have R: "\<And>r q. cs_reads \<sigma> r = Some q \<Longrightarrow> read_ok computes (cs_cache \<sigma>) (cs_db \<sigma>) (cs_pending \<sigma>) q"
    using assms(1) by (simp add: coherent_def)
  from assms(2) show ?thesis
  proof cases
    case (capture r q k)
    then show ?thesis using E R by (auto simp: coherent_def read_ok_def)
  next
    case (compute r q v)
    then show ?thesis using E R by (auto simp: coherent_def read_ok_def)
  next
    case (store r q v)
    with store_entries_ok [OF E R] show ?thesis
      using R by (auto simp: coherent_def read_ok_def store_token)
  next
    case (abort r)
    then show ?thesis using E R by (auto simp: coherent_def)
  next
    case (commit i db')
    show ?thesis unfolding commit(1)
      using commit_entries_ok [OF E commit(2)] commit_read_ok [OF R commit(2)] by (auto simp: coherent_def)
  next
    case (invalidate i)
    have "cs_reads \<sigma> r = Some q \<Longrightarrow> cr_age q + 1 < 2 ^ 64" for r q
      using invalidate(2) by (simp add: ranI)
    from inval_read_ok [OF R this] inval_entries_ok [OF E] show ?thesis
      unfolding invalidate(1) by (auto simp: coherent_def)
  next
    case (evict e)
    have "entries_ok computes (evict (cs_cache \<sigma>) e) (cs_db \<sigma>) (cs_pending \<sigma>)"
      using E evict_lookup [of "cs_cache \<sigma>" e] unfolding entries_ok_def by (metis option.distinct(1))
    then show ?thesis unfolding evict using R by (auto simp: coherent_def read_ok_def evict_token)
  qed
qed

lemma coherent_init: "cache_init lookup \<sigma> \<Longrightarrow> coherent computes \<sigma>"
  by (simp add: cache_init_def coherent_def entries_ok_def)

lemma coherent_reach:
  assumes "reach (cache_init lookup) (cache_step token store inval evict affects computes) \<sigma>"
  shows "coherent computes \<sigma>"
  using assms by (induction rule: reach.induct) (auto intro: coherent_init coherent_step)

text \<open>What a client of the cache may rely on.\<close>

lemma cached_current:
  assumes "reach (cache_init lookup) (cache_step token store inval evict affects computes) \<sigma>"
    and "lookup (cs_cache \<sigma>) k = Some v" and "\<forall>i\<in>#cs_pending \<sigma>. \<not> affects i k"
  shows "computes (cs_db \<sigma>) k v"
  using coherent_reach [OF assms(1)] assms(2,3) unfolding coherent_def entries_ok_def by blast

end

end
