(* ===== verification/Transport.thy ===== *)
theory Transport
  imports Zec_Caches Acl_Compiler
begin

text \<open>
  The transport plane (\<open>internal/transport\<close>): the snapshot of which connector and relay serves each
  remote network, its cache and its notifier. The queries share the row type and the joins of the policy
  store's connector lookup, as the source notes.
\<close>

section \<open>Queries\<close>

definition GetWorkspaceConnectors :: "zdb \<Rightarrow> uuid \<Rightarrow> remote_network_connectors_row list" where
  "GetWorkspaceConnectors db w =
     [connector_info c r.
        c \<leftarrow> sort_key (\<lambda>c. (co_remote_network_id c, freshest (co_last_heartbeat_at c)))
              (filter (\<lambda>c. co_tenant_id c = w \<and> co_status c = ''active'') (db_connectors db)),
        r \<leftarrow> placed_relays db c]"

definition GetWorkspaceRemoteNetworkIDs :: "zdb \<Rightarrow> uuid \<Rightarrow> uuid list" where
  "GetWorkspaceRemoteNetworkIDs db w =
     sort (map rn_id (filter (\<lambda>n. rn_tenant_id n = w \<and> rn_status n = ''active'') (db_remote_networks db)))"

section \<open>The snapshot\<close>

record transport_connector =
  tc_ConnectorId :: uuid
  tc_ConnectorTunnelAddr :: string
  tc_ConnectorSpiffe :: string
  tc_RelayAddr :: string
  tc_RelaySpiffeId :: string

record transport_snapshot =
  ts_RemoteNetworks :: "(uuid \<times> transport_connector list) list"
  ts_Version :: "64 word"

definition transport_defaultRelayPort :: string where "transport_defaultRelayPort = ''9093''"

definition connectorTunnelPort :: string where "connectorTunnelPort = ''9092''"

definition transport_resolveConnectorRelayAddr :: "string \<Rightarrow> string \<Rightarrow> string" where
  "transport_resolveConnectorRelayAddr publicAddr observedHost =
     (if publicAddr \<noteq> [] then publicAddr
      else if observedHost \<noteq> [] then JoinHostPort observedHost transport_defaultRelayPort
      else [])"

definition transport_connector_of :: "(uuid \<Rightarrow> string) \<Rightarrow> remote_network_connectors_row \<Rightarrow> transport_connector" where
  "transport_connector_of utext row =
     (let host = (case SplitHostPort (rc_LanAddr row) of Some (h, _) \<Rightarrow> h | None \<Rightarrow> rc_LanAddr row) in
      \<lparr>tc_ConnectorId = rc_ConnectorID row,
       tc_ConnectorTunnelAddr = (if host \<noteq> [] then JoinHostPort host connectorTunnelPort else []),
       tc_ConnectorSpiffe =
         (if rc_TrustDomain row \<noteq> [] then ConnectorSPIFFEID (rc_TrustDomain row) (utext (rc_ConnectorID row)) else []),
       tc_RelayAddr = transport_resolveConnectorRelayAddr (rc_RelayPublicAddr row) (rc_RelayObservedHost row),
       tc_RelaySpiffeId = (case rc_RelayID row of None \<Rightarrow> [] | Some i \<Rightarrow> RelaySPIFFEID (utext i))\<rparr>)"

text \<open>The map of networks built so far and the order in which they were met.\<close>

type_synonym rn_acc = "(uuid \<rightharpoonup> transport_connector list) \<times> uuid list"

fun add_rows :: "(uuid \<Rightarrow> string) \<Rightarrow> rn_acc \<Rightarrow> remote_network_connectors_row list \<Rightarrow> rn_acc" where
  "add_rows utext acc [] = acc"
| "add_rows utext (rnMap, order) (row # rows) =
     (case rnMap (rc_RemoteNetworkID row) of
        None \<Rightarrow> add_rows utext (rnMap(rc_RemoteNetworkID row \<mapsto> [transport_connector_of utext row]),
                               order @ [rc_RemoteNetworkID row]) rows
      | Some cs \<Rightarrow> add_rows utext (rnMap(rc_RemoteNetworkID row \<mapsto> cs @ [transport_connector_of utext row]), order) rows)"

fun add_empty :: "rn_acc \<Rightarrow> uuid list \<Rightarrow> rn_acc" where
  "add_empty acc [] = acc"
| "add_empty (rnMap, order) (i # ids) =
     (case rnMap i of
        Some _ \<Rightarrow> add_empty (rnMap, order) ids
      | None \<Rightarrow> add_empty (rnMap(i \<mapsto> []), order @ [i]) ids)"

definition assembleTransportSnapshot ::
  "(uuid \<Rightarrow> string) \<Rightarrow> remote_network_connectors_row list \<Rightarrow> uuid list \<Rightarrow> 64 word \<Rightarrow> transport_snapshot" where
  "assembleTransportSnapshot utext rows activeRNIDs version =
     (let (rnMap, order) = add_empty (add_rows utext (Map.empty, []) rows) activeRNIDs in
      \<lparr>ts_RemoteNetworks = map (\<lambda>i. (i, the (rnMap i))) order, ts_Version = version\<rparr>)"

datatype transport_query = QWorkspaceConnectors | QRemoteNetworkIDs

definition CompileTransportSnapshot ::
  "(uuid \<Rightarrow> string) \<Rightarrow> (transport_query \<Rightarrow> bool) \<Rightarrow> 64 word \<Rightarrow> uuid \<Rightarrow> zdb \<Rightarrow> transport_query + transport_snapshot" where
  "CompileTransportSnapshot utext fails version w db =
     (if fails QWorkspaceConnectors then Inl QWorkspaceConnectors
      else if fails QRemoteNetworkIDs then Inl QRemoteNetworkIDs
      else Inr (assembleTransportSnapshot utext (GetWorkspaceConnectors db w) (GetWorkspaceRemoteNetworkIDs db w) version))"

section \<open>The cache\<close>

record transport_cache =
  tca_entries :: "uuid \<rightharpoonup> transport_snapshot"
  tca_epoch :: "uuid \<Rightarrow> 64 word"

definition transport_NewSnapshotCache :: transport_cache where
  "transport_NewSnapshotCache = \<lparr>tca_entries = Map.empty, tca_epoch = (\<lambda>_. 0)\<rparr>"

definition transport_Get :: "transport_cache \<Rightarrow> uuid \<Rightarrow> transport_snapshot option" where
  "transport_Get c ws = tca_entries c ws"

definition transport_Epoch :: "transport_cache \<Rightarrow> uuid \<Rightarrow> 64 word" where
  "transport_Epoch c ws = tca_epoch c ws"

definition transport_setLocked :: "uuid \<Rightarrow> transport_snapshot \<Rightarrow> transport_cache \<Rightarrow> transport_cache" where
  "transport_setLocked ws snap c =
     (case tca_entries c ws of
        Some existing \<Rightarrow> if ts_Version snap < ts_Version existing then c
                         else c\<lparr>tca_entries := (tca_entries c)(ws \<mapsto> snap)\<rparr>
      | None \<Rightarrow> c\<lparr>tca_entries := (tca_entries c)(ws \<mapsto> snap)\<rparr>)"

definition transport_SetIfEpoch :: "uuid \<Rightarrow> transport_snapshot \<Rightarrow> 64 word \<Rightarrow> transport_cache \<Rightarrow> bool \<times> transport_cache" where
  "transport_SetIfEpoch ws snap observedEpoch c =
     (if tca_epoch c ws \<noteq> observedEpoch then (False, c) else (True, transport_setLocked ws snap c))"

definition transport_Invalidate :: "uuid \<Rightarrow> transport_cache \<Rightarrow> transport_cache" where
  "transport_Invalidate ws c =
     c\<lparr>tca_entries := (tca_entries c)(ws := None), tca_epoch := (tca_epoch c)(ws := tca_epoch c ws + 1)\<rparr>"

text \<open>
  One attempt of \<open>GetOrCompile\<close>: what other goroutines do before the epoch is captured, while it
  compiles and before the cache is read again, and what the compilation gives.
\<close>

record 'e t_attempt =
  ta_before :: "transport_cache \<Rightarrow> transport_cache"
  ta_during :: "transport_cache \<Rightarrow> transport_cache"
  ta_after :: "transport_cache \<Rightarrow> transport_cache"
  ta_compiled :: "'e + transport_snapshot"

fun transport_loop ::
  "uuid \<Rightarrow> 'e t_attempt list \<Rightarrow> transport_snapshot option \<Rightarrow> transport_cache \<Rightarrow> ('e + transport_snapshot option) \<times> transport_cache" where
  "transport_loop ws [] latest c = (Inr latest, c)"
| "transport_loop ws (a # as) latest c =
     (let c1 = ta_before a c; observed = transport_Epoch c1 ws; c2 = ta_during a c1 in
      case ta_compiled a of
        Inl err \<Rightarrow> (Inl err, c2)
      | Inr snap \<Rightarrow>
          (case transport_SetIfEpoch ws snap observed c2 of
             (True, c3) \<Rightarrow> (Inr (Some snap), c3)
           | (False, c3) \<Rightarrow>
               let c4 = ta_after a c3 in
               (case transport_Get c4 ws of
                  Some fresh \<Rightarrow> (Inr (Some fresh), c4)
                | None \<Rightarrow> transport_loop ws as (Some snap) c4)))"

definition transport_maxCompileRetries :: nat where "transport_maxCompileRetries = 3"

definition transport_GetOrCompile ::
  "(nat \<Rightarrow> 'e t_attempt) \<Rightarrow> uuid \<Rightarrow> transport_cache \<Rightarrow> ('e + transport_snapshot option) \<times> transport_cache" where
  "transport_GetOrCompile attempts ws c =
     (case transport_Get c ws of
        Some snap \<Rightarrow> (Inr (Some snap), c)
      | None \<Rightarrow> transport_loop ws (map attempts [0..<transport_maxCompileRetries]) None c)"

section \<open>The notifier\<close>

record transport_notifier =
  tn_cache :: transport_cache
  tn_versions :: "uuid \<rightharpoonup> 64 word"
  tn_listeners :: nat

definition transport_Version :: "transport_notifier \<Rightarrow> uuid \<Rightarrow> 64 word" where
  "transport_Version n ws = (case tn_versions n ws of None \<Rightarrow> 0 | Some v \<Rightarrow> v)"

text \<open>
  The workspace is empty (the only error) when \<open>None\<close>; the listeners are called in order and the
  connector list is not used.
\<close>

definition NotifyTopologyChange ::
  "uuid option \<Rightarrow> uuid list \<Rightarrow> transport_notifier \<Rightarrow> (nat \<times> uuid) list option \<times> transport_notifier" where
  "NotifyTopologyChange workspaceID affectedConnectorIDs n =
     (case workspaceID of
        None \<Rightarrow> (None, n)
      | Some ws \<Rightarrow>
          (Some (map (\<lambda>i. (i, ws)) [0..<tn_listeners n]),
           n\<lparr>tn_versions := (tn_versions n)(ws \<mapsto> transport_Version n ws + 1),
             tn_cache := transport_Invalidate ws (tn_cache n)\<rparr>))"

end
