(* ===== verification/Policy_Cache.thy ===== *)
theory Policy_Cache
  imports Zec_Caches Acl_Compiler
begin

text \<open>
  The policy snapshot cache, the change notifier and the invalidation handler
  (\<open>internal/policy/cache.go\<close>, \<open>notifier.go\<close>, \<open>invalidation.go\<close>).

  Every section the source runs under the cache's mutex is one definition on the cache's state.
  Operations that take the lock more than once receive what other goroutines do in between as an
  argument (\<open>others\<close>, one function per unlocked stretch), and the clock as the readings they make.
  The snapshot pointer and its expiry are one \<open>compiled_acl\<close>. \<open>singleflight\<close> lets callers that arrive
  while a compilation runs share its result; the model is of the caller that runs it.
\<close>

section \<open>The cache\<close>

record snapshot_cache =
  sc_entries :: "string \<rightharpoonup> compiled_acl"
  sc_epoch :: "string \<Rightarrow> 64 word"

definition NewSnapshotCache :: snapshot_cache where
  "NewSnapshotCache = \<lparr>sc_entries = Map.empty, sc_epoch = (\<lambda>_. 0)\<rparr>"

definition maxCompileRetries :: nat where "maxCompileRetries = 3"

abbreviation acl_version :: "compiled_acl \<Rightarrow> 64 word" where
  "acl_version e \<equiv> as_Version (ca_Snapshot e)"

definition entry_valid :: "time \<Rightarrow> compiled_acl \<Rightarrow> bool" where
  "entry_valid now e \<longleftrightarrow> ca_ValidUntil e = zero_time \<or> ca_ValidUntil e > now"

text \<open>The two locked sections of \<open>Get\<close>: the read, and the removal of an expired entry.\<close>

datatype get_read = Hit acl_snapshot | Miss | Expired

definition Get_read :: "time \<Rightarrow> string \<Rightarrow> snapshot_cache \<Rightarrow> get_read" where
  "Get_read now ws c =
     (case sc_entries c ws of
        None \<Rightarrow> Miss
      | Some e \<Rightarrow> if entry_valid now e then Hit (ca_Snapshot e) else Expired)"

definition Get_evict :: "time \<Rightarrow> string \<Rightarrow> snapshot_cache \<Rightarrow> bool \<times> snapshot_cache" where
  "Get_evict now ws c =
     (case sc_entries c ws of
        None \<Rightarrow> (False, c)
      | Some e \<Rightarrow> if entry_valid now e then (False, c)
                  else (True, c\<lparr>sc_entries := (sc_entries c)(ws := None)\<rparr>))"

text \<open>
  The result, whether the expiry notifier fires for the workspace (\<open>notifyExpiryEvent\<close>), the state.
\<close>

definition SnapshotCache_Get ::
  "(snapshot_cache \<Rightarrow> snapshot_cache) \<Rightarrow> time \<Rightarrow> time \<Rightarrow> string \<Rightarrow> snapshot_cache
   \<Rightarrow> acl_snapshot option \<times> bool \<times> snapshot_cache" where
  "SnapshotCache_Get others now1 now2 ws c =
     (case Get_read now1 ws c of
        Hit s \<Rightarrow> (Some s, False, c)
      | Miss \<Rightarrow> (None, False, c)
      | Expired \<Rightarrow> (case Get_evict now2 ws (others c) of (expired, c') \<Rightarrow> (None, expired, c')))"

definition Epoch :: "snapshot_cache \<Rightarrow> string \<Rightarrow> 64 word" where
  "Epoch c ws = sc_epoch c ws"

definition setLocked :: "string \<Rightarrow> compiled_acl \<Rightarrow> snapshot_cache \<Rightarrow> snapshot_cache" where
  "setLocked ws e c =
     (case sc_entries c ws of
        Some existing \<Rightarrow> if acl_version e < acl_version existing then c
                         else c\<lparr>sc_entries := (sc_entries c)(ws \<mapsto> e)\<rparr>
      | None \<Rightarrow> c\<lparr>sc_entries := (sc_entries c)(ws \<mapsto> e)\<rparr>)"

definition SetIfEpoch :: "string \<Rightarrow> compiled_acl \<Rightarrow> 64 word \<Rightarrow> snapshot_cache \<Rightarrow> bool \<times> snapshot_cache" where
  "SetIfEpoch ws e observedEpoch c =
     (if sc_epoch c ws \<noteq> observedEpoch then (False, c) else (True, setLocked ws e c))"

definition SnapshotCache_Invalidate :: "string \<Rightarrow> snapshot_cache \<Rightarrow> snapshot_cache" where
  "SnapshotCache_Invalidate ws c =
     c\<lparr>sc_entries := (sc_entries c)(ws := None), sc_epoch := (sc_epoch c)(ws := sc_epoch c ws + 1)\<rparr>"

section \<open>Compiling on a miss\<close>

text \<open>
  What happens around one attempt: other goroutines before the epoch is captured, while the
  compilation runs, before the cache is read again and inside that read; what the
  compilation gives; the clock readings of that read.
\<close>

record 'e attempt =
  at_before :: "snapshot_cache \<Rightarrow> snapshot_cache"
  at_during :: "snapshot_cache \<Rightarrow> snapshot_cache"
  at_after :: "snapshot_cache \<Rightarrow> snapshot_cache"
  at_inside :: "snapshot_cache \<Rightarrow> snapshot_cache"
  at_compiled :: "'e + compiled_acl"
  at_now1 :: time
  at_now2 :: time

fun compile_loop ::
  "string \<Rightarrow> 'e attempt list \<Rightarrow> acl_snapshot option \<Rightarrow> snapshot_cache
   \<Rightarrow> ('e + acl_snapshot option) \<times> snapshot_cache" where
  "compile_loop ws [] latest c = (Inr latest, c)"
| "compile_loop ws (a # as) latest c =
     (let c1 = at_before a c; observed = Epoch c1 ws; c2 = at_during a c1 in
      case at_compiled a of
        Inl err \<Rightarrow> (Inl err, c2)
      | Inr compiled \<Rightarrow>
          (case SetIfEpoch ws compiled observed c2 of
             (True, c3) \<Rightarrow> (Inr (Some (ca_Snapshot compiled)), c3)
           | (False, c3) \<Rightarrow>
               (case SnapshotCache_Get (at_inside a) (at_now1 a) (at_now2 a) ws (at_after a c3) of
                  (Some fresh, _, c4) \<Rightarrow> (Inr (Some fresh), c4)
                | (None, _, c4) \<Rightarrow> compile_loop ws as (Some (ca_Snapshot compiled)) c4)))"

definition GetOrCompile ::
  "(snapshot_cache \<Rightarrow> snapshot_cache) \<Rightarrow> time \<Rightarrow> time \<Rightarrow> (nat \<Rightarrow> 'e attempt) \<Rightarrow> string \<Rightarrow> snapshot_cache
   \<Rightarrow> ('e + acl_snapshot option) \<times> snapshot_cache" where
  "GetOrCompile others now1 now2 attempts ws c =
     (case SnapshotCache_Get others now1 now2 ws c of
        (Some snap, _, c1) \<Rightarrow> (Inr (Some snap), c1)
      | (None, _, c1) \<Rightarrow> compile_loop ws (map attempts [0..<maxCompileRetries]) None c1)"

section \<open>The notifier\<close>

record notifier =
  nt_cache :: snapshot_cache
  nt_versions :: "string \<rightharpoonup> 64 word"
  nt_pushHook :: bool
  nt_listeners :: nat

datatype notify_error = ErrWorkspaceRequired

text \<open>What a consumer is called with: the hook or a listener, and the version it then reads.\<close>

datatype notify_call = CallPush string "64 word" | CallListener nat string "64 word"

definition NewNotifier :: "snapshot_cache \<Rightarrow> notifier" where
  "NewNotifier cache = \<lparr>nt_cache = cache, nt_versions = Map.empty, nt_pushHook = False, nt_listeners = 0\<rparr>"

definition RegisterPushHook :: "notifier \<Rightarrow> notifier" where
  "RegisterPushHook n = n\<lparr>nt_pushHook := True\<rparr>"

definition AddChangeListener :: "notifier \<Rightarrow> notifier" where
  "AddChangeListener n = n\<lparr>nt_listeners := nt_listeners n + 1\<rparr>"

definition Version :: "notifier \<Rightarrow> string \<Rightarrow> 64 word" where
  "Version n ws = (case nt_versions n ws of None \<Rightarrow> 0 | Some v \<Rightarrow> v)"

definition NotifyPolicyChange :: "string \<Rightarrow> notifier \<Rightarrow> notify_error option \<times> notify_call list \<times> notifier" where
  "NotifyPolicyChange ws n =
     (if ws = [] then (Some ErrWorkspaceRequired, [], n)
      else
        let v = Version n ws + 1;
            n' = n\<lparr>nt_versions := (nt_versions n)(ws \<mapsto> v), nt_cache := SnapshotCache_Invalidate ws (nt_cache n)\<rparr>
        in (None,
            (if nt_pushHook n' then [CallPush ws (Version n' ws)] else []) @
              map (\<lambda>i. CallListener i ws (Version n' ws)) [0..<nt_listeners n'],
            n'))"

definition InvalidationHandler_Handle ::
  "(uuid \<Rightarrow> string) \<Rightarrow> uuid \<Rightarrow> notifier \<Rightarrow> notify_error option \<times> notify_call list \<times> notifier" where
  "InvalidationHandler_Handle utext workspaceID n = NotifyPolicyChange (utext workspaceID) n"

section \<open>The contract of a guarded cache\<close>

lemma setLocked_sel [simp]:
  "sc_epoch (setLocked ws e c) = sc_epoch c"
  "ws' \<noteq> ws \<Longrightarrow> sc_entries (setLocked ws e c) ws' = sc_entries c ws'"
  by (auto simp: setLocked_def split: option.splits)

lemma setLocked_cases: "sc_entries (setLocked ws e c) ws \<in> {sc_entries c ws, Some e}"
  by (auto simp: setLocked_def split: option.splits)

lemma Get_evict_sel [simp]:
  "sc_epoch (snd (Get_evict now ws c)) = sc_epoch c"
  "sc_entries (snd (Get_evict now ws c)) k \<in> {None, sc_entries c k}"
  by (auto simp: Get_evict_def split: option.splits)

definition evict_expired :: "snapshot_cache \<Rightarrow> time \<times> string \<Rightarrow> snapshot_cache" where
  "evict_expired c e = snd (Get_evict (fst e) (snd e) c)"

interpretation pc: guarded_cache Epoch "\<lambda>c ws e t. snd (SetIfEpoch ws e t c)" "\<lambda>c ws. SnapshotCache_Invalidate ws c"
  evict_expired sc_entries "(=)" "\<lambda>t. t"
proof
  show "sc_entries (snd (SetIfEpoch k v t s)) k' = sc_entries s k' \<or>
      k' = k \<and> sc_entries (snd (SetIfEpoch k v t s)) k' = Some v" for s k v t k'
    using setLocked_cases [of k v s] by (cases "k' = k") (auto simp: SetIfEpoch_def)
  show "sc_entries (evict_expired s e) k = None \<or> sc_entries (evict_expired s e) k = sc_entries s k" for s e k
    using Get_evict_sel(2) [of "fst e" "snd e" s k] by (simp add: evict_expired_def)
qed (auto simp: Epoch_def SetIfEpoch_def SnapshotCache_Invalidate_def evict_expired_def)


section \<open>Getting a snapshot\<close>

lemma SnapshotCache_Get_Some:
  "fst (SnapshotCache_Get others now1 now2 ws c) = Some snap \<longleftrightarrow>
     (\<exists>e. sc_entries c ws = Some e \<and> entry_valid now1 e \<and> snap = ca_Snapshot e)"
  by (auto simp: SnapshotCache_Get_def Get_read_def split: option.splits prod.splits if_splits)

text \<open>Where a snapshot handed out by a run of the loop comes from.\<close>

definition loop_source :: "string \<Rightarrow> 'e attempt \<Rightarrow> acl_snapshot \<Rightarrow> bool" where
  "loop_source ws a snap \<longleftrightarrow>
     (\<exists>e. at_compiled a = Inr e \<and> snap = ca_Snapshot e) \<or>
     (\<exists>c e. sc_entries (at_after a c) ws = Some e \<and> entry_valid (at_now1 a) e \<and> snap = ca_Snapshot e)"

lemma compile_loop_source:
  "case fst (compile_loop ws as latest c) of
     Inl err \<Rightarrow> \<exists>a\<in>set as. at_compiled a = Inl err
   | Inr x \<Rightarrow> x = latest \<and> as = [] \<or> (\<exists>a\<in>set as. \<exists>snap. x = Some snap \<and> loop_source ws a snap)"
proof (induction as arbitrary: latest c)
  case (Cons a as)
  let ?c2 = "at_during a (at_before a c)"
  show ?case
  proof (cases "at_compiled a")
    case (Inr e)
    obtain ok c3 where s: "SetIfEpoch ws e (Epoch (at_before a c) ws) ?c2 = (ok, c3)" by fastforce
    obtain g x c4 where t: "SnapshotCache_Get (at_inside a) (at_now1 a) (at_now2 a) ws (at_after a c3) = (g, x, c4)"
      by (metis prod_cases3)
    have here: "loop_source ws a (ca_Snapshot e)" using Inr by (simp add: loop_source_def)
    have hit: "loop_source ws a snap" if "g = Some snap" for snap
      using SnapshotCache_Get_Some [of "at_inside a" "at_now1 a" "at_now2 a" ws "at_after a c3" snap] t that
      by (auto simp: loop_source_def)
    show ?thesis
    proof (cases "ok \<or> g \<noteq> None")
      case True
      then show ?thesis using here hit by (cases ok; cases g) (auto simp: Inr s t Let_def)
    next
      case False
      then have "compile_loop ws (a # as) latest c = compile_loop ws as (Some (ca_Snapshot e)) c4"
        by (simp add: Inr s t Let_def)
      with Cons.IH [of "Some (ca_Snapshot e)" c4] here show ?thesis by (auto split: sum.splits)
    qed
  qed (simp add: Let_def)
qed simp


section \<open>Notifications\<close>

definition notified :: "string \<Rightarrow> notifier \<Rightarrow> notifier" where
  "notified ws n = snd (snd (NotifyPolicyChange ws n))"

lemma notified_sel:
  assumes "ws \<noteq> []"
  shows "Version (notified ws n) ws = Version n ws + 1"
    "Epoch (nt_cache (notified ws n)) ws = Epoch (nt_cache n) ws + 1"
    "sc_entries (nt_cache (notified ws n)) ws = None"
  using assms by (simp_all add: notified_def NotifyPolicyChange_def Let_def Version_def Epoch_def SnapshotCache_Invalidate_def)

lemma notified_other:
  assumes "ws' \<noteq> ws"
  shows "Version (notified ws n) ws' = Version n ws'"
    "sc_epoch (nt_cache (notified ws n)) ws' = sc_epoch (nt_cache n) ws'"
    "sc_entries (nt_cache (notified ws n)) ws' = sc_entries (nt_cache n) ws'"
  using assms by (simp_all add: notified_def NotifyPolicyChange_def Let_def Version_def SnapshotCache_Invalidate_def)

lemma notified_times:
  assumes "ws \<noteq> []"
  shows "Version ((notified ws ^^ k) n) ws = Version n ws + of_nat k"
    and "Epoch (nt_cache ((notified ws ^^ k) n)) ws = Epoch (nt_cache n) ws + of_nat k"
    and "0 < k \<Longrightarrow> sc_entries (nt_cache ((notified ws ^^ k) n)) ws = None"
  using assms by (induction k) (auto simp: notified_sel algebra_simps)

text \<open>
  C18. A compilation that started before a policy change cannot put its result in the cache after
  it: after any number of changes of the workspace short of a full turn of the 64-bit counter, a store
  guarded by the epoch captured before is refused, the slot is empty, and the version has moved by the
  number of changes, so that a result compiled now is told from an older one.
\<close>

theorem change_drops_inflight_compile:
  assumes "ws \<noteq> []" and "0 < k" and "k < 2 ^ 64"
  shows "SetIfEpoch ws e (Epoch (nt_cache n) ws) (nt_cache ((notified ws ^^ k) n)) = (False, nt_cache ((notified ws ^^ k) n)) \<and>
     sc_entries (nt_cache ((notified ws ^^ k) n)) ws = None \<and>
     Version ((notified ws ^^ k) n) ws \<noteq> Version n ws"
proof -
  have "of_nat k \<noteq> (0 :: 64 word)"
    using assms(2,3) by (auto simp: word_of_nat_eq_0_iff dest: dvd_imp_le)
  then show ?thesis
    using notified_times [OF assms(1), of k n] assms(2) by (auto simp: SetIfEpoch_def Epoch_def)
qed

theorem change_drops_inflight_compile_witness:
  "SetIfEpoch ''ws'' \<lparr>ca_Snapshot = \<lparr>as_WorkspaceId = ''ws'', as_Version = 7, as_GeneratedAt = 0, as_Entries = [], as_RemoteNetworks = [],
       as_RelayAddr = [], as_RelaySpiffeId = [], as_RevokedConnectors = []\<rparr>, ca_ValidUntil = zero_time\<rparr>
     (Epoch (nt_cache (NewNotifier NewSnapshotCache)) ''ws'') (nt_cache ((notified ''ws'' ^^ 2) (NewNotifier NewSnapshotCache))) =
     (False, nt_cache ((notified ''ws'' ^^ 2) (NewNotifier NewSnapshotCache)))"
  using change_drops_inflight_compile [of "''ws''" 2] by simp

end
