(* ===== verification/Policy_Serve.thy ===== *)
theory Policy_Serve
  imports Acl_Claims Policy_Cache
begin

text \<open>
  The compiler and its cache together: readers that compile and store, writers that commit a
  policy change and then notify, and expiry evictions, interleaved in any order.
\<close>

definition compiles :: "(string \<Rightarrow> uuid option) \<Rightarrow> (uuid \<Rightarrow> string) \<Rightarrow> zdb \<Rightarrow> string \<Rightarrow> compiled_acl \<Rightarrow> bool" where
  "compiles parse utext db ws v \<longleftrightarrow>
     (\<exists>version now dbnow. CompileACLSnapshot parse utext (\<lambda>_. False) version now dbnow ws db = Inr v)"

type_synonym policy_sys = "(snapshot_cache, zdb, string, 64 word, compiled_acl, string) csys"

definition policy_step :: "(string \<Rightarrow> uuid option) \<Rightarrow> (uuid \<Rightarrow> string) \<Rightarrow> policy_sys \<Rightarrow> policy_sys \<Rightarrow> bool" where
  "policy_step parse utext =
     cache_step Epoch (\<lambda>c ws e t. snd (SetIfEpoch ws e t c)) (\<lambda>c ws. SnapshotCache_Invalidate ws c) evict_expired (=)
       (compiles parse utext)"

definition policy_init :: "policy_sys \<Rightarrow> bool" where
  "policy_init = cache_init sc_entries"

lemma served_compiled:
  assumes "reach policy_init (policy_step parse utext) \<sigma>" and "ws \<notin># cs_pending \<sigma>"
    and "fst (SnapshotCache_Get others now1 now2 ws (cs_cache \<sigma>)) = Some snap"
  obtains v version now dbnow where
    "CompileACLSnapshot parse utext (\<lambda>_. False) version now dbnow ws (cs_db \<sigma>) = Inr v" "snap = ca_Snapshot v" "entry_valid now1 v"
proof -
  obtain v where v: "sc_entries (cs_cache \<sigma>) ws = Some v" "entry_valid now1 v" "snap = ca_Snapshot v"
    using assms(3) by (auto simp: SnapshotCache_Get_Some)
  have "compiles parse utext (cs_db \<sigma>) ws v"
    using pc.cached_current [OF assms(1) [unfolded policy_init_def policy_step_def] v(1)] assms(2) by blast
  then show ?thesis using v that by (auto simp: compiles_def)
qed

text \<open>
  C16. End to end: whatever the interleaving of requests, compilations, commits, notifications and
  expiries, a snapshot the cache hands out for a workspace with no outstanding notification allows
  exactly the devices the current tables entitle, judged at one moment, that of its compilation.
\<close>

theorem served_access_is_granted:
  assumes "reach policy_init (policy_step parse utext) \<sigma>" and "ws \<notin># cs_pending \<sigma>" and "parse ws = Some w"
    and "fst (SnapshotCache_Get others now1 now2 ws (cs_cache \<sigma>)) = Some snap"
    and "distinct (map cd_id (db_client_devices (cs_db \<sigma>)))" and "distinct (map pf_ID (db_profiles (cs_db \<sigma>)))"
  shows "\<exists>now. \<forall>k s. (\<exists>e\<in>set (as_Entries snap). entry_key_of e = k \<and> s \<in> set (ae_AllowedSpiffeIds e)) \<longleftrightarrow>
           may_reach (cs_db \<sigma>) w now k s"
proof -
  obtain v version now dbnow where
    v: "CompileACLSnapshot parse utext (\<lambda>_. False) version now dbnow ws (cs_db \<sigma>) = Inr v" "snap = ca_Snapshot v"
    using assms(1,2,4) by (rule served_compiled)
  show ?thesis unfolding v(2) using compiled_allows_iff [OF v(1) assms(3,5,6)] by blast
qed

definition ex_parse :: "string \<Rightarrow> uuid option" where "ex_parse s = (if s = ''ws'' then Some 4 else None)"

definition ex_sys :: "snapshot_cache \<Rightarrow> policy_sys" where
  "ex_sys c = \<lparr>cs_cache = c, cs_db = ex_acl, cs_pending = {#}, cs_reads = Map.empty\<rparr>"

lemma ex_cached:
  assumes "CompileACLSnapshot ex_parse (\<lambda>_. ''u'') (\<lambda>_. False) 9 (sec 400) (sec 400) ''ws'' ex_acl = Inr v"
  shows "reach policy_init (policy_step ex_parse (\<lambda>_. ''u'')) (ex_sys (setLocked ''ws'' v NewSnapshotCache))"
proof -
  have "compiles ex_parse (\<lambda>_. ''u'') ex_acl ''ws'' v" using assms unfolding compiles_def by blast
  moreover have "\<forall>k. sc_entries NewSnapshotCache k = None" by (simp add: NewSnapshotCache_def)
  moreover have "snd (SetIfEpoch ''ws'' v (Epoch NewSnapshotCache ''ws'') NewSnapshotCache) = setLocked ''ws'' v NewSnapshotCache"
    by (simp add: SetIfEpoch_def Epoch_def)
  ultimately show ?thesis
    unfolding policy_init_def policy_step_def ex_sys_def
    using reach_stored [of sc_entries NewSnapshotCache "compiles ex_parse (\<lambda>_. ''u'')" ex_acl "''ws''" v Epoch "\<lambda>c ws e t. snd (SetIfEpoch ws e t c)"]
    by simp
qed

theorem served_access_is_granted_witness:
  "\<exists>\<sigma> snap. reach policy_init (policy_step ex_parse (\<lambda>_. ''u'')) \<sigma> \<and>
     fst (SnapshotCache_Get (\<lambda>c. c) (sec 500) (sec 500) ''ws'' (cs_cache \<sigma>)) = Some snap \<and>
     (\<exists>now. \<forall>k s. (\<exists>e\<in>set (as_Entries snap). entry_key_of e = k \<and> s \<in> set (ae_AllowedSpiffeIds e)) \<longleftrightarrow> may_reach ex_acl 4 now k s)"
proof -
  obtain v where v: "CompileACLSnapshot ex_parse (\<lambda>_. ''u'') (\<lambda>_. False) 9 (sec 400) (sec 400) ''ws'' ex_acl = Inr v"
    using ex_compiles [of "sec 400"] unfolding ex_parse_def [abs_def] by blast
  let ?s = "ex_sys (setLocked ''ws'' v NewSnapshotCache)"
  have "ca_ValidUntil v = sec 900" using ex_valid_until v unfolding ex_parse_def [abs_def] by simp
  then have g: "fst (SnapshotCache_Get (\<lambda>c. c) (sec 500) (sec 500) ''ws'' (cs_cache ?s)) = Some (ca_Snapshot v)"
    by (simp add: SnapshotCache_Get_Some ex_sys_def setLocked_def NewSnapshotCache_def entry_valid_def sec_def second_def)
  have d: "cs_db ?s = ex_acl" by (simp add: ex_sys_def)
  have "\<exists>now. \<forall>k s. (\<exists>e\<in>set (as_Entries (ca_Snapshot v)). entry_key_of e = k \<and> s \<in> set (ae_AllowedSpiffeIds e)) \<longleftrightarrow>
      may_reach (cs_db ?s) 4 now k s"
    by (rule served_access_is_granted [OF ex_cached [OF v] _ _ g]) (simp_all add: ex_sys_def ex_parse_def ex_keys)
  then show ?thesis
    unfolding d by (intro exI [of _ ?s] exI [of _ "ca_Snapshot v"] conjI ex_cached [OF v] g)
qed

end
