(* ===== verification/Transport_Correct.thy ===== *)
theory Transport_Correct
  imports Transport Policy_Serve
begin

text \<open>
  The transport snapshot against a reference definition, its agreement with the policy plane, and
  the coherence of its cache.
\<close>

section \<open>Assembling\<close>

definition in_order :: "'a list \<Rightarrow> 'a list" where
  "in_order xs = foldl (\<lambda>ys x. add_new x ys) [] xs"

lemma set_foldl_add_new [simp]: "set (foldl (\<lambda>ys x. add_new x ys) ys xs) = set ys \<union> set xs"
  by (induction xs arbitrary: ys) auto

lemma distinct_foldl_add_new [simp]: "distinct ys \<Longrightarrow> distinct (foldl (\<lambda>ys x. add_new x ys) ys xs)"
  by (induction xs arbitrary: ys) auto

text \<open>What the loops should build: each network once, in the order first met, with its connectors in row order.\<close>

definition transport_reference ::
  "(uuid \<Rightarrow> string) \<Rightarrow> remote_network_connectors_row list \<Rightarrow> uuid list \<Rightarrow> 64 word \<Rightarrow> transport_snapshot" where
  "transport_reference utext rows ids version =
     \<lparr>ts_RemoteNetworks =
        map (\<lambda>i. (i, map (transport_connector_of utext) (filter (\<lambda>r. rc_RemoteNetworkID r = i) rows)))
          (in_order (map rc_RemoteNetworkID rows @ ids)),
      ts_Version = version\<rparr>"

definition acc_map :: "(uuid \<Rightarrow> transport_connector list) \<Rightarrow> uuid list \<Rightarrow> uuid \<rightharpoonup> transport_connector list" where
  "acc_map f order i = (if i \<in> set order then Some (f i) else None)"

lemma acc_map_upd_new: "i \<notin> set order \<Longrightarrow> (acc_map f order)(i \<mapsto> cs) = acc_map (f(i := cs)) (order @ [i])"
  by (rule ext) (auto simp: acc_map_def)

lemma acc_map_upd_old: "i \<in> set order \<Longrightarrow> (acc_map f order)(i \<mapsto> cs) = acc_map (f(i := cs)) order"
  by (rule ext) (auto simp: acc_map_def)

lemma add_rows_acc:
  assumes "\<forall>i. i \<notin> set order \<longrightarrow> f i = []"
  shows "add_rows utext (acc_map f order, order) rows =
     (let order' = foldl (\<lambda>ys x. add_new x ys) order (map rc_RemoteNetworkID rows) in
      (acc_map (\<lambda>i. f i @ map (transport_connector_of utext) (filter (\<lambda>r. rc_RemoteNetworkID r = i) rows)) order', order'))"
  using assms
proof (induction rows arbitrary: f order)
  case (Cons row rows)
  let ?i = "rc_RemoteNetworkID row"
  let ?f = "f(?i := f ?i @ [transport_connector_of utext row])"
  have step: "add_rows utext (acc_map f order, order) (row # rows) =
      add_rows utext (acc_map ?f (add_new ?i order), add_new ?i order) rows"
  proof (cases "?i \<in> set order")
    case True
    then have "acc_map f order ?i = Some (f ?i)" by (simp add: acc_map_def)
    then show ?thesis using True by (simp add: acc_map_upd_old add_new_def)
  next
    case False
    then have "acc_map f order ?i = None" by (simp add: acc_map_def)
    then show ?thesis using False Cons.prems by (simp add: acc_map_upd_new add_new_def)
  qed
  have prem: "\<forall>i. i \<notin> set (add_new ?i order) \<longrightarrow> ?f i = []" using Cons.prems by auto
  have "(\<lambda>i. ?f i @ map (transport_connector_of utext) (filter (\<lambda>r. rc_RemoteNetworkID r = i) rows)) =
      (\<lambda>i. f i @ map (transport_connector_of utext) (filter (\<lambda>r. rc_RemoteNetworkID r = i) (row # rows)))"
    by (rule ext) simp
  then show ?case unfolding step using Cons.IH [of "add_new ?i order" ?f, OF prem] by (simp only: list.map foldl_Cons)
qed simp

lemma add_empty_acc:
  assumes "\<forall>i. i \<notin> set order \<longrightarrow> f i = []"
  shows "add_empty (acc_map f order, order) ids =
     (let order' = foldl (\<lambda>ys x. add_new x ys) order ids in (acc_map f order', order'))"
  using assms
proof (induction ids arbitrary: order)
  case (Cons i ids)
  show ?case
  proof (cases "i \<in> set order")
    case True
    then have "add_new i order = order" by (simp add: add_new_def)
    moreover have "add_empty (acc_map f order, order) (i # ids) = add_empty (acc_map f order, order) ids"
      using True by (simp add: acc_map_def)
    ultimately show ?thesis using Cons.IH [OF Cons.prems] by simp
  next
    case False
    then have n: "add_new i order = order @ [i]" by (simp add: add_new_def)
    have "f(i := []) = f" using Cons.prems False by auto
    then have "add_empty (acc_map f order, order) (i # ids) = add_empty (acc_map f (order @ [i]), order @ [i]) ids"
      using False acc_map_upd_new [of i order f "[]"] by (simp add: acc_map_def)
    then show ?thesis using Cons.IH [of "order @ [i]"] Cons.prems n by simp
  qed
qed simp

lemma assemble_is_reference:
  "assembleTransportSnapshot utext rows ids version = transport_reference utext rows ids version"
proof -
  let ?f = "\<lambda>i. map (transport_connector_of utext) (filter (\<lambda>r. rc_RemoteNetworkID r = i) rows)"
  let ?o1 = "foldl (\<lambda>ys x. add_new x ys) [] (map rc_RemoteNetworkID rows)"
  have e: "Map.empty = acc_map (\<lambda>_. []) []" by (rule ext) (simp add: acc_map_def)
  have r: "add_rows utext (acc_map (\<lambda>_. []) [], []) rows = (acc_map ?f ?o1, ?o1)"
    using add_rows_acc [of "[]" "\<lambda>_. []" utext rows] by (simp add: Let_def)
  have "\<forall>i. i \<notin> set ?o1 \<longrightarrow> ?f i = []" by (auto simp: filter_empty_conv)
  then have "add_empty (acc_map ?f ?o1, ?o1) ids =
      (let order' = foldl (\<lambda>ys x. add_new x ys) ?o1 ids in (acc_map ?f order', order'))"
    by (rule add_empty_acc [of ?o1 ?f])
  then show ?thesis
    unfolding assembleTransportSnapshot_def e r transport_reference_def in_order_def
    by (simp add: Let_def acc_map_def)
qed

section \<open>Agreement with the policy plane\<close>

definition acl_view :: "acl_connector \<Rightarrow> uuid \<times> string \<times> string \<times> string \<times> string" where
  "acl_view c = (acn_ConnectorId c, acn_ConnectorTunnelAddr c, acn_ConnectorSpiffe c, acn_RelayAddr c, acn_RelaySpiffeId c)"

definition transport_view :: "transport_connector \<Rightarrow> uuid \<times> string \<times> string \<times> string \<times> string" where
  "transport_view c = (tc_ConnectorId c, tc_ConnectorTunnelAddr c, tc_ConnectorSpiffe c, tc_RelayAddr c, tc_RelaySpiffeId c)"

definition connectors_of :: "transport_snapshot \<Rightarrow> uuid \<Rightarrow> transport_connector list" where
  "connectors_of t i = (case map_of (ts_RemoteNetworks t) i of None \<Rightarrow> [] | Some cs \<Rightarrow> cs)"

lemma connectors_of_reference:
  "connectors_of (transport_reference utext rows ids version) i =
     map (transport_connector_of utext) (filter (\<lambda>r. rc_RemoteNetworkID r = i) rows)"
proof -
  let ?g = "\<lambda>i. map (transport_connector_of utext) (filter (\<lambda>r. rc_RemoteNetworkID r = i) rows)"
  have "map_of (map (\<lambda>i. (i, ?g i)) xs) i = (if i \<in> set xs then Some (?g i) else None)" for xs
    by (induction xs) auto
  moreover have "i \<notin> set (map rc_RemoteNetworkID rows) \<Longrightarrow> ?g i = []" by (auto simp: filter_empty_conv)
  ultimately show ?thesis by (auto simp: connectors_of_def transport_reference_def in_order_def)
qed

lemma same_view: "acl_view (make_connector utext row) = transport_view (transport_connector_of utext row)"
  by (simp add: acl_view_def transport_view_def make_connector_def transport_connector_of_def Let_def connectorTunnelPort_def
      resolveConnectorRelayAddr_def transport_resolveConnectorRelayAddr_def defaultRelayPort_def transport_defaultRelayPort_def)

lemma left_join_ne [simp]: "left_join P xs \<noteq> []"
  by (simp add: left_join_def split: list.split)

lemma placed_relays_ne: "\<exists>r. r \<in> set (placed_relays db c)"
proof -
  obtain p where p: "p \<in> set (left_join (\<lambda>p. crp_connector_id p = co_id c) (db_placements db))"
    using left_join_ne by (meson list.set_sel(1))
  define rs where "rs = (case p of None \<Rightarrow> [None]
      | Some x \<Rightarrow> left_join (\<lambda>r. rl_id r = crp_relay_id x \<and> rl_status r = ''active'') (db_relays db))"
  then have "rs \<noteq> []" by (cases p) simp_all
  then have "hd rs \<in> set rs" by simp
  then show ?thesis using p unfolding placed_relays_def rs_def by (auto simp: image_iff)
qed

lemma connector_info_rn [simp]: "rc_RemoteNetworkID (connector_info c r) = co_remote_network_id c"
  by (simp add: connector_info_def)

lemma filter_connector_rows:
  "filter (\<lambda>x. rc_RemoteNetworkID x = i) [connector_info c r. c \<leftarrow> cs, r \<leftarrow> f c] =
     [connector_info c r. c \<leftarrow> filter (\<lambda>c. co_remote_network_id c = i) cs, r \<leftarrow> f c]"
  by (induction cs) (auto simp: filter_map o_def)

lemma network_rows:
  assumes "i \<in> set ids"
  shows "filter (\<lambda>x. rc_RemoteNetworkID x = i) (GetConnectorsForRemoteNetworks db w ids) =
           filter (\<lambda>x. rc_RemoteNetworkID x = i) (GetWorkspaceConnectors db w)"
proof -
  have f: "filter (\<lambda>c. (co_remote_network_id c \<in> set ids \<and> co_tenant_id c = w \<and> co_status c = ''active'') \<and> co_remote_network_id c = i) cs =
      filter (\<lambda>c. (co_tenant_id c = w \<and> co_status c = ''active'') \<and> co_remote_network_id c = i) cs" for cs
    using assms by (intro filter_cong) auto
  have "ids \<noteq> []" using assms by auto
  then have "GetConnectorsForRemoteNetworks db w ids = [connector_info c r.
      c \<leftarrow> sort_key (\<lambda>c. (co_remote_network_id c, freshest (co_last_heartbeat_at c)))
        (filter (\<lambda>c. co_remote_network_id c \<in> set ids \<and> co_tenant_id c = w \<and> co_status c = ''active'') (db_connectors db)),
      r \<leftarrow> placed_relays db c]"
    by (simp add: GetConnectorsForRemoteNetworks_def)
  then show ?thesis
    unfolding GetWorkspaceConnectors_def by (simp only: filter_connector_rows filter_sort filter_filter f)
qed

lemma Compile_networks:
  assumes "CompileACLSnapshot parse utext fails version now dbnow ws db = Inr c" and "parse ws = Some w"
    and "n \<in> set (as_RemoteNetworks (ca_Snapshot c))"
  obtains ids where "arn_RemoteNetworkId n \<in> set ids"
    "arn_Connectors n = map (make_connector utext)
       (filter (\<lambda>r. rc_RemoteNetworkID r = arn_RemoteNetworkId n) (GetConnectorsForRemoteNetworks db w ids))"
proof -
  from assms obtain acc where "n \<in> set (map (make_remote_network utext acc
      (GetConnectorsForRemoteNetworks db w (sort (ac_rnIDs acc)))) (sort (ac_rnIDs acc)))"
    by (auto simp: CompileACLSnapshot_def Let_def split_beta split: if_splits sum.splits)
  then obtain i where "i \<in> set (sort (ac_rnIDs acc))"
    "n = make_remote_network utext acc (GetConnectorsForRemoteNetworks db w (sort (ac_rnIDs acc))) i" by auto
  then show ?thesis using that [of "sort (ac_rnIDs acc)"] by (simp add: make_remote_network_def)
qed

text \<open>
  C19. The two planes resolve connectivity alike: for every remote network of a compiled policy
  snapshot, the connectors it lists (identity, tunnel address, SPIFFE identity, relay address and relay
  identity, in order) are those the transport snapshot of the same database gives for that network.
\<close>

theorem planes_agree:
  assumes "CompileACLSnapshot parse utext fails version now dbnow ws db = Inr c" and "parse ws = Some w"
    and "CompileTransportSnapshot utext tfails tversion w db = Inr t"
    and "n \<in> set (as_RemoteNetworks (ca_Snapshot c))"
  shows "map acl_view (arn_Connectors n) = map transport_view (connectors_of t (arn_RemoteNetworkId n))"
proof -
  obtain ids where n: "arn_RemoteNetworkId n \<in> set ids" "arn_Connectors n = map (make_connector utext)
       (filter (\<lambda>r. rc_RemoteNetworkID r = arn_RemoteNetworkId n) (GetConnectorsForRemoteNetworks db w ids))"
    using assms(1,2,4) by (rule Compile_networks)
  have "t = transport_reference utext (GetWorkspaceConnectors db w) (GetWorkspaceRemoteNetworkIDs db w) tversion"
    using assms(3) by (simp add: CompileTransportSnapshot_def assemble_is_reference split: if_splits)
  then show ?thesis by (simp add: n(2) network_rows [OF n(1)] connectors_of_reference same_view o_def)
qed

definition ex_net :: zdb where
  "ex_net = ex_acl\<lparr>
     db_connectors := [\<lparr>co_id = 50, co_tenant_id = 4, co_remote_network_id = 13, co_status = ''active'',
       co_lan_addr = Some ''10.0.0.2:9092'', co_trust_domain = Some ''ws-a'', co_last_heartbeat_at = Some (sec 300), co_revoked_at = None\<rparr>],
     db_placements := [\<lparr>crp_connector_id = 50, crp_relay_id = 60\<rparr>],
     db_relays := [\<lparr>rl_id = 60, rl_status = ''active'', rl_public_addr = None, rl_observed_ip = Some ''198.51.100.7'',
       rl_address_scope = Some ''public'', rl_last_heartbeat_at = Some (sec 300), rl_drain_started_at = None\<rparr>]\<rparr>"

lemma ex_net_compiled:
  "map (\<lambda>n. (arn_RemoteNetworkId n, map acn_RelayAddr (arn_Connectors n)))
     (as_RemoteNetworks (ca_Snapshot (projr (CompileACLSnapshot ex_parse (\<lambda>_. ''u'') (\<lambda>_. False) 9 (sec 400) (sec 400) ''ws'' ex_net)))) =
     [(13, [''198.51.100.7:9093''])]"
  "\<not> isl (CompileACLSnapshot ex_parse (\<lambda>_. ''u'') (\<lambda>_. False) 9 (sec 400) (sec 400) ''ws'' ex_net)"
  by code_simp+

theorem planes_agree_witness:
  "\<exists>c t n. CompileACLSnapshot ex_parse (\<lambda>_. ''u'') (\<lambda>_. False) 9 (sec 400) (sec 400) ''ws'' ex_net = Inr c \<and>
     CompileTransportSnapshot (\<lambda>_. ''u'') (\<lambda>_. False) 3 4 ex_net = Inr t \<and> n \<in> set (as_RemoteNetworks (ca_Snapshot c)) \<and>
     arn_Connectors n \<noteq> [] \<and> map acl_view (arn_Connectors n) = map transport_view (connectors_of t (arn_RemoteNetworkId n))"
proof -
  obtain c where c: "CompileACLSnapshot ex_parse (\<lambda>_. ''u'') (\<lambda>_. False) 9 (sec 400) (sec 400) ''ws'' ex_net = Inr c"
    using ex_net_compiled(2) by (metis isl_def sum.exhaust)
  obtain n where n: "n \<in> set (as_RemoteNetworks (ca_Snapshot c))" "arn_Connectors n \<noteq> []"
    using ex_net_compiled(1) [unfolded c sum.sel] by auto
  obtain t where t: "CompileTransportSnapshot (\<lambda>_. ''u'') (\<lambda>_. False) 3 4 ex_net = Inr t"
    by (simp add: CompileTransportSnapshot_def)
  have p: "ex_parse ''ws'' = Some 4" by (simp add: ex_parse_def)
  show ?thesis
    by (intro exI [of _ c] exI [of _ t] exI [of _ n] conjI c t n planes_agree [OF c p t n(1)])
qed

section \<open>The cache\<close>

lemma transport_setLocked_sel [simp]:
  "tca_epoch (transport_setLocked ws e c) = tca_epoch c"
  "ws' \<noteq> ws \<Longrightarrow> tca_entries (transport_setLocked ws e c) ws' = tca_entries c ws'"
  by (auto simp: transport_setLocked_def split: option.splits)

lemma transport_setLocked_cases: "tca_entries (transport_setLocked ws e c) ws \<in> {tca_entries c ws, Some e}"
  by (auto simp: transport_setLocked_def split: option.splits)

text \<open>The transport cache evicts nothing by itself.\<close>

interpretation tcc: guarded_cache transport_Epoch "\<lambda>c ws e t. snd (transport_SetIfEpoch ws e t c)" "\<lambda>c ws. transport_Invalidate ws c"
  "\<lambda>c _. c" tca_entries "(=)" "\<lambda>t. t"
proof
  show "tca_entries (snd (transport_SetIfEpoch k v t s)) k' = tca_entries s k' \<or>
      k' = k \<and> tca_entries (snd (transport_SetIfEpoch k v t s)) k' = Some v" for s k v t k'
    using transport_setLocked_cases [of k v s] by (cases "k' = k") (auto simp: transport_SetIfEpoch_def)
qed (auto simp: transport_Epoch_def transport_SetIfEpoch_def transport_Invalidate_def)

definition t_compiles :: "(uuid \<Rightarrow> string) \<Rightarrow> zdb \<Rightarrow> uuid \<Rightarrow> transport_snapshot \<Rightarrow> bool" where
  "t_compiles utext db w t \<longleftrightarrow> (\<exists>version. CompileTransportSnapshot utext (\<lambda>_. False) version w db = Inr t)"

type_synonym transport_sys = "(transport_cache, zdb, uuid, 64 word, transport_snapshot, uuid) csys"

definition transport_step :: "(uuid \<Rightarrow> string) \<Rightarrow> transport_sys \<Rightarrow> transport_sys \<Rightarrow> bool" where
  "transport_step utext =
     cache_step transport_Epoch (\<lambda>c ws e t. snd (transport_SetIfEpoch ws e t c)) (\<lambda>c ws. transport_Invalidate ws c)
       (\<lambda>c (_ :: unit). c) (=) (t_compiles utext)"

definition transport_init :: "transport_sys \<Rightarrow> bool" where "transport_init = cache_init tca_entries"

lemma set_GetWorkspaceConnectors:
  "row \<in> set (GetWorkspaceConnectors db w) \<longleftrightarrow>
     (\<exists>c r. row = connector_info c r \<and> c \<in> set (db_connectors db) \<and> co_tenant_id c = w \<and> co_status c = ''active'' \<and> r \<in> set (placed_relays db c))"
  unfolding GetWorkspaceConnectors_def by auto

lemma workspace_connector_ids:
  "rc_ConnectorID ` {r \<in> set (GetWorkspaceConnectors db w). rc_RemoteNetworkID r = i} =
     {co_id c |c. c \<in> set (db_connectors db) \<and> co_tenant_id c = w \<and> co_status c = ''active'' \<and> co_remote_network_id c = i}"
  (is "?L = ?R")
proof
  have [simp]: "rc_ConnectorID (connector_info c r) = co_id c" for c r by (simp add: connector_info_def)
  show "?L \<subseteq> ?R" unfolding set_GetWorkspaceConnectors by auto
  show "?R \<subseteq> ?L"
  proof
    fix x
    assume "x \<in> ?R"
    then obtain c where c: "x = co_id c" "c \<in> set (db_connectors db)" "co_tenant_id c = w" "co_status c = ''active''" "co_remote_network_id c = i"
      by blast
    obtain r where "r \<in> set (placed_relays db c)" using placed_relays_ne by blast
    then have "connector_info c r \<in> set (GetWorkspaceConnectors db w)" unfolding set_GetWorkspaceConnectors using c by blast
    then show "x \<in> ?L" using c by (intro rev_image_eqI [of "connector_info c r"]) auto
  qed
qed

text \<open>
  C20. A transport snapshot served from its cache for a workspace with no outstanding topology
  notification lists every active remote network of the workspace, and for every network exactly its
  active connectors in the current database, so a departed connector is never served as reachable.
\<close>

theorem served_transport_current:
  assumes "reach transport_init (transport_step utext) \<sigma>" and "w \<notin># cs_pending \<sigma>" and "transport_Get (cs_cache \<sigma>) w = Some t"
  shows "set (GetWorkspaceRemoteNetworkIDs (cs_db \<sigma>) w) \<subseteq> fst ` set (ts_RemoteNetworks t) \<and>
     (\<forall>i. tc_ConnectorId ` set (connectors_of t i) =
        {co_id c |c. c \<in> set (db_connectors (cs_db \<sigma>)) \<and> co_tenant_id c = w \<and> co_status c = ''active'' \<and> co_remote_network_id c = i})"
proof -
  let ?db = "cs_db \<sigma>"
  have "t_compiles utext ?db w t"
    using tcc.cached_current [OF assms(1) [unfolded transport_init_def transport_step_def]] assms(2,3)
    by (auto simp: transport_Get_def)
  then obtain version where
    t: "t = transport_reference utext (GetWorkspaceConnectors ?db w) (GetWorkspaceRemoteNetworkIDs ?db w) version"
    by (auto simp: t_compiles_def CompileTransportSnapshot_def assemble_is_reference)
  have "set (GetWorkspaceRemoteNetworkIDs ?db w) \<subseteq> fst ` set (ts_RemoteNetworks t)"
    by (auto simp: t transport_reference_def in_order_def image_iff)
  moreover have "tc_ConnectorId ` set (connectors_of t i) =
      {co_id c |c. c \<in> set (db_connectors ?db) \<and> co_tenant_id c = w \<and> co_status c = ''active'' \<and> co_remote_network_id c = i}" for i
  proof -
    have "tc_ConnectorId ` set (connectors_of t i) = rc_ConnectorID ` {r \<in> set (GetWorkspaceConnectors ?db w). rc_RemoteNetworkID r = i}"
      by (auto simp: t connectors_of_reference transport_connector_of_def Let_def image_iff)
    also have "\<dots> = {co_id c |c. c \<in> set (db_connectors ?db) \<and> co_tenant_id c = w \<and> co_status c = ''active'' \<and> co_remote_network_id c = i}"
      by (rule workspace_connector_ids)
    finally show ?thesis .
  qed
  ultimately show ?thesis by blast
qed


theorem served_transport_current_witness:
  "\<exists>\<sigma> t. reach transport_init (transport_step (\<lambda>_. ''u'')) \<sigma> \<and> transport_Get (cs_cache \<sigma>) 4 = Some t \<and>
     cs_db \<sigma> = ex_net \<and> 13 \<in> fst ` set (ts_RemoteNetworks t) \<and> tc_ConnectorId ` set (connectors_of t 13) = {50}"
proof -
  obtain t where t: "CompileTransportSnapshot (\<lambda>_. ''u'') (\<lambda>_. False) 3 4 ex_net = Inr t"
    by (simp add: CompileTransportSnapshot_def)
  define \<sigma> :: transport_sys where "\<sigma> = \<lparr>cs_cache = transport_setLocked 4 t transport_NewSnapshotCache, cs_db = ex_net,
      cs_pending = {#}, cs_reads = Map.empty\<rparr>"
  have "t_compiles (\<lambda>_. ''u'') ex_net 4 t" using t unfolding t_compiles_def by blast
  moreover have "snd (transport_SetIfEpoch 4 t (transport_Epoch transport_NewSnapshotCache 4) transport_NewSnapshotCache) =
      transport_setLocked 4 t transport_NewSnapshotCache" by (simp add: transport_SetIfEpoch_def transport_Epoch_def)
  moreover have "\<forall>k. tca_entries transport_NewSnapshotCache k = None" by (simp add: transport_NewSnapshotCache_def)
  ultimately have r: "reach transport_init (transport_step (\<lambda>_. ''u'')) \<sigma>"
    unfolding transport_init_def transport_step_def \<sigma>_def
    using reach_stored [of tca_entries transport_NewSnapshotCache "t_compiles (\<lambda>_. ''u'')" ex_net 4 t
        transport_Epoch "\<lambda>c ws e t. snd (transport_SetIfEpoch ws e t c)"] by simp
  have g: "transport_Get (cs_cache \<sigma>) 4 = Some t" "4 \<notin># cs_pending \<sigma>"
    by (simp_all add: \<sigma>_def transport_Get_def transport_setLocked_def transport_NewSnapshotCache_def)
  have "13 \<in> set (GetWorkspaceRemoteNetworkIDs ex_net 4)"
    by (simp add: GetWorkspaceRemoteNetworkIDs_def ex_net_def ex_acl_defs)
  moreover have "{co_id c |c. c \<in> set (db_connectors ex_net) \<and> co_tenant_id c = 4 \<and> co_status c = ''active'' \<and> co_remote_network_id c = 13} = {50}"
    by (auto simp: ex_net_def)
  moreover have "cs_db \<sigma> = ex_net" by (simp add: \<sigma>_def)
  ultimately show ?thesis
    using served_transport_current [OF r g(2,1)] r g by (intro exI [of _ \<sigma>] exI [of _ t]) auto
qed

end
