(* ===== verification/Rbac.thy ===== *)
theory Rbac
  imports Zec_Caches Zec_Db
begin

text \<open>
  Console roles (\<open>internal/rbac\<close>) and the change of a member's role
  (\<open>graph/resolvers/member_role.go\<close>): the capability table, the cached lookup of the caller's live
  role, the guards that keep an active Admin, and \<open>setMemberRole\<close> with its transaction.

  Identifiers arrive as strings; \<open>uuid.Parse\<close> is a parameter. A canonical identifier is the \<open>uuid\<close>
  itself, a string that is not a UUID stays a string, so a cache key is a pair of \<open>uuid + string\<close>.
\<close>

section \<open>Capabilities\<close>

datatype capability =
  ConsoleRead | NetworkWrite | AccessWrite | PostureWrite | DeviceWrite | DeviceAdmin | IdentityAdmin | MembersAdmin

definition AllCapabilities :: "capability list" where
  "AllCapabilities = [ConsoleRead, NetworkWrite, AccessWrite, PostureWrite, DeviceWrite, DeviceAdmin, IdentityAdmin, MembersAdmin]"

definition role_table :: "(string \<times> capability list) list" where
  "role_table =
     [(''admin'', AllCapabilities), (''viewer'', [ConsoleRead]), (''devops'', [ConsoleRead, NetworkWrite]),
      (''security'', [ConsoleRead, AccessWrite, PostureWrite]), (''helpdesk'', [ConsoleRead, DeviceWrite]), (''member'', [])]"

definition Roles :: "string list" where
  "Roles = [''admin'', ''viewer'', ''devops'', ''security'', ''helpdesk'', ''member'']"

definition ValidRole :: "string \<Rightarrow> bool" where "ValidRole role \<longleftrightarrow> map_of role_table role \<noteq> None"

definition CapabilitiesFor :: "string \<Rightarrow> capability list option" where
  "CapabilitiesFor role = map_of role_table role"

definition rbac_Allows :: "string \<Rightarrow> capability \<Rightarrow> bool" where
  "rbac_Allows role c \<longleftrightarrow> (case map_of role_table role of None \<Rightarrow> False | Some caps \<Rightarrow> c \<in> set caps)"

section \<open>The role cache\<close>

type_synonym cid = "uuid + string"
type_synonym cache_key = "cid \<times> cid"

definition CanonicalID :: "(string \<Rightarrow> uuid option) \<Rightarrow> string \<Rightarrow> uuid option" where
  "CanonicalID parse i = parse i"

definition canonicalKey :: "(string \<Rightarrow> uuid option) \<Rightarrow> string \<Rightarrow> string \<Rightarrow> cache_key" where
  "canonicalKey parse tenantID userID =
     ((case CanonicalID parse tenantID of Some t \<Rightarrow> Inl t | None \<Rightarrow> Inr tenantID),
      (case CanonicalID parse userID of Some u \<Rightarrow> Inl u | None \<Rightarrow> Inr userID))"

definition DefaultTTL :: duration where "DefaultTTL = 30 * second"

record checker =
  ck_cache :: "cache_key \<rightharpoonup> string \<times> time"
  ck_gen :: "cache_key \<Rightarrow> 64 word"
  ck_tenantGen :: "cid \<Rightarrow> 64 word"

definition NewChecker :: checker where
  "NewChecker = \<lparr>ck_cache = Map.empty, ck_gen = (\<lambda>_. 0), ck_tenantGen = (\<lambda>_. 0)\<rparr>"

datatype role_error = ErrNoAccess | ErrRoleLookup

text \<open>The two locked sections of \<open>Role\<close>.\<close>

definition Role_read :: "time \<Rightarrow> cache_key \<Rightarrow> checker \<Rightarrow> string option" where
  "Role_read now k c =
     (case ck_cache c k of
        Some (role, expires) \<Rightarrow> if now < expires then Some role else None
      | None \<Rightarrow> None)"

definition Role_token :: "checker \<Rightarrow> cache_key \<Rightarrow> 64 word \<times> 64 word" where
  "Role_token c k = (ck_gen c k, ck_tenantGen c (fst k))"

definition Role_store :: "cache_key \<Rightarrow> string \<times> time \<Rightarrow> 64 word \<times> 64 word \<Rightarrow> checker \<Rightarrow> checker" where
  "Role_store k entry tok c =
     (if ck_gen c k = fst tok \<and> ck_tenantGen c (fst k) = snd tok
      then c\<lparr>ck_cache := (ck_cache c)(k \<mapsto> entry)\<rparr> else c)"

definition checker_drop :: "cache_key \<Rightarrow> checker \<Rightarrow> checker" where
  "checker_drop k c = c\<lparr>ck_cache := (ck_cache c)(k := None)\<rparr>"

definition role_status :: "zdb \<Rightarrow> uuid \<Rightarrow> uuid \<Rightarrow> (string \<times> string) option" where
  "role_status db t u =
     map_option (\<lambda>r. (us_role r, us_status r)) (select_one (\<lambda>r. us_id r = u \<and> us_tenant_id r = t) (db_users db))"

text \<open>
  \<open>others\<close> is what happens between the two sections, \<open>fails\<close> whether the query fails, \<open>now2\<close> the clock
  when the entry is stored.
\<close>

definition Checker_Role ::
  "(string \<Rightarrow> uuid option) \<Rightarrow> (checker \<Rightarrow> checker) \<Rightarrow> bool \<Rightarrow> zdb \<Rightarrow> time \<Rightarrow> time \<Rightarrow> string \<Rightarrow> string \<Rightarrow> checker
   \<Rightarrow> (role_error + string) \<times> checker" where
  "Checker_Role parse others fails db now1 now2 tenantID userID c =
     (case (CanonicalID parse tenantID, CanonicalID parse userID) of
        (Some t, Some u) \<Rightarrow>
          let k = (Inl t, Inl u) in
          (case Role_read now1 k c of
             Some role \<Rightarrow> (Inr role, c)
           | None \<Rightarrow>
               let tok = Role_token c k; c' = others c in
               if fails then (Inl ErrRoleLookup, c')
               else case role_status db t u of
                      None \<Rightarrow> (Inl ErrNoAccess, checker_drop k c')
                    | Some (role, status) \<Rightarrow>
                        if status \<noteq> ''active'' \<or> \<not> ValidRole role then (Inl ErrNoAccess, checker_drop k c')
                        else (Inr role, Role_store k (role, now2 + DefaultTTL) tok c'))
      | _ \<Rightarrow> (Inl ErrNoAccess, c))"

definition invalidate_key :: "cache_key \<Rightarrow> checker \<Rightarrow> checker" where
  "invalidate_key k c = c\<lparr>ck_cache := (ck_cache c)(k := None), ck_gen := (ck_gen c)(k := ck_gen c k + 1)\<rparr>"

definition Checker_Invalidate :: "(string \<Rightarrow> uuid option) \<Rightarrow> string \<Rightarrow> string \<Rightarrow> checker \<Rightarrow> checker" where
  "Checker_Invalidate parse tenantID userID c =
     invalidate_key (canonicalKey parse tenantID userID) c"

definition invalidate_tenant :: "cid \<Rightarrow> checker \<Rightarrow> checker" where
  "invalidate_tenant t c =
     c\<lparr>ck_cache := (\<lambda>k. if fst k = t then None else ck_cache c k),
       ck_tenantGen := (ck_tenantGen c)(t := ck_tenantGen c t + 1)\<rparr>"

definition Checker_InvalidateTenant :: "(string \<Rightarrow> uuid option) \<Rightarrow> string \<Rightarrow> checker \<Rightarrow> checker" where
  "Checker_InvalidateTenant parse tenantID c =
     invalidate_tenant (case CanonicalID parse tenantID of Some t \<Rightarrow> Inl t | None \<Rightarrow> Inr tenantID) c"

section \<open>Guards\<close>

datatype guard_error = ErrLastAdmin | ErrInvalidUser | ErrLock

definition active_admin :: "uuid \<Rightarrow> user_row \<Rightarrow> bool" where
  "active_admin w r \<longleftrightarrow> us_tenant_id r = w \<and> us_role r = ''admin'' \<and> us_status r = ''active''"

definition LockActiveAdmins :: "zdb \<Rightarrow> uuid \<Rightarrow> uuid list" where
  "LockActiveAdmins db w = sort (map us_id (filter (active_admin w) (db_users db)))"

fun last_admin_scan :: "(uuid \<Rightarrow> bool) \<Rightarrow> bool \<Rightarrow> nat \<Rightarrow> uuid list \<Rightarrow> bool \<times> nat" where
  "last_admin_scan removed hit remaining [] = (hit, remaining)"
| "last_admin_scan removed hit remaining (i # ids) =
     (if removed i then last_admin_scan removed True remaining ids
      else last_admin_scan removed hit (remaining + 1) ids)"

definition lastAdminCheck :: "uuid list \<Rightarrow> (uuid \<Rightarrow> bool) \<Rightarrow> guard_error option" where
  "lastAdminCheck admins removed =
     (case last_admin_scan removed False 0 admins of
        (hit, remaining) \<Rightarrow> if hit \<and> remaining = 0 then Some ErrLastAdmin else None)"

definition GuardLastAdminTx ::
  "(string \<Rightarrow> uuid option) \<Rightarrow> bool \<Rightarrow> zdb \<Rightarrow> uuid \<Rightarrow> string \<Rightarrow> guard_error option" where
  "GuardLastAdminTx parse fails db tenantID userID =
     (case CanonicalID parse userID of
        None \<Rightarrow> Some ErrInvalidUser
      | Some i \<Rightarrow> if fails then Some ErrLock else lastAdminCheck (LockActiveAdmins db tenantID) (\<lambda>j. j = i))"

definition GuardLastAdminsTx ::
  "(string \<Rightarrow> uuid option) \<Rightarrow> bool \<Rightarrow> zdb \<Rightarrow> uuid \<Rightarrow> string list \<Rightarrow> guard_error option" where
  "GuardLastAdminsTx parse fails db tenantID userIDs =
     (if fails then Some ErrLock
      else if \<exists>raw\<in>set userIDs. CanonicalID parse raw = None then Some ErrInvalidUser
      else lastAdminCheck (LockActiveAdmins db tenantID) (\<lambda>i. \<exists>raw\<in>set userIDs. CanonicalID parse raw = Some i))"

section \<open>Changing a member's role\<close>

record audit_log_entry =
  au_TenantID :: string
  au_ActorUserID :: string
  au_ActorEmail :: string
  au_Action :: string
  au_TargetType :: string
  au_TargetID :: uuid
  au_Details :: "(string \<times> string) list"

record tenant_context =
  tx_TenantID :: string
  tx_UserID :: string
  tx_Email :: string

record rbac_state =
  rb_db :: zdb
  rb_audit :: "audit_log_entry list"
  rb_checker :: checker

definition graph_roles :: "string list" where
  "graph_roles = [''ADMIN'', ''VIEWER'', ''DEVOPS'', ''SECURITY'', ''HELPDESK'', ''MEMBER'']"

text \<open>The number of bytes of the first rune of a non-empty string; an invalid byte is a rune of its own.\<close>

definition cont_byte :: "nat \<Rightarrow> bool" where "cont_byte b \<longleftrightarrow> 128 \<le> b \<and> b < 192"

fun rune_len :: "nat list \<Rightarrow> nat" where
  "rune_len (a # b # xs) =
     (if 194 \<le> a \<and> a < 224 \<and> cont_byte b then 2
      else case xs of
        c # ys \<Rightarrow>
          (if 224 \<le> a \<and> a < 240 \<and> cont_byte b \<and> cont_byte c \<and> (a = 224 \<longrightarrow> 160 \<le> b) \<and> (a = 237 \<longrightarrow> b < 160) then 3
           else case ys of
             d # _ \<Rightarrow> if 240 \<le> a \<and> a < 245 \<and> cont_byte b \<and> cont_byte c \<and> cont_byte d \<and>
                          (a = 240 \<longrightarrow> 144 \<le> b) \<and> (a = 244 \<longrightarrow> b < 144) then 4 else 1
           | [] \<Rightarrow> 1)
      | [] \<Rightarrow> 1)"
| "rune_len _ = 1"

function rune_count :: "nat list \<Rightarrow> nat" where
  "rune_count [] = 0"
| "rune_count (a # xs) = 1 + rune_count (drop (rune_len (a # xs) - 1) xs)"
  by pat_completeness auto
termination by (relation "measure length") auto

definition RuneCountInString :: "string \<Rightarrow> nat" where "RuneCountInString s = rune_count (map of_char s)"

definition maxRoleReasonLen :: nat where "maxRoleReasonLen = 500"

datatype member_query = MBegin | MLockAdmins | MLockTarget | MUpdateUser | MUpdateMember | MAudit | MCommit | MLoad

datatype member_error =
  ErrInvalidRole | ErrReasonRequired | ErrReasonTooLong | ErrUserNotFound | ErrOwnRole | ErrLastActiveAdmin | ErrMember member_query

definition with_role :: "uuid \<Rightarrow> uuid \<Rightarrow> string \<Rightarrow> zdb \<Rightarrow> zdb" where
  "with_role w u role db = db\<lparr>
     db_users := update_where (\<lambda>r. us_id r = u \<and> us_tenant_id r = w) (\<lambda>r. r\<lparr>us_role := role\<rparr>) (db_users db),
     db_workspace_members := update_where (\<lambda>m. wm_workspace_id m = w \<and> wm_user_id m = u) (\<lambda>m. m\<lparr>wm_role := role\<rparr>)
       (db_workspace_members db)\<rparr>"

definition loadMember :: "(member_query \<Rightarrow> bool) \<Rightarrow> uuid \<Rightarrow> uuid \<Rightarrow> zdb \<Rightarrow> member_error + user_row" where
  "loadMember fails w u db =
     (if fails MLoad then Inl (ErrMember MLoad)
      else case select_one (\<lambda>r. us_id r = u \<and> us_tenant_id r = w) (db_users db) of
             None \<Rightarrow> Inl (ErrMember MLoad) | Some r \<Rightarrow> Inr r)"

text \<open>
  The transaction, for the validated target and role: any failure up to and including \<open>Commit\<close>
  rolls back. The target's cached role is dropped after the commit.
\<close>

definition set_role_tx ::
  "(string \<Rightarrow> uuid option) \<Rightarrow> (member_query \<Rightarrow> bool) \<Rightarrow> tenant_context \<Rightarrow> uuid \<Rightarrow> uuid \<Rightarrow> string \<Rightarrow> string \<Rightarrow> rbac_state
   \<Rightarrow> (member_error + user_row) \<times> rbac_state" where
  "set_role_tx parse fails tc w u newRole reason st =
     (if fails MBegin then (Inl (ErrMember MBegin), st)
      else if fails MLockAdmins then (Inl (ErrMember MLockAdmins), st)
      else if fails MLockTarget then (Inl (ErrMember MLockTarget), st)
      else case role_status (rb_db st) w u of
        None \<Rightarrow> (Inl ErrUserNotFound, st)
      | Some (oldRole, status) \<Rightarrow>
          if status = ''deleted'' then (Inl ErrUserNotFound, st)
          else if oldRole = newRole then
            (if fails MCommit then (Inl (ErrMember MCommit), st) else (loadMember fails w u (rb_db st), st))
          else if oldRole = ''admin'' \<and> newRole \<noteq> ''admin'' \<and>
                  (case last_admin_scan (\<lambda>i. i = u) False 0 (LockActiveAdmins (rb_db st) w) of
                     (removed, remaining) \<Rightarrow> removed \<and> remaining = 0)
          then (Inl ErrLastActiveAdmin, st)
          else if fails MUpdateUser then (Inl (ErrMember MUpdateUser), st)
          else if fails MUpdateMember then (Inl (ErrMember MUpdateMember), st)
          else if fails MAudit then (Inl (ErrMember MAudit), st)
          else if fails MCommit then (Inl (ErrMember MCommit), st)
          else
            let db' = with_role w u newRole (rb_db st);
                entry = \<lparr>au_TenantID = tx_TenantID tc, au_ActorUserID = tx_UserID tc, au_ActorEmail = tx_Email tc,
                         au_Action = ''member.role_changed'', au_TargetType = ''user'', au_TargetID = u,
                         au_Details = [(''from_role'', oldRole), (''to_role'', newRole), (''reason'', reason)]\<rparr>
            in (loadMember fails w u db',
                st\<lparr>rb_db := db', rb_audit := rb_audit st @ [entry],
                   rb_checker := invalidate_key (Inl w, Inl u) (rb_checker st)\<rparr>))"

definition setMemberRole ::
  "(string \<Rightarrow> uuid option) \<Rightarrow> (member_query \<Rightarrow> bool) \<Rightarrow> tenant_context \<Rightarrow> string \<Rightarrow> string \<Rightarrow> string \<Rightarrow> rbac_state
   \<Rightarrow> (member_error + user_row) \<times> rbac_state" where
  "setMemberRole parse fails tc userID role reason st =
     (let newRole = map lower_char role; reason' = TrimSpace reason in
      if role \<notin> set graph_roles \<or> \<not> ValidRole newRole then (Inl ErrInvalidRole, st)
      else if reason' = [] then (Inl ErrReasonRequired, st)
      else if RuneCountInString reason' > maxRoleReasonLen then (Inl ErrReasonTooLong, st)
      else case CanonicalID parse userID of
        None \<Rightarrow> (Inl ErrUserNotFound, st)
      | Some u \<Rightarrow>
          if CanonicalID parse (tx_UserID tc) = Some u then (Inl ErrOwnRole, st)
          else case CanonicalID parse (tx_TenantID tc) of
            None \<Rightarrow> (Inl (ErrMember MLockAdmins), st)
          | Some w \<Rightarrow> set_role_tx parse fails tc w u newRole reason' st)"

end
