(* ===== verification/Rbac_Correct.thy ===== *)
theory Rbac_Correct
  imports Rbac
begin

text \<open>
  The role lookup agrees with the users table, and role changes keep an active Admin.
\<close>

section \<open>The role cache\<close>

text \<open>An invalidation names one key, or a workspace and with it every key of the workspace.\<close>

fun inval_role :: "checker \<Rightarrow> cache_key + cid \<Rightarrow> checker" where
  "inval_role c (Inl k) = invalidate_key k c"
| "inval_role c (Inr t) = invalidate_tenant t c"

fun role_affects :: "cache_key + cid \<Rightarrow> cache_key \<Rightarrow> bool" where
  "role_affects (Inl k') k \<longleftrightarrow> k' = k"
| "role_affects (Inr t) k \<longleftrightarrow> fst k = t"

interpretation rcc: guarded_cache Role_token "\<lambda>c k e t. Role_store k e t c" inval_role "\<lambda>c k. checker_drop k c"
  ck_cache role_affects "\<lambda>t. fst t + snd t"
proof
  show "t \<noteq> Role_token s k \<Longrightarrow> Role_store k v t s = s" for t s k v
    by (cases t) (auto simp: Role_token_def Role_store_def)
  show "ck_cache (Role_store k v t s) k' = ck_cache s k' \<or> k' = k \<and> ck_cache (Role_store k v t s) k' = Some v" for s k v t k'
    by (simp add: Role_store_def)
  show "Role_token (Role_store k v t s) k' = Role_token s k'" for s k v t k'
    by (simp add: Role_store_def Role_token_def)
  show "role_affects i k \<Longrightarrow> ck_cache (inval_role s i) k = None" for i k s
    by (cases i) (auto simp: invalidate_key_def invalidate_tenant_def)
  show "\<not> role_affects i k \<Longrightarrow> ck_cache (inval_role s i) k = ck_cache s k" for i k s
    by (cases i) (auto simp: invalidate_key_def invalidate_tenant_def)
  show "fst (Role_token (inval_role s i) k) + snd (Role_token (inval_role s i) k) =
      fst (Role_token s k) + snd (Role_token s k) + (if role_affects i k then 1 else 0)" for s i k
    by (cases i) (auto simp: Role_token_def invalidate_key_def invalidate_tenant_def)
  show "ck_cache (checker_drop e s) k = None \<or> ck_cache (checker_drop e s) k = ck_cache s k" for s e k
    by (simp add: checker_drop_def)
  show "Role_token (checker_drop e s) k = Role_token s k" for s e k
    by (simp add: checker_drop_def Role_token_def)
qed

text \<open>The role the users table gives right now: an active row with a known role.\<close>

definition live_role :: "zdb \<Rightarrow> uuid \<Rightarrow> uuid \<Rightarrow> string option" where
  "live_role db t u =
     (case role_status db t u of
        Some (role, status) \<Rightarrow> if status = ''active'' \<and> ValidRole role then Some role else None
      | None \<Rightarrow> None)"

fun role_computes :: "zdb \<Rightarrow> cache_key \<Rightarrow> string \<times> time \<Rightarrow> bool" where
  "role_computes db (Inl t, Inl u) e \<longleftrightarrow> live_role db t u = Some (fst e)"
| "role_computes db _ e \<longleftrightarrow> False"

type_synonym role_sys = "(checker, zdb, cache_key, 64 word \<times> 64 word, string \<times> time, cache_key + cid) csys"

definition role_step :: "role_sys \<Rightarrow> role_sys \<Rightarrow> bool" where
  "role_step = cache_step Role_token (\<lambda>c k e t. Role_store k e t c) inval_role (\<lambda>c k. checker_drop k c) role_affects role_computes"

definition role_init :: "role_sys \<Rightarrow> bool" where "role_init = cache_init ck_cache"

text \<open>
  C21. Fail-closed authorization on live roles: in every state reachable by lookups, role and status
  changes followed by their invalidations, and evictions, in any order, a lookup for a user with no
  outstanding invalidation answers the role of the user's active row, and refuses when there is none,
  whether or not it is answered from the cache.
\<close>

theorem Role_is_live:
  assumes "reach role_init role_step \<sigma>" and "parse tenantID = Some t" and "parse userID = Some u"
    and "\<forall>i\<in>#cs_pending \<sigma>. \<not> role_affects i (Inl t, Inl u)"
  shows "fst (Checker_Role parse others False (cs_db \<sigma>) now1 now2 tenantID userID (cs_cache \<sigma>)) =
           (case live_role (cs_db \<sigma>) t u of Some role \<Rightarrow> Inr role | None \<Rightarrow> Inl ErrNoAccess)"
proof (cases "Role_read now1 (Inl t, Inl u) (cs_cache \<sigma>)")
  case (Some role)
  then obtain e where e: "ck_cache (cs_cache \<sigma>) (Inl t, Inl u) = Some e" "fst e = role"
    by (auto simp: Role_read_def split: option.splits if_splits)
  have "role_computes (cs_db \<sigma>) (Inl t, Inl u) e"
    by (rule rcc.cached_current [OF assms(1) [unfolded role_init_def role_step_def] e(1) assms(4)])
  then show ?thesis using assms(2,3) e(2) Some by (simp add: Checker_Role_def CanonicalID_def)
next
  case None
  then show ?thesis
    using assms(2,3) by (auto simp: Checker_Role_def CanonicalID_def live_role_def Let_def split: option.splits)
qed

definition ex_roles :: zdb where
  "ex_roles = \<lparr>db_access_rules = [], db_resources = [], db_groups = [], db_group_members = [],
     db_users = [\<lparr>us_id = 2, us_tenant_id = 4, us_role = ''admin'', us_status = ''active''\<rparr>,
                 \<lparr>us_id = 3, us_tenant_id = 4, us_role = ''devops'', us_status = ''active''\<rparr>],
     db_workspace_members = [], db_client_devices = [], db_remote_networks = [], db_shields = [], db_shield_revocations = [],
     db_connectors = [], db_placements = [], db_relays = [], db_connector_certificates = [], db_workspaces = [],
     db_profiles = [], db_requirements = [], db_reports = [], db_observations = [], db_evaluations = [],
     db_network_observations = [], db_policies = [], db_policy_profiles = []\<rparr>"

definition ex_id :: "string \<Rightarrow> uuid option" where
  "ex_id s = (if s = ''w'' then Some 4 else if s = ''a'' then Some 2 else if s = ''b'' then Some 3 else None)"

theorem Role_is_live_witness:
  "\<exists>\<sigma>. reach role_init role_step \<sigma> \<and> ck_cache (cs_cache \<sigma>) (Inl 4, Inl 3) = Some (''devops'', 30) \<and>
     fst (Checker_Role ex_id (\<lambda>c. c) False (cs_db \<sigma>) 7 7 ''w'' ''b'' (cs_cache \<sigma>)) = Inr ''devops''"
proof -
  have live: "live_role ex_roles 4 3 = Some ''devops''"
    by (simp add: live_role_def role_status_def select_one_def ex_roles_def ValidRole_def role_table_def)
  then have c: "role_computes ex_roles (Inl 4, Inl 3) (''devops'', 30)" by simp
  let ?c = "Role_store (Inl 4, Inl 3) (''devops'', 30) (Role_token NewChecker (Inl 4, Inl 3)) NewChecker"
  let ?s = "\<lparr>cs_cache = ?c, cs_db = ex_roles, cs_pending = {#}, cs_reads = Map.empty\<rparr> :: role_sys"
  have n: "\<forall>k. ck_cache NewChecker k = None" by (simp add: NewChecker_def)
  have r: "reach role_init role_step ?s"
    unfolding role_init_def role_step_def
    using reach_stored [of ck_cache NewChecker role_computes ex_roles "(Inl 4, Inl 3)" "(''devops'', 30)" Role_token
        "\<lambda>c k e t. Role_store k e t c"] n c by blast
  have p: "ex_id ''w'' = Some 4" "ex_id ''b'' = Some 3" by (simp_all add: ex_id_def)
  have "fst (Checker_Role ex_id (\<lambda>c. c) False (cs_db ?s) 7 7 ''w'' ''b'' (cs_cache ?s)) = Inr ''devops''"
    using Role_is_live [OF r p, of "\<lambda>c. c" 7 7] live by simp
  moreover have "ck_cache (cs_cache ?s) (Inl 4, Inl 3) = Some (''devops'', 30)"
    by (simp add: Role_store_def Role_token_def)
  ultimately show ?thesis using r by blast
qed

section \<open>Active Admins\<close>

definition has_admin :: "uuid \<Rightarrow> zdb \<Rightarrow> bool" where
  "has_admin w db \<longleftrightarrow> (\<exists>r\<in>set (db_users db). active_admin w r)"

lemma last_admin_scan_alt:
  "last_admin_scan removed hit remaining ids =
     (hit \<or> (\<exists>i\<in>set ids. removed i), remaining + length (filter (\<lambda>i. \<not> removed i) ids))"
  by (induction removed hit remaining ids rule: last_admin_scan.induct) auto

lemma set_LockActiveAdmins: "set (LockActiveAdmins db w) = us_id ` {r \<in> set (db_users db). active_admin w r}"
  by (simp add: LockActiveAdmins_def)

lemma lastAdminCheck_passes:
  "lastAdminCheck admins removed = None \<longleftrightarrow> (\<forall>i\<in>set admins. \<not> removed i) \<or> (\<exists>i\<in>set admins. \<not> removed i)"
  by (auto simp: lastAdminCheck_def last_admin_scan_alt filter_empty_conv)

text \<open>A passed guard leaves an Admin outside the set of users about to change, if there was one at all.\<close>

lemma guard_leaves_admin:
  assumes "lastAdminCheck (LockActiveAdmins db w) removed = None" and "has_admin w db"
  shows "\<exists>r\<in>set (db_users db). active_admin w r \<and> \<not> removed (us_id r)"
  using assms by (auto simp: lastAdminCheck_passes set_LockActiveAdmins has_admin_def)


lemma role_status_row:
  assumes "distinct (map us_id (db_users db))" and "r \<in> set (db_users db)" and "us_tenant_id r = w"
  shows "role_status db w (us_id r) = Some (us_role r, us_status r)"
  unfolding role_status_def by (subst select_one_by_key [OF assms(1,2)]) (simp_all add: assms(3))


lemma scan_is_check:
  "(case last_admin_scan removed False 0 admins of (hit, remaining) \<Rightarrow> hit \<and> remaining = 0) \<longleftrightarrow> lastAdminCheck admins removed \<noteq> None"
  by (simp add: lastAdminCheck_def split_beta)

lemma set_role_tx_effect:
  "snd (set_role_tx parse fails tc w u newRole reason st) = st \<or>
   (\<exists>oldRole status. role_status (rb_db st) w u = Some (oldRole, status) \<and> oldRole \<noteq> newRole \<and>
      (oldRole = ''admin'' \<longrightarrow> lastAdminCheck (LockActiveAdmins (rb_db st) w) (\<lambda>i. i = u) = None) \<and>
      rb_db (snd (set_role_tx parse fails tc w u newRole reason st)) = with_role w u newRole (rb_db st))"
proof (cases "role_status (rb_db st) w u")
  case (Some x)
  obtain oldRole status where x: "x = (oldRole, status)" by (cases x)
  show ?thesis
    unfolding set_role_tx_def Some x option.case prod.case scan_is_check Let_def by auto
qed (simp add: set_role_tx_def)

lemma has_admin_with_role:
  assumes "distinct (map us_id (db_users db))" and "has_admin w db" and "role_status db w u = Some (oldRole, status)"
    and "oldRole \<noteq> newRole"
    and "oldRole = ''admin'' \<longrightarrow> lastAdminCheck (LockActiveAdmins db w) (\<lambda>i. i = u) = None"
  shows "has_admin w (with_role w' u newRole db)"
proof (cases "\<exists>r\<in>set (db_users db). active_admin w r \<and> us_id r \<noteq> u")
  case True
  then show ?thesis by (force simp: has_admin_def with_role_def update_where_def)
next
  case False
  with assms(2) obtain r where r: "r \<in> set (db_users db)" "active_admin w r" "us_id r = u"
    by (auto simp: has_admin_def)
  then have "role_status db w u = Some (''admin'', ''active'')"
    using role_status_row [OF assms(1) r(1)] by (auto simp: active_admin_def)
  then have "lastAdminCheck (LockActiveAdmins db w) (\<lambda>i. i = u) = None" using assms(3,4,5) by auto
  from guard_leaves_admin [OF this assms(2)] show ?thesis using False by blast
qed

lemma setMemberRole_effect:
  "snd (setMemberRole parse fails tc userID role reason st) = st \<or>
   (\<exists>w u newRole reason'. setMemberRole parse fails tc userID role reason st = set_role_tx parse fails tc w u newRole reason' st)"
  unfolding setMemberRole_def Let_def by (simp split: option.split) blast

definition ids_distinct :: "rbac_state \<Rightarrow> bool" where "ids_distinct st \<longleftrightarrow> distinct (map us_id (db_users (rb_db st)))"

lemma with_role_ids [simp]: "map us_id (db_users (with_role w u role db)) = map us_id (db_users db)"
  by (simp add: with_role_def update_where_def o_def if_distrib cong: if_cong)

lemma set_role_tx_keeps:
  assumes "ids_distinct st" and "has_admin w (rb_db st)"
  shows "ids_distinct (snd (set_role_tx parse fails tc w' u newRole reason st)) \<and>
         has_admin w (rb_db (snd (set_role_tx parse fails tc w' u newRole reason st)))"
  using set_role_tx_effect [of parse fails tc w' u newRole reason st]
proof (elim disjE exE conjE)
  fix oldRole status
  assume r: "role_status (rb_db st) w' u = Some (oldRole, status)" "oldRole \<noteq> newRole"
      "oldRole = ''admin'' \<longrightarrow> lastAdminCheck (LockActiveAdmins (rb_db st) w') (\<lambda>i. i = u) = None"
      "rb_db (snd (set_role_tx parse fails tc w' u newRole reason st)) = with_role w' u newRole (rb_db st)"
  have "has_admin w (with_role w' u newRole (rb_db st))"
  proof (cases "w' = w")
    case True
    then show ?thesis using has_admin_with_role [of "rb_db st" w u oldRole status newRole] assms r by (simp add: ids_distinct_def)
  next
    case False
    then show ?thesis using assms(2) by (force simp: has_admin_def with_role_def update_where_def active_admin_def)
  qed
  then show ?thesis using assms(1) r(4) by (simp add: ids_distinct_def)
qed (use assms in simp)

lemma setMemberRole_keeps:
  assumes "ids_distinct st" and "has_admin w (rb_db st)"
  shows "ids_distinct (snd (setMemberRole parse fails tc userID role reason st)) \<and>
         has_admin w (rb_db (snd (setMemberRole parse fails tc userID role reason st)))"
  using setMemberRole_effect [of parse fails tc userID role reason st] assms set_role_tx_keeps [OF assms] by auto

text \<open>
  Changes of users: \<open>setMemberRole\<close>; a change of one user or of a set of users that passed the guard
  in the same transaction (the SCIM and identity-connection paths call it first), which may do anything
  to those users; and any change that touches no active Admin, such as adding users.
\<close>

definition keeps_users :: "(uuid \<Rightarrow> bool) \<Rightarrow> zdb \<Rightarrow> zdb \<Rightarrow> bool" where
  "keeps_users removed db db' \<longleftrightarrow>
     distinct (map us_id (db_users db')) \<and> (\<forall>r\<in>set (db_users db). \<not> removed (us_id r) \<longrightarrow> r \<in> set (db_users db'))"

inductive admin_step :: "(string \<Rightarrow> uuid option) \<Rightarrow> uuid \<Rightarrow> rbac_state \<Rightarrow> rbac_state \<Rightarrow> bool" for parse w where
  set_role: "admin_step parse w st (snd (setMemberRole parse fails tc userID role reason st))"
| guarded_one: "GuardLastAdminTx parse fl (rb_db st) w userID = None \<Longrightarrow> parse userID = Some u \<Longrightarrow>
     keeps_users (\<lambda>i. i = u) (rb_db st) db' \<Longrightarrow> admin_step parse w st (st\<lparr>rb_db := db'\<rparr>)"
| guarded_many: "GuardLastAdminsTx parse fl (rb_db st) w userIDs = None \<Longrightarrow>
     keeps_users (\<lambda>i. \<exists>raw\<in>set userIDs. parse raw = Some i) (rb_db st) db' \<Longrightarrow> admin_step parse w st (st\<lparr>rb_db := db'\<rparr>)"
| other: "keeps_users (\<lambda>i. i \<notin> set (LockActiveAdmins (rb_db st) w)) (rb_db st) db' \<Longrightarrow>
     admin_step parse w st (st\<lparr>rb_db := db'\<rparr>)"

lemma guarded_keeps:
  assumes "lastAdminCheck (LockActiveAdmins db w) removed = None" and "keeps_users removed db db'" and "has_admin w db"
  shows "has_admin w db'"
  using guard_leaves_admin [OF assms(1,3)] assms(2) by (auto simp: keeps_users_def has_admin_def)

interpretation adm: inductive_invariant "\<lambda>st. ids_distinct st \<and> has_admin w (rb_db st)" "admin_step parse w"
  "\<lambda>st. ids_distinct st \<and> has_admin w (rb_db st)" for parse w
proof
  fix st st'
  assume inv: "ids_distinct st \<and> has_admin w (rb_db st)" and step: "admin_step parse w st st'"
  from step show "ids_distinct st' \<and> has_admin w (rb_db st')"
  proof cases
    case (set_role fails tc userID role reason)
    then show ?thesis using setMemberRole_keeps [of st w] inv by simp
  next
    case (guarded_one fl userID u db')
    then have "lastAdminCheck (LockActiveAdmins (rb_db st) w) (\<lambda>i. i = u) = None"
      by (auto simp: GuardLastAdminTx_def CanonicalID_def split: if_splits)
    then show ?thesis using guarded_one guarded_keeps inv by (auto simp: ids_distinct_def keeps_users_def)
  next
    case (guarded_many fl userIDs db')
    then have "lastAdminCheck (LockActiveAdmins (rb_db st) w) (\<lambda>i. \<exists>raw\<in>set userIDs. parse raw = Some i) = None"
      by (auto simp: GuardLastAdminsTx_def CanonicalID_def split: if_splits)
    then show ?thesis using guarded_many guarded_keeps inv by (auto simp: ids_distinct_def keeps_users_def)
  next
    case (other db')
    then show ?thesis using inv by (auto simp: ids_distinct_def keeps_users_def has_admin_def set_LockActiveAdmins)
  qed
qed simp


text \<open>
  C22. A workspace that has an active Admin never loses its last one: along any sequence of role
  changes, of guarded suspensions and deletions of users one by one or in bulk, and of changes that
  touch no active Admin, an active Admin remains.
\<close>

theorem last_admin_survives:
  assumes "(admin_step parse w)\<^sup>*\<^sup>* st st'" and "ids_distinct st" and "has_admin w (rb_db st)"
  shows "has_admin w (rb_db st')"
  using adm.inv_steps [OF assms(1)] assms(2,3) by blast

definition ex_state :: rbac_state where
  "ex_state = \<lparr>rb_db = ex_roles, rb_audit = [], rb_checker = NewChecker\<rparr>"

definition ex_tc :: tenant_context where
  "ex_tc = \<lparr>tx_TenantID = ''w'', tx_UserID = ''a'', tx_Email = ''a@x''\<rparr>"

theorem last_admin_survives_witness:
  "\<exists>st'. (admin_step ex_id 4)\<^sup>*\<^sup>* ex_state st' \<and>
     st' = snd (setMemberRole ex_id (\<lambda>_. False) ex_tc ''b'' ''ADMIN'' ''cover'' ex_state) \<and> has_admin 4 (rb_db st')"
proof -
  let ?s = "snd (setMemberRole ex_id (\<lambda>_. False) ex_tc ''b'' ''ADMIN'' ''cover'' ex_state)"
  have r: "(admin_step ex_id 4)\<^sup>*\<^sup>* ex_state ?s" by (rule r_into_rtranclp) (rule admin_step.set_role)
  have "ids_distinct ex_state" "has_admin 4 (rb_db ex_state)"
    by (simp_all add: ids_distinct_def ex_state_def ex_roles_def has_admin_def active_admin_def)
  then show ?thesis using last_admin_survives [OF r] r by blast
qed

section \<open>What a role change does\<close>

lemma loadMember_role:
  assumes "loadMember fails w u (with_role w u newRole db) = Inr row"
  shows "us_id row = u \<and> us_tenant_id row = w \<and> us_role row = newRole"
proof -
  let ?P = "\<lambda>r. us_id r = u \<and> us_tenant_id r = w"
  from assms have "select_one ?P (db_users (with_role w u newRole db)) = Some row"
    by (simp add: loadMember_def split: if_splits option.splits)
  from select_one_Some [OF this] have p: "?P row" and q: "row \<in> set (update_where ?P (\<lambda>r. r\<lparr>us_role := newRole\<rparr>) (db_users db))"
    by (simp_all add: with_role_def)
  from q show ?thesis by (rule update_whereE) (use p in auto)
qed

text \<open>
  A role change that reports success names a user other than the caller and leaves that user
  with the new role; nobody else's row changes, and unless the role was the same already exactly one
  audit entry with the old role, the new role and the reason is written and the user's cached role
  is dropped.
\<close>

theorem setMemberRole_effects:
  assumes "setMemberRole parse fails tc userID role reason st = (Inr row, st')"
  shows "\<exists>w u. parse (tx_TenantID tc) = Some w \<and> parse userID = Some u \<and> parse (tx_UserID tc) \<noteq> Some u \<and>
     ((st' = st \<and> role_status (rb_db st) w u = Some (map lower_char role, us_status row)) \<or>
      (us_id row = u \<and> us_role row = map lower_char role \<and> ck_cache (rb_checker st') (Inl w, Inl u) = None \<and>
       rb_db st' = with_role w u (map lower_char role) (rb_db st) \<and>
       (\<exists>oldRole status e. role_status (rb_db st) w u = Some (oldRole, status) \<and> rb_audit st' = rb_audit st @ [e] \<and>
          au_ActorUserID e = tx_UserID tc \<and> au_TargetID e = u \<and>
          au_Details e = [(''from_role'', oldRole), (''to_role'', map lower_char role), (''reason'', TrimSpace reason)])))"
proof -
  from assms obtain w u where
    ids: "parse (tx_TenantID tc) = Some w" "parse userID = Some u" "parse (tx_UserID tc) \<noteq> Some u" and
    tx: "set_role_tx parse fails tc w u (map lower_char role) (TrimSpace reason) st = (Inr row, st')"
    by (auto simp: setMemberRole_def CanonicalID_def Let_def split: option.splits if_splits)
  from tx obtain oldRole status where r: "role_status (rb_db st) w u = Some (oldRole, status)"
    by (auto simp: set_role_tx_def split: option.splits if_splits)
  show ?thesis
  proof (cases "oldRole = map lower_char role")
    case True
    with tx r have "st' = st" "loadMember fails w u (rb_db st) = Inr row"
      by (auto simp: set_role_tx_def split: if_splits)
    then have "role_status (rb_db st) w u = Some (map lower_char role, us_status row)"
      using r True by (auto simp: role_status_def loadMember_def split: if_splits option.splits)
    then show ?thesis using ids \<open>st' = st\<close> by blast
  next
    case False
    with tx have "loadMember fails w u (with_role w u (map lower_char role) (rb_db st)) = Inr row"
      and "rb_db st' = with_role w u (map lower_char role) (rb_db st)"
      and "rb_checker st' = invalidate_key (Inl w, Inl u) (rb_checker st)"
      and "\<exists>e. rb_audit st' = rb_audit st @ [e] \<and> au_ActorUserID e = tx_UserID tc \<and> au_TargetID e = u \<and>
          au_Details e = [(''from_role'', oldRole), (''to_role'', map lower_char role), (''reason'', TrimSpace reason)]"
      unfolding set_role_tx_def r option.case prod.case Let_def by (auto split: if_splits)
    then show ?thesis using ids r loadMember_role by (fastforce simp: invalidate_key_def)
  qed
qed


lemma ex_set_role:
  "map_sum id us_role (fst (setMemberRole ex_id (\<lambda>_. False) ex_tc ''b'' ''SECURITY'' ''rotation'' ex_state)) = Inr ''security''"
  by code_simp

theorem setMemberRole_effects_witness:
  "\<exists>row st'. setMemberRole ex_id (\<lambda>_. False) ex_tc ''b'' ''SECURITY'' ''rotation'' ex_state = (Inr row, st') \<and>
     us_role row = ''security'' \<and> length (rb_audit st') = 1"
proof -
  obtain row st' where e: "setMemberRole ex_id (\<lambda>_. False) ex_tc ''b'' ''SECURITY'' ''rotation'' ex_state = (Inr row, st')"
    and row: "us_role row = ''security''"
    using ex_set_role by (cases "setMemberRole ex_id (\<lambda>_. False) ex_tc ''b'' ''SECURITY'' ''rotation'' ex_state") (auto simp: map_sum_def split: sum.splits)
  have l: "map lower_char ''SECURITY'' = ''security''" by code_simp
  have o: "role_status (rb_db ex_state) 4 3 = Some (''devops'', ''active'')"
    by (simp add: role_status_def select_one_def ex_state_def ex_roles_def)
  have "rb_audit ex_state = []" by (simp add: ex_state_def)
  then have "length (rb_audit st') = 1"
    using setMemberRole_effects [OF e] o by (auto simp: ex_id_def ex_tc_def l)
  then show ?thesis using e row by blast
qed

end
