(* ===== verification/Resource_Policy.thy ===== *)
theory Resource_Policy
  imports Posture_Eval
begin

text \<open>
  Resource policies and the administration of device profiles
  (\<open>internal/posture/resource_policy.go\<close>, \<open>store.go\<close>, \<open>country.go\<close>).

  Each operation is one transaction. The source takes row locks in one order (profiles by
  identifier, then the policy), so transactions that touch the same rows are serial, and every
  operation is one step on the tables; a failing statement (\<open>fails\<close>) rolls it back. The unique
  keys, the foreign keys and their cascades, and the two triggers of migration 049 act as the schema
  declares them. \<open>gen_random_uuid()\<close> is a parameter.
\<close>

datatype pol_stmt =
  PBegin | PLockProfile uuid | PLockPolicy | PLockResource | PClear | PInsert | PTouch | PUpdate | PMove | PDelete | PUsing
  | PCount | PInUse | PBump | PCommit | PGet

section \<open>Reading\<close>

definition validPolicyName :: "string \<Rightarrow> posture_error + string" where
  "validPolicyName name =
     (let n = TrimSpace name in
      if length n < 1 \<or> length n > 100 then Inl ErrInvalidPolicyName else Inr n)"

definition find_policy :: "zdb \<Rightarrow> uuid \<Rightarrow> uuid \<Rightarrow> resource_policy option" where
  "find_policy db w i = select_one (\<lambda>p. rpo_WorkspaceID p = w \<and> rpo_ID p = i) (db_policies db)"

definition find_profile :: "zdb \<Rightarrow> uuid \<Rightarrow> uuid \<Rightarrow> profile option" where
  "find_profile db w i = select_one (\<lambda>p. pf_WorkspaceID p = w \<and> pf_ID p = i) (db_profiles db)"

definition policy_profile_ids :: "zdb \<Rightarrow> uuid \<Rightarrow> uuid list" where
  "policy_profile_ids db i = sort (map rpp_profile_id (filter (\<lambda>l. rpp_policy_id l = i) (db_policy_profiles db)))"

definition requirement_count :: "zdb \<Rightarrow> uuid \<Rightarrow> nat" where
  "requirement_count db i = count_where (\<lambda>r. rq_ProfileID r = i) (db_requirements db)"

text \<open>The policy, the profiles it requires, and how many resources are in it.\<close>

definition GetResourcePolicy ::
  "(pol_stmt \<Rightarrow> bool) \<Rightarrow> zdb \<Rightarrow> uuid \<Rightarrow> uuid \<Rightarrow> posture_error + resource_policy \<times> uuid list \<times> nat" where
  "GetResourcePolicy fails db w i =
     (if fails PGet then Inl ErrPostureDB
      else case find_policy db w i of
             None \<Rightarrow> Inl ErrPolicyNotFound
           | Some p \<Rightarrow> Inr (p, policy_profile_ids db i, count_where (\<lambda>r. rs_policy_id r = i) (db_resources db)))"

definition policiesUsingProfile :: "zdb \<Rightarrow> uuid \<Rightarrow> uuid \<Rightarrow> (uuid \<times> string) list" where
  "policiesUsingProfile db w i =
     sort_key (\<lambda>(_, n). map (of_char \<circ> lower_char :: char \<Rightarrow> nat) n)
       [(rpo_ID p, rpo_Name p).
          l \<leftarrow> filter (\<lambda>l. rpp_workspace_id l = w \<and> rpp_profile_id l = i) (db_policy_profiles db),
          p \<leftarrow> filter (\<lambda>p. rpo_ID p = rpp_policy_id l) (db_policies db)]"

definition profileInUse :: "zdb \<Rightarrow> uuid \<Rightarrow> bool" where
  "profileInUse db i \<longleftrightarrow> (\<exists>l\<in>set (db_policy_profiles db). rpp_profile_id l = i)"

fun dedupe :: "uuid list \<Rightarrow> uuid list \<Rightarrow> uuid list" where
  "dedupe seen [] = []"
| "dedupe seen (i # ids) = (if i \<in> set seen then dedupe seen ids else i # dedupe (i # seen) ids)"

definition dedupeSorted :: "uuid list \<Rightarrow> uuid list" where
  "dedupeSorted ids = sort (dedupe [] ids)"

section \<open>Policies\<close>

text \<open>\<open>NULLIF(btrim($3), '')\<close>: \<open>btrim\<close> removes spaces only.\<close>

definition btrim :: "string \<Rightarrow> string" where
  "btrim s = rev (dropWhile (\<lambda>c. c = CHR '' '') (rev (dropWhile (\<lambda>c. c = CHR '' '') s)))"

definition clean_description :: "string option \<Rightarrow> string option" where
  "clean_description d = (case d of None \<Rightarrow> None | Some s \<Rightarrow> if btrim s = [] then None else Some (btrim s))"

definition name_taken :: "zdb \<Rightarrow> uuid \<Rightarrow> string \<Rightarrow> (uuid \<Rightarrow> bool) \<Rightarrow> bool" where
  "name_taken db w n other \<longleftrightarrow> (\<exists>p\<in>set (db_policies db). rpo_WorkspaceID p = w \<and> rpo_Name p = n \<and> other (rpo_ID p))"

definition CreateResourcePolicy ::
  "uuid \<Rightarrow> (pol_stmt \<Rightarrow> bool) \<Rightarrow> uuid \<Rightarrow> string \<Rightarrow> string option \<Rightarrow> zdb
   \<Rightarrow> (posture_error + resource_policy \<times> uuid list \<times> nat) \<times> zdb" where
  "CreateResourcePolicy newid fails w name description db =
     (case validPolicyName name of
        Inl e \<Rightarrow> (Inl e, db)
      | Inr n \<Rightarrow>
          if fails PInsert then (Inl ErrPostureDB, db)
          else if name_taken db w n (\<lambda>_. True) then (Inl ErrPolicyNameTaken, db)
          else if \<not> (\<exists>x\<in>set (db_workspaces db). ws_id x = w) then (Inl ErrPolicyNotFound, db)
          else let db' = db\<lparr>db_policies := db_policies db @
                 [\<lparr>rpo_ID = newid, rpo_WorkspaceID = w, rpo_Name = n, rpo_Description = clean_description description,
                   rpo_IsDefault = False\<rparr>]\<rparr>
               in (GetResourcePolicy fails db' w newid, db'))"

definition UpdateResourcePolicy ::
  "(pol_stmt \<Rightarrow> bool) \<Rightarrow> uuid \<Rightarrow> uuid \<Rightarrow> string option \<Rightarrow> string option \<Rightarrow> zdb
   \<Rightarrow> (posture_error + resource_policy \<times> uuid list \<times> nat) \<times> zdb" where
  "UpdateResourcePolicy fails w i name description db =
     (if fails PBegin \<or> fails PLockPolicy then (Inl ErrPostureDB, db)
      else case find_policy db w i of
        None \<Rightarrow> (Inl ErrPolicyNotFound, db)
      | Some p \<Rightarrow>
          (case (case name of None \<Rightarrow> Inr (rpo_Name p) | Some n \<Rightarrow> validPolicyName n) of
             Inl e \<Rightarrow> (Inl e, db)
           | Inr newName \<Rightarrow>
               if name \<noteq> None \<and> rpo_IsDefault p \<and> newName \<noteq> rpo_Name p then (Inl ErrDefaultPolicyFixed, db)
               else if fails PUpdate then (Inl ErrPostureDB, db)
               else if name_taken db w newName (\<lambda>j. j \<noteq> i) then (Inl ErrPolicyNameTaken, db)
               else if fails PCommit then (Inl ErrPostureDB, db)
               else let db' = db\<lparr>db_policies :=
                      update_where (\<lambda>p. rpo_WorkspaceID p = w \<and> rpo_ID p = i) 
                        (\<lambda>p. p\<lparr>rpo_Name := newName,
                                rpo_Description := (if description \<noteq> None then clean_description description else rpo_Description p)\<rparr>)
                        (db_policies db)\<rparr>
                    in (GetResourcePolicy fails db' w i, db')))"

text \<open>The loop that locks the profiles and refuses a missing or an empty one.\<close>

fun lock_profiles :: "(pol_stmt \<Rightarrow> bool) \<Rightarrow> zdb \<Rightarrow> uuid \<Rightarrow> uuid list \<Rightarrow> posture_error option" where
  "lock_profiles fails db w [] = None"
| "lock_profiles fails db w (i # ids) =
     (if fails (PLockProfile i) then Some ErrPostureDB
      else if find_profile db w i = None then Some ErrPolicyProfileMissing
      else if requirement_count db i = 0 then Some ErrEmptyProfileInPolicy
      else lock_profiles fails db w ids)"

definition SetResourcePolicyProfiles ::
  "(pol_stmt \<Rightarrow> bool) \<Rightarrow> uuid \<Rightarrow> uuid \<Rightarrow> uuid list \<Rightarrow> zdb \<Rightarrow> (posture_error + resource_policy \<times> uuid list \<times> nat) \<times> zdb" where
  "SetResourcePolicyProfiles fails w i profileIDs db =
     (let ids = dedupeSorted profileIDs in
      if fails PBegin then (Inl ErrPostureDB, db)
      else case lock_profiles fails db w ids of
        Some e \<Rightarrow> (Inl e, db)
      | None \<Rightarrow>
          if fails PLockPolicy then (Inl ErrPostureDB, db)
          else if find_policy db w i = None then (Inl ErrPolicyNotFound, db)
          else if fails PClear \<or> ids \<noteq> [] \<and> fails PInsert \<or> fails PTouch \<or> fails PCommit then (Inl ErrPostureDB, db)
          else let db' = db\<lparr>db_policy_profiles :=
                 filter (\<lambda>l. rpp_policy_id l \<noteq> i) (db_policy_profiles db) @
                 map (\<lambda>p. \<lparr>rpp_policy_id = i, rpp_profile_id = p, rpp_workspace_id = w\<rparr>) ids\<rparr>
               in (GetResourcePolicy fails db' w i, db'))"

text \<open>
  Deleting the policy row cascades to its profile links. A resource of another workspace in the
  policy would violate the foreign key and fail the statement.
\<close>

definition default_policy :: "zdb \<Rightarrow> uuid \<Rightarrow> resource_policy option" where
  "default_policy db w = select_one (\<lambda>d. rpo_WorkspaceID d = w \<and> rpo_IsDefault d) (db_policies db)"

definition move_to_default :: "uuid \<Rightarrow> uuid \<Rightarrow> zdb \<Rightarrow> uuid list \<times> resource_row list" where
  "move_to_default w i db =
     (case default_policy db w of
        None \<Rightarrow> ([], db_resources db)
      | Some d \<Rightarrow>
          (map rs_id (filter (\<lambda>r. rs_tenant_id r = w \<and> rs_policy_id r = i) (db_resources db)),
           update_where (\<lambda>r. rs_tenant_id r = w \<and> rs_policy_id r = i) (\<lambda>r. r\<lparr>rs_policy_id := rpo_ID d\<rparr>) (db_resources db)))"

definition DeleteResourcePolicy ::
  "(pol_stmt \<Rightarrow> bool) \<Rightarrow> uuid \<Rightarrow> uuid \<Rightarrow> zdb \<Rightarrow> (posture_error + uuid list) \<times> zdb" where
  "DeleteResourcePolicy fails w i db =
     (if fails PBegin \<or> fails PLockPolicy then (Inl ErrPostureDB, db)
      else case find_policy db w i of
        None \<Rightarrow> (Inl ErrPolicyNotFound, db)
      | Some p \<Rightarrow>
          if rpo_IsDefault p then (Inl ErrDefaultPolicyFixed, db)
          else if fails PMove then (Inl ErrPostureDB, db)
          else
            (case move_to_default w i db of
               (moved, resources') \<Rightarrow>
                 if fails PDelete \<or> (\<exists>r\<in>set resources'. rs_policy_id r = i) \<or> fails PCommit then (Inl ErrPostureDB, db)
                 else (Inr moved, db\<lparr>db_resources := resources',
                         db_policies := filter (\<lambda>p. rpo_ID p \<noteq> i) (db_policies db),
                         db_policy_profiles := filter (\<lambda>l. rpp_policy_id l \<noteq> i) (db_policy_profiles db)\<rparr>)))"

definition SetResourcePolicy ::
  "(pol_stmt \<Rightarrow> bool) \<Rightarrow> uuid \<Rightarrow> uuid \<Rightarrow> uuid \<Rightarrow> zdb \<Rightarrow> (posture_error + uuid) \<times> zdb" where
  "SetResourcePolicy fails w rid i db =
     (if fails PBegin \<or> fails PLockResource then (Inl ErrPostureDB, db)
      else case select_one (\<lambda>r. rs_tenant_id r = w \<and> rs_id r = rid) (db_resources db) of
        None \<Rightarrow> (Inl ErrPolicyResourceGone, db)
      | Some r \<Rightarrow>
          if fails PUpdate then (Inl ErrPostureDB, db)
          else if find_policy db w i = None then (Inl ErrPolicyNotFound, db)
          else if fails PCommit then (Inl ErrPostureDB, db)
          else (Inr (rs_policy_id r),
                db\<lparr>db_resources := update_where (\<lambda>r. rs_tenant_id r = w \<and> rs_id r = rid) (\<lambda>r. r\<lparr>rs_policy_id := i\<rparr>) (db_resources db)\<rparr>))"

text \<open>The triggers of migration 049; an insert of a resource names no policy.\<close>

definition insert_workspace :: "uuid \<Rightarrow> workspace_row \<Rightarrow> zdb \<Rightarrow> zdb" where
  "insert_workspace newid x db = db\<lparr>db_workspaces := db_workspaces db @ [x],
     db_policies := db_policies db @ [\<lparr>rpo_ID = newid, rpo_WorkspaceID = ws_id x, rpo_Name = ''Default'',
     rpo_Description = Some ''Applies to resources not assigned to another policy.'', rpo_IsDefault = True\<rparr>]\<rparr>"

definition insert_resource :: "resource_row \<Rightarrow> zdb \<Rightarrow> zdb option" where
  "insert_resource r db =
     (case default_policy db (rs_tenant_id r) of
        None \<Rightarrow> None
      | Some d \<Rightarrow> Some (db\<lparr>db_resources := db_resources db @ [r\<lparr>rs_policy_id := rpo_ID d\<rparr>]\<rparr>))"

end
