(* ===== verification/Profile_Admin.thy ===== *)
theory Profile_Admin
  imports Resource_Policy
begin

text \<open>
  Device profiles, their requirements, and the rows posture reports and network sightings leave
  (\<open>internal/posture/store.go\<close>, \<open>country.go\<close>, \<open>resource_policy.go\<close>), under the conventions of
  \<open>Resource_Policy\<close>.
\<close>

section \<open>Profiles\<close>

definition CreateProfile :: "uuid \<Rightarrow> bool \<Rightarrow> uuid \<Rightarrow> string \<Rightarrow> bool \<Rightarrow> zdb \<Rightarrow> (posture_error + profile) \<times> zdb" where
  "CreateProfile newid fails w name manualTrust db =
     (let n = TrimSpace name;
          p = \<lparr>pf_ID = newid, pf_WorkspaceID = w, pf_Name = n, pf_Revision = 1, pf_ManualTrustEnabled = manualTrust\<rparr>
      in if n = [] then (Inl ErrInvalidProfileName, db)
         else if fails \<or> \<not> (\<exists>x\<in>set (db_workspaces db). ws_id x = w) \<or>
                 (\<exists>q\<in>set (db_profiles db). pf_WorkspaceID q = w \<and> pf_Name q = n)
         then (Inl ErrPostureDB, db)
         else (Inr p, db\<lparr>db_profiles := db_profiles db @ [p]\<rparr>))"

definition GetProfile :: "bool \<Rightarrow> zdb \<Rightarrow> uuid \<Rightarrow> uuid \<Rightarrow> posture_error + profile" where
  "GetProfile fails db w i =
     (if fails then Inl ErrPostureDB else case find_profile db w i of None \<Rightarrow> Inl ErrNotFound | Some p \<Rightarrow> Inr p)"

definition UpdateProfileManualTrust :: "bool \<Rightarrow> uuid \<Rightarrow> uuid \<Rightarrow> bool \<Rightarrow> zdb \<Rightarrow> (posture_error + profile) \<times> zdb" where
  "UpdateProfileManualTrust fails w i enabled db =
     (if \<not> enabled then (Inl ErrNoVerificationMethod, db)
      else if fails then (Inl ErrPostureDB, db)
      else case find_profile db w i of
        None \<Rightarrow> (Inl ErrNotFound, db)
      | Some p \<Rightarrow> (Inr (p\<lparr>pf_ManualTrustEnabled := enabled\<rparr>),
                   db\<lparr>db_profiles := update_where (\<lambda>q. pf_WorkspaceID q = w \<and> pf_ID q = i)
                        (\<lambda>q. q\<lparr>pf_ManualTrustEnabled := enabled\<rparr>) (db_profiles db)\<rparr>))"

text \<open>The revision is a \<open>BIGINT\<close>; an increment past its range fails the statement.\<close>

definition bump_revision :: "uuid \<Rightarrow> uuid \<Rightarrow> zdb \<Rightarrow> zdb" where
  "bump_revision w i db = db\<lparr>db_profiles :=
     update_where (\<lambda>q. pf_WorkspaceID q = w \<and> pf_ID q = i) (\<lambda>q. q\<lparr>pf_Revision := pf_Revision q + 1\<rparr>) (db_profiles db)\<rparr>"

definition revision_full :: "profile \<Rightarrow> bool" where "revision_full p \<longleftrightarrow> pf_Revision p \<ge> 2 ^ 63 - 1"

definition AddRequirement ::
  "(pol_stmt \<Rightarrow> bool) \<Rightarrow> uuid \<Rightarrow> uuid \<Rightarrow> requirement \<Rightarrow> zdb \<Rightarrow> posture_error option \<times> zdb" where
  "AddRequirement fails w i req db =
     (if fails PBegin \<or> fails (PLockProfile i) then (Some ErrPostureDB, db)
      else case find_profile db w i of
        None \<Rightarrow> (Some ErrNotFound, db)
      | Some p \<Rightarrow>
          if fails PInsert then (Some ErrPostureDB, db)
          else if \<exists>r\<in>set (db_requirements db). rq_ProfileID r = i \<and> rq_CheckID r = rq_CheckID req
          then (Some ErrDuplicateRequirement, db)
          else if fails PBump \<or> revision_full p \<or> fails PCommit then (Some ErrPostureDB, db)
          else (None, bump_revision w i (db\<lparr>db_requirements := db_requirements db @ [req\<lparr>rq_ProfileID := i\<rparr>]\<rparr>)))"

definition RemoveRequirement ::
  "(pol_stmt \<Rightarrow> bool) \<Rightarrow> uuid \<Rightarrow> uuid \<Rightarrow> string \<Rightarrow> zdb \<Rightarrow> posture_error option \<times> zdb" where
  "RemoveRequirement fails w i checkID db =
     (if fails PBegin \<or> fails (PLockProfile i) then (Some ErrPostureDB, db)
      else case find_profile db w i of
        None \<Rightarrow> (Some ErrNotFound, db)
      | Some p \<Rightarrow>
          if fails PDelete then (Some ErrPostureDB, db)
          else
            let hit = (\<lambda>r. rq_ProfileID r = i \<and> rq_CheckID r = checkID);
                db1 = db\<lparr>db_requirements := filter (\<lambda>r. \<not> hit r) (db_requirements db)\<rparr>
            in if count_where hit (db_requirements db) = 0 then (Some ErrNotFound, db)
               else if fails PCount then (Some ErrPostureDB, db)
               else if requirement_count db1 i = 0 \<and> fails PInUse then (Some ErrPostureDB, db)
               else if requirement_count db1 i = 0 \<and> profileInUse db1 i then (Some ErrLastRequirement, db)
               else if fails PBump \<or> revision_full p \<or> fails PCommit then (Some ErrPostureDB, db)
               else (None, bump_revision w i db1))"

definition UpdateCountryRule ::
  "(pol_stmt \<Rightarrow> bool) \<Rightarrow> uuid \<Rightarrow> uuid \<Rightarrow> country_rule \<Rightarrow> zdb \<Rightarrow> (posture_error + country_rule) \<times> zdb" where
  "UpdateCountryRule fails w i rule db =
     (if fails PBegin \<or> fails PLockResource then (Inl ErrPostureDB, db)
      else case find_profile db w i of
        None \<Rightarrow> (Inl ErrNotFound, db)
      | Some p \<Rightarrow>
          (case select_one (\<lambda>r. rq_ProfileID r = i \<and> rq_CheckID r = CheckNetworkCountry) (db_requirements db) of
             None \<Rightarrow> (Inl ErrNotFound, db)
           | Some previous \<Rightarrow>
               if fails PUpdate \<or> fails PBump \<or> revision_full p \<or> fails PCommit then (Inl ErrPostureDB, db)
               else
                 (Inr (case rq_Countries previous of Some old \<Rightarrow> old | None \<Rightarrow> \<lparr>cr_Allow = [], cr_Deny = []\<rparr>),
                  bump_revision w i (db\<lparr>db_requirements :=
                    update_where (\<lambda>r. rq_ProfileID r = i \<and> rq_CheckID r = CheckNetworkCountry)
                      (\<lambda>r. r\<lparr>rq_Countries := Some rule\<rparr>) (db_requirements db)\<rparr>))))"

text \<open>
  Deleting a profile cascades to its requirements, its evaluations and its policy links. The result
  names the policies it was removed from and those left with no profile.
\<close>

definition DeleteProfile ::
  "(pol_stmt \<Rightarrow> bool) \<Rightarrow> uuid \<Rightarrow> uuid \<Rightarrow> bool \<Rightarrow> zdb
   \<Rightarrow> (posture_error + (uuid \<times> string) list \<times> (uuid \<times> string) list) \<times> zdb" where
  "DeleteProfile fails w i confirmInUse db =
     (if fails PBegin \<or> fails (PLockProfile i) then (Inl ErrPostureDB, db)
      else if find_profile db w i = None then (Inl ErrNotFound, db)
      else if fails PUsing then (Inl ErrPostureDB, db)
      else
        let policies = policiesUsingProfile db w i in
        if policies \<noteq> [] \<and> \<not> confirmInUse then (Inl (ErrProfileInUse policies), db)
        else if policies \<noteq> [] \<and> fails PCount \<or> fails PDelete \<or> fails PCommit then (Inl ErrPostureDB, db)
        else
          (Inr (policies,
                filter (\<lambda>p. count_where (\<lambda>l. rpp_policy_id l = fst p \<and> rpp_profile_id l \<noteq> i) (db_policy_profiles db) = 0) policies),
           db\<lparr>db_profiles := filter (\<lambda>p. \<not> (pf_WorkspaceID p = w \<and> pf_ID p = i)) (db_profiles db),
             db_requirements := filter (\<lambda>r. rq_ProfileID r \<noteq> i) (db_requirements db),
             db_evaluations := filter (\<lambda>e. er_profile_id e \<noteq> i) (db_evaluations db),
             db_policy_profiles := filter (\<lambda>l. rpp_profile_id l \<noteq> i) (db_policy_profiles db)\<rparr>))"

section \<open>Reports and sightings\<close>

definition InsertReport ::
  "uuid \<Rightarrow> (pol_stmt \<Rightarrow> bool) \<Rightarrow> time \<Rightarrow> uuid \<Rightarrow> uuid \<Rightarrow> report \<Rightarrow> zdb \<Rightarrow> posture_error option \<times> zdb" where
  "InsertReport newid fails dbnow w d rep db =
     (if fails PBegin then (Some ErrPostureDB, db)
      else if \<not> (\<exists>x\<in>set (db_client_devices db). cd_id x = d \<and> cd_workspace_id x = w \<and> cd_revoked_at x = None)
      then (Some ErrWorkspaceMismatch, db)
      else if \<exists>r\<in>set (db_reports db). rp_ReportID r = rep_ReportID rep then (Some ErrDuplicateReport, db)
      else if \<not> distinct (map os_CheckID (rep_Observations rep)) then (Some ErrDuplicateReport, db)
      else if fails PInsert \<or> fails PCommit then (Some ErrPostureDB, db)
      else (None, db\<lparr>
        db_reports := db_reports db @ [\<lparr>rp_ID = newid, rp_ReportID = rep_ReportID rep, rp_DeviceID = d, rp_WorkspaceID = w,
                         rp_ReportedAt = rep_ReportedAt rep, rp_ReceivedAt = dbnow\<rparr>],
        db_observations := db_observations db @ map (\<lambda>o'. o'\<lparr>os_ReportID := newid\<rparr>) (rep_Observations rep)\<rparr>))"

definition ReportByClientID :: "bool \<Rightarrow> zdb \<Rightarrow> string \<Rightarrow> posture_error + posture_report" where
  "ReportByClientID fails db reportID =
     (if fails then Inl ErrPostureDB
      else case select_one (\<lambda>r. rp_ReportID r = reportID) (db_reports db) of None \<Rightarrow> Inl ErrNotFound | Some r \<Rightarrow> Inr r)"

text \<open>
  The oldest reports go first, at most \<open>limit\<close> of them; observations cascade and the evaluations
  that point at them keep their verdict with no report.
\<close>

definition DeleteExpiredReports :: "bool \<Rightarrow> time \<Rightarrow> int \<Rightarrow> zdb \<Rightarrow> nat option \<times> zdb" where
  "DeleteExpiredReports fails cutoff limit db =
     (if limit \<le> 0 \<or> fails then (None, db)
      else
        let old = filter (\<lambda>r. rp_ReceivedAt r < cutoff) (db_reports db);
            ids = map rp_ID (take (nat limit) (sort_key rp_ReceivedAt old));
            gone = (\<lambda>i. i \<in> set ids)
        in (Some (count_where (\<lambda>r. gone (rp_ID r)) (db_reports db)), db\<lparr>
          db_reports := filter (\<lambda>r. \<not> gone (rp_ID r)) (db_reports db),
          db_observations := filter (\<lambda>o'. \<not> gone (os_ReportID o')) (db_observations db),
          db_evaluations := update_where (\<lambda>e. \<exists>i\<in>set ids. er_report_id e = Some i) (\<lambda>e. e\<lparr>er_report_id := None\<rparr>)
            (db_evaluations db)\<rparr>))"

text \<open>
  One statement: insert, or update the device's row if it is of the same workspace. The previous
  country is read in the same statement, scoped to the workspace.
\<close>

definition RecordNetworkObservation ::
  "bool \<Rightarrow> uuid \<Rightarrow> uuid \<Rightarrow> string \<Rightarrow> time \<Rightarrow> zdb \<Rightarrow> (posture_error + bool) \<times> zdb" where
  "RecordNetworkObservation fails w d country now db =
     (if fails then (Inl ErrPostureDB, db)
      else case select_one (\<lambda>o'. no_DeviceID o' = d) (db_network_observations db) of
        None \<Rightarrow> (Inr True, db\<lparr>db_network_observations := db_network_observations db @
                   [\<lparr>no_DeviceID = d, no_WorkspaceID = w, no_Country = country, no_ObservedAt = now, no_CountrySince = now\<rparr>]\<rparr>)
      | Some prev \<Rightarrow>
          if no_WorkspaceID prev \<noteq> w then (Inl ErrNotFound, db)
          else (Inr (no_Country prev \<noteq> country), db\<lparr>db_network_observations :=
                 update_where (\<lambda>o'. no_DeviceID o' = d)
                   (\<lambda>o'. o'\<lparr>no_Country := country, no_ObservedAt := now,
                            no_CountrySince := (if no_Country o' = country then no_CountrySince o' else now)\<rparr>)
                   (db_network_observations db)\<rparr>))"

end
