(* ===== verification/Policy_Invariant.thy ===== *)
theory Policy_Invariant
  imports Profile_Admin Zec_Interfaces
begin

text \<open>
  The invariant of resource policies and device profiles, and that every administrative operation
  keeps it: every resource is in exactly one policy of its own workspace, every workspace keeps its
  Default, and no policy ever requires a profile with no requirements, which no device could satisfy.
\<close>

section \<open>The invariant\<close>

definition wf_resources :: "zdb \<Rightarrow> bool" where
  "wf_resources db \<longleftrightarrow>
     (\<forall>r\<in>set (db_resources db). \<exists>p\<in>set (db_policies db). rpo_ID p = rs_policy_id r \<and> rpo_WorkspaceID p = rs_tenant_id r)"

definition wf_links :: "zdb \<Rightarrow> bool" where
  "wf_links db \<longleftrightarrow> (\<forall>l\<in>set (db_policy_profiles db).
     (\<exists>p\<in>set (db_policies db). rpo_ID p = rpp_policy_id l \<and> rpo_WorkspaceID p = rpp_workspace_id l) \<and>
     (\<exists>q\<in>set (db_profiles db). pf_ID q = rpp_profile_id l \<and> pf_WorkspaceID q = rpp_workspace_id l))"

definition wf_required :: "zdb \<Rightarrow> bool" where
  "wf_required db \<longleftrightarrow> (\<forall>l\<in>set (db_policy_profiles db). \<exists>r\<in>set (db_requirements db). rq_ProfileID r = rpp_profile_id l)"

definition wf_default :: "zdb \<Rightarrow> bool" where
  "wf_default db \<longleftrightarrow> (\<forall>x\<in>set (db_workspaces db). \<exists>d\<in>set (db_policies db). rpo_WorkspaceID d = ws_id x \<and> rpo_IsDefault d)"

definition wf_keys :: "zdb \<Rightarrow> bool" where
  "wf_keys db \<longleftrightarrow> distinct (map rpo_ID (db_policies db)) \<and> distinct (map pf_ID (db_profiles db)) \<and>
     (\<forall>d\<in>set (db_policies db). \<forall>d'\<in>set (db_policies db).
        rpo_IsDefault d \<and> rpo_IsDefault d' \<and> rpo_WorkspaceID d = rpo_WorkspaceID d' \<longrightarrow> rpo_ID d = rpo_ID d') \<and>
     (\<forall>d\<in>set (db_policies db). \<exists>x\<in>set (db_workspaces db). ws_id x = rpo_WorkspaceID d)"

definition policy_wf :: "zdb \<Rightarrow> bool" where
  "policy_wf db \<longleftrightarrow> wf_resources db \<and> wf_links db \<and> wf_required db \<and> wf_default db \<and> wf_keys db"

lemmas wf_defs = wf_resources_def wf_links_def wf_required_def wf_default_def wf_keys_def

lemma policy_wfI:
  "wf_resources db \<Longrightarrow> wf_links db \<Longrightarrow> wf_required db \<Longrightarrow> wf_default db \<Longrightarrow> wf_keys db \<Longrightarrow> policy_wf db"
  by (simp add: policy_wf_def)

lemma policy_wfD:
  assumes "policy_wf db"
  shows "wf_resources db" "wf_links db" "wf_required db" "wf_default db" "wf_keys db"
  using assms by (simp_all add: policy_wf_def)

lemma wf_keysI:
  assumes "distinct (map rpo_ID (db_policies db))" and "distinct (map pf_ID (db_profiles db))"
    and "\<And>d d'. d \<in> set (db_policies db) \<Longrightarrow> d' \<in> set (db_policies db) \<Longrightarrow> rpo_IsDefault d \<Longrightarrow> rpo_IsDefault d' \<Longrightarrow>
           rpo_WorkspaceID d = rpo_WorkspaceID d' \<Longrightarrow> rpo_ID d = rpo_ID d'"
    and "\<And>d. d \<in> set (db_policies db) \<Longrightarrow> \<exists>x\<in>set (db_workspaces db). ws_id x = rpo_WorkspaceID d"
  shows "wf_keys db"
  unfolding wf_keys_def using assms by blast

lemma wf_keysD:
  assumes "wf_keys db"
  shows "distinct (map rpo_ID (db_policies db))" and "distinct (map pf_ID (db_profiles db))"
    and "\<And>d d'. d \<in> set (db_policies db) \<Longrightarrow> d' \<in> set (db_policies db) \<Longrightarrow> rpo_IsDefault d \<Longrightarrow> rpo_IsDefault d' \<Longrightarrow>
           rpo_WorkspaceID d = rpo_WorkspaceID d' \<Longrightarrow> rpo_ID d = rpo_ID d'"
    and "\<And>d. d \<in> set (db_policies db) \<Longrightarrow> \<exists>x\<in>set (db_workspaces db). ws_id x = rpo_WorkspaceID d"
  using assms unfolding wf_keys_def by blast+

lemma wf_keys_same:
  "wf_keys db \<Longrightarrow> db_policies db' = db_policies db \<Longrightarrow> db_profiles db' = db_profiles db \<Longrightarrow> db_workspaces db' = db_workspaces db \<Longrightarrow>
     wf_keys db'"
  unfolding wf_keys_def by (elim ssubst)

lemma wf_keys_profiles:
  assumes "wf_keys db" and "db_policies db' = db_policies db" and "db_workspaces db' = db_workspaces db"
    and "distinct (map pf_ID (db_profiles db'))"
  shows "wf_keys db'"
  using assms(1,4) unfolding wf_keys_def assms(2,3) by blast

text \<open>The invariant reads six tables.\<close>

definition same_tables :: "zdb \<Rightarrow> zdb \<Rightarrow> bool" where
  "same_tables db db' \<longleftrightarrow> db_policies db' = db_policies db \<and> db_profiles db' = db_profiles db \<and>
     db_policy_profiles db' = db_policy_profiles db \<and> db_requirements db' = db_requirements db \<and>
     db_workspaces db' = db_workspaces db \<and> set (db_resources db') \<subseteq> set (db_resources db)"

lemma same_tables_wf:
  assumes "same_tables db db'" and "policy_wf db"
  shows "policy_wf db'"
proof (rule policy_wfI)
  have t: "db_policies db' = db_policies db" "db_profiles db' = db_profiles db" "db_policy_profiles db' = db_policy_profiles db"
    "db_requirements db' = db_requirements db" "db_workspaces db' = db_workspaces db"
    and r: "set (db_resources db') \<subseteq> set (db_resources db)"
    using assms(1) by (simp_all add: same_tables_def)
  show "wf_resources db'" using policy_wfD(1) [OF assms(2)] r unfolding wf_resources_def t by blast
  show "wf_links db'" using policy_wfD(2) [OF assms(2)] unfolding wf_links_def t .
  show "wf_required db'" using policy_wfD(3) [OF assms(2)] unfolding wf_required_def t .
  show "wf_default db'" using policy_wfD(4) [OF assms(2)] unfolding wf_default_def t .
  show "wf_keys db'" using policy_wfD(5) [OF assms(2)] unfolding wf_keys_def t .
qed

lemma find_policy_Some:
  "find_policy db w i = Some p \<Longrightarrow> p \<in> set (db_policies db) \<and> rpo_WorkspaceID p = w \<and> rpo_ID p = i"
  unfolding find_policy_def by (drule select_one_Some) auto

lemma find_profile_Some:
  "find_profile db w i = Some p \<Longrightarrow> p \<in> set (db_profiles db) \<and> pf_WorkspaceID p = w \<and> pf_ID p = i"
  unfolding find_profile_def by (drule select_one_Some) auto

lemma default_policy_Some:
  "default_policy db w = Some d \<Longrightarrow> d \<in> set (db_policies db) \<and> rpo_WorkspaceID d = w \<and> rpo_IsDefault d"
  unfolding default_policy_def by (drule select_one_Some) auto

lemma default_policy_exists:
  assumes "wf_default db" and "x \<in> set (db_workspaces db)"
  shows "\<exists>d. default_policy db (ws_id x) = Some d"
proof (cases "default_policy db (ws_id x)")
  case None
  then show ?thesis using assms by (auto simp: wf_default_def default_policy_def select_one_None)
qed simp

section \<open>Policies\<close>

lemma CreateResourcePolicy_wf:
  assumes "policy_wf db" and "newid \<notin> set (map rpo_ID (db_policies db))"
  shows "policy_wf (snd (CreateResourcePolicy newid fails w name description db))"
proof -
  let ?p = "\<lambda>n. \<lparr>rpo_ID = newid, rpo_WorkspaceID = w, rpo_Name = n, rpo_Description = clean_description description, rpo_IsDefault = False\<rparr>"
  have "policy_wf (db\<lparr>db_policies := db_policies db @ [?p n]\<rparr>)" if "\<exists>x\<in>set (db_workspaces db). ws_id x = w" for n
  proof (rule policy_wfI)
    let ?db = "db\<lparr>db_policies := db_policies db @ [?p n]\<rparr>"
    show "wf_resources ?db" using policy_wfD(1) [OF assms(1)] unfolding wf_resources_def by auto
    show "wf_links ?db" using policy_wfD(2) [OF assms(1)] unfolding wf_links_def by auto
    show "wf_required ?db" using policy_wfD(3) [OF assms(1)] unfolding wf_required_def by simp
    show "wf_default ?db" using policy_wfD(4) [OF assms(1)] unfolding wf_default_def by auto
    note k = wf_keysD [OF policy_wfD(5) [OF assms(1)]]
    show "wf_keys ?db"
    proof (rule wf_keysI)
      show "rpo_ID d = rpo_ID d'" if "d \<in> set (db_policies ?db)" "d' \<in> set (db_policies ?db)" "rpo_IsDefault d" "rpo_IsDefault d'"
        "rpo_WorkspaceID d = rpo_WorkspaceID d'" for d d'
        using that by (intro k(3)) auto
      show "\<exists>x\<in>set (db_workspaces ?db). ws_id x = rpo_WorkspaceID d" if "d \<in> set (db_policies ?db)" for d
        using that k(4) [of d] \<open>\<exists>x\<in>set (db_workspaces db). ws_id x = w\<close> by auto
    qed (use k(1,2) assms(2) in simp_all)
  qed
  then show ?thesis using assms(1) by (simp add: CreateResourcePolicy_def Let_def split: sum.split)
qed

text \<open>Names do not matter to the invariant.\<close>

definition policy_view :: "resource_policy \<Rightarrow> uuid \<times> uuid \<times> bool" where
  "policy_view p = (rpo_ID p, rpo_WorkspaceID p, rpo_IsDefault p)"

lemma ex_view: "map v xs = map v ys \<Longrightarrow> (\<exists>x\<in>set xs. Q (v x)) \<longleftrightarrow> (\<exists>y\<in>set ys. Q (v y))"
proof -
  assume "map v xs = map v ys"
  then have "v ` set xs = v ` set ys" by (metis list.set_map)
  then have "(\<exists>z\<in>v ` set xs. Q z) \<longleftrightarrow> (\<exists>z\<in>v ` set ys. Q z)" by simp
  then show ?thesis by simp
qed

lemma policy_view_wf:
  assumes v: "map policy_view ps = map policy_view (db_policies db)" and "policy_wf db"
  shows "policy_wf (db\<lparr>db_policies := ps\<rparr>)"
proof (rule policy_wfI)
  let ?db = "db\<lparr>db_policies := ps\<rparr>"
  have ex: "(\<exists>p\<in>set ps. Q (rpo_ID p) (rpo_WorkspaceID p) (rpo_IsDefault p)) \<longleftrightarrow>
      (\<exists>p\<in>set (db_policies db). Q (rpo_ID p) (rpo_WorkspaceID p) (rpo_IsDefault p))" for Q
    using ex_view [OF v, of "\<lambda>(a, b, c). Q a b c"] by (simp add: policy_view_def)
  have e1: "(\<exists>p\<in>set ps. rpo_ID p = x \<and> rpo_WorkspaceID p = y) \<longleftrightarrow> (\<exists>p\<in>set (db_policies db). rpo_ID p = x \<and> rpo_WorkspaceID p = y)" for x y
    by (rule ex [of "\<lambda>a b c. a = x \<and> b = y"])
  have e2: "(\<exists>p\<in>set ps. rpo_WorkspaceID p = y \<and> rpo_IsDefault p) \<longleftrightarrow> (\<exists>p\<in>set (db_policies db). rpo_WorkspaceID p = y \<and> rpo_IsDefault p)" for y
    by (rule ex [of "\<lambda>a b c. b = y \<and> c"])
  have ids: "map rpo_ID ps = map rpo_ID (db_policies db)"
    using arg_cong [OF v, of "map fst"] by (simp add: policy_view_def o_def)
  have same: "\<exists>q\<in>set (db_policies db). policy_view q = policy_view p" if "p \<in> set ps" for p
    using that v by (metis image_iff list.set_map)
  show "wf_resources ?db" using policy_wfD(1) [OF assms(2)] by (simp add: wf_resources_def e1)
  show "wf_links ?db" using policy_wfD(2) [OF assms(2)] by (simp add: wf_links_def e1)
  show "wf_required ?db" using policy_wfD(3) [OF assms(2)] by (simp add: wf_required_def)
  show "wf_default ?db" using policy_wfD(4) [OF assms(2)] by (simp add: wf_default_def e2)
  have k: "wf_keys db" by (rule policy_wfD(5) [OF assms(2)])
  note kd = wf_keysD [OF k]
  show "wf_keys ?db"
  proof (rule wf_keysI)
    fix d d'
    assume d: "d \<in> set (db_policies ?db)" "d' \<in> set (db_policies ?db)" "rpo_IsDefault d" "rpo_IsDefault d'" "rpo_WorkspaceID d = rpo_WorkspaceID d'"
    then obtain q q' where q: "q \<in> set (db_policies db)" "q' \<in> set (db_policies db)" "policy_view q = policy_view d" "policy_view q' = policy_view d'"
      using same [of d] same [of d'] by auto
    then have "rpo_ID q = rpo_ID q'" using d(3-5) by (intro kd(3)) (simp_all add: policy_view_def)
    then show "rpo_ID d = rpo_ID d'" using q(3,4) by (simp add: policy_view_def)
  next
    fix d
    assume "d \<in> set (db_policies ?db)"
    then obtain q where "q \<in> set (db_policies db)" "policy_view q = policy_view d" using same [of d] by auto
    then show "\<exists>x\<in>set (db_workspaces ?db). ws_id x = rpo_WorkspaceID d" using kd(4) [of q] by (simp add: policy_view_def)
  qed (simp_all add: ids kd(1,2))
qed

lemma UpdateResourcePolicy_wf:
  assumes "policy_wf db"
  shows "policy_wf (snd (UpdateResourcePolicy fails w i name description db))"
proof -
  have "map policy_view (update_where P (\<lambda>p. p\<lparr>rpo_Name := n, rpo_Description := g p\<rparr>) ps) = map policy_view ps" for P n ps g
    by (induction ps) (auto simp: update_where_def policy_view_def)
  then have "policy_wf (db\<lparr>db_policies := update_where P (\<lambda>p. p\<lparr>rpo_Name := n, rpo_Description := g p\<rparr>) (db_policies db)\<rparr>)" for P n g
    using policy_view_wf assms by blast
  then show ?thesis using assms by (simp add: UpdateResourcePolicy_def Let_def split: option.split sum.split)
qed

lemma lock_profiles_ok:
  assumes "lock_profiles fails db w ids = None" and "i \<in> set ids"
  shows "\<exists>q\<in>set (db_profiles db). pf_ID q = i \<and> pf_WorkspaceID q = w" "\<exists>r\<in>set (db_requirements db). rq_ProfileID r = i"
proof -
  have "find_profile db w i \<noteq> None \<and> requirement_count db i \<noteq> 0"
    using assms by (induction ids) (auto split: if_splits)
  then show "\<exists>q\<in>set (db_profiles db). pf_ID q = i \<and> pf_WorkspaceID q = w" "\<exists>r\<in>set (db_requirements db). rq_ProfileID r = i"
    by (auto simp: requirement_count_def count_where_0_iff dest: find_profile_Some)
qed

lemma set_links_wf:
  assumes "policy_wf db" and "find_policy db w i \<noteq> None" and "lock_profiles fails db w ids = None"
  shows "policy_wf (db\<lparr>db_policy_profiles := filter (\<lambda>l. rpp_policy_id l \<noteq> i) (db_policy_profiles db) @
     map (\<lambda>p. \<lparr>rpp_policy_id = i, rpp_profile_id = p, rpp_workspace_id = w\<rparr>) ids\<rparr>)"
proof (rule policy_wfI)
  let ?db = "db\<lparr>db_policy_profiles := filter (\<lambda>l. rpp_policy_id l \<noteq> i) (db_policy_profiles db) @
     map (\<lambda>p. \<lparr>rpp_policy_id = i, rpp_profile_id = p, rpp_workspace_id = w\<rparr>) ids\<rparr>"
  obtain p where p: "p \<in> set (db_policies db)" "rpo_WorkspaceID p = w" "rpo_ID p = i"
    using assms(2) find_policy_Some by blast
  show "wf_resources ?db" using policy_wfD(1) [OF assms(1)] by (simp add: wf_resources_def)
  show "wf_links ?db" unfolding wf_links_def
  proof
    fix l
    assume l: "l \<in> set (db_policy_profiles ?db)"
    show "(\<exists>p\<in>set (db_policies ?db). rpo_ID p = rpp_policy_id l \<and> rpo_WorkspaceID p = rpp_workspace_id l) \<and>
      (\<exists>q\<in>set (db_profiles ?db). pf_ID q = rpp_profile_id l \<and> pf_WorkspaceID q = rpp_workspace_id l)"
    proof (cases "l \<in> set (db_policy_profiles db)")
      case True
      then show ?thesis using policy_wfD(2) [OF assms(1)] by (simp add: wf_links_def)
    next
      case False
      with l obtain j where "j \<in> set ids" "l = \<lparr>rpp_policy_id = i, rpp_profile_id = j, rpp_workspace_id = w\<rparr>" by auto
      then show ?thesis using p lock_profiles_ok(1) [OF assms(3)] by auto
    qed
  qed
  show "wf_required ?db"
    using policy_wfD(3) [OF assms(1)] lock_profiles_ok(2) [OF assms(3)] by (auto simp: wf_required_def)
  show "wf_default ?db" using policy_wfD(4) [OF assms(1)] by (simp add: wf_default_def)
  show "wf_keys ?db" by (rule wf_keys_same [OF policy_wfD(5) [OF assms(1)]]) simp_all
qed

lemma SetResourcePolicyProfiles_wf:
  assumes "policy_wf db"
  shows "policy_wf (snd (SetResourcePolicyProfiles fails w i ids db))"
  unfolding SetResourcePolicyProfiles_def Let_def using set_links_wf [OF assms] assms by (simp split: option.split)

lemma move_resource_wf:
  assumes "policy_wf db" and "p \<in> set (db_policies db)" and "\<And>r. P r \<Longrightarrow> rs_tenant_id r = rpo_WorkspaceID p"
  shows "policy_wf (db\<lparr>db_resources := update_where P (\<lambda>r. r\<lparr>rs_policy_id := rpo_ID p\<rparr>) (db_resources db)\<rparr>)"
proof (rule policy_wfI)
  let ?db = "db\<lparr>db_resources := update_where P (\<lambda>r. r\<lparr>rs_policy_id := rpo_ID p\<rparr>) (db_resources db)\<rparr>"
  show "wf_resources ?db"
    using policy_wfD(1) [OF assms(1)] assms(2,3) by (auto simp: wf_resources_def ball_update_where)
  show "wf_links ?db" using policy_wfD(2) [OF assms(1)] by (simp add: wf_links_def)
  show "wf_required ?db" using policy_wfD(3) [OF assms(1)] by (simp add: wf_required_def)
  show "wf_default ?db" using policy_wfD(4) [OF assms(1)] by (simp add: wf_default_def)
  show "wf_keys ?db" by (rule wf_keys_same [OF policy_wfD(5) [OF assms(1)]]) simp_all
qed

lemma drop_policy_wf:
  assumes "policy_wf db" and "p \<in> set (db_policies db)" and "\<not> rpo_IsDefault p" and "rpo_ID p = i"
    and "\<forall>r\<in>set (db_resources db). rs_policy_id r \<noteq> i"
  shows "policy_wf (db\<lparr>db_policies := filter (\<lambda>p. rpo_ID p \<noteq> i) (db_policies db),
     db_policy_profiles := filter (\<lambda>l. rpp_policy_id l \<noteq> i) (db_policy_profiles db)\<rparr>)"
proof (rule policy_wfI)
  let ?db = "db\<lparr>db_policies := filter (\<lambda>p. rpo_ID p \<noteq> i) (db_policies db),
     db_policy_profiles := filter (\<lambda>l. rpp_policy_id l \<noteq> i) (db_policy_profiles db)\<rparr>"
  show "wf_resources ?db" using policy_wfD(1) [OF assms(1)] assms(5) by (fastforce simp: wf_resources_def)
  show "wf_links ?db" using policy_wfD(2) [OF assms(1)] by (fastforce simp: wf_links_def)
  show "wf_required ?db" using policy_wfD(3) [OF assms(1)] by (simp add: wf_required_def)
  have "rpo_ID d \<noteq> i" if "d \<in> set (db_policies db)" "rpo_IsDefault d" for d
    using distinct_key_eq [OF wf_keysD(1) [OF policy_wfD(5) [OF assms(1)]] that(1) assms(2)] that(2) assms(3,4) by metis
  then show "wf_default ?db" using policy_wfD(4) [OF assms(1)] by (fastforce simp: wf_default_def)
  note k = wf_keysD [OF policy_wfD(5) [OF assms(1)]]
  show "wf_keys ?db"
  proof (rule wf_keysI)
    show "rpo_ID d = rpo_ID d'" if "d \<in> set (db_policies ?db)" "d' \<in> set (db_policies ?db)" "rpo_IsDefault d" "rpo_IsDefault d'"
      "rpo_WorkspaceID d = rpo_WorkspaceID d'" for d d'
      using that by (intro k(3)) auto
    show "\<exists>x\<in>set (db_workspaces ?db). ws_id x = rpo_WorkspaceID d" if "d \<in> set (db_policies ?db)" for d
      using that k(4) [of d] by auto
  qed (use k(1,2) in \<open>simp_all add: distinct_map_filter\<close>)
qed

lemma DeleteResourcePolicy_effect:
  "snd (DeleteResourcePolicy fails w i db) = db \<or>
   (\<exists>p. find_policy db w i = Some p \<and> \<not> rpo_IsDefault p \<and> (\<forall>r\<in>set (snd (move_to_default w i db)). rs_policy_id r \<noteq> i) \<and>
      snd (DeleteResourcePolicy fails w i db) = (db\<lparr>db_resources := snd (move_to_default w i db)\<rparr>)\<lparr>
        db_policies := filter (\<lambda>p. rpo_ID p \<noteq> i) (db_policies db),
        db_policy_profiles := filter (\<lambda>l. rpp_policy_id l \<noteq> i) (db_policy_profiles db)\<rparr>)"
proof (cases "find_policy db w i")
  case (Some p)
  obtain m rs where "move_to_default w i db = (m, rs)" by fastforce
  then show ?thesis unfolding DeleteResourcePolicy_def Some by simp
qed (simp add: DeleteResourcePolicy_def)

lemma move_to_default_wf:
  assumes "policy_wf db"
  shows "policy_wf (db\<lparr>db_resources := snd (move_to_default w i db)\<rparr>)"
proof (cases "default_policy db w")
  case (Some d)
  then show ?thesis
    using move_resource_wf [OF assms, of d "\<lambda>r. rs_tenant_id r = w \<and> rs_policy_id r = i"] default_policy_Some [OF Some]
    by (simp add: move_to_default_def)
qed (simp add: move_to_default_def assms)

lemma DeleteResourcePolicy_wf:
  assumes "policy_wf db"
  shows "policy_wf (snd (DeleteResourcePolicy fails w i db))"
  using DeleteResourcePolicy_effect [of fails w i db]
proof (elim disjE exE conjE)
  fix p
  assume p: "find_policy db w i = Some p" "\<not> rpo_IsDefault p" and r: "\<forall>r\<in>set (snd (move_to_default w i db)). rs_policy_id r \<noteq> i"
    and e: "snd (DeleteResourcePolicy fails w i db) = (db\<lparr>db_resources := snd (move_to_default w i db)\<rparr>)\<lparr>
        db_policies := filter (\<lambda>p. rpo_ID p \<noteq> i) (db_policies db),
        db_policy_profiles := filter (\<lambda>l. rpp_policy_id l \<noteq> i) (db_policy_profiles db)\<rparr>"
  show ?thesis
    unfolding e using drop_policy_wf [OF move_to_default_wf [OF assms, of w i], of p i] p r find_policy_Some [OF p(1)] by simp
qed (simp add: assms)

lemma SetResourcePolicy_wf:
  assumes "policy_wf db"
  shows "policy_wf (snd (SetResourcePolicy fails w rid i db))"
proof (cases "find_policy db w i")
  case (Some p)
  have "policy_wf (db\<lparr>db_resources := update_where (\<lambda>r. rs_tenant_id r = w \<and> rs_id r = rid) (\<lambda>r. r\<lparr>rs_policy_id := i\<rparr>) (db_resources db)\<rparr>)"
    using move_resource_wf [OF assms, of p "\<lambda>r. rs_tenant_id r = w \<and> rs_id r = rid"] find_policy_Some [OF Some] by auto
  then show ?thesis using assms unfolding SetResourcePolicy_def by (simp split: option.split)
qed (use assms in \<open>simp add: SetResourcePolicy_def split: option.split\<close>)


section \<open>Profiles\<close>

definition profile_view :: "profile \<Rightarrow> uuid \<times> uuid" where "profile_view p = (pf_ID p, pf_WorkspaceID p)"

lemma profile_tables_wf:
  assumes "policy_wf db" and v: "map profile_view ps = map profile_view (db_profiles db)"
    and "\<forall>l\<in>set (db_policy_profiles db). \<exists>r\<in>set rs. rq_ProfileID r = rpp_profile_id l"
  shows "policy_wf (db\<lparr>db_requirements := rs, db_profiles := ps\<rparr>)"
proof (rule policy_wfI)
  let ?db = "db\<lparr>db_requirements := rs, db_profiles := ps\<rparr>"
  have ex: "(\<exists>q\<in>set ps. pf_ID q = x \<and> pf_WorkspaceID q = y) \<longleftrightarrow> (\<exists>q\<in>set (db_profiles db). pf_ID q = x \<and> pf_WorkspaceID q = y)" for x y
    using ex_view [OF v, of "\<lambda>(a, b). a = x \<and> b = y"] by (simp add: profile_view_def)
  show "wf_resources ?db" using policy_wfD(1) [OF assms(1)] by (simp add: wf_resources_def)
  show "wf_links ?db" using policy_wfD(2) [OF assms(1)] by (simp add: wf_links_def ex)
  show "wf_required ?db" using assms(3) by (simp add: wf_required_def)
  show "wf_default ?db" using policy_wfD(4) [OF assms(1)] by (simp add: wf_default_def)
  have "map pf_ID ps = map pf_ID (db_profiles db)" using arg_cong [OF v, of "map fst"] by (simp add: profile_view_def o_def)
  then show "wf_keys ?db"
    using wf_keysD(2) [OF policy_wfD(5) [OF assms(1)]] by (intro wf_keys_profiles [OF policy_wfD(5) [OF assms(1)]]) simp_all
qed

lemma view_update [simp]:
  "(\<And>p. profile_view (f p) = profile_view p) \<Longrightarrow> map profile_view (update_where P f ps) = map profile_view ps"
  by (induction ps) (auto simp: update_where_def)

lemma requirements_kept: "policy_wf db \<Longrightarrow> \<forall>l\<in>set (db_policy_profiles db). \<exists>r\<in>set (db_requirements db). rq_ProfileID r = rpp_profile_id l"
  using policy_wfD(3) by (simp add: wf_required_def)

lemma bump_wf:
  assumes "policy_wf db" and "\<forall>l\<in>set (db_policy_profiles db). \<exists>r\<in>set rs. rq_ProfileID r = rpp_profile_id l"
  shows "policy_wf (bump_revision w i (db\<lparr>db_requirements := rs\<rparr>))"
  using profile_tables_wf [OF assms(1) _ assms(2), of "update_where (\<lambda>q. pf_WorkspaceID q = w \<and> pf_ID q = i)
      (\<lambda>q. q\<lparr>pf_Revision := pf_Revision q + 1\<rparr>) (db_profiles db)"]
  by (simp add: bump_revision_def profile_view_def)

lemma CreateProfile_wf:
  assumes "policy_wf db" and "newid \<notin> set (map pf_ID (db_profiles db))"
  shows "policy_wf (snd (CreateProfile newid fails w name manual db))"
proof -
  have "policy_wf (db\<lparr>db_profiles := db_profiles db @ [p]\<rparr>)" if p: "pf_ID p = newid" for p
  proof (rule policy_wfI)
    let ?db = "db\<lparr>db_profiles := db_profiles db @ [p]\<rparr>"
    show "wf_resources ?db" using policy_wfD(1) [OF assms(1)] by (simp add: wf_resources_def)
    show "wf_links ?db" using policy_wfD(2) [OF assms(1)] by (auto simp: wf_links_def)
    show "wf_required ?db" using policy_wfD(3) [OF assms(1)] by (simp add: wf_required_def)
    show "wf_default ?db" using policy_wfD(4) [OF assms(1)] by (simp add: wf_default_def)
    show "wf_keys ?db"
      using wf_keysD(2) [OF policy_wfD(5) [OF assms(1)]] assms(2) p
      by (intro wf_keys_profiles [OF policy_wfD(5) [OF assms(1)]]) simp_all
  qed
  then show ?thesis using assms(1) by (simp add: CreateProfile_def Let_def)
qed

lemma UpdateProfileManualTrust_wf:
  assumes "policy_wf db"
  shows "policy_wf (snd (UpdateProfileManualTrust fails w i enabled db))"
proof -
  have "policy_wf (db\<lparr>db_requirements := db_requirements db,
      db_profiles := update_where P (\<lambda>q. q\<lparr>pf_ManualTrustEnabled := True\<rparr>) (db_profiles db)\<rparr>)" for P
    by (rule profile_tables_wf [OF assms _ requirements_kept [OF assms]]) (simp add: profile_view_def)
  then show ?thesis using assms by (simp add: UpdateProfileManualTrust_def split: option.split)
qed

lemma AddRequirement_wf:
  assumes "policy_wf db"
  shows "policy_wf (snd (AddRequirement fails w i req db))"
proof -
  have "policy_wf (bump_revision w i (db\<lparr>db_requirements := db_requirements db @ [r]\<rparr>))" for r
    using requirements_kept [OF assms] by (intro bump_wf [OF assms]) auto
  then show ?thesis using assms by (simp add: AddRequirement_def split: option.split)
qed

lemma RemoveRequirement_wf:
  assumes "policy_wf db"
  shows "policy_wf (snd (RemoveRequirement fails w i check db))"
proof -
  let ?rs = "filter (\<lambda>r. \<not> (rq_ProfileID r = i \<and> rq_CheckID r = check)) (db_requirements db)"
  let ?db = "db\<lparr>db_requirements := ?rs\<rparr>"
  have "policy_wf (bump_revision w i ?db)" if g: "\<not> (requirement_count ?db i = 0 \<and> profileInUse ?db i)"
  proof (rule bump_wf [OF assms], rule ballI)
    fix l
    assume l: "l \<in> set (db_policy_profiles db)"
    show "\<exists>r\<in>set ?rs. rq_ProfileID r = rpp_profile_id l"
    proof (cases "rpp_profile_id l = i")
      case True
      then have "requirement_count ?db i \<noteq> 0" using g l by (auto simp: profileInUse_def)
      then show ?thesis using True by (auto simp: requirement_count_def count_where_0_iff)
    next
      case False
      then show ?thesis using requirements_kept [OF assms] l by fastforce
    qed
  qed
  then show ?thesis using assms unfolding RemoveRequirement_def Let_def by (simp split: option.split)
qed

lemma ex_update_where:
  assumes "\<exists>r\<in>set rs. g r = x" and "\<And>r. g (f r) = g r"
  shows "\<exists>r\<in>set (update_where P f rs). g r = x"
proof -
  from assms(1) obtain r where "r \<in> set rs" "g r = x" by blast
  then show ?thesis using assms(2) [of r] by (cases "P r") (force simp: update_where_def)+
qed

lemma UpdateCountryRule_wf:
  assumes "policy_wf db"
  shows "policy_wf (snd (UpdateCountryRule fails w i rule db))"
proof -
  have "policy_wf (bump_revision w i (db\<lparr>db_requirements := update_where P (\<lambda>r. r\<lparr>rq_Countries := Some rule\<rparr>) (db_requirements db)\<rparr>))" for P
    using requirements_kept [OF assms] 
    by (intro bump_wf [OF assms] ballI ex_update_where) simp_all
  then show ?thesis using assms by (simp add: UpdateCountryRule_def split: option.split)
qed

lemma DeleteProfile_wf:
  assumes "policy_wf db"
  shows "policy_wf (snd (DeleteProfile fails w i confirm db))"
proof -
  let ?db = "db\<lparr>db_profiles := filter (\<lambda>p. \<not> (pf_WorkspaceID p = w \<and> pf_ID p = i)) (db_profiles db),
      db_requirements := filter (\<lambda>r. rq_ProfileID r \<noteq> i) (db_requirements db),
      db_evaluations := filter (\<lambda>e. er_profile_id e \<noteq> i) (db_evaluations db),
      db_policy_profiles := filter (\<lambda>l. rpp_profile_id l \<noteq> i) (db_policy_profiles db)\<rparr>"
  have "policy_wf ?db"
  proof (rule policy_wfI)
    show "wf_resources ?db" using policy_wfD(1) [OF assms] by (simp add: wf_resources_def)
    show "wf_links ?db" using policy_wfD(2) [OF assms] by (fastforce simp: wf_links_def)
    show "wf_required ?db" using policy_wfD(3) [OF assms] by (fastforce simp: wf_required_def)
    show "wf_default ?db" using policy_wfD(4) [OF assms] by (simp add: wf_default_def)
    show "wf_keys ?db"
      using wf_keysD(2) [OF policy_wfD(5) [OF assms]]
      by (intro wf_keys_profiles [OF policy_wfD(5) [OF assms]]) (simp_all add: distinct_map_filter)
  qed
  then show ?thesis using assms unfolding DeleteProfile_def Let_def by simp
qed


section \<open>Workspaces and resources\<close>

lemma insert_workspace_wf:
  assumes "policy_wf db" and new: "newid \<notin> set (map rpo_ID (db_policies db))" and w: "ws_id x \<notin> set (map ws_id (db_workspaces db))"
  shows "policy_wf (insert_workspace newid x db)"
proof (rule policy_wfI)
  note k = wf_keysD [OF policy_wfD(5) [OF assms(1)]]
  show "wf_resources (insert_workspace newid x db)" using policy_wfD(1) [OF assms(1)] by (auto simp: wf_resources_def insert_workspace_def)
  show "wf_links (insert_workspace newid x db)" using policy_wfD(2) [OF assms(1)] by (auto simp: wf_links_def insert_workspace_def)
  show "wf_required (insert_workspace newid x db)" using policy_wfD(3) [OF assms(1)] by (simp add: wf_required_def insert_workspace_def)
  show "wf_default (insert_workspace newid x db)" using policy_wfD(4) [OF assms(1)] by (auto simp: wf_default_def insert_workspace_def)
  have other: "rpo_WorkspaceID d \<noteq> ws_id x" if "d \<in> set (db_policies db)" for d
    using k(4) [OF that] w by (auto simp: image_iff)
  show "wf_keys (insert_workspace newid x db)"
  proof (rule wf_keysI)
    show "distinct (map rpo_ID (db_policies (insert_workspace newid x db)))" using k(1) new by (simp add: insert_workspace_def)
    show "distinct (map pf_ID (db_profiles (insert_workspace newid x db)))" using k(2) by (simp add: insert_workspace_def)
    fix d
    assume d: "d \<in> set (db_policies (insert_workspace newid x db))"
    show "\<exists>y\<in>set (db_workspaces (insert_workspace newid x db)). ws_id y = rpo_WorkspaceID d"
      using d k(4) [of d] by (auto simp: insert_workspace_def)
    fix d'
    assume d': "d' \<in> set (db_policies (insert_workspace newid x db))" and def: "rpo_IsDefault d" "rpo_IsDefault d'"
      and eq: "rpo_WorkspaceID d = rpo_WorkspaceID d'"
    show "rpo_ID d = rpo_ID d'"
    proof (cases "rpo_WorkspaceID d = ws_id x")
      case True
      then have "d \<notin> set (db_policies db)" "d' \<notin> set (db_policies db)" using other eq by auto
      then show ?thesis using d d' by (simp add: insert_workspace_def)
    next
      case False
      then have "d \<in> set (db_policies db)" "d' \<in> set (db_policies db)" using d d' eq by (auto simp: insert_workspace_def)
      then show ?thesis by (rule k(3) [OF _ _ def eq])
    qed
  qed
qed

lemma insert_resource_wf:
  assumes "policy_wf db" and "insert_resource r db = Some db'"
  shows "policy_wf db'"
proof -
  obtain d where d: "default_policy db (rs_tenant_id r) = Some d"
    and db': "db' = db\<lparr>db_resources := db_resources db @ [r\<lparr>rs_policy_id := rpo_ID d\<rparr>]\<rparr>"
    using assms(2) by (auto simp: insert_resource_def split: option.splits)
  show ?thesis unfolding db'
  proof (rule policy_wfI)
    let ?db = "db\<lparr>db_resources := db_resources db @ [r\<lparr>rs_policy_id := rpo_ID d\<rparr>]\<rparr>"
    show "wf_resources ?db"
      using policy_wfD(1) [OF assms(1)] default_policy_Some [OF d] by (auto simp: wf_resources_def)
    show "wf_links ?db" using policy_wfD(2) [OF assms(1)] by (simp add: wf_links_def)
    show "wf_required ?db" using policy_wfD(3) [OF assms(1)] by (simp add: wf_required_def)
    show "wf_default ?db" using policy_wfD(4) [OF assms(1)] by (simp add: wf_default_def)
    show "wf_keys ?db" by (rule wf_keys_same [OF policy_wfD(5) [OF assms(1)]]) simp_all
  qed
qed

section \<open>Administration\<close>

text \<open>
  Every operation that writes the six tables, under any failure of its statements, with the fresh
  identifiers \<open>gen_random_uuid()\<close> yields; and anything that leaves those tables alone or deletes resources.
\<close>

inductive policy_step :: "zdb \<Rightarrow> zdb \<Rightarrow> bool" where
  ps_create: "newid \<notin> set (map rpo_ID (db_policies db)) \<Longrightarrow> policy_step db (snd (CreateResourcePolicy newid fails w name description db))"
| ps_update: "policy_step db (snd (UpdateResourcePolicy fails w i n description db))"
| ps_profiles: "policy_step db (snd (SetResourcePolicyProfiles fails w i ids db))"
| ps_delete: "policy_step db (snd (DeleteResourcePolicy fails w i db))"
| ps_set: "policy_step db (snd (SetResourcePolicy fails w rid i db))"
| ps_profile: "newid \<notin> set (map pf_ID (db_profiles db)) \<Longrightarrow> policy_step db (snd (CreateProfile newid fail w name manual db))"
| ps_trust: "policy_step db (snd (UpdateProfileManualTrust fail w i enabled db))"
| ps_require: "policy_step db (snd (AddRequirement fails w i req db))"
| ps_unrequire: "policy_step db (snd (RemoveRequirement fails w i check db))"
| ps_country: "policy_step db (snd (UpdateCountryRule fails w i rule db))"
| ps_drop: "policy_step db (snd (DeleteProfile fails w i confirm db))"
| ps_workspace: "newid \<notin> set (map rpo_ID (db_policies db)) \<Longrightarrow> ws_id x \<notin> set (map ws_id (db_workspaces db)) \<Longrightarrow>
     policy_step db (insert_workspace newid x db)"
| ps_resource: "insert_resource r db = Some db' \<Longrightarrow> policy_step db db'"
| ps_other: "same_tables db db' \<Longrightarrow> policy_step db db'"

lemma reports_leave_policies:
  "policy_step db (snd (InsertReport newid fails now w d rep db))"
  "policy_step db (snd (DeleteExpiredReports fail cutoff limit db))"
  "policy_step db (snd (RecordNetworkObservation fail w d country now db))"
  by (rule ps_other, simp add: same_tables_def InsertReport_def DeleteExpiredReports_def RecordNetworkObservation_def Let_def split: option.split)+

definition no_policies :: "zdb \<Rightarrow> bool" where
  "no_policies db \<longleftrightarrow> db_policies db = [] \<and> db_profiles db = [] \<and> db_policy_profiles db = [] \<and> db_workspaces db = [] \<and> db_resources db = []"

lemma policy_step_wf: "policy_step db db' \<Longrightarrow> policy_wf db \<Longrightarrow> policy_wf db'"
  by (induction rule: policy_step.induct)
    (rule CreateResourcePolicy_wf UpdateResourcePolicy_wf SetResourcePolicyProfiles_wf DeleteResourcePolicy_wf SetResourcePolicy_wf
       CreateProfile_wf UpdateProfileManualTrust_wf AddRequirement_wf RemoveRequirement_wf UpdateCountryRule_wf DeleteProfile_wf
       insert_workspace_wf insert_resource_wf same_tables_wf; assumption)+

interpretation pol: inductive_invariant no_policies policy_step policy_wf
proof
  fix db
  assume "no_policies db"
  then show "policy_wf db" by (simp add: policy_wf_def wf_defs no_policies_def)
qed (rule policy_step_wf)

lemma select_one_exists: "\<exists>x\<in>set xs. P x \<Longrightarrow> \<exists>x. select_one P xs = Some x"
  by (cases "select_one P xs") (auto simp: select_one_None)



definition ex_pol0 :: zdb where
  "ex_pol0 = \<lparr>db_access_rules = [], db_resources = [], db_groups = [], db_group_members = [], db_users = [],
     db_workspace_members = [], db_client_devices = [], db_remote_networks = [], db_shields = [], db_shield_revocations = [],
     db_connectors = [], db_placements = [], db_relays = [], db_connector_certificates = [], db_workspaces = [], db_profiles = [],
     db_requirements = [], db_reports = [], db_observations = [], db_evaluations = [], db_network_observations = [],
     db_policies = [], db_policy_profiles = []\<rparr>"

definition ex_pol1 :: zdb where "ex_pol1 = insert_workspace 2 \<lparr>ws_id = 4, ws_trust_domain = None\<rparr> ex_pol0"

definition ex_pol2 :: zdb where "ex_pol2 = snd (CreateProfile 3 False 4 ''laptop'' True ex_pol1)"

definition ex_pol3 :: zdb where
  "ex_pol3 = snd (AddRequirement (\<lambda>_. False) 4 3
     \<lparr>rq_ProfileID = 3, rq_CheckID = ''firewall'', rq_AllowUnsupported = False, rq_Countries = None\<rparr> ex_pol2)"

definition ex_pol4 :: zdb where "ex_pol4 = snd (CreateResourcePolicy 5 (\<lambda>_. False) 4 ''strict'' (Some '' '') ex_pol3)"

definition ex_pol5 :: zdb where "ex_pol5 = snd (SetResourcePolicyProfiles (\<lambda>_. False) 4 5 [3, 3] ex_pol4)"

definition ex_pol_row :: resource_row where
  "ex_pol_row = \<lparr>rs_id = 11, rs_tenant_id = 4, rs_name = ''db'', rs_host = ''db'', rs_port_from = 80, rs_protocol = ''tcp'',
     rs_status = ''protected'', rs_shield_id = None, rs_remote_network_id = 6, rs_policy_id = 0\<rparr>"

definition ex_pol6 :: zdb where "ex_pol6 = snd (SetResourcePolicy (\<lambda>_. False) 4 11 5 (the (insert_resource ex_pol_row ex_pol5)))"

lemma ex_pol_facts:
  "insert_resource ex_pol_row ex_pol5 \<noteq> None"
  "map rpo_ID (db_policies ex_pol3) = [2]"
  "map (\<lambda>r. (rs_id r, rs_policy_id r)) (db_resources ex_pol6) = [(11, 5)]"
  "map (\<lambda>l. (rpp_policy_id l, rpp_profile_id l)) (db_policy_profiles ex_pol6) = [(5, 3)]"
  by code_simp+

lemma ex_pol_reach: "reach no_policies policy_step ex_pol6"
proof -
  have "reach no_policies policy_step ex_pol0" by (rule reach_init) (simp add: no_policies_def ex_pol0_def)
  then have "reach no_policies policy_step ex_pol1"
    unfolding ex_pol1_def by (rule reach_step) (rule ps_workspace; simp add: ex_pol0_def)
  then have "reach no_policies policy_step ex_pol2"
    unfolding ex_pol2_def by (rule reach_step) (rule ps_profile, simp add: ex_pol1_def ex_pol0_def insert_workspace_def)
  then have "reach no_policies policy_step ex_pol3"
    unfolding ex_pol3_def by (rule reach_step) (rule ps_require)
  then have "reach no_policies policy_step ex_pol4"
    unfolding ex_pol4_def by (rule reach_step) (rule ps_create, simp only: ex_pol_facts, simp)
  then have "reach no_policies policy_step ex_pol5"
    unfolding ex_pol5_def by (rule reach_step) (rule ps_profiles)
  then have "reach no_policies policy_step (the (insert_resource ex_pol_row ex_pol5))"
    by (rule reach_step) (rule ps_resource, use ex_pol_facts(1) in simp)
  then show ?thesis unfolding ex_pol6_def by (rule reach_step) (rule ps_set)
qed


end
