(* ===== verification/Policy_Effects.thy ===== *)
theory Policy_Effects
  imports Acl_Isolation Policy_Invariant
begin

text \<open>
  What the administration of policies and profiles does to the snapshots compiled afterwards: the
  composition of \<open>Resource_Policy\<close> and \<open>Profile_Admin\<close> with the compiler.
\<close>

section \<open>Profiles of a policy\<close>

lemma set_dedupe: "set (dedupe seen ids) = set ids - set seen"
  by (induction seen ids rule: dedupe.induct) auto

lemma set_dedupeSorted [simp]: "set (dedupeSorted ids) = set ids"
  by (simp add: dedupeSorted_def set_dedupe)

lemma SetResourcePolicyProfiles_ok:
  assumes "SetResourcePolicyProfiles fails w i ids db = (Inr res, db')"
  shows "db' = db\<lparr>db_policy_profiles := filter (\<lambda>l. rpp_policy_id l \<noteq> i) (db_policy_profiles db) @
           map (\<lambda>p. \<lparr>rpp_policy_id = i, rpp_profile_id = p, rpp_workspace_id = w\<rparr>) (dedupeSorted ids)\<rparr>"
    and "\<forall>p\<in>set ids. \<exists>q\<in>set (db_profiles db). pf_ID q = p \<and> pf_WorkspaceID q = w"
proof -
  from assms show "db' = db\<lparr>db_policy_profiles := filter (\<lambda>l. rpp_policy_id l \<noteq> i) (db_policy_profiles db) @
           map (\<lambda>p. \<lparr>rpp_policy_id = i, rpp_profile_id = p, rpp_workspace_id = w\<rparr>) (dedupeSorted ids)\<rparr>"
    unfolding SetResourcePolicyProfiles_def Let_def by (auto split: if_splits option.splits)
  from assms have "lock_profiles fails db w (dedupeSorted ids) = None"
    unfolding SetResourcePolicyProfiles_def Let_def by (auto split: if_splits option.splits)
  then show "\<forall>p\<in>set ids. \<exists>q\<in>set (db_profiles db). pf_ID q = p \<and> pf_WorkspaceID q = w"
    using lock_profiles_ok [of fails db w "dedupeSorted ids"] by fastforce
qed

lemma required_after_set:
  assumes "SetResourcePolicyProfiles fails w i ids db = (Inr res, db')"
    and "r \<in> set (db_resources db)" "rs_tenant_id r = w" "rs_policy_id r = i" and "distinct (map rs_id (db_resources db))"
  shows "required_by db' w (rs_id r) p \<longleftrightarrow> p \<in> set (db_profiles db) \<and> pf_WorkspaceID p = w \<and> pf_ID p \<in> set ids"
proof -
  have u: "r' = r" if "r' \<in> set (db_resources db)" "rs_id r' = rs_id r" for r'
    using distinct_key_eq [OF assms(5) that(1) assms(2) that(2)] .
  have "(\<exists>r'\<in>set (db_resources db). rs_tenant_id r' = w \<and> rs_id r' = rs_id r \<and> P r') \<longleftrightarrow> P r" for P
    using u assms(2,3) by blast
  note one = this [of "\<lambda>r. \<exists>pp\<in>set (db_policy_profiles db'). rpp_policy_id pp = rs_policy_id r \<and> rpp_profile_id pp = pf_ID p"]
  have "required_by db' w (rs_id r) p \<longleftrightarrow> p \<in> set (db_profiles db) \<and> pf_WorkspaceID p = w \<and>
      (\<exists>pp\<in>set (db_policy_profiles db'). rpp_policy_id pp = i \<and> rpp_profile_id pp = pf_ID p)"
    unfolding required_by_def using one by (simp add: SetResourcePolicyProfiles_ok(1) [OF assms(1)] assms(4))
  also have "(\<exists>pp\<in>set (db_policy_profiles db'). rpp_policy_id pp = i \<and> rpp_profile_id pp = pf_ID p) \<longleftrightarrow> pf_ID p \<in> set ids"
    by (simp add: SetResourcePolicyProfiles_ok(1) [OF assms(1)] bex_Un)
  finally show ?thesis .
qed

lemma posture_after_set:
  assumes "SetResourcePolicyProfiles fails w i ids db = (Inr res, db')"
    and "r \<in> set (db_resources db)" "rs_tenant_id r = w" "rs_policy_id r = i" and "distinct (map rs_id (db_resources db))"
  shows "posture_allows db' w now (rs_id r) d \<longleftrightarrow>
           ids = [] \<or> (\<exists>p\<in>set (db_profiles db). pf_WorkspaceID p = w \<and> pf_ID p \<in> set ids \<and> profile_fresh db w now d p)"
proof -
  have "profile_fresh db' w now d p \<longleftrightarrow> profile_fresh db w now d p" for p
    by (rule profile_fresh_cong) (simp_all add: SetResourcePolicyProfiles_ok(1) [OF assms(1)])
  moreover have "(\<forall>p. \<not> required_by db' w (rs_id r) p) \<longleftrightarrow> ids = []"
    unfolding required_after_set [OF assms] using SetResourcePolicyProfiles_ok(2) [OF assms(1)] by (cases ids) auto
  ultimately show ?thesis unfolding posture_allows_def required_after_set [OF assms] by blast
qed

lemma allowed_posture:
  assumes "CompileACLSnapshot parse utext fails version now dbnow ws db = Inr c" and "parse ws = Some w"
    and "distinct (map cd_id (db_client_devices db))" and "distinct (map pf_ID (db_profiles db))"
    and "e \<in> set (as_Entries (ca_Snapshot c))" and "s \<in> set (ae_AllowedSpiffeIds e)"
  shows "\<exists>cd\<in>set (db_client_devices db). cd_spiffe_id cd = Some s \<and> device_active db w cd \<and>
           posture_allows db w now (fst (entry_key_of e)) (cd_id cd)"
proof -
  have "may_reach db w now (entry_key_of e) s"
    using compiled_allows_iff [OF assms(1-4), of "entry_key_of e" s] assms(5,6) by blast
  then show ?thesis unfolding may_reach_def by blast
qed

text \<open>
  C24. Once \<open>SetResourcePolicyProfiles\<close> has succeeded, a snapshot compiled from then on allows a device
  identity to reach a resource of that policy only if the new list is empty, or an active device with
  that identity holds a verdict that is satisfied, current and fresh for a profile of the new list. The
  profiles required before no longer count.
\<close>

theorem policy_profiles_take_effect:
  assumes "SetResourcePolicyProfiles fl w i ids db = (Inr res, db')"
    and "CompileACLSnapshot parse utext fails version now dbnow ws db' = Inr c" and "parse ws = Some w"
    and "distinct (map cd_id (db_client_devices db))" and "distinct (map pf_ID (db_profiles db))" and "distinct (map rs_id (db_resources db))"
    and "r \<in> set (db_resources db)" and "rs_tenant_id r = w" and "rs_policy_id r = i"
    and "e \<in> set (as_Entries (ca_Snapshot c))" and "fst (entry_key_of e) = rs_id r" and "s \<in> set (ae_AllowedSpiffeIds e)"
  shows "ids = [] \<or> (\<exists>cd\<in>set (db_client_devices db). cd_spiffe_id cd = Some s \<and> device_active db' w cd \<and>
           (\<exists>p\<in>set (db_profiles db). pf_WorkspaceID p = w \<and> pf_ID p \<in> set ids \<and> profile_fresh db w now (cd_id cd) p))"
proof -
  note db' = SetResourcePolicyProfiles_ok(1) [OF assms(1)]
  have "\<exists>cd\<in>set (db_client_devices db'). cd_spiffe_id cd = Some s \<and> device_active db' w cd \<and>
      posture_allows db' w now (fst (entry_key_of e)) (cd_id cd)"
    by (rule allowed_posture [OF assms(2,3) _ _ assms(10,12)]) (simp_all add: db' assms(4,5))
  then show ?thesis
    unfolding assms(11) posture_after_set [OF assms(1,7-9,6)] by (auto simp: db')
qed

definition ex_pe :: zdb where
  "ex_pe = ex_acl\<lparr>db_requirements := [\<lparr>rq_ProfileID = 5, rq_CheckID = ''firewall'', rq_AllowUnsupported = False, rq_Countries = None\<rparr>],
     db_policy_profiles := []\<rparr>"

abbreviation ex_pe_compile :: "time \<Rightarrow> zdb \<Rightarrow> acl_error + compiled_acl" where
  "ex_pe_compile now \<equiv> CompileACLSnapshot (\<lambda>s. if s = ''ws'' then Some 4 else None) (\<lambda>_. ''u'') (\<lambda>_. False) 9 now now ''ws''"

definition ex_pe_set :: zdb where "ex_pe_set = snd (SetResourcePolicyProfiles (\<lambda>_. False) 4 30 [5] ex_pe)"

lemma ex_pe_ok: "\<exists>res. SetResourcePolicyProfiles (\<lambda>_. False) 4 30 [5] ex_pe = (Inr res, ex_pe_set)"
proof -
  have "\<not> isl (fst (SetResourcePolicyProfiles (\<lambda>_. False) 4 30 [5] ex_pe))" by code_simp
  then have "fst (SetResourcePolicyProfiles (\<lambda>_. False) 4 30 [5] ex_pe) = Inr (projr (fst (SetResourcePolicyProfiles (\<lambda>_. False) 4 30 [5] ex_pe)))"
    by (rule sum.collapse(2) [symmetric])
  then show ?thesis unfolding ex_pe_set_def by (intro exI prod_eqI) simp_all
qed

lemma ex_pe_compiles: "ex_pe_compile 0 ex_pe_set = Inr (projr (ex_pe_compile 0 ex_pe_set))"
  by (rule sum.collapse(2) [symmetric]) code_simp

theorem policy_profiles_take_effect_witness:
  "\<exists>cd\<in>set (db_client_devices ex_pe). cd_spiffe_id cd = Some ''spiffe://a'' \<and> device_active ex_pe_set 4 cd \<and>
     (\<exists>p\<in>set (db_profiles ex_pe). pf_WorkspaceID p = 4 \<and> pf_ID p \<in> set [5] \<and> profile_fresh ex_pe 4 0 (cd_id cd) p)"
proof -
  obtain res where set: "SetResourcePolicyProfiles (\<lambda>_. False) 4 30 [5] ex_pe = (Inr res, ex_pe_set)" using ex_pe_ok by blast
  have "\<exists>e\<in>set (as_Entries (ca_Snapshot (projr (ex_pe_compile 0 ex_pe_set)))).
      fst (entry_key_of e) = 11 \<and> ''spiffe://a'' \<in> set (ae_AllowedSpiffeIds e)"
    by code_simp
  then obtain e where e: "e \<in> set (as_Entries (ca_Snapshot (projr (ex_pe_compile 0 ex_pe_set))))"
    "fst (entry_key_of e) = rs_id ex_resource" "''spiffe://a'' \<in> set (ae_AllowedSpiffeIds e)"
    by (auto simp: ex_resource_def)
  have "[5::uuid] = [] \<or> ?thesis"
    by (rule policy_profiles_take_effect [OF set ex_pe_compiles _ _ _ _ _ _ _ e])
      (simp_all add: ex_pe_def ex_acl_def ex_dev_def ex_resource_def)
  then show ?thesis by simp
qed

section \<open>Requirements of a profile\<close>

text \<open>The three operations that change what a profile asks of a device.\<close>

definition profile_edit :: "uuid \<Rightarrow> uuid \<Rightarrow> zdb \<Rightarrow> zdb \<Rightarrow> bool" where
  "profile_edit w i db db' \<longleftrightarrow>
     (\<exists>fails req. AddRequirement fails w i req db = (None, db')) \<or>
     (\<exists>fails check. RemoveRequirement fails w i check db = (None, db')) \<or>
     (\<exists>fails rule old. UpdateCountryRule fails w i rule db = (Inr old, db'))"

lemma profile_edit_bumps:
  assumes "profile_edit w i db db'"
  shows "\<exists>rs. db' = bump_revision w i (db\<lparr>db_requirements := rs\<rparr>)"
  using assms
  by (auto simp: profile_edit_def AddRequirement_def RemoveRequirement_def UpdateCountryRule_def Let_def split: if_splits option.splits)

lemma edited_not_fresh:
  assumes "profile_edit w i db db'"
    and old: "\<forall>e\<in>set (db_evaluations db). er_profile_id e = i \<longrightarrow>
           (\<forall>p\<in>set (db_profiles db). pf_WorkspaceID p = w \<and> pf_ID p = i \<longrightarrow> er_profile_revision e \<le> pf_Revision p)"
    and p: "p \<in> set (db_profiles db')" "pf_WorkspaceID p = w" "pf_ID p = i"
  shows "\<not> profile_fresh db' w now d p"
proof
  obtain rs where db': "db' = bump_revision w i (db\<lparr>db_requirements := rs\<rparr>)" using profile_edit_bumps [OF assms(1)] by blast
  have "p \<in> set (update_where (\<lambda>q. pf_WorkspaceID q = w \<and> pf_ID q = i) (\<lambda>q. q\<lparr>pf_Revision := pf_Revision q + 1\<rparr>) (db_profiles db))"
    using p(1) by (simp add: db' bump_revision_def)
  then obtain q where q: "q \<in> set (db_profiles db)" "pf_WorkspaceID q = w \<and> pf_ID q = i" "p = q\<lparr>pf_Revision := pf_Revision q + 1\<rparr>"
    by (rule update_whereE) (use p in blast)+
  assume "profile_fresh db' w now d p"
  then obtain e where "LatestEvaluation db' w d i = Some e" "evl_ProfileRevision e = pf_Revision p"
    unfolding profile_fresh_def p(3) by blast
  then obtain x where x: "x \<in> set (db_evaluations db)" "er_profile_id x = i" "er_profile_revision x = pf_Revision p"
    unfolding LatestEvaluation_def db' bump_revision_def join_report_def by (auto dest!: select_one_Some)
  have "er_profile_revision x \<le> pf_Revision q" using old x(1,2) q(1,2) by blast
  then show False using x(3) q(3) by simp
qed

lemma edited_required:
  assumes "profile_edit w i db db'"
  shows "required_by db' w rid p' \<Longrightarrow> \<exists>p. required_by db w rid p \<and> pf_ID p = pf_ID p'"
    and "required_by db w rid p \<Longrightarrow> \<exists>p'. required_by db' w rid p'"
proof -
  obtain rs where db': "db' = bump_revision w i (db\<lparr>db_requirements := rs\<rparr>)" using profile_edit_bumps [OF assms] by blast
  have tabs: "db_resources db' = db_resources db" "db_policy_profiles db' = db_policy_profiles db"
    by (simp_all add: db' bump_revision_def)
  have views: "map profile_view (db_profiles db') = map profile_view (db_profiles db)"
    by (simp add: db' bump_revision_def profile_view_def)
  have ex: "(\<exists>q\<in>set (db_profiles db'). pf_ID q = x \<and> pf_WorkspaceID q = y) \<longleftrightarrow> (\<exists>q\<in>set (db_profiles db). pf_ID q = x \<and> pf_WorkspaceID q = y)" for x y
    using ex_view [OF views, of "\<lambda>(a, b). a = x \<and> b = y"] by (simp add: profile_view_def)
  show "required_by db' w rid p' \<Longrightarrow> \<exists>p. required_by db w rid p \<and> pf_ID p = pf_ID p'"
    unfolding required_by_def tabs using ex [of "pf_ID p'" w] by (metis (no_types, lifting))
  show "required_by db w rid p \<Longrightarrow> \<exists>p'. required_by db' w rid p'"
    unfolding required_by_def tabs using ex [of "pf_ID p" w] by (metis (no_types, lifting))
qed

lemma edited_denies:
  assumes "profile_edit w i db db'"
    and "\<forall>e\<in>set (db_evaluations db). er_profile_id e = i \<longrightarrow>
           (\<forall>p\<in>set (db_profiles db). pf_WorkspaceID p = w \<and> pf_ID p = i \<longrightarrow> er_profile_revision e \<le> pf_Revision p)"
    and "\<exists>p. required_by db w rid p" and "\<forall>p. required_by db w rid p \<longrightarrow> pf_ID p = i"
  shows "\<not> posture_allows db' w now rid d"
proof -
  have "\<not> profile_fresh db' w now d p" if r: "required_by db' w rid p" for p
  proof (rule edited_not_fresh [OF assms(1,2)])
    show "p \<in> set (db_profiles db')" "pf_WorkspaceID p = w" using r by (simp_all add: required_by_def)
    show "pf_ID p = i" using edited_required(1) [OF assms(1) r] assms(4) by auto
  qed
  then show ?thesis unfolding posture_allows_def using edited_required(2) [OF assms(1)] assms(3) by blast
qed

text \<open>
  C25. Changing what a profile asks fails closed: after a requirement was added, removed or its
  countries replaced, a snapshot compiled before any device was evaluated again allows nobody to reach
  a resource for which that profile was the only one required.
\<close>

theorem requirement_edit_fails_closed:
  assumes "profile_edit w i db db'"
    and "CompileACLSnapshot parse utext fails version now dbnow ws db' = Inr c" and "parse ws = Some w"
    and "distinct (map cd_id (db_client_devices db))" and "distinct (map pf_ID (db_profiles db))"
    and "\<forall>e\<in>set (db_evaluations db). er_profile_id e = i \<longrightarrow>
           (\<forall>p\<in>set (db_profiles db). pf_WorkspaceID p = w \<and> pf_ID p = i \<longrightarrow> er_profile_revision e \<le> pf_Revision p)"
    and "\<exists>p. required_by db w rid p" and "\<forall>p. required_by db w rid p \<longrightarrow> pf_ID p = i"
    and "e \<in> set (as_Entries (ca_Snapshot c))" and "fst (entry_key_of e) = rid"
  shows "ae_AllowedSpiffeIds e = []"
proof (rule ccontr)
  obtain rs where db': "db' = bump_revision w i (db\<lparr>db_requirements := rs\<rparr>)" using profile_edit_bumps [OF assms(1)] by blast
  have ids: "map pf_ID (db_profiles db') = map pf_ID (db_profiles db)"
    unfolding db' bump_revision_def by (simp add: update_where_def)
  assume "ae_AllowedSpiffeIds e \<noteq> []"
  then obtain s where s: "s \<in> set (ae_AllowedSpiffeIds e)" by (cases "ae_AllowedSpiffeIds e") auto
  have "\<exists>cd\<in>set (db_client_devices db'). cd_spiffe_id cd = Some s \<and> device_active db' w cd \<and>
      posture_allows db' w now (fst (entry_key_of e)) (cd_id cd)"
    by (rule allowed_posture [OF assms(2,3) _ _ assms(9) s]) (simp_all add: ids assms(4,5), simp add: db' bump_revision_def assms(4))
  then obtain d where d: "posture_allows db' w now rid d" unfolding assms(10) by blast
  show False using edited_denies [OF assms(1,6-8)] d by blast
qed


definition ex_pe_edit :: zdb where
  "ex_pe_edit = snd (AddRequirement (\<lambda>_. False) 4 5
     \<lparr>rq_ProfileID = 5, rq_CheckID = ''disk'', rq_AllowUnsupported = False, rq_Countries = None\<rparr> ex_pe_set)"

lemma ex_pe_edited: "profile_edit 4 5 ex_pe_set ex_pe_edit"
proof -
  have "fst (AddRequirement (\<lambda>_. False) 4 5
     \<lparr>rq_ProfileID = 5, rq_CheckID = ''disk'', rq_AllowUnsupported = False, rq_Countries = None\<rparr> ex_pe_set) = None"
    by code_simp
  then show ?thesis unfolding profile_edit_def ex_pe_edit_def by (intro disjI1 exI prod_eqI) (assumption | simp)+
qed

lemma ex_pe_compiles_edit: "ex_pe_compile 0 ex_pe_edit = Inr (projr (ex_pe_compile 0 ex_pe_edit))"
  by (rule sum.collapse(2) [symmetric]) code_simp

lemma ex_pe_required: "required_by ex_pe_set 4 11 p \<longleftrightarrow> p = ex_profile3"
proof -
  have "db_profiles ex_pe_set = [ex_profile3]" "db_resources ex_pe_set = [ex_resource]"
    "db_policy_profiles ex_pe_set = [\<lparr>rpp_policy_id = 30, rpp_profile_id = 5, rpp_workspace_id = 4\<rparr>]"
    by code_simp+
  then show ?thesis by (auto simp: required_by_def ex_resource_def ex_profile3_def)
qed

theorem requirement_edit_fails_closed_witness:
  "\<exists>e\<in>set (as_Entries (ca_Snapshot (projr (ex_pe_compile 0 ex_pe_edit)))). fst (entry_key_of e) = 11 \<and> ae_AllowedSpiffeIds e = []"
proof -
  have "\<exists>e\<in>set (as_Entries (ca_Snapshot (projr (ex_pe_compile 0 ex_pe_edit)))). fst (entry_key_of e) = 11" by code_simp
  then obtain e where e: "e \<in> set (as_Entries (ca_Snapshot (projr (ex_pe_compile 0 ex_pe_edit))))" "fst (entry_key_of e) = 11"
    by blast
  have "ae_AllowedSpiffeIds e = []"
  proof (rule requirement_edit_fails_closed [OF ex_pe_edited ex_pe_compiles_edit _ _ _ _ _ _ e])
    show "distinct (map cd_id (db_client_devices ex_pe_set))" "distinct (map pf_ID (db_profiles ex_pe_set))" by code_simp+
    show "\<forall>e\<in>set (db_evaluations ex_pe_set). er_profile_id e = 5 \<longrightarrow>
        (\<forall>p\<in>set (db_profiles ex_pe_set). pf_WorkspaceID p = 4 \<and> pf_ID p = 5 \<longrightarrow> er_profile_revision e \<le> pf_Revision p)"
      by code_simp
    show "\<exists>p. required_by ex_pe_set 4 11 p" "\<forall>p. required_by ex_pe_set 4 11 p \<longrightarrow> pf_ID p = 5"
      unfolding ex_pe_required by (simp_all add: ex_profile3_def)
  qed simp
  with e show ?thesis by blast
qed

end
