(* ===== verification/Conn_Authz.thy ===== *)
theory Conn_Authz
  imports Zec_Prelude
begin

text \<open>
  The authorization contract on the connector's side (\<open>connector/src/authorization.rs\<close>): the serving
  state machine \<open>AckTracker\<close>, the snapshot it publishes to the data plane, and what it does with each
  message and status of the controller.

  Every method runs under the tracker's mutex and is one function of the state. An \<open>Instant\<close> is a
  \<open>time\<close> and is an argument wherever the source reads the clock. Sequence numbers and the counter of
  closures are \<open>u64\<close>s that go up by one per request or loss; they are modelled as \<open>nat\<close>.
\<close>

section \<open>Signals\<close>

datatype terminal_signal = TsRevoked | TsUnknownIdentity

definition MARKER_REVOKED :: string where "MARKER_REVOKED = ''revoked''"

definition MARKER_UNKNOWN :: string where "MARKER_UNKNOWN = ''unknown''"

datatype 'code status_class = ScRevoked | ScUnknownConnector | Unmarked 'code

text \<open>The metadata value of the marker key, if it is there and a valid string, and the status code.\<close>

definition classify_status :: "string option \<Rightarrow> 'code \<Rightarrow> 'code status_class" where
  "classify_status marker code =
     (if marker = Some MARKER_REVOKED then ScRevoked
      else if marker = Some MARKER_UNKNOWN then ScUnknownConnector
      else Unmarked code)"

section \<open>Serving states\<close>

datatype serving_state =
  Starting | Serving | ServingDisconnected | Disabled | Recovering | Revoked | UnknownIdentity

definition is_terminal :: "serving_state \<Rightarrow> bool" where
  "is_terminal s \<longleftrightarrow> s = Revoked \<or> s = UnknownIdentity"

definition is_open :: "serving_state \<Rightarrow> bool" where
  "is_open s \<longleftrightarrow> s = Serving \<or> s = ServingDisconnected"

record authz_snapshot =
  az_state :: serving_state
  az_deadline :: "time option"
  az_closures :: nat

definition admits :: "authz_snapshot \<Rightarrow> time \<Rightarrow> bool" where
  "admits s now \<longleftrightarrow> is_open (az_state s) \<and> (case az_deadline s of None \<Rightarrow> False | Some d \<Rightarrow> now < d)"

section \<open>The tracker\<close>

datatype ack_rejection =
  RjTerminal terminal_signal | RjNoCapability | RjZero | RjNotNewer nat | RjUnknown | RjStale duration | RjBeforeLoss

record ack_tracker =
  at_freshness :: duration
  at_last_assigned :: nat
  at_sent :: "nat \<rightharpoonup> time"
  at_highest_accepted :: nat
  at_latest_accepted_sent_at :: "time option"
  at_terminal :: "terminal_signal option"
  at_state :: serving_state
  at_deadline :: "time option"
  at_lost_at :: "time option"
  at_closures :: nat
  at_publish :: authz_snapshot

definition AckTracker_new :: "duration \<Rightarrow> ack_tracker" where
  "AckTracker_new freshness =
     \<lparr>at_freshness = freshness, at_last_assigned = 0, at_sent = Map.empty, at_highest_accepted = 0,
      at_latest_accepted_sent_at = None, at_terminal = None, at_state = Starting, at_deadline = None,
      at_lost_at = None, at_closures = 0,
      at_publish = \<lparr>az_state = Starting, az_deadline = None, az_closures = 0\<rparr>\<rparr>"

definition at_snapshot :: "ack_tracker \<Rightarrow> authz_snapshot" where
  "at_snapshot t = \<lparr>az_state = at_state t, az_deadline = at_deadline t, az_closures = at_closures t\<rparr>"

definition transition :: "serving_state \<Rightarrow> ack_tracker \<Rightarrow> ack_tracker" where
  "transition to t =
     (let t1 = (if is_open (at_state t) \<and> \<not> is_open to then t\<lparr>at_closures := at_closures t + 1\<rparr> else t);
          t2 = t1\<lparr>at_state := to\<rparr>;
          t3 = (if is_open to then t2 else t2\<lparr>at_deadline := None\<rparr>)
      in t3\<lparr>at_publish := at_snapshot t3\<rparr>)"

definition expire :: "time \<Rightarrow> ack_tracker \<Rightarrow> ack_tracker" where
  "expire now t =
     (case at_deadline t of
        Some d \<Rightarrow> if is_open (at_state t) \<and> now \<ge> d then transition Disabled (t\<lparr>at_lost_at := Some d\<rparr>) else t
      | None \<Rightarrow> t)"

definition stream_up :: "time \<Rightarrow> ack_tracker \<Rightarrow> ack_tracker" where
  "stream_up now t =
     (let t1 = expire now t in if at_state t1 = Disabled then transition Recovering t1 else t1)"

definition stream_down :: "time \<Rightarrow> ack_tracker \<Rightarrow> ack_tracker" where
  "stream_down now t =
     (let t1 = expire now t in
      case at_state t1 of
        Serving \<Rightarrow> transition ServingDisconnected t1
      | Recovering \<Rightarrow> transition Disabled (t1\<lparr>at_lost_at := Some now\<rparr>)
      | _ \<Rightarrow> t1)"

definition next_seq :: "ack_tracker \<Rightarrow> nat \<times> ack_tracker" where
  "next_seq t = (at_last_assigned t + 1, t\<lparr>at_last_assigned := at_last_assigned t + 1\<rparr>)"

definition seq_for_replacement :: "ack_tracker \<Rightarrow> nat \<times> ack_tracker" where
  "seq_for_replacement t =
     (if at_last_assigned t > at_highest_accepted t then (at_last_assigned t, t) else next_seq t)"

definition record_sent :: "nat \<Rightarrow> time \<Rightarrow> ack_tracker \<Rightarrow> ack_tracker" where
  "record_sent seq at t =
     (if seq = 0 then t
      else
        let sent = (if at_sent t seq = None then (at_sent t)(seq \<mapsto> at) else at_sent t)
        in t\<lparr>at_sent := (\<lambda>k. case sent k of None \<Rightarrow> None | Some s \<Rightarrow> if at < s + at_freshness t then Some s else None)\<rparr>)"

definition on_ack :: "nat \<Rightarrow> bool \<Rightarrow> time \<Rightarrow> ack_tracker \<Rightarrow> (ack_rejection + unit) \<times> ack_tracker" where
  "on_ack seq capable now t0 =
     (let t = expire now t0 in
      case at_terminal t of
        Some s \<Rightarrow> (Inl (RjTerminal s), t)
      | None \<Rightarrow>
          if \<not> capable then (Inl RjNoCapability, t)
          else if seq = 0 then (Inl RjZero, t)
          else if seq \<le> at_highest_accepted t then (Inl (RjNotNewer (at_highest_accepted t)), t)
          else case at_sent t seq of
            None \<Rightarrow> (Inl RjUnknown, t)
          | Some sent_at \<Rightarrow>
              let age = max 0 (now - sent_at) in
              if age \<ge> at_freshness t then (Inl (RjStale age), t)
              else if (case at_lost_at t of None \<Rightarrow> False | Some lost \<Rightarrow> sent_at < lost) then (Inl RjBeforeLoss, t)
              else
                let d = sent_at + at_freshness t in
                (Inr (), transition Serving (t\<lparr>
                   at_highest_accepted := seq,
                   at_latest_accepted_sent_at := Some sent_at,
                   at_sent := (\<lambda>k. if k > seq then at_sent t k else None),
                   at_deadline := Some (case at_deadline t of None \<Rightarrow> d | Some old \<Rightarrow> max old d)\<rparr>)))"

definition on_terminal :: "terminal_signal \<Rightarrow> ack_tracker \<Rightarrow> bool \<times> ack_tracker" where
  "on_terminal signal t =
     (if at_terminal t \<noteq> None then (False, t)
      else (True, transition (case signal of TsRevoked \<Rightarrow> Revoked | TsUnknownIdentity \<Rightarrow> UnknownIdentity)
                    (t\<lparr>at_terminal := Some signal\<rparr>)))"

section \<open>Messages and statuses\<close>

record stream_authz =
  sa_capable :: bool
  sa_first_seen :: bool

datatype controller_msg = MsgAgentPolicy bool | MsgAuthorizationAck nat | MsgConnectorRevoked | MsgOther

text \<open>The source reads the clock when a stream speaks first (\<open>now1\<close>) and when an ack arrives (\<open>now2\<close>).\<close>

definition observe_controller_msg ::
  "controller_msg \<Rightarrow> time \<Rightarrow> time \<Rightarrow> stream_authz \<Rightarrow> ack_tracker \<Rightarrow> stream_authz \<times> ack_tracker" where
  "observe_controller_msg msg now1 now2 stream t0 =
     (let t = (if sa_first_seen stream then t0 else stream_up now1 t0);
          stream = stream\<lparr>sa_first_seen := True\<rparr>
      in case msg of
           MsgAgentPolicy authorization_acks \<Rightarrow> (stream\<lparr>sa_capable := authorization_acks\<rparr>, t)
         | MsgAuthorizationAck seq \<Rightarrow> (stream, snd (on_ack seq (sa_capable stream) now2 t))
         | MsgConnectorRevoked \<Rightarrow> (stream, snd (on_terminal TsRevoked t))
         | MsgOther \<Rightarrow> (stream, t))"

definition observe_status :: "string option \<Rightarrow> 'code \<Rightarrow> ack_tracker \<Rightarrow> 'code status_class \<times> ack_tracker" where
  "observe_status marker code t =
     (case classify_status marker code of
        ScRevoked \<Rightarrow> (ScRevoked, snd (on_terminal TsRevoked t))
      | ScUnknownConnector \<Rightarrow> (ScUnknownConnector, snd (on_terminal TsUnknownIdentity t))
      | Unmarked c \<Rightarrow> (Unmarked c, t))"

text \<open>
  \<open>stamp_sends\<close> records the send of every health report that carries a sequence number, at the moment
  the transport takes it.
\<close>

definition stamp_send :: "nat option \<Rightarrow> time \<Rightarrow> ack_tracker \<Rightarrow> ack_tracker" where
  "stamp_send health now t =
     (case health of Some seq \<Rightarrow> if seq \<noteq> 0 then record_sent seq now t else t | None \<Rightarrow> t)"

end
