(* ===== verification/Conn_Policy.thy ===== *)
theory Conn_Policy
  imports Conn_Authz Acl_Compiler "HOL-Library.AList"
begin

text \<open>
  The data plane of a connector: the cached access list (\<open>connector/src/policy/mod.rs\<close>), the index of
  live sessions (\<open>session_registry.rs\<close>), the revocation check (\<open>crl.rs\<close>), the stages of
  \<open>device_tunnel.rs::handle_stream\<close> and the enforcer of \<open>fail_closed.rs\<close>.

  Each critical section of the source (a read or write of the cache, one call on the registry) is one
  function; the stages of a handler are separate functions because other tasks run between them.
  The snapshot is the message the controller's compiler produces.
\<close>

section \<open>The access list\<close>

type_synonym policy_cache = "acl_snapshot option"

type_synonym session_key = "string \<times> uuid"

record resource_acl =
  ra_resource_id :: uuid
  ra_allowed_spiffe_ids :: "string list"
  ra_route_type :: string
  ra_shield_id :: "uuid option"

definition to_ascii_lowercase :: "string \<Rightarrow> string" where "to_ascii_lowercase s = map lower_char s"

definition eq_ignore_ascii_case :: "string \<Rightarrow> string \<Rightarrow> bool" where
  "eq_ignore_ascii_case a b \<longleftrightarrow> to_ascii_lowercase a = to_ascii_lowercase b"

definition find_entry_by_id :: "acl_snapshot \<Rightarrow> uuid \<Rightarrow> acl_entry option" where
  "find_entry_by_id snapshot resource_id = find (\<lambda>e. ae_ResourceId e = resource_id) (as_Entries snapshot)"

definition is_allowed :: "policy_cache \<Rightarrow> uuid \<Rightarrow> string \<Rightarrow> bool" where
  "is_allowed cache resource_id client_spiffe_id =
     (case cache of
        None \<Rightarrow> False
      | Some snapshot \<Rightarrow>
          (case find_entry_by_id snapshot resource_id of
             None \<Rightarrow> False
           | Some entry \<Rightarrow> ae_AllowedSpiffeIds entry \<noteq> [] \<and> client_spiffe_id \<in> set (ae_AllowedSpiffeIds entry)))"

definition resolve_resource :: "policy_cache \<Rightarrow> string \<Rightarrow> nat \<Rightarrow> string \<Rightarrow> resource_acl option" where
  "resolve_resource cache address port protocol =
     (case cache of
        None \<Rightarrow> None
      | Some snapshot \<Rightarrow>
          map_option (\<lambda>e. \<lparr>ra_resource_id = ae_ResourceId e, ra_allowed_spiffe_ids = ae_AllowedSpiffeIds e,
                           ra_route_type = ae_RouteType e, ra_shield_id = ae_ShieldId e\<rparr>)
            (find (\<lambda>e. ae_Address e = address \<and> ae_Port e = port \<and> eq_ignore_ascii_case (ae_Protocol e) protocol)
               (as_Entries snapshot)))"

definition allow_list :: "acl_snapshot \<Rightarrow> session_key list" where
  "allow_list snapshot = [(spiffe, ae_ResourceId e). e \<leftarrow> as_Entries snapshot, spiffe \<leftarrow> ae_AllowedSpiffeIds e]"

text \<open>The tuples of a resource, or nothing when no entry names it.\<close>

definition tuples_by_resource :: "acl_snapshot \<Rightarrow> uuid \<Rightarrow> (string \<times> nat \<times> string) set option" where
  "tuples_by_resource snapshot rid =
     (let es = filter (\<lambda>e. ae_ResourceId e = rid) (as_Entries snapshot) in
      if es = [] then None
      else Some (set (map (\<lambda>e. (ae_Address e, ae_Port e, to_ascii_lowercase (ae_Protocol e))) es)))"

definition tuple_changed :: "acl_snapshot \<Rightarrow> acl_snapshot \<Rightarrow> uuid \<Rightarrow> bool" where
  "tuple_changed previous snapshot rid =
     (case (tuples_by_resource previous rid, tuples_by_resource snapshot rid) of
        (Some old, Some new) \<Rightarrow> old \<noteq> new
      | _ \<Rightarrow> False)"

definition update_and_revoked :: "acl_snapshot \<Rightarrow> policy_cache \<Rightarrow> session_key list \<times> policy_cache" where
  "update_and_revoked snapshot cache =
     ((case cache of
         None \<Rightarrow> []
       | Some previous \<Rightarrow>
           filter (\<lambda>k. k \<notin> set (allow_list snapshot)) (allow_list previous) @
           filter (\<lambda>k. tuple_changed previous snapshot (snd k)) (allow_list previous)),
      Some snapshot)"

definition policy_clear :: "policy_cache \<Rightarrow> policy_cache" where "policy_clear cache = None"

definition policy_version :: "policy_cache \<Rightarrow> 64 word" where
  "policy_version cache = (case cache of None \<Rightarrow> 0 | Some s \<Rightarrow> as_Version s)"

definition peers_of_connector :: "policy_cache \<Rightarrow> uuid \<Rightarrow> (uuid \<times> string) list" where
  "peers_of_connector cache connector_id =
     (case cache of
        None \<Rightarrow> []
      | Some s \<Rightarrow>
          (case find (\<lambda>rn. \<exists>c\<in>set (arn_Connectors rn). acn_ConnectorId c = connector_id) (as_RemoteNetworks s) of
             None \<Rightarrow> []
           | Some rn \<Rightarrow> map (\<lambda>c. (acn_ConnectorId c, acn_ConnectorTunnelAddr c)) (arn_Connectors rn)))"

section \<open>Sessions\<close>

datatype session_transport = TrTcp | TrQuic | TrRelay

type_synonym session_id = nat

text \<open>
  The nested map and the tokens' state. A token outlives its entry; cancelling is for good.
\<close>

record session_registry =
  sr_inner :: "(session_key \<times> (session_id \<times> session_transport) list) list"
  sr_cancelled :: "session_id \<Rightarrow> bool"

definition registry_new :: session_registry where
  "registry_new = \<lparr>sr_inner = [], sr_cancelled = (\<lambda>_. False)\<rparr>"

definition sessions_under :: "session_registry \<Rightarrow> session_key \<Rightarrow> (session_id \<times> session_transport) list" where
  "sessions_under r key = (case map_of (sr_inner r) key of None \<Rightarrow> [] | Some m \<Rightarrow> m)"

definition register :: "session_key \<Rightarrow> session_transport \<Rightarrow> session_id \<Rightarrow> session_registry \<Rightarrow> session_registry" where
  "register key transport sid r =
     r\<lparr>sr_inner := AList.update key (AList.update sid transport (sessions_under r key)) (sr_inner r),
       sr_cancelled := (sr_cancelled r)(sid := False)\<rparr>"

definition cancel_token :: "session_id \<Rightarrow> session_registry \<Rightarrow> session_registry" where
  "cancel_token sid r = r\<lparr>sr_cancelled := (sr_cancelled r)(sid := True)\<rparr>"

definition cancel_all :: "session_key \<Rightarrow> session_registry \<Rightarrow> session_registry" where
  "cancel_all key r =
     r\<lparr>sr_cancelled := (\<lambda>i. i \<in> set (map fst (sessions_under r key)) \<or> sr_cancelled r i)\<rparr>"

definition cancel_every_session :: "session_registry \<Rightarrow> session_registry" where
  "cancel_every_session r =
     r\<lparr>sr_cancelled := (\<lambda>i. (\<exists>e\<in>set (sr_inner r). i \<in> set (map fst (snd e))) \<or> sr_cancelled r i)\<rparr>"

text \<open>Dropping a guard: first its own session, then, under a second lock, the key if it is empty by then.\<close>

definition guard_remove :: "session_key \<Rightarrow> session_id \<Rightarrow> session_registry \<Rightarrow> session_registry" where
  "guard_remove key sid r =
     (case map_of (sr_inner r) key of
        None \<Rightarrow> r
      | Some m \<Rightarrow> r\<lparr>sr_inner := AList.update key (AList.delete sid m) (sr_inner r)\<rparr>)"

definition guard_sweep :: "session_key \<Rightarrow> session_registry \<Rightarrow> session_registry" where
  "guard_sweep key r =
     (if map_of (sr_inner r) key = Some [] then r\<lparr>sr_inner := AList.delete key (sr_inner r)\<rparr> else r)"

section \<open>Handling a stream\<close>

datatype revocation_status = CertRevoked | CertNotRevoked | CertUnavailable

record crl_cache =
  crl_next_update :: int
  crl_revoked :: "string list"

definition crl_check :: "int \<Rightarrow> crl_cache option \<Rightarrow> string \<Rightarrow> revocation_status" where
  "crl_check now cache serial =
     (case cache of
        Some c \<Rightarrow> if now < crl_next_update c then (if serial \<in> set (crl_revoked c) then CertRevoked else CertNotRevoked)
                  else CertUnavailable
      | None \<Rightarrow> CertUnavailable)"

definition revocation_action :: "revocation_status \<Rightarrow> string + unit" where
  "revocation_action status =
     (case status of
        CertNotRevoked \<Rightarrow> Inr ()
      | CertUnavailable \<Rightarrow> Inl ''certificate revocation state unavailable''
      | CertRevoked \<Rightarrow> Inl ''certificate revoked'')"

record tunnel_request =
  tr_destination :: string
  tr_port :: nat
  tr_protocol :: string

datatype tunnel_refusal = NotServing | CertRefused string | AccessDenied

text \<open>Up to the decision: the gate, the certificate, the access list.\<close>

definition stream_decide ::
  "authz_snapshot \<Rightarrow> time \<Rightarrow> revocation_status \<Rightarrow> policy_cache \<Rightarrow> string \<Rightarrow> tunnel_request \<Rightarrow> tunnel_refusal + resource_acl" where
  "stream_decide gate now status cache spiffe req =
     (if \<not> admits gate now then Inl NotServing
      else case revocation_action status of
        Inl message \<Rightarrow> Inl (CertRefused message)
      | Inr _ \<Rightarrow>
          (case resolve_resource cache (tr_destination req) (tr_port req) (tr_protocol req) of
             Some acl_entry \<Rightarrow> if spiffe \<in> set (ra_allowed_spiffe_ids acl_entry) then Inr acl_entry else Inl AccessDenied
           | None \<Rightarrow> Inl AccessDenied))"

definition stream_transport :: "session_transport \<Rightarrow> resource_acl \<Rightarrow> session_transport" where
  "stream_transport accept_transport acl_entry =
     (if ra_route_type acl_entry = ''shield'' then TrRelay else accept_transport)"

definition stream_register :: "string \<Rightarrow> session_transport \<Rightarrow> resource_acl \<Rightarrow> session_id \<Rightarrow> session_registry \<Rightarrow> session_registry" where
  "stream_register spiffe accept_transport acl_entry sid r =
     register (spiffe, ra_resource_id acl_entry) (stream_transport accept_transport acl_entry) sid r"

definition stream_recheck :: "policy_cache \<Rightarrow> session_key \<Rightarrow> session_id \<Rightarrow> session_registry \<Rightarrow> session_registry" where
  "stream_recheck cache key sid r =
     (if \<not> is_allowed cache (snd key) (fst key) then cancel_token sid r else r)"

text \<open>
  After the second gate: where the tunnel goes. \<open>dial\<close> is the checked address a name resolved to (for an
  address literal, the literal).
\<close>

datatype tunnel_route =
  RtUnresolved | RtShieldMissing | RtShield uuid string | RtUnknown string | RtUdp string | RtTcp string

definition stream_route :: "resource_acl \<Rightarrow> tunnel_request \<Rightarrow> bool \<Rightarrow> string option \<Rightarrow> tunnel_route" where
  "stream_route acl_entry req isname dial =
     (case (if isname \<and> to_ascii_lowercase (tr_protocol req) = ''udp'' then None else dial) of
        None \<Rightarrow> RtUnresolved
      | Some host \<Rightarrow>
          if ra_route_type acl_entry = ''shield''
          then (case ra_shield_id acl_entry of None \<Rightarrow> RtShieldMissing | Some s \<Rightarrow> RtShield s host)
          else if ra_route_type acl_entry \<noteq> ''connector'' \<and> ra_route_type acl_entry \<noteq> ''direct''
          then RtUnknown (ra_route_type acl_entry)
          else if to_ascii_lowercase (tr_protocol req) = ''udp'' then RtUdp (tr_destination req)
          else RtTcp host)"

section \<open>The enforcer\<close>

text \<open>
  One turn of the loop of \<open>fail_closed.rs\<close>: from the snapshot it reads, what it does, in order. The grace
  timer of the shield streams is not modelled.
\<close>

datatype enforcement = CancelEvery | CloseShields | ClearAcl

definition enforcer_turn :: "authz_snapshot \<Rightarrow> nat \<times> bool \<Rightarrow> enforcement list \<times> nat \<times> bool" where
  "enforcer_turn snap st =
     (case st of (seen_closures, terminal_done) \<Rightarrow>
        ((if az_closures snap \<noteq> seen_closures then [CancelEvery] else []) @
         (if is_terminal (az_state snap) \<and> \<not> terminal_done then [CancelEvery, CloseShields, ClearAcl] else []),
         az_closures snap, terminal_done \<or> is_terminal (az_state snap)))"

end
