(* ===== verification/Conn_Authz_Correct.thy ===== *)
theory Conn_Authz_Correct
  imports Conn_Authz
begin

text \<open>
  What the serving state machine of a connector promises: the data plane is open only while an
  acknowledgement of the controller covers it, and never after a terminal signal.
\<close>

section \<open>The published snapshot\<close>

lemma transition_sel [simp]:
  "at_freshness (transition to t) = at_freshness t"
  "at_last_assigned (transition to t) = at_last_assigned t"
  "at_sent (transition to t) = at_sent t"
  "at_highest_accepted (transition to t) = at_highest_accepted t"
  "at_terminal (transition to t) = at_terminal t"
  "at_state (transition to t) = to"
  "at_deadline (transition to t) = (if is_open to then at_deadline t else None)"
  "at_lost_at (transition to t) = at_lost_at t"
  "at_closures (transition to t) = (if is_open (at_state t) \<and> \<not> is_open to then at_closures t + 1 else at_closures t)"
  by (simp_all add: transition_def Let_def)

lemma transition_publish [simp]: "at_publish (transition to t) = at_snapshot (transition to t)"
  by (simp add: transition_def Let_def at_snapshot_def)

lemma is_open_simps [simp]:
  "is_open Serving" "is_open ServingDisconnected" "\<not> is_open Starting" "\<not> is_open Disabled" "\<not> is_open Recovering"
  "\<not> is_open Revoked" "\<not> is_open UnknownIdentity"
  by (simp_all add: is_open_def)

lemma is_terminal_not_open: "is_terminal s \<Longrightarrow> \<not> is_open s"
  by (auto simp: is_terminal_def)

section \<open>Events\<close>

text \<open>
  What happens to a connector's tracker, in the order its mutex serialises it: streams are opened and
  renewed under fresh numbers, deliver messages and end; requests get a sequence number and are sent;
  statuses arrive; the expiry timer fires.
\<close>

datatype authz_event =
  EvOpen nat | EvMsg nat controller_msg time time | EvDown time | EvSeq | EvReplacement | EvSent nat time
  | EvStatus "string option" | EvExpire time

record authz_world =
  aw_tracker :: ack_tracker
  aw_streams :: "nat \<Rightarrow> stream_authz"

definition aw_init :: "duration \<Rightarrow> authz_world" where
  "aw_init h = \<lparr>aw_tracker = AckTracker_new h, aw_streams = (\<lambda>_. \<lparr>sa_capable = False, sa_first_seen = False\<rparr>)\<rparr>"

fun authz_apply :: "authz_event \<Rightarrow> authz_world \<Rightarrow> authz_world" where
  "authz_apply (EvOpen i) s = s\<lparr>aw_streams := (aw_streams s)(i := \<lparr>sa_capable = False, sa_first_seen = False\<rparr>)\<rparr>"
| "authz_apply (EvMsg i m now1 now2) s =
     (case observe_controller_msg m now1 now2 (aw_streams s i) (aw_tracker s) of
        (stream, t) \<Rightarrow> s\<lparr>aw_tracker := t, aw_streams := (aw_streams s)(i := stream)\<rparr>)"
| "authz_apply (EvDown now) s = s\<lparr>aw_tracker := stream_down now (aw_tracker s)\<rparr>"
| "authz_apply EvSeq s = s\<lparr>aw_tracker := snd (next_seq (aw_tracker s))\<rparr>"
| "authz_apply EvReplacement s = s\<lparr>aw_tracker := snd (seq_for_replacement (aw_tracker s))\<rparr>"
| "authz_apply (EvSent seq now) s = s\<lparr>aw_tracker := stamp_send (Some seq) now (aw_tracker s)\<rparr>"
| "authz_apply (EvStatus marker) s = s\<lparr>aw_tracker := snd (observe_status marker () (aw_tracker s))\<rparr>"
| "authz_apply (EvExpire now) s = s\<lparr>aw_tracker := expire now (aw_tracker s)\<rparr>"

definition authz_run :: "duration \<Rightarrow> authz_event list \<Rightarrow> authz_world" where
  "authz_run h es = foldl (\<lambda>s e. authz_apply e s) (aw_init h) es"

lemma authz_run_Nil [simp]: "authz_run h [] = aw_init h"
  by (simp add: authz_run_def)

lemma authz_run_snoc [simp]: "authz_run h (es @ [e]) = authz_apply e (authz_run h es)"
  by (simp add: authz_run_def)

fun terminal_event :: "authz_event \<Rightarrow> bool" where
  "terminal_event (EvMsg i MsgConnectorRevoked now1 now2) \<longleftrightarrow> True"
| "terminal_event (EvStatus m) \<longleftrightarrow> m = Some MARKER_REVOKED \<or> m = Some MARKER_UNKNOWN"
| "terminal_event _ \<longleftrightarrow> False"

text \<open>
  Request \<open>k\<close>, sent at \<open>s\<close>, was acknowledged: an ack for it arrived on a stream that had asserted the
  capability, after the request was sent.
\<close>

definition acknowledged :: "duration \<Rightarrow> authz_event list \<Rightarrow> nat \<Rightarrow> time \<Rightarrow> bool" where
  "acknowledged h es k s \<longleftrightarrow>
     (\<exists>es1 i now1 now2 es2. es = es1 @ EvMsg i (MsgAuthorizationAck k) now1 now2 # es2 \<and>
        sa_capable (aw_streams (authz_run h es1) i) \<and> EvSent k s \<in> set es1)"

lemma acknowledged_snoc: "acknowledged h es k s \<Longrightarrow> acknowledged h (es @ [e]) k s"
  unfolding acknowledged_def by (metis append_Cons append_assoc)

section \<open>The invariant\<close>

definition covered :: "duration \<Rightarrow> authz_event list \<Rightarrow> ack_tracker \<Rightarrow> time \<Rightarrow> bool" where
  "covered h es t d \<longleftrightarrow>
     (\<exists>k s. d = s + h \<and> acknowledged h es k s \<and> (case at_lost_at t of None \<Rightarrow> True | Some l \<Rightarrow> l \<le> s))"

definition tracker_ok :: "duration \<Rightarrow> authz_event list \<Rightarrow> ack_tracker \<Rightarrow> bool" where
  "tracker_ok h es t \<longleftrightarrow>
     at_freshness t = h \<and> at_publish t = at_snapshot t \<and>
     (\<forall>d. at_deadline t = Some d \<longrightarrow> is_open (at_state t) \<and> covered h es t d) \<and>
     (\<forall>k s. at_sent t k = Some s \<longrightarrow> EvSent k s \<in> set es) \<and>
     (at_terminal t = None \<longleftrightarrow> \<not> is_terminal (at_state t))"

lemma tracker_okI:
  assumes "at_freshness t = h" and "at_publish t = at_snapshot t"
    and "\<And>d. at_deadline t = Some d \<Longrightarrow> is_open (at_state t) \<and> covered h es t d"
    and "\<And>k s. at_sent t k = Some s \<Longrightarrow> EvSent k s \<in> set es"
    and "at_terminal t = None \<longleftrightarrow> \<not> is_terminal (at_state t)"
  shows "tracker_ok h es t"
  using assms unfolding tracker_ok_def by blast

lemma tracker_okD:
  assumes "tracker_ok h es t"
  shows "at_freshness t = h" "at_publish t = at_snapshot t"
    "\<And>d. at_deadline t = Some d \<Longrightarrow> is_open (at_state t)" "\<And>d. at_deadline t = Some d \<Longrightarrow> covered h es t d"
    "\<And>k s. at_sent t k = Some s \<Longrightarrow> EvSent k s \<in> set es"
    "at_terminal t = None \<longleftrightarrow> \<not> is_terminal (at_state t)"
  using assms unfolding tracker_ok_def by blast+

lemma is_terminal_simps [simp]:
  "is_terminal Revoked" "is_terminal UnknownIdentity" "\<not> is_terminal Starting" "\<not> is_terminal Serving"
  "\<not> is_terminal ServingDisconnected" "\<not> is_terminal Disabled" "\<not> is_terminal Recovering"
  by (simp_all add: is_terminal_def)

lemma tracker_ok_init: "tracker_ok h es (AckTracker_new h)"
  by (rule tracker_okI) (simp_all add: AckTracker_new_def at_snapshot_def)

lemma tracker_ok_snoc: "tracker_ok h es t \<Longrightarrow> tracker_ok h (es @ [e]) t"
  unfolding tracker_ok_def covered_def by (fastforce intro: acknowledged_snoc)

lemma tracker_ok_expire: "tracker_ok h es t \<Longrightarrow> tracker_ok h es (expire now t)"
proof (cases "at_deadline t")
  case (Some d)
  assume ok: "tracker_ok h es t"
  have "tracker_ok h es (transition Disabled (t\<lparr>at_lost_at := Some d\<rparr>))" if "is_open (at_state t)"
    using tracker_okD [OF ok] that is_terminal_not_open [of "at_state t"] by (intro tracker_okI) auto
  then show ?thesis using ok Some by (simp add: expire_def)
qed (simp add: expire_def)

text \<open>A move to another state that is no terminal one: staying open keeps the deadline.\<close>

lemma tracker_ok_transition:
  assumes "tracker_ok h es t" and "\<not> is_terminal (at_state t)" and "\<not> is_terminal to"
  shows "tracker_ok h es (transition to t)"
  using tracker_okD [OF assms(1)] assms(2,3) by (intro tracker_okI) (auto simp: covered_def split: if_splits)

lemma tracker_ok_stream_up: "tracker_ok h es t \<Longrightarrow> tracker_ok h es (stream_up now t)"
  using tracker_ok_transition [of h es "expire now t" Recovering] tracker_ok_expire [of h es t now]
  by (simp add: stream_up_def Let_def)

lemma tracker_ok_stream_down: "tracker_ok h es t \<Longrightarrow> tracker_ok h es (stream_down now t)"
proof -
  assume "tracker_ok h es t"
  then have ok: "tracker_ok h es (expire now t)" by (rule tracker_ok_expire)
  have "tracker_ok h es (transition Disabled ((expire now t)\<lparr>at_lost_at := Some now\<rparr>))" if "at_state (expire now t) = Recovering"
    using tracker_okD [OF ok] that by (intro tracker_okI) auto
  moreover have "tracker_ok h es (transition ServingDisconnected (expire now t))" if "at_state (expire now t) = Serving"
    using tracker_ok_transition [OF ok, of ServingDisconnected] that by simp
  ultimately show ?thesis using ok by (simp add: stream_down_def Let_def split: serving_state.split)
qed

lemma tracker_ok_terminal: "tracker_ok h es t \<Longrightarrow> tracker_ok h es (snd (on_terminal sig t))"
  unfolding on_terminal_def
  by (cases sig) (auto intro!: tracker_okI dest: tracker_okD split: if_splits)

lemma record_sent_at:
  "at_sent (record_sent k now t) j = Some s \<Longrightarrow> at_sent t j = Some s \<or> j = k \<and> s = now"
  by (auto simp: record_sent_def Let_def split: if_splits option.splits)

lemma record_sent_sel [simp]:
  "at_freshness (record_sent k now t) = at_freshness t" "at_publish (record_sent k now t) = at_publish t"
  "at_deadline (record_sent k now t) = at_deadline t" "at_state (record_sent k now t) = at_state t"
  "at_lost_at (record_sent k now t) = at_lost_at t" "at_terminal (record_sent k now t) = at_terminal t"
  "at_closures (record_sent k now t) = at_closures t"
  by (simp_all add: record_sent_def Let_def)

lemma tracker_ok_sent: "tracker_ok h es t \<Longrightarrow> tracker_ok h (es @ [EvSent k now]) (stamp_send (Some k) now t)"
proof -
  assume ok: "tracker_ok h es t"
  note ok' = tracker_ok_snoc [OF ok, of "EvSent k now"]
  have "tracker_ok h (es @ [EvSent k now]) (record_sent k now t)"
    using tracker_okD(1-4,6) [OF ok'] tracker_okD(5) [OF ok] record_sent_at [of k now t]
    by (intro tracker_okI) (fastforce simp: at_snapshot_def covered_def)+
  then show ?thesis using ok' by (cases "k = 0") (simp_all add: stamp_send_def)
qed

lemma on_ack_accepts:
  assumes "on_ack k capable now t0 = (Inr (), t')"
  obtains s where "capable" "at_terminal (expire now t0) = None" "at_sent (expire now t0) k = Some s"
    "case at_lost_at (expire now t0) of None \<Rightarrow> True | Some l \<Rightarrow> l \<le> s"
    "t' = transition Serving ((expire now t0)\<lparr>at_highest_accepted := k, at_latest_accepted_sent_at := Some s,
        at_sent := (\<lambda>j. if j > k then at_sent (expire now t0) j else None),
        at_deadline := Some (case at_deadline (expire now t0) of None \<Rightarrow> s + at_freshness (expire now t0)
                             | Some old \<Rightarrow> max old (s + at_freshness (expire now t0)))\<rparr>)"
  using assms unfolding on_ack_def Let_def by (auto split: if_splits option.splits)

lemma on_ack_rejects: "on_ack k capable now t = (Inl r, t') \<Longrightarrow> t' = expire now t"
  unfolding on_ack_def Let_def by (auto split: if_splits option.splits)

lemma tracker_ok_ack:
  assumes ok: "tracker_ok h es t" and ack: "\<And>s. capable \<Longrightarrow> EvSent k s \<in> set es \<Longrightarrow> acknowledged h es' k s"
    and mono: "\<And>t. tracker_ok h es t \<Longrightarrow> tracker_ok h es' t"
  shows "tracker_ok h es' (snd (on_ack k capable now t))"
proof (cases "on_ack k capable now t")
  case (Pair r t')
  note ok1 = tracker_ok_expire [OF ok, of now]
  show ?thesis
  proof (cases r)
    case (Inl e)
    then show ?thesis using on_ack_rejects [of k capable now t e t'] Pair mono [OF ok1] by simp
  next
    case (Inr u)
    then have acc: "on_ack k capable now t = (Inr (), t')" using Pair by simp
    obtain s where s: capable "at_sent (expire now t) k = Some s"
      "case at_lost_at (expire now t) of None \<Rightarrow> True | Some l \<Rightarrow> l \<le> s"
      and t': "t' = transition Serving ((expire now t)\<lparr>at_highest_accepted := k, at_latest_accepted_sent_at := Some s,
        at_sent := (\<lambda>j. if j > k then at_sent (expire now t) j else None),
        at_deadline := Some (case at_deadline (expire now t) of None \<Rightarrow> s + at_freshness (expire now t)
                             | Some old \<Rightarrow> max old (s + at_freshness (expire now t)))\<rparr>)"
      and none: "at_terminal (expire now t) = None"
      by (rule on_ack_accepts [OF acc]) (rule that)
    note D = tracker_okD [OF mono [OF ok1]]
    have "covered h es' (expire now t) (s + h)"
      unfolding covered_def using ack [OF s(1) tracker_okD(5) [OF ok1 s(2)]] s(3) by blast
    then have "covered h es' (expire now t) (case at_deadline (expire now t) of None \<Rightarrow> s + h | Some old \<Rightarrow> max old (s + h))"
      using D(4) by (auto simp: max_def split: option.split)
    then have "tracker_ok h es' t'"
      unfolding t' using D none by (intro tracker_okI) (auto simp: covered_def split: if_splits)
    then show ?thesis using Pair by simp
  qed
qed

lemma tracker_ok_msg:
  assumes ok: "tracker_ok h es (aw_tracker (authz_run h es))"
  shows "tracker_ok h (es @ [EvMsg i m now1 now2]) (aw_tracker (authz_run h (es @ [EvMsg i m now1 now2])))"
proof -
  let ?w = "authz_run h es" and ?es' = "es @ [EvMsg i m now1 now2]"
  let ?t = "if sa_first_seen (aw_streams ?w i) then aw_tracker ?w else stream_up now1 (aw_tracker ?w)"
  have t: "tracker_ok h es ?t" using ok tracker_ok_stream_up by simp
  have "acknowledged h ?es' k s" if "m = MsgAuthorizationAck k" "sa_capable (aw_streams ?w i)" "EvSent k s \<in> set es" for k s
    unfolding acknowledged_def using that by blast
  then have "tracker_ok h ?es' (snd (on_ack k (sa_capable (aw_streams ?w i)) now2 ?t))" if "m = MsgAuthorizationAck k" for k
    using tracker_ok_ack [OF t] tracker_ok_snoc that by blast
  moreover have "tracker_ok h ?es' ?t" "tracker_ok h ?es' (snd (on_terminal TsRevoked ?t))"
    using tracker_ok_snoc [OF t] tracker_ok_terminal by blast+
  ultimately show ?thesis
    by (cases m) (simp_all add: observe_controller_msg_def Let_def)
qed

lemma tracker_ok_status: "tracker_ok h es t \<Longrightarrow> tracker_ok h es (snd (observe_status m c t))"
  by (auto simp: observe_status_def tracker_ok_terminal split: status_class.split)

lemma tracker_ok_run: "tracker_ok h es (aw_tracker (authz_run h es))"
proof (induction es rule: rev_induct)
  case Nil
  show ?case by (simp add: aw_init_def tracker_ok_init)
next
  case (snoc e es)
  note ok = tracker_ok_snoc [OF snoc, of e]
  show ?case
  proof (cases e)
    case (EvMsg i m now1 now2)
    then show ?thesis using tracker_ok_msg [OF snoc] by simp
  next
    case (EvSent k now)
    then show ?thesis using tracker_ok_sent [OF snoc] by simp
  next
    case EvSeq
    then show ?thesis using ok by (auto simp: next_seq_def tracker_ok_def covered_def at_snapshot_def)
  next
    case EvReplacement
    then show ?thesis using ok by (auto simp: next_seq_def seq_for_replacement_def tracker_ok_def covered_def at_snapshot_def)
  qed (use ok in \<open>simp_all add: tracker_ok_stream_down tracker_ok_expire tracker_ok_status\<close>)
qed


section \<open>Terminal signals\<close>

lemma expire_terminal [simp]: "at_terminal (expire now t) = at_terminal t"
  by (simp add: expire_def split: option.split)

lemma stream_up_terminal [simp]: "at_terminal (stream_up now t) = at_terminal t"
  by (simp add: stream_up_def Let_def)

lemma stream_down_terminal [simp]: "at_terminal (stream_down now t) = at_terminal t"
  by (simp add: stream_down_def Let_def split: serving_state.split)

lemma on_ack_terminal [simp]: "at_terminal (snd (on_ack k c now t)) = at_terminal t"
proof (cases "on_ack k c now t")
  case (Pair r t')
  show ?thesis
  proof (cases r)
    case (Inl e)
    then show ?thesis using Pair on_ack_rejects [of k c now t e t'] by simp
  next
    case (Inr u)
    then have "on_ack k c now t = (Inr (), t')" using Pair by simp
    then have "at_terminal t' = at_terminal t" by (rule on_ack_accepts) simp
    then show ?thesis using Pair by simp
  qed
qed

lemma on_terminal_None [simp]: "at_terminal (snd (on_terminal sig t)) \<noteq> None"
  by (cases sig) (auto simp: on_terminal_def)

lemma stamp_send_terminal [simp]: "at_terminal (stamp_send k now t) = at_terminal t"
  by (simp add: stamp_send_def split: option.split)

lemma apply_terminal:
  "at_terminal (aw_tracker (authz_apply e w)) = None \<longleftrightarrow> at_terminal (aw_tracker w) = None \<and> \<not> terminal_event e"
proof (cases e)
  case (EvMsg i m now1 now2)
  then show ?thesis by (cases m) (auto simp: observe_controller_msg_def Let_def simp del: not_None_eq)
next
  case (EvStatus m)
  then show ?thesis
    by (auto simp: observe_status_def classify_status_def MARKER_REVOKED_def MARKER_UNKNOWN_def simp del: not_None_eq)
qed (auto simp: next_seq_def seq_for_replacement_def)

lemma run_terminal:
  "at_terminal (aw_tracker (authz_run h es)) = None \<longleftrightarrow> \<not> (\<exists>e\<in>set es. terminal_event e)"
  by (induction es rule: rev_induct) (auto simp: apply_terminal aw_init_def AckTracker_new_def simp del: not_None_eq)

section \<open>Serving\<close>

text \<open>
  C26. Whatever order messages, sends, stream ends, statuses and the expiry timer come in: the published
  snapshot admits traffic at an instant only if no terminal signal has been received, and the
  controller acknowledged, on a stream that had asserted the authorization capability, a request
  that was sent less than the freshness bound before that instant and not before authorization was
  last lost.
\<close>

theorem serving_is_acknowledged:
  assumes "admits (at_publish (aw_tracker (authz_run h es))) now"
  shows "\<not> (\<exists>e\<in>set es. terminal_event e) \<and>
    (\<exists>k s. acknowledged h es k s \<and> now < s + h \<and>
       (case at_lost_at (aw_tracker (authz_run h es)) of None \<Rightarrow> True | Some l \<Rightarrow> l \<le> s))"
proof -
  let ?t = "aw_tracker (authz_run h es)"
  note D = tracker_okD [OF tracker_ok_run [of h es]]
  from assms obtain d where d: "at_deadline ?t = Some d" "now < d" and op: "is_open (at_state ?t)"
    unfolding D(2) by (auto simp: admits_def at_snapshot_def split: option.splits)
  have "at_terminal ?t = None" using D(6) op is_terminal_not_open by blast
  then show ?thesis using D(4) [OF d(1)] d(2) unfolding run_terminal covered_def by blast
qed

definition ex_authz :: "authz_event list" where
  "ex_authz = [EvOpen 0, EvMsg 0 (MsgAgentPolicy True) 0 0, EvSeq, EvSent 1 10, EvMsg 0 (MsgAuthorizationAck 1) 12 12, EvDown 14]"

theorem serving_is_acknowledged_witness:
  "admits (at_publish (aw_tracker (authz_run 15 ex_authz))) 24 \<and>
   \<not> admits (at_publish (aw_tracker (authz_run 15 ex_authz))) 25 \<and> (\<exists>k s. acknowledged 15 ex_authz k s \<and> 24 < s + 15)"
proof -
  have "admits (at_publish (aw_tracker (authz_run 15 ex_authz))) 24" by code_simp
  moreover have "\<not> admits (at_publish (aw_tracker (authz_run 15 ex_authz))) 25" by code_simp
  ultimately show ?thesis using serving_is_acknowledged [of 15 ex_authz 24] by blast
qed


text \<open>
  A re-send keeps the instant of the first send only while that one is younger than the freshness
  bound: the re-send that finds it older prunes it, and the next one counts as the first.
\<close>

lemma resend_after_pruning:
  "0 < h \<Longrightarrow> at_sent (record_sent 1 (h + 1) (record_sent 1 h (record_sent 1 0 (AckTracker_new h)))) 1 = Some (h + 1)"
  by (simp add: record_sent_def AckTracker_new_def)

end
