(* ===== verification/Conn_Sessions.thy ===== *)
theory Conn_Sessions
  imports Conn_Policy Conn_Authz_Correct Zec_Interfaces
begin

text \<open>
  The tasks of a connector running against each other: handlers of device streams, pushes of access
  lists, the serving state machine and the enforcer, each step one critical section. The result is
  that no session survives the loss of what admitted it.
\<close>

section \<open>Facts of the parts\<close>

lemma sessions_under_register:
  "sessions_under (register k tr i r) k' = (if k' = k then AList.update i tr (sessions_under r k) else sessions_under r k')"
  by (simp add: sessions_under_def register_def map_of_Cons_code update_conv')

definition registered :: "session_registry \<Rightarrow> session_key \<Rightarrow> session_id \<Rightarrow> bool" where
  "registered r k i \<longleftrightarrow> i \<in> set (map fst (sessions_under r k))"

lemma registered_register [simp]:
  "registered (register k tr i r) k' j \<longleftrightarrow> registered r k' j \<or> k' = k \<and> j = i"
proof (cases "k' = k")
  case True
  have "set (map fst (AList.update i tr (sessions_under r k))) = insert i (set (map fst (sessions_under r k)))"
    using dom_update [of i tr "sessions_under r k"] by simp
  then show ?thesis using True unfolding registered_def sessions_under_register by auto
qed (simp add: registered_def sessions_under_register)

lemma registered_cancel [simp]:
  "registered (cancel_token i r) = registered r" "registered (cancel_all k r) = registered r"
  "registered (cancel_every_session r) = registered r"
  by (simp_all add: registered_def [abs_def] sessions_under_def cancel_token_def cancel_all_def cancel_every_session_def)

lemma registered_sweep [simp]: "registered (guard_sweep k r) = registered r"
proof -
  have "sessions_under (guard_sweep k r) k' = sessions_under r k'" for k'
    by (simp add: sessions_under_def guard_sweep_def delete_conv')
  then show ?thesis by (simp add: registered_def [abs_def])
qed

lemma registered_remove: "registered r k' j \<Longrightarrow> j \<noteq> i \<Longrightarrow> registered (guard_remove k i r) k' j"
  by (auto simp: registered_def sessions_under_def guard_remove_def update_conv' AList.delete_eq image_iff split: option.splits if_splits)

lemma cancelled_simps [simp]:
  "sr_cancelled (guard_sweep k r) = sr_cancelled r"
  "sr_cancelled (guard_remove k i r) = sr_cancelled r"
  "sr_cancelled (register k tr i r) = (sr_cancelled r)(i := False)"
  "sr_cancelled (cancel_token i r) = (sr_cancelled r)(i := True)"
  by (auto simp: guard_sweep_def guard_remove_def register_def cancel_token_def split: option.split)

lemma cancelled_all: "sr_cancelled (cancel_all k r) i \<longleftrightarrow> registered r k i \<or> sr_cancelled r i"
  by (simp add: cancel_all_def registered_def)

lemma cancelled_every:
  assumes "registered r k i"
  shows "sr_cancelled (cancel_every_session r) i"
proof -
  obtain m where "map_of (sr_inner r) k = Some m" "i \<in> set (map fst m)"
    using assms by (cases "map_of (sr_inner r) k") (simp_all add: registered_def sessions_under_def)
  then have "(k, m) \<in> set (sr_inner r)" "i \<in> set (map fst (snd (k, m)))" by (simp_all add: map_of_SomeD)
  then have "\<exists>e\<in>set (sr_inner r). i \<in> set (map fst (snd e))" by blast
  then show ?thesis by (simp add: cancel_every_session_def)
qed

lemma cancelled_every_mono: "sr_cancelled r i \<Longrightarrow> sr_cancelled (cancel_every_session r) i"
  by (simp add: cancel_every_session_def)

section \<open>Access lists\<close>

definition unique_resources :: "acl_snapshot \<Rightarrow> bool" where
  "unique_resources s \<longleftrightarrow> distinct (map ae_ResourceId (as_Entries s))"

lemma find_SomeD: "find P xs = Some x \<Longrightarrow> x \<in> set xs \<and> P x"
  by (auto simp: find_Some_iff)

lemma is_allowed_entry:
  assumes "is_allowed (Some s) rid sp"
  obtains e where "e \<in> set (as_Entries s)" "ae_ResourceId e = rid" "sp \<in> set (ae_AllowedSpiffeIds e)"
  using assms by (auto simp: is_allowed_def find_entry_by_id_def split: option.splits dest!: find_SomeD)

lemma is_allowed_allow_list: "is_allowed (Some s) rid sp \<Longrightarrow> (sp, rid) \<in> set (allow_list s)"
  by (erule is_allowed_entry) (auto simp: allow_list_def)

lemma allow_list_is_allowed:
  assumes "unique_resources s" and "(sp, rid) \<in> set (allow_list s)"
  shows "is_allowed (Some s) rid sp"
proof -
  from assms(2) obtain e where e: "e \<in> set (as_Entries s)" "ae_ResourceId e = rid" "sp \<in> set (ae_AllowedSpiffeIds e)"
    by (auto simp: allow_list_def)
  have "find (\<lambda>x. ae_ResourceId x = rid) (as_Entries s) = Some e"
  proof (cases "find (\<lambda>x. ae_ResourceId x = rid) (as_Entries s)")
    case (Some x)
    then have "x \<in> set (as_Entries s)" "ae_ResourceId x = rid" by (auto dest: find_SomeD)
    then show ?thesis using distinct_key_eq [OF assms(1) [unfolded unique_resources_def], of x e] e Some by simp
  qed (use e in \<open>auto simp: find_None_iff\<close>)
  then show ?thesis using e by (auto simp: is_allowed_def find_entry_by_id_def)
qed

text \<open>What a push takes away, it reports.\<close>

lemma update_reports:
  assumes "is_allowed cache rid sp" and "unique_resources snapshot" and "\<not> is_allowed (Some snapshot) rid sp"
  shows "(sp, rid) \<in> set (fst (update_and_revoked snapshot cache))"
proof -
  obtain s where s: "cache = Some s" using assms(1) by (cases cache) (simp_all add: is_allowed_def)
  have "(sp, rid) \<notin> set (allow_list snapshot)" using allow_list_is_allowed [OF assms(2)] assms(3) by blast
  then show ?thesis using is_allowed_allow_list assms(1) by (simp add: update_and_revoked_def s)
qed

section \<open>Closing\<close>

text \<open>Every event that closes the data plane is counted.\<close>

definition counts_closures :: "ack_tracker \<Rightarrow> ack_tracker \<Rightarrow> bool" where
  "counts_closures t t' \<longleftrightarrow> at_closures t \<le> at_closures t' \<and>
     (is_open (at_state t) \<and> at_closures t' = at_closures t \<longrightarrow> is_open (at_state t')) \<and>
     (is_terminal (at_state t) \<longrightarrow> is_terminal (at_state t'))"

lemma counts_refl [simp]: "counts_closures t t"
  by (simp add: counts_closures_def)

lemma counts_trans: "counts_closures t u \<Longrightarrow> counts_closures u v \<Longrightarrow> counts_closures t v"
  by (auto simp: counts_closures_def)

lemma counts_transition: "\<not> is_terminal (at_state t) \<or> is_terminal to \<Longrightarrow> counts_closures t (transition to t)"
  by (auto simp: counts_closures_def)

lemma counts_expire: "counts_closures t (expire now t)"
  using is_terminal_not_open [of "at_state t"]
  by (auto simp: expire_def counts_closures_def split: option.split)

lemma counts_stream_up: "counts_closures t (stream_up now t)"
  by (auto simp: stream_up_def Let_def intro!: counts_expire counts_trans [OF counts_expire counts_transition])

lemma counts_stream_down: "counts_closures t (stream_down now t)"
proof -
  have "counts_closures (expire now t) (transition Disabled ((expire now t)\<lparr>at_lost_at := Some now\<rparr>))"
    if "at_state (expire now t) = Recovering" using that by (simp add: counts_closures_def)
  then show ?thesis
    by (auto simp: stream_down_def Let_def split: serving_state.split
        intro!: counts_expire counts_trans [OF counts_expire counts_transition] intro: counts_trans [OF counts_expire])
qed

lemma counts_on_terminal:
  assumes "at_terminal t = None \<longleftrightarrow> \<not> is_terminal (at_state t)"
  shows "counts_closures t (snd (on_terminal sig t))"
  using assms by (cases sig) (auto simp: on_terminal_def counts_closures_def)

lemma counts_on_ack:
  assumes "at_terminal t = None \<longleftrightarrow> \<not> is_terminal (at_state t)"
  shows "counts_closures t (snd (on_ack k c now t))"
proof (cases "on_ack k c now t")
  case (Pair r t')
  show ?thesis
  proof (cases r)
    case (Inl e)
    then show ?thesis using Pair on_ack_rejects [of k c now t e t'] counts_expire by simp
  next
    case (Inr u)
    then have "on_ack k c now t = (Inr (), t')" using Pair by simp
    then obtain s where n: "at_terminal (expire now t) = None"
      and t': "at_closures t' = at_closures (expire now t)" "at_state t' = Serving"
      by (rule on_ack_accepts) simp
    have "\<not> is_terminal (at_state t)" using n assms by simp
    then have "counts_closures t t'" using counts_expire [of t now] t' by (auto simp: counts_closures_def)
    then show ?thesis using Pair by simp
  qed
qed

lemma counts_apply:
  assumes "tracker_ok h es (aw_tracker w)"
  shows "counts_closures (aw_tracker w) (aw_tracker (authz_apply e w))"
proof -
  note T = tracker_okD(6) [OF assms]
  have T': "at_terminal (stream_up now (aw_tracker w)) = None \<longleftrightarrow> \<not> is_terminal (at_state (stream_up now (aw_tracker w)))" for now
    using tracker_okD(6) [OF tracker_ok_stream_up [OF assms]] .
  show ?thesis
  proof (cases e)
    case (EvMsg i m now1 now2)
    show ?thesis
    proof (cases "sa_first_seen (aw_streams w i)")
      case True
      then show ?thesis using EvMsg counts_on_ack [OF T] counts_on_terminal [OF T]
        by (cases m) (simp_all add: observe_controller_msg_def Let_def)
    next
      case False
      then show ?thesis
        using EvMsg counts_trans [OF counts_stream_up counts_on_ack [OF T']] counts_trans [OF counts_stream_up counts_on_terminal [OF T']]
          counts_stream_up
        by (cases m) (simp_all add: observe_controller_msg_def Let_def)
    qed
  next
    case (EvSent k now)
    then show ?thesis by (simp add: stamp_send_def counts_closures_def)
  next
    case (EvStatus m)
    then show ?thesis using counts_on_terminal [OF T] by (simp add: observe_status_def split: status_class.split)
  next
    case EvSeq
    then show ?thesis by (simp add: next_seq_def counts_closures_def)
  next
    case EvReplacement
    then show ?thesis by (simp add: next_seq_def seq_for_replacement_def counts_closures_def)
  qed (simp_all add: counts_stream_down counts_expire)
qed


section \<open>The machine\<close>

datatype handler_phase = PhDecided | PhRegistered | PhRechecked | PhLive

text \<open>\<open>hd_gen\<close> is the number of closures the handler saw at its second gate.\<close>

record handler =
  hd_spiffe :: string
  hd_acl :: resource_acl
  hd_req :: tunnel_request
  hd_phase :: handler_phase
  hd_gen :: nat

definition hd_key :: "handler \<Rightarrow> session_key" where "hd_key hn = (hd_spiffe hn, ra_resource_id (hd_acl hn))"

text \<open>
  \<open>cs_pending\<close> are the cancellations that pushes in progress still have to make, \<open>cs_todo\<close> what the
  enforcer still has to do in its turn.
\<close>

record conn_state =
  cs_events :: "authz_event list"
  cs_cache :: policy_cache
  cs_registry :: session_registry
  cs_handlers :: "session_id \<rightharpoonup> handler"
  cs_pending :: "session_key list"
  cs_seen :: nat
  cs_terminal_done :: bool
  cs_todo :: "enforcement list"

abbreviation cs_tracker :: "duration \<Rightarrow> conn_state \<Rightarrow> ack_tracker" where
  "cs_tracker h s \<equiv> aw_tracker (authz_run h (cs_events s))"

definition conn_init :: "conn_state \<Rightarrow> bool" where
  "conn_init s \<longleftrightarrow> cs_events s = [] \<and> cs_cache s = None \<and> cs_registry s = registry_new \<and> cs_handlers s = Map.empty \<and>
     cs_pending s = [] \<and> cs_seen s = 0 \<and> \<not> cs_terminal_done s \<and> cs_todo s = []"

fun enforce :: "enforcement \<Rightarrow> conn_state \<Rightarrow> conn_state" where
  "enforce CancelEvery s = s\<lparr>cs_registry := cancel_every_session (cs_registry s)\<rparr>"
| "enforce CloseShields s = s"
| "enforce ClearAcl s = s\<lparr>cs_cache := policy_clear (cs_cache s)\<rparr>"

inductive conn_step :: "duration \<Rightarrow> conn_state \<Rightarrow> conn_state \<Rightarrow> bool" for h where
  st_authz: "conn_step h s (s\<lparr>cs_events := cs_events s @ [e]\<rparr>)"
| st_push: "unique_resources snap \<Longrightarrow> update_and_revoked snap (cs_cache s) = (revoked, cache') \<Longrightarrow>
     conn_step h s (s\<lparr>cs_cache := cache', cs_pending := cs_pending s @ revoked\<rparr>)"
| st_cancel: "cs_pending s = xs @ k # ys \<Longrightarrow>
     conn_step h s (s\<lparr>cs_registry := cancel_all k (cs_registry s), cs_pending := xs @ ys\<rparr>)"
| st_turn: "cs_todo s = [] \<Longrightarrow> enforcer_turn (at_publish (cs_tracker h s)) (cs_seen s, cs_terminal_done s) = (acts, seen, td) \<Longrightarrow>
     conn_step h s (s\<lparr>cs_todo := acts, cs_seen := seen, cs_terminal_done := td\<rparr>)"
| st_enforce: "cs_todo s = a # as \<Longrightarrow> conn_step h s (enforce a (s\<lparr>cs_todo := as\<rparr>))"
| st_decide: "cs_handlers s i = None \<Longrightarrow> (\<And>k. \<not> registered (cs_registry s) k i) \<Longrightarrow>
     stream_decide (at_publish (cs_tracker h s)) now status (cs_cache s) spiffe req = Inr acl \<Longrightarrow>
     conn_step h s (s\<lparr>cs_handlers := (cs_handlers s)(i \<mapsto>
       \<lparr>hd_spiffe = spiffe, hd_acl = acl, hd_req = req, hd_phase = PhDecided, hd_gen = 0\<rparr>)\<rparr>)"
| st_register: "cs_handlers s i = Some hn \<Longrightarrow> hd_phase hn = PhDecided \<Longrightarrow>
     conn_step h s (s\<lparr>cs_registry := stream_register (hd_spiffe hn) transport (hd_acl hn) i (cs_registry s),
       cs_handlers := (cs_handlers s)(i \<mapsto> hn\<lparr>hd_phase := PhRegistered\<rparr>)\<rparr>)"
| st_recheck: "cs_handlers s i = Some hn \<Longrightarrow> hd_phase hn = PhRegistered \<Longrightarrow>
     conn_step h s (s\<lparr>cs_registry := stream_recheck (cs_cache s) (hd_key hn) i (cs_registry s),
       cs_handlers := (cs_handlers s)(i \<mapsto> hn\<lparr>hd_phase := PhRechecked\<rparr>)\<rparr>)"
| st_gate: "cs_handlers s i = Some hn \<Longrightarrow> hd_phase hn = PhRechecked \<Longrightarrow> admits (at_publish (cs_tracker h s)) now \<Longrightarrow>
     conn_step h s (s\<lparr>cs_handlers := (cs_handlers s)(i \<mapsto>
       hn\<lparr>hd_phase := PhLive, hd_gen := az_closures (at_publish (cs_tracker h s))\<rparr>)\<rparr>)"
| st_end: "cs_handlers s i = Some hn \<Longrightarrow>
     conn_step h s (s\<lparr>cs_registry := guard_remove (hd_key hn) i (cs_registry s), cs_handlers := (cs_handlers s)(i := None)\<rparr>)"
| st_sweep: "conn_step h s (s\<lparr>cs_registry := guard_sweep k (cs_registry s)\<rparr>)"


section \<open>The invariant\<close>

definition live_ok :: "nat \<Rightarrow> ack_tracker \<Rightarrow> nat \<Rightarrow> enforcement list \<Rightarrow> bool" where
  "live_ok gen t seen todo \<longleftrightarrow> gen \<le> at_closures t \<and> (gen = at_closures t \<longrightarrow> is_open (at_state t)) \<and>
     (gen < at_closures t \<longrightarrow> seen < at_closures t \<or> CancelEvery \<in> set todo)"

lemma live_ok_counts:
  assumes "live_ok gen t seen todo" and "counts_closures t t'" and "seen \<le> at_closures t"
  shows "live_ok gen t' seen todo"
proof (cases "at_closures t' = at_closures t")
  case True
  then show ?thesis using assms by (simp add: live_ok_def counts_closures_def)
next
  case False
  then have "at_closures t < at_closures t'" using assms(2) by (simp add: counts_closures_def)
  then show ?thesis using assms(1,3) by (auto simp: live_ok_def)
qed

definition handler_ok :: "duration \<Rightarrow> conn_state \<Rightarrow> session_id \<Rightarrow> handler \<Rightarrow> bool" where
  "handler_ok h s i hn \<longleftrightarrow>
     (hd_phase hn \<noteq> PhDecided \<longrightarrow> registered (cs_registry s) (hd_key hn) i) \<and>
     (hd_phase hn = PhRechecked \<or> hd_phase hn = PhLive \<longrightarrow> sr_cancelled (cs_registry s) i \<or>
        is_allowed (cs_cache s) (snd (hd_key hn)) (fst (hd_key hn)) \<or> hd_key hn \<in> set (cs_pending s) \<or>
        is_terminal (at_state (cs_tracker h s))) \<and>
     (hd_phase hn = PhLive \<longrightarrow>
        sr_cancelled (cs_registry s) i \<or> live_ok (hd_gen hn) (cs_tracker h s) (cs_seen s) (cs_todo s))"

definition conn_inv :: "duration \<Rightarrow> conn_state \<Rightarrow> bool" where
  "conn_inv h s \<longleftrightarrow> cs_seen s \<le> at_closures (cs_tracker h s) \<and>
     (ClearAcl \<in> set (cs_todo s) \<longrightarrow> is_terminal (at_state (cs_tracker h s))) \<and>
     (\<forall>i hn. cs_handlers s i = Some hn \<longrightarrow> handler_ok h s i hn)"

lemma conn_invI:
  assumes "cs_seen s \<le> at_closures (cs_tracker h s)"
    and "ClearAcl \<in> set (cs_todo s) \<Longrightarrow> is_terminal (at_state (cs_tracker h s))"
    and "\<And>i hn. cs_handlers s i = Some hn \<Longrightarrow> handler_ok h s i hn"
  shows "conn_inv h s"
  using assms by (simp add: conn_inv_def)

lemma conn_invD:
  assumes "conn_inv h s"
  shows "cs_seen s \<le> at_closures (cs_tracker h s)" "ClearAcl \<in> set (cs_todo s) \<Longrightarrow> is_terminal (at_state (cs_tracker h s))"
    "\<And>i hn. cs_handlers s i = Some hn \<Longrightarrow> handler_ok h s i hn"
  using assms by (auto simp: conn_inv_def)

lemma inv_authz:
  assumes inv: "conn_inv h s"
  shows "conn_inv h (s\<lparr>cs_events := cs_events s @ [e]\<rparr>)"
proof (rule conn_invI)
  let ?s' = "s\<lparr>cs_events := cs_events s @ [e]\<rparr>"
  have c: "counts_closures (cs_tracker h s) (cs_tracker h ?s')"
    using counts_apply [OF tracker_ok_run [of h "cs_events s"], of e] by simp
  have tm: "is_terminal (at_state (cs_tracker h s)) \<Longrightarrow> is_terminal (at_state (cs_tracker h ?s'))"
    using c unfolding counts_closures_def by blast
  show "cs_seen ?s' \<le> at_closures (cs_tracker h ?s')" using conn_invD(1) [OF inv] c by (simp add: counts_closures_def)
  show "is_terminal (at_state (cs_tracker h ?s'))" if "ClearAcl \<in> set (cs_todo ?s')"
    using conn_invD(2) [OF inv] that tm by simp
  show "handler_ok h ?s' i hn" if "cs_handlers ?s' i = Some hn" for i hn
  proof -
    have ok: "handler_ok h s i hn" using conn_invD(3) [OF inv] that by simp
    note live = live_ok_counts [OF _ c conn_invD(1) [OF inv]]
    have sel: "cs_registry ?s' = cs_registry s" "cs_cache ?s' = cs_cache s" "cs_pending ?s' = cs_pending s"
      "cs_seen ?s' = cs_seen s" "cs_todo ?s' = cs_todo s" by simp_all
    show ?thesis using ok tm live unfolding handler_ok_def sel by blast
  qed
qed

lemma inv_push:
  assumes inv: "conn_inv h s" and "unique_resources snap" and u: "update_and_revoked snap (cs_cache s) = (revoked, cache')"
  shows "conn_inv h (s\<lparr>cs_cache := cache', cs_pending := cs_pending s @ revoked\<rparr>)"
proof (rule conn_invI)
  have c: "cache' = Some snap" using u by (simp add: update_and_revoked_def)
  have "is_allowed cache' rid sp \<or> (sp, rid) \<in> set revoked" if "is_allowed (cs_cache s) rid sp" for rid sp
    using update_reports [OF that assms(2)] u c by fastforce
  then show "handler_ok h (s\<lparr>cs_cache := cache', cs_pending := cs_pending s @ revoked\<rparr>) i hn"
    if "cs_handlers (s\<lparr>cs_cache := cache', cs_pending := cs_pending s @ revoked\<rparr>) i = Some hn" for i hn
    using conn_invD(3) [OF inv, of i hn] that unfolding handler_ok_def hd_key_def by auto
qed (use conn_invD [OF inv] in simp_all)

lemma inv_cancel:
  assumes inv: "conn_inv h s" and p: "cs_pending s = xs @ k # ys"
  shows "conn_inv h (s\<lparr>cs_registry := cancel_all k (cs_registry s), cs_pending := xs @ ys\<rparr>)"
proof (rule conn_invI)
  show "handler_ok h (s\<lparr>cs_registry := cancel_all k (cs_registry s), cs_pending := xs @ ys\<rparr>) i hn"
    if "cs_handlers (s\<lparr>cs_registry := cancel_all k (cs_registry s), cs_pending := xs @ ys\<rparr>) i = Some hn" for i hn
    using conn_invD(3) [OF inv, of i hn] that p unfolding handler_ok_def by (auto simp: cancelled_all)
qed (use conn_invD [OF inv] in simp_all)

lemma inv_turn:
  assumes inv: "conn_inv h s" and "cs_todo s = []"
    and t: "enforcer_turn (at_publish (cs_tracker h s)) (cs_seen s, cs_terminal_done s) = (acts, seen, td)"
  shows "conn_inv h (s\<lparr>cs_todo := acts, cs_seen := seen, cs_terminal_done := td\<rparr>)"
proof (rule conn_invI)
  have pub: "at_publish (cs_tracker h s) = at_snapshot (cs_tracker h s)" using tracker_okD(2) [OF tracker_ok_run] .
  have seen: "seen = at_closures (cs_tracker h s)" and
    acts: "cs_seen s \<noteq> seen \<Longrightarrow> CancelEvery \<in> set acts" "ClearAcl \<in> set acts \<Longrightarrow> is_terminal (at_state (cs_tracker h s))"
    using t unfolding pub by (auto simp: enforcer_turn_def at_snapshot_def split: if_splits)
  show "cs_seen (s\<lparr>cs_todo := acts, cs_seen := seen, cs_terminal_done := td\<rparr>)
      \<le> at_closures (cs_tracker h (s\<lparr>cs_todo := acts, cs_seen := seen, cs_terminal_done := td\<rparr>))" using seen by simp
  show "is_terminal (at_state (cs_tracker h (s\<lparr>cs_todo := acts, cs_seen := seen, cs_terminal_done := td\<rparr>)))"
    if "ClearAcl \<in> set (cs_todo (s\<lparr>cs_todo := acts, cs_seen := seen, cs_terminal_done := td\<rparr>))" using that acts(2) by simp
  show "handler_ok h (s\<lparr>cs_todo := acts, cs_seen := seen, cs_terminal_done := td\<rparr>) i hn"
    if "cs_handlers (s\<lparr>cs_todo := acts, cs_seen := seen, cs_terminal_done := td\<rparr>) i = Some hn" for i hn
    using conn_invD(3) [OF inv, of i hn] that assms(2) acts(1) seen unfolding handler_ok_def live_ok_def by auto
qed

lemma inv_enforce:
  assumes inv: "conn_inv h s" and todo: "cs_todo s = a # as"
  shows "conn_inv h (enforce a (s\<lparr>cs_todo := as\<rparr>))"
proof (cases a)
  case CancelEvery
  have "handler_ok h (enforce a (s\<lparr>cs_todo := as\<rparr>)) i hn" if "cs_handlers s i = Some hn" for i hn
    using conn_invD(3) [OF inv that] cancelled_every [of "cs_registry s" "hd_key hn" i] unfolding handler_ok_def CancelEvery by auto
  then show ?thesis using conn_invD [OF inv] todo CancelEvery by (intro conn_invI) auto
next
  case CloseShields
  then show ?thesis using conn_invD [OF inv] todo by (intro conn_invI) (auto simp: handler_ok_def live_ok_def)
next
  case ClearAcl
  then show ?thesis using conn_invD [OF inv] todo by (intro conn_invI) (auto simp: handler_ok_def live_ok_def)
qed

text \<open>A step of handler \<open>i\<close> that leaves every other session's entry and token alone.\<close>

lemma inv_handler:
  assumes inv: "conn_inv h s"
    and reg: "\<And>j k. j \<noteq> i \<Longrightarrow> registered (cs_registry s) k j \<Longrightarrow> registered r' k j"
    and can: "\<And>j. j \<noteq> i \<Longrightarrow> sr_cancelled r' j = sr_cancelled (cs_registry s) j"
    and own: "\<And>hn. x = Some hn \<Longrightarrow> handler_ok h (s\<lparr>cs_registry := r', cs_handlers := (cs_handlers s)(i := x)\<rparr>) i hn"
  shows "conn_inv h (s\<lparr>cs_registry := r', cs_handlers := (cs_handlers s)(i := x)\<rparr>)"
proof (rule conn_invI)
  let ?s' = "s\<lparr>cs_registry := r', cs_handlers := (cs_handlers s)(i := x)\<rparr>"
  show "handler_ok h ?s' j hn" if j: "cs_handlers ?s' j = Some hn" for j hn
  proof (cases "j = i")
    case True
    then show ?thesis using own j by simp
  next
    case False
    then have "handler_ok h s j hn" using conn_invD(3) [OF inv] j by simp
    then show ?thesis using reg [OF False, of "hd_key hn"] can [OF False] by (simp add: handler_ok_def)
  qed
qed (use conn_invD [OF inv] in simp_all)

lemma inv_decide:
  assumes "conn_inv h s" and "hd_phase hn = PhDecided"
  shows "conn_inv h (s\<lparr>cs_handlers := (cs_handlers s)(i \<mapsto> hn)\<rparr>)"
  using inv_handler [OF assms(1), of i "cs_registry s" "Some hn"] assms(2) by (simp add: handler_ok_def)

lemma inv_register:
  assumes "conn_inv h s"
  shows "conn_inv h (s\<lparr>cs_registry := stream_register (hd_spiffe hn) tr (hd_acl hn) i (cs_registry s),
           cs_handlers := (cs_handlers s)(i \<mapsto> hn\<lparr>hd_phase := PhRegistered\<rparr>)\<rparr>)"
  by (rule inv_handler [OF assms]) (simp_all add: stream_register_def handler_ok_def hd_key_def)

lemma inv_recheck:
  assumes inv: "conn_inv h s" and hn: "cs_handlers s i = Some hn" "hd_phase hn = PhRegistered"
  shows "conn_inv h (s\<lparr>cs_registry := stream_recheck (cs_cache s) (hd_key hn) i (cs_registry s),
           cs_handlers := (cs_handlers s)(i \<mapsto> hn\<lparr>hd_phase := PhRechecked\<rparr>)\<rparr>)"
  using conn_invD(3) [OF inv hn(1)] hn(2)
  by (intro inv_handler [OF inv]) (auto simp: stream_recheck_def handler_ok_def hd_key_def)

lemma inv_gate:
  assumes inv: "conn_inv h s" and hn: "cs_handlers s i = Some hn" "hd_phase hn = PhRechecked"
    and open_gate: "admits (at_publish (cs_tracker h s)) now"
  shows "conn_inv h (s\<lparr>cs_handlers := (cs_handlers s)(i \<mapsto>
           hn\<lparr>hd_phase := PhLive, hd_gen := az_closures (at_publish (cs_tracker h s))\<rparr>)\<rparr>)"
proof -
  have pub: "at_publish (cs_tracker h s) = at_snapshot (cs_tracker h s)" using tracker_okD(2) [OF tracker_ok_run] .
  have "is_open (at_state (cs_tracker h s))" using open_gate unfolding pub by (simp add: admits_def at_snapshot_def)
  then have "handler_ok h (s\<lparr>cs_registry := cs_registry s, cs_handlers := (cs_handlers s)(i \<mapsto>
      hn\<lparr>hd_phase := PhLive, hd_gen := at_closures (cs_tracker h s)\<rparr>)\<rparr>) i (hn\<lparr>hd_phase := PhLive, hd_gen := at_closures (cs_tracker h s)\<rparr>)"
    using conn_invD(3) [OF inv hn(1)] hn(2) by (auto simp: handler_ok_def hd_key_def live_ok_def)
  then show ?thesis
    using inv_handler [OF inv, of i "cs_registry s" "Some (hn\<lparr>hd_phase := PhLive, hd_gen := at_closures (cs_tracker h s)\<rparr>)"]
    by (simp add: pub at_snapshot_def)
qed

lemma inv_end:
  assumes "conn_inv h s"
  shows "conn_inv h (s\<lparr>cs_registry := guard_remove k i (cs_registry s), cs_handlers := (cs_handlers s)(i := None)\<rparr>)"
  using inv_handler [OF assms, of i "guard_remove k i (cs_registry s)" None] by (simp add: registered_remove)

lemma inv_sweep: "conn_inv h s \<Longrightarrow> conn_inv h (s\<lparr>cs_registry := guard_sweep k (cs_registry s)\<rparr>)"
  by (simp add: conn_inv_def handler_ok_def)

lemma conn_inv_step: "conn_step h s s' \<Longrightarrow> conn_inv h s \<Longrightarrow> conn_inv h s'"
proof (induction rule: conn_step.induct)
  case (st_decide s i now status spiffe req acl)
  then show ?case by (intro inv_decide) simp_all
qed (rule inv_authz inv_push inv_cancel inv_turn inv_enforce inv_register inv_recheck inv_gate inv_end inv_sweep; assumption)+

interpretation conn: inductive_invariant conn_init "conn_step h" "conn_inv h" for h
proof
  fix s
  assume "conn_init s"
  then show "conn_inv h s" by (simp add: conn_init_def conn_inv_def aw_init_def AckTracker_new_def)
qed (rule conn_inv_step)

end
