(* ===== verification/Conn_Claims.thy ===== *)
theory Conn_Claims
  imports Conn_Sessions Acl_Isolation
begin

text \<open>
  The claims on the sessions of a connector, alone and composed with the controller's compiler.
\<close>

section \<open>An example run\<close>

text \<open>
  The connector is authorized, gets an access list, decides on a stream, and only then gets a list in
  which the resource has moved to another port. The push has nothing to cancel yet; the handler
  registers, finds its pair still allowed, and goes live.
\<close>

definition ex_ce :: "nat \<Rightarrow> acl_entry" where
  "ex_ce port = \<lparr>ae_ResourceId = 11, ae_Name = ''ssh'', ae_Address = ''10.0.0.5'', ae_Port = port, ae_Protocol = ''tcp'',
     ae_AllowedSpiffeIds = [''spiffe://a''], ae_RouteType = ''connector'', ae_ShieldId = None, ae_RemoteNetworkId = 13,
     ae_PreferredConnectorId = None\<rparr>"

definition ex_snap :: "nat \<Rightarrow> acl_snapshot" where
  "ex_snap port = \<lparr>as_WorkspaceId = ''ws'', as_Version = 9, as_GeneratedAt = 0, as_Entries = [ex_ce port], as_RemoteNetworks = [],
     as_RelayAddr = [], as_RelaySpiffeId = [], as_RevokedConnectors = []\<rparr>"

definition ex_conn_req :: tunnel_request where
  "ex_conn_req = \<lparr>tr_destination = ''10.0.0.5'', tr_port = 22, tr_protocol = ''TCP''\<rparr>"

definition ex_conn0 :: conn_state where
  "ex_conn0 = \<lparr>cs_events = [], cs_cache = None, cs_registry = registry_new, cs_handlers = Map.empty, cs_pending = [], cs_seen = 0,
     cs_terminal_done = False, cs_todo = []\<rparr>"

definition ex_conn1 :: conn_state where "ex_conn1 = ex_conn0\<lparr>cs_events := cs_events ex_conn0 @ ex_authz\<rparr>"

definition ex_push :: "acl_snapshot \<Rightarrow> conn_state \<Rightarrow> conn_state" where
  "ex_push snap s = s\<lparr>cs_cache := snd (update_and_revoked snap (cs_cache s)),
     cs_pending := cs_pending s @ fst (update_and_revoked snap (cs_cache s))\<rparr>"

definition ex_conn2 :: conn_state where "ex_conn2 = ex_push (ex_snap 22) ex_conn1"

definition ex_acl_hit :: resource_acl where
  "ex_acl_hit = \<lparr>ra_resource_id = 11, ra_allowed_spiffe_ids = [''spiffe://a''], ra_route_type = ''connector'', ra_shield_id = None\<rparr>"

definition ex_hn :: "handler_phase \<Rightarrow> handler" where
  "ex_hn ph = \<lparr>hd_spiffe = ''spiffe://a'', hd_acl = ex_acl_hit, hd_req = ex_conn_req, hd_phase = ph, hd_gen = 0\<rparr>"

definition ex_conn3 :: conn_state where
  "ex_conn3 = ex_conn2\<lparr>cs_handlers := (cs_handlers ex_conn2)(5 \<mapsto> ex_hn PhDecided)\<rparr>"

definition ex_conn4 :: conn_state where "ex_conn4 = ex_push (ex_snap 2222) ex_conn3"

definition ex_conn5 :: conn_state where
  "ex_conn5 = ex_conn4\<lparr>cs_registry := cancel_all (''spiffe://a'', 11) (cs_registry ex_conn4), cs_pending := [] @ []\<rparr>"

definition ex_conn6 :: conn_state where
  "ex_conn6 = ex_conn5\<lparr>cs_registry := stream_register ''spiffe://a'' TrTcp ex_acl_hit 5 (cs_registry ex_conn5),
     cs_handlers := (cs_handlers ex_conn5)(5 \<mapsto> (ex_hn PhDecided)\<lparr>hd_phase := PhRegistered\<rparr>)\<rparr>"

definition ex_conn7 :: conn_state where
  "ex_conn7 = ex_conn6\<lparr>cs_registry := stream_recheck (cs_cache ex_conn6) (hd_key (ex_hn PhRegistered)) 5 (cs_registry ex_conn6),
     cs_handlers := (cs_handlers ex_conn6)(5 \<mapsto> (ex_hn PhRegistered)\<lparr>hd_phase := PhRechecked\<rparr>)\<rparr>"

definition ex_conn8 :: conn_state where
  "ex_conn8 = ex_conn7\<lparr>cs_handlers := (cs_handlers ex_conn7)(5 \<mapsto>
     (ex_hn PhRechecked)\<lparr>hd_phase := PhLive, hd_gen := az_closures (at_publish (cs_tracker 15 ex_conn7))\<rparr>)\<rparr>"

lemma reach_events:
  "reach conn_init (conn_step h) s \<Longrightarrow> reach conn_init (conn_step h) (s\<lparr>cs_events := cs_events s @ es\<rparr>)"
proof (induction es rule: rev_induct)
  case (snoc e es)
  then show ?case using reach_step [OF snoc.IH [OF snoc.prems] st_authz, of e] by simp
qed simp

lemma reach_push:
  "reach conn_init (conn_step h) s \<Longrightarrow> unique_resources snap \<Longrightarrow> reach conn_init (conn_step h) (ex_push snap s)"
  unfolding ex_push_def by (erule reach_step) (rule st_push; simp)

lemmas ex_conn_defs = ex_conn0_def ex_conn1_def ex_conn2_def ex_conn3_def ex_conn4_def ex_conn5_def ex_conn6_def ex_conn7_def ex_conn8_def
  ex_push_def

lemma ex_conn_tracker: "admits (at_publish (aw_tracker (authz_run 15 ex_authz))) 20"
  "at_closures (aw_tracker (authz_run 15 ex_authz)) = 0"
  by code_simp+

lemma ex_conn_tcp: "eq_ignore_ascii_case ''tcp'' ''TCP''"
  by code_simp

lemma ex_conn_events [simp]: "cs_events ex_conn2 = ex_authz" "cs_events ex_conn7 = ex_authz" "cs_events ex_conn8 = ex_authz"
  by (simp_all add: ex_conn_defs)

lemma ex_conn_reach3: "reach conn_init (conn_step 15) ex_conn3"
proof -
  have "reach conn_init (conn_step 15) ex_conn0" by (rule reach_init) (simp add: conn_init_def ex_conn0_def)
  then have "reach conn_init (conn_step 15) ex_conn1" unfolding ex_conn1_def by (rule reach_events)
  then have 2: "reach conn_init (conn_step 15) ex_conn2"
    unfolding ex_conn2_def by (rule reach_push) (simp add: unique_resources_def ex_snap_def)
  have "stream_decide (at_publish (cs_tracker 15 ex_conn2)) 20 CertNotRevoked (cs_cache ex_conn2) ''spiffe://a'' ex_conn_req = Inr ex_acl_hit"
    by (simp add: ex_conn_tracker stream_decide_def revocation_action_def resolve_resource_def ex_conn_defs update_and_revoked_def
        ex_snap_def ex_ce_def ex_conn_req_def ex_acl_hit_def ex_conn_tcp)
  then show ?thesis
    unfolding ex_conn3_def ex_hn_def
    by (intro reach_step [OF 2 st_decide]) (simp_all add: ex_conn_defs registered_def sessions_under_def registry_new_def)
qed

lemma ex_conn_reach: "reach conn_init (conn_step 15) ex_conn8"
proof -
  have 4: "reach conn_init (conn_step 15) ex_conn4"
    unfolding ex_conn4_def by (rule reach_push [OF ex_conn_reach3]) (simp add: unique_resources_def ex_snap_def)
  have p: "cs_pending ex_conn4 = [] @ (''spiffe://a'', 11) # []"
    by (simp add: ex_conn_defs update_and_revoked_def allow_list_def ex_snap_def ex_ce_def tuple_changed_def tuples_by_resource_def)
  have 5: "reach conn_init (conn_step 15) ex_conn5"
    unfolding ex_conn5_def by (rule reach_step [OF 4]) (rule st_cancel [OF p])
  have h5: "cs_handlers ex_conn5 5 = Some (ex_hn PhDecided)" by (simp add: ex_conn_defs)
  have 6: "reach conn_init (conn_step 15) ex_conn6"
    using reach_step [OF 5 st_register [OF h5, of _ TrTcp]] unfolding ex_conn6_def by (simp add: ex_hn_def)
  have h6: "cs_handlers ex_conn6 5 = Some (ex_hn PhRegistered)" by (simp add: ex_conn6_def ex_hn_def)
  have 7: "reach conn_init (conn_step 15) ex_conn7"
    using reach_step [OF 6 st_recheck [OF h6]] unfolding ex_conn7_def by (simp add: ex_hn_def)
  have h7: "cs_handlers ex_conn7 5 = Some (ex_hn PhRechecked)" by (simp add: ex_conn7_def ex_hn_def)
  have "admits (at_publish (cs_tracker 15 ex_conn7)) 20" by (simp add: ex_conn_tracker)
  then show ?thesis using reach_step [OF 7 st_gate [OF h7]] unfolding ex_conn8_def by (simp add: ex_hn_def)
qed

section \<open>Sessions\<close>

text \<open>
  Nothing is left to enforce: no push has cancellations to make, and the enforcer has acted on every
  closure.
\<close>

definition quiescent :: "duration \<Rightarrow> conn_state \<Rightarrow> bool" where
  "quiescent h s \<longleftrightarrow> cs_pending s = [] \<and> cs_todo s = [] \<and> cs_seen s = at_closures (cs_tracker h s)"

definition session_alive :: "conn_state \<Rightarrow> session_id \<Rightarrow> handler \<Rightarrow> bool" where
  "session_alive s i hn \<longleftrightarrow> cs_handlers s i = Some hn \<and> hd_phase hn = PhLive \<and> \<not> sr_cancelled (cs_registry s) i"

lemma alive_allowed:
  assumes "reach conn_init (conn_step h) s" and "quiescent h s" and "session_alive s i hn"
  shows "is_allowed (cs_cache s) (ra_resource_id (hd_acl hn)) (hd_spiffe hn)" and "is_open (at_state (cs_tracker h s))"
proof -
  have ok: "handler_ok h s i hn" "hd_phase hn = PhLive" "\<not> sr_cancelled (cs_registry s) i"
    using conn_invD(3) [OF conn.inv_reach [OF assms(1)]] assms(3) by (auto simp: session_alive_def)
  then have live: "live_ok (hd_gen hn) (cs_tracker h s) (cs_seen s) (cs_todo s)" by (simp add: handler_ok_def)
  show open_gate: "is_open (at_state (cs_tracker h s))"
    using live assms(2) by (auto simp: live_ok_def quiescent_def)
  then have "\<not> is_terminal (at_state (cs_tracker h s))" using is_terminal_not_open by blast
  then show "is_allowed (cs_cache s) (ra_resource_id (hd_acl hn)) (hd_spiffe hn)"
    using ok assms(2) by (simp add: handler_ok_def quiescent_def hd_key_def)
qed

text \<open>
  C27. However device streams, pushes of access lists, messages of the controller, the expiry timer and
  the enforcer interleave: once nothing is left to enforce, every session that is live and not
  cancelled is one whose device the current access list allows on the resource, and the connector
  is in a serving state.
\<close>

theorem sessions_are_authorized:
  assumes "reach conn_init (conn_step h) s" and "quiescent h s" and "session_alive s i hn"
  shows "is_allowed (cs_cache s) (ra_resource_id (hd_acl hn)) (hd_spiffe hn) \<and> is_open (at_state (cs_tracker h s))"
  using alive_allowed [OF assms] by blast

definition ex_live :: handler where
  "ex_live = (ex_hn PhRechecked)\<lparr>hd_phase := PhLive, hd_gen := az_closures (at_publish (cs_tracker 15 ex_conn7))\<rparr>"

lemma ex_conn_alive: "session_alive ex_conn8 5 ex_live"
  by (simp add: session_alive_def ex_live_def ex_conn8_def ex_conn7_def stream_recheck_def is_allowed_def find_entry_by_id_def
      ex_conn6_def ex_conn5_def ex_conn4_def ex_push_def update_and_revoked_def ex_snap_def ex_ce_def hd_key_def ex_hn_def
      ex_acl_hit_def stream_register_def)

lemma ex_conn_final: "hd_req ex_live = ex_conn_req" "cs_cache ex_conn8 = Some (ex_snap 2222)"
  by (simp add: ex_live_def ex_hn_def)
    (simp add: ex_conn8_def ex_conn7_def ex_conn6_def ex_conn5_def ex_conn4_def ex_push_def update_and_revoked_def)

lemma ex_conn_quiet: "quiescent 15 ex_conn8"
  unfolding quiescent_def ex_conn_events ex_conn_tracker by (simp add: ex_conn_defs)

theorem sessions_are_authorized_witness:
  "session_alive ex_conn8 5 ex_live \<and> is_allowed (cs_cache ex_conn8) 11 ''spiffe://a'' \<and> is_open (at_state (cs_tracker 15 ex_conn8))"
  using sessions_are_authorized [OF ex_conn_reach ex_conn_quiet ex_conn_alive] ex_conn_alive
  by (simp add: ex_live_def ex_hn_def ex_acl_hit_def)

text \<open>
  C28. The recheck after registration compares only the device and the resource. There is a run in which
  an access list moves a resource to another port between a handler's decision and its registration,
  and the session stays live, with nothing left to enforce, on a destination for which the current
  access list has no entry. (\<open>update_and_revoked\<close> revokes sessions whose tuple changed, but it can only
  cancel those already registered.)
\<close>

theorem moved_resource_keeps_session:
  "\<exists>s i hn. reach conn_init (conn_step 15) s \<and> quiescent 15 s \<and> session_alive s i hn \<and>
     resolve_resource (cs_cache s) (tr_destination (hd_req hn)) (tr_port (hd_req hn)) (tr_protocol (hd_req hn)) = None"
proof -
  have "resolve_resource (cs_cache ex_conn8) (tr_destination (hd_req ex_live)) (tr_port (hd_req ex_live)) (tr_protocol (hd_req ex_live)) = None"
    unfolding ex_conn_final by (simp add: resolve_resource_def ex_snap_def ex_ce_def ex_conn_req_def)
  with ex_conn_reach ex_conn_quiet ex_conn_alive show ?thesis by blast
qed

section \<open>From the database to the session\<close>

lemma compile_unique:
  assumes "CompileACLSnapshot parse utext fails version now dbnow ws db = Inr c" and "parse ws = Some w"
    and "distinct (map rs_id (db_resources db))"
  shows "unique_resources (ca_Snapshot c)"
proof -
  obtain acc where col: "collect_rules acc_empty (ListEnabledRulesWithResources db w) = Inr acc" and
    ent: "as_Entries (ca_Snapshot c) = map (\<lambda>k. make_entry acc k (fst (gate db w now acc k))) (sort (ac_keys acc))"
    by (rule Compile_parts [OF assms(1,2)]) (rule that)
  have "distinct (ac_keys acc)" using collect_rules_ok [OF col acc_ok_empty] by (simp add: acc_ok_def)
  moreover have "k = k'" if kk: "k \<in> set (ac_keys acc)" "k' \<in> set (ac_keys acc)" and eq: "fst k = fst k'" for k k'
  proof -
    obtain r r' where r: "r \<in> set (db_resources db)" "resource_key r = k" "r' \<in> set (db_resources db)" "resource_key r' = k'"
      using kk unfolding collected_groups(3) [OF col] collected_groups(1) [OF col] grants_def by blast
    then have "rs_id r = rs_id r'" using eq by (auto simp: resource_key_def)
    then show ?thesis using distinct_key_eq [OF assms(3) r(1,3)] r(2,4) by simp
  qed
  then have "inj_on fst (set (ac_keys acc))" by (intro inj_onI)
  ultimately have "distinct (map fst (sort (ac_keys acc)))" by (simp add: distinct_map)
  moreover have "ae_ResourceId (make_entry acc k al) = fst k" for k al
    by (cases k) (simp add: make_entry_def split: option.split)
  ultimately show ?thesis unfolding unique_resources_def ent by (simp add: o_def)
qed



text \<open>A handler whose stream is admitted and stays allowed comes to be live.\<close>

lemma session_opens:
  assumes s: "reach conn_init (conn_step h) s" and free: "cs_handlers s i = None" "\<And>k. \<not> registered (cs_registry s) k i"
    and d: "stream_decide (at_publish (cs_tracker h s)) now CertNotRevoked (cs_cache s) sp req = Inr acl"
    and al: "is_allowed (cs_cache s) (ra_resource_id acl) sp" and g: "admits (at_publish (cs_tracker h s)) now"
  shows "\<exists>s' hn. reach conn_init (conn_step h) s' \<and> session_alive s' i hn \<and> cs_cache s' = cs_cache s \<and> cs_pending s' = cs_pending s \<and>
           cs_todo s' = cs_todo s \<and> cs_seen s' = cs_seen s \<and> cs_events s' = cs_events s \<and> hd_acl hn = acl \<and> hd_spiffe hn = sp"
proof -
  define hn where "hn = \<lparr>hd_spiffe = sp, hd_acl = acl, hd_req = req, hd_phase = PhDecided, hd_gen = 0\<rparr>"
  define s1 where "s1 = s\<lparr>cs_handlers := (cs_handlers s)(i \<mapsto> hn)\<rparr>"
  define s2 where "s2 = s1\<lparr>cs_registry := stream_register (hd_spiffe hn) TrTcp (hd_acl hn) i (cs_registry s1),
      cs_handlers := (cs_handlers s1)(i \<mapsto> hn\<lparr>hd_phase := PhRegistered\<rparr>)\<rparr>"
  define h2 where "h2 = hn\<lparr>hd_phase := PhRegistered\<rparr>"
  define s3 where "s3 = s2\<lparr>cs_registry := stream_recheck (cs_cache s2) (hd_key h2) i (cs_registry s2),
      cs_handlers := (cs_handlers s2)(i \<mapsto> h2\<lparr>hd_phase := PhRechecked\<rparr>)\<rparr>"
  define h3 where "h3 = h2\<lparr>hd_phase := PhRechecked\<rparr>"
  define h4 where "h4 = h3\<lparr>hd_phase := PhLive, hd_gen := az_closures (at_publish (cs_tracker h s3))\<rparr>"
  define s4 where "s4 = s3\<lparr>cs_handlers := (cs_handlers s3)(i \<mapsto> h4)\<rparr>"
  note hs = hn_def h2_def h3_def h4_def and ss = s1_def s2_def s3_def s4_def
  have sel: "cs_events s3 = cs_events s" "cs_cache s2 = cs_cache s" "cs_handlers s1 i = Some hn" "cs_handlers s2 i = Some h2"
    "cs_handlers s3 i = Some h3" by (simp_all add: ss h2_def h3_def)
  have "reach conn_init (conn_step h) s1" unfolding s1_def hn_def by (rule reach_step [OF s]) (rule st_decide [OF free d])
  then have "reach conn_init (conn_step h) s2"
    unfolding s2_def by (rule reach_step) (rule st_register [OF sel(3)], simp add: hn_def)
  then have "reach conn_init (conn_step h) s3"
    unfolding s3_def by (rule reach_step) (rule st_recheck [OF sel(4)], simp add: h2_def)
  moreover have "admits (at_publish (cs_tracker h s3)) now" using g by (simp add: sel)
  ultimately have "reach conn_init (conn_step h) s4"
    unfolding s4_def h4_def by (elim reach_step) (rule st_gate [OF sel(5)], simp_all add: h3_def)
  moreover have "session_alive s4 i h4"
    using al by (simp add: session_alive_def s4_def h4_def s3_def stream_recheck_def sel) (simp add: s2_def h2_def hn_def hd_key_def stream_register_def)
  moreover have "cs_cache s4 = cs_cache s" "cs_pending s4 = cs_pending s" "cs_todo s4 = cs_todo s" "cs_seen s4 = cs_seen s"
    "cs_events s4 = cs_events s" by (simp_all add: ss)
  moreover have "hd_acl h4 = acl" "hd_spiffe h4 = sp" by (simp_all add: hs)
  ultimately show ?thesis by blast
qed

lemma ex_session_opens:
  assumes u: "unique_resources sn" and res: "resolve_resource (Some sn) ''10.0.0.5'' 22 ''TCP'' = Some acl"
    and sp: "''spiffe://a'' \<in> set (ra_allowed_spiffe_ids acl)" and al: "is_allowed (Some sn) (ra_resource_id acl) ''spiffe://a''"
  shows "\<exists>s i hn. reach conn_init (conn_step 15) s \<and> quiescent 15 s \<and> session_alive s i hn \<and> cs_cache s = Some sn \<and>
           hd_acl hn = acl \<and> hd_spiffe hn = ''spiffe://a''"
proof -
  define s where "s = ex_push sn ex_conn1"
  have e: "cs_events s = ex_authz" "cs_registry s = registry_new" "cs_handlers s 5 = None" "cs_pending s = []" "cs_todo s = []"
    "cs_seen s = 0" "cs_cache s = Some sn" by (simp_all add: s_def ex_push_def ex_conn1_def ex_conn0_def update_and_revoked_def)
  have "reach conn_init (conn_step 15) ex_conn0" by (rule reach_init) (simp add: conn_init_def ex_conn0_def)
  then have r: "reach conn_init (conn_step 15) s" unfolding s_def ex_conn1_def using u by (intro reach_push reach_events)
  have d: "stream_decide (at_publish (cs_tracker 15 s)) 20 CertNotRevoked (cs_cache s) ''spiffe://a'' ex_conn_req = Inr acl"
    using res sp by (simp add: e ex_conn_tracker stream_decide_def revocation_action_def ex_conn_req_def)
  have "\<not> registered (cs_registry s) k 5" for k by (simp add: e registered_def sessions_under_def registry_new_def)
  from session_opens [OF r e(3) this d] al ex_conn_tracker(1) obtain s' hn where
    s': "reach conn_init (conn_step 15) s'" "session_alive s' 5 hn" "cs_cache s' = cs_cache s" "cs_pending s' = cs_pending s"
    "cs_todo s' = cs_todo s" "cs_seen s' = cs_seen s" "cs_events s' = cs_events s" "hd_acl hn = acl" "hd_spiffe hn = ''spiffe://a''"
    unfolding e by blast
  then have "quiescent 15 s'" using ex_conn_tracker(2) by (simp add: quiescent_def e)
  with s' show ?thesis unfolding e by blast
qed


end
