(* ===== verification/Group_Admin.thy ===== *)
theory Group_Admin
  imports Rbac Acl_Correct
begin

text \<open>
  Groups, their members and the access rules, as the console edits them: the administration part of
  \<open>internal/policy/store.go\<close>, the mutations of \<open>graph/resolvers/policy.resolvers.go\<close> with the helpers they
  call (\<open>policy_helpers.go\<close>, \<open>group_name.go\<close>, the two self-access guards of \<open>member_role.go\<close>), and
  the \<open>@requires\<close> directive that runs before each of them (\<open>directives.go\<close>).

  An identifier argument is \<open>None\<close> when \<open>uuid.Parse\<close> refuses its text. A statement that fails
  (\<open>fails\<close>) or that a constraint refuses gives an error and changes nothing.
\<close>

section \<open>Statements and errors\<close>

datatype group_stmt =
    GsGet | GsList | GsInsert | GsUpdate | GsDelete | GsAddMember | GsRemoveMember | GsMembers
  | GsAssign | GsUnassign | GsSetEnabled | GsGroupsOf | GsResourcesOf | GsOwnGroup
  | GsLoadUser uuid | GsLoadResource uuid | GsLoadGroup uuid

datatype group_error = ErrGroupNotFound | ErrDuplicateName | ErrGroupDB group_stmt

section \<open>Groups\<close>

definition find_group :: "zdb \<Rightarrow> uuid \<Rightarrow> group_row option" where
  "find_group db i = select_one (\<lambda>g. gr_id g = i) (db_groups db)"

text \<open>The partial unique index \<open>idx_groups_manual_name\<close>, against a row about to be written.\<close>

definition index_clash :: "zdb \<Rightarrow> group_row \<Rightarrow> bool" where
  "index_clash db g \<longleftrightarrow>
     gr_origin g \<in> {''manual'', ''system''} \<and>
     list_ex (\<lambda>x. gr_id x \<noteq> gr_id g \<and> gr_workspace_id x = gr_workspace_id g \<and> gr_name x = gr_name g \<and>
                  gr_origin x \<in> {''manual'', ''system''}) (db_groups db)"

text \<open>The columns that the INSERT leaves out have their defaults; the workspace is a foreign key.\<close>

definition store_CreateGroup ::
  "(group_stmt \<Rightarrow> bool) \<Rightarrow> time \<Rightarrow> uuid \<Rightarrow> uuid \<Rightarrow> string \<Rightarrow> string option \<Rightarrow> zdb \<Rightarrow> (group_error + group_row) \<times> zdb" where
  "store_CreateGroup fails now newid w name description db =
     (let g = \<lparr>gr_id = newid, gr_workspace_id = w, gr_name = name, gr_description = description,
               gr_created_at = now, gr_origin = ''manual'', gr_external_id = None, gr_connection_id = None\<rparr> in
      if fails GsInsert \<or> newid \<in> gr_id ` set (db_groups db) then (Inl (ErrGroupDB GsInsert), db)
      else if index_clash db g then (Inl ErrDuplicateName, db)
      else if w \<notin> ws_id ` set (db_workspaces db) then (Inl (ErrGroupDB GsInsert), db)
      else (Inr g, db\<lparr>db_groups := db_groups db @ [g]\<rparr>))"

definition store_UpdateGroup ::
  "(group_stmt \<Rightarrow> bool) \<Rightarrow> uuid option \<Rightarrow> string option \<Rightarrow> string option \<Rightarrow> zdb \<Rightarrow> (group_error + group_row) \<times> zdb" where
  "store_UpdateGroup fails i name description db =
     (case i of
        None \<Rightarrow> (Inl (ErrGroupDB GsUpdate), db)
      | Some gid \<Rightarrow>
          if fails GsUpdate then (Inl (ErrGroupDB GsUpdate), db)
          else case find_group db gid of
            None \<Rightarrow> (Inl ErrGroupNotFound, db)
          | Some g \<Rightarrow>
              let g' = g\<lparr>gr_name := or_else name (gr_name g),
                         gr_description := (case description of None \<Rightarrow> gr_description g | Some d \<Rightarrow> Some d)\<rparr> in
              if index_clash db g' then (Inl ErrDuplicateName, db)
              else (Inr g', db\<lparr>db_groups := update_where (\<lambda>x. gr_id x = gid) (\<lambda>_. g') (db_groups db)\<rparr>))"

text \<open>A deleted group takes its members and its rules with it (\<open>ON DELETE CASCADE\<close>).\<close>

definition drop_group :: "uuid \<Rightarrow> zdb \<Rightarrow> zdb" where
  "drop_group i db = db\<lparr>
     db_groups := filter (\<lambda>g. gr_id g \<noteq> i) (db_groups db),
     db_group_members := filter (\<lambda>m. gm_group_id m \<noteq> i) (db_group_members db),
     db_access_rules := filter (\<lambda>a. ar_group_id a \<noteq> i) (db_access_rules db)\<rparr>"

definition store_DeleteGroup :: "(group_stmt \<Rightarrow> bool) \<Rightarrow> uuid option \<Rightarrow> zdb \<Rightarrow> group_error option \<times> zdb" where
  "store_DeleteGroup fails i db =
     (case i of
        None \<Rightarrow> (Some (ErrGroupDB GsDelete), db)
      | Some gid \<Rightarrow>
          if fails GsDelete then (Some (ErrGroupDB GsDelete), db)
          else if count_where (\<lambda>g. gr_id g = gid) (db_groups db) = 0 then (Some ErrGroupNotFound, db)
          else (None, drop_group gid db))"

definition GetGroup :: "(group_stmt \<Rightarrow> bool) \<Rightarrow> group_stmt \<Rightarrow> uuid option \<Rightarrow> zdb \<Rightarrow> group_error + group_row" where
  "GetGroup fails q i db =
     (case i of
        None \<Rightarrow> Inl ErrGroupNotFound
      | Some gid \<Rightarrow>
          if fails q then Inl (ErrGroupDB q)
          else case find_group db gid of None \<Rightarrow> Inl ErrGroupNotFound | Some g \<Rightarrow> Inr g)"

definition ListGroups :: "(group_stmt \<Rightarrow> bool) \<Rightarrow> uuid \<Rightarrow> zdb \<Rightarrow> group_error + group_row list" where
  "ListGroups fails w db =
     (if fails GsList then Inl (ErrGroupDB GsList)
      else Inr (sort_key gr_created_at (filter (\<lambda>g. gr_workspace_id g = w) (db_groups db))))"

section \<open>Members\<close>

definition group_in :: "zdb \<Rightarrow> uuid \<Rightarrow> uuid \<Rightarrow> bool" where
  "group_in db w g \<longleftrightarrow> list_ex (\<lambda>x. gr_id x = g \<and> gr_workspace_id x = w) (db_groups db)"

definition is_member :: "zdb \<Rightarrow> uuid \<Rightarrow> uuid \<Rightarrow> bool" where
  "is_member db g u \<longleftrightarrow> list_ex (\<lambda>m. gm_group_id m = g \<and> gm_user_id m = u) (db_group_members db)"

definition store_AddGroupMember ::
  "(group_stmt \<Rightarrow> bool) \<Rightarrow> uuid \<Rightarrow> uuid option \<Rightarrow> uuid option \<Rightarrow> zdb \<Rightarrow> group_error option \<times> zdb" where
  "store_AddGroupMember fails w groupID userID db =
     (case (groupID, userID) of
        (Some g, Some u) \<Rightarrow>
          if fails GsAddMember then (Some (ErrGroupDB GsAddMember), db)
          else if group_in db w g \<and> list_ex (\<lambda>x. us_id x = u \<and> us_tenant_id x = w) (db_users db)
          then (None, if is_member db g u then db
                      else db\<lparr>db_group_members := db_group_members db @ [\<lparr>gm_group_id = g, gm_user_id = u\<rparr>]\<rparr>)
          else (Some ErrGroupNotFound, db)
      | _ \<Rightarrow> (Some ErrGroupNotFound, db))"

definition store_RemoveGroupMember ::
  "(group_stmt \<Rightarrow> bool) \<Rightarrow> uuid option \<Rightarrow> uuid option \<Rightarrow> zdb \<Rightarrow> group_error option \<times> zdb" where
  "store_RemoveGroupMember fails groupID userID db =
     (case (groupID, userID) of
        (Some g, Some u) \<Rightarrow>
          if fails GsRemoveMember then (Some (ErrGroupDB GsRemoveMember), db)
          else if \<not> is_member db g u then (Some ErrGroupNotFound, db)
          else (None, db\<lparr>db_group_members :=
                  filter (\<lambda>m. \<not> (gm_group_id m = g \<and> gm_user_id m = u)) (db_group_members db)\<rparr>)
      | _ \<Rightarrow> (Some (ErrGroupDB GsRemoveMember), db))"

definition ListGroupMembers :: "(group_stmt \<Rightarrow> bool) \<Rightarrow> uuid \<Rightarrow> uuid \<Rightarrow> zdb \<Rightarrow> group_error + uuid list" where
  "ListGroupMembers fails w g db =
     (if fails GsMembers then Inl (ErrGroupDB GsMembers)
      else Inr [gm_user_id m.
                  m \<leftarrow> filter (\<lambda>m. gm_group_id m = g) (db_group_members db),
                  x \<leftarrow> filter (\<lambda>x. gr_id x = gm_group_id m \<and> gr_workspace_id x = w) (db_groups db),
                  u \<leftarrow> filter (\<lambda>u. us_id u = gm_user_id m \<and> us_tenant_id u = gr_workspace_id x) (db_users db)])"

section \<open>Access rules\<close>

definition resource_in :: "zdb \<Rightarrow> uuid \<Rightarrow> uuid \<Rightarrow> bool" where
  "resource_in db w r \<longleftrightarrow> list_ex (\<lambda>x. rs_id x = r \<and> rs_tenant_id x = w) (db_resources db)"

text \<open>
  The INSERT meets at most one row of the unique key \<open>(resource_id, group_id)\<close>; a row of another workspace
  is left alone and nothing is returned.
\<close>

definition store_AssignResourceToGroup ::
  "(group_stmt \<Rightarrow> bool) \<Rightarrow> uuid \<Rightarrow> uuid \<Rightarrow> uuid option \<Rightarrow> uuid option \<Rightarrow> zdb \<Rightarrow> (group_error + access_rule) \<times> zdb" where
  "store_AssignResourceToGroup fails newid w resourceID groupID db =
     (case (resourceID, groupID) of
        (Some r, Some g) \<Rightarrow>
          if fails GsAssign then (Inl (ErrGroupDB GsAssign), db)
          else if \<not> (resource_in db w r \<and> group_in db w g) then (Inl ErrGroupNotFound, db)
          else (case select_one (\<lambda>a. ar_resource_id a = r \<and> ar_group_id a = g) (db_access_rules db) of
             Some a \<Rightarrow>
               if ar_workspace_id a \<noteq> w then (Inl ErrGroupNotFound, db)
               else (Inr (a\<lparr>ar_enabled := True\<rparr>),
                     db\<lparr>db_access_rules := update_where (\<lambda>x. ar_resource_id x = r \<and> ar_group_id x = g \<and> ar_workspace_id x = w)
                          (\<lambda>x. x\<lparr>ar_enabled := True\<rparr>) (db_access_rules db)\<rparr>)
           | None \<Rightarrow>
               let a = \<lparr>ar_id = newid, ar_workspace_id = w, ar_resource_id = r, ar_group_id = g, ar_enabled = True\<rparr> in
               if newid \<in> ar_id ` set (db_access_rules db) then (Inl (ErrGroupDB GsAssign), db)
               else (Inr a, db\<lparr>db_access_rules := db_access_rules db @ [a]\<rparr>))
      | _ \<Rightarrow> (Inl ErrGroupNotFound, db))"

definition store_UnassignResourceFromGroup ::
  "(group_stmt \<Rightarrow> bool) \<Rightarrow> uuid \<Rightarrow> uuid option \<Rightarrow> uuid option \<Rightarrow> zdb \<Rightarrow> group_error option \<times> zdb" where
  "store_UnassignResourceFromGroup fails w resourceID groupID db =
     (case (resourceID, groupID) of
        (Some r, Some g) \<Rightarrow>
          (let P = (\<lambda>a. ar_resource_id a = r \<and> ar_group_id a = g \<and> ar_workspace_id a = w) in
           if fails GsUnassign then (Some (ErrGroupDB GsUnassign), db)
           else if count_where P (db_access_rules db) = 0 then (Some ErrGroupNotFound, db)
           else (None, db\<lparr>db_access_rules := filter (\<lambda>a. \<not> P a) (db_access_rules db)\<rparr>))
      | _ \<Rightarrow> (Some ErrGroupNotFound, db))"

definition SetRuleEnabled ::
  "(group_stmt \<Rightarrow> bool) \<Rightarrow> uuid option \<Rightarrow> bool \<Rightarrow> zdb \<Rightarrow> group_error option \<times> zdb" where
  "SetRuleEnabled fails i enabled db =
     (case i of
        None \<Rightarrow> (Some (ErrGroupDB GsSetEnabled), db)
      | Some rid \<Rightarrow>
          if fails GsSetEnabled then (Some (ErrGroupDB GsSetEnabled), db)
          else if count_where (\<lambda>a. ar_id a = rid) (db_access_rules db) = 0 then (Some ErrGroupNotFound, db)
          else (None, db\<lparr>db_access_rules :=
                  update_where (\<lambda>a. ar_id a = rid) (\<lambda>a. a\<lparr>ar_enabled := enabled\<rparr>) (db_access_rules db)\<rparr>))"

text \<open>The join of the two listings: enabled rules whose resource and group are of the workspace.\<close>

definition listed_rules :: "zdb \<Rightarrow> uuid \<Rightarrow> access_rule list" where
  "listed_rules db w =
     filter (\<lambda>a. ar_workspace_id a = w \<and> ar_enabled a \<and> resource_in db w (ar_resource_id a) \<and> group_in db w (ar_group_id a))
       (db_access_rules db)"

definition ListGroupsForResource :: "(group_stmt \<Rightarrow> bool) \<Rightarrow> uuid \<Rightarrow> uuid \<Rightarrow> zdb \<Rightarrow> group_error + uuid list" where
  "ListGroupsForResource fails w r db =
     (if fails GsGroupsOf then Inl (ErrGroupDB GsGroupsOf)
      else Inr (map ar_group_id (filter (\<lambda>a. ar_resource_id a = r) (listed_rules db w))))"

definition ListResourcesForGroup :: "(group_stmt \<Rightarrow> bool) \<Rightarrow> uuid \<Rightarrow> uuid \<Rightarrow> zdb \<Rightarrow> group_error + uuid list" where
  "ListResourcesForGroup fails w g db =
     (if fails GsResourcesOf then Inl (ErrGroupDB GsResourcesOf)
      else Inr (map ar_resource_id (filter (\<lambda>a. ar_group_id a = g) (listed_rules db w))))"

section \<open>The directive\<close>

datatype requires_error = Unauthenticated | Forbidden capability | RoleLookupFailed

text \<open>
  \<open>@requires\<close>: \<open>tc\<close> is the tenant context of the request, if it has one, and \<open>roles\<close> the answer of the role
  lookup for it. The result is the role the resolver finds in its context.
\<close>

definition NewRequires ::
  "tenant_context option \<Rightarrow> (tenant_context \<Rightarrow> role_error + string) \<Rightarrow> capability \<Rightarrow> requires_error + string" where
  "NewRequires tc roles c =
     (case tc of
        None \<Rightarrow> Inl Unauthenticated
      | Some t \<Rightarrow>
          (case roles t of
             Inl e \<Rightarrow> (case e of ErrNoAccess \<Rightarrow> Inl (Forbidden c) | ErrRoleLookup \<Rightarrow> Inl RoleLookupFailed)
           | Inr role \<Rightarrow> if rbac_Allows role c then Inr role else Inl (Forbidden c)))"

section \<open>Guards of the mutations\<close>

datatype group_refusal =
    GNameRequired | GNameTaken | GNotFound | GDirectoryManaged | GSelfMembership | GOwnGroup | GNoCaller
  | GRequires requires_error | GStore group_error | GNotifyFailed | GUserMissing uuid | GResourceMissing uuid

definition validGroupName :: "string \<Rightarrow> group_refusal + string" where
  "validGroupName name = (let n = TrimSpace name in if n = [] then Inl GNameRequired else Inr n)"

definition refuseSelfGroupChange :: "string option \<Rightarrow> uuid option \<Rightarrow> uuid option \<Rightarrow> group_refusal option" where
  "refuseSelfGroupChange role caller target =
     (case target of
        None \<Rightarrow> Some GNotFound
      | Some u \<Rightarrow>
          if caller \<noteq> Some u then None
          else if role = Some ''admin'' then None
          else Some GSelfMembership)"

definition refuseOwnGroupAccessChange ::
  "(group_stmt \<Rightarrow> bool) \<Rightarrow> string option \<Rightarrow> uuid \<Rightarrow> uuid option \<Rightarrow> uuid option \<Rightarrow> zdb \<Rightarrow> group_refusal option" where
  "refuseOwnGroupAccessChange fails role w caller groupID db =
     (if role = Some ''admin'' then None
      else case groupID of
        None \<Rightarrow> None
      | Some g \<Rightarrow>
          (case caller of
             None \<Rightarrow> Some GNoCaller
           | Some u \<Rightarrow>
               if fails GsOwnGroup then Some (GStore (ErrGroupDB GsOwnGroup))
               else if is_member db g u \<and> group_in db w g then Some GOwnGroup
               else None))"

text \<open>
  The prologue that five mutations share: the group exists, is of the caller's workspace and is not
  managed by a directory.
\<close>

definition editable_group ::
  "(group_stmt \<Rightarrow> bool) \<Rightarrow> uuid \<Rightarrow> uuid option \<Rightarrow> zdb \<Rightarrow> group_refusal + group_row" where
  "editable_group fails w i db =
     (case GetGroup fails GsGet i db of
        Inl e \<Rightarrow> Inl (if e = ErrGroupNotFound then GNotFound else GStore e)
      | Inr g \<Rightarrow>
          if gr_workspace_id g \<noteq> w then Inl GNotFound
          else if gr_origin g = ''scim'' then Inl GDirectoryManaged
          else Inr g)"

definition store_refusal :: "group_error \<Rightarrow> group_refusal" where
  "store_refusal e = (case e of ErrGroupNotFound \<Rightarrow> GNotFound | ErrDuplicateName \<Rightarrow> GNameTaken | ErrGroupDB q \<Rightarrow> GStore e)"

section \<open>Answers\<close>

record group_view =
  gv_row :: group_row
  gv_members :: "user_row list"
  gv_resources :: "(resource_row \<times> string) list"

fun load_all :: "('a \<Rightarrow> 'e + 'b) \<Rightarrow> 'a list \<Rightarrow> 'e + 'b list" where
  "load_all f [] = Inr []"
| "load_all f (x # xs) = sum_bind (f x) (\<lambda>y. sum_bind (load_all f xs) (\<lambda>ys. Inr (y # ys)))"

definition loadUser :: "(group_stmt \<Rightarrow> bool) \<Rightarrow> uuid \<Rightarrow> zdb \<Rightarrow> uuid \<Rightarrow> group_refusal + user_row" where
  "loadUser fails w db u =
     (if fails (GsLoadUser u) then Inl (GStore (ErrGroupDB (GsLoadUser u)))
      else case select_one (\<lambda>x. us_id x = u \<and> us_tenant_id x = w) (db_users db) of
             None \<Rightarrow> Inl (GUserMissing u) | Some x \<Rightarrow> Inr x)"

text \<open>The resource with the name of its network, empty if the workspace has no such network.\<close>

definition loadResourceByID :: "(group_stmt \<Rightarrow> bool) \<Rightarrow> uuid \<Rightarrow> zdb \<Rightarrow> uuid \<Rightarrow> group_refusal + (resource_row \<times> string)" where
  "loadResourceByID fails w db r =
     (if fails (GsLoadResource r) then Inl (GStore (ErrGroupDB (GsLoadResource r)))
      else case select_one (\<lambda>x. rs_id x = r \<and> rs_tenant_id x = w) (db_resources db) of
             None \<Rightarrow> Inl (GResourceMissing r)
           | Some x \<Rightarrow> Inr (x, case select_one (\<lambda>n. rn_id n = rs_remote_network_id x \<and> rn_tenant_id n = rs_tenant_id x)
                                     (db_remote_networks db) of None \<Rightarrow> [] | Some n \<Rightarrow> rn_name n))"

definition loadGroup :: "(group_stmt \<Rightarrow> bool) \<Rightarrow> uuid \<Rightarrow> uuid option \<Rightarrow> zdb \<Rightarrow> group_refusal + group_view" where
  "loadGroup fails w i db =
     (case GetGroup fails GsGet i db of
        Inl e \<Rightarrow> Inl (if e = ErrGroupNotFound then GNotFound else GStore e)
      | Inr g \<Rightarrow>
          if gr_workspace_id g \<noteq> w then Inl GNotFound
          else case ListGroupMembers fails w (gr_id g) db of
            Inl e \<Rightarrow> Inl (GStore e)
          | Inr us \<Rightarrow>
              sum_bind (load_all (loadUser fails w db) us) (\<lambda>members.
                case ListResourcesForGroup fails w (gr_id g) db of
                  Inl e \<Rightarrow> Inl (GStore e)
                | Inr rs \<Rightarrow> sum_bind (load_all (loadResourceByID fails w db) rs) (\<lambda>resources.
                    Inr \<lparr>gv_row = g, gv_members = members, gv_resources = resources\<rparr>)))"

definition load_group_row :: "(group_stmt \<Rightarrow> bool) \<Rightarrow> zdb \<Rightarrow> uuid \<Rightarrow> group_refusal + group_row" where
  "load_group_row fails db g =
     (case GetGroup fails (GsLoadGroup g) (Some g) db of Inl e \<Rightarrow> Inl (GStore e) | Inr x \<Rightarrow> Inr x)"

definition loadResourceWithGroups ::
  "(group_stmt \<Rightarrow> bool) \<Rightarrow> uuid \<Rightarrow> uuid \<Rightarrow> zdb \<Rightarrow> group_refusal + (resource_row \<times> string) \<times> group_row list" where
  "loadResourceWithGroups fails w r db =
     sum_bind (loadResourceByID fails w db r) (\<lambda>res.
       case ListGroupsForResource fails w r db of
         Inl e \<Rightarrow> Inl (GStore e)
       | Inr gs \<Rightarrow> sum_bind (load_all (load_group_row fails db) gs) (\<lambda>groups. Inr (res, groups)))"

definition Groups_query :: "(group_stmt \<Rightarrow> bool) \<Rightarrow> uuid \<Rightarrow> zdb \<Rightarrow> group_refusal + group_view list" where
  "Groups_query fails w db =
     (case ListGroups fails w db of
        Inl e \<Rightarrow> Inl (GStore e)
      | Inr rows \<Rightarrow> load_all (\<lambda>g. loadGroup fails w (Some (gr_id g)) db) rows)"


section \<open>Mutations\<close>

datatype audit_detail = DName string | DUser uuid | DGroup uuid

datatype group_effect = GAudit string uuid audit_detail | GNotify uuid

text \<open>
  What a mutation finds around it: the failing statements up to its change and those of the read that
  answers it, the clock, the id of an inserted row and whether \<open>NotifyPolicyChange\<close> fails.
\<close>

record group_env =
  ge_fails :: "group_stmt \<Rightarrow> bool"
  ge_load_fails :: "group_stmt \<Rightarrow> bool"
  ge_now :: time
  ge_newid :: uuid
  ge_notify_fails :: bool

type_synonym 'a group_reply = "(group_refusal + 'a) \<times> group_effect list \<times> zdb"

text \<open>The end of a mutation whose change is committed: audit, notify, answer.\<close>

definition finish_mutation ::
  "group_env \<Rightarrow> uuid \<Rightarrow> group_effect \<Rightarrow> group_refusal + 'a \<Rightarrow> zdb \<Rightarrow> 'a group_reply" where
  "finish_mutation env w audit answer db =
     (if ge_notify_fails env then Inl GNotifyFailed else answer, [audit, GNotify w], db)"

definition bare_view :: "group_row \<Rightarrow> group_view" where
  "bare_view g = \<lparr>gv_row = g, gv_members = [], gv_resources = []\<rparr>"

definition CreateGroup :: "group_env \<Rightarrow> uuid \<Rightarrow> string \<Rightarrow> string option \<Rightarrow> zdb \<Rightarrow> group_view group_reply" where
  "CreateGroup env w name description db =
     (case validGroupName name of
        Inl e \<Rightarrow> (Inl e, [], db)
      | Inr n \<Rightarrow>
          (case store_CreateGroup (ge_fails env) (ge_now env) (ge_newid env) w n description db of
             (Inl e, db') \<Rightarrow> (Inl (store_refusal e), [], db')
           | (Inr g, db') \<Rightarrow>
               finish_mutation env w (GAudit ''group.create'' (gr_id g) (DName (gr_name g))) (Inr (bare_view g)) db'))"

definition UpdateGroup ::
  "group_env \<Rightarrow> uuid \<Rightarrow> uuid option \<Rightarrow> string option \<Rightarrow> string option \<Rightarrow> zdb \<Rightarrow> group_view group_reply" where
  "UpdateGroup env w i name description db =
     (case editable_group (ge_fails env) w i db of
        Inl e \<Rightarrow> (Inl e, [], db)
      | Inr _ \<Rightarrow>
          (case (case name of None \<Rightarrow> Inr None | Some n \<Rightarrow> map_sum id Some (validGroupName n)) of
             Inl e \<Rightarrow> (Inl e, [], db)
           | Inr name' \<Rightarrow>
               (case store_UpdateGroup (ge_fails env) i name' description db of
                  (Inl e, db') \<Rightarrow> (Inl (store_refusal e), [], db')
                | (Inr g, db') \<Rightarrow>
                    finish_mutation env w (GAudit ''group.update'' (gr_id g) (DName (gr_name g))) (Inr (bare_view g)) db')))"

definition DeleteGroup :: "group_env \<Rightarrow> uuid \<Rightarrow> uuid option \<Rightarrow> zdb \<Rightarrow> bool group_reply" where
  "DeleteGroup env w i db =
     (case editable_group (ge_fails env) w i db of
        Inl e \<Rightarrow> (Inl e, [], db)
      | Inr g \<Rightarrow>
          (case store_DeleteGroup (ge_fails env) i db of
             (Some e, db') \<Rightarrow> (Inl (store_refusal e), [], db')
           | (None, db') \<Rightarrow>
               finish_mutation env w (GAudit ''group.delete'' (gr_id g) (DName (gr_name g))) (Inr True) db'))"

definition AddGroupMember ::
  "group_env \<Rightarrow> uuid \<Rightarrow> uuid option \<Rightarrow> string option \<Rightarrow> uuid option \<Rightarrow> uuid option \<Rightarrow> zdb \<Rightarrow> group_view group_reply" where
  "AddGroupMember env w caller role groupID userID db =
     (case refuseSelfGroupChange role caller userID of
        Some e \<Rightarrow> (Inl e, [], db)
      | None \<Rightarrow>
          (case editable_group (ge_fails env) w groupID db of
             Inl e \<Rightarrow> (Inl e, [], db)
           | Inr g \<Rightarrow>
               (case store_AddGroupMember (ge_fails env) w groupID userID db of
                  (Some e, db') \<Rightarrow> (Inl (store_refusal e), [], db')
                | (None, db') \<Rightarrow>
                    finish_mutation env w (GAudit ''group.member.add'' (gr_id g) (DUser (the userID)))
                      (loadGroup (ge_load_fails env) w groupID db') db')))"

definition RemoveGroupMember ::
  "group_env \<Rightarrow> uuid \<Rightarrow> uuid option \<Rightarrow> string option \<Rightarrow> uuid option \<Rightarrow> uuid option \<Rightarrow> zdb \<Rightarrow> group_view group_reply" where
  "RemoveGroupMember env w caller role groupID userID db =
     (case refuseSelfGroupChange role caller userID of
        Some e \<Rightarrow> (Inl e, [], db)
      | None \<Rightarrow>
          (case editable_group (ge_fails env) w groupID db of
             Inl e \<Rightarrow> (Inl e, [], db)
           | Inr g \<Rightarrow>
               (case store_RemoveGroupMember (ge_fails env) groupID userID db of
                  (Some e, db') \<Rightarrow> (Inl (store_refusal e), [], db')
                | (None, db') \<Rightarrow>
                    finish_mutation env w (GAudit ''group.member.remove'' (gr_id g) (DUser (the userID)))
                      (loadGroup (ge_load_fails env) w groupID db') db')))"

definition AssignResourceToGroup ::
  "group_env \<Rightarrow> uuid \<Rightarrow> uuid option \<Rightarrow> string option \<Rightarrow> uuid option \<Rightarrow> uuid option \<Rightarrow> zdb
   \<Rightarrow> ((resource_row \<times> string) \<times> group_row list) group_reply" where
  "AssignResourceToGroup env w caller role resourceID groupID db =
     (case refuseOwnGroupAccessChange (ge_fails env) role w caller groupID db of
        Some e \<Rightarrow> (Inl e, [], db)
      | None \<Rightarrow>
          (case store_AssignResourceToGroup (ge_fails env) (ge_newid env) w resourceID groupID db of
             (Inl e, db') \<Rightarrow> (Inl (store_refusal e), [], db')
           | (Inr a, db') \<Rightarrow>
               finish_mutation env w (GAudit ''resource.group.assign'' (ar_resource_id a) (DGroup (ar_group_id a)))
                 (loadResourceWithGroups (ge_load_fails env) w (ar_resource_id a) db') db'))"

definition UnassignResourceFromGroup ::
  "group_env \<Rightarrow> uuid \<Rightarrow> uuid option \<Rightarrow> string option \<Rightarrow> uuid option \<Rightarrow> uuid option \<Rightarrow> zdb
   \<Rightarrow> ((resource_row \<times> string) \<times> group_row list) group_reply" where
  "UnassignResourceFromGroup env w caller role resourceID groupID db =
     (case refuseOwnGroupAccessChange (ge_fails env) role w caller groupID db of
        Some e \<Rightarrow> (Inl e, [], db)
      | None \<Rightarrow>
          (case store_UnassignResourceFromGroup (ge_fails env) w resourceID groupID db of
             (Some e, db') \<Rightarrow> (Inl (store_refusal e), [], db')
           | (None, db') \<Rightarrow>
               finish_mutation env w (GAudit ''resource.group.unassign'' (the resourceID) (DGroup (the groupID)))
                 (loadResourceWithGroups (ge_load_fails env) w (the resourceID) db') db'))"

section \<open>Requests\<close>

datatype group_request =
    QCreateGroup string "string option"
  | QUpdateGroup "uuid option" "string option" "string option"
  | QDeleteGroup "uuid option"
  | QAddGroupMember "uuid option" "uuid option"
  | QRemoveGroupMember "uuid option" "uuid option"
  | QAssign "uuid option" "uuid option"
  | QUnassign "uuid option" "uuid option"

text \<open>The effects of a mutation and the database it leaves, run with the role of the directive.\<close>

fun run_mutation ::
  "group_env \<Rightarrow> uuid \<Rightarrow> uuid option \<Rightarrow> string \<Rightarrow> group_request \<Rightarrow> zdb \<Rightarrow> group_effect list \<times> zdb" where
  "run_mutation env w caller role (QCreateGroup n d) db = snd (CreateGroup env w n d db)"
| "run_mutation env w caller role (QUpdateGroup i n d) db = snd (UpdateGroup env w i n d db)"
| "run_mutation env w caller role (QDeleteGroup i) db = snd (DeleteGroup env w i db)"
| "run_mutation env w caller role (QAddGroupMember g u) db = snd (AddGroupMember env w caller (Some role) g u db)"
| "run_mutation env w caller role (QRemoveGroupMember g u) db = snd (RemoveGroupMember env w caller (Some role) g u db)"
| "run_mutation env w caller role (QAssign r g) db = snd (AssignResourceToGroup env w caller (Some role) r g db)"
| "run_mutation env w caller role (QUnassign r g) db = snd (UnassignResourceFromGroup env w caller (Some role) r g db)"

text \<open>
  Every mutation carries \<open>@requires(capability: ACCESS_WRITE)\<close>. The identifiers of the tenant context come
  from the controller's own token, so the workspace is in canonical form; the role lookup
  refuses a context whose identifiers are not UUIDs.
\<close>

definition serve_mutation ::
  "(string \<Rightarrow> uuid option) \<Rightarrow> (tenant_context \<Rightarrow> role_error + string) \<Rightarrow> group_env \<Rightarrow> tenant_context \<Rightarrow> group_request \<Rightarrow> zdb
   \<Rightarrow> group_effect list \<times> zdb" where
  "serve_mutation parse roles env tc q db =
     (case NewRequires (Some tc) roles AccessWrite of
        Inl _ \<Rightarrow> ([], db)
      | Inr role \<Rightarrow>
          (case CanonicalID parse (tx_TenantID tc) of
             None \<Rightarrow> ([], db)
           | Some w \<Rightarrow> run_mutation env w (CanonicalID parse (tx_UserID tc)) role q db))"

end
