(* ===== verification/Group_Access.thy ===== *)
theory Group_Access
  imports Group_Admin Acl_Isolation
begin

text \<open>
  What the mutations of groups, members and rules can do. Every one of them either changes nothing
  and announces nothing, or makes one of a few changes inside the caller's workspace and
  announces it. From this: the foreign keys are kept, the snapshots of other workspaces do not
  change, and only an Admin can add to their own network access.
\<close>

section \<open>The permitted changes\<close>

definition own_membership_ok :: "string \<Rightarrow> uuid option \<Rightarrow> uuid \<Rightarrow> bool" where
  "own_membership_ok role caller u \<longleftrightarrow> role = ''admin'' \<or> caller \<noteq> Some u"

definition own_rules_ok :: "string \<Rightarrow> uuid option \<Rightarrow> zdb \<Rightarrow> uuid \<Rightarrow> uuid \<Rightarrow> bool" where
  "own_rules_ok role caller db w g \<longleftrightarrow>
     role = ''admin'' \<or> (\<exists>u. caller = Some u \<and> \<not> (is_member db g u \<and> group_in db w g))"

text \<open>The flag marks the deletion of a group.\<close>

inductive group_change :: "uuid \<Rightarrow> uuid option \<Rightarrow> string \<Rightarrow> bool \<Rightarrow> zdb \<Rightarrow> zdb \<Rightarrow> bool"
  for w caller role where
  gc_same: "group_change w caller role False db db"
| gc_create: "gr_id g \<notin> gr_id ` set (db_groups db) \<Longrightarrow> gr_workspace_id g = w \<Longrightarrow>
    group_change w caller role False db (db\<lparr>db_groups := db_groups db @ [g]\<rparr>)"
| gc_rename: "g \<in> set (db_groups db) \<Longrightarrow> gr_workspace_id g = w \<Longrightarrow> gr_id g' = gr_id g \<Longrightarrow> gr_workspace_id g' = w \<Longrightarrow>
    group_change w caller role False db
      (db\<lparr>db_groups := update_where (\<lambda>x. gr_id x = gr_id g) (\<lambda>_. g') (db_groups db)\<rparr>)"
| gc_delete: "g \<in> set (db_groups db) \<Longrightarrow> gr_workspace_id g = w \<Longrightarrow>
    group_change w caller role True db (drop_group (gr_id g) db)"
| gc_add: "own_membership_ok role caller u \<Longrightarrow> group_in db w g \<Longrightarrow>
    group_change w caller role False db
      (db\<lparr>db_group_members := db_group_members db @ [\<lparr>gm_group_id = g, gm_user_id = u\<rparr>]\<rparr>)"
| gc_remove: "own_membership_ok role caller u \<Longrightarrow> group_in db w g \<Longrightarrow>
    group_change w caller role False db
      (db\<lparr>db_group_members := filter (\<lambda>m. \<not> (gm_group_id m = g \<and> gm_user_id m = u)) (db_group_members db)\<rparr>)"
| gc_enable: "own_rules_ok role caller db w g \<Longrightarrow> group_in db w g \<Longrightarrow>
    group_change w caller role False db
      (db\<lparr>db_access_rules := update_where (\<lambda>x. ar_resource_id x = r \<and> ar_group_id x = g \<and> ar_workspace_id x = w)
                               (\<lambda>x. x\<lparr>ar_enabled := True\<rparr>) (db_access_rules db)\<rparr>)"
| gc_assign: "own_rules_ok role caller db w (ar_group_id a) \<Longrightarrow> group_in db w (ar_group_id a) \<Longrightarrow> ar_workspace_id a = w \<Longrightarrow>
    group_change w caller role False db (db\<lparr>db_access_rules := db_access_rules db @ [a]\<rparr>)"
| gc_unassign: "own_rules_ok role caller db w g \<Longrightarrow>
    group_change w caller role False db
      (db\<lparr>db_access_rules :=
        filter (\<lambda>a. \<not> (ar_resource_id a = r \<and> ar_group_id a = g \<and> ar_workspace_id a = w)) (db_access_rules db)\<rparr>)"

inductive_cases group_deletedE: "group_change w caller role True db db'"

section \<open>The mutations make no other change\<close>

lemma refuseSelf_None:
  "refuseSelfGroupChange (Some role) caller target = None \<longleftrightarrow> (\<exists>u. target = Some u \<and> own_membership_ok role caller u)"
  by (auto simp: refuseSelfGroupChange_def own_membership_ok_def split: option.splits)

lemma refuseOwn_None:
  "refuseOwnGroupAccessChange fails (Some role) w caller (Some g) db = None \<Longrightarrow> own_rules_ok role caller db w g"
  by (auto simp: refuseOwnGroupAccessChange_def own_rules_ok_def split: option.splits if_splits)

lemma find_group_Some: "find_group db i = Some g \<Longrightarrow> g \<in> set (db_groups db) \<and> gr_id g = i"
  by (auto simp: find_group_def dest: select_one_Some)

lemma editable_group_ok:
  "editable_group fails w i db = Inr g \<Longrightarrow>
     i = Some (gr_id g) \<and> g \<in> set (db_groups db) \<and> gr_workspace_id g = w \<and> find_group db (gr_id g) = Some g \<and> group_in db w (gr_id g)"
  using find_group_Some [of db _ g]
  by (auto simp: editable_group_def GetGroup_def group_in_def list_ex_iff split: sum.splits option.splits if_splits)

lemmas gc_filters = gc_remove [simplified] gc_unassign [simplified]

text \<open>The outcome of a mutation: refused without a trace, or a permitted change that is announced.\<close>

definition mutation_outcome ::
  "uuid \<Rightarrow> uuid option \<Rightarrow> string \<Rightarrow> bool \<Rightarrow> zdb \<Rightarrow> group_effect list \<times> zdb \<Rightarrow> bool" where
  "mutation_outcome w caller role del db out \<longleftrightarrow>
     out = ([], db) \<or> (\<exists>a. fst out = [a, GNotify w] \<and> group_change w caller role del db (snd out))"

lemma outcome_refused [simp, intro!]: "mutation_outcome w caller role del db ([], db)"
  by (simp add: mutation_outcome_def)

lemma outcome_finished [simp]:
  "mutation_outcome w caller role del db (snd (finish_mutation env w a ans db')) \<longleftrightarrow> group_change w caller role del db db'"
  by (simp add: mutation_outcome_def finish_mutation_def)

lemma CreateGroup_outcome: "mutation_outcome w caller role False db (snd (CreateGroup env w n d db))"
  by (auto simp: CreateGroup_def store_CreateGroup_def Let_def intro!: gc_create split: sum.splits if_splits)

lemma UpdateGroup_outcome: "mutation_outcome w caller role False db (snd (UpdateGroup env w i n d db))"
  by (auto simp: UpdateGroup_def store_UpdateGroup_def Let_def intro!: gc_rename
      split: sum.splits option.splits if_splits dest!: editable_group_ok)

lemma DeleteGroup_outcome: "mutation_outcome w caller role True db (snd (DeleteGroup env w i db))"
  by (auto simp: DeleteGroup_def store_DeleteGroup_def intro!: gc_delete
      split: sum.splits option.splits if_splits dest!: editable_group_ok)

lemma AddGroupMember_outcome:
  "mutation_outcome w caller role False db (snd (AddGroupMember env w caller (Some role) g u db))"
  by (auto simp: AddGroupMember_def store_AddGroupMember_def refuseSelf_None intro: gc_add gc_same
      split: sum.splits option.splits if_splits dest!: editable_group_ok)

lemma RemoveGroupMember_outcome:
  "mutation_outcome w caller role False db (snd (RemoveGroupMember env w caller (Some role) g u db))"
  by (auto simp: RemoveGroupMember_def store_RemoveGroupMember_def refuseSelf_None intro: gc_filters
      split: sum.splits option.splits if_splits dest!: editable_group_ok)

lemma AssignResourceToGroup_outcome:
  "mutation_outcome w caller role False db (snd (AssignResourceToGroup env w caller (Some role) r g db))"
  by (auto simp: AssignResourceToGroup_def store_AssignResourceToGroup_def Let_def intro!: gc_enable gc_assign
      split: sum.splits option.splits if_splits dest!: refuseOwn_None)

lemma UnassignResourceFromGroup_outcome:
  "mutation_outcome w caller role False db (snd (UnassignResourceFromGroup env w caller (Some role) r g db))"
  by (auto simp: UnassignResourceFromGroup_def store_UnassignResourceFromGroup_def Let_def intro!: gc_filters
      split: sum.splits option.splits if_splits dest!: refuseOwn_None)

lemmas mutation_outcomes = CreateGroup_outcome UpdateGroup_outcome DeleteGroup_outcome AddGroupMember_outcome
  RemoveGroupMember_outcome AssignResourceToGroup_outcome UnassignResourceFromGroup_outcome

fun deletes_group :: "group_request \<Rightarrow> bool" where
  "deletes_group (QDeleteGroup i) = True"
| "deletes_group _ = False"

lemma run_mutation_outcome: "mutation_outcome w caller role (deletes_group q) db (run_mutation env w caller role q db)"
  by (cases q) (simp_all add: mutation_outcomes)

section \<open>Foreign keys\<close>

text \<open>The keys of the three tables (migrations 012 and 045), as far as they concern groups.\<close>

definition groups_fk :: "zdb \<Rightarrow> bool" where
  "groups_fk db \<longleftrightarrow>
     distinct (map gr_id (db_groups db)) \<and>
     (\<forall>m\<in>set (db_group_members db). gm_group_id m \<in> gr_id ` set (db_groups db)) \<and>
     (\<forall>a\<in>set (db_access_rules db). group_in db (ar_workspace_id a) (ar_group_id a))"

lemma group_in_iff: "group_in db w g \<longleftrightarrow> (\<exists>x\<in>set (db_groups db). gr_id x = g \<and> gr_workspace_id x = w)"
  by (auto simp: group_in_def list_ex_iff)

lemma is_member_iff: "is_member db g u \<longleftrightarrow> (\<exists>m\<in>set (db_group_members db). gm_group_id m = g \<and> gm_user_id m = u)"
  by (auto simp: is_member_def list_ex_iff)

lemma group_in_unique:
  assumes "groups_fk db" and "g \<in> set (db_groups db)"
  shows "group_in db w (gr_id g) \<longleftrightarrow> gr_workspace_id g = w"
  using assms distinct_key_eq [of gr_id "db_groups db" g] unfolding groups_fk_def group_in_iff by metis

lemma rename_keys:
  assumes "distinct (map gr_id gs)" and "g \<in> set gs" and "gr_id g' = gr_id g" and "gr_workspace_id g' = gr_workspace_id g"
  shows "map (\<lambda>x. (gr_id x, gr_workspace_id x)) (update_where (\<lambda>x. gr_id x = gr_id g) (\<lambda>_. g') gs) =
           map (\<lambda>x. (gr_id x, gr_workspace_id x)) gs"
proof -
  have "x = g" if "x \<in> set gs" "gr_id x = gr_id g" for x
    using distinct_key_eq [OF assms(1) that(1) assms(2) that(2)] .
  then show ?thesis using assms(3,4) by (auto simp: update_where_def)
qed

lemma group_in_keys: "group_in db w g \<longleftrightarrow> (g, w) \<in> set (map (\<lambda>x. (gr_id x, gr_workspace_id x)) (db_groups db))"
  unfolding group_in_iff by auto

lemma groups_fk_keys:
  assumes "groups_fk db" and "map (\<lambda>x. (gr_id x, gr_workspace_id x)) gs = map (\<lambda>x. (gr_id x, gr_workspace_id x)) (db_groups db)"
  shows "groups_fk (db\<lparr>db_groups := gs\<rparr>)" and "group_in (db\<lparr>db_groups := gs\<rparr>) = group_in db"
proof -
  have ids: "map gr_id gs = map gr_id (db_groups db)" using arg_cong [OF assms(2), of "map fst"] by (simp add: comp_def)
  show g: "group_in (db\<lparr>db_groups := gs\<rparr>) = group_in db"
    by (intro ext) (simp add: group_in_keys assms(2) del: set_map)
  show "groups_fk (db\<lparr>db_groups := gs\<rparr>)"
    using assms(1) unfolding groups_fk_def g set_map [symmetric] by (simp add: ids del: set_map)
qed

lemma group_change_fk:
  assumes "group_change w caller role del db db'" and "groups_fk db"
  shows "groups_fk db'"
  using assms
proof cases
  case (gc_rename g g')
  then show ?thesis using groups_fk_keys(1) [OF assms(2) rename_keys, of g g'] assms(2) by (simp add: groups_fk_def)
next
  case (gc_delete g)
  then show ?thesis using assms(2) unfolding groups_fk_def group_in_iff drop_group_def
    by (simp add: distinct_map_filter) (fastforce simp: image_iff)
qed (auto simp: groups_fk_def group_in_iff set_update_where)

section \<open>Other workspaces\<close>

text \<open>A change touches the three tables only.\<close>

definition group_tables_only :: "zdb \<Rightarrow> zdb \<Rightarrow> bool" where
  "group_tables_only db db' \<longleftrightarrow>
     db' = db\<lparr>db_groups := db_groups db', db_group_members := db_group_members db', db_access_rules := db_access_rules db'\<rparr>"

lemma group_tables_only_iff:
  "group_tables_only db db' \<longleftrightarrow> (\<exists>G M A. db' = db\<lparr>db_groups := G, db_group_members := M, db_access_rules := A\<rparr>)"
  unfolding group_tables_only_def by (rule iffI, blast, elim exE) simp

lemma group_tables_only_refl [simp]: "group_tables_only db db"
  by (simp add: group_tables_only_def)

lemma group_tables_only_trans:
  "group_tables_only a b \<Longrightarrow> group_tables_only b c \<Longrightarrow> group_tables_only a c"
  unfolding group_tables_only_iff by (elim exE, intro exI) simp

lemma group_change_tables: "group_change w caller role del db db' \<Longrightarrow> group_tables_only db db'"
  by (induction rule: group_change.induct) (simp_all add: group_tables_only_def drop_group_def)

lemma own_group_filter: "own_group w db g \<longleftrightarrow> g \<in> gr_id ` set (filter (\<lambda>x. gr_workspace_id x = w) (db_groups db))"
  by (auto simp: own_group_def)

lemma tenant_view_eq:
  assumes "group_tables_only db db'"
    and "filter (\<lambda>x. gr_workspace_id x = w) (db_groups db') = filter (\<lambda>x. gr_workspace_id x = w) (db_groups db)"
    and "filter (\<lambda>x. own_group w db (gm_group_id x)) (db_group_members db') =
           filter (\<lambda>x. own_group w db (gm_group_id x)) (db_group_members db)"
    and "filter (\<lambda>x. ar_workspace_id x = w) (db_access_rules db') = filter (\<lambda>x. ar_workspace_id x = w) (db_access_rules db)"
  shows "tenant_view w db' = tenant_view w db"
proof -
  obtain G M A where db': "db' = db\<lparr>db_groups := G, db_group_members := M, db_access_rules := A\<rparr>"
    using assms(1) unfolding group_tables_only_iff by blast
  have own: "own_group w db' g \<longleftrightarrow> own_group w db g" for g unfolding own_group_filter assms(2) ..
  show ?thesis using assms(2-4) unfolding tenant_view_def own
    by (simp add: db' own_connector_def [abs_def] own_shield_def [abs_def])
qed

lemma filter_update_where:
  "(\<And>x. P x \<Longrightarrow> \<not> Q x \<and> \<not> Q (f x)) \<Longrightarrow> filter Q (update_where P f xs) = filter Q xs"
  by (induction xs) (auto simp: update_where_def)

lemma filter_implied: "(\<And>x. x \<in> set xs \<Longrightarrow> Q x \<Longrightarrow> P x) \<Longrightarrow> filter Q (filter P xs) = filter Q xs"
  by (induction xs) auto

lemma foreign_group:
  assumes "groups_fk db" and "group_in db w g" and "w' \<noteq> w"
  shows "\<not> own_group w' db g"
proof -
  obtain x where x: "x \<in> set (db_groups db)" "gr_id x = g" "gr_workspace_id x = w"
    using assms(2) unfolding group_in_iff by blast
  have "y = x" if "y \<in> set (db_groups db)" "gr_id y = g" for y
    using distinct_key_eq [of gr_id "db_groups db" y x] that x assms(1) by (simp add: groups_fk_def)
  then show ?thesis using x(3) assms(3) unfolding own_group_def by blast
qed

lemma group_change_groups:
  assumes "group_change w caller role del db db'" and "groups_fk db" and "w' \<noteq> w"
  shows "filter (\<lambda>x. gr_workspace_id x = w') (db_groups db') = filter (\<lambda>x. gr_workspace_id x = w') (db_groups db)"
  using assms(1)
proof cases
  case (gc_rename g g')
  have "\<not> gr_workspace_id x = w'" if "x \<in> set (db_groups db)" "gr_id x = gr_id g" for x
    using distinct_key_eq [of gr_id "db_groups db" x g] that gc_rename(3,4) assms(2,3) by (simp add: groups_fk_def)
  then have "filter (\<lambda>x. gr_workspace_id x = w') (update_where (\<lambda>x. gr_id x = gr_id g) (\<lambda>_. g') gs) =
      filter (\<lambda>x. gr_workspace_id x = w') gs" if "set gs \<subseteq> set (db_groups db)" for gs
    using that gc_rename(6) assms(3) by (induction gs) (auto simp: update_where_def)
  then show ?thesis by (simp add: gc_rename(2))
next
  case (gc_delete g)
  have "gr_id x \<noteq> gr_id g" if "x \<in> set (db_groups db)" "gr_workspace_id x = w'" for x
    using distinct_key_eq [of gr_id "db_groups db" x g] that gc_delete(3,4) assms(2,3) by (auto simp: groups_fk_def)
  then show ?thesis using filter_implied [of "db_groups db"] by (simp add: gc_delete(2) drop_group_def del: filter_filter)
qed (use assms(3) in simp_all)

lemma group_change_members:
  assumes "group_change w caller role del db db'" and "groups_fk db" and "w' \<noteq> w"
  shows "filter (\<lambda>x. own_group w' db (gm_group_id x)) (db_group_members db') =
           filter (\<lambda>x. own_group w' db (gm_group_id x)) (db_group_members db)"
  using assms(1)
proof cases
  case (gc_delete g)
  have "\<not> own_group w' db (gr_id g)"
    using foreign_group [OF assms(2) _ assms(3)] group_in_unique [OF assms(2) gc_delete(3)] gc_delete(4) by blast
  then show ?thesis by (simp add: gc_delete(2) drop_group_def del: filter_filter, intro filter_implied) auto
next
  case (gc_remove u g)
  then show ?thesis using foreign_group [OF assms(2) _ assms(3)]
    by (simp del: filter_filter, intro filter_implied) auto
qed (use foreign_group [OF assms(2) _ assms(3)] in simp_all)

lemma group_change_rules:
  assumes "group_change w caller role del db db'" and "groups_fk db" and "w' \<noteq> w"
  shows "filter (\<lambda>x. ar_workspace_id x = w') (db_access_rules db') = filter (\<lambda>x. ar_workspace_id x = w') (db_access_rules db)"
  using assms(1)
proof cases
  case (gc_delete g)
  have "ar_group_id a \<noteq> gr_id g" if "a \<in> set (db_access_rules db)" "ar_workspace_id a = w'" for a
    using group_in_unique [OF assms(2) gc_delete(3), of w'] that gc_delete(4) assms(2,3) unfolding groups_fk_def by metis
  then show ?thesis by (simp add: gc_delete(2) drop_group_def del: filter_filter, intro filter_implied) auto
next
  case (gc_unassign g r)
  then show ?thesis using assms(3) by (simp del: filter_filter, intro filter_implied) auto
qed (use assms(3) in \<open>auto intro!: filter_update_where\<close>)

lemma group_change_view:
  assumes "group_change w caller role del db db'" and "groups_fk db" and "w' \<noteq> w"
  shows "tenant_view w' db' = tenant_view w' db"
  by (rule tenant_view_eq [OF group_change_tables [OF assms(1)] group_change_groups [OF assms]
        group_change_members [OF assms] group_change_rules [OF assms]])

section \<open>A caller's own access\<close>

text \<open>The resources, with their workspace, that an enabled rule grants a group of the user.\<close>

definition own_rules :: "zdb \<Rightarrow> uuid \<Rightarrow> (uuid \<times> uuid) set" where
  "own_rules db u =
     {(ar_workspace_id a, ar_resource_id a) |a. a \<in> set (db_access_rules db) \<and> ar_enabled a \<and>
        group_in db (ar_workspace_id a) (ar_group_id a) \<and> is_member db (ar_group_id a) u}"

lemma own_rules_cong:
  assumes "\<And>w r. (\<exists>a\<in>set (db_access_rules db'). ar_enabled a \<and> ar_workspace_id a = w \<and> ar_resource_id a = r \<and>
                     group_in db' w (ar_group_id a) \<and> is_member db' (ar_group_id a) u) \<longleftrightarrow>
                 (\<exists>a\<in>set (db_access_rules db). ar_enabled a \<and> ar_workspace_id a = w \<and> ar_resource_id a = r \<and>
                     group_in db w (ar_group_id a) \<and> is_member db (ar_group_id a) u)"
  shows "own_rules db' u = own_rules db u"
proof -
  have "p \<in> own_rules d u \<longleftrightarrow> (\<exists>a\<in>set (db_access_rules d). ar_enabled a \<and> ar_workspace_id a = fst p \<and> ar_resource_id a = snd p \<and>
          group_in d (fst p) (ar_group_id a) \<and> is_member d (ar_group_id a) u)" for p d
    unfolding own_rules_def by (cases p) auto
  then show ?thesis using assms by blast
qed

lemma member_has_group: "groups_fk db \<Longrightarrow> is_member db g u \<Longrightarrow> g \<in> gr_id ` set (db_groups db)"
  unfolding groups_fk_def is_member_iff by blast

lemma own_rules_kept:
  assumes "group_change w (Some u) role False db db'" and "groups_fk db" and "role \<noteq> ''admin''"
  shows "own_rules db' u = own_rules db u"
proof (rule own_rules_cong, goal_cases)
  case (1 ws rid)
  from assms(1) show ?case
  proof cases
    case (gc_create g)
    have "\<not> is_member db (gr_id g) u" using member_has_group [OF assms(2)] gc_create(2) by blast
    then show ?thesis by (auto simp: gc_create(1) group_in_iff is_member_iff)
  next
    case (gc_rename g g')
    have "group_in db' = group_in db"
      unfolding gc_rename(1) by (rule groups_fk_keys(2) [OF assms(2) rename_keys])
        (use assms(2) gc_rename in \<open>auto simp: groups_fk_def\<close>)
    then show ?thesis by (simp add: gc_rename(1) is_member_iff)
  next
    case (gc_enable g r)
    then have "\<not> (is_member db g u \<and> group_in db w g)" using assms(3) by (simp add: own_rules_ok_def)
    then show ?thesis
      by (auto simp: gc_enable(1) group_in_iff is_member_iff set_update_where)
  next
    case (gc_assign a)
    then have "\<not> (is_member db (ar_group_id a) u \<and> group_in db w (ar_group_id a))" using assms(3) by (simp add: own_rules_ok_def)
    then show ?thesis using gc_assign(4) by (auto simp: gc_assign(1) group_in_iff is_member_iff)
  next
    case (gc_unassign g r)
    then have "\<not> (is_member db g u \<and> group_in db w g)" using assms(3) by (simp add: own_rules_ok_def)
    then show ?thesis by (auto simp: gc_unassign(1) group_in_iff is_member_iff)
  qed (use assms(3) in \<open>auto simp: own_membership_ok_def group_in_iff is_member_iff\<close>)
qed

lemma own_rules_dropped: "own_rules (drop_group i db) u \<subseteq> own_rules db u"
  unfolding own_rules_def by (auto simp: drop_group_def group_in_iff is_member_iff)

lemma own_rules_change:
  assumes "group_change w (Some u) role del db db'" and "groups_fk db" and "role \<noteq> ''admin''"
  shows "own_rules db' u \<subseteq> own_rules db u"
proof (cases del)
  case True
  with assms(1) have "group_change w (Some u) role True db db'" by simp
  then show ?thesis using own_rules_dropped by (elim group_deletedE) simp
next
  case False
  then show ?thesis using own_rules_kept [OF _ assms(2,3)] assms(1) by simp
qed

section \<open>Requests in sequence\<close>

lemma serve_mutation_outcome:
  assumes "serve_mutation parse roles env tc q db = (es, db')"
  shows "(es = [] \<and> db' = db) \<or>
    (\<exists>a w role. es = [a, GNotify w] \<and> CanonicalID parse (tx_TenantID tc) = Some w \<and> roles tc = Inr role \<and>
       rbac_Allows role AccessWrite \<and> group_change w (CanonicalID parse (tx_UserID tc)) role (deletes_group q) db db')"
proof (cases "NewRequires (Some tc) roles AccessWrite")
  case (Inr role)
  then have role: "roles tc = Inr role" "rbac_Allows role AccessWrite"
    by (auto simp: NewRequires_def split: sum.splits role_error.splits if_splits)
  show ?thesis
  proof (cases "CanonicalID parse (tx_TenantID tc)")
    case (Some w)
    then have "run_mutation env w (CanonicalID parse (tx_UserID tc)) role q db = (es, db')"
      using assms Inr by (simp add: serve_mutation_def)
    then have "mutation_outcome w (CanonicalID parse (tx_UserID tc)) role (deletes_group q) db (es, db')"
      using run_mutation_outcome [of w "CanonicalID parse (tx_UserID tc)" role q db env] by simp
    then show ?thesis using role Some unfolding mutation_outcome_def by auto
  qed (use assms Inr in \<open>simp add: serve_mutation_def\<close>)
qed (use assms in \<open>simp add: serve_mutation_def\<close>)

text \<open>A request changes the tables only if it announces the change to the workspace of the caller.\<close>

lemma unannounced_mutation:
  "serve_mutation parse roles env tc q db = (es, db') \<Longrightarrow> \<forall>w. GNotify w \<notin> set es \<Longrightarrow> db' = db"
  using serve_mutation_outcome [of parse roles env tc q db es db'] by auto

text \<open>The snapshot of another workspace is not affected.\<close>

lemma mutation_isolated:
  assumes "serve_mutation parse roles env tc q db = (es, db')" and "groups_fk db"
    and "parse ws = Some w" and "CanonicalID parse (tx_TenantID tc) \<noteq> Some w" and "refs_inside w db"
  shows "CompileACLSnapshot parse utext fails version now dbnow ws db' =
           CompileACLSnapshot parse utext fails version now dbnow ws db"
proof -
  have same: "tenant_view w db' = tenant_view w db" and only: "db' = db \<or> group_tables_only db db'"
    using serve_mutation_outcome [OF assms(1)] group_change_view [OF _ assms(2)] group_change_tables assms(4) by metis+
  from only have "refs_inside w db'" using assms(5) unfolding group_tables_only_def
    by (elim disjE ssubst) (simp_all add: refs_inside_def)
  then show ?thesis using view_compile [of parse ws w db] view_compile [of parse ws w db'] assms(3,5) same by simp
qed

text \<open>The requests of one caller, each in its own environment and with the role found for it.\<close>

fun serve_mutations ::
  "(string \<Rightarrow> uuid option) \<Rightarrow> tenant_context \<Rightarrow> (group_env \<times> (role_error + string) \<times> group_request) list \<Rightarrow> zdb \<Rightarrow> zdb" where
  "serve_mutations parse tc [] db = db"
| "serve_mutations parse tc ((env, role, q) # reqs) db =
     serve_mutations parse tc reqs (snd (serve_mutation parse (\<lambda>_. role) env tc q db))"

lemma serve_mutations_own:
  assumes "groups_fk db" and "CanonicalID parse (tx_UserID tc) = Some u"
    and "\<forall>(env, role, q)\<in>set reqs. role \<noteq> Inr ''admin''"
  shows "groups_fk (serve_mutations parse tc reqs db) \<and> own_rules (serve_mutations parse tc reqs db) u \<subseteq> own_rules db u \<and>
    group_tables_only db (serve_mutations parse tc reqs db) \<and>
    ((\<forall>(env, role, q)\<in>set reqs. \<not> deletes_group q) \<longrightarrow> own_rules (serve_mutations parse tc reqs db) u = own_rules db u)"
  using assms(1,3)
proof (induction reqs arbitrary: db)
  case (Cons r reqs)
  obtain env role q where r: "r = (env, role, q)" by (cases r)
  obtain es db1 where s: "serve_mutation parse (\<lambda>_. role) env tc q db = (es, db1)" by fastforce
  have step: "groups_fk db1 \<and> own_rules db1 u \<subseteq> own_rules db u \<and> group_tables_only db db1 \<and>
      (\<not> deletes_group q \<longrightarrow> own_rules db1 u = own_rules db u)"
  proof (cases "db1 = db")
    case False
    then obtain w ro where c: "role = Inr ro" "group_change w (Some u) ro (deletes_group q) db db1"
      using serve_mutation_outcome [OF s] unfolding assms(2) by metis
    moreover have "ro \<noteq> ''admin''" using Cons.prems(2) c(1) r by auto
    ultimately show ?thesis
      using own_rules_change [OF c(2)] own_rules_kept [of w u ro db db1] group_change_fk [OF c(2)] group_change_tables [OF c(2)]
        Cons.prems(1) by auto
  qed (use Cons.prems(1) in simp)
  have IH: "groups_fk (serve_mutations parse tc reqs db1) \<and> own_rules (serve_mutations parse tc reqs db1) u \<subseteq> own_rules db1 u \<and>
      group_tables_only db1 (serve_mutations parse tc reqs db1) \<and>
      ((\<forall>(env, role, q)\<in>set reqs. \<not> deletes_group q) \<longrightarrow> own_rules (serve_mutations parse tc reqs db1) u = own_rules db1 u)"
    by (rule Cons.IH) (use step Cons.prems(2) in auto)
  show ?case unfolding r serve_mutations.simps s snd_conv using step IH group_tables_only_trans [of db db1] by auto
qed simp

section \<open>Own access in the compiled snapshot\<close>

text \<open>What of \<open>may_reach\<close> the group tables do not decide.\<close>

definition reach_rest :: "zdb \<Rightarrow> uuid \<Rightarrow> time \<Rightarrow> acl_key \<Rightarrow> string \<Rightarrow> resource_row \<Rightarrow> bool" where
  "reach_rest db w now k s r \<longleftrightarrow>
     r \<in> set (db_resources db) \<and> rs_tenant_id r = w \<and> rs_status r \<noteq> ''deleting'' \<and> resource_key r = k \<and>
     (\<exists>n\<in>set (db_remote_networks db). rn_id n = rs_remote_network_id r \<and> rn_tenant_id n = w) \<and> resource_routable db w r \<and>
     (\<exists>cd\<in>set (db_client_devices db). cd_spiffe_id cd = Some s \<and> device_active db w cd \<and> posture_allows db w now (fst k) (cd_id cd))"

lemma reach_rest_tables:
  assumes "group_tables_only db db'"
  shows "reach_rest db' w now k s r = reach_rest db w now k s r"
proof -
  obtain G M A where db': "db' = db\<lparr>db_groups := G, db_group_members := M, db_access_rules := A\<rparr>"
    using assms unfolding group_tables_only_iff by blast
  have "profile_fresh db' w now d p = profile_fresh db w now d p" for d p
    by (rule profile_fresh_cong) (simp_all add: db')
  then have "posture_allows db' w now rid d = posture_allows db w now rid d" for rid d
    unfolding posture_allows_def required_by_def by (simp add: db')
  then show ?thesis unfolding reach_rest_def resource_routable_def device_active_def by (simp add: db')
qed

lemma own_rules_mem:
  "(w, rid) \<in> own_rules db u \<longleftrightarrow>
     (\<exists>ar gm. ar \<in> set (db_access_rules db) \<and> ar_workspace_id ar = w \<and> ar_enabled ar \<and> rid = ar_resource_id ar \<and>
        (\<exists>g\<in>set (db_groups db). gr_id g = ar_group_id ar \<and> gr_workspace_id g = w) \<and>
        gm \<in> set (db_group_members db) \<and> ar_group_id ar = gm_group_id gm \<and> u = gm_user_id gm)" (is "?L \<longleftrightarrow> ?R")
proof
  assume ?L
  then obtain a where a: "w = ar_workspace_id a" "rid = ar_resource_id a" "a \<in> set (db_access_rules db)" "ar_enabled a"
    "group_in db (ar_workspace_id a) (ar_group_id a)" "is_member db (ar_group_id a) u" unfolding own_rules_def by blast
  then obtain m where m: "m \<in> set (db_group_members db)" "gm_group_id m = ar_group_id a" "gm_user_id m = u"
    unfolding is_member_iff by blast
  show ?R using a(1-5) m unfolding group_in_iff by (intro exI [of _ a] exI [of _ m]) simp
next
  assume ?R
  then obtain ar gm where a: "ar \<in> set (db_access_rules db)" "ar_workspace_id ar = w" "ar_enabled ar" "rid = ar_resource_id ar"
    "\<exists>g\<in>set (db_groups db). gr_id g = ar_group_id ar \<and> gr_workspace_id g = w" "gm \<in> set (db_group_members db)"
    "ar_group_id ar = gm_group_id gm" "u = gm_user_id gm" by blast
  then show ?L unfolding own_rules_def group_in_iff is_member_iff by (intro CollectI exI [of _ ar]) auto
qed

lemma may_reach_own:
  assumes "\<forall>cd\<in>set (db_client_devices db). cd_spiffe_id cd = Some s \<longrightarrow> cd_user_id cd = u"
  shows "may_reach db w now k s \<longleftrightarrow> (\<exists>r. (w, rs_id r) \<in> own_rules db u \<and> reach_rest db w now k s r)" (is "?L \<longleftrightarrow> ?R")
proof
  assume ?L
  then obtain ar r gm cd where m: "grants db w ar r" "resource_routable db w r" "resource_key r = k"
    "gm \<in> set (db_group_members db)" "ar_group_id ar = gm_group_id gm" "cd \<in> set (db_client_devices db)"
    "cd_user_id cd = gm_user_id gm" "cd_spiffe_id cd = Some s" "device_active db w cd" "posture_allows db w now (fst k) (cd_id cd)"
    unfolding may_reach_def by blast
  have "u = gm_user_id gm" using assms m(6-8) by metis
  then have "(w, rs_id r) \<in> own_rules db u"
    using m(1,4,5) unfolding own_rules_mem grants_def by (intro exI [of _ ar] exI [of _ gm]) simp
  moreover have "reach_rest db w now k s r"
    using m(1-3,6,8-10) unfolding reach_rest_def grants_def by blast
  ultimately show ?R by blast
next
  assume ?R
  then obtain r where r: "(w, rs_id r) \<in> own_rules db u" "reach_rest db w now k s r" by blast
  from r(1) obtain ar gm where a: "ar \<in> set (db_access_rules db)" "ar_workspace_id ar = w" "ar_enabled ar"
    "rs_id r = ar_resource_id ar" "\<exists>g\<in>set (db_groups db). gr_id g = ar_group_id ar \<and> gr_workspace_id g = w"
    "gm \<in> set (db_group_members db)" "ar_group_id ar = gm_group_id gm" "u = gm_user_id gm" unfolding own_rules_mem by blast
  from r(2) obtain cd where cd: "cd \<in> set (db_client_devices db)" "cd_spiffe_id cd = Some s" "device_active db w cd"
    "posture_allows db w now (fst k) (cd_id cd)" unfolding reach_rest_def by blast
  have "grants db w ar r" using a(1-5) r(2) unfolding grants_def reach_rest_def by blast
  moreover have "cd_user_id cd = gm_user_id gm" using assms cd(1,2) a(8) by simp
  ultimately show ?L using r(2) a(6,7) cd unfolding may_reach_def reach_rest_def by blast
qed

definition allowed_in :: "compiled_acl \<Rightarrow> acl_key \<Rightarrow> string \<Rightarrow> bool" where
  "allowed_in c k s \<longleftrightarrow> (\<exists>e\<in>set (as_Entries (ca_Snapshot c)). entry_key_of e = k \<and> s \<in> set (ae_AllowedSpiffeIds e))"

text \<open>
  C34. Take a user who is not an Admin and any sequence of their requests to create, rename or delete
  groups, to add or remove members and to assign or unassign resources, with any statement failing and
  with whatever role other than Admin is found for each request. Compile the workspace before and after: the
  second snapshot lets an identity of the user's own devices reach nothing that the first did
  not, and unless a group was deleted the two let it reach exactly the same.
\<close>

theorem no_self_grant:
  assumes "groups_fk db" and "CanonicalID parse (tx_UserID tc) = Some u"
    and "\<forall>(env, role, q)\<in>set reqs. role \<noteq> Inr ''admin''"
    and "\<forall>cd\<in>set (db_client_devices db). cd_spiffe_id cd = Some s \<longrightarrow> cd_user_id cd = u"
    and "parse ws = Some w" and "distinct (map cd_id (db_client_devices db))" and "distinct (map pf_ID (db_profiles db))"
    and "CompileACLSnapshot parse utext fails v1 now t1 ws db = Inr before"
    and "CompileACLSnapshot parse utext fails v2 now t2 ws (serve_mutations parse tc reqs db) = Inr after"
  shows "(allowed_in after k s \<longrightarrow> allowed_in before k s) \<and>
    ((\<forall>(env, role, q)\<in>set reqs. \<not> deletes_group q) \<longrightarrow> allowed_in before k s \<longrightarrow> allowed_in after k s)"
proof -
  let ?db' = "serve_mutations parse tc reqs db"
  note own = serve_mutations_own [OF assms(1-3)]
  then have t: "group_tables_only db ?db'" by blast
  then have "db_client_devices ?db' = db_client_devices db \<and> db_profiles ?db' = db_profiles db"
    unfolding group_tables_only_iff by (elim exE) simp
  then have same: "db_client_devices ?db' = db_client_devices db" "db_profiles ?db' = db_profiles db"
    "reach_rest ?db' w now k s r = reach_rest db w now k s r" for r
    using reach_rest_tables [OF t] by simp_all
  have b: "allowed_in before k s \<longleftrightarrow> may_reach db w now k s"
    unfolding allowed_in_def by (rule compiled_allows_iff [OF assms(8,5,6,7)])
  have a: "allowed_in after k s \<longleftrightarrow> may_reach ?db' w now k s"
    unfolding allowed_in_def by (rule compiled_allows_iff [OF assms(9,5)]) (simp_all add: same assms(6,7))
  show ?thesis
    unfolding a b may_reach_own [OF assms(4)] may_reach_own [of ?db', unfolded same, OF assms(4)] same
    using own by blast
qed

text \<open>
  A Security user builds a group for somebody else, then tries to join it and to widen a group they
  are in; both are refused.
\<close>

abbreviation ex_gparse :: "string \<Rightarrow> uuid option" where
  "ex_gparse \<equiv> (\<lambda>s. if s = ''ws'' then Some 4 else if s = ''u3'' then Some 3 else None)"

definition ex_gdb :: zdb where
  "ex_gdb = ex_acl\<lparr>db_workspaces := [\<lparr>ws_id = 4, ws_trust_domain = None\<rparr>]\<rparr>"

definition ex_gtc :: tenant_context where
  "ex_gtc = \<lparr>tx_TenantID = ''ws'', tx_UserID = ''u3'', tx_Email = ''c@x''\<rparr>"

definition ex_genv :: "uuid \<Rightarrow> group_env" where
  "ex_genv i = \<lparr>ge_fails = (\<lambda>_. False), ge_load_fails = (\<lambda>_. False), ge_now = 5, ge_newid = i, ge_notify_fails = False\<rparr>"

definition ex_greqs :: "(group_env \<times> (role_error + string) \<times> group_request) list" where
  "ex_greqs =
     [(ex_genv 50, Inr ''security'', QCreateGroup ''x'' None),
      (ex_genv 51, Inr ''security'', QAddGroupMember (Some 50) (Some 2)),
      (ex_genv 52, Inr ''security'', QAssign (Some 11) (Some 50)),
      (ex_genv 53, Inr ''security'', QAddGroupMember (Some 50) (Some 3)),
      (ex_genv 54, Inr ''security'', QAssign (Some 11) (Some 12))]"

definition ex_gafter :: zdb where
  "ex_gafter = ex_gdb\<lparr>
     db_groups := db_groups ex_gdb @ [\<lparr>gr_id = 50, gr_workspace_id = 4, gr_name = ''x'', gr_description = None,
       gr_created_at = 5, gr_origin = ''manual'', gr_external_id = None, gr_connection_id = None\<rparr>],
     db_group_members := db_group_members ex_gdb @ [\<lparr>gm_group_id = 50, gm_user_id = 2\<rparr>],
     db_access_rules := db_access_rules ex_gdb @
       [\<lparr>ar_id = 52, ar_workspace_id = 4, ar_resource_id = 11, ar_group_id = 50, ar_enabled = True\<rparr>]\<rparr>"

lemma ex_gname: "validGroupName ''x'' = Inr ''x''"
  by code_simp

lemmas ex_group_defs = serve_mutation_def NewRequires_def rbac_Allows_def role_table_def CanonicalID_def ex_gtc_def ex_genv_def
  finish_mutation_def ex_gdb_def ex_acl_def select_one_def group_in_def is_member_def

lemma ex_greqs_after: "serve_mutations ex_gparse ex_gtc ex_greqs ex_gdb = ex_gafter"
  by (simp add: ex_greqs_def ex_gafter_def ex_group_defs CreateGroup_def ex_gname store_CreateGroup_def index_clash_def Let_def
      AddGroupMember_def refuseSelfGroupChange_def editable_group_def GetGroup_def find_group_def store_AddGroupMember_def ex_user_def
      AssignResourceToGroup_def refuseOwnGroupAccessChange_def store_AssignResourceToGroup_def resource_in_def ex_resource_def ex_rule_def)

abbreviation ex_gcompile :: "zdb \<Rightarrow> acl_error + compiled_acl" where
  "ex_gcompile \<equiv> CompileACLSnapshot ex_gparse (\<lambda>_. ''u'') (\<lambda>_. False) 9 (sec 400) (sec 400) ''ws''"

lemma ex_gcompiles: "\<exists>c. ex_gcompile ex_gdb = Inr c" "\<exists>c. ex_gcompile ex_gafter = Inr c"
  by (rule Compile_total [where w = 4]; auto simp: grants_def ex_gafter_def ex_gdb_def ex_acl_defs known_status_def)+

theorem no_self_grant_witness:
  "\<exists>before after. ex_gcompile ex_gdb = Inr before \<and> ex_gcompile (serve_mutations ex_gparse ex_gtc ex_greqs ex_gdb) = Inr after \<and>
     length (db_access_rules (serve_mutations ex_gparse ex_gtc ex_greqs ex_gdb)) = 2 \<and>
     (\<forall>k. allowed_in after k ''spiffe://b'' = allowed_in before k ''spiffe://b'')"
proof -
  obtain before after where c: "ex_gcompile ex_gdb = Inr before" "ex_gcompile ex_gafter = Inr after"
    using ex_gcompiles by blast
  have "(allowed_in after k ''spiffe://b'' \<longrightarrow> allowed_in before k ''spiffe://b'') \<and>
      ((\<forall>(env, role, q)\<in>set ex_greqs. \<not> deletes_group q) \<longrightarrow>
        allowed_in before k ''spiffe://b'' \<longrightarrow> allowed_in after k ''spiffe://b'')" for k
  proof (rule no_self_grant [where db = ex_gdb and parse = ex_gparse and tc = ex_gtc and u = 3 and ws = "''ws''" and w = 4])
    show "groups_fk ex_gdb" by (simp add: groups_fk_def group_in_def ex_gdb_def ex_acl_defs)
    show "ex_gcompile (serve_mutations ex_gparse ex_gtc ex_greqs ex_gdb) = Inr after" unfolding ex_greqs_after by (rule c(2))
  qed (use c(1) in \<open>simp_all add: CanonicalID_def ex_gtc_def ex_greqs_def ex_gdb_def ex_acl_defs\<close>)
  then have "allowed_in after k ''spiffe://b'' = allowed_in before k ''spiffe://b''" for k
    by (simp add: ex_greqs_def) blast
  then show ?thesis using c unfolding ex_greqs_after by (auto simp: ex_gafter_def ex_gdb_def ex_acl_def)
qed

end
