(* ===== verification/Res_Host.thy ===== *)
theory Res_Host
  imports Zec_Prelude
begin

text \<open>
  Resource hosts: \<open>NormalizeHost\<close> and \<open>IsNameHost\<close> of \<open>internal/resource/store.go\<close>, over the part
  of \<open>netip.ParseAddr\<close>, \<open>Addr.String\<close>, \<open>strings.ToLower\<close> and \<open>strings.Split\<close> they use. A host is
  stored in its canonical form; the theory shows that the canonical form is a fixed point and
  that the pattern the SQL statements use tells addresses and names apart.
\<close>

section \<open>Errors of the package\<close>

datatype res_error =
    ErrInvalidHost | ErrNameNeedsTCP | ErrNameProtectedMove | ErrNameCollision
  | ErrRemoteNetworkNotFound | ErrResourceNotFound | ErrUnprotectNotPossible
  | ErrDeleteNotPossible | ErrDeleteNeedsUnprotect | ErrNoMatchingShield | ErrResourceBusy
  | ErrProtectNoShield | ErrProtectNameNeedsShield | ErrResourceIDMissing uuid | ErrResourceDB

section \<open>Strings\<close>

definition digit_byte :: "char \<Rightarrow> bool" where
  "digit_byte c \<longleftrightarrow> 48 \<le> (of_char c :: nat) \<and> (of_char c :: nat) \<le> 57"

definition lower_byte :: "char \<Rightarrow> bool" where
  "lower_byte c \<longleftrightarrow> 97 \<le> (of_char c :: nat) \<and> (of_char c :: nat) \<le> 122"

text \<open>
  \<open>strings.ToLower\<close>. Two runes outside ASCII have an ASCII lower case: U+0130 (i) and U+212A, the
  Kelvin sign (k). Every other rune outside ASCII stays outside ASCII; it is kept here, and
  \<open>NormalizeHost\<close> refuses it either way.
\<close>

fun ToLower :: "string \<Rightarrow> string" where
  "ToLower [] = []"
| "ToLower (c # s) =
     (if c = CHR 0xC4 \<and> s \<noteq> [] \<and> hd s = CHR 0xB0 then CHR ''i'' # ToLower (tl s)
      else if c = CHR 0xE2 \<and> take 2 s = [CHR 0x84, CHR 0xAA] then CHR ''k'' # ToLower (drop 2 s)
      else lower_char c # ToLower s)"

text \<open>\<open>strings.Split\<close> by one byte, \<open>strings.Join\<close> with one byte, \<open>strings.TrimSuffix(s, ".")\<close>.\<close>

fun split_on :: "'a \<Rightarrow> 'a list \<Rightarrow> 'a list list" where
  "split_on c [] = [[]]"
| "split_on c (x # xs) =
     (if x = c then [] # split_on c xs
      else (case split_on c xs of [] \<Rightarrow> [[x]] | w # ws \<Rightarrow> (x # w) # ws))"

fun join_with :: "'a \<Rightarrow> 'a list list \<Rightarrow> 'a list" where
  "join_with c [] = []"
| "join_with c [w] = w"
| "join_with c (w # v # ws) = w @ c # join_with c (v # ws)"

definition TrimSuffix_dot :: "string \<Rightarrow> string" where
  "TrimSuffix_dot s = (if s \<noteq> [] \<and> last s = CHR ''.'' then butlast s else s)"

section \<open>Addresses\<close>

text \<open>
  \<open>netip.ParseAddr\<close> looks for the first of dot, colon and percent sign. At a dot it reads an IPv4
  address, field by field: a field has no leading zero and is at most 255, no field is empty, and
  there are four. \<open>flds\<close> are the fields read, \<open>val\<close> and \<open>len\<close> the value and the number of digits
  of the field being read.
\<close>

fun first_mark :: "string \<Rightarrow> char option" where
  "first_mark [] = None"
| "first_mark (c # s) =
     (if c = CHR ''.'' \<or> c = CHR '':'' \<or> c = CHR ''%'' then Some c else first_mark s)"

fun parseIPv4Fields :: "nat list \<Rightarrow> nat \<Rightarrow> nat \<Rightarrow> string \<Rightarrow> nat list option" where
  "parseIPv4Fields flds val len [] = (if length flds < 3 then None else Some (flds @ [val]))"
| "parseIPv4Fields flds val len (c # s) =
     (if digit_byte c then
        (if len = 1 \<and> val = 0 then None
         else let val' = val * 10 + (of_char c - 48) in
           if val' > 255 then None else parseIPv4Fields flds val' (len + 1) s)
      else if c = CHR ''.'' then
        (if len = 0 \<or> s = [] then None
         else if length flds = 3 then None
         else parseIPv4Fields (flds @ [val]) 0 0 s)
      else None)"

definition ParseAddr4 :: "string \<Rightarrow> nat list option" where
  "ParseAddr4 s = (if first_mark s = Some (CHR ''.'') then parseIPv4Fields [] 0 0 s else None)"

definition addr_String :: "nat list \<Rightarrow> string" where
  "addr_String a = join_with (CHR ''.'') (map nat_to_string a)"

definition addr_IsUnspecified :: "nat list \<Rightarrow> bool" where
  "addr_IsUnspecified a \<longleftrightarrow> a = [0, 0, 0, 0]"

definition addr_IsMulticast :: "nat list \<Rightarrow> bool" where
  "addr_IsMulticast a \<longleftrightarrow> hd a div 16 = 14"

section \<open>NormalizeHost\<close>

datatype HostKind = HostIPv4 | HostName

definition IsNameHost :: "string \<Rightarrow> bool" where
  "IsNameHost host \<longleftrightarrow> \<not> (host \<noteq> [] \<and> (\<forall>c\<in>set host. digit_byte c \<or> c = CHR ''.''))"

definition label_ok :: "string \<Rightarrow> bool" where
  "label_ok l \<longleftrightarrow> l \<noteq> [] \<and> length l \<le> 63 \<and> hd l \<noteq> CHR ''-'' \<and> last l \<noteq> CHR ''-''
     \<and> (\<forall>c\<in>set l. lower_byte c \<or> digit_byte c \<or> c = CHR ''-'')"

text \<open>
  An address with a colon parses, if at all, as IPv6, which is refused; a name with a colon is
  refused as well (\<open>colon_is_refused\<close> below), so the IPv6 parser need not be modelled.
\<close>

definition NormalizeHost :: "string \<Rightarrow> res_error + (string \<times> HostKind)" where
  "NormalizeHost host =
     (let h = TrimSpace host in
      case ParseAddr4 h of
        Some a \<Rightarrow>
          if addr_IsUnspecified a \<or> addr_IsMulticast a \<or> a = [255, 255, 255, 255]
          then Inl ErrInvalidHost else Inr (addr_String a, HostIPv4)
      | None \<Rightarrow>
          let name = ToLower (TrimSuffix_dot h) in
          if name = [] \<or> length name > 253 then Inl ErrInvalidHost
          else let labels = split_on (CHR ''.'') name in
            if length labels < 2 then Inl ErrInvalidHost
            else if \<not> list_all label_ok labels then Inl ErrInvalidHost
            else if \<not> list_ex lower_byte (last labels) then Inl ErrInvalidHost
            else Inr (name, HostName))"

section \<open>The canonical form is a fixed point\<close>

definition host_byte :: "char \<Rightarrow> bool" where
  "host_byte c \<longleftrightarrow> lower_byte c \<or> digit_byte c \<or> c = CHR ''-'' \<or> c = CHR ''.''"

lemma host_byte_not_space:
  assumes "host_byte c" and "w \<in> set white_space"
  shows "w \<noteq> [] \<and> hd w \<noteq> c \<and> last w \<noteq> c"
  using assms by (auto simp: white_space_def host_byte_def lower_byte_def digit_byte_def)

lemma TrimSpace_host:
  assumes "s \<noteq> []" and "\<forall>c\<in>set s. host_byte c"
  shows "TrimSpace s = s"
proof (rule TrimSpace_id)
  have "host_byte (hd s)" "host_byte (last s)" using assms by auto
  then show "\<forall>w\<in>set white_space. w \<noteq> [] \<and> hd w \<noteq> hd s \<and> last w \<noteq> last s"
    using host_byte_not_space by metis
qed fact

lemma parseIPv4Fields_bytes:
  "parseIPv4Fields flds val len s = Some a \<Longrightarrow> c \<in> set s \<Longrightarrow> digit_byte c \<or> c = CHR ''.''"
  by (induction flds val len s rule: parseIPv4Fields.induct) (auto simp: Let_def split: if_splits)

lemma parseIPv4Fields_range:
  "parseIPv4Fields flds val len s = Some a \<Longrightarrow> length flds \<le> 3 \<Longrightarrow> \<forall>x\<in>set flds. x \<le> 255 \<Longrightarrow>
   val \<le> 255 \<Longrightarrow> length a = 4 \<and> (\<forall>x\<in>set a. x \<le> 255)"
  by (induction flds val len s rule: parseIPv4Fields.induct) (auto simp: Let_def split: if_splits)

lemma ParseAddr4_cases:
  assumes "ParseAddr4 s = Some a"
  obtains w x y z where "a = [w, x, y, z]" "w \<le> 255" "x \<le> 255" "y \<le> 255" "z \<le> 255"
proof -
  have "length a = 4 \<and> (\<forall>x\<in>set a. x \<le> 255)"
    using assms parseIPv4Fields_range [of "[]" 0 0 s a] by (simp add: ParseAddr4_def split: if_splits)
  moreover then obtain w x y z where "a = [w, x, y, z]"
    by (auto simp: numeral_eq_Suc length_Suc_conv)
  ultimately show thesis using that by simp
qed

lemma digit_byte_digit_char [simp]: "n < 10 \<Longrightarrow> digit_byte (digit_char n)"
  by (simp add: digit_byte_def digit_char_def)

lemma of_char_digit_char [simp]: "n < 10 \<Longrightarrow> (of_char (digit_char n) :: nat) = 48 + n"
  by (simp add: digit_char_def)

lemma parseIPv4Fields_digit:
  "n < 10 \<Longrightarrow> \<not> (len = 1 \<and> val = 0) \<Longrightarrow> val * 10 + n \<le> 255 \<Longrightarrow>
   parseIPv4Fields flds val len (digit_char n # s) = parseIPv4Fields flds (val * 10 + n) (len + 1) s"
  by (auto simp: Let_def)

lemma parse_octet:
  assumes "n \<le> 255"
  shows "\<exists>len>0. parseIPv4Fields flds 0 0 (nat_to_string n @ s) = parseIPv4Fields flds n len s"
proof -
  consider "n < 10" | "10 \<le> n" "n < 100" | "100 \<le> n" by linarith
  then show ?thesis
  proof cases
    case 1
    then have "parseIPv4Fields flds 0 0 (nat_to_string n @ s) = parseIPv4Fields flds n 1 s"
      by (simp add: nat_to_string.simps [of n] parseIPv4Fields_digit del: parseIPv4Fields.simps)
    then show ?thesis by (intro exI [of _ 1]) simp
  next
    case 2
    then have "n div 10 < 10" by linarith
    with 2 have "nat_to_string n = [digit_char (n div 10), digit_char (n mod 10)]"
      by (simp add: nat_to_string.simps [of n] nat_to_string.simps [of "n div 10"])
    with 2 have "parseIPv4Fields flds 0 0 (nat_to_string n @ s) = parseIPv4Fields flds n 2 s"
      by (simp add: parseIPv4Fields_digit numeral_2_eq_2 del: parseIPv4Fields.simps)
    then show ?thesis by (intro exI [of _ 2]) simp
  next
    case 3
    with assms have b: "n div 100 < 10" "n div 100 > 0" "n div 10 \<ge> 10" "n div 10 < 100" by linarith+
    have m: "n div 100 * 10 + n div 10 mod 10 = n div 10"
      using div_mult_mod_eq [of "n div 10" 10] by (simp add: div_mult2_eq [symmetric])
    have "nat_to_string n =
        [digit_char (n div 100), digit_char (n div 10 mod 10), digit_char (n mod 10)]"
      using 3 b by (simp add: nat_to_string.simps [of n] nat_to_string.simps [of "n div 10"]
          nat_to_string.simps [of "n div 100"] div_mult2_eq [symmetric])
    with 3 b m assms have "parseIPv4Fields flds 0 0 (nat_to_string n @ s) = parseIPv4Fields flds n 3 s"
      by (simp add: parseIPv4Fields_digit numeral_3_eq_3 del: parseIPv4Fields.simps)
    then show ?thesis by (intro exI [of _ 3]) simp
  qed
qed

lemma first_mark_addr:
  "\<forall>c\<in>set s. digit_byte c \<Longrightarrow> first_mark (s @ CHR ''.'' # t) = Some (CHR ''.'')"
  by (induction s) (auto simp: digit_byte_def)

lemma nat_to_string_digits: "\<forall>c\<in>set (nat_to_string n). digit_byte c"
proof (induction n rule: nat_to_string.induct)
  case (1 n)
  then show ?case by (subst nat_to_string.simps) auto
qed

lemma nat_to_string_neq_Nil [simp]: "nat_to_string n \<noteq> []"
  by (subst nat_to_string.simps) simp

lemma ParseAddr4_addr_String:
  assumes "w \<le> 255" "x \<le> 255" "y \<le> 255" "z \<le> 255"
  shows "ParseAddr4 (addr_String [w, x, y, z]) = Some [w, x, y, z]"
proof -
  let ?r3 = "nat_to_string z" and ?dot = "CHR ''.''"
  let ?r2 = "nat_to_string y @ ?dot # ?r3"
  let ?r1 = "nat_to_string x @ ?dot # ?r2"
  have dot: "parseIPv4Fields flds v len (?dot # r) = parseIPv4Fields (flds @ [v]) 0 0 r"
    if "len > 0" "r \<noteq> []" "length flds < 3" for flds v len r
    using that by (simp add: digit_byte_def)
  obtain l1 where "l1 > 0" "parseIPv4Fields [] 0 0 (nat_to_string w @ ?dot # ?r1) = parseIPv4Fields [] w l1 (?dot # ?r1)"
    using parse_octet [OF assms(1)] by blast
  moreover obtain l2 where "l2 > 0" "parseIPv4Fields [w] 0 0 ?r1 = parseIPv4Fields [w] x l2 (?dot # ?r2)"
    using parse_octet [OF assms(2)] by blast
  moreover obtain l3 where "l3 > 0" "parseIPv4Fields [w, x] 0 0 ?r2 = parseIPv4Fields [w, x] y l3 (?dot # ?r3)"
    using parse_octet [OF assms(3)] by blast
  moreover obtain l4 where "parseIPv4Fields [w, x, y] 0 0 (?r3 @ []) = parseIPv4Fields [w, x, y] z l4 []"
    using parse_octet [OF assms(4)] by blast
  ultimately have "parseIPv4Fields [] 0 0 (nat_to_string w @ ?dot # ?r1) = Some [w, x, y, z]"
    by (simp add: dot del: parseIPv4Fields.simps(2))
  then show ?thesis
    by (simp add: ParseAddr4_def addr_String_def first_mark_addr nat_to_string_digits)
qed

lemma addr_String_bytes: "c \<in> set (addr_String a) \<Longrightarrow> digit_byte c \<or> c = CHR ''.''"
proof -
  have "c \<in> set (join_with (CHR ''.'') ws) \<Longrightarrow> c = CHR ''.'' \<or> (\<exists>w\<in>set ws. c \<in> set w)" for ws
    by (induction "CHR ''.''" ws rule: join_with.induct) auto
  then show "c \<in> set (addr_String a) \<Longrightarrow> ?thesis"
    using nat_to_string_digits by (fastforce simp: addr_String_def)
qed

lemma addr_String_neq_Nil: "addr_String (w # a) \<noteq> []"
  by (cases a) (simp_all add: addr_String_def)

lemma split_on_neq_Nil [simp]: "split_on c s \<noteq> []"
  by (induction s) (auto split: list.splits)

lemma split_on_bytes: "x \<in> set s \<Longrightarrow> x = c \<or> (\<exists>w\<in>set (split_on c s). x \<in> set w)"
proof (induction s)
  case (Cons y s)
  then show ?case by (cases "split_on c s") auto
qed simp

lemma last_split_on_subset: "set (last (split_on c s)) \<subseteq> set s"
proof (induction s)
  case (Cons y s)
  then show ?case by (cases "split_on c s") (auto split: if_splits)
qed simp

lemma split_on_snoc: "split_on c (s @ [c]) = split_on c s @ [[]]"
proof (induction s)
  case (Cons y s)
  then show ?case by (cases "split_on c s") auto
qed simp

lemma last_split_on_sep: "s \<noteq> [] \<Longrightarrow> last s = c \<Longrightarrow> last (split_on c s) = []"
  by (metis append_butlast_last_id last_snoc split_on_snoc)

lemma lower_char_host_byte: "host_byte c \<Longrightarrow> lower_char c = c"
  by (auto simp: host_byte_def lower_byte_def digit_byte_def lower_char_def)

lemma ToLower_host: "\<forall>c\<in>set s. host_byte c \<Longrightarrow> ToLower s = s"
proof (induction s rule: ToLower.induct)
  case (2 c s)
  then have "c \<noteq> CHR 0xC4" "c \<noteq> CHR 0xE2" by (auto simp: host_byte_def lower_byte_def digit_byte_def)
  with 2 show ?case by (simp add: lower_char_host_byte)
qed simp

text \<open>What \<open>NormalizeHost\<close> returns, by kind.\<close>

lemma NormalizeHost_ipv4:
  assumes "NormalizeHost host = Inr (h, HostIPv4)"
  obtains w x y z where "h = addr_String [w, x, y, z]" "w \<le> 255" "x \<le> 255" "y \<le> 255" "z \<le> 255"
    and "\<not> addr_IsUnspecified [w, x, y, z]" "\<not> addr_IsMulticast [w, x, y, z]"
      "[w, x, y, z] \<noteq> [255, 255, 255, 255]"
proof -
  from assms obtain a where a: "ParseAddr4 (TrimSpace host) = Some a" "h = addr_String a"
      "\<not> addr_IsUnspecified a" "\<not> addr_IsMulticast a" "a \<noteq> [255, 255, 255, 255]"
    by (auto simp: NormalizeHost_def Let_def split: option.splits if_splits)
  from a(1) obtain w x y z where "a = [w, x, y, z]" "w \<le> 255" "x \<le> 255" "y \<le> 255" "z \<le> 255"
    by (rule ParseAddr4_cases)
  with a show thesis by (intro that [of w x y z]) simp_all
qed

definition canonical_name :: "string \<Rightarrow> bool" where
  "canonical_name h \<longleftrightarrow> h \<noteq> [] \<and> length h \<le> 253 \<and> 2 \<le> length (split_on (CHR ''.'') h)
     \<and> list_all label_ok (split_on (CHR ''.'') h) \<and> list_ex lower_byte (last (split_on (CHR ''.'') h))"

lemma NormalizeHost_name: "NormalizeHost host = Inr (h, HostName) \<Longrightarrow> canonical_name h"
  by (auto simp: NormalizeHost_def canonical_name_def Let_def split: option.splits if_splits)

lemma canonical_name_bytes:
  assumes "canonical_name h"
  shows "\<forall>c\<in>set h. host_byte c"
proof
  fix c assume "c \<in> set h"
  then consider "c = CHR ''.''" | w where "w \<in> set (split_on (CHR ''.'') h)" "c \<in> set w"
    using split_on_bytes [of c h "CHR ''.''"] by blast
  then show "host_byte c"
  proof cases
    case 2
    then have "label_ok w" using assms by (auto simp: canonical_name_def list_all_iff)
    with 2 show ?thesis by (auto simp: label_ok_def host_byte_def)
  qed (simp add: host_byte_def)
qed

lemma lower_byte_not_addr: "lower_byte c \<Longrightarrow> \<not> digit_byte c \<and> c \<noteq> CHR ''.''"
  by (auto simp: lower_byte_def digit_byte_def)

lemma canonical_name_letter: "canonical_name h \<Longrightarrow> \<exists>c\<in>set h. lower_byte c"
  using last_split_on_subset [of "CHR ''.''" h] by (auto simp: canonical_name_def list_ex_iff)

lemma canonical_name_no_dot: "canonical_name h \<Longrightarrow> last h \<noteq> CHR ''.''"
  using last_split_on_sep [of h "CHR ''.''"] by (auto simp: canonical_name_def)

lemma canonical_name_no_addr:
  assumes "canonical_name h"
  shows "ParseAddr4 h = None"
proof (rule ccontr)
  assume "ParseAddr4 h \<noteq> None"
  then obtain a where "parseIPv4Fields [] 0 0 h = Some a"
    by (auto simp: ParseAddr4_def split: if_splits)
  with canonical_name_letter [OF assms] show False
    using parseIPv4Fields_bytes lower_byte_not_addr by blast
qed

lemma NormalizeHost_canonical_name:
  assumes "canonical_name h"
  shows "NormalizeHost h = Inr (h, HostName)"
proof -
  have "h \<noteq> []" using assms by (simp add: canonical_name_def)
  then have "TrimSpace h = h" using canonical_name_bytes [OF assms] by (rule TrimSpace_host)
  moreover have "TrimSuffix_dot h = h" using canonical_name_no_dot [OF assms] by (simp add: TrimSuffix_dot_def)
  moreover have "ToLower h = h" using canonical_name_bytes [OF assms] by (rule ToLower_host)
  ultimately show ?thesis using assms canonical_name_no_addr [OF assms]
    by (simp add: NormalizeHost_def canonical_name_def Let_def)
qed

lemma NormalizeHost_addr_String:
  assumes "w \<le> 255" "x \<le> 255" "y \<le> 255" "z \<le> 255"
    and "\<not> addr_IsUnspecified [w, x, y, z]" "\<not> addr_IsMulticast [w, x, y, z]"
      "[w, x, y, z] \<noteq> [255, 255, 255, 255]"
  shows "NormalizeHost (addr_String [w, x, y, z]) = Inr (addr_String [w, x, y, z], HostIPv4)"
proof -
  have "\<forall>c\<in>set (addr_String [w, x, y, z]). host_byte c"
    using addr_String_bytes by (fastforce simp: host_byte_def)
  then have "TrimSpace (addr_String [w, x, y, z]) = addr_String [w, x, y, z]"
    by (intro TrimSpace_host addr_String_neq_Nil)
  with assms ParseAddr4_addr_String [OF assms(1-4)] show ?thesis
    by (simp add: NormalizeHost_def del: list.inject)
qed

lemma NormalizeHost_idem:
  assumes "NormalizeHost host = Inr (h, k)"
  shows "NormalizeHost h = Inr (h, k)"
proof (cases k)
  case HostIPv4
  with assms show ?thesis
    by (auto elim!: NormalizeHost_ipv4 intro!: NormalizeHost_addr_String simp del: list.inject)
next
  case HostName
  with assms show ?thesis by (auto intro: NormalizeHost_canonical_name NormalizeHost_name)
qed

text \<open>One trailing dot of a name is dropped.\<close>

lemma NormalizeHost_dot:
  assumes "NormalizeHost host = Inr (h, HostName)"
  shows "NormalizeHost (h @ ''.'') = Inr (h, HostName)"
proof -
  have c: "canonical_name h" by (rule NormalizeHost_name [OF assms])
  let ?s = "h @ ''.''"
  have "\<forall>x\<in>set ?s. host_byte x" using canonical_name_bytes [OF c] by (auto simp: host_byte_def)
  then have "TrimSpace ?s = ?s" by (intro TrimSpace_host) simp_all
  moreover have "ParseAddr4 ?s = None"
  proof (rule ccontr)
    assume "ParseAddr4 ?s \<noteq> None"
    then obtain a where "parseIPv4Fields [] 0 0 ?s = Some a" by (auto simp: ParseAddr4_def split: if_splits)
    with canonical_name_letter [OF c] show False
      using parseIPv4Fields_bytes [of "[]" 0 0 ?s a] lower_byte_not_addr by auto
  qed
  moreover have "TrimSuffix_dot ?s = h" by (simp add: TrimSuffix_dot_def)
  moreover have "ToLower h = h" using canonical_name_bytes [OF c] by (rule ToLower_host)
  ultimately show ?thesis using c by (simp add: NormalizeHost_def canonical_name_def Let_def)
qed

lemma NormalizeHost_kind:
  assumes "NormalizeHost host = Inr (h, k)"
  shows "IsNameHost h \<longleftrightarrow> k = HostName"
proof (cases k)
  case HostIPv4
  with assms obtain w a where "h = addr_String (w # a)" by (auto elim!: NormalizeHost_ipv4)
  then have "\<not> IsNameHost h"
    using addr_String_bytes addr_String_neq_Nil by (auto simp: IsNameHost_def)
  with HostIPv4 show ?thesis by simp
next
  case HostName
  then have "canonical_name h" using assms NormalizeHost_name by blast
  from canonical_name_letter [OF this] have "IsNameHost h"
    unfolding IsNameHost_def using lower_byte_not_addr by blast
  with HostName show ?thesis by simp
qed

text \<open>A host with a colon is neither an IPv4 address nor a name.\<close>

lemma ToLower_keeps: "c \<in> set s \<Longrightarrow> (of_char c :: nat) < 128 \<Longrightarrow> lower_char c \<in> set (ToLower s)"
proof (induction s rule: ToLower.induct)
  case (2 b s)
  show ?case
  proof (cases "b = CHR 0xC4 \<and> s \<noteq> [] \<and> hd s = CHR 0xB0")
    case True
    then obtain t where s: "s = CHR 0xB0 # t" by (cases s) auto
    with 2 True have "c \<in> set t" by auto
    with 2 True s show ?thesis by simp
  next
    case F: False
    show ?thesis
    proof (cases "b = CHR 0xE2 \<and> take 2 s = [CHR 0x84, CHR 0xAA]")
      case True
      then have s: "s = [CHR 0x84, CHR 0xAA] @ drop 2 s" by (metis append_take_drop_id)
      have "c \<in> set (drop 2 s)" using 2(4,5) True by (subst (asm) s) auto
      then have "lower_char c \<in> set (ToLower (drop 2 s))" using 2(2) [OF F True] 2(5) by blast
      with F True show ?thesis by simp
    next
      case False
      show ?thesis using 2(3) [OF F False] 2(4,5) F False by auto
    qed
  qed
qed simp

lemma colon_is_refused:
  assumes "CHR '':'' \<in> set (TrimSpace host)"
  shows "NormalizeHost host = Inl ErrInvalidHost"
proof (cases "NormalizeHost host")
  case (Inl e)
  then show ?thesis by (auto simp: NormalizeHost_def Let_def split: option.splits if_splits)
next
  case (Inr hk)
  obtain h k where hk: "hk = (h, k)" by (cases hk)
  have no: "ParseAddr4 (TrimSpace host) = None"
  proof (rule ccontr)
    assume "ParseAddr4 (TrimSpace host) \<noteq> None"
    then obtain a where "parseIPv4Fields [] 0 0 (TrimSpace host) = Some a"
      by (auto simp: ParseAddr4_def split: if_splits)
    from parseIPv4Fields_bytes [OF this assms] show False by (simp add: digit_byte_def)
  qed
  then have h: "h = ToLower (TrimSuffix_dot (TrimSpace host))" "k = HostName"
    using Inr hk by (auto simp: NormalizeHost_def Let_def split: if_splits)
  have "CHR '':'' \<in> set (TrimSuffix_dot (TrimSpace host))"
  proof (cases "TrimSpace host" rule: rev_cases)
    case (snoc s c)
    then show ?thesis using assms by (auto simp: TrimSuffix_dot_def)
  qed (use assms in simp)
  then have "lower_char (CHR '':'') \<in> set h" unfolding h by (rule ToLower_keeps) simp
  then have "CHR '':'' \<in> set h" by (simp add: lower_char_def)
  moreover have "canonical_name h" using Inr hk h NormalizeHost_name by simp
  ultimately have "host_byte (CHR '':'')" using canonical_name_bytes by blast
  then show ?thesis by (simp add: host_byte_def lower_byte_def digit_byte_def)
qed

end
