(* ===== verification/Shield_State.thy ===== *)
theory Shield_State
  imports Res_Host "HOL-Library.Word"
begin

text \<open>
  The saved state and the revocation list of a shield (\<open>shield/src/types.rs\<close>, \<open>crl.rs\<close>).

  Identifiers of shields, connectors and resources are \<open>uuid\<close>s. The file \<open>state.json\<close> is the record
  that serde reads from it; writing replaces it. What X.509 parsing and signature checks answer is a
  parameter. Times in \<open>i64\<close> seconds and tokio instants are \<open>int\<close>s.
\<close>

section \<open>Saved state\<close>

record connector_ref =
  cf_connector_id :: uuid
  cf_connector_addr :: string

record shield_state =
  ss_shield_id :: uuid
  ss_trust_domain :: string
  ss_connectors :: "connector_ref list"
  ss_interface_addr :: string
  ss_enrolled_at :: string
  ss_cert_not_after :: int
  ss_peer_list_issued_at_ms :: nat
  ss_resource_generation_floor :: nat

text \<open>\<open>ShieldStateOnDisk\<close>: the shape of the file, with the fields of files written before peer lists.\<close>

record state_on_disk =
  sf_shield_id :: uuid
  sf_trust_domain :: string
  sf_connectors :: "connector_ref list"
  sf_connector_id :: "uuid option"
  sf_connector_addr :: "string option"
  sf_interface_addr :: string
  sf_enrolled_at :: string
  sf_cert_not_after :: int
  sf_peer_list_issued_at_ms :: nat
  sf_resource_generation_floor :: nat

definition shield_state_from :: "state_on_disk \<Rightarrow> shield_state" where
  "shield_state_from v =
     \<lparr>ss_shield_id = sf_shield_id v, ss_trust_domain = sf_trust_domain v,
      ss_connectors =
        (if sf_connectors v \<noteq> [] then sf_connectors v
         else case (sf_connector_id v, sf_connector_addr v) of
           (Some i, Some a) \<Rightarrow> [\<lparr>cf_connector_id = i, cf_connector_addr = a\<rparr>]
         | _ \<Rightarrow> []),
      ss_interface_addr = sf_interface_addr v, ss_enrolled_at = sf_enrolled_at v,
      ss_cert_not_after = sf_cert_not_after v, ss_peer_list_issued_at_ms = sf_peer_list_issued_at_ms v,
      ss_resource_generation_floor = sf_resource_generation_floor v\<rparr>"

text \<open>\<open>None\<close> is a missing or unreadable file; a file without connectors is refused.\<close>

definition load_state :: "state_on_disk option \<Rightarrow> shield_state option" where
  "load_state file =
     (case file of
        None \<Rightarrow> None
      | Some v \<Rightarrow> let s = shield_state_from v in if ss_connectors s = [] then None else Some s)"

definition save_state :: "shield_state \<Rightarrow> state_on_disk" where
  "save_state s =
     \<lparr>sf_shield_id = ss_shield_id s, sf_trust_domain = ss_trust_domain s, sf_connectors = ss_connectors s,
      sf_connector_id = None, sf_connector_addr = None, sf_interface_addr = ss_interface_addr s,
      sf_enrolled_at = ss_enrolled_at s, sf_cert_not_after = ss_cert_not_after s,
      sf_peer_list_issued_at_ms = ss_peer_list_issued_at_ms s,
      sf_resource_generation_floor = ss_resource_generation_floor s\<rparr>"

lemma load_save: "load_state (Some (save_state s)) = (if ss_connectors s = [] then None else Some s)"
  by (simp add: load_state_def shield_state_from_def save_state_def)

lemma load_state_floor:
  "load_state (Some v) = Some s \<Longrightarrow> ss_resource_generation_floor s = sf_resource_generation_floor v \<and>
     ss_peer_list_issued_at_ms s = sf_peer_list_issued_at_ms v"
  by (auto simp: load_state_def shield_state_from_def Let_def split: if_splits)

section \<open>Issuers of revocation lists\<close>

text \<open>
  What the X.509 parser reports of a certificate. \<open>signed_by\<close>, a parameter below, is the check of a
  certificate's signature with another's key.
\<close>

record ca_cert =
  ct_der :: string
  ct_subject :: string
  ct_issuer :: string
  ct_is_ca :: bool
  ct_key_usage :: "(bool \<times> bool) option"
  ct_valid :: bool
  ct_path_len :: "nat option"

definition issued_by :: "(ca_cert \<Rightarrow> ca_cert \<Rightarrow> bool) \<Rightarrow> ca_cert \<Rightarrow> ca_cert \<Rightarrow> bool" where
  "issued_by signed_by child issuer \<longleftrightarrow> ct_issuer child = ct_subject issuer \<and> signed_by child issuer"

definition crl_signing_ca :: "ca_cert \<Rightarrow> bool" where
  "crl_signing_ca c \<longleftrightarrow> ct_is_ca c \<and> ct_key_usage c = Some (True, True) \<and> ct_valid c"

text \<open>The Workspace CA and the Platform Intermediate of a bundle, or nothing when it is refused.\<close>

definition crl_issuers :: "(ca_cert \<Rightarrow> ca_cert \<Rightarrow> bool) \<Rightarrow> ca_cert list \<Rightarrow> (ca_cert \<times> ca_cert) option" where
  "crl_issuers signed_by bundle =
     (case bundle of
        [a, b] \<Rightarrow>
          if ct_der a = ct_der b then None
          else if \<not> crl_signing_ca a \<or> \<not> crl_signing_ca b then None
          else if ct_subject a = ct_subject b then None
          else (case (case (issued_by signed_by a b, issued_by signed_by b a) of
                        (True, False) \<Rightarrow> Some (a, b)
                      | (False, True) \<Rightarrow> Some (b, a)
                      | _ \<Rightarrow> None) of
                  None \<Rightarrow> None
                | Some (workspace, intermediate) \<Rightarrow>
                    if issued_by signed_by intermediate intermediate then None
                    else if issued_by signed_by workspace workspace then None
                    else if ct_path_len intermediate = Some 0 then None
                    else Some (workspace, intermediate))
      | _ \<Rightarrow> None)"

text \<open>The roles come from who issued whom, never from the order in the bundle.\<close>

lemma crl_issuers_swap: "crl_issuers signed_by [a, b] = crl_issuers signed_by [b, a]"
  unfolding crl_issuers_def by (auto split: bool.splits)

section \<open>The revocation list\<close>

record valid_crl =
  vc_revoked :: "string list"
  vc_this_update :: int
  vc_next_update :: int

definition validate_update_times :: "int \<Rightarrow> int option \<Rightarrow> int \<Rightarrow> int option" where
  "validate_update_times this_update next_update now =
     (if this_update > now then None
      else case next_update of
        None \<Rightarrow> None
      | Some n \<Rightarrow> if n \<le> this_update then None else if now \<ge> n then None else Some n)"

text \<open>
  \<open>crl_fields\<close> is what the parser and the checks of issuer, key identifier and signature leave of a
  list: its serials, \<open>thisUpdate\<close> and \<open>nextUpdate\<close>.
\<close>

type_synonym crl_fields = "string \<Rightarrow> (string list \<times> int \<times> int option) option"

definition verified_crl :: "crl_fields \<Rightarrow> int \<Rightarrow> string \<Rightarrow> valid_crl option" where
  "verified_crl read_crl now der =
     (case read_crl der of
        None \<Rightarrow> None
      | Some (revoked, this_update, next_update) \<Rightarrow>
          map_option (\<lambda>n. \<lparr>vc_revoked = revoked, vc_this_update = this_update, vc_next_update = n\<rparr>)
            (validate_update_times this_update next_update now))"

record crl_store =
  cl_current :: "valid_crl option"
  cl_no_valid_since :: "time option"

definition crl_load :: "crl_fields \<Rightarrow> int \<Rightarrow> string option \<Rightarrow> crl_store" where
  "crl_load read_crl now saved =
     \<lparr>cl_current = (case saved of None \<Rightarrow> None | Some der \<Rightarrow> verified_crl read_crl now der), cl_no_valid_since = None\<rparr>"

text \<open>The second component tells whether the list is written to the state directory.\<close>

definition crl_offer :: "crl_fields \<Rightarrow> int \<Rightarrow> string \<Rightarrow> crl_store \<Rightarrow> crl_store \<times> bool" where
  "crl_offer read_crl now der store =
     (case verified_crl read_crl now der of
        None \<Rightarrow> (store, False)
      | Some crl \<Rightarrow>
          (case cl_current store of
             Some c \<Rightarrow> if vc_this_update crl \<le> vc_this_update c then (store, False)
                       else (store\<lparr>cl_current := Some crl\<rparr>, True)
           | None \<Rightarrow> (store\<lparr>cl_current := Some crl\<rparr>, True)))"

definition crl_now :: "crl_store \<Rightarrow> int \<Rightarrow> valid_crl option" where
  "crl_now store now_unix =
     (case cl_current store of Some crl \<Rightarrow> if now_unix < vc_next_update crl then Some crl else None | None \<Rightarrow> None)"

definition without_valid_crl :: "int \<Rightarrow> time \<Rightarrow> crl_store \<Rightarrow> duration option \<times> crl_store" where
  "without_valid_crl now_unix now store =
     (if crl_now store now_unix \<noteq> None then (None, store\<lparr>cl_no_valid_since := None\<rparr>)
      else let since = or_else (cl_no_valid_since store) now in
        (Some (max 0 (now - since)), store\<lparr>cl_no_valid_since := Some since\<rparr>))"

datatype crl_status = CrlRevoked | CrlNotRevoked | CrlUnavailable

definition crl_lookup :: "string \<Rightarrow> int \<Rightarrow> crl_store \<Rightarrow> crl_status \<times> crl_store" where
  "crl_lookup serial now_unix store =
     (case crl_now store now_unix of
        Some crl \<Rightarrow> (if serial \<in> set (vc_revoked crl) then CrlRevoked else CrlNotRevoked,
                     store\<lparr>cl_no_valid_since := None\<rparr>)
      | None \<Rightarrow> (CrlUnavailable, store))"

datatype left_connector = RevokedInCrl | NoVerifiedCert | NoValidCrl

definition CRL_FIRST_WAIT :: duration where "CRL_FIRST_WAIT = 30 * second"

definition crl_verdict :: "string option \<Rightarrow> int \<Rightarrow> time \<Rightarrow> crl_store \<Rightarrow> left_connector option \<times> crl_store" where
  "crl_verdict serial now_unix now store =
     (case serial of
        None \<Rightarrow> (Some NoVerifiedCert, store)
      | Some sn \<Rightarrow>
          (case crl_lookup sn now_unix store of
             (CrlNotRevoked, store') \<Rightarrow> (None, store')
           | (CrlRevoked, store') \<Rightarrow> (Some RevokedInCrl, store')
           | (CrlUnavailable, store') \<Rightarrow>
               (case without_valid_crl now_unix now store' of
                  (Some waited, store'') \<Rightarrow> (if waited \<ge> CRL_FIRST_WAIT then Some NoValidCrl else None, store'')
                | (None, store'') \<Rightarrow> (None, store''))))"

text \<open>Looking up never changes the list, and an offered one replaces it only if it was issued later.\<close>

lemma crl_verdict_current [simp]: "cl_current (snd (crl_verdict serial nu now store)) = cl_current store"
  by (auto simp: crl_verdict_def crl_lookup_def without_valid_crl_def Let_def split: option.splits prod.splits)

lemma crl_offer_newer:
  "crl_offer read_crl now der store = (store', b) \<Longrightarrow> cl_current store = Some c \<Longrightarrow>
     \<exists>c'. cl_current store' = Some c' \<and> vc_this_update c \<le> vc_this_update c'"
  by (auto simp: crl_offer_def split: option.splits if_splits)

lemma crl_verdict_listed:
  "crl_now store nu = Some crl \<Longrightarrow> sn \<in> set (vc_revoked crl) \<Longrightarrow> fst (crl_verdict (Some sn) nu now store) = Some RevokedInCrl"
  by (simp add: crl_verdict_def crl_lookup_def)

end
