(* ===== verification/Shield_Resources.thy ===== *)
theory Shield_Resources
  imports Shield_State
begin

text \<open>
  The resources a shield enforces (\<open>shield/src/resources.rs\<close>, \<open>util.rs\<close>): admission of a signed set by its
  generation, the ruleset built from it, acknowledgements, the state report and the tunnels the shield
  is willing to open.

  The interfaces of the host, the answer of a port and whether the kernel takes a ruleset are
  parameters. Generations are only compared, so a \<open>u64\<close> generation is a \<open>nat\<close>.
\<close>

section \<open>Data\<close>

record active_resource =
  av_resource_id :: uuid
  av_host :: string
  av_protocol :: string
  av_port_from :: nat
  av_port_to :: nat

record resource_instruction =
  si_resource_id :: uuid
  si_host :: string
  si_protocol :: string
  si_port_from :: int
  si_port_to :: int

record resource_set =
  rz_trust_domain :: string
  rz_shield_id :: uuid
  rz_generation :: nat
  rz_resources :: "resource_instruction list"
  rz_removes :: "resource_instruction list"

record resource_ack =
  rk_resource_id :: uuid
  rk_status :: string
  rk_error :: string
  rk_verified_at :: int
  rk_port_reachable :: bool
  rk_host :: string
  rk_protocol :: string
  rk_port_from :: int
  rk_port_to :: int

text \<open>\<open>AckRule\<close>: an active resource read as the instruction it came from.\<close>

definition active_rule :: "active_resource \<Rightarrow> resource_instruction" where
  "active_rule r = \<lparr>si_resource_id = av_resource_id r, si_host = av_host r, si_protocol = av_protocol r,
     si_port_from = int (av_port_from r), si_port_to = int (av_port_to r)\<rparr>"

definition make_ack :: "resource_instruction \<Rightarrow> string \<Rightarrow> string \<Rightarrow> int \<Rightarrow> bool \<Rightarrow> resource_ack" where
  "make_ack rule status err verified_at reachable =
     \<lparr>rk_resource_id = si_resource_id rule, rk_status = status, rk_error = err, rk_verified_at = verified_at,
      rk_port_reachable = reachable, rk_host = si_host rule, rk_protocol = si_protocol rule,
      rk_port_from = si_port_from rule, rk_port_to = si_port_to rule\<rparr>"

definition health_ack :: "resource_instruction \<Rightarrow> bool \<Rightarrow> int \<Rightarrow> resource_ack" where
  "health_ack rule reachable verified_at =
     (if reachable then make_ack rule ''protected'' [] verified_at True
      else make_ack rule ''failed'' ''port not listening'' verified_at False)"

section \<open>Shared state\<close>

record shared_state =
  sx_active :: "active_resource list"
  sx_acks :: "resource_ack list"
  sx_last_generation :: "nat option"
  sx_state_seq :: "64 word"

definition shared_new :: shared_state where
  "shared_new = \<lparr>sx_active = [], sx_acks = [], sx_last_generation = None, sx_state_seq = 0\<rparr>"

datatype admission = AdmitApply | AdmitSame | AdmitStale

definition admit_resource_set :: "nat \<Rightarrow> nat \<Rightarrow> shared_state \<Rightarrow> admission \<times> shared_state" where
  "admit_resource_set generation floor sx =
     (if generation < floor then (AdmitStale, sx)
      else case sx_last_generation sx of
        Some l \<Rightarrow> if generation < l then (AdmitStale, sx)
                  else if generation = l then (AdmitSame, sx)
                  else (AdmitApply, sx\<lparr>sx_last_generation := Some generation\<rparr>)
      | None \<Rightarrow> (AdmitApply, sx\<lparr>sx_last_generation := Some generation\<rparr>))"

text \<open>
  A tunnel goes to a protected resource only. The host of an active resource is an IPv4 address
  (\<open>validate_host\<close>), so a destination that parses as IPv6 never equals it and only the IPv4 part of
  \<open>IpAddr\<close> matters; its grammar is that of \<open>ParseAddr4\<close>.
\<close>

definition same_address :: "string \<Rightarrow> string \<Rightarrow> bool" where
  "same_address destination host \<longleftrightarrow> ParseAddr4 destination \<noteq> None \<and> ParseAddr4 destination = ParseAddr4 host"

definition allows_tunnel :: "shared_state \<Rightarrow> string \<Rightarrow> nat \<Rightarrow> string \<Rightarrow> bool" where
  "allows_tunnel sx destination port protocol =
     (let tunnel_proto = (if protocol = ''udp'' then ''udp'' else ''tcp'') in
      port < 65536 \<and>
      list_ex (\<lambda>r. same_address destination (av_host r) \<and> av_port_from r \<le> port \<and> port \<le> av_port_to r \<and>
                   (av_protocol r = tunnel_proto \<or> av_protocol r \<noteq> ''tcp'' \<and> av_protocol r \<noteq> ''udp'')) (sx_active sx))"

definition store_ack :: "resource_ack \<Rightarrow> shared_state \<Rightarrow> shared_state" where
  "store_ack ack sx = sx\<lparr>sx_acks := filter (\<lambda>a. rk_resource_id a \<noteq> rk_resource_id ack) (sx_acks sx) @ [ack]\<rparr>"

definition drain_acks :: "shared_state \<Rightarrow> resource_ack list \<times> shared_state" where
  "drain_acks sx = (sx_acks sx, sx\<lparr>sx_acks := []\<rparr>)"

definition bump_state_seq :: "shared_state \<Rightarrow> shared_state" where
  "bump_state_seq sx = sx\<lparr>sx_state_seq := sx_state_seq sx + 1\<rparr>"

record shield_state_report =
  sp_shield_id :: uuid
  sp_generation :: "64 word"
  sp_active_resource_ids :: "uuid list"
  sp_fingerprint :: "64 word"

text \<open>\<open>hash_ids\<close> is the standard hasher fed with the sorted ids.\<close>

definition build_state_report :: "(uuid list \<Rightarrow> 64 word) \<Rightarrow> uuid \<Rightarrow> shared_state \<Rightarrow> shield_state_report" where
  "build_state_report hash_ids shield_id sx =
     (let ids = sort (map av_resource_id (sx_active sx)) in
      \<lparr>sp_shield_id = shield_id, sp_generation = sx_state_seq sx, sp_active_resource_ids = ids,
       sp_fingerprint = hash_ids ids\<rparr>)"

section \<open>The address of the shield\<close>

record iface =
  fc_name :: string
  fc_v4 :: "nat list option"

definition starts_with :: "string \<Rightarrow> string \<Rightarrow> bool" where
  "starts_with s p \<longleftrightarrow> take (length p) s = p"

definition VIRTUAL_PREFIXES :: "string list" where
  "VIRTUAL_PREFIXES = [''docker'', ''br-'', ''virbr'', ''veth'', ''lo'']"

definition PREFERRED_PREFIXES :: "string list" where
  "PREFERRED_PREFIXES = [''eth'', ''en'', ''wlan'', ''wl'']"

definition is_rfc1918 :: "nat list \<Rightarrow> bool" where
  "is_rfc1918 o4 \<longleftrightarrow>
     (case o4 of
        a # b # _ \<Rightarrow> a = 10 \<or> a = 172 \<and> 16 \<le> b \<and> b \<le> 31 \<or> a = 192 \<and> b = 168
      | _ \<Rightarrow> False)"

definition lan_candidate :: "bool \<Rightarrow> iface \<Rightarrow> string option" where
  "lan_candidate prefer_named i =
     (if list_ex (starts_with (fc_name i)) VIRTUAL_PREFIXES then None
      else case fc_v4 i of
        None \<Rightarrow> None
      | Some ip \<Rightarrow>
          if \<not> is_rfc1918 ip then None
          else if prefer_named \<and> \<not> list_ex (starts_with (fc_name i)) PREFERRED_PREFIXES then None
          else Some (addr_String ip))"

definition detect_lan_ip :: "iface list option \<Rightarrow> string option" where
  "detect_lan_ip ifaces =
     (case ifaces of
        None \<Rightarrow> None
      | Some is \<Rightarrow>
          (case List.map_filter (lan_candidate True) is @ List.map_filter (lan_candidate False) is of
             [] \<Rightarrow> None | ip # _ \<Rightarrow> Some ip))"

definition validate_host :: "iface list option \<Rightarrow> string \<Rightarrow> bool" where
  "validate_host ifaces resource_host \<longleftrightarrow>
     resource_host = ''127.0.0.1'' \<or> detect_lan_ip ifaces = Some resource_host"

section \<open>The ruleset\<close>

datatype port_expr = PortNumber nat | PortRange nat nat
datatype nft_match = MatchIif string | MatchSource string nat | MatchPort string port_expr
datatype nft_verdict = NftAccept | NftDrop
datatype nft_cmd = AddTable | AddChain | FlushChain | AddRule "nft_match list" nft_verdict

definition port_expression :: "nat \<Rightarrow> nat \<Rightarrow> port_expr" where
  "port_expression port_from port_to = (if port_from = port_to then PortNumber port_from else PortRange port_from port_to)"

definition rule_protocols :: "string \<Rightarrow> string list" where
  "rule_protocols protocol =
     (if protocol = ''tcp'' then [''tcp''] else if protocol = ''udp'' then [''udp''] else [''tcp'', ''udp''])"

definition resource_rules :: "active_resource \<Rightarrow> (nft_match list \<times> nft_verdict) list" where
  "resource_rules res =
     concat (map (\<lambda>proto. let port = MatchPort proto (port_expression (av_port_from res) (av_port_to res)) in
                    [([MatchIif ''lo'', port], NftAccept),
                     ([MatchSource ''127.0.0.0'' 8, port], NftAccept),
                     ([port], NftDrop)])
       (rule_protocols (av_protocol res)))"

definition build_protect_ruleset :: "active_resource list \<Rightarrow> nft_cmd list" where
  "build_protect_ruleset resources =
     [AddTable, AddChain, FlushChain] @ map (\<lambda>(ms, v). AddRule ms v) (concat (map resource_rules resources))"

text \<open>
  Reading a committed batch: a flush empties the chain, an added rule goes to its end. Whatever the
  chain held before, a rebuilt one holds exactly the rules of the resources.
\<close>

fun chain_after :: "(nft_match list \<times> nft_verdict) list \<Rightarrow> nft_cmd list \<Rightarrow> (nft_match list \<times> nft_verdict) list" where
  "chain_after rules [] = rules"
| "chain_after rules (FlushChain # cmds) = chain_after [] cmds"
| "chain_after rules (AddRule ms v # cmds) = chain_after (rules @ [(ms, v)]) cmds"
| "chain_after rules (c # cmds) = chain_after rules cmds"

lemma chain_after_rules: "chain_after rules (map (\<lambda>(ms, v). AddRule ms v) xs) = rules @ xs"
  by (induction xs arbitrary: rules) auto

lemma rebuilt_chain: "chain_after rules (build_protect_ruleset rs) = concat (map resource_rules rs)"
  by (simp add: build_protect_ruleset_def chain_after_rules)

section \<open>Applying a set\<close>

text \<open>\<open>as u16\<close> keeps the low 16 bits.\<close>

definition as_u16 :: "int \<Rightarrow> nat" where "as_u16 x = nat (x mod 65536)"

definition to_active :: "resource_instruction \<Rightarrow> active_resource" where
  "to_active res = \<lparr>av_resource_id = si_resource_id res, av_host = si_host res, av_protocol = si_protocol res,
     av_port_from = as_u16 (si_port_from res), av_port_to = as_u16 (si_port_to res)\<rparr>"

definition valid_part :: "iface list option \<Rightarrow> resource_set \<Rightarrow> active_resource list" where
  "valid_part ifaces payload = map to_active (filter (\<lambda>res. validate_host ifaces (si_host res)) (rz_resources payload))"

text \<open>
  \<open>nft\<close> is the error of the transaction, or \<open>None\<close> when the kernel took it. The result is the list
  of acknowledgements; the ruleset offered to the kernel is that of the new active set.
\<close>

definition apply_resource_set ::
  "int \<Rightarrow> iface list option \<Rightarrow> (string \<Rightarrow> nat \<Rightarrow> bool) \<Rightarrow> string option \<Rightarrow> resource_set \<Rightarrow> shared_state
   \<Rightarrow> resource_ack list \<times> shared_state" where
  "apply_resource_set now ifaces port_open nft payload sx =
     (let skipped = map (\<lambda>res. make_ack res ''failed'' ''resource host does not match this shield's IP'' now False)
            (filter (\<lambda>res. \<not> validate_host ifaces (si_host res)) (rz_resources payload));
          applied = valid_part ifaces payload;
          sx' = bump_state_seq (sx\<lparr>sx_active := applied\<rparr>) in
      (skipped @ (case nft of
         None \<Rightarrow> map (\<lambda>r. health_ack (active_rule r) (port_open (av_host r) (av_port_from r)) now) applied
       | Some e \<Rightarrow> map (\<lambda>r. make_ack (active_rule r) ''failed'' e now False) applied), sx'))"

definition remove_acks :: "int \<Rightarrow> resource_set \<Rightarrow> resource_ack list" where
  "remove_acks now payload = map (\<lambda>rm. make_ack rm ''unprotected'' [] now False) (rz_removes payload)"

text \<open>One tick of the health check loop.\<close>

definition health_check :: "int \<Rightarrow> (string \<Rightarrow> nat \<Rightarrow> bool) \<Rightarrow> shared_state \<Rightarrow> shared_state" where
  "health_check now port_open sx =
     fold (\<lambda>r. store_ack (health_ack (active_rule r) (port_open (av_host r) (av_port_from r)) now)) (sx_active sx) sx"

section \<open>Basic facts\<close>

lemma shared_sel [simp]:
  "sx_active (store_ack a sx) = sx_active sx" "sx_last_generation (store_ack a sx) = sx_last_generation sx"
  "sx_state_seq (store_ack a sx) = sx_state_seq sx"
  "sx_active (bump_state_seq sx) = sx_active sx" "sx_last_generation (bump_state_seq sx) = sx_last_generation sx"
  by (simp_all add: store_ack_def bump_state_seq_def)

lemma apply_resource_set_sel [simp]:
  "sx_active (snd (apply_resource_set now ifaces port_open nft payload sx)) = valid_part ifaces payload"
  "sx_last_generation (snd (apply_resource_set now ifaces port_open nft payload sx)) = sx_last_generation sx"
  by (simp_all add: apply_resource_set_def Let_def)

lemma admit_cases:
  assumes "admit_resource_set g floor sx = (adm, sx')"
  shows "(adm = AdmitApply \<and> floor \<le> g \<and> (\<forall>l. sx_last_generation sx = Some l \<longrightarrow> l < g) \<and> sx' = sx\<lparr>sx_last_generation := Some g\<rparr>) \<or>
         (adm = AdmitSame \<and> floor \<le> g \<and> sx_last_generation sx = Some g \<and> sx' = sx) \<or>
         (adm = AdmitStale \<and> (g < floor \<or> (\<exists>l. sx_last_generation sx = Some l \<and> g < l)) \<and> sx' = sx)"
  using assms by (auto simp: admit_resource_set_def split: if_splits option.splits)

lemma fold_store_ack [simp]:
  "sx_active (fold (\<lambda>r. store_ack (f r)) rs sx) = sx_active sx"
  "sx_last_generation (fold (\<lambda>r. store_ack (f r)) rs sx) = sx_last_generation sx"
  by (induction rs arbitrary: sx) auto

lemma health_check_sel [simp]:
  "sx_active (health_check now port_open sx) = sx_active sx"
  "sx_last_generation (health_check now port_open sx) = sx_last_generation sx"
  by (simp_all add: health_check_def)

end
