(* ===== verification/Shield_Control.thy ===== *)
theory Shield_Control
  imports Shield_Resources
begin

text \<open>
  The control stream of a shield (\<open>shield/src/control_stream.rs\<close>, \<open>peer_list.rs\<close>, \<open>renewal.rs\<close>): what it does
  with each message of a connector, the signed peer list and resource set, the check of the
  connector against the revocation list, failover and the reconnect loop.

  A handler takes the shield and returns it with the list of its effects. Whether a signature verifies and what a
  payload decodes to, the workspace key in the state directory, the serial of the connector's
  certificate, which writes and sends succeed and what a renewal returns are parameters.
\<close>

section \<open>Signed payloads\<close>

record signed_blob =
  sb_payload :: string
  sb_signature :: string

record peer_list_payload =
  pl_trust_domain :: string
  pl_shield_id :: uuid
  pl_issued_at_unix_ms :: nat
  pl_peers :: "connector_ref list"

definition PEER_LIST_CONTEXT :: string where "PEER_LIST_CONTEXT = ''zecurity/shield-peer-list/v1'' @ [CHR 0x00]"
definition RESOURCE_SET_CONTEXT :: string where "RESOURCE_SET_CONTEXT = ''zecurity/shield-resource-set/v1'' @ [CHR 0x00]"

text \<open>The signature check of \<open>ring\<close> (key, message, signature) and the two decoders of \<open>prost\<close>.\<close>

record crypto =
  cy_verify :: "string \<Rightarrow> string \<Rightarrow> string \<Rightarrow> bool"
  cy_peers :: "string \<Rightarrow> peer_list_payload option"
  cy_set :: "string \<Rightarrow> resource_set option"
  cy_crl :: crl_fields

definition verify_in_context :: "crypto \<Rightarrow> string \<Rightarrow> string \<Rightarrow> signed_blob \<Rightarrow> bool" where
  "verify_in_context cy ca_key context sb \<longleftrightarrow> cy_verify cy ca_key (context @ sb_payload sb) (sb_signature sb)"

definition verify_resource_set :: "crypto \<Rightarrow> signed_blob \<Rightarrow> string \<Rightarrow> string \<Rightarrow> uuid \<Rightarrow> resource_set option" where
  "verify_resource_set cy sb ca_key trust_domain shield_id =
     (if \<not> verify_in_context cy ca_key RESOURCE_SET_CONTEXT sb then None
      else case cy_set cy (sb_payload sb) of
        None \<Rightarrow> None
      | Some p \<Rightarrow> if rz_trust_domain p \<noteq> trust_domain then None
                  else if rz_shield_id p \<noteq> shield_id then None else Some p)"

definition verify_peer_list :: "crypto \<Rightarrow> signed_blob \<Rightarrow> string \<Rightarrow> string \<Rightarrow> uuid \<Rightarrow> peer_list_payload option" where
  "verify_peer_list cy sb ca_key trust_domain shield_id =
     (if \<not> verify_in_context cy ca_key PEER_LIST_CONTEXT sb then None
      else case cy_peers cy (sb_payload sb) of
        None \<Rightarrow> None
      | Some p \<Rightarrow> if pl_trust_domain p \<noteq> trust_domain then None
                  else if pl_shield_id p \<noteq> shield_id then None else Some p)"

section \<open>The shield\<close>

text \<open>
  \<open>sd_state\<close> is the state in memory, \<open>sd_file\<close> and \<open>sd_crl_file\<close> what is on disk, \<open>sd_live\<close> the published
  peer list, \<open>sd_debounce\<close> the time of the last renewal and \<open>sd_chain\<close> the last batch the kernel took.
\<close>

record shield =
  sd_state :: shield_state
  sd_shared :: shared_state
  sd_crl :: crl_store
  sd_debounce :: "time option"
  sd_live :: "connector_ref list"
  sd_file :: "state_on_disk option"
  sd_crl_file :: "string option"
  sd_chain :: "nft_cmd list option"

record shield_env =
  se_crypto :: crypto
  se_ca_key :: "string option"
  se_now_unix :: int
  se_now :: time
  se_serial :: "string option"
  se_ifaces :: "iface list option"
  se_port_open :: "string \<Rightarrow> nat \<Rightarrow> bool"
  se_nft :: "string option"
  se_save_peers :: bool
  se_save_floor :: bool
  se_save_other :: bool
  se_write_crl :: bool
  se_send :: bool
  se_open :: bool
  se_renewed :: "(nat \<times> int) option"
  se_hash :: "uuid list \<Rightarrow> 64 word"

datatype shield_effect =
    FxRebuild resource_set "active_resource list" bool
  | FxSave bool
  | FxAck resource_ack
  | FxPong int
  | FxHealth
  | FxReport shield_state_report
  | FxOpenTunnel string string nat string
  | FxRefuseTunnel string string
  | FxAbortTunnel string
  | FxRestart

text \<open>A whole-file write of the state in memory.\<close>

definition save_now :: "bool \<Rightarrow> shield \<Rightarrow> shield" where
  "save_now ok sd = (if ok then sd\<lparr>sd_file := Some (save_state (sd_state sd))\<rparr> else sd)"

definition publish :: "shield \<Rightarrow> shield" where
  "publish sd = sd\<lparr>sd_live := ss_connectors (sd_state sd)\<rparr>"

section \<open>The signed resource set\<close>

definition apply_signed_resource_set ::
  "shield_env \<Rightarrow> string \<Rightarrow> signed_blob option \<Rightarrow> shield \<Rightarrow> resource_ack list \<times> shield_effect list \<times> shield" where
  "apply_signed_resource_set env ca_key offered sd =
     (case offered of
        None \<Rightarrow> ([], [], sd)
      | Some sb \<Rightarrow>
          (case verify_resource_set (se_crypto env) sb ca_key (ss_trust_domain (sd_state sd)) (ss_shield_id (sd_state sd)) of
             None \<Rightarrow> ([], [], sd)
           | Some payload \<Rightarrow>
               (case admit_resource_set (rz_generation payload) (ss_resource_generation_floor (sd_state sd)) (sd_shared sd) of
                  (AdmitStale, sx) \<Rightarrow> ([], [], sd\<lparr>sd_shared := sx\<rparr>)
                | (AdmitSame, sx) \<Rightarrow> (remove_acks (se_now_unix env) payload, [], sd\<lparr>sd_shared := sx\<rparr>)
                | (AdmitApply, sx) \<Rightarrow>
                    let (acks, sx') = apply_resource_set (se_now_unix env) (se_ifaces env) (se_port_open env) (se_nft env) payload sx;
                        sd1 = sd\<lparr>sd_shared := sx',
                                 sd_chain := (if se_nft env = None then Some (build_protect_ruleset (sx_active sx')) else sd_chain sd)\<rparr>;
                        rebuilt = FxRebuild payload (sx_active sx') (se_nft env = None);
                        all = acks @ remove_acks (se_now_unix env) payload in
                    if rz_generation payload > ss_resource_generation_floor (sd_state sd) then
                      (all, [rebuilt, FxSave (se_save_floor env)],
                       save_now (se_save_floor env)
                         (sd1\<lparr>sd_state := (sd_state sd)\<lparr>ss_resource_generation_floor := rz_generation payload\<rparr>\<rparr>))
                    else (all, [rebuilt], sd1))))"

section \<open>The signed peer list\<close>

text \<open>\<open>rotate_left\<close> of the Rust slice.\<close>

definition rotate_left :: "nat \<Rightarrow> 'a list \<Rightarrow> 'a list" where
  "rotate_left k xs = drop k xs @ take k xs"

text \<open>The current head stays the head when the new list still has it.\<close>

definition keep_head :: "connector_ref list \<Rightarrow> connector_ref list \<Rightarrow> connector_ref list" where
  "keep_head current new_list =
     (case current of
        [] \<Rightarrow> new_list
      | h # _ \<Rightarrow>
          (let idx = length (takeWhile (\<lambda>c. cf_connector_id c \<noteq> cf_connector_id h) new_list) in
           if idx < length new_list then rotate_left idx new_list else new_list))"

definition apply_signed_peer_list :: "shield_env \<Rightarrow> string \<Rightarrow> signed_blob \<Rightarrow> shield \<Rightarrow> shield_effect list \<times> shield" where
  "apply_signed_peer_list env ca_key sb sd =
     (case verify_peer_list (se_crypto env) sb ca_key (ss_trust_domain (sd_state sd)) (ss_shield_id (sd_state sd)) of
        None \<Rightarrow> ([], sd)
      | Some payload \<Rightarrow>
          if pl_issued_at_unix_ms payload \<le> ss_peer_list_issued_at_ms (sd_state sd) then ([], sd)
          else
            let new_list = keep_head (ss_connectors (sd_state sd)) (pl_peers payload);
                st' = (sd_state sd)\<lparr>ss_peer_list_issued_at_ms := pl_issued_at_unix_ms payload, ss_connectors := new_list\<rparr>;
                sd' = sd\<lparr>sd_state := st'\<rparr> in
            if new_list = [] then
              (case load_state (sd_file sd) of
                 None \<Rightarrow> ([], sd')
               | Some on_disk \<Rightarrow>
                   ([], if se_save_peers env
                        then sd'\<lparr>sd_file := Some (save_state (on_disk\<lparr>ss_peer_list_issued_at_ms := pl_issued_at_unix_ms payload\<rparr>))\<rparr>
                        else sd'))
            else ([FxSave (se_save_peers env)], save_now (se_save_peers env) sd'))"

section \<open>Renewal\<close>

definition REENROLL_DEBOUNCE :: duration where "REENROLL_DEBOUNCE = 60 * second"

definition suppresses :: "time option \<Rightarrow> time \<Rightarrow> bool" where
  "suppresses last_success now \<longleftrightarrow> (case last_success of Some at \<Rightarrow> max 0 (now - at) < REENROLL_DEBOUNCE | None \<Rightarrow> False)"

text \<open>
  \<open>renew_cert\<close>: \<open>se_renewed\<close> is the index of the connector that answered and the expiry of the installed
  certificate; nothing is returned when none answered or the state cannot be saved.
\<close>

definition renew_cert :: "shield_env \<Rightarrow> shield \<Rightarrow> (shield_state option) \<times> shield_effect list \<times> shield" where
  "renew_cert env sd =
     (case se_renewed env of
        None \<Rightarrow> (None, [], sd)
      | Some (idx, not_after) \<Rightarrow>
          if idx \<ge> length (ss_connectors (sd_state sd)) then (None, [], sd)
          else
            let st' = (sd_state sd)\<lparr>ss_connectors := rotate_left idx (ss_connectors (sd_state sd)), ss_cert_not_after := not_after\<rparr> in
            if se_save_other env then (Some st', [FxSave True], sd\<lparr>sd_file := Some (save_state st')\<rparr>)
            else (None, [FxSave False], sd))"

text \<open>A message may ask to go on, to move to a new stream after a renewal, or end the stream with an error.\<close>

datatype stream_action = GoOn | HandOver | EndStream "left_connector option"

definition handle_reenroll :: "shield_env \<Rightarrow> shield \<Rightarrow> stream_action \<times> shield_effect list \<times> shield" where
  "handle_reenroll env sd =
     (if suppresses (sd_debounce sd) (se_now env) then (GoOn, [], sd)
      else case renew_cert env sd of
        (None, es, sd') \<Rightarrow> (GoOn, es, sd')
      | (Some st', es, sd') \<Rightarrow> (HandOver, es, sd'\<lparr>sd_debounce := Some (se_now env), sd_state := st'\<rparr>))"

section \<open>Messages\<close>

record snapshot_msg =
  sm_signed_peer_list :: "signed_blob option"
  sm_signed_resource_set :: "signed_blob option"

datatype shield_msg =
    MResourceInstruction resource_instruction
  | MResourceSnapshot snapshot_msg
  | MReEnroll
  | MPing int
  | MTunnelOpen string string nat string
  | MTunnelClose string
  | MTunnelData
  | MPeerConnectorList
  | MWorkspaceCrl string
  | MOther

definition connector_verdict :: "shield_env \<Rightarrow> shield \<Rightarrow> left_connector option \<times> shield" where
  "connector_verdict env sd =
     (let (v, crl) = crl_verdict (se_serial env) (se_now_unix env) (se_now env) (sd_crl sd) in (v, sd\<lparr>sd_crl := crl\<rparr>))"

text \<open>Each ack is stored, then sent; a closed channel ends the stream.\<close>

fun send_acks :: "bool \<Rightarrow> resource_ack list \<Rightarrow> shield \<Rightarrow> stream_action \<times> shield_effect list \<times> shield" where
  "send_acks open [] sd = (GoOn, [], sd)"
| "send_acks open (a # as) sd =
     (let sd' = sd\<lparr>sd_shared := store_ack a (sd_shared sd)\<rparr> in
      if \<not> open then (EndStream None, [], sd')
      else let (act, es, sd'') = send_acks open as sd' in (act, FxAck a # es, sd''))"

definition handle_snapshot :: "shield_env \<Rightarrow> snapshot_msg \<Rightarrow> shield \<Rightarrow> stream_action \<times> shield_effect list \<times> shield" where
  "handle_snapshot env snap sd =
     (case se_ca_key env of
        None \<Rightarrow> (GoOn, [], sd)
      | Some ca_key \<Rightarrow>
          let (es1, sd1) = (case sm_signed_peer_list snap of
                None \<Rightarrow> ([], sd)
              | Some sb \<Rightarrow> let (es, sd') = apply_signed_peer_list env ca_key sb sd in (es, publish sd'));
              (verdict, sd2) = connector_verdict env sd1 in
          if verdict \<noteq> None then (GoOn, es1, sd2)
          else let (acks, es2, sd3) = apply_signed_resource_set env ca_key (sm_signed_resource_set snap) sd2;
                   (act, es3, sd4) = send_acks (se_send env) acks sd3 in
            (act, es1 @ es2 @ es3, sd4))"

definition handle_crl :: "shield_env \<Rightarrow> string \<Rightarrow> shield \<Rightarrow> stream_action \<times> shield_effect list \<times> shield" where
  "handle_crl env der sd =
     (let sd1 = (if se_ca_key env = None then sd
                 else let (crl, install) = crl_offer (cy_crl (se_crypto env)) (se_now_unix env) der (sd_crl sd) in
                   sd\<lparr>sd_crl := crl, sd_crl_file := (if install \<and> se_write_crl env then Some der else sd_crl_file sd)\<rparr>);
          (verdict, sd2) = connector_verdict env sd1 in
      (if verdict = Some RevokedInCrl then EndStream verdict else GoOn, [], sd2))"

definition handle_connector_msg :: "shield_env \<Rightarrow> shield_msg \<Rightarrow> shield \<Rightarrow> stream_action \<times> shield_effect list \<times> shield" where
  "handle_connector_msg env msg sd =
     (case msg of
        MResourceSnapshot snap \<Rightarrow> handle_snapshot env snap sd
      | MReEnroll \<Rightarrow> handle_reenroll env sd
      | MPing t \<Rightarrow> if se_send env then (GoOn, [FxPong t], sd) else (EndStream None, [], sd)
      | MTunnelOpen cid dest port proto \<Rightarrow>
          (let (verdict, sd') = connector_verdict env sd in
           if verdict \<noteq> None
           then (GoOn, [FxRefuseTunnel cid ''the connector is not cleared by the workspace CRL''], sd')
           else if \<not> allows_tunnel (sd_shared sd') dest port proto
           then (GoOn, [FxRefuseTunnel cid ''destination is not a resource this shield protects''], sd')
           else (GoOn, [FxOpenTunnel cid dest port proto], sd'))
      | MTunnelClose cid \<Rightarrow> (GoOn, [FxAbortTunnel cid], sd)
      | MWorkspaceCrl der \<Rightarrow> handle_crl env der sd
      | _ \<Rightarrow> (GoOn, [], sd))"

section \<open>The stream\<close>

text \<open>\<open>build_client\<close> walks the list from its head to the first connector that answers.\<close>

definition build_client :: "(connector_ref \<Rightarrow> bool) \<Rightarrow> shield_state \<Rightarrow> nat option" where
  "build_client answers st =
     (let idx = length (takeWhile (\<lambda>c. \<not> answers c) (ss_connectors st)) in
      if idx < length (ss_connectors st) then Some idx else None)"

definition adopt_failover_head :: "shield_env \<Rightarrow> nat \<Rightarrow> shield \<Rightarrow> shield_effect list \<times> shield" where
  "adopt_failover_head env idx sd =
     (if idx > 0 then
        ([FxSave (se_save_other env)],
         publish (save_now (se_save_other env)
           (sd\<lparr>sd_state := (sd_state sd)\<lparr>ss_connectors := rotate_left idx (ss_connectors (sd_state sd))\<rparr>\<rparr>)))
      else ([], sd))"

text \<open>The start of \<open>run_once\<close>: a connector the stored list names gets nothing; any other gets a health report.\<close>

definition open_stream :: "shield_env \<Rightarrow> (connector_ref \<Rightarrow> bool) \<Rightarrow> shield \<Rightarrow> stream_action \<times> shield_effect list \<times> shield" where
  "open_stream env answers sd =
     (case build_client answers (sd_state sd) of
        None \<Rightarrow> (EndStream None, [], sd)
      | Some idx \<Rightarrow>
          let (es, sd1) = adopt_failover_head env idx sd; (verdict, sd2) = connector_verdict env sd1 in
          if \<not> se_open env then (EndStream None, es, sd1)
          else if verdict \<noteq> None \<and> verdict \<noteq> Some NoValidCrl then (EndStream verdict, es, sd2)
          else if \<not> se_send env then (EndStream None, es, sd2)
          else (GoOn, es @ [FxHealth], sd2))"

text \<open>The connector closed the stream: it is left for good when the revocation check refuses it.\<close>

definition stream_closed_cleanly :: "shield_env \<Rightarrow> shield \<Rightarrow> stream_action \<times> shield_effect list \<times> shield" where
  "stream_closed_cleanly env sd = (let (verdict, sd') = connector_verdict env sd in (EndStream verdict, [], sd'))"

text \<open>The tick of the revocation check and that of the health report, without discovery.\<close>

definition crl_tick :: "shield_env \<Rightarrow> shield \<Rightarrow> stream_action \<times> shield_effect list \<times> shield" where
  "crl_tick env sd =
     (let (verdict, sd') = connector_verdict env sd in (if verdict \<noteq> None then EndStream verdict else GoOn, [], sd'))"

definition health_tick :: "shield_env \<Rightarrow> shield \<Rightarrow> stream_action \<times> shield_effect list \<times> shield" where
  "health_tick env sd =
     (if \<not> se_send env then (EndStream None, [], sd)
      else let (acks, sx) = drain_acks (sd_shared sd) in 
        (GoOn, FxHealth # map FxAck acks @ [FxReport (build_state_report (se_hash env) (ss_shield_id (sd_state sd)) sx)], sd\<lparr>sd_shared := sx\<rparr>))"

section \<open>The reconnect loop\<close>

datatype cause = CauseLeft left_connector | CauseStatus bool string | CauseOther

definition CONNECTOR_NOT_SERVING_MESSAGES :: "string list" where
  "CONNECTOR_NOT_SERVING_MESSAGES =
     [''connector is not authorized to serve'', ''connector has not yet applied the controller's shield revocation list'']"

definition CONNECTOR_TERMINAL_MESSAGE :: string where
  "CONNECTOR_TERMINAL_MESSAGE = ''connector is revoked or unknown to the controller''"

text \<open>An error is the chain of its causes; the flag of a status is \<open>Unavailable\<close>.\<close>

definition connector_terminal :: "cause list \<Rightarrow> bool" where
  "connector_terminal err \<longleftrightarrow>
     list_ex (\<lambda>c. case c of CauseLeft _ \<Rightarrow> True | CauseStatus u m \<Rightarrow> u \<and> m = CONNECTOR_TERMINAL_MESSAGE | CauseOther \<Rightarrow> False) err"

definition connector_not_serving :: "cause list \<Rightarrow> bool" where
  "connector_not_serving err \<longleftrightarrow>
     list_ex (\<lambda>c. case c of CauseStatus u m \<Rightarrow> u \<and> m \<in> set CONNECTOR_NOT_SERVING_MESSAGES | _ \<Rightarrow> False) err"

definition BACKOFF_INITIAL_SECS :: nat where "BACKOFF_INITIAL_SECS = 5"
definition BACKOFF_MAX_SECS :: nat where "BACKOFF_MAX_SECS = 60"
definition NOT_SERVING_RETRY_SECS :: nat where "NOT_SERVING_RETRY_SECS = 2"
definition TERMINAL_BACKOFF_MAX_SECS :: nat where "TERMINAL_BACKOFF_MAX_SECS = 300"

record reconnect =
  rq_backoff_secs :: nat
  rq_terminal_streak :: nat
  rq_terminal_backoff_secs :: nat

definition reconnect_start :: reconnect where
  "reconnect_start = \<lparr>rq_backoff_secs = BACKOFF_INITIAL_SECS, rq_terminal_streak = 0,
     rq_terminal_backoff_secs = NOT_SERVING_RETRY_SECS\<rparr>"

text \<open>One turn of the loop after a stream ended, \<open>None\<close> without an error: the seconds slept, and what is kept.\<close>

definition after_stream :: "cause list option \<Rightarrow> reconnect \<Rightarrow> shield \<Rightarrow> nat \<times> reconnect \<times> shield" where
  "after_stream outcome rq sd =
     (case outcome of
        None \<Rightarrow> (1, reconnect_start, sd)
      | Some err \<Rightarrow>
          if connector_terminal err then
            (let cs = ss_connectors (sd_state sd);
                 sd' = publish (if length cs > 1 then sd\<lparr>sd_state := (sd_state sd)\<lparr>ss_connectors := rotate_left 1 cs\<rparr>\<rparr> else sd);
                 streak = rq_terminal_streak rq + 1 in
             if streak < max (length cs) 1
             then (NOT_SERVING_RETRY_SECS,
                   rq\<lparr>rq_terminal_streak := streak, rq_backoff_secs := BACKOFF_INITIAL_SECS\<rparr>, sd')
             else (rq_terminal_backoff_secs rq,
                   \<lparr>rq_backoff_secs = BACKOFF_INITIAL_SECS, rq_terminal_streak = streak,
                    rq_terminal_backoff_secs = min (rq_terminal_backoff_secs rq * 2) TERMINAL_BACKOFF_MAX_SECS\<rparr>, sd'))
          else if connector_not_serving err then (NOT_SERVING_RETRY_SECS, reconnect_start, sd)
          else (rq_backoff_secs rq,
                reconnect_start\<lparr>rq_backoff_secs := min (rq_backoff_secs rq * 2) BACKOFF_MAX_SECS\<rparr>, sd))"

section \<open>Start of the process\<close>

text \<open>What \<open>main\<close> finds after a restart: nothing runs when \<open>state.json\<close> is refused.\<close>

definition shield_start :: "shield_env \<Rightarrow> shield \<Rightarrow> shield option" where
  "shield_start env sd =
     map_option (\<lambda>st. sd\<lparr>sd_state := st, sd_shared := shared_new,
         sd_crl := crl_load (cy_crl (se_crypto env)) (se_now_unix env) (if se_ca_key env = None then None else sd_crl_file sd),
         sd_debounce := None, sd_live := ss_connectors st\<rparr>)
       (load_state (sd_file sd))"

end
