(* ===== verification/Shield_Machine.thy ===== *)
theory Shield_Machine
  imports Shield_Control Zec_Interfaces
begin

text \<open>
  A shield over time: streams opened to any connector, any messages of theirs, its own ticks, ends of streams and
  restarts, in any order. What counts for the enforced resources is a small abstract gate of
  generations, which the shield implements: it takes a set only if it is newer than the last one and not
  below the saved floor.
\<close>

section \<open>The machine\<close>

definition env_of :: "crypto \<Rightarrow> string \<Rightarrow> shield_env \<Rightarrow> bool" where
  "env_of cy key env \<longleftrightarrow> se_crypto env = cy \<and> (se_ca_key env = None \<or> se_ca_key env = Some key)"

inductive shield_step :: "crypto \<Rightarrow> string \<Rightarrow> shield \<Rightarrow> shield_effect list \<Rightarrow> shield \<Rightarrow> bool"
  for cy key where
  st_open: "env_of cy key env \<Longrightarrow> open_stream env answers sd = (act, es, sd') \<Longrightarrow> shield_step cy key sd es sd'"
| st_msg: "env_of cy key env \<Longrightarrow> handle_connector_msg env msg sd = (act, es, sd') \<Longrightarrow> shield_step cy key sd es sd'"
| st_closed: "env_of cy key env \<Longrightarrow> stream_closed_cleanly env sd = (act, es, sd') \<Longrightarrow> shield_step cy key sd es sd'"
| st_crl_tick: "env_of cy key env \<Longrightarrow> crl_tick env sd = (act, es, sd') \<Longrightarrow> shield_step cy key sd es sd'"
| st_health_tick: "env_of cy key env \<Longrightarrow> health_tick env sd = (act, es, sd') \<Longrightarrow> shield_step cy key sd es sd'"
| st_health_check: "shield_step cy key sd [] (sd\<lparr>sd_shared := health_check now port_open (sd_shared sd)\<rparr>)"
| st_end: "after_stream outcome rq sd = (n, rq', sd') \<Longrightarrow> shield_step cy key sd [] sd'"
| st_restart: "env_of cy key env \<Longrightarrow> shield_start env sd = Some sd' \<Longrightarrow> shield_step cy key sd [FxRestart] sd'"

inductive shield_run :: "crypto \<Rightarrow> string \<Rightarrow> shield \<Rightarrow> shield_effect list \<Rightarrow> shield \<Rightarrow> bool"
  for cy key where
  run_none: "shield_run cy key sd [] sd"
| run_step: "shield_run cy key sd es sd' \<Longrightarrow> shield_step cy key sd' fs sd'' \<Longrightarrow> shield_run cy key sd (es @ fs) sd''"

section \<open>The gate\<close>

text \<open>The last generation taken by the process, the floor in memory and on disk, and what is enforced.\<close>

record gate_state =
  gt_last :: "nat option"
  gt_floor :: nat
  gt_disk :: nat
  gt_active :: "active_resource list"

fun gate_next :: "gate_state \<Rightarrow> shield_effect \<Rightarrow> gate_state" where
  "gate_next gt (FxRebuild p a ok) = gt\<lparr>gt_last := Some (rz_generation p), gt_floor := rz_generation p, gt_active := a\<rparr>"
| "gate_next gt (FxSave True) = gt\<lparr>gt_disk := gt_floor gt\<rparr>"
| "gate_next gt FxRestart = gt\<lparr>gt_last := None, gt_floor := gt_disk gt, gt_active := []\<rparr>"
| "gate_next gt _ = gt"

text \<open>What the gate takes: \<open>ok\<close> is the check of signature and addressee.\<close>

fun gate_takes :: "(resource_set \<Rightarrow> bool) \<Rightarrow> gate_state \<Rightarrow> shield_effect \<Rightarrow> bool" where
  "gate_takes ok gt (FxRebuild p a b) \<longleftrightarrow>
     ok p \<and> gt_floor gt \<le> rz_generation p \<and> (\<forall>l. gt_last gt = Some l \<longrightarrow> l < rz_generation p) \<and>
     (\<exists>ifaces. a = valid_part ifaces p)"
| "gate_takes ok gt _ \<longleftrightarrow> True"

fun gate_run :: "(resource_set \<Rightarrow> bool) \<Rightarrow> gate_state \<Rightarrow> shield_effect list \<Rightarrow> gate_state option" where
  "gate_run ok gt [] = Some gt"
| "gate_run ok gt (e # es) = (if gate_takes ok gt e then gate_run ok (gate_next gt e) es else None)"

lemma gate_run_append:
  "gate_run ok gt (es @ fs) = (case gate_run ok gt es of None \<Rightarrow> None | Some gt' \<Rightarrow> gate_run ok gt' fs)"
  by (induction es arbitrary: gt) auto

section \<open>The shield implements the gate\<close>

definition disk_floor :: "shield \<Rightarrow> nat" where
  "disk_floor sd = (case sd_file sd of None \<Rightarrow> 0 | Some v \<Rightarrow> sf_resource_generation_floor v)"

definition gate_of :: "shield \<Rightarrow> gate_state" where
  "gate_of sd = \<lparr>gt_last = sx_last_generation (sd_shared sd), gt_floor = ss_resource_generation_floor (sd_state sd),
     gt_disk = disk_floor sd, gt_active = sx_active (sd_shared sd)\<rparr>"

text \<open>The sets that verify and name this shield. The identity of the shield never changes.\<close>

definition identity :: "shield \<Rightarrow> string \<times> uuid" where
  "identity sd = (ss_trust_domain (sd_state sd), ss_shield_id (sd_state sd))"

definition file_identity :: "shield \<Rightarrow> bool" where
  "file_identity sd \<longleftrightarrow> (\<forall>v. sd_file sd = Some v \<longrightarrow> sf_trust_domain v = fst (identity sd) \<and> sf_shield_id v = snd (identity sd))"

definition accepted :: "crypto \<Rightarrow> string \<Rightarrow> string \<times> uuid \<Rightarrow> resource_set \<Rightarrow> bool" where
  "accepted cy key who p \<longleftrightarrow> (\<exists>sb. verify_resource_set cy sb key (fst who) (snd who) = Some p)"

text \<open>One step, as the gate sees it.\<close>

definition implements :: "crypto \<Rightarrow> string \<Rightarrow> shield \<Rightarrow> shield_effect list \<Rightarrow> shield \<Rightarrow> bool" where
  "implements cy key sd es sd' \<longleftrightarrow>
     gate_run (accepted cy key (identity sd)) (gate_of sd) es = Some (gate_of sd') \<and>
     identity sd' = identity sd \<and> file_identity sd'"

lemma implements_refl: "file_identity sd \<Longrightarrow> implements cy key sd [] sd"
  by (simp add: implements_def)

lemma implements_trans:
  "implements cy key a es b \<Longrightarrow> implements cy key b fs c \<Longrightarrow> implements cy key a (es @ fs) c"
  by (simp add: implements_def gate_run_append)

section \<open>Each handler implements the gate\<close>

text \<open>Effects the gate does not see.\<close>

fun quiet :: "shield_effect \<Rightarrow> bool" where
  "quiet (FxRebuild p a b) = False"
| "quiet (FxSave b) = (\<not> b)"
| "quiet FxRestart = False"
| "quiet _ = True"

lemma quiet_next: "quiet e \<Longrightarrow> gate_takes ok gt e \<and> gate_next gt e = gt"
  by (cases e) auto

lemma gate_run_quiet: "list_all quiet es \<Longrightarrow> gate_run ok gt es = Some gt"
  by (induction es) (auto simp: quiet_next)

text \<open>A change outside what the gate and the identity read.\<close>

definition unseen :: "shield \<Rightarrow> shield \<Rightarrow> bool" where
  "unseen sd sd' \<longleftrightarrow> gate_of sd' = gate_of sd \<and> identity sd' = identity sd \<and> (file_identity sd \<longrightarrow> file_identity sd')"

lemma unseen_refl [simp]: "unseen sd sd"
  by (simp add: unseen_def)

lemma unseen_trans: "unseen a b \<Longrightarrow> unseen b c \<Longrightarrow> unseen a c"
  by (simp add: unseen_def)

lemma implements_unseen:
  "file_identity sd \<Longrightarrow> unseen sd sd' \<Longrightarrow> list_all quiet es \<Longrightarrow> implements cy key sd es sd'"
  by (simp add: implements_def unseen_def gate_run_quiet)

lemma implements_file: "implements cy key sd es sd' \<Longrightarrow> file_identity sd'"
  by (simp add: implements_def)

text \<open>Two records that agree on everything the gate reads.\<close>

lemma unseenI:
  assumes "sx_last_generation (sd_shared sd') = sx_last_generation (sd_shared sd)"
    "sx_active (sd_shared sd') = sx_active (sd_shared sd)"
    "ss_resource_generation_floor (sd_state sd') = ss_resource_generation_floor (sd_state sd)"
    "ss_trust_domain (sd_state sd') = ss_trust_domain (sd_state sd)" "ss_shield_id (sd_state sd') = ss_shield_id (sd_state sd)"
    "sd_file sd' = sd_file sd"
  shows "unseen sd sd'"
  using assms by (simp add: unseen_def gate_of_def identity_def file_identity_def disk_floor_def)

lemma verdict_unseen: "connector_verdict env sd = (v, sd') \<Longrightarrow> unseen sd sd'"
  by (auto simp: connector_verdict_def intro!: unseenI split: prod.splits)

lemma publish_unseen: "unseen sd (publish sd)"
  by (auto simp: publish_def intro!: unseenI)

text \<open>A whole-file write of a state that agrees with the one in memory on floor and identity.\<close>

lemma implements_save:
  assumes "file_identity sd" "unseen sd sd'"
  shows "implements cy key sd [FxSave ok] (save_now ok sd')"
  using assms
  by (cases ok) (auto simp: implements_def unseen_def save_now_def gate_of_def identity_def file_identity_def disk_floor_def
      save_state_def)

lemma send_acks_unseen:
  "send_acks b acks sd = (act, es, sd') \<Longrightarrow> unseen sd sd' \<and> list_all quiet es"
proof (induction acks arbitrary: sd act es sd')
  case (Cons a as)
  have u: "unseen sd (sd\<lparr>sd_shared := store_ack a (sd_shared sd)\<rparr>)"
    by (auto intro!: unseenI)
  show ?case
  proof (cases b)
    case True
    obtain act' es' sd'' where r: "send_acks b as (sd\<lparr>sd_shared := store_ack a (sd_shared sd)\<rparr>) = (act', es', sd'')"
      by (metis prod_cases3)
    then have "es = FxAck a # es'" "sd' = sd''"
      using Cons.prems True by (auto simp: Let_def)
    then show ?thesis
      using Cons.IH [OF r] unseen_trans [OF u] by simp
  next
    case False
    then show ?thesis
      using Cons.prems u by (simp add: Let_def)
  qed
qed simp

lemma apply_set_implements:
  assumes run: "apply_signed_resource_set env ca_key offered sd = (acks, es, sd')"
    and env: "se_crypto env = cy" and fid: "file_identity sd"
  shows "implements cy ca_key sd es sd'"
proof (cases "(case offered of None \<Rightarrow> None
    | Some sb \<Rightarrow> verify_resource_set cy sb ca_key (ss_trust_domain (sd_state sd)) (ss_shield_id (sd_state sd)))")
  case None
  then have "es = []" "sd' = sd"
    using run env by (auto simp: apply_signed_resource_set_def split: option.splits)
  then show ?thesis
    using implements_refl [OF fid] by simp
next
  case (Some p)
  then obtain sb where sb: "offered = Some sb"
      "verify_resource_set cy sb ca_key (ss_trust_domain (sd_state sd)) (ss_shield_id (sd_state sd)) = Some p"
    by (auto split: option.splits)
  then have ok: "accepted cy ca_key (identity sd) p"
    by (auto simp: accepted_def identity_def)
  obtain adm sx where adm: "admit_resource_set (rz_generation p) (ss_resource_generation_floor (sd_state sd)) (sd_shared sd) = (adm, sx)"
    by fastforce
  obtain acks' sx' where ap: "apply_resource_set (se_now_unix env) (se_ifaces env) (se_port_open env) (se_nft env) p sx = (acks', sx')"
    by fastforce
  have sx': "sx_active sx' = valid_part (se_ifaces env) p" "sx_last_generation sx' = sx_last_generation sx"
    using apply_resource_set_sel [of "se_now_unix env" "se_ifaces env" "se_port_open env" "se_nft env" p sx] ap by simp_all
  show ?thesis
  proof (cases "adm = AdmitApply")
    case True
    then show ?thesis
      using run adm admit_cases [OF adm] ap sb env ok sx' fid
      by (auto simp: apply_signed_resource_set_def Let_def implements_def gate_of_def identity_def file_identity_def
          disk_floor_def save_now_def save_state_def split: if_splits)
  next
    case False
    then have "es = []" "sd' = sd"
      using run adm admit_cases [OF adm] sb env by (auto simp: apply_signed_resource_set_def Let_def)
    then show ?thesis
      using implements_refl [OF fid] by simp
  qed
qed


lemma load_state_fields:
  assumes "load_state file = Some st"
  obtains v where "file = Some v" "ss_resource_generation_floor st = sf_resource_generation_floor v"
    "ss_trust_domain st = sf_trust_domain v" "ss_shield_id st = sf_shield_id v" "ss_connectors st \<noteq> []"
  using assms by (auto simp: load_state_def shield_state_from_def Let_def split: option.splits if_splits)

lemma apply_peers_implements:
  assumes run: "apply_signed_peer_list env ca_key sb sd = (es, sd')" and fid: "file_identity sd"
  shows "implements cy key sd es sd'"
proof (cases "verify_peer_list (se_crypto env) sb ca_key (ss_trust_domain (sd_state sd)) (ss_shield_id (sd_state sd))")
  case None
  then show ?thesis
    using run implements_refl [OF fid] by (simp add: apply_signed_peer_list_def)
next
  case (Some p)
  define new_list where "new_list = keep_head (ss_connectors (sd_state sd)) (pl_peers p)"
  define sd1 where "sd1 = sd\<lparr>sd_state := (sd_state sd)\<lparr>ss_peer_list_issued_at_ms := pl_issued_at_unix_ms p, ss_connectors := new_list\<rparr>\<rparr>"
  have u: "unseen sd sd1"
    by (auto simp: sd1_def intro!: unseenI)
  consider (old) "pl_issued_at_unix_ms p \<le> ss_peer_list_issued_at_ms (sd_state sd)"
    | (list) "\<not> pl_issued_at_unix_ms p \<le> ss_peer_list_issued_at_ms (sd_state sd)" "new_list \<noteq> []"
    | (none) "\<not> pl_issued_at_unix_ms p \<le> ss_peer_list_issued_at_ms (sd_state sd)" "new_list = []"
    by blast
  then show ?thesis
  proof cases
    case old
    then show ?thesis
      using run Some implements_refl [OF fid] by (simp add: apply_signed_peer_list_def)
  next
    case list
    then show ?thesis
      using run Some implements_save [OF fid u] by (auto simp: apply_signed_peer_list_def Let_def new_list_def sd1_def)
  next
    case none
    have "es = []"
      using run Some none by (auto simp: apply_signed_peer_list_def Let_def new_list_def split: option.splits)
    moreover have "unseen sd sd'"
    proof (cases "load_state (sd_file sd)")
      case None
      then show ?thesis
        using run Some none u by (auto simp: apply_signed_peer_list_def Let_def new_list_def sd1_def)
    next
      case l: (Some on_disk)
      then have "sd' = (if se_save_peers env then sd1\<lparr>sd_file := Some (save_state (on_disk\<lparr>ss_peer_list_issued_at_ms := pl_issued_at_unix_ms p\<rparr>))\<rparr> else sd1)"
        using run Some none by (auto simp: apply_signed_peer_list_def Let_def new_list_def sd1_def)
      then show ?thesis
        using u l by (elim load_state_fields)
          (auto simp: unseen_def gate_of_def disk_floor_def identity_def file_identity_def save_state_def sd1_def)
    qed
    ultimately show ?thesis
      using implements_unseen [OF fid] by simp
  qed
qed

lemma reenroll_implements:
  assumes "handle_reenroll env sd = (act, es, sd')" "file_identity sd"
  shows "implements cy key sd es sd'"
  using assms
  by (auto simp: handle_reenroll_def renew_cert_def Let_def implements_def gate_of_def identity_def file_identity_def disk_floor_def
      save_state_def split: if_splits option.splits prod.splits)

lemma snapshot_implements:
  assumes run: "handle_snapshot env snap sd = (act, es, sd')" and env: "env_of cy key env" and fid: "file_identity sd"
  shows "implements cy key sd es sd'"
proof (cases "se_ca_key env")
  case None
  then show ?thesis
    using run implements_refl [OF fid] by (simp add: handle_snapshot_def)
next
  case (Some k)
  then have k: "k = key" "se_crypto env = cy"
    using env by (auto simp: env_of_def)
  define first where "first = (case sm_signed_peer_list snap of None \<Rightarrow> ([], sd)
      | Some sb \<Rightarrow> let (es, sd') = apply_signed_peer_list env key sb sd in (es, publish sd'))"
  obtain es1 sd1 where f: "first = (es1, sd1)"
    by fastforce
  have i1: "implements cy key sd es1 sd1"
  proof (cases "sm_signed_peer_list snap")
    case None
    then show ?thesis
      using f implements_refl [OF fid] by (simp add: first_def)
  next
    case (Some sb)
    obtain es0 sd0 where ap: "apply_signed_peer_list env key sb sd = (es0, sd0)"
      by fastforce
    have i0: "implements cy key sd es0 sd0"
      by (rule apply_peers_implements [OF ap fid])
    have "implements cy key sd (es0 @ []) (publish sd0)"
      by (rule implements_trans [OF i0 implements_unseen [OF implements_file [OF i0] publish_unseen]]) simp
    then show ?thesis
      using f Some ap by (simp add: first_def)
  qed
  obtain v sd2 where v: "connector_verdict env sd1 = (v, sd2)"
    by fastforce
  have i2: "implements cy key sd1 [] sd2"
    using implements_unseen [OF implements_file [OF i1] verdict_unseen [OF v], of "[]"] by simp
  have i12: "implements cy key sd es1 sd2"
    using implements_trans [OF i1 i2] by simp
  obtain acks es2 sd3 where s: "apply_signed_resource_set env key (sm_signed_resource_set snap) sd2 = (acks, es2, sd3)"
    by (metis prod_cases3)
  obtain act3 es3 sd4 where a: "send_acks (se_send env) acks sd3 = (act3, es3, sd4)"
    by (metis prod_cases3)
  have i3: "implements cy key sd2 es2 sd3"
    by (rule apply_set_implements [OF s k(2) implements_file [OF i2]])
  have i4: "implements cy key sd3 es3 sd4"
    using implements_unseen [OF implements_file [OF i3]] send_acks_unseen [OF a] by simp
  show ?thesis
    using run Some k f v s a i12 implements_trans [OF i12 implements_trans [OF i3 i4]]
    by (auto simp: handle_snapshot_def first_def [symmetric] split: if_splits)
qed


lemma crl_implements:
  assumes run: "handle_crl env der sd = (act, es, sd')" and fid: "file_identity sd"
  shows "implements cy key sd es sd'"
proof -
  define sd1 where "sd1 = (if se_ca_key env = None then sd
      else let (crl, install) = crl_offer (cy_crl (se_crypto env)) (se_now_unix env) der (sd_crl sd) in
        sd\<lparr>sd_crl := crl, sd_crl_file := (if install \<and> se_write_crl env then Some der else sd_crl_file sd)\<rparr>)"
  obtain v sd2 where v: "connector_verdict env sd1 = (v, sd2)"
    by fastforce
  have "unseen sd sd1"
    by (auto simp: sd1_def intro!: unseenI split: prod.splits)
  then have "unseen sd sd2"
    by (rule unseen_trans [OF _ verdict_unseen [OF v]])
  moreover have "es = []" "sd' = sd2"
    using run v unfolding handle_crl_def sd1_def [symmetric] by (simp_all add: Let_def)
  ultimately show ?thesis
    using implements_unseen [OF fid] by simp
qed

lemma msg_implements:
  assumes run: "handle_connector_msg env msg sd = (act, es, sd')" and env: "env_of cy key env" and fid: "file_identity sd"
  shows "implements cy key sd es sd'"
proof (cases msg)
  case (MResourceSnapshot snap)
  then show ?thesis
    using run snapshot_implements [OF _ env fid] by (simp add: handle_connector_msg_def)
next
  case MReEnroll
  then show ?thesis
    using run reenroll_implements [OF _ fid] by (simp add: handle_connector_msg_def)
next
  case (MWorkspaceCrl der)
  then show ?thesis
    using run crl_implements [OF _ fid] by (simp add: handle_connector_msg_def)
next
  case (MTunnelOpen cid dest port proto)
  obtain v sd2 where "connector_verdict env sd = (v, sd2)"
    by fastforce
  then show ?thesis
    using run MTunnelOpen implements_unseen [OF fid verdict_unseen]
    by (auto simp: handle_connector_msg_def split: if_splits)
qed (use run implements_unseen [OF fid unseen_refl] in \<open>auto simp: handle_connector_msg_def split: if_splits\<close>)

lemma open_implements:
  assumes run: "open_stream env answers sd = (act, es, sd')" and fid: "file_identity sd"
  shows "implements cy key sd es sd'"
proof (cases "build_client answers (sd_state sd)")
  case None
  then show ?thesis
    using run implements_refl [OF fid] by (simp add: open_stream_def)
next
  case (Some idx)
  obtain es1 sd1 where a: "adopt_failover_head env idx sd = (es1, sd1)"
    by fastforce
  obtain v sd2 where v: "connector_verdict env sd1 = (v, sd2)"
    by fastforce
  define moved where "moved = sd\<lparr>sd_state := (sd_state sd)\<lparr>ss_connectors := rotate_left idx (ss_connectors (sd_state sd))\<rparr>\<rparr>"
  have "unseen sd moved"
    by (auto simp: moved_def intro!: unseenI)
  then have s: "implements cy key sd [FxSave (se_save_other env)] (save_now (se_save_other env) moved)"
    by (rule implements_save [OF fid])
  have "implements cy key sd ([FxSave (se_save_other env)] @ []) (publish (save_now (se_save_other env) moved))"
    by (rule implements_trans [OF s implements_unseen [OF implements_file [OF s] publish_unseen]]) simp
  then have i1: "implements cy key sd es1 sd1"
    using a implements_refl [OF fid] by (auto simp: adopt_failover_head_def moved_def split: if_splits)
  have i2: "implements cy key sd (es1 @ fs) sd2" if "list_all quiet fs" for fs
    by (rule implements_trans [OF i1 implements_unseen [OF implements_file [OF i1] verdict_unseen [OF v] that]])
  show ?thesis
    using run Some a v i1 i2 [of "[]"] i2 [of "[FxHealth]"] by (auto simp: open_stream_def split: if_splits)
qed

lemma start_implements:
  assumes "shield_start env sd = Some sd'" "file_identity sd"
  shows "implements cy key sd [FxRestart] sd'"
proof -
  obtain st where l: "load_state (sd_file sd) = Some st"
    using assms by (auto simp: shield_start_def)
  then obtain v where v: "sd_file sd = Some v" "ss_resource_generation_floor st = sf_resource_generation_floor v"
      "ss_trust_domain st = sf_trust_domain v" "ss_shield_id st = sf_shield_id v"
    by (rule load_state_fields)
  show ?thesis
    using assms l v
    by (auto simp: shield_start_def implements_def gate_of_def identity_def file_identity_def disk_floor_def shared_new_def)
qed

text \<open>So every step does.\<close>

lemma shield_step_implements:
  assumes "shield_step cy key sd es sd'" "file_identity sd"
  shows "implements cy key sd es sd'"
  using assms
proof (cases rule: shield_step.cases)
  case (st_crl_tick env act)
  then show ?thesis
    using implements_unseen [OF assms(2) verdict_unseen] by (fastforce simp: crl_tick_def split: prod.splits)
next
  case (st_closed env act)
  then show ?thesis
    using implements_unseen [OF assms(2) verdict_unseen] by (fastforce simp: stream_closed_cleanly_def split: prod.splits)
next
  case (st_health_tick env act)
  have "unseen sd sd' \<and> list_all quiet es"
    using st_health_tick(2) by (auto simp: health_tick_def drain_acks_def list_all_iff intro!: unseenI split: if_splits)
  then show ?thesis
    using implements_unseen [OF assms(2)] by simp
next
  case (st_health_check now port_open)
  have "unseen sd sd'"
    using st_health_check(2) by (auto intro!: unseenI)
  then show ?thesis
    using st_health_check(1) implements_unseen [OF assms(2)] by simp
next
  case (st_end outcome rq n rq')
  have "unseen sd sd'"
    using st_end(2)
    by (auto simp: after_stream_def Let_def publish_def intro!: unseenI split: option.splits if_splits)
  then show ?thesis
    using st_end(1) implements_unseen [OF assms(2)] by simp
next
  case (st_open env answers act)
  then show ?thesis
    using open_implements assms(2) by simp
next
  case (st_msg env msg act)
  then show ?thesis
    using msg_implements assms(2) by simp
next
  case (st_restart env)
  then show ?thesis
    using start_implements assms(2) by simp
qed

lemma shield_run_implements:
  assumes "shield_run cy key sd es sd'" "file_identity sd"
  shows "implements cy key sd es sd'"
  using assms
proof (induction rule: shield_run.induct)
  case run_none
  then show ?case
    by (rule implements_refl)
next
  case (run_step sd es sd' fs sd'')
  then show ?case
    using implements_trans shield_step_implements implements_file by blast
qed


section \<open>Generations over a run of the gate\<close>

lemma gate_next_low:
  "gate_takes ok gt e \<Longrightarrow> g \<le> gt_floor gt \<Longrightarrow> g \<le> gt_disk gt \<Longrightarrow> g \<le> gt_floor (gate_next gt e) \<and> g \<le> gt_disk (gate_next gt e)"
  by (cases "(gt, e)" rule: gate_next.cases) auto

text \<open>A generation that memory and disk have reached is never undercut.\<close>

lemma gate_run_low:
  "gate_run ok gt es = Some gt' \<Longrightarrow> g \<le> gt_floor gt \<Longrightarrow> g \<le> gt_disk gt \<Longrightarrow> g \<le> gt_floor gt' \<and> g \<le> gt_disk gt'"
  by (induction es arbitrary: gt) (auto simp: gate_next_low split: if_splits)

definition reached :: "nat \<Rightarrow> gate_state \<Rightarrow> bool" where
  "reached g gt \<longleftrightarrow> g \<le> gt_floor gt \<and> (\<exists>l. gt_last gt = Some l \<and> g \<le> l)"

lemma gate_next_reached: "gate_takes ok gt e \<Longrightarrow> e \<noteq> FxRestart \<Longrightarrow> reached g gt \<Longrightarrow> reached g (gate_next gt e)"
  by (cases "(gt, e)" rule: gate_next.cases) (auto simp: reached_def)

lemma gate_next_saved: "e = FxSave True \<Longrightarrow> reached g gt \<Longrightarrow> g \<le> gt_floor (gate_next gt e) \<and> g \<le> gt_disk (gate_next gt e)"
  by (simp add: reached_def)

lemma gate_run_reached:
  "gate_run ok gt es = Some gt' \<Longrightarrow> reached g gt \<Longrightarrow>
     (FxRestart \<notin> set es \<and> reached g gt') \<or>
     (FxRestart \<in> set es \<and> (g \<le> gt_floor gt' \<or> FxSave True \<notin> set (takeWhile (\<lambda>e. e \<noteq> FxRestart) es)))"
proof (induction es arbitrary: gt)
  case (Cons e es)
  then have takes: "gate_takes ok gt e" and rest: "gate_run ok (gate_next gt e) es = Some gt'"
    by (auto split: if_splits)
  consider "e = FxRestart" | "e = FxSave True" | "e \<noteq> FxRestart" "e \<noteq> FxSave True"
    by blast
  then show ?case
  proof cases
    case 2
    then have "g \<le> gt_floor gt'"
      using gate_run_low [OF rest] gate_next_saved Cons.prems(2) by blast
    then show ?thesis
      using 2 Cons.IH [OF rest] gate_next_reached [OF takes _ Cons.prems(2)] by auto
  next
    case 3
    then show ?thesis
      using Cons.IH [OF rest] gate_next_reached [OF takes _ Cons.prems(2)] by auto
  qed simp
qed auto

text \<open>So a later set is newer, unless a restart came between; and even then not older, unless nothing was saved.\<close>

lemma gate_run_order:
  assumes "gate_run ok gt (xs @ FxRebuild p a b # ys @ FxRebuild q c d # zs) = Some gt'"
  shows "ok p \<and> ok q \<and>
    (rz_generation p < rz_generation q \<or>
     (FxRestart \<in> set ys \<and>
      (rz_generation p \<le> rz_generation q \<or> FxSave True \<notin> set (takeWhile (\<lambda>e. e \<noteq> FxRestart) ys))))"
proof -
  obtain g1 g2 where p: "gate_takes ok g1 (FxRebuild p a b)"
    and mid: "gate_run ok (gate_next g1 (FxRebuild p a b)) ys = Some g2" and q: "gate_takes ok g2 (FxRebuild q c d)"
    using assms by (auto simp: gate_run_append split: option.splits if_splits)
  have "reached (rz_generation p) (gate_next g1 (FxRebuild p a b))"
    by (simp add: reached_def)
  from gate_run_reached [OF mid this] show ?thesis
    using p q by (auto simp: reached_def)
qed

text \<open>What is enforced is the valid part of the last set taken since the process started.\<close>

definition enforces_last :: "gate_state \<Rightarrow> shield_effect list \<Rightarrow> bool" where
  "enforces_last gt es \<longleftrightarrow>
     (gt_last gt = None \<and> gt_active gt = []) \<or>
     (\<exists>xs p b ys ifaces. es = xs @ FxRebuild p (gt_active gt) b # ys \<and> gt_last gt = Some (rz_generation p) \<and>
        gt_active gt = valid_part ifaces p)"

lemma enforces_last_quiet:
  "enforces_last gt es \<Longrightarrow> gt_last gt' = gt_last gt \<Longrightarrow> gt_active gt' = gt_active gt \<Longrightarrow> enforces_last gt' (es @ [e])"
  by (fastforce simp: enforces_last_def)

lemma gate_next_enforces:
  assumes "enforces_last gt es" "gate_takes ok gt e"
  shows "enforces_last (gate_next gt e) (es @ [e])"
  using assms(2)
proof (cases "(gt, e)" rule: gate_next.cases)
  case (1 gt p a b)
  then show ?thesis
    using assms(2) by (fastforce simp: enforces_last_def)
next
  case (3 gt)
  then show ?thesis
    by (simp add: enforces_last_def)
qed (use enforces_last_quiet [OF assms(1)] in simp_all)

lemma gate_run_enforces:
  assumes "gate_run ok gt es = Some gt'" "enforces_last gt before"
  shows "enforces_last gt' (before @ es)"
  using assms
proof (induction es arbitrary: gt before)
  case (Cons e es)
  then show ?case
    using gate_next_enforces [OF Cons.prems(2)] Cons.IH [of "gate_next gt e" "before @ [e]"] by (auto split: if_splits)
qed simp


section \<open>Revoked connectors\<close>

text \<open>A connector the revocation list names changes no resource and opens no tunnel, whatever it sends.\<close>

fun acts_on :: "shield_effect \<Rightarrow> bool" where
  "acts_on (FxRebuild p a b) = True"
| "acts_on (FxOpenTunnel c d p q) = True"
| "acts_on _ = False"

lemma peer_list_effects:
  "apply_signed_peer_list env key sb sd = (es, sd') \<Longrightarrow> sd_crl sd' = sd_crl sd \<and> (\<forall>e\<in>set es. \<not> acts_on e)"
  by (auto simp: apply_signed_peer_list_def Let_def save_now_def split: option.splits if_splits)

lemma listed_verdict:
  "crl_now (sd_crl sd) (se_now_unix env) = Some crl \<Longrightarrow> se_serial env = Some sn \<Longrightarrow> sn \<in> set (vc_revoked crl) \<Longrightarrow>
     \<exists>sd'. connector_verdict env sd = (Some RevokedInCrl, sd')"
  using crl_verdict_listed [of "sd_crl sd" "se_now_unix env" crl sn "se_now env"]
  by (cases "crl_verdict (Some sn) (se_now_unix env) (se_now env) (sd_crl sd)") (simp add: connector_verdict_def)

lemma revoked_connector_gets_nothing:
  assumes crl: "crl_now (sd_crl sd) (se_now_unix env) = Some crl" "se_serial env = Some sn" "sn \<in> set (vc_revoked crl)"
    and run: "handle_connector_msg env msg sd = (act, es, sd')"
  shows "\<forall>e\<in>set es. \<not> acts_on e"
proof (cases msg)
  case (MResourceSnapshot snap)
  show ?thesis
  proof (cases "se_ca_key env")
    case (Some key)
    define first where "first = (case sm_signed_peer_list snap of None \<Rightarrow> ([], sd)
        | Some sb \<Rightarrow> let (es, sd') = apply_signed_peer_list env key sb sd in (es, publish sd'))"
    obtain es1 sd1 where f: "first = (es1, sd1)"
      by fastforce
    have p: "sd_crl sd1 = sd_crl sd" "\<forall>e\<in>set es1. \<not> acts_on e"
      using f peer_list_effects [of env key _ sd] by (fastforce simp: first_def publish_def split: option.splits prod.splits)+
    obtain sd2 where "connector_verdict env sd1 = (Some RevokedInCrl, sd2)"
      using listed_verdict [of sd1 env] crl p(1) by auto
    then show ?thesis
      using run MResourceSnapshot Some f p(2)
      by (auto simp: handle_connector_msg_def handle_snapshot_def first_def [symmetric])
  qed (use run MResourceSnapshot in \<open>simp add: handle_connector_msg_def handle_snapshot_def\<close>)
next
  case (MTunnelOpen cid dest port proto)
  then show ?thesis
    using run listed_verdict [OF crl] by (auto simp: handle_connector_msg_def)
next
  case MReEnroll
  then show ?thesis
    using run by (auto simp: handle_connector_msg_def handle_reenroll_def renew_cert_def Let_def split: if_splits option.splits)
next
  case (MWorkspaceCrl der)
  then show ?thesis
    using run by (auto simp: handle_connector_msg_def handle_crl_def Let_def split: prod.splits)
qed (use run in \<open>auto simp: handle_connector_msg_def split: if_splits\<close>)


end
