(* ===== verification/Res_Store.thy ===== *)
theory Res_Store
  imports Res_Host Resource_Policy Acl_Compiler
begin

text \<open>
  The resource store, \<open>internal/resource/store.go\<close>: the resources and shields tables with every
  column its statements mention, and one definition per function. The rows extend those of the
  policy components, and \<open>rst_view\<close> is the database those components see.

  A function that writes returns its result and the store afterwards. A statement that fails
  (\<open>fails\<close>) or that a constraint of the table refuses gives \<open>ErrResourceDB\<close>; a transaction is rolled
  back by then. An identifier argument is \<open>None\<close> when \<open>uuid.Parse\<close> refuses its text. The
  transactions lock the rows they change, so each function is one step of the store.
\<close>

section \<open>Tables\<close>

record resource_full = resource_row +
  rs_description :: "string option"
  rs_port_to :: nat
  rs_pending_action :: string
  rs_error_message :: "string option"
  rs_applied_at :: "time option"
  rs_last_verified_at :: "time option"
  rs_created_at :: time
  rs_updated_at :: time

record shield_full = shield_row +
  sh_name :: string
  sh_remote_network_id :: uuid
  sh_lan_ip :: "string option"
  sh_version :: "string option"
  sh_last_heartbeat_at :: "time option"
  sh_created_at :: time
  sh_updated_at :: time
  sh_snapshot_generation :: int
  sh_snapshot_fingerprint :: string

text \<open>\<open>rst_active_workspaces\<close> are the ids of the workspaces whose status is \<open>active\<close>.\<close>

record rstore =
  rst_db :: zdb
  rst_active_workspaces :: "uuid list"
  rst_resources :: "resource_full list"
  rst_shields :: "shield_full list"

definition rst_view :: "rstore \<Rightarrow> zdb" where
  "rst_view st = (rst_db st)\<lparr>db_resources := map resource_row.truncate (rst_resources st),
                            db_shields := map shield_row.truncate (rst_shields st)\<rparr>"

definition find_shield :: "rstore \<Rightarrow> uuid option \<Rightarrow> shield_full option" where
  "find_shield st i = select_one (\<lambda>s. Some (sh_id s) = i) (rst_shields st)"

definition find_resource :: "rstore \<Rightarrow> uuid \<Rightarrow> uuid \<Rightarrow> resource_full option" where
  "find_resource st tenantID i =
     select_one (\<lambda>r. rs_id r = i \<and> rs_tenant_id r = tenantID) (rst_resources st)"

section \<open>Constraints of the resources table\<close>

definition resource_statuses :: "string list" where
  "resource_statuses = [''pending'', ''protecting'', ''protected'', ''unprotected'', ''failed'', ''deleting'']"

definition row_checks :: "resource_full \<Rightarrow> bool" where
  "row_checks r \<longleftrightarrow>
     rs_status r \<in> set resource_statuses \<and> rs_pending_action r \<in> {''apply'', ''remove''} \<and>
     rs_protocol r \<in> {''tcp'', ''udp'', ''any''} \<and>
     1 \<le> rs_port_from r \<and> rs_port_from r \<le> 65535 \<and> 1 \<le> rs_port_to r \<and> rs_port_to r \<le> 65535 \<and>
     rs_port_from r \<le> rs_port_to r"

definition owns_network :: "rstore \<Rightarrow> uuid \<Rightarrow> uuid \<Rightarrow> bool" where
  "owns_network st tenantID n \<longleftrightarrow>
     list_ex (\<lambda>x. rn_id x = n \<and> rn_tenant_id x = tenantID) (db_remote_networks (rst_db st))"

definition owns_shield :: "rstore \<Rightarrow> uuid \<Rightarrow> uuid option \<Rightarrow> bool" where
  "owns_shield st tenantID i \<longleftrightarrow>
     i = None \<or> list_ex (\<lambda>s. Some (sh_id s) = i \<and> sh_tenant_id s = tenantID) (rst_shields st)"

definition same_slot :: "resource_full \<Rightarrow> resource_full \<Rightarrow> bool" where
  "same_slot r x \<longleftrightarrow> rs_tenant_id x = rs_tenant_id r \<and> rs_remote_network_id x = rs_remote_network_id r
     \<and> rs_host x = rs_host r \<and> rs_name x = rs_name r"

definition row_allowed :: "rstore \<Rightarrow> resource_full \<Rightarrow> bool" where
  "row_allowed st r \<longleftrightarrow> row_checks r \<and> owns_network st (rs_tenant_id r) (rs_remote_network_id r)
     \<and> owns_shield st (rs_tenant_id r) (rs_shield_id r)
     \<and> \<not> list_ex (\<lambda>x. rs_id x \<noteq> rs_id r \<and> same_slot r x) (rst_resources st)"

definition port_ok :: "int \<Rightarrow> bool" where
  "port_ok p \<longleftrightarrow> 1 \<le> p \<and> p \<le> 65535"

section \<open>Statements\<close>

datatype res_stmt =
    SGetResource | SMatchShield | SLock | SClash | SBegin | SInsert | SCommit | SSelect | SNetwork
  | SNewShield | SUpdate | SDelete | SReap | SShield | SDesired | SBump

definition put_resource :: "uuid \<Rightarrow> uuid \<Rightarrow> (resource_full \<Rightarrow> resource_full) \<Rightarrow> rstore \<Rightarrow> rstore" where
  "put_resource tenantID i f st =
     st\<lparr>rst_resources := update_where (\<lambda>r. rs_id r = i \<and> rs_tenant_id r = tenantID) f (rst_resources st)\<rparr>"

text \<open>A DELETE cascades to the access rules of the resource.\<close>

definition delete_resources :: "(resource_full \<Rightarrow> bool) \<Rightarrow> rstore \<Rightarrow> rstore" where
  "delete_resources P st =
     (let gone = map rs_id (filter P (rst_resources st)) in
      st\<lparr>rst_resources := filter (\<lambda>r. \<not> P r) (rst_resources st),
         rst_db := (rst_db st)\<lparr>db_access_rules :=
           filter (\<lambda>a. ar_resource_id a \<notin> set gone) (db_access_rules (rst_db st))\<rparr>\<rparr>)"

section \<open>Reading\<close>

text \<open>\<open>shieldHostSQL\<close>: the host the shield of a resource protects.\<close>

definition shieldHost :: "rstore \<Rightarrow> resource_full \<Rightarrow> string" where
  "shieldHost st r =
     (if \<not> IsNameHost (rs_host r) then rs_host r
      else case find_shield st (rs_shield_id r) of
             None \<Rightarrow> rs_host r
           | Some s \<Rightarrow> (case sh_lan_ip s of None \<Rightarrow> rs_host r | Some ip \<Rightarrow> if ip = [] then rs_host r else ip))"

text \<open>\<open>Row\<close>: the columns of the resource and those of its shield and network.\<close>

record res_view =
  rv_row :: resource_full
  rv_ShieldName :: "string option"
  rv_ShieldStatus :: "string option"
  rv_ConnectorID :: "uuid option"
  rv_NetworkName :: string
  rv_ShieldHost :: string

definition scanRow :: "rstore \<Rightarrow> resource_full \<Rightarrow> res_view" where
  "scanRow st r =
     (let s = find_shield st (rs_shield_id r) in
      \<lparr>rv_row = r,
       rv_ShieldName = map_option sh_name s,
       rv_ShieldStatus = map_option sh_status s,
       rv_ConnectorID = Option.bind s sh_connector_id,
       rv_NetworkName =
         (case select_one (\<lambda>n. rn_id n = rs_remote_network_id r \<and> rn_tenant_id n = rs_tenant_id r)
                 (db_remote_networks (rst_db st)) of None \<Rightarrow> [] | Some n \<Rightarrow> rn_name n),
       rv_ShieldHost = shieldHost st r\<rparr>)"

definition GetByID :: "(res_stmt \<Rightarrow> bool) \<Rightarrow> uuid \<Rightarrow> uuid option \<Rightarrow> rstore \<Rightarrow> res_error + res_view" where
  "GetByID fails tenantID i st =
     (case i of
        None \<Rightarrow> Inl ErrResourceNotFound
      | Some rid \<Rightarrow>
          if fails SGetResource then Inl ErrResourceDB
          else case find_resource st tenantID rid of
                 None \<Rightarrow> Inl ErrResourceNotFound
               | Some r \<Rightarrow> Inr (scanRow st r))"

definition GetByRemoteNetwork :: "(res_stmt \<Rightarrow> bool) \<Rightarrow> uuid \<Rightarrow> uuid \<Rightarrow> rstore \<Rightarrow> res_error + res_view list" where
  "GetByRemoteNetwork fails tenantID remoteNetworkID st =
     (if fails SSelect then Inl ErrResourceDB
      else Inr (map (scanRow st) (sort_key (\<lambda>r. - rs_created_at r)
        (filter (\<lambda>r. rs_remote_network_id r = remoteNetworkID \<and> rs_tenant_id r = tenantID) (rst_resources st)))))"

definition GetAll :: "(res_stmt \<Rightarrow> bool) \<Rightarrow> uuid \<Rightarrow> rstore \<Rightarrow> res_error + res_view list" where
  "GetAll fails tenantID st =
     (if fails SSelect then Inl ErrResourceDB
      else Inr (map (scanRow st) (sort_key (\<lambda>r. - rs_created_at r)
        (filter (\<lambda>r. rs_tenant_id r = tenantID) (rst_resources st)))))"

fun in_input_order :: "(uuid \<rightharpoonup> res_view) \<Rightarrow> uuid list \<Rightarrow> res_error + res_view list" where
  "in_input_order byID [] = Inr []"
| "in_input_order byID (i # is) =
     (case byID i of
        None \<Rightarrow> Inl (ErrResourceIDMissing i)
      | Some row \<Rightarrow> sum_bind (in_input_order byID is) (\<lambda>rows. Inr (row # rows)))"

definition GetByIDs :: "(res_stmt \<Rightarrow> bool) \<Rightarrow> uuid \<Rightarrow> uuid list \<Rightarrow> rstore \<Rightarrow> res_error + res_view list" where
  "GetByIDs fails tenantID ids st =
     (if ids = [] then Inr []
      else if fails SSelect then Inl ErrResourceDB
      else let loaded = map (scanRow st)
             (filter (\<lambda>r. rs_tenant_id r = tenantID \<and> rs_id r \<in> set ids) (rst_resources st))
           in in_input_order (foldl (\<lambda>m row. m(rs_id (rv_row row) \<mapsto> row)) Map.empty loaded) ids)"

end
