(* ===== verification/Res_Ops.thy ===== *)
theory Res_Ops
  imports Res_Store
begin

text \<open>
  The functions of \<open>internal/resource/store.go\<close> that change the store: creating and updating a
  resource, the transitions of its protection, deleting it, recording a shield's
  acknowledgement, and building a shield's snapshot. Where the source reads the row back after
  its commit, the result is an error when that read fails although the change is made.
\<close>

section \<open>Creating\<close>

record create_input =
  ci_RemoteNetworkID :: "uuid option"
  ci_Name :: string
  ci_Description :: "string option"
  ci_Host :: string
  ci_Protocol :: string
  ci_PortFrom :: int
  ci_PortTo :: int

definition AutoMatchShield ::
  "(res_stmt \<Rightarrow> bool) \<Rightarrow> string \<Rightarrow> uuid \<Rightarrow> uuid \<Rightarrow> rstore \<Rightarrow> res_error + uuid" where
  "AutoMatchShield fails host tenantID remoteNetworkID st =
     (if fails SMatchShield then Inl ErrResourceDB
      else case select_one (\<lambda>s. sh_lan_ip s = Some host \<and> sh_tenant_id s = tenantID \<and>
                    sh_remote_network_id s = remoteNetworkID \<and> sh_status s = ''active'') (rst_shields st) of
             None \<Rightarrow> Inl ErrNoMatchingShield
           | Some s \<Rightarrow> Inr (sh_id s))"

definition name_clash ::
  "rstore \<Rightarrow> uuid \<Rightarrow> string \<Rightarrow> uuid option \<Rightarrow> uuid option \<Rightarrow> int \<Rightarrow> int \<Rightarrow> bool" where
  "name_clash st tenantID host networkID excludeID portFrom portTo \<longleftrightarrow>
     list_ex (\<lambda>r. rs_tenant_id r = tenantID \<and> rs_host r = host
                \<and> Some (rs_remote_network_id r) \<noteq> networkID \<and> Some (rs_id r) \<noteq> excludeID
                \<and> int (rs_port_from r) \<le> portTo \<and> int (rs_port_to r) \<ge> portFrom) (rst_resources st)"

definition checkNameCollision ::
  "(res_stmt \<Rightarrow> bool) \<Rightarrow> uuid \<Rightarrow> string \<Rightarrow> uuid option \<Rightarrow> uuid option \<Rightarrow> int \<Rightarrow> int \<Rightarrow> rstore \<Rightarrow> res_error option" where
  "checkNameCollision fails tenantID host networkID excludeID portFrom portTo st =
     (if fails SLock \<or> fails SClash then Some ErrResourceDB
      else if name_clash st tenantID host networkID excludeID portFrom portTo then Some ErrNameCollision
      else None)"

text \<open>
  The INSERT: the network supplies the workspace, the trigger the policy; the ports are checked
  before they are turned into the columns of the row.
\<close>

definition insert_row ::
  "time \<Rightarrow> uuid \<Rightarrow> uuid \<Rightarrow> uuid \<Rightarrow> uuid option \<Rightarrow> string \<Rightarrow> create_input \<Rightarrow> rstore \<Rightarrow> (res_error + rstore)" where
  "insert_row now newid tenantID remoteNetworkID shieldArg host input st =
     (if \<not> owns_network st tenantID remoteNetworkID then Inl ErrRemoteNetworkNotFound
      else case default_policy (rst_db st) tenantID of
        None \<Rightarrow> Inl ErrResourceDB
      | Some p \<Rightarrow>
          let r = \<lparr>rs_id = newid, rs_tenant_id = tenantID, rs_name = ci_Name input, rs_host = host,
                rs_port_from = nat (ci_PortFrom input), rs_protocol = ci_Protocol input,
                rs_status = ''unprotected'', rs_shield_id = shieldArg,
                rs_remote_network_id = remoteNetworkID, rs_policy_id = rpo_ID p,
                rs_description = ci_Description input, rs_port_to = nat (ci_PortTo input),
                rs_pending_action = ''remove'', rs_error_message = None, rs_applied_at = None,
                rs_last_verified_at = None, rs_created_at = now, rs_updated_at = now\<rparr>
          in if port_ok (ci_PortFrom input) \<and> port_ok (ci_PortTo input) \<and> row_allowed st r
                \<and> newid \<notin> rs_id ` set (rst_resources st)
             then Inr (st\<lparr>rst_resources := rst_resources st @ [r]\<rparr>)
             else Inl ErrResourceDB)"

definition Create ::
  "(res_stmt \<Rightarrow> bool) \<Rightarrow> time \<Rightarrow> uuid \<Rightarrow> uuid \<Rightarrow> create_input \<Rightarrow> rstore \<Rightarrow> (res_error + res_view) \<times> rstore" where
  "Create fails now newid tenantID input st =
     (case NormalizeHost (ci_Host input) of
        Inl e \<Rightarrow> (Inl e, st)
      | Inr (host, kind) \<Rightarrow>
          if kind = HostName \<and> ci_Protocol input \<noteq> ''tcp'' then (Inl ErrNameNeedsTCP, st)
          else case ci_RemoteNetworkID input of
            None \<Rightarrow> (Inl ErrRemoteNetworkNotFound, st)
          | Some rn \<Rightarrow>
              let matched = (if kind = HostIPv4 then
                               (case AutoMatchShield fails host tenantID rn st of
                                  Inr s \<Rightarrow> Inr (Some s)
                                | Inl e \<Rightarrow> if e = ErrNoMatchingShield then Inr None else Inl e)
                             else Inr None)
              in case matched of
                Inl e \<Rightarrow> (Inl e, st)
              | Inr shieldArg \<Rightarrow>
                  if fails SBegin then (Inl ErrResourceDB, st)
                  else case (if kind = HostName
                             then checkNameCollision fails tenantID host (Some rn) None
                                    (ci_PortFrom input) (ci_PortTo input) st else None) of
                    Some e \<Rightarrow> (Inl e, st)
                  | None \<Rightarrow>
                      if fails SInsert then (Inl ErrResourceDB, st)
                      else case insert_row now newid tenantID rn shieldArg host input st of
                        Inl e \<Rightarrow> (Inl e, st)
                      | Inr st' \<Rightarrow>
                          if fails SCommit then (Inl ErrResourceDB, st)
                          else (GetByID fails tenantID (Some newid) st', st'))"

section \<open>Updating\<close>

record update_input =
  ui_RemoteNetworkID :: "uuid option option"
  ui_Name :: "string option"
  ui_Description :: "string option"
  ui_Host :: "string option"
  ui_Protocol :: "string option"
  ui_PortFrom :: "int option"
  ui_PortTo :: "int option"

record update_result =
  ur_Row :: res_view
  ur_Moved :: bool
  ur_ShieldPushes :: "(uuid \<times> uuid) list"

definition changedStr :: "string option \<Rightarrow> string \<Rightarrow> bool \<Rightarrow> bool" where
  "changedStr inp cur trim =
     (case inp of None \<Rightarrow> False | Some v \<Rightarrow> (if trim then TrimSpace v else v) \<noteq> cur)"

definition changedID :: "uuid option option \<Rightarrow> uuid \<Rightarrow> bool" where
  "changedID inp cur = (case inp of None \<Rightarrow> False | Some v \<Rightarrow> v \<noteq> Some cur)"

definition changedInt :: "int option \<Rightarrow> int \<Rightarrow> bool" where
  "changedInt inp cur = (case inp of None \<Rightarrow> False | Some v \<Rightarrow> v \<noteq> cur)"

definition ACLRelevantUpdate :: "update_input \<Rightarrow> bool" where
  "ACLRelevantUpdate input \<longleftrightarrow> ui_Name input \<noteq> None \<or> ui_Host input \<noteq> None \<or> ui_Protocol input \<noteq> None
     \<or> ui_PortFrom input \<noteq> None \<or> ui_RemoteNetworkID input \<noteq> None"

definition enforced :: "resource_full \<Rightarrow> bool" where
  "enforced r \<longleftrightarrow> rs_status r = ''protected'' \<or> rs_status r = ''failed''
     \<or> (rs_status r = ''protecting'' \<and> rs_pending_action r = ''apply'')"

definition shieldChanged :: "update_input \<Rightarrow> resource_full \<Rightarrow> bool" where
  "shieldChanged input r \<longleftrightarrow>
     (changedStr (ui_Host input) (rs_host r) True \<and> \<not> IsNameHost (or_else (ui_Host input) (rs_host r)))
     \<or> changedID (ui_RemoteNetworkID input) (rs_remote_network_id r)
     \<or> changedStr (ui_Protocol input) (rs_protocol r) False
     \<or> changedInt (ui_PortFrom input) (int (rs_port_from r))
     \<or> changedInt (ui_PortTo input) (int (rs_port_to r))"

text \<open>The rules for a resource whose host is a name afterwards, and the busy check.\<close>

definition update_refused ::
  "(res_stmt \<Rightarrow> bool) \<Rightarrow> uuid \<Rightarrow> uuid \<Rightarrow> update_input \<Rightarrow> resource_full \<Rightarrow> rstore \<Rightarrow> res_error option" where
  "update_refused fails tenantID i input r st =
     (let finalHost = or_else (ui_Host input) (rs_host r);
          finalNetworkID = or_else (ui_RemoteNetworkID input) (Some (rs_remote_network_id r));
          finalProtocol = or_else (ui_Protocol input) (rs_protocol r);
          finalFrom = or_else (ui_PortFrom input) (int (rs_port_from r));
          finalTo = or_else (ui_PortTo input) (int (rs_port_to r));
          finalIsName = IsNameHost finalHost;
          clash = (if finalIsName
                   then checkNameCollision fails tenantID finalHost finalNetworkID (Some i) finalFrom finalTo st
                   else None)
      in if finalIsName \<and> finalProtocol \<noteq> ''tcp'' then Some ErrNameNeedsTCP
         else if finalIsName \<and> enforced r \<and> finalNetworkID \<noteq> Some (rs_remote_network_id r)
         then Some ErrNameProtectedMove
         else if clash \<noteq> None then clash
         else if shieldChanged input r \<and>
             ((rs_status r = ''protecting'' \<and> rs_pending_action r = ''remove'') \<or> rs_status r = ''deleting'')
         then Some ErrResourceBusy
         else None)"

text \<open>The network the update sets, checked to belong to the workspace.\<close>

definition new_network ::
  "(res_stmt \<Rightarrow> bool) \<Rightarrow> uuid \<Rightarrow> update_input \<Rightarrow> resource_full \<Rightarrow> rstore \<Rightarrow> res_error + uuid" where
  "new_network fails tenantID input r st =
     (case ui_RemoteNetworkID input of
        None \<Rightarrow> Inr (rs_remote_network_id r)
      | Some None \<Rightarrow> Inl ErrRemoteNetworkNotFound
      | Some (Some n) \<Rightarrow>
          if fails SNetwork then Inl ErrResourceDB
          else if owns_network st tenantID n then Inr n else Inl ErrRemoteNetworkNotFound)"

text \<open>The active shield on the new host of a protected resource, the oldest first, with its connector.\<close>

definition match_new_shield ::
  "(res_stmt \<Rightarrow> bool) \<Rightarrow> uuid \<Rightarrow> uuid \<Rightarrow> string \<Rightarrow> rstore \<Rightarrow> res_error + (uuid \<times> uuid)" where
  "match_new_shield fails tenantID networkID host st =
     (if fails SNewShield then Inl ErrResourceDB
      else case sort_key sh_created_at (filter (\<lambda>s. sh_tenant_id s = tenantID \<and>
                  sh_remote_network_id s = networkID \<and> sh_lan_ip s = Some host \<and> sh_status s = ''active'')
                (rst_shields st)) of
             [] \<Rightarrow> Inl ErrNoMatchingShield
           | s # _ \<Rightarrow> (case sh_connector_id s of None \<Rightarrow> Inl ErrResourceDB | Some c \<Rightarrow> Inr (c, sh_id s)))"

text \<open>The columns the UPDATE sets; \<open>moved\<close> is the new shield with its connector.\<close>

definition updated_row ::
  "time \<Rightarrow> update_input \<Rightarrow> string \<Rightarrow> uuid \<Rightarrow> (uuid \<times> uuid) option \<Rightarrow> resource_full \<Rightarrow> resource_full" where
  "updated_row now input newHost newNetworkID moved r =
     (let r1 = r\<lparr>rs_name := or_else (ui_Name input) (rs_name r),
                 rs_host := newHost,
                 rs_port_from := nat (or_else (ui_PortFrom input) (int (rs_port_from r))),
                 rs_protocol := or_else (ui_Protocol input) (rs_protocol r),
                 rs_shield_id := (case moved of None \<Rightarrow> rs_shield_id r | Some (_, s) \<Rightarrow> Some s),
                 rs_remote_network_id := newNetworkID,
                 rs_description := (case ui_Description input of None \<Rightarrow> rs_description r | Some d \<Rightarrow> Some d),
                 rs_port_to := nat (or_else (ui_PortTo input) (int (rs_port_to r))),
                 rs_updated_at := now\<rparr>
      in if enforced r \<and> shieldChanged input r
         then r1\<lparr>rs_status := ''protecting'', rs_pending_action := ''apply'', rs_error_message := None\<rparr>
         else r1)"

definition update_ports_ok :: "update_input \<Rightarrow> bool" where
  "update_ports_ok input \<longleftrightarrow>
     (case ui_PortFrom input of None \<Rightarrow> True | Some p \<Rightarrow> port_ok p) \<and>
     (case ui_PortTo input of None \<Rightarrow> True | Some p \<Rightarrow> port_ok p)"

definition update_pushes ::
  "update_input \<Rightarrow> (uuid \<times> uuid) option \<Rightarrow> resource_full \<Rightarrow> rstore \<Rightarrow> (uuid \<times> uuid) list" where
  "update_pushes input moved r st =
     (case moved of None \<Rightarrow> [] | Some p \<Rightarrow> [p]) @
     (if enforced r \<and> shieldChanged input r then
        (case rs_shield_id r of
           None \<Rightarrow> []
         | Some s \<Rightarrow> (case Option.bind (find_shield st (Some s)) sh_connector_id of
                        None \<Rightarrow> [] | Some c \<Rightarrow> [(c, s)]))
      else [])"

definition normalize_update :: "update_input \<Rightarrow> res_error + update_input" where
  "normalize_update input =
     (case ui_Host input of
        None \<Rightarrow> Inr input
      | Some h \<Rightarrow> (case NormalizeHost h of Inl e \<Rightarrow> Inl e | Inr (h', _) \<Rightarrow> Inr (input\<lparr>ui_Host := Some h'\<rparr>)))"

text \<open>The part of \<open>Update\<close> between the locked read and the UPDATE: what to write, or the refusal.\<close>

definition plan_update ::
  "(res_stmt \<Rightarrow> bool) \<Rightarrow> time \<Rightarrow> uuid \<Rightarrow> uuid \<Rightarrow> update_input \<Rightarrow> resource_full \<Rightarrow> rstore
   \<Rightarrow> res_error + (resource_full \<times> (uuid \<times> uuid) option)" where
  "plan_update fails now tenantID i input r st =
     (case update_refused fails tenantID i input r st of
        Some e \<Rightarrow> Inl e
      | None \<Rightarrow>
          sum_bind (new_network fails tenantID input r st) (\<lambda>newNetworkID.
            let newHost = (case ui_Host input of None \<Rightarrow> rs_host r | Some h \<Rightarrow> TrimSpace h);
                finalIsName = IsNameHost (or_else (ui_Host input) (rs_host r)) in
            sum_bind
              (if enforced r \<and> \<not> finalIsName \<and> (newHost \<noteq> rs_host r \<or> newNetworkID \<noteq> rs_remote_network_id r)
               then sum_bind (match_new_shield fails tenantID newNetworkID newHost st)
                      (\<lambda>(c, s). Inr (if rs_shield_id r = Some s then None else Some (c, s)))
               else Inr None)
              (\<lambda>moved. Inr (updated_row now input newHost newNetworkID moved r, moved))))"

definition Update ::
  "(res_stmt \<Rightarrow> bool) \<Rightarrow> time \<Rightarrow> uuid \<Rightarrow> uuid option \<Rightarrow> update_input \<Rightarrow> rstore
   \<Rightarrow> (res_error + update_result) \<times> rstore" where
  "Update fails now tenantID i input0 st =
     (case i of
        None \<Rightarrow> (Inl ErrResourceNotFound, st)
      | Some rid \<Rightarrow>
          case normalize_update input0 of
            Inl e \<Rightarrow> (Inl e, st)
          | Inr input \<Rightarrow>
              if fails SBegin \<or> fails SSelect then (Inl ErrResourceDB, st)
              else case find_resource st tenantID rid of
                None \<Rightarrow> (Inl ErrResourceNotFound, st)
              | Some r \<Rightarrow>
                  case plan_update fails now tenantID rid input r st of
                    Inl e \<Rightarrow> (Inl e, st)
                  | Inr (r', moved) \<Rightarrow>
                      if fails SUpdate \<or> \<not> update_ports_ok input \<or> \<not> row_allowed st r' \<or> fails SCommit
                      then (Inl ErrResourceDB, st)
                      else let st' = put_resource tenantID rid (\<lambda>_. r') st in
                        case GetByID fails tenantID (Some rid) st' of
                          Inl e \<Rightarrow> (Inl e, st')
                        | Inr row \<Rightarrow> (Inr \<lparr>ur_Row = row, ur_Moved = (moved \<noteq> None),
                                           ur_ShieldPushes = update_pushes input moved r st\<rparr>, st'))"

section \<open>Protecting and unprotecting\<close>

definition protectable :: "string list" where
  "protectable = [''pending'', ''failed'', ''unprotected'']"

text \<open>
  The candidate of \<open>MarkProtecting\<close>; \<open>chosen\<close> is the admin's shield, \<open>None\<close> the empty string. The
  shield already bound comes first.
\<close>

definition protect_fits :: "resource_full \<Rightarrow> uuid option \<Rightarrow> shield_full \<Rightarrow> bool" where
  "protect_fits r chosen s \<longleftrightarrow>
     sh_tenant_id s = rs_tenant_id r \<and> sh_remote_network_id s = rs_remote_network_id r \<and> sh_status s = ''active''
     \<and> (if \<not> IsNameHost (rs_host r)
        then sh_lan_ip s = Some (rs_host r) \<and> (chosen = None \<or> Some (sh_id s) = chosen)
        else Some (sh_id s) = chosen)"

definition protect_candidate :: "resource_full \<Rightarrow> uuid option \<Rightarrow> rstore \<Rightarrow> shield_full option" where
  "protect_candidate r chosen st =
     (if rs_status r \<notin> set protectable then None
      else case select_one (\<lambda>s. protect_fits r chosen s \<and> Some (sh_id s) = rs_shield_id r) (rst_shields st) of
             Some s \<Rightarrow> Some s
           | None \<Rightarrow> select_one (protect_fits r chosen) (rst_shields st))"

definition MarkProtecting ::
  "(res_stmt \<Rightarrow> bool) \<Rightarrow> time \<Rightarrow> uuid \<Rightarrow> uuid option \<Rightarrow> uuid option option \<Rightarrow> rstore
   \<Rightarrow> (res_error + res_view) \<times> rstore" where
  "MarkProtecting fails now tenantID i shieldID st =
     (case i of
        None \<Rightarrow> (Inl ErrProtectNoShield, st)
      | Some rid \<Rightarrow>
          if shieldID = Some None then (Inl ErrProtectNoShield, st)
          else if fails SUpdate then (Inl ErrResourceDB, st)
          else let chosen = or_else shieldID None in
            case Option.bind (find_resource st tenantID rid) (\<lambda>r. protect_candidate r chosen st) of
              Some s \<Rightarrow>
                let st' = put_resource tenantID rid (\<lambda>r. r\<lparr>rs_shield_id := Some (sh_id s),
                            rs_status := ''protecting'', rs_pending_action := ''apply'',
                            rs_error_message := None, rs_updated_at := now\<rparr>) st
                in (GetByID fails tenantID (Some rid) st', st')
            | None \<Rightarrow>
                (case find_resource st tenantID rid of
                   Some r \<Rightarrow> if chosen = None \<and> \<not> fails SSelect \<and> IsNameHost (rs_host r)
                             then (Inl ErrProtectNameNeedsShield, st) else (Inl ErrProtectNoShield, st)
                 | None \<Rightarrow> (Inl ErrProtectNoShield, st)))"

definition shield_gone :: "rstore \<Rightarrow> resource_full \<Rightarrow> bool" where
  "shield_gone st r \<longleftrightarrow>
     (case find_shield st (rs_shield_id r) of None \<Rightarrow> True | Some s \<Rightarrow> sh_status s = ''revoked'')"

text \<open>An UPDATE of one resource in one of the given states, then the row read back.\<close>

definition row_transition ::
  "(res_stmt \<Rightarrow> bool) \<Rightarrow> res_error \<Rightarrow> uuid \<Rightarrow> uuid option \<Rightarrow> (resource_full \<Rightarrow> bool) \<Rightarrow> (resource_full \<Rightarrow> resource_full)
   \<Rightarrow> rstore \<Rightarrow> (res_error + res_view) \<times> rstore" where
  "row_transition fails e tenantID i P f st =
     (case i of
        None \<Rightarrow> (Inl e, st)
      | Some rid \<Rightarrow>
          if fails SUpdate then (Inl ErrResourceDB, st)
          else case find_resource st tenantID rid of
                 None \<Rightarrow> (Inl e, st)
               | Some r \<Rightarrow> if P r then (let st' = put_resource tenantID rid f st
                                      in (GetByID fails tenantID (Some rid) st', st'))
                           else (Inl e, st))"

definition MarkUnprotecting ::
  "(res_stmt \<Rightarrow> bool) \<Rightarrow> time \<Rightarrow> uuid \<Rightarrow> uuid option \<Rightarrow> rstore \<Rightarrow> (res_error + res_view) \<times> rstore" where
  "MarkUnprotecting fails now tenantID i st =
     row_transition fails ErrUnprotectNotPossible tenantID i (\<lambda>r. rs_status r = ''protected'')
       (\<lambda>r. r\<lparr>rs_status := (if shield_gone st r then ''unprotected'' else ''protecting''),
              rs_pending_action := ''remove'', rs_updated_at := now\<rparr>) st"

definition MarkDeleting ::
  "(res_stmt \<Rightarrow> bool) \<Rightarrow> time \<Rightarrow> uuid \<Rightarrow> uuid option \<Rightarrow> rstore \<Rightarrow> (res_error + res_view) \<times> rstore" where
  "MarkDeleting fails now tenantID i st =
     row_transition fails ErrDeleteNotPossible tenantID i (\<lambda>r. rs_status r \<in> {''protected'', ''failed''})
       (\<lambda>r. r\<lparr>rs_status := ''deleting'', rs_pending_action := ''remove'', rs_updated_at := now\<rparr>) st"

section \<open>Deleting\<close>

text \<open>\<open>one_resource\<close> is the WHERE clause by id and workspace with a further condition.\<close>

definition one_resource :: "uuid \<Rightarrow> uuid \<Rightarrow> (resource_full \<Rightarrow> bool) \<Rightarrow> resource_full \<Rightarrow> bool" where
  "one_resource tenantID i P r \<longleftrightarrow> rs_id r = i \<and> rs_tenant_id r = tenantID \<and> P r"

text \<open>A DELETE of one resource, and whether a row was deleted; a malformed id makes it fail.\<close>

definition delete_one ::
  "bool \<Rightarrow> uuid \<Rightarrow> uuid option \<Rightarrow> (resource_full \<Rightarrow> bool) \<Rightarrow> rstore \<Rightarrow> (res_error + bool) \<times> rstore" where
  "delete_one failed tenantID i P st =
     (case i of
        None \<Rightarrow> (Inl ErrResourceDB, st)
      | Some rid \<Rightarrow>
          if failed then (Inl ErrResourceDB, st)
          else (Inr (count_where (one_resource tenantID rid P) (rst_resources st) > 0),
                delete_resources (one_resource tenantID rid P) st))"

definition DeleteRow ::
  "(res_stmt \<Rightarrow> bool) \<Rightarrow> uuid \<Rightarrow> uuid option \<Rightarrow> rstore \<Rightarrow> res_error option \<times> rstore" where
  "DeleteRow fails tenantID i st =
     (if i = None then (Some ErrDeleteNeedsUnprotect, st)
      else case delete_one (fails SDelete) tenantID i (\<lambda>r. rs_status r \<in> {''pending'', ''unprotected''}) st of
        (Inl e, st') \<Rightarrow> (Some e, st')
      | (Inr deleted, st') \<Rightarrow> (if deleted then None else Some ErrDeleteNeedsUnprotect, st'))"

definition DeleteIfShieldGone ::
  "(res_stmt \<Rightarrow> bool) \<Rightarrow> uuid \<Rightarrow> uuid option \<Rightarrow> rstore \<Rightarrow> (res_error + bool) \<times> rstore" where
  "DeleteIfShieldGone fails tenantID i st =
     delete_one (fails SDelete) tenantID i
       (\<lambda>r. rs_status r \<in> {''protected'', ''failed'', ''deleting''} \<and> shield_gone st r) st"

definition ForceDeleteRow ::
  "(res_stmt \<Rightarrow> bool) \<Rightarrow> uuid \<Rightarrow> uuid option \<Rightarrow> rstore \<Rightarrow> (res_error + bool) \<times> rstore" where
  "ForceDeleteRow fails tenantID i st = delete_one (fails SDelete) tenantID i (\<lambda>_. True) st"

definition ReapTombstone ::
  "(res_stmt \<Rightarrow> bool) \<Rightarrow> uuid \<Rightarrow> uuid \<Rightarrow> uuid option \<Rightarrow> rstore \<Rightarrow> (res_error + bool) \<times> rstore" where
  "ReapTombstone fails tenantID shieldID i st =
     delete_one (fails SReap) tenantID i
       (\<lambda>r. rs_shield_id r = Some shieldID \<and> rs_status r = ''deleting'') st"

record reaped_tombstone =
  rt_ID :: uuid
  rt_TenantID :: uuid
  rt_ShieldID :: "uuid option"
  rt_ConnectorID :: "uuid option"

definition stale_tombstone :: "time \<Rightarrow> duration \<Rightarrow> resource_full \<Rightarrow> bool" where
  "stale_tombstone now olderThan r \<longleftrightarrow> rs_status r = ''deleting'' \<and> rs_updated_at r < now - olderThan"

definition ReapStaleTombstones ::
  "(res_stmt \<Rightarrow> bool) \<Rightarrow> time \<Rightarrow> duration \<Rightarrow> rstore \<Rightarrow> (res_error + reaped_tombstone list) \<times> rstore" where
  "ReapStaleTombstones fails now olderThan st =
     (if fails SDelete then (Inl ErrResourceDB, st)
      else (Inr (map (\<lambda>r. \<lparr>rt_ID = rs_id r, rt_TenantID = rs_tenant_id r, rt_ShieldID = rs_shield_id r,
                    rt_ConnectorID = Option.bind (find_shield st (rs_shield_id r)) sh_connector_id\<rparr>)
              (filter (stale_tombstone now olderThan) (rst_resources st))),
            delete_resources (stale_tombstone now olderThan) st))"

section \<open>Acknowledgements\<close>

record shield_ack =
  ak_ResourceID :: "uuid option"
  ak_Status :: string
  ak_Error :: string
  ak_VerifiedAt :: int
  ak_ShieldID :: "uuid option"
  ak_Host :: string
  ak_Protocol :: string
  ak_PortFrom :: int
  ak_PortTo :: int

definition connectorRouted :: "string \<Rightarrow> bool" where
  "connectorRouted status \<longleftrightarrow> status = ''pending'' \<or> status = ''unprotected''"

definition current_rule :: "rstore \<Rightarrow> shield_ack \<Rightarrow> resource_full \<Rightarrow> bool" where
  "current_rule st ack r \<longleftrightarrow> shieldHost st r = ak_Host ack \<and> rs_protocol r = ak_Protocol ack
     \<and> int (rs_port_from r) = ak_PortFrom ack \<and> int (rs_port_to r) = ak_PortTo ack"

definition ack_applies :: "rstore \<Rightarrow> shield_ack \<Rightarrow> resource_full \<Rightarrow> bool" where
  "ack_applies st ack r \<longleftrightarrow>
     rs_status r \<noteq> ''deleting''
     \<and> \<not> (rs_status r = ''protecting'' \<and> rs_pending_action r = ''remove'' \<and> ak_Status ack \<noteq> ''unprotected'')
     \<and> (ak_Status ack \<noteq> ''unprotected'' \<or> (rs_status r = ''protecting'' \<and> rs_pending_action r = ''remove''))
     \<and> rs_shield_id r \<noteq> None \<and> rs_shield_id r = ak_ShieldID ack
     \<and> (ak_Status ack \<notin> {''protected'', ''failed''} \<or> current_rule st ack r)"

definition acked_row :: "time \<Rightarrow> shield_ack \<Rightarrow> resource_full \<Rightarrow> resource_full" where
  "acked_row now ack r =
     r\<lparr>rs_status := ak_Status ack,
       rs_error_message := (if ak_Error ack = [] then None else Some (ak_Error ack)),
       rs_applied_at := (if ak_Status ack = ''protected'' \<and> rs_applied_at r = None then Some now else rs_applied_at r),
       rs_last_verified_at := Some (ak_VerifiedAt ack * second),
       rs_updated_at := now\<rparr>"

definition ack_tombstone :: "shield_ack \<Rightarrow> resource_full \<Rightarrow> bool" where
  "ack_tombstone ack r \<longleftrightarrow>
     rs_status r = ''deleting'' \<and> rs_shield_id r \<noteq> None \<and> rs_shield_id r = ak_ShieldID ack"

text \<open>
  The guarded UPDATE; a status outside the CHECK constraint makes it fail. The third component is
  \<open>aclChanged\<close>.
\<close>

definition ack_update ::
  "(res_stmt \<Rightarrow> bool) \<Rightarrow> time \<Rightarrow> uuid \<Rightarrow> uuid \<Rightarrow> shield_ack \<Rightarrow> rstore \<Rightarrow> (res_error + bool) \<times> rstore" where
  "ack_update fails now tenantID rid ack st =
     (if fails SUpdate then (Inl ErrResourceDB, st)
      else case find_resource st tenantID rid of
             None \<Rightarrow> (Inr False, st)
           | Some r \<Rightarrow>
               if \<not> ack_applies st ack r then (Inr False, st)
               else if ak_Status ack \<notin> set resource_statuses then (Inl ErrResourceDB, st)
               else (Inr (connectorRouted (rs_status r) \<noteq> connectorRouted (ak_Status ack)),
                     put_resource tenantID rid (acked_row now ack) st))"

definition RecordAck ::
  "(res_stmt \<Rightarrow> bool) \<Rightarrow> time \<Rightarrow> uuid \<Rightarrow> shield_ack \<Rightarrow> rstore \<Rightarrow> (res_error + bool) \<times> rstore" where
  "RecordAck fails now tenantID ack st =
     (case ak_ResourceID ack of
        None \<Rightarrow> (Inl ErrResourceDB, st)
      | Some rid \<Rightarrow>
          if ak_Status ack = ''unprotected'' then
            (case delete_one (fails SReap) tenantID (Some rid) (ack_tombstone ack) st of
               (Inl e, st') \<Rightarrow> (Inl e, st')
             | (Inr reaped, st') \<Rightarrow> if reaped then (Inr True, st')
                                   else ack_update fails now tenantID rid ack st')
          else ack_update fails now tenantID rid ack st)"

section \<open>What a shield is to enforce\<close>

record pending_row =
  pr_ID :: uuid
  pr_Host :: string
  pr_Protocol :: string
  pr_PortFrom :: nat
  pr_PortTo :: nat
  pr_PendingAction :: string

definition pending_of :: "rstore \<Rightarrow> resource_full \<Rightarrow> pending_row" where
  "pending_of st r = \<lparr>pr_ID = rs_id r, pr_Host = shieldHost st r, pr_Protocol = rs_protocol r,
     pr_PortFrom = rs_port_from r, pr_PortTo = rs_port_to r, pr_PendingAction = rs_pending_action r\<rparr>"

definition GetPendingForShield :: "(res_stmt \<Rightarrow> bool) \<Rightarrow> uuid \<Rightarrow> rstore \<Rightarrow> res_error + pending_row list" where
  "GetPendingForShield fails shieldID st =
     (if fails SSelect then Inl ErrResourceDB
      else Inr (map (pending_of st) (filter (\<lambda>r. rs_shield_id r = Some shieldID
             \<and> rs_status r \<in> {''protecting'', ''deleting''}) (rst_resources st))))"

definition desired_rows :: "uuid \<Rightarrow> rstore \<Rightarrow> pending_row list" where
  "desired_rows shieldID st =
     map (pending_of st) (filter (\<lambda>r. rs_shield_id r = Some shieldID \<and> enforced r) (rst_resources st))"

definition GetDesiredForShield :: "(res_stmt \<Rightarrow> bool) \<Rightarrow> uuid \<Rightarrow> rstore \<Rightarrow> res_error + pending_row list" where
  "GetDesiredForShield fails shieldID st =
     (if fails SDesired then Inl ErrResourceDB else Inr (desired_rows shieldID st))"

definition GetDeletingForShield :: "(res_stmt \<Rightarrow> bool) \<Rightarrow> uuid \<Rightarrow> rstore \<Rightarrow> res_error + uuid list" where
  "GetDeletingForShield fails shieldID st =
     (if fails SSelect then Inl ErrResourceDB
      else Inr (map rs_id (filter (\<lambda>r. rs_shield_id r = Some shieldID \<and> rs_status r = ''deleting'')
                 (rst_resources st))))"

text \<open>
  \<open>fingerprintDesired\<close>: the rows sorted by id, one line each, hashed; \<open>utext\<close> is the text of an
  identifier and \<open>sha\<close> the hexadecimal SHA-256 digest.
\<close>

definition fingerprint_line :: "(uuid \<Rightarrow> string) \<Rightarrow> pending_row \<Rightarrow> string" where
  "fingerprint_line utext p =
     utext (pr_ID p) @ ''|'' @ pr_Host p @ ''|'' @ pr_Protocol p @ ''|''
       @ Itoa (int (pr_PortFrom p)) @ ''|'' @ Itoa (int (pr_PortTo p)) @ [CHR 0x0A]"

definition fingerprint_text :: "(uuid \<Rightarrow> string) \<Rightarrow> pending_row list \<Rightarrow> string" where
  "fingerprint_text utext rows = concat (map (fingerprint_line utext) (sort_key pr_ID rows))"

definition fingerprintDesired :: "(uuid \<Rightarrow> string) \<Rightarrow> (string \<Rightarrow> string) \<Rightarrow> pending_row list \<Rightarrow> string" where
  "fingerprintDesired utext sha rows = sha (fingerprint_text utext rows)"

definition BuildShieldSnapshot ::
  "(uuid \<Rightarrow> string) \<Rightarrow> (string \<Rightarrow> string) \<Rightarrow> (res_stmt \<Rightarrow> bool) \<Rightarrow> uuid \<Rightarrow> rstore
   \<Rightarrow> (res_error + (int \<times> pending_row list)) \<times> rstore" where
  "BuildShieldSnapshot utext sha fails shieldID st =
     (if fails SBegin \<or> fails SShield then (Inl ErrResourceDB, st)
      else case find_shield st (Some shieldID) of
        None \<Rightarrow> (Inl ErrResourceDB, st)
      | Some s \<Rightarrow>
          if fails SDesired then (Inl ErrResourceDB, st)
          else let desired = desired_rows shieldID st; fp = fingerprintDesired utext sha desired in
            if fp \<noteq> sh_snapshot_fingerprint s then
              (if fails SBump \<or> fails SCommit then (Inl ErrResourceDB, st)
               else let gen = sh_snapshot_generation s + 1 in
                 (Inr (gen, desired),
                  st\<lparr>rst_shields := update_where (\<lambda>x. sh_id x = shieldID)
                       (\<lambda>x. x\<lparr>sh_snapshot_generation := gen, sh_snapshot_fingerprint := fp\<rparr>) (rst_shields st)\<rparr>))
            else if fails SCommit then (Inl ErrResourceDB, st)
            else (Inr (sh_snapshot_generation s, desired), st))"

end
