(* ===== verification/Res_Flow.thy ===== *)
theory Res_Flow
  imports Res_Ops "HOL-Library.AList"
begin

text \<open>
  The callers of the resource store: the GraphQL mutations (\<open>graph/resolvers/resource.resolvers.go\<close>),
  the connector's acknowledgements, shield reports and state reports
  (\<open>internal/connector/control_stream.go\<close>, \<open>reconcile.go\<close>), the shield heartbeat
  (\<open>internal/shield/heartbeat.go\<close>) and the tombstone sweeper. A caller returns its answer, the list of
  its effects on the rest of the controller in order, and the store.
\<close>

section \<open>Effects\<close>

datatype res_effect =
    ENotify uuid
  | EAudit string uuid
  | EInstruct uuid "uuid option" res_view
  | ESnapshot uuid uuid int "pending_row list"
  | EBackgroundPush uuid uuid

datatype resolver_error = RStore res_error | RMidOperation | RResourceNotFound | RNotify

text \<open>
  What a caller finds around it: the failing statements of its own functions and of the snapshot it
  builds, the clock, the id of an inserted row, whether \<open>NotifyPolicyChange\<close> fails, which connectors
  have a stream open, and whose sends succeed.
\<close>

record res_env =
  re_fails :: "res_stmt \<Rightarrow> bool"
  re_push_fails :: "res_stmt \<Rightarrow> bool"
  re_now :: time
  re_newid :: uuid
  re_notify_fails :: bool
  re_connected :: "uuid \<Rightarrow> bool"
  re_send_ok :: "uuid \<Rightarrow> bool"
  re_utext :: "uuid \<Rightarrow> string"
  re_sha :: "string \<Rightarrow> string"

type_synonym 'a handled = "'a \<times> res_effect list \<times> rstore"

text \<open>\<open>buildSnapshotMsg\<close> and the send that follows it.\<close>

definition send_snapshot :: "res_env \<Rightarrow> uuid \<Rightarrow> uuid \<Rightarrow> rstore \<Rightarrow> res_effect list \<times> rstore" where
  "send_snapshot env connectorID shieldID st =
     (case BuildShieldSnapshot (re_utext env) (re_sha env) (re_push_fails env) shieldID st of
        (Inl _, st') \<Rightarrow> ([], st')
      | (Inr (gen, rows), st') \<Rightarrow>
          (if re_send_ok env connectorID then [ESnapshot connectorID shieldID gen rows] else [], st'))"

definition PushSnapshotForShield ::
  "res_env \<Rightarrow> uuid option \<Rightarrow> uuid option \<Rightarrow> rstore \<Rightarrow> res_effect list \<times> rstore" where
  "PushSnapshotForShield env connectorID shieldID st =
     (case (connectorID, shieldID) of
        (Some c, Some s) \<Rightarrow> if re_connected env c then send_snapshot env c s st else ([], st)
      | _ \<Rightarrow> ([], st))"

fun push_snapshots :: "res_env \<Rightarrow> (uuid \<times> uuid) list \<Rightarrow> rstore \<Rightarrow> res_effect list \<times> rstore" where
  "push_snapshots env [] st = ([], st)"
| "push_snapshots env ((c, s) # ps) st =
     (let (es, st1) = PushSnapshotForShield env (Some c) (Some s) st;
          (es', st2) = push_snapshots env ps st1 in (es @ es', st2))"

definition PushInstruction :: "res_env \<Rightarrow> res_view \<Rightarrow> res_effect list" where
  "PushInstruction env row =
     (case rv_ConnectorID row of
        None \<Rightarrow> []
      | Some c \<Rightarrow> if re_connected env c \<and> re_send_ok env c
                  then [EInstruct c (rs_shield_id (rv_row row)) row] else [])"

section \<open>Mutations\<close>

definition notify_result :: "res_env \<Rightarrow> 'a \<Rightarrow> resolver_error + 'a" where
  "notify_result env x = (if re_notify_fails env then Inl RNotify else Inr x)"

definition CreateResource ::
  "res_env \<Rightarrow> uuid \<Rightarrow> create_input \<Rightarrow> rstore \<Rightarrow> (resolver_error + res_view) handled" where
  "CreateResource env tenantID input st =
     (case Create (re_fails env) (re_now env) (re_newid env) tenantID input st of
        (Inl e, st') \<Rightarrow> (Inl (RStore e), [], st')
      | (Inr row, st') \<Rightarrow>
          (notify_result env row, [EAudit ''resource.create'' (rs_id (rv_row row)), ENotify tenantID], st'))"

definition UpdateResource ::
  "res_env \<Rightarrow> uuid \<Rightarrow> uuid option \<Rightarrow> update_input \<Rightarrow> rstore \<Rightarrow> (resolver_error + res_view) handled" where
  "UpdateResource env tenantID i input st =
     (case Update (re_fails env) (re_now env) tenantID i input st of
        (Inl e, st') \<Rightarrow> (Inl (RStore e), [], st')
      | (Inr res, st') \<Rightarrow>
          let audit = EAudit ''resource.update'' (rs_id (rv_row (ur_Row res)));
              notify = (if ACLRelevantUpdate input then [ENotify tenantID] else []) in
          if ACLRelevantUpdate input \<and> re_notify_fails env then (Inl RNotify, audit # notify, st')
          else let ins = (if ur_Moved res then PushInstruction env (ur_Row res) else []);
                   (es, st2) = push_snapshots env (ur_ShieldPushes res) st' in
            (Inr (ur_Row res), (audit # notify) @ ins @ es, st2))"

definition ProtectResource ::
  "res_env \<Rightarrow> uuid \<Rightarrow> uuid option \<Rightarrow> uuid option option \<Rightarrow> rstore \<Rightarrow> (resolver_error + res_view) handled" where
  "ProtectResource env tenantID i shieldID st =
     (case MarkProtecting (re_fails env) (re_now env) tenantID i shieldID st of
        (Inl e, st') \<Rightarrow> (Inl (RStore e), [], st')
      | (Inr row, st') \<Rightarrow>
          let es = [EAudit ''resource.protect'' (rs_id (rv_row row)), ENotify tenantID] in
          if re_notify_fails env then (Inl RNotify, es, st')
          else let (ps, st2) = PushSnapshotForShield env (rv_ConnectorID row) (rs_shield_id (rv_row row)) st' in
            (Inr row, es @ PushInstruction env row @ ps, st2))"

definition UnprotectResource ::
  "res_env \<Rightarrow> uuid \<Rightarrow> uuid option \<Rightarrow> rstore \<Rightarrow> (resolver_error + res_view) handled" where
  "UnprotectResource env tenantID i st =
     (case MarkUnprotecting (re_fails env) (re_now env) tenantID i st of
        (Inl e, st') \<Rightarrow> (Inl (RStore e), [], st')
      | (Inr row, st') \<Rightarrow>
          let audit = EAudit ''resource.unprotect'' (rs_id (rv_row row)) in
          if rs_status (rv_row row) = ''protecting'' then
            (let (ps, st2) = PushSnapshotForShield env (rv_ConnectorID row) (rs_shield_id (rv_row row)) st' in
             (Inr row, audit # PushInstruction env row @ ps, st2))
          else (notify_result env row, [audit, ENotify tenantID], st'))"

text \<open>The end of \<open>DeleteResource\<close>, by the status the row had when it was read.\<close>

definition delete_by_status ::
  "res_env \<Rightarrow> uuid \<Rightarrow> uuid option \<Rightarrow> res_view \<Rightarrow> rstore \<Rightarrow> (resolver_error + bool) handled" where
  "delete_by_status env tenantID i row st =
     (let audit = EAudit ''resource.delete'' (rs_id (rv_row row)) in
      if rs_status (rv_row row) \<in> {''protecting'', ''deleting''} then (Inl RMidOperation, [], st)
      else if rs_status (rv_row row) \<in> {''protected'', ''failed''} then
        (case MarkDeleting (re_fails env) (re_now env) tenantID i st of
           (Inl e, st') \<Rightarrow> (Inl (RStore e), [], st')
         | (Inr delRow, st') \<Rightarrow>
             let (ps, st2) = PushSnapshotForShield env (rv_ConnectorID row) (rs_shield_id (rv_row row)) st' in
             (notify_result env True, audit # PushInstruction env delRow @ ps @ [ENotify tenantID], st2))
      else
        (case DeleteRow (re_fails env) tenantID i st of
           (Some e, st') \<Rightarrow> (Inl (RStore e), [], st')
         | (None, st') \<Rightarrow> (notify_result env True, [audit, ENotify tenantID], st')))"

definition DeleteResource ::
  "res_env \<Rightarrow> uuid \<Rightarrow> uuid option \<Rightarrow> rstore \<Rightarrow> (resolver_error + bool) handled" where
  "DeleteResource env tenantID i st =
     (case GetByID (re_fails env) tenantID i st of
        Inl e \<Rightarrow> (Inl (RStore e), [], st)
      | Inr row \<Rightarrow>
          if rs_status (rv_row row) \<in> {''protected'', ''failed'', ''deleting''} then
            (case DeleteIfShieldGone (re_fails env) tenantID i st of
               (Inl e, st') \<Rightarrow> (Inl (RStore e), [], st')
             | (Inr deleted, st') \<Rightarrow>
                 if deleted then
                   (notify_result env True, [EAudit ''resource.delete'' (rs_id (rv_row row)), ENotify tenantID], st')
                 else delete_by_status env tenantID i row st')
          else delete_by_status env tenantID i row st)"

definition ForceDeleteResource ::
  "res_env \<Rightarrow> uuid \<Rightarrow> uuid option \<Rightarrow> rstore \<Rightarrow> (resolver_error + bool) handled" where
  "ForceDeleteResource env tenantID i st =
     (let row = GetByID (re_fails env) tenantID i st in
      case ForceDeleteRow (re_fails env) tenantID i st of
        (Inl e, st') \<Rightarrow> (Inl (RStore e), [], st')
      | (Inr deleted, st') \<Rightarrow>
          if \<not> deleted then (Inl RResourceNotFound, [], st')
          else let (ps, st2) = (case row of
                     Inr r \<Rightarrow> PushSnapshotForShield env (rv_ConnectorID r) (rs_shield_id (rv_row r)) st'
                   | Inl _ \<Rightarrow> ([], st')) in
            (notify_result env True, EAudit ''resource.force_delete'' (the i) # ps @ [ENotify tenantID], st2))"

section \<open>Acknowledgements of a connector\<close>

text \<open>Each acknowledgement of a batch has its own environment; a failed one is logged and skipped.\<close>

fun record_acks :: "uuid \<Rightarrow> (res_env \<times> shield_ack) list \<Rightarrow> rstore \<Rightarrow> bool \<times> rstore" where
  "record_acks tenantID [] st = (False, st)"
| "record_acks tenantID ((env, ack) # acks) st =
     (case RecordAck (re_fails env) (re_now env) tenantID ack st of
        (Inl _, st') \<Rightarrow> record_acks tenantID acks st'
      | (Inr changed, st') \<Rightarrow>
          (let (anyChanged, st2) = record_acks tenantID acks st' in (changed \<or> anyChanged, st2)))"

definition handleResourceAcks :: "uuid \<Rightarrow> (res_env \<times> shield_ack) list \<Rightarrow> rstore \<Rightarrow> unit handled" where
  "handleResourceAcks tenantID acks st =
     (let (anyChanged, st') = record_acks tenantID acks st in
      ((), if anyChanged then [ENotify tenantID] else [], st'))"

section \<open>The tombstone sweeper\<close>

fun on_reaped :: "res_env \<Rightarrow> reaped_tombstone list \<Rightarrow> rstore \<Rightarrow> res_effect list \<times> rstore" where
  "on_reaped env [] st = ([], st)"
| "on_reaped env (t # ts) st =
     (let (ps, st1) = PushSnapshotForShield env (rt_ConnectorID t) (rt_ShieldID t) st;
          (es, st2) = on_reaped env ts st1 in (ENotify (rt_TenantID t) # ps @ es, st2))"

text \<open>One tick of \<open>RunTombstoneSweeper\<close>, with the grace and the callback of \<open>cmd/server/main.go\<close>.\<close>

definition tombstone_grace :: duration where "tombstone_grace = 2 * second"

definition sweep_tombstones :: "res_env \<Rightarrow> rstore \<Rightarrow> unit handled" where
  "sweep_tombstones env st =
     (case ReapStaleTombstones (re_fails env) (re_now env) tombstone_grace st of
        (Inl _, st') \<Rightarrow> ((), [], st')
      | (Inr reaped, st') \<Rightarrow> (let (es, st2) = on_reaped env reaped st' in ((), es, st2)))"

section \<open>Shield reports\<close>

record shield_report =
  hb_ShieldID :: "uuid option"
  hb_Status :: string
  hb_Version :: string
  hb_LanIP :: string
  hb_LastSeen :: int

definition shield_statuses :: "string list" where
  "shield_statuses = [''pending'', ''active'', ''disconnected'', ''revoked'']"

definition NULLIF_empty :: "string \<Rightarrow> string option" where
  "NULLIF_empty s = (if s = [] then None else Some s)"

definition report_accepted :: "uuid \<Rightarrow> rstore \<Rightarrow> shield_full \<Rightarrow> bool" where
  "report_accepted connectorID st s \<longleftrightarrow>
     list_ex (\<lambda>c. co_id c = connectorID \<and> co_tenant_id c = sh_tenant_id s
       \<and> co_remote_network_id c = sh_remote_network_id s \<and> co_status c = ''active'') (db_connectors (rst_db st))
     \<and> sh_status s \<noteq> ''revoked''"

definition reported_shield :: "time \<Rightarrow> uuid \<Rightarrow> shield_report \<Rightarrow> shield_full \<Rightarrow> shield_full" where
  "reported_shield now connectorID rep s =
     s\<lparr>sh_status := hb_Status rep, sh_connector_id := Some connectorID,
       sh_lan_ip := NULLIF_empty (hb_LanIP rep), sh_version := Some (hb_Version rep),
       sh_last_heartbeat_at := Some (hb_LastSeen rep * second), sh_updated_at := now\<rparr>"

text \<open>The \<open>synced\<close> part: the shield's resources that had its old address get the new one.\<close>

definition synced_host :: "shield_full \<Rightarrow> string \<Rightarrow> resource_full \<Rightarrow> bool" where
  "synced_host s ip r \<longleftrightarrow> rs_shield_id r = Some (sh_id s) \<and> ip \<noteq> [] \<and> Some (rs_host r) = sh_lan_ip s
     \<and> sh_lan_ip s \<noteq> NULLIF_empty ip"

definition slots_distinct :: "resource_full list \<Rightarrow> bool" where
  "slots_distinct rows \<longleftrightarrow>
     distinct (map (\<lambda>r. (rs_tenant_id r, rs_remote_network_id r, rs_host r, rs_name r)) rows)"

definition UpdateShieldHealth ::
  "(res_stmt \<Rightarrow> bool) \<Rightarrow> time \<Rightarrow> uuid \<Rightarrow> shield_report \<Rightarrow> rstore \<Rightarrow> (res_error + (bool \<times> bool)) \<times> rstore" where
  "UpdateShieldHealth fails now connectorID rep st =
     (if fails SUpdate then (Inl ErrResourceDB, st)
      else case hb_ShieldID rep of
        None \<Rightarrow> (Inl ErrResourceDB, st)
      | Some sid \<Rightarrow>
          case find_shield st (Some sid) of
            None \<Rightarrow> (Inr (False, False), st)
          | Some s \<Rightarrow>
              if \<not> report_accepted connectorID st s then (Inr (False, False), st)
              else let rows = update_where (synced_host s (hb_LanIP rep))
                               (\<lambda>r. r\<lparr>rs_host := hb_LanIP rep\<rparr>) (rst_resources st) in
                if hb_Status rep \<notin> set shield_statuses \<or> \<not> slots_distinct rows then (Inl ErrResourceDB, st)
                else (Inr (sh_connector_id s \<noteq> Some connectorID, sh_lan_ip s \<noteq> NULLIF_empty (hb_LanIP rep)),
                      st\<lparr>rst_shields := update_where (\<lambda>x. sh_id x = sid) (reported_shield now connectorID rep) (rst_shields st),
                         rst_resources := rows\<rparr>))"

fun shield_reports ::
  "uuid \<Rightarrow> (res_env \<times> shield_report) list \<Rightarrow> rstore \<Rightarrow> bool \<times> res_effect list \<times> rstore" where
  "shield_reports connectorID [] st = (False, [], st)"
| "shield_reports connectorID ((env, rep) # reps) st =
     (case UpdateShieldHealth (re_fails env) (re_now env) connectorID rep st of
        (Inl _, st') \<Rightarrow> shield_reports connectorID reps st'
      | (Inr (connectorChanged, lanIPChanged), st') \<Rightarrow>
          (let bg = (if connectorChanged \<and> \<not> lanIPChanged
                     then [EBackgroundPush connectorID (the (hb_ShieldID rep))] else []);
               (ps, st1) = (if lanIPChanged
                            then PushSnapshotForShield env (Some connectorID) (hb_ShieldID rep) st'
                            else ([], st'));
               (anyChanged, es, st2) = shield_reports connectorID reps st1 in
           (connectorChanged \<or> lanIPChanged \<or> anyChanged, bg @ ps @ es, st2)))"

definition handleShieldStatus ::
  "uuid \<Rightarrow> uuid \<Rightarrow> (res_env \<times> shield_report) list \<Rightarrow> rstore \<Rightarrow> unit handled" where
  "handleShieldStatus tenantID connectorID reps st =
     (let (anyChanged, es, st') = shield_reports connectorID reps st in
      ((), es @ (if anyChanged then [ENotify tenantID] else []), st'))"

text \<open>The disconnect watcher; \<open>threshold\<close> is its configured age, cut to whole seconds.\<close>

definition markDisconnected :: "(res_stmt \<Rightarrow> bool) \<Rightarrow> time \<Rightarrow> duration \<Rightarrow> rstore \<Rightarrow> (res_error + nat) \<times> rstore" where
  "markDisconnected fails now threshold st =
     (let late = (\<lambda>s. sh_status s = ''active''
            \<and> (case sh_last_heartbeat_at s of None \<Rightarrow> False | Some t \<Rightarrow> t < now - threshold div second * second)
            \<and> sh_tenant_id s \<in> set (rst_active_workspaces st)) in
      if fails SUpdate then (Inl ErrResourceDB, st)
      else (Inr (count_where late (rst_shields st)),
            st\<lparr>rst_shields := update_where late (\<lambda>s. s\<lparr>sh_status := ''disconnected'', sh_updated_at := now\<rparr>)
                 (rst_shields st)\<rparr>))"

section \<open>Reconciliation\<close>

record reconcile_state =
  rc_drift :: "(uuid \<times> nat) list"
  rc_absent :: "(uuid \<times> nat) list"

record state_report =
  sr_ShieldID :: uuid
  sr_ActiveResourceIDs :: "uuid option list"

definition driftReportsBeforeResync :: nat where "driftReportsBeforeResync = 2"
definition absentReportsBeforeReap :: nat where "absentReportsBeforeReap = 3"

definition counter :: "(uuid \<times> nat) list \<Rightarrow> uuid \<Rightarrow> nat" where
  "counter m i = (case map_of m i of None \<Rightarrow> 0 | Some n \<Rightarrow> n)"

definition has_drift :: "uuid list \<Rightarrow> uuid option list \<Rightarrow> bool" where
  "has_drift desired reported \<longleftrightarrow>
     (\<exists>i\<in>set reported. i \<notin> Some ` set desired) \<or> (\<exists>i\<in>set desired. Some i \<notin> set reported)"

definition note_drift :: "bool \<Rightarrow> uuid \<Rightarrow> (uuid \<times> nat) list \<Rightarrow> bool \<times> (uuid \<times> nat) list" where
  "note_drift drift s m =
     (if \<not> drift then (False, AList.update s 0 m)
      else if counter m s + 1 \<ge> driftReportsBeforeResync then (True, AList.update s 0 m)
      else (False, AList.update s (counter m s + 1) m))"

fun note_absent ::
  "uuid option list \<Rightarrow> uuid list \<Rightarrow> (uuid \<times> nat) list \<Rightarrow> uuid list \<times> (uuid \<times> nat) list" where
  "note_absent reported [] m = ([], m)"
| "note_absent reported (i # is) m =
     (if Some i \<in> set reported then note_absent reported is (AList.update i 0 m)
      else if counter m i + 1 \<ge> absentReportsBeforeReap then
        (let (rs, m') = note_absent reported is (AList.delete i (AList.update i (counter m i + 1) m)) in (i # rs, m'))
      else note_absent reported is (AList.update i (counter m i + 1) m))"

fun reap_all :: "res_env \<Rightarrow> uuid \<Rightarrow> uuid \<Rightarrow> uuid list \<Rightarrow> rstore \<Rightarrow> bool \<times> rstore" where
  "reap_all env tenantID shieldID [] st = (False, st)"
| "reap_all env tenantID shieldID (i # is) st =
     (case ReapTombstone (re_fails env) tenantID shieldID (Some i) st of (res, st1) \<Rightarrow>
        let (anyReaped, st2) = reap_all env tenantID shieldID is st1 in
        (res = Inr True \<or> anyReaped, st2))"

text \<open>
  \<open>reconcileShield\<close>. The load of the tombstones may fail (\<open>SSelect\<close>), the report is then handled
  with none. The snapshot goes to the reporting connector; the two gauges are not kept.
\<close>

definition reconcileShield ::
  "res_env \<Rightarrow> uuid \<Rightarrow> uuid \<Rightarrow> state_report \<Rightarrow> reconcile_state \<times> rstore
   \<Rightarrow> res_effect list \<times> reconcile_state \<times> rstore" where
  "reconcileShield env tenantID connectorID rep = (\<lambda>(rc, st).
     (case GetDesiredForShield (re_fails env) (sr_ShieldID rep) st of
        Inl _ \<Rightarrow> ([], rc, st)
      | Inr desired \<Rightarrow>
          let deleting = (case GetDeletingForShield (re_fails env) (sr_ShieldID rep) st of Inl _ \<Rightarrow> [] | Inr ds \<Rightarrow> ds);
              drift = has_drift (map pr_ID desired) (sr_ActiveResourceIDs rep);
              (resync, dm) = note_drift drift (sr_ShieldID rep) (rc_drift rc);
              (toReap, am) = note_absent (sr_ActiveResourceIDs rep) deleting (rc_absent rc);
              (ps, st1) = (if resync then send_snapshot env connectorID (sr_ShieldID rep) st else ([], st));
              (anyReaped, st2) = reap_all env tenantID (sr_ShieldID rep) toReap st1
          in (ps @ (if anyReaped then [ENotify tenantID] else []),
              rc\<lparr>rc_drift := dm, rc_absent := am\<rparr>, st2)))"

fun handleResourceState ::
  "uuid \<Rightarrow> uuid \<Rightarrow> (res_env \<times> state_report) list \<Rightarrow> reconcile_state \<times> rstore
   \<Rightarrow> res_effect list \<times> reconcile_state \<times> rstore" where
  "handleResourceState tenantID connectorID [] s = ([], s)"
| "handleResourceState tenantID connectorID ((env, rep) # reps) s =
     (if re_fails env SShield \<or>
         \<not> list_ex (\<lambda>x. sh_id x = sr_ShieldID rep \<and> sh_connector_id x = Some connectorID \<and> sh_tenant_id x = tenantID)
              (rst_shields (snd s))
      then handleResourceState tenantID connectorID reps s
      else let (es, s1) = reconcileShield env tenantID connectorID rep s;
               (es', s2) = handleResourceState tenantID connectorID reps s1 in (es @ es', s2))"

end
