(* ===== verification/Res_Invariant.thy ===== *)
theory Res_Invariant
  imports Res_Flow Zec_Interfaces
begin

text \<open>
  The well-formedness of the resource table that every function of the store keeps: the
  constraints of the schema, hosts in canonical form, names reachable over TCP only, and no name
  that two remote networks of a workspace serve on a common port.
\<close>

section \<open>The invariant\<close>

definition canonical_host :: "string \<Rightarrow> bool" where
  "canonical_host h \<longleftrightarrow> (case NormalizeHost h of Inr (h', _) \<Rightarrow> h' = h | Inl _ \<Rightarrow> False)"

definition ports_overlap :: "resource_full \<Rightarrow> resource_full \<Rightarrow> bool" where
  "ports_overlap r x \<longleftrightarrow> rs_port_from r \<le> rs_port_to x \<and> rs_port_from x \<le> rs_port_to r"

definition name_conflict :: "resource_full \<Rightarrow> resource_full \<Rightarrow> bool" where
  "name_conflict r x \<longleftrightarrow> rs_tenant_id x = rs_tenant_id r \<and> rs_host x = rs_host r \<and> IsNameHost (rs_host r)
     \<and> rs_remote_network_id x \<noteq> rs_remote_network_id r \<and> ports_overlap r x"

definition row_compat :: "resource_full \<Rightarrow> resource_full \<Rightarrow> bool" where
  "row_compat r x \<longleftrightarrow> \<not> same_slot r x \<and> \<not> name_conflict r x"

definition row_typed :: "rstore \<Rightarrow> resource_full \<Rightarrow> bool" where
  "row_typed st r \<longleftrightarrow> row_checks r \<and> owns_network st (rs_tenant_id r) (rs_remote_network_id r)
     \<and> owns_shield st (rs_tenant_id r) (rs_shield_id r) \<and> canonical_host (rs_host r)
     \<and> (IsNameHost (rs_host r) \<longrightarrow> rs_protocol r = ''tcp'')"

definition lan_ip_typed :: "string option \<Rightarrow> bool" where
  "lan_ip_typed ip \<longleftrightarrow> (case ip of None \<Rightarrow> True | Some h \<Rightarrow> canonical_host h \<and> \<not> IsNameHost h)"

definition res_keys :: "rstore \<Rightarrow> (uuid \<times> uuid) set" where
  "res_keys st = (\<lambda>r. (rs_id r, rs_tenant_id r)) ` set (rst_resources st)"

text \<open>An access rule names a resource of its own workspace.\<close>

definition rules_bound :: "rstore \<Rightarrow> bool" where
  "rules_bound st \<longleftrightarrow>
     (\<forall>a\<in>set (db_access_rules (rst_db st)). (ar_resource_id a, ar_workspace_id a) \<in> res_keys st)"

definition res_inv :: "rstore \<Rightarrow> bool" where
  "res_inv st \<longleftrightarrow> distinct (map rs_id (rst_resources st)) \<and> distinct (map sh_id (rst_shields st))
     \<and> (\<forall>r\<in>set (rst_resources st). row_typed st r)
     \<and> (\<forall>r\<in>set (rst_resources st). \<forall>x\<in>set (rst_resources st). rs_id r \<noteq> rs_id x \<longrightarrow> row_compat r x)
     \<and> (\<forall>s\<in>set (rst_shields st). lan_ip_typed (sh_lan_ip s)) \<and> rules_bound st"

lemma res_invI:
  "distinct (map rs_id (rst_resources st)) \<Longrightarrow> distinct (map sh_id (rst_shields st)) \<Longrightarrow>
   (\<And>r. r \<in> set (rst_resources st) \<Longrightarrow> row_typed st r) \<Longrightarrow>
   (\<And>r x. r \<in> set (rst_resources st) \<Longrightarrow> x \<in> set (rst_resources st) \<Longrightarrow> rs_id r \<noteq> rs_id x \<Longrightarrow> row_compat r x) \<Longrightarrow>
   (\<And>s. s \<in> set (rst_shields st) \<Longrightarrow> lan_ip_typed (sh_lan_ip s)) \<Longrightarrow> rules_bound st \<Longrightarrow> res_inv st"
  by (simp add: res_inv_def)

lemma res_invD:
  assumes "res_inv st"
  shows res_inv_ids: "distinct (map rs_id (rst_resources st))"
    and res_inv_shield_ids: "distinct (map sh_id (rst_shields st))"
    and res_inv_typed: "r \<in> set (rst_resources st) \<Longrightarrow> row_typed st r"
    and res_inv_compat: "r \<in> set (rst_resources st) \<Longrightarrow> x \<in> set (rst_resources st) \<Longrightarrow> rs_id r \<noteq> rs_id x \<Longrightarrow> row_compat r x"
    and res_inv_lan: "s \<in> set (rst_shields st) \<Longrightarrow> lan_ip_typed (sh_lan_ip s)"
    and res_inv_rules: "rules_bound st"
  using assms by (auto simp: res_inv_def)

lemma res_keys_map:
  "map (\<lambda>r. (rs_id r, rs_tenant_id r)) (rst_resources st') = map (\<lambda>r. (rs_id r, rs_tenant_id r)) (rst_resources st) \<Longrightarrow>
   res_keys st' = res_keys st"
  unfolding res_keys_def by (metis set_map)

lemma rules_bound_mono:
  "rules_bound st \<Longrightarrow> set (db_access_rules (rst_db st')) \<subseteq> set (db_access_rules (rst_db st)) \<Longrightarrow>
   res_keys st \<subseteq> res_keys st' \<Longrightarrow> rules_bound st'"
  by (auto simp: rules_bound_def)

lemma compat_sym: "row_compat r x \<Longrightarrow> row_compat x r"
  by (auto simp: row_compat_def same_slot_def name_conflict_def ports_overlap_def)

lemma canonical_host_normal: "NormalizeHost host = Inr (h, k) \<Longrightarrow> canonical_host h"
  using NormalizeHost_idem by (simp add: canonical_host_def)

lemma canonical_hostE:
  assumes "canonical_host h"
  obtains k where "NormalizeHost h = Inr (h, k)"
  using assms by (auto simp: canonical_host_def split: sum.splits)

lemma canonical_host_bytes:
  assumes "canonical_host h"
  shows "h \<noteq> [] \<and> (\<forall>c\<in>set h. host_byte c)"
proof -
  from assms obtain k where k: "NormalizeHost h = Inr (h, k)" by (rule canonical_hostE)
  show ?thesis
  proof (cases k)
    case HostIPv4
    with k obtain w a where "h = addr_String (w # a)" by (auto elim!: NormalizeHost_ipv4)
    then show ?thesis using addr_String_bytes addr_String_neq_Nil by (auto simp: host_byte_def)
  next
    case HostName
    with k have "canonical_name h" using NormalizeHost_name by simp
    then show ?thesis using canonical_name_bytes by (simp add: canonical_name_def)
  qed
qed

lemma TrimSpace_canonical: "canonical_host h \<Longrightarrow> TrimSpace h = h"
  using canonical_host_bytes TrimSpace_host by blast

lemma row_typed_cong:
  "db_remote_networks (rst_db st') = db_remote_networks (rst_db st) \<Longrightarrow>
   map (\<lambda>s. (sh_id s, sh_tenant_id s)) (rst_shields st') = map (\<lambda>s. (sh_id s, sh_tenant_id s)) (rst_shields st) \<Longrightarrow>
   row_typed st' r = row_typed st r"
proof -
  have l: "list_ex (\<lambda>s. Some (sh_id s) = i \<and> sh_tenant_id s = t) xs =
      list_ex (\<lambda>(a, b). Some a = i \<and> b = t) (map (\<lambda>s. (sh_id s, sh_tenant_id s)) xs)"
    for i t and xs :: "shield_full list"
    by (induction xs) auto
  assume "db_remote_networks (rst_db st') = db_remote_networks (rst_db st)"
    and "map (\<lambda>s. (sh_id s, sh_tenant_id s)) (rst_shields st') = map (\<lambda>s. (sh_id s, sh_tenant_id s)) (rst_shields st)"
  then show ?thesis by (simp add: row_typed_def owns_network_def owns_shield_def l)
qed

section \<open>Writing one resource\<close>

lemma find_resource_Some:
  "find_resource st t i = Some r \<Longrightarrow> r \<in> set (rst_resources st) \<and> rs_id r = i \<and> rs_tenant_id r = t"
  unfolding find_resource_def by (drule select_one_Some) simp

lemma put_resource_const:
  assumes "distinct (map rs_id (rst_resources st))" and "find_resource st t i = Some r"
  shows "put_resource t i f st = put_resource t i (\<lambda>_. f r) st"
proof -
  have "f x = f r" if "x \<in> set (rst_resources st)" "rs_id x = i" for x
    using distinct_key_eq [OF assms(1) that(1), of r] find_resource_Some [OF assms(2)] that(2) by simp
  then show ?thesis by (auto simp: put_resource_def update_where_def intro!: arg_cong [of _ _ "\<lambda>x. st\<lparr>rst_resources := x\<rparr>"])
qed

lemma put_resource_rows:
  assumes "distinct (map rs_id (rst_resources st))" and "find_resource st t i = Some r"
    and "x \<in> set (rst_resources (put_resource t i (\<lambda>_. r') st))"
  shows "x = r' \<or> x \<in> set (rst_resources st) \<and> rs_id x \<noteq> i"
proof -
  have "x \<in> set (update_where (\<lambda>r. rs_id r = i \<and> rs_tenant_id r = t) (\<lambda>_. r') (rst_resources st))"
    using assms(3) by (simp add: put_resource_def)
  then show ?thesis
  proof (cases rule: update_whereE)
    case miss
    then show ?thesis
      using distinct_key_eq [OF assms(1) miss(1), of r] find_resource_Some [OF assms(2)] by auto
  qed simp
qed

lemma res_inv_put:
  assumes inv: "res_inv st" and r: "find_resource st t i = Some r"
    and r': "rs_id r' = i" "rs_tenant_id r' = t" "row_typed st r'"
    and c: "\<And>x. x \<in> set (rst_resources st) \<Longrightarrow> rs_id x \<noteq> i \<Longrightarrow> row_compat r' x"
  shows "res_inv (put_resource t i (\<lambda>_. r') st)"
proof -
  let ?st = "put_resource t i (\<lambda>_. r') st"
  have typed: "row_typed ?st x = row_typed st x" for x by (rule row_typed_cong) (simp_all add: put_resource_def)
  have rows: "x = r' \<or> x \<in> set (rst_resources st) \<and> rs_id x \<noteq> i" if "x \<in> set (rst_resources ?st)" for x
    using put_resource_rows [OF res_inv_ids [OF inv] r that] .
  have ids: "map rs_id (rst_resources ?st) = map rs_id (rst_resources st)"
    using r' by (auto simp: put_resource_def update_where_def)
  show ?thesis
  proof (rule res_invI)
    show "distinct (map rs_id (rst_resources ?st))" using ids res_inv_ids [OF inv] by simp
    show "row_typed ?st x" if "x \<in> set (rst_resources ?st)" for x
      using rows [OF that] r' res_inv_typed [OF inv] by (auto simp: typed)
    show "row_compat x y" if "x \<in> set (rst_resources ?st)" "y \<in> set (rst_resources ?st)" "rs_id x \<noteq> rs_id y" for x y
      using rows [OF that(1)] rows [OF that(2)] that(3) r'(1) c compat_sym [OF c] res_inv_compat [OF inv] by metis
    show "rules_bound ?st"
    proof (rule rules_bound_mono [OF res_inv_rules [OF inv]])
      have "res_keys ?st = res_keys st" using r' by (intro res_keys_map) (auto simp: put_resource_def update_where_def)
      then show "res_keys st \<subseteq> res_keys ?st" by simp
    qed (simp add: put_resource_def)
  qed (use res_invD [OF inv] in \<open>simp_all add: put_resource_def\<close>)
qed

text \<open>Most functions change only the progress of a resource, not the rule it stands for.\<close>

definition same_rule :: "resource_full \<Rightarrow> resource_full \<Rightarrow> bool" where
  "same_rule r r' \<longleftrightarrow> rs_id r' = rs_id r \<and> rs_tenant_id r' = rs_tenant_id r \<and> rs_name r' = rs_name r
     \<and> rs_host r' = rs_host r \<and> rs_protocol r' = rs_protocol r \<and> rs_port_from r' = rs_port_from r
     \<and> rs_port_to r' = rs_port_to r \<and> rs_remote_network_id r' = rs_remote_network_id r"

lemma res_inv_put_same:
  assumes inv: "res_inv st" and r: "find_resource st t i = Some r" and s: "same_rule r (f r)"
    and st: "rs_status (f r) \<in> set resource_statuses" "rs_pending_action (f r) \<in> {''apply'', ''remove''}"
    and sh: "owns_shield st t (rs_shield_id (f r))"
  shows "res_inv (put_resource t i f st)"
proof -
  have r0: "r \<in> set (rst_resources st)" "rs_id r = i" "rs_tenant_id r = t" using find_resource_Some [OF r] by auto
  have "res_inv (put_resource t i (\<lambda>_. f r) st)"
  proof (rule res_inv_put [OF inv r])
    show "rs_id (f r) = i" "rs_tenant_id (f r) = t" using s r0 by (auto simp: same_rule_def)
    show "row_typed st (f r)"
      using res_inv_typed [OF inv r0(1)] s st sh r0 by (auto simp: row_typed_def same_rule_def row_checks_def)
    show "row_compat (f r) x" if "x \<in> set (rst_resources st)" "rs_id x \<noteq> i" for x
    proof -
      have "row_compat r x" using res_inv_compat [OF inv r0(1) that(1)] that(2) r0(2) by simp
      then show ?thesis using s
        by (simp add: row_compat_def same_slot_def name_conflict_def ports_overlap_def same_rule_def)
    qed
  qed
  then show ?thesis using put_resource_const [OF res_inv_ids [OF inv] r] by metis
qed

lemma res_inv_delete:
  assumes inv: "res_inv st"
  shows "res_inv (delete_resources P st)"
proof -
  let ?st = "delete_resources P st"
  have "row_typed ?st x = row_typed st x" for x
    by (rule row_typed_cong) (simp_all add: delete_resources_def Let_def)
  moreover have "rules_bound ?st"
    using res_inv_rules [OF inv] by (fastforce simp: rules_bound_def res_keys_def delete_resources_def Let_def)
  moreover have "distinct (map rs_id (rst_resources ?st))"
    using res_inv_ids [OF inv] by (simp add: delete_resources_def Let_def distinct_map_filter)
  ultimately show ?thesis
    using res_invD [OF inv] by (intro res_invI) (simp_all add: delete_resources_def Let_def)
qed

lemma res_inv_delete_one: "res_inv st \<Longrightarrow> delete_one failed t i P st = (x, st') \<Longrightarrow> res_inv st'"
  by (auto simp: delete_one_def res_inv_delete split: option.splits if_splits)

lemma res_inv_shields:
  assumes inv: "res_inv st"
    and "map (\<lambda>s. (sh_id s, sh_tenant_id s)) ss = map (\<lambda>s. (sh_id s, sh_tenant_id s)) (rst_shields st)"
    and "\<And>s. s \<in> set ss \<Longrightarrow> lan_ip_typed (sh_lan_ip s)"
  shows "res_inv (st\<lparr>rst_shields := ss\<rparr>)"
proof -
  have "row_typed (st\<lparr>rst_shields := ss\<rparr>) x = row_typed st x" for x by (rule row_typed_cong) (simp_all add: assms)
  moreover have "map sh_id ss = map sh_id (rst_shields st)"
    using arg_cong [OF assms(2), of "map fst"] by (simp add: comp_def)
  moreover have "rules_bound (st\<lparr>rst_shields := ss\<rparr>)"
    using res_inv_rules [OF inv] by (simp add: rules_bound_def res_keys_def)
  ultimately show ?thesis using assms(3) res_invD [OF inv] by (intro res_invI) simp_all
qed

section \<open>Every function of the store\<close>

lemma GetByID_pure: "(GetByID fails t i st', st') = (x, st'') \<Longrightarrow> st'' = st'" by simp

lemma insert_row_inv:
  assumes inv: "res_inv st" and h: "NormalizeHost h0 = Inr (host, kind)"
    and tcp: "kind = HostName \<longrightarrow> ci_Protocol input = ''tcp''"
    and nc: "kind = HostName \<longrightarrow> \<not> name_clash st t host (Some n) None (ci_PortFrom input) (ci_PortTo input)"
    and ins: "insert_row now newid t n shieldArg host input st = Inr st'"
  shows "res_inv st'"
proof -
  from ins obtain r where r: "st' = st\<lparr>rst_resources := rst_resources st @ [r]\<rparr>" "row_allowed st r"
      "newid \<notin> rs_id ` set (rst_resources st)" "rs_id r = newid" "rs_host r = host" "rs_tenant_id r = t"
      "rs_protocol r = ci_Protocol input" "rs_remote_network_id r = n"
      "int (rs_port_from r) = ci_PortFrom input" "int (rs_port_to r) = ci_PortTo input"
    by (auto simp: insert_row_def Let_def port_ok_def split: option.splits if_splits)
  have kind: "IsNameHost host \<longleftrightarrow> kind = HostName" using NormalizeHost_kind [OF h] .
  have typed: "row_typed (st\<lparr>rst_resources := rst_resources st @ [r]\<rparr>) x = row_typed st x" for x
    by (rule row_typed_cong) simp_all
  have "row_typed st r"
    using r kind tcp canonical_host_normal [OF h] by (simp add: row_typed_def row_allowed_def)
  moreover have c: "row_compat r x" if "x \<in> set (rst_resources st)" for x
  proof -
    have "rs_id x \<noteq> rs_id r" using r(3,4) that by (metis imageI)
    then have "\<not> same_slot r x" using r(2) that by (auto simp: row_allowed_def list_ex_iff)
    moreover have "\<not> name_conflict r x"
    proof
      assume nm: "name_conflict r x"
      then have "kind = HostName" using r kind by (simp add: name_conflict_def)
      with nm nc r that show False
        by (auto simp: name_conflict_def name_clash_def ports_overlap_def list_ex_iff)
    qed
    ultimately show ?thesis by (simp add: row_compat_def)
  qed
  moreover have "rules_bound st'"
    by (rule rules_bound_mono [OF res_inv_rules [OF inv]]) (auto simp: r(1) res_keys_def)
  ultimately show ?thesis
    using r(1,3,4) res_invD [OF inv] compat_sym [OF c] by (intro res_invI) (auto simp: typed)
qed

lemma Create_inv:
  assumes inv: "res_inv st" and "Create fails now newid t input st = (x, st')"
  shows "res_inv st'"
proof (cases "st' = st")
  case False
  with assms(2) obtain host kind n sa where
      "NormalizeHost (ci_Host input) = Inr (host, kind)" "kind = HostName \<longrightarrow> ci_Protocol input = ''tcp''"
      "kind = HostName \<longrightarrow> \<not> name_clash st t host (Some n) None (ci_PortFrom input) (ci_PortTo input)"
      "insert_row now newid t n sa host input st = Inr st'"
    by (auto simp: Create_def Let_def checkNameCollision_def split: sum.splits prod.splits option.splits if_splits)
  then show ?thesis using insert_row_inv [OF inv] by blast
qed (use inv in simp)

lemma normalize_update_host:
  assumes "normalize_update input0 = Inr input" and "ui_Host input = Some h"
  shows "canonical_host h"
  using assms canonical_host_normal by (auto simp: normalize_update_def split: option.splits sum.splits)

text \<open>What a planned update leaves of the row, and what it was checked against.\<close>

lemma plan_updateE:
  assumes "plan_update fails now t i input r st = Inr (r', moved)"
  obtains n where "new_network fails t input r st = Inr n"
    "update_refused fails t i input r st = None"
    "r' = updated_row now input (case ui_Host input of None \<Rightarrow> rs_host r | Some h \<Rightarrow> TrimSpace h) n moved r"
  using assms by (auto simp: plan_update_def Let_def split: option.splits)

lemma updated_row_sel:
  "rs_id (updated_row now input h n moved r) = rs_id r"
  "rs_tenant_id (updated_row now input h n moved r) = rs_tenant_id r"
  "rs_host (updated_row now input h n moved r) = h"
  "rs_name (updated_row now input h n moved r) = or_else (ui_Name input) (rs_name r)"
  "rs_protocol (updated_row now input h n moved r) = or_else (ui_Protocol input) (rs_protocol r)"
  "rs_remote_network_id (updated_row now input h n moved r) = n"
  "rs_port_from (updated_row now input h n moved r) = nat (or_else (ui_PortFrom input) (int (rs_port_from r)))"
  "rs_port_to (updated_row now input h n moved r) = nat (or_else (ui_PortTo input) (int (rs_port_to r)))"
  "rs_policy_id (updated_row now input h n moved r) = rs_policy_id r"
  by (simp_all add: updated_row_def Let_def)

lemma update_ports_int:
  assumes "update_ports_ok input"
  shows "int (nat (or_else (ui_PortFrom input) (int a))) = or_else (ui_PortFrom input) (int a)"
    and "int (nat (or_else (ui_PortTo input) (int b))) = or_else (ui_PortTo input) (int b)"
  using assms by (auto simp: update_ports_ok_def or_else_def port_ok_def split: option.splits)

lemma update_refused_None:
  assumes "update_refused fails t i input r st = None" and "IsNameHost (or_else (ui_Host input) (rs_host r))"
  shows "or_else (ui_Protocol input) (rs_protocol r) = ''tcp''"
    and "\<not> name_clash st t (or_else (ui_Host input) (rs_host r))
           (or_else (ui_RemoteNetworkID input) (Some (rs_remote_network_id r))) (Some i)
           (or_else (ui_PortFrom input) (int (rs_port_from r))) (or_else (ui_PortTo input) (int (rs_port_to r)))"
  using assms by (auto simp: update_refused_def Let_def checkNameCollision_def split: if_splits)

lemma new_network_Inr:
  "new_network fails t input r st = Inr n \<Longrightarrow>
   or_else (ui_RemoteNetworkID input) (Some (rs_remote_network_id r)) = Some n"
  by (auto simp: new_network_def or_else_def split: option.splits if_splits)

lemma planned_row_inv:
  assumes inv: "res_inv st" and norm: "normalize_update input0 = Inr input"
    and f: "find_resource st t i = Some r"
    and p: "plan_update fails now t i input r st = Inr (r', moved)"
    and ports: "update_ports_ok input" and a: "row_allowed st r'"
  shows "res_inv (put_resource t i (\<lambda>_. r') st)"
proof -
  have r: "r \<in> set (rst_resources st)" "rs_id r = i" "rs_tenant_id r = t" using find_resource_Some [OF f] by auto
  let ?h = "or_else (ui_Host input) (rs_host r)"
  obtain n where n: "new_network fails t input r st = Inr n" and u: "update_refused fails t i input r st = None"
    and r': "r' = updated_row now input (case ui_Host input of None \<Rightarrow> rs_host r | Some h \<Rightarrow> TrimSpace h) n moved r"
    by (rule plan_updateE [OF p])
  have can: "canonical_host ?h"
    using normalize_update_host [OF norm] res_inv_typed [OF inv r(1)]
    by (auto simp: or_else_def row_typed_def split: option.splits)
  have h: "rs_host r' = ?h"
    using can by (auto simp: r' updated_row_sel or_else_def TrimSpace_canonical split: option.splits)
  have keys: "rs_id r' = i" "rs_tenant_id r' = t" "rs_remote_network_id r' = n"
      "rs_protocol r' = or_else (ui_Protocol input) (rs_protocol r)"
    using r by (simp_all add: r' updated_row_sel)
  have pf: "int (rs_port_from r') = or_else (ui_PortFrom input) (int (rs_port_from r))"
      "int (rs_port_to r') = or_else (ui_PortTo input) (int (rs_port_to r))"
    using update_ports_int [OF ports] by (simp_all add: r' updated_row_sel del: of_nat_nat int_nat_eq nat_int)
  show ?thesis
  proof (rule res_inv_put [OF inv f keys(1,2)])
    show "row_typed st r'"
      using a can update_refused_None(1) [OF u] by (simp add: row_typed_def row_allowed_def h keys)
    show "row_compat r' x" if x: "x \<in> set (rst_resources st)" "rs_id x \<noteq> i" for x
    proof -
      have "\<not> same_slot r' x" using a x keys(1) by (auto simp: row_allowed_def list_ex_iff)
      moreover have "\<not> name_conflict r' x"
      proof
        assume nm: "name_conflict r' x"
        then have "IsNameHost ?h" by (simp add: name_conflict_def h)
        from update_refused_None(2) [OF u this] nm x show False
          unfolding new_network_Inr [OF n] pf [symmetric] h [symmetric] name_clash_def name_conflict_def ports_overlap_def
          by (auto simp: list_ex_iff keys)
      qed
      ultimately show ?thesis by (simp add: row_compat_def)
    qed
  qed
qed

lemma Update_changed:
  assumes "Update fails now t i input0 st = (x, st')" and "st' \<noteq> st"
  obtains rid input r r' moved where "i = Some rid" "normalize_update input0 = Inr input"
    "find_resource st t rid = Some r" "plan_update fails now t rid input r st = Inr (r', moved)"
    "update_ports_ok input" "row_allowed st r'" "st' = put_resource t rid (\<lambda>_. r') st"
  using assms by (auto simp: Update_def Let_def split: sum.splits prod.splits option.splits if_splits)

lemma Update_inv:
  assumes inv: "res_inv st" and u: "Update fails now t i input0 st = (x, st')"
  shows "res_inv st'"
proof (cases "st' = st")
  case False
  with u obtain rid input r r' moved where "normalize_update input0 = Inr input"
      "find_resource st t rid = Some r" "plan_update fails now t rid input r st = Inr (r', moved)"
      "update_ports_ok input" "row_allowed st r'" "st' = put_resource t rid (\<lambda>_. r') st"
    by (rule Update_changed)
  then show ?thesis using planned_row_inv [OF inv] by blast
qed (use inv in simp)

lemma protect_candidate_Some:
  assumes "protect_candidate r chosen st = Some s"
  shows "s \<in> set (rst_shields st) \<and> protect_fits r chosen s"
  using assms by (auto simp: protect_candidate_def split: if_splits option.splits dest: select_one_Some)

lemma MarkProtecting_inv:
  assumes inv: "res_inv st" and m: "MarkProtecting fails now t i shieldID st = (x, st')"
  shows "res_inv st'"
proof (cases "st' = st")
  case False
  with m obtain rid r s where f: "find_resource st t rid = Some r"
      and c: "protect_candidate r (or_else shieldID None) st = Some s"
      and st': "st' = put_resource t rid (\<lambda>r. r\<lparr>rs_shield_id := Some (sh_id s), rs_status := ''protecting'',
        rs_pending_action := ''apply'', rs_error_message := None, rs_updated_at := now\<rparr>) st"
    by (auto simp: MarkProtecting_def Let_def split: option.splits if_splits bind_splits)
  have "owns_shield st t (Some (sh_id s))"
    using protect_candidate_Some [OF c] find_resource_Some [OF f]
    by (auto simp: owns_shield_def protect_fits_def list_ex_iff)
  then show ?thesis unfolding st'
    by (intro res_inv_put_same [OF inv f]) (simp_all add: same_rule_def resource_statuses_def)
qed (use inv in simp)

lemma row_transition_inv:
  assumes inv: "res_inv st" and m: "row_transition fails e t i P f st = (x, st')"
    and k: "\<And>r. same_rule r (f r)" "\<And>r. rs_shield_id (f r) = rs_shield_id r"
    and s: "\<And>r. rs_status (f r) \<in> set resource_statuses" "\<And>r. rs_pending_action (f r) \<in> {''apply'', ''remove''}"
  shows "res_inv st'"
proof (cases "st' = st")
  case False
  with m obtain rid r where f: "find_resource st t rid = Some r" and st': "st' = put_resource t rid f st"
    by (auto simp: row_transition_def Let_def split: option.splits if_splits)
  have "owns_shield st t (rs_shield_id r)"
    using res_inv_typed [OF inv, of r] find_resource_Some [OF f] by (auto simp: row_typed_def)
  then show ?thesis unfolding st' by (intro res_inv_put_same [OF inv f]) (simp_all add: k s del: insert_iff)
qed (use inv in simp)

lemma MarkUnprotecting_inv: "res_inv st \<Longrightarrow> MarkUnprotecting fails now t i st = (x, st') \<Longrightarrow> res_inv st'"
  unfolding MarkUnprotecting_def by (erule row_transition_inv, assumption) (simp_all add: same_rule_def resource_statuses_def)

lemma MarkDeleting_inv: "res_inv st \<Longrightarrow> MarkDeleting fails now t i st = (x, st') \<Longrightarrow> res_inv st'"
  unfolding MarkDeleting_def by (erule row_transition_inv, assumption) (simp_all add: same_rule_def resource_statuses_def)

lemma DeleteRow_inv: "res_inv st \<Longrightarrow> DeleteRow fails t i st = (x, st') \<Longrightarrow> res_inv st'"
  by (auto simp: DeleteRow_def res_inv_delete_one split: if_splits prod.splits sum.splits)

lemma DeleteIfShieldGone_inv: "res_inv st \<Longrightarrow> DeleteIfShieldGone fails t i st = (x, st') \<Longrightarrow> res_inv st'"
  unfolding DeleteIfShieldGone_def by (rule res_inv_delete_one)

lemma ForceDeleteRow_inv: "res_inv st \<Longrightarrow> ForceDeleteRow fails t i st = (x, st') \<Longrightarrow> res_inv st'"
  unfolding ForceDeleteRow_def by (rule res_inv_delete_one)

lemma ReapTombstone_inv: "res_inv st \<Longrightarrow> ReapTombstone fails t s i st = (x, st') \<Longrightarrow> res_inv st'"
  unfolding ReapTombstone_def by (rule res_inv_delete_one)

lemma ReapStaleTombstones_inv: "res_inv st \<Longrightarrow> ReapStaleTombstones fails now d st = (x, st') \<Longrightarrow> res_inv st'"
  by (auto simp: ReapStaleTombstones_def res_inv_delete split: if_splits)

lemma ack_update_inv:
  assumes inv: "res_inv st" and m: "ack_update fails now t rid ack st = (x, st')"
  shows "res_inv st'"
proof (cases "st' = st")
  case False
  with m obtain r where f: "find_resource st t rid = Some r" and "ak_Status ack \<in> set resource_statuses"
      and st': "st' = put_resource t rid (acked_row now ack) st"
    by (auto simp: ack_update_def split: option.splits if_splits)
  moreover have "row_typed st r" "rs_tenant_id r = t" using res_inv_typed [OF inv] find_resource_Some [OF f] by auto
  ultimately show ?thesis unfolding st'
    by (intro res_inv_put_same [OF inv f]) (simp_all add: acked_row_def same_rule_def row_typed_def row_checks_def)
qed (use inv in simp)

lemma RecordAck_inv: "res_inv st \<Longrightarrow> RecordAck fails now t ack st = (x, st') \<Longrightarrow> res_inv st'"
  by (auto simp: RecordAck_def split: option.splits if_splits prod.splits sum.splits
      dest: res_inv_delete_one ack_update_inv)

lemma BuildShieldSnapshot_changed:
  assumes "BuildShieldSnapshot utext sha fails s st = (x, st')" and "st' \<noteq> st"
  obtains f where "st' = st\<lparr>rst_shields := update_where (\<lambda>y. sh_id y = s) f (rst_shields st)\<rparr>"
    "\<And>y. sh_id (f y) = sh_id y" "\<And>y. sh_tenant_id (f y) = sh_tenant_id y" "\<And>y. sh_lan_ip (f y) = sh_lan_ip y"
    "\<And>y. shield_row.truncate (f y) = shield_row.truncate y"
proof (rule that)
  from assms show "st' = st\<lparr>rst_shields := update_where (\<lambda>y. sh_id y = s)
      (\<lambda>y. y\<lparr>sh_snapshot_generation := sh_snapshot_generation (the (find_shield st (Some s))) + 1,
         sh_snapshot_fingerprint := fingerprintDesired utext sha (desired_rows s st)\<rparr>) (rst_shields st)\<rparr>"
    by (auto simp: BuildShieldSnapshot_def Let_def split: option.splits if_splits)
qed (simp_all add: shield_row.truncate_def)

lemma BuildShieldSnapshot_inv:
  assumes inv: "res_inv st" and b: "BuildShieldSnapshot utext sha fails s st = (x, st')"
  shows "res_inv st'"
proof (cases "st' = st")
  case False
  show ?thesis
  proof (rule BuildShieldSnapshot_changed [OF b False])
    fix f
    assume st': "st' = st\<lparr>rst_shields := update_where (\<lambda>y. sh_id y = s) f (rst_shields st)\<rparr>"
      and k: "\<And>y. sh_id (f y) = sh_id y" "\<And>y. sh_tenant_id (f y) = sh_tenant_id y" "\<And>y. sh_lan_ip (f y) = sh_lan_ip y"
    show ?thesis unfolding st'
      by (rule res_inv_shields [OF inv]) (auto simp: row_simps k res_inv_lan [OF inv])
  qed
qed (use inv in simp)

section \<open>Shield reports\<close>

text \<open>
  The reported address becomes the host of resources as it is. The invariant needs it to be what
  \<open>detect_lan_ip\<close> of the shield produces on an IPv4 network: empty, or an address in canonical form.
\<close>

definition report_typed :: "shield_report \<Rightarrow> bool" where
  "report_typed rep \<longleftrightarrow> hb_LanIP rep = [] \<or> canonical_host (hb_LanIP rep) \<and> \<not> IsNameHost (hb_LanIP rep)"

lemma report_typed_lan: "report_typed rep \<Longrightarrow> lan_ip_typed (NULLIF_empty (hb_LanIP rep))"
  by (auto simp: report_typed_def lan_ip_typed_def NULLIF_empty_def)

lemma slots_distinctD:
  assumes "slots_distinct rows" and "x \<in> set rows" and "y \<in> set rows" and "same_slot x y"
  shows "x = y"
  using assms(1) unfolding slots_distinct_def
  by (rule distinct_key_eq) (use assms in \<open>simp_all add: same_slot_def\<close>)

lemma row_typed_host:
  "row_typed st r \<Longrightarrow> canonical_host ip \<Longrightarrow> \<not> IsNameHost ip \<Longrightarrow> row_typed st (r\<lparr>rs_host := ip\<rparr>)"
  by (simp add: row_typed_def row_checks_def)

lemma synced_rows_inv:
  assumes inv: "res_inv st" and t: "canonical_host ip" "\<not> IsNameHost ip"
    and P: "\<And>r. r \<in> set (rst_resources st) \<Longrightarrow> P r \<Longrightarrow> \<not> IsNameHost (rs_host r)"
    and d: "slots_distinct (update_where P (\<lambda>r. r\<lparr>rs_host := ip\<rparr>) (rst_resources st))"
  shows "res_inv (st\<lparr>rst_resources := update_where P (\<lambda>r. r\<lparr>rs_host := ip\<rparr>) (rst_resources st)\<rparr>)"
proof -
  let ?rows = "update_where P (\<lambda>r. r\<lparr>rs_host := ip\<rparr>) (rst_resources st)"
  let ?st = "st\<lparr>rst_resources := ?rows\<rparr>"
  have typed: "row_typed ?st x = row_typed st x" for x by (rule row_typed_cong) simp_all
  have ids: "map rs_id ?rows = map rs_id (rst_resources st)" by (simp add: row_simps)
  have old: "\<exists>q\<in>set (rst_resources st). rs_id x = rs_id q \<and> (x = q \<or> P q \<and> x = q\<lparr>rs_host := ip\<rparr>)"
    if "x \<in> set ?rows" for x using that by (auto simp: row_simps)
  show ?thesis
  proof (rule res_invI)
    show "row_typed ?st x" if "x \<in> set (rst_resources ?st)" for x
      unfolding typed using old [of x] that res_inv_typed [OF inv] row_typed_host [OF _ t] by auto
    show "row_compat x y" if xy: "x \<in> set (rst_resources ?st)" "y \<in> set (rst_resources ?st)" "rs_id x \<noteq> rs_id y" for x y
    proof -
      have "\<not> same_slot x y"
        using slots_distinctD [OF d, of x y] xy by auto
      moreover have "\<not> name_conflict x y"
      proof
        assume nm: "name_conflict x y"
        then have "IsNameHost (rs_host x)" "IsNameHost (rs_host y)" by (simp_all add: name_conflict_def)
        then have "x \<in> set (rst_resources st)" "y \<in> set (rst_resources st)"
          using old [of x] old [of y] xy t(2) by auto
        with nm xy show False using res_inv_compat [OF inv] by (auto simp: row_compat_def)
      qed
      ultimately show ?thesis by (simp add: row_compat_def)
    qed
    show "rules_bound ?st"
    proof (rule rules_bound_mono [OF res_inv_rules [OF inv]])
      have "res_keys ?st = res_keys st" by (intro res_keys_map) (simp add: row_simps)
      then show "res_keys st \<subseteq> res_keys ?st" by simp
    qed simp
  qed (use ids res_invD [OF inv] in simp_all)
qed

lemma UpdateShieldHealth_inv:
  assumes inv: "res_inv st" and u: "UpdateShieldHealth fails now c rep st = (x, st')" and t: "report_typed rep"
  shows "res_inv st'"
proof (cases "st' = st")
  case False
  let ?ss = "\<lambda>sid. update_where (\<lambda>x. sh_id x = sid) (reported_shield now c rep) (rst_shields st)"
  from u False obtain sid s where s: "find_shield st (Some sid) = Some s"
      "slots_distinct (update_where (synced_host s (hb_LanIP rep)) (\<lambda>r. r\<lparr>rs_host := hb_LanIP rep\<rparr>) (rst_resources st))"
      "st' = st\<lparr>rst_shields := ?ss sid,
         rst_resources := update_where (synced_host s (hb_LanIP rep)) (\<lambda>r. r\<lparr>rs_host := hb_LanIP rep\<rparr>) (rst_resources st)\<rparr>"
    by (auto simp: UpdateShieldHealth_def Let_def split: option.splits if_splits)
  have lan: "lan_ip_typed (sh_lan_ip s)"
    using s(1) res_inv_lan [OF inv] by (auto simp: find_shield_def dest: select_one_Some)
  have i1: "res_inv (st\<lparr>rst_shields := ?ss sid\<rparr>)"
  proof (rule res_inv_shields [OF inv])
    show "map (\<lambda>s. (sh_id s, sh_tenant_id s)) (?ss sid) = map (\<lambda>s. (sh_id s, sh_tenant_id s)) (rst_shields st)"
      by (simp add: row_simps reported_shield_def)
    show "lan_ip_typed (sh_lan_ip y)" if "y \<in> set (?ss sid)" for y
      using that report_typed_lan [OF t] res_inv_lan [OF inv] by (auto simp: row_simps reported_shield_def)
  qed
  show ?thesis
  proof (cases "hb_LanIP rep = []")
    case True
    then have "update_where (synced_host s (hb_LanIP rep)) (\<lambda>r. r\<lparr>rs_host := hb_LanIP rep\<rparr>) (rst_resources st) = rst_resources st"
      by (simp add: update_where_def synced_host_def)
    with i1 s(3) show ?thesis by simp
  next
    case False
    with t have ip: "canonical_host (hb_LanIP rep)" "\<not> IsNameHost (hb_LanIP rep)" by (auto simp: report_typed_def)
    have P: "\<not> IsNameHost (rs_host r)" if "synced_host s (hb_LanIP rep) r" for r
      using that lan by (auto simp: synced_host_def lan_ip_typed_def split: option.splits)
    show ?thesis
      using synced_rows_inv [OF i1 ip, of "synced_host s (hb_LanIP rep)"] P s by simp
  qed
qed (use inv in simp)

lemma markDisconnected_inv:
  assumes inv: "res_inv st" and m: "markDisconnected fails now d st = (x, st')"
  shows "res_inv st'"
proof (cases "st' = st")
  case False
  with m obtain P where st': "st' = st\<lparr>rst_shields := update_where P
      (\<lambda>s. s\<lparr>sh_status := ''disconnected'', sh_updated_at := now\<rparr>) (rst_shields st)\<rparr>"
    by (auto simp: markDisconnected_def Let_def split: if_splits)
  show ?thesis unfolding st'
    by (rule res_inv_shields [OF inv]) (auto simp: row_simps res_inv_lan [OF inv])
qed (use inv in simp)

section \<open>Every caller\<close>

lemma send_snapshot_inv: "res_inv st \<Longrightarrow> send_snapshot env c s st = (es, st') \<Longrightarrow> res_inv st'"
  by (auto simp: send_snapshot_def split: prod.splits sum.splits dest: BuildShieldSnapshot_inv)

lemma PushSnapshotForShield_inv: "res_inv st \<Longrightarrow> PushSnapshotForShield env c s st = (es, st') \<Longrightarrow> res_inv st'"
  by (auto simp: PushSnapshotForShield_def split: option.splits if_splits dest: send_snapshot_inv)

lemma push_snapshots_inv: "res_inv st \<Longrightarrow> push_snapshots env ps st = (es, st') \<Longrightarrow> res_inv st'"
  by (induction env ps st arbitrary: es rule: push_snapshots.induct)
    (auto simp: Let_def split: prod.splits dest: PushSnapshotForShield_inv)

lemma CreateResource_inv: "res_inv st \<Longrightarrow> CreateResource env t input st = (x, es, st') \<Longrightarrow> res_inv st'"
  by (auto simp: CreateResource_def split: prod.splits sum.splits dest: Create_inv)

lemma UpdateResource_inv: "res_inv st \<Longrightarrow> UpdateResource env t i input st = (x, es, st') \<Longrightarrow> res_inv st'"
  by (auto simp: UpdateResource_def Let_def split: prod.splits sum.splits if_splits
      dest!: push_snapshots_inv [rotated] dest: Update_inv)

lemma ProtectResource_inv: "res_inv st \<Longrightarrow> ProtectResource env t i s st = (x, es, st') \<Longrightarrow> res_inv st'"
  by (auto simp: ProtectResource_def Let_def split: prod.splits sum.splits if_splits
      dest!: PushSnapshotForShield_inv [rotated] dest: MarkProtecting_inv)

lemma UnprotectResource_inv: "res_inv st \<Longrightarrow> UnprotectResource env t i st = (x, es, st') \<Longrightarrow> res_inv st'"
  by (auto simp: UnprotectResource_def Let_def split: prod.splits sum.splits if_splits
      dest!: PushSnapshotForShield_inv [rotated] dest: MarkUnprotecting_inv)

lemma delete_by_status_inv: "res_inv st \<Longrightarrow> delete_by_status env t i row st = (x, es, st') \<Longrightarrow> res_inv st'"
  by (auto simp: delete_by_status_def Let_def split: prod.splits sum.splits if_splits option.splits
      dest!: PushSnapshotForShield_inv [rotated] dest: MarkDeleting_inv DeleteRow_inv)

lemma DeleteResource_inv: "res_inv st \<Longrightarrow> DeleteResource env t i st = (x, es, st') \<Longrightarrow> res_inv st'"
  by (auto simp: DeleteResource_def split: prod.splits sum.splits if_splits
      dest: delete_by_status_inv [rotated] DeleteIfShieldGone_inv)

lemma ForceDeleteResource_inv: "res_inv st \<Longrightarrow> ForceDeleteResource env t i st = (x, es, st') \<Longrightarrow> res_inv st'"
  by (auto simp: ForceDeleteResource_def Let_def split: prod.splits sum.splits if_splits
      dest!: PushSnapshotForShield_inv [rotated] dest: ForceDeleteRow_inv)

lemma record_acks_inv: "res_inv st \<Longrightarrow> record_acks t acks st = (b, st') \<Longrightarrow> res_inv st'"
  by (induction t acks st arbitrary: b rule: record_acks.induct)
    (auto simp: Let_def split: prod.splits sum.splits dest: RecordAck_inv)

lemma on_reaped_inv: "res_inv st \<Longrightarrow> on_reaped env ts st = (es, st') \<Longrightarrow> res_inv st'"
  by (induction env ts st arbitrary: es rule: on_reaped.induct)
    (auto simp: Let_def split: prod.splits dest: PushSnapshotForShield_inv)

lemma sweep_tombstones_inv: "res_inv st \<Longrightarrow> sweep_tombstones env st = (x, es, st') \<Longrightarrow> res_inv st'"
  by (auto simp: sweep_tombstones_def Let_def split: prod.splits sum.splits
      dest: ReapStaleTombstones_inv on_reaped_inv [rotated])

lemma shield_reports_inv:
  "res_inv st \<Longrightarrow> \<forall>p\<in>set reps. report_typed (snd p) \<Longrightarrow> shield_reports c reps st = (b, es, st') \<Longrightarrow> res_inv st'"
proof (induction c reps st arbitrary: b es rule: shield_reports.induct)
  case (2 c env rep reps st)
  obtain x st1 where u: "UpdateShieldHealth (re_fails env) (re_now env) c rep st = (x, st1)" by force
  then have i1: "res_inv st1" using UpdateShieldHealth_inv [OF 2(3) u] 2(4) by simp
  show ?case
  proof (cases x)
    case (Inl e)
    with 2(1) [OF u [symmetric] Inl i1] 2(4,5) u show ?thesis by simp
  next
    case (Inr p)
    obtain cc lc where p: "p = (cc, lc)" by force
    let ?q = "if lc then PushSnapshotForShield env (Some c) (hb_ShieldID rep) st1 else ([], st1)"
    obtain ps st2 where q: "?q = (ps, st2)" by force
    then have i2: "res_inv st2" using i1 by (auto split: if_splits dest: PushSnapshotForShield_inv)
    obtain b2 es2 st3 where r: "shield_reports c reps st2 = (b2, es2, st3)" by (cases "shield_reports c reps st2") auto
    from 2(5) u Inr p q r have "st' = st3" by (auto simp: Let_def)
    with 2(2) [OF u [symmetric] Inr p [symmetric] refl refl q [symmetric] i2] 2(4) r show ?thesis by simp
  qed
qed simp

lemma reap_all_inv: "res_inv st \<Longrightarrow> reap_all env t s is st = (b, st') \<Longrightarrow> res_inv st'"
  by (induction env t s "is" st arbitrary: b rule: reap_all.induct)
    (auto simp: Let_def split: prod.splits dest: ReapTombstone_inv)

lemma reconcileShield_inv:
  "res_inv st \<Longrightarrow> reconcileShield env t c rep (rc, st) = (es, rc', st') \<Longrightarrow> res_inv st'"
  by (auto simp: reconcileShield_def Let_def split: prod.splits sum.splits if_splits
      dest!: reap_all_inv [rotated] dest: send_snapshot_inv)

lemma handleResourceState_inv:
  "res_inv (snd s) \<Longrightarrow> handleResourceState t c reps s = (es, s') \<Longrightarrow> res_inv (snd s')"
proof (induction t c reps s arbitrary: es rule: handleResourceState.induct)
  case (2 t c env rep reps s)
  obtain rc st where s: "s = (rc, st)" by force
  show ?case
  proof (cases "re_fails env SShield \<or> \<not> list_ex (\<lambda>x. sh_id x = sr_ShieldID rep \<and> sh_connector_id x = Some c \<and> sh_tenant_id x = t) (rst_shields (snd s))")
    case True
    with 2(1) [OF True] 2(3,4) show ?thesis by simp
  next
    case False
    obtain es1 rc1 st1 where r: "reconcileShield env t c rep s = (es1, rc1, st1)"
      by (cases "reconcileShield env t c rep s") auto
    then have "res_inv st1" using 2(3) reconcileShield_inv s by auto
    with 2(2) [OF False r [symmetric] refl] 2(4) False r show ?thesis by (auto split: prod.splits)
  qed
qed simp

end
