(* ===== verification/Res_Machine.thy ===== *)
theory Res_Machine
  imports Res_Invariant
begin

text \<open>
  The resource part of the controller as one transition system: the requests and messages it handles,
  the changes the other components make to the tables they own, and the invariant of every
  reachable state.
\<close>

section \<open>Requests and messages\<close>

datatype res_request =
    QCreate res_env uuid create_input
  | QUpdate res_env uuid "uuid option" update_input
  | QProtect res_env uuid "uuid option" "uuid option option"
  | QUnprotect res_env uuid "uuid option"
  | QDelete res_env uuid "uuid option"
  | QForceDelete res_env uuid "uuid option"
  | QAcks uuid "(res_env \<times> shield_ack) list"
  | QSweep res_env
  | QStatus uuid uuid "(res_env \<times> shield_report) list"
  | QDisconnect res_env duration
  | QState uuid uuid "(res_env \<times> state_report) list"
  | QPush res_env "uuid option" "uuid option"

type_synonym res_state = "reconcile_state \<times> rstore"

fun handle :: "res_request \<Rightarrow> res_state \<Rightarrow> res_effect list \<times> res_state" where
  "handle (QCreate env t input) (rc, st) = (case CreateResource env t input st of (_, es, st') \<Rightarrow> (es, rc, st'))"
| "handle (QUpdate env t i input) (rc, st) = (case UpdateResource env t i input st of (_, es, st') \<Rightarrow> (es, rc, st'))"
| "handle (QProtect env t i s) (rc, st) = (case ProtectResource env t i s st of (_, es, st') \<Rightarrow> (es, rc, st'))"
| "handle (QUnprotect env t i) (rc, st) = (case UnprotectResource env t i st of (_, es, st') \<Rightarrow> (es, rc, st'))"
| "handle (QDelete env t i) (rc, st) = (case DeleteResource env t i st of (_, es, st') \<Rightarrow> (es, rc, st'))"
| "handle (QForceDelete env t i) (rc, st) = (case ForceDeleteResource env t i st of (_, es, st') \<Rightarrow> (es, rc, st'))"
| "handle (QAcks t acks) (rc, st) = (case handleResourceAcks t acks st of (_, es, st') \<Rightarrow> (es, rc, st'))"
| "handle (QSweep env) (rc, st) = (case sweep_tombstones env st of (_, es, st') \<Rightarrow> (es, rc, st'))"
| "handle (QStatus t c reps) (rc, st) = (case handleShieldStatus t c reps st of (_, es, st') \<Rightarrow> (es, rc, st'))"
| "handle (QDisconnect env d) (rc, st) = (case markDisconnected (re_fails env) (re_now env) d st of (_, st') \<Rightarrow> ([], rc, st'))"
| "handle (QState t c reps) s = handleResourceState t c reps s"
| "handle (QPush env c i) (rc, st) = (case PushSnapshotForShield env c i st of (es, st') \<Rightarrow> (es, rc, st'))"

fun request_typed :: "res_request \<Rightarrow> bool" where
  "request_typed (QStatus t c reps) \<longleftrightarrow> (\<forall>p\<in>set reps. report_typed (snd p))"
| "request_typed _ \<longleftrightarrow> True"

lemma handle_inv:
  assumes "res_inv (snd s)" and "request_typed q" and "handle q s = (es, s')"
  shows "res_inv (snd s')"
proof -
  obtain rc st where s: "s = (rc, st)" by force
  show ?thesis
  proof (cases q)
    case (QState t c reps)
    then show ?thesis using assms handleResourceState_inv by auto
  next
    case (QStatus t c reps)
    obtain b es1 st1 where "shield_reports c reps st = (b, es1, st1)" by (cases "shield_reports c reps st") auto
    with QStatus assms s show ?thesis
      using shield_reports_inv [of st reps c b es1 st1] by (auto simp: handleShieldStatus_def)
  qed (use assms s in \<open>auto split: prod.splits simp: handleResourceAcks_def Let_def
      dest: CreateResource_inv UpdateResource_inv ProtectResource_inv UnprotectResource_inv DeleteResource_inv
        ForceDeleteResource_inv record_acks_inv sweep_tombstones_inv markDisconnected_inv PushSnapshotForShield_inv\<close>)
qed

section \<open>The machine\<close>

text \<open>
  Besides requests: another component changes its own tables, as long as the networks of the
  resources stay and access rules name resources of their workspace; a shield is registered, without
  an address and a snapshot, or deleted, which clears it from its resources
  (\<open>graph/resolvers/shield.resolvers.go\<close>); enrolment, renewal or revocation changes the other columns of a
  shield (\<open>internal/shield\<close>).
\<close>

definition shield_kept :: "shield_full \<Rightarrow> shield_full \<Rightarrow> bool" where
  "shield_kept s s' \<longleftrightarrow> sh_id s' = sh_id s \<and> sh_tenant_id s' = sh_tenant_id s
     \<and> sh_remote_network_id s' = sh_remote_network_id s \<and> sh_lan_ip s' = sh_lan_ip s
     \<and> sh_snapshot_generation s' = sh_snapshot_generation s \<and> sh_snapshot_fingerprint s' = sh_snapshot_fingerprint s"

definition delete_shield :: "uuid \<Rightarrow> rstore \<Rightarrow> rstore" where
  "delete_shield i st = st\<lparr>rst_shields := filter (\<lambda>s. sh_id s \<noteq> i) (rst_shields st),
     rst_resources := update_where (\<lambda>r. rs_shield_id r = Some i) (\<lambda>r. r\<lparr>rs_shield_id := None\<rparr>) (rst_resources st)\<rparr>"

definition networks_stay :: "rstore \<Rightarrow> zdb \<Rightarrow> bool" where
  "networks_stay st db \<longleftrightarrow> (\<forall>r\<in>set (rst_resources st).
     list_ex (\<lambda>n. rn_id n = rs_remote_network_id r \<and> rn_tenant_id n = rs_tenant_id r) (db_remote_networks db))"

inductive res_step :: "res_state \<Rightarrow> res_state \<Rightarrow> bool" where
  rq_request: "request_typed q \<Longrightarrow> handle q s = (es, s') \<Longrightarrow> res_step s s'"
| rq_other: "networks_stay st db \<Longrightarrow> rules_bound (st\<lparr>rst_db := db, rst_active_workspaces := ws\<rparr>) \<Longrightarrow>
    res_step (rc, st) (rc, st\<lparr>rst_db := db, rst_active_workspaces := ws\<rparr>)"
| rq_register: "sh_id s \<notin> sh_id ` set (rst_shields st) \<Longrightarrow> sh_lan_ip s = None \<Longrightarrow>
    sh_snapshot_generation s = 0 \<Longrightarrow> sh_snapshot_fingerprint s = [] \<Longrightarrow>
    res_step (rc, st) (rc, st\<lparr>rst_shields := rst_shields st @ [s]\<rparr>)"
| rq_shield: "(\<And>s. shield_kept s (f s)) \<Longrightarrow>
    res_step (rc, st) (rc, st\<lparr>rst_shields := update_where (\<lambda>s. sh_id s = i) f (rst_shields st)\<rparr>)"
| rq_unregister: "res_step (rc, st) (rc, delete_shield i st)"

definition res_init :: "res_state \<Rightarrow> bool" where
  "res_init s \<longleftrightarrow> rst_resources (snd s) = [] \<and> rst_shields (snd s) = []
     \<and> db_access_rules (rst_db (snd s)) = [] \<and> fst s = \<lparr>rc_drift = [], rc_absent = []\<rparr>"

lemma other_inv:
  assumes inv: "res_inv st" and n: "networks_stay st db"
    and b: "rules_bound (st\<lparr>rst_db := db, rst_active_workspaces := ws\<rparr>)"
  shows "res_inv (st\<lparr>rst_db := db, rst_active_workspaces := ws\<rparr>)"
proof -
  let ?st = "st\<lparr>rst_db := db, rst_active_workspaces := ws\<rparr>"
  have "row_typed ?st r" if "r \<in> set (rst_resources st)" for r
    using res_inv_typed [OF inv that] n that
    by (simp add: row_typed_def owns_network_def owns_shield_def networks_stay_def)
  then show ?thesis using b res_invD [OF inv] by (intro res_invI) simp_all
qed

lemma register_inv:
  assumes inv: "res_inv st" and s: "sh_id s \<notin> sh_id ` set (rst_shields st)" "sh_lan_ip s = None"
  shows "res_inv (st\<lparr>rst_shields := rst_shields st @ [s]\<rparr>)"
proof -
  let ?st = "st\<lparr>rst_shields := rst_shields st @ [s]\<rparr>"
  have "row_typed ?st r" if "r \<in> set (rst_resources st)" for r
    using res_inv_typed [OF inv that] by (auto simp: row_typed_def owns_network_def owns_shield_def)
  moreover have "rules_bound ?st" using res_inv_rules [OF inv] by (simp add: rules_bound_def res_keys_def)
  ultimately show ?thesis using s res_invD [OF inv] by (intro res_invI) (auto simp: lan_ip_typed_def)
qed

lemma shield_inv:
  assumes inv: "res_inv st" and k: "\<And>s. shield_kept s (f s)"
  shows "res_inv (st\<lparr>rst_shields := update_where P f (rst_shields st)\<rparr>)"
proof (rule res_inv_shields [OF inv])
  show "map (\<lambda>s. (sh_id s, sh_tenant_id s)) (update_where P f (rst_shields st)) =
      map (\<lambda>s. (sh_id s, sh_tenant_id s)) (rst_shields st)"
    using k by (simp add: row_simps shield_kept_def)
  show "lan_ip_typed (sh_lan_ip s)" if "s \<in> set (update_where P f (rst_shields st))" for s
    using that k res_inv_lan [OF inv] by (auto simp: row_simps shield_kept_def)
qed

lemma delete_shield_inv:
  assumes inv: "res_inv st"
  shows "res_inv (delete_shield i st)"
proof -
  let ?st = "delete_shield i st"
  have rows: "\<exists>q\<in>set (rst_resources st). same_rule q r \<and> rs_status r = rs_status q \<and> rs_pending_action r = rs_pending_action q
      \<and> (rs_shield_id r = None \<or> rs_shield_id r = rs_shield_id q \<and> rs_shield_id r \<noteq> Some i)"
    if "r \<in> set (rst_resources ?st)" for r
    using that by (auto simp: delete_shield_def row_simps same_rule_def)
  show ?thesis
  proof (rule res_invI)
    show "distinct (map rs_id (rst_resources ?st))"
      using res_inv_ids [OF inv] by (simp add: delete_shield_def row_simps)
    show "distinct (map sh_id (rst_shields ?st))"
      using res_inv_shield_ids [OF inv] by (simp add: delete_shield_def distinct_map_filter)
    show "row_typed ?st r" if r: "r \<in> set (rst_resources ?st)" for r
    proof -
      from rows [OF r] obtain q where q: "q \<in> set (rst_resources st)" "same_rule q r" "rs_status r = rs_status q"
        "rs_pending_action r = rs_pending_action q"
        "rs_shield_id r = None \<or> rs_shield_id r = rs_shield_id q \<and> rs_shield_id r \<noteq> Some i" by blast
      have "owns_shield ?st (rs_tenant_id r) (rs_shield_id r)"
        using q(2,5) res_inv_typed [OF inv q(1)]
        by (auto simp: row_typed_def owns_shield_def same_rule_def delete_shield_def list_ex_iff)
      then show ?thesis using q(2-4) res_inv_typed [OF inv q(1)]
        by (simp add: row_typed_def row_checks_def same_rule_def owns_network_def delete_shield_def)
    qed
    show "row_compat r x" if r: "r \<in> set (rst_resources ?st)" and x: "x \<in> set (rst_resources ?st)" and n: "rs_id r \<noteq> rs_id x" for r x
    proof -
      from rows [OF r] rows [OF x] obtain q y where q: "q \<in> set (rst_resources st)" "same_rule q r"
        and y: "y \<in> set (rst_resources st)" "same_rule y x" by blast
      then have "row_compat q y" using n res_inv_compat [OF inv q(1) y(1)] by (simp add: same_rule_def)
      then show ?thesis using q(2) y(2)
        by (simp add: row_compat_def same_slot_def name_conflict_def ports_overlap_def same_rule_def)
    qed
    show "rules_bound ?st"
    proof (rule rules_bound_mono [OF res_inv_rules [OF inv]])
      have "res_keys ?st = res_keys st" by (intro res_keys_map) (simp add: delete_shield_def row_simps)
      then show "res_keys st \<subseteq> res_keys ?st" by simp
    qed (simp add: delete_shield_def)
  qed (use res_inv_lan [OF inv] in \<open>simp add: delete_shield_def\<close>)
qed

lemma res_step_inv:
  assumes "res_inv (snd s)" and "res_step s s'"
  shows "res_inv (snd s')"
  using assms(2)
proof cases
  case (rq_request q es)
  then show ?thesis using assms(1) handle_inv by blast
qed (use assms(1) in \<open>auto intro: other_inv register_inv shield_inv delete_shield_inv\<close>)

interpretation resm: inductive_invariant res_init res_step "\<lambda>s. res_inv (snd s)"
proof unfold_locales
  show "res_inv (snd s)" if "res_init s" for s
    using that by (intro res_invI) (auto simp: res_init_def rules_bound_def)
qed (rule res_step_inv)

end
