(* ===== verification/Res_Snapshot.thy ===== *)
theory Res_Snapshot
  imports Res_Machine
begin

text \<open>
  The snapshots a shield receives. The text that is hashed determines the rows of the snapshot, the
  generation of a shield never falls, and it stays the same only while the fingerprint does.
\<close>

section \<open>The hashed text determines the rows\<close>

definition wire :: "pending_row \<Rightarrow> uuid \<times> string \<times> string \<times> nat \<times> nat" where
  "wire p = (pr_ID p, pr_Host p, pr_Protocol p, pr_PortFrom p, pr_PortTo p)"

lemma sep_eq:
  "xs @ c # ys = xs' @ c # ys' \<Longrightarrow> c \<notin> set xs \<Longrightarrow> c \<notin> set xs' \<Longrightarrow> xs = xs' \<and> ys = ys'"
proof (induction xs arbitrary: xs')
  case Nil
  then show ?case by (cases xs') auto
next
  case (Cons x xs)
  then show ?case by (cases xs') auto
qed

lemma digit_char_inj: "m < 10 \<Longrightarrow> n < 10 \<Longrightarrow> digit_char m = digit_char n \<Longrightarrow> m = n"
  using of_char_digit_char by (metis add_left_cancel)

lemma nat_to_string_inj: "nat_to_string m = nat_to_string n \<Longrightarrow> m = n"
proof (induction m arbitrary: n rule: nat_to_string.induct)
  case (1 m)
  show ?case
  proof (cases "m < 10")
    case True
    then have m: "nat_to_string m = [digit_char m]" by (simp add: nat_to_string.simps)
    have "n < 10"
    proof (rule ccontr)
      assume "\<not> n < 10"
      then have "nat_to_string n = nat_to_string (n div 10) @ [digit_char (n mod 10)]" by (simp add: nat_to_string.simps)
      with 1(2) m show False using nat_to_string_neq_Nil [of "n div 10"] by (metis append_is_Nil_conv butlast.simps(2) butlast_snoc)
    qed
    then have "nat_to_string n = [digit_char n]" by (simp add: nat_to_string.simps)
    with 1(2) m True \<open>n < 10\<close> show ?thesis by (simp add: digit_char_inj)
  next
    case False
    then have m: "nat_to_string m = nat_to_string (m div 10) @ [digit_char (m mod 10)]" by (simp add: nat_to_string.simps)
    have "\<not> n < 10"
    proof
      assume "n < 10"
      then have "nat_to_string n = [digit_char n]" by (simp add: nat_to_string.simps)
      with 1(2) m show False using nat_to_string_neq_Nil [of "m div 10"] by (metis append_is_Nil_conv butlast.simps(2) butlast_snoc)
    qed
    then have n: "nat_to_string n = nat_to_string (n div 10) @ [digit_char (n mod 10)]" by (simp add: nat_to_string.simps)
    from 1(2) m n have "nat_to_string (m div 10) = nat_to_string (n div 10)" "digit_char (m mod 10) = digit_char (n mod 10)"
      by simp_all
    then have "m div 10 = n div 10" "m mod 10 = n mod 10" using 1(1) [OF False] digit_char_inj by auto
    then show ?thesis by (metis div_mult_mod_eq)
  qed
qed

lemma Itoa_nat: "Itoa (int n) = nat_to_string n" by (simp add: Itoa_def)

lemma Itoa_digits: "c \<in> set (Itoa (int n)) \<Longrightarrow> digit_byte c"
  using nat_to_string_digits by (auto simp: Itoa_nat)

definition clean_row :: "pending_row \<Rightarrow> bool" where
  "clean_row p \<longleftrightarrow> CHR ''|'' \<notin> set (pr_Host p) \<and> CHR ''|'' \<notin> set (pr_Protocol p)"

text \<open>What the text of an identifier guarantees: it names one identifier and has no separator.\<close>

definition id_text :: "(uuid \<Rightarrow> string) \<Rightarrow> bool" where
  "id_text utext \<longleftrightarrow> inj utext \<and> (\<forall>i. CHR ''|'' \<notin> set (utext i))"

lemma fingerprint_line_sep:
  "fingerprint_line utext p @ r = utext (pr_ID p) @ CHR ''|'' # pr_Host p @ CHR ''|'' # pr_Protocol p @ CHR ''|''
     # Itoa (int (pr_PortFrom p)) @ CHR ''|'' # Itoa (int (pr_PortTo p)) @ CHR 0x0A # r"
  by (simp add: fingerprint_line_def)

lemma fingerprint_line_inj:
  assumes "fingerprint_line utext p @ r = fingerprint_line utext q @ s"
    and u: "id_text utext" and c: "clean_row p" "clean_row q"
  shows "wire p = wire q \<and> r = s"
proof -
  have d: "CHR ''|'' \<notin> set (Itoa (int n))" "CHR 0x0A \<notin> set (Itoa (int n))" for n
    using Itoa_digits [of "CHR ''|''" n] Itoa_digits [of "CHR 0x0A" n] by (auto simp: digit_byte_def)
  from assms(1) have "utext (pr_ID p) = utext (pr_ID q)" "pr_Host p = pr_Host q" "pr_Protocol p = pr_Protocol q"
      "Itoa (int (pr_PortFrom p)) = Itoa (int (pr_PortFrom q))" "Itoa (int (pr_PortTo p)) = Itoa (int (pr_PortTo q))" "r = s"
    unfolding fingerprint_line_sep using u c d by (auto simp: id_text_def clean_row_def dest!: sep_eq)
  then show ?thesis using u nat_to_string_inj by (auto simp: wire_def Itoa_nat id_text_def dest: injD)
qed

lemma lines_inj:
  assumes "concat (map (fingerprint_line utext) ps) = concat (map (fingerprint_line utext) qs)"
    and u: "id_text utext" and "\<forall>p\<in>set ps. clean_row p" "\<forall>q\<in>set qs. clean_row q"
  shows "map wire ps = map wire qs"
  using assms(1,3,4)
proof (induction ps arbitrary: qs)
  case Nil
  then show ?case by (cases qs) (simp_all add: fingerprint_line_def)
next
  case (Cons p ps)
  then obtain q qs' where qs: "qs = q # qs'" by (cases qs) (auto simp: fingerprint_line_def)
  from Cons.prems have "fingerprint_line utext p @ concat (map (fingerprint_line utext) ps) =
      fingerprint_line utext q @ concat (map (fingerprint_line utext) qs')" by (simp add: qs)
  from fingerprint_line_inj [OF this u] Cons.prems qs have "wire p = wire q"
      "concat (map (fingerprint_line utext) ps) = concat (map (fingerprint_line utext) qs')" by auto
  with Cons qs show ?case by simp
qed

lemma fingerprint_text_inj:
  assumes "fingerprint_text utext ps = fingerprint_text utext qs" and "id_text utext"
    and "\<forall>p\<in>set ps. clean_row p" "\<forall>q\<in>set qs. clean_row q"
  shows "map wire (sort_key pr_ID ps) = map wire (sort_key pr_ID qs)"
  using assms lines_inj [of utext "sort_key pr_ID ps" "sort_key pr_ID qs"] by (simp add: fingerprint_text_def)

lemma canonical_host_clean: "canonical_host h \<Longrightarrow> CHR ''|'' \<notin> set h"
  using canonical_host_bytes [of h] by (auto simp: host_byte_def lower_byte_def digit_byte_def)

lemma shieldHost_clean:
  assumes inv: "res_inv st" and r: "r \<in> set (rst_resources st)"
  shows "CHR ''|'' \<notin> set (shieldHost st r)"
proof -
  have h: "CHR ''|'' \<notin> set (rs_host r)"
    using res_inv_typed [OF inv r] canonical_host_clean by (simp add: row_typed_def)
  have "CHR ''|'' \<notin> set ip" if "find_shield st (rs_shield_id r) = Some s" "sh_lan_ip s = Some ip" for s ip
    using that res_inv_lan [OF inv, of s] canonical_host_clean
    by (auto simp: find_shield_def lan_ip_typed_def dest: select_one_Some)
  with h show ?thesis by (auto simp: shieldHost_def split: option.splits)
qed

lemma desired_rows_clean:
  assumes inv: "res_inv st"
  shows "\<forall>p\<in>set (desired_rows i st). clean_row p"
proof
  fix p assume "p \<in> set (desired_rows i st)"
  then obtain r where r: "r \<in> set (rst_resources st)" "p = pending_of st r" by (auto simp: desired_rows_def)
  have "rs_protocol r \<in> {''tcp'', ''udp'', ''any''}"
    using res_inv_typed [OF inv r(1)] by (auto simp: row_typed_def row_checks_def)
  then show "clean_row p" using shieldHost_clean [OF inv r(1)] by (auto simp: r(2) clean_row_def pending_of_def)
qed

section \<open>Generations\<close>

definition shield_mark :: "rstore \<Rightarrow> uuid \<Rightarrow> (int \<times> string) option" where
  "shield_mark st i = map_option (\<lambda>s. (sh_snapshot_generation s, sh_snapshot_fingerprint s)) (find_shield st (Some i))"

text \<open>The mark of a shield that stays registered: the generation rises, or nothing changes.\<close>

definition mark_grows :: "uuid \<Rightarrow> rstore \<Rightarrow> rstore \<Rightarrow> bool" where
  "mark_grows i st st' \<longleftrightarrow> (\<forall>g f. shield_mark st i = Some (g, f) \<longrightarrow>
     (\<exists>g' f'. shield_mark st' i = Some (g', f') \<and> (g < g' \<or> g' = g \<and> f' = f)))"

lemma mark_grows_refl: "mark_grows i st st" by (simp add: mark_grows_def)

lemma mark_grows_trans:
  assumes "mark_grows i a b" and "mark_grows i b c"
  shows "mark_grows i a c"
  unfolding mark_grows_def
proof (intro allI impI)
  fix g f assume "shield_mark a i = Some (g, f)"
  with assms(1) obtain g1 f1 where "shield_mark b i = Some (g1, f1)" "g < g1 \<or> g1 = g \<and> f1 = f"
    unfolding mark_grows_def by blast
  moreover from this(1) assms(2) obtain g2 f2 where "shield_mark c i = Some (g2, f2)" "g1 < g2 \<or> g2 = g1 \<and> f2 = f1"
    unfolding mark_grows_def by blast
  ultimately show "\<exists>g' f'. shield_mark c i = Some (g', f') \<and> (g < g' \<or> g' = g \<and> f' = f)" by auto
qed

text \<open>What a request does to the marks; it registers no shield.\<close>

definition advances :: "rstore \<Rightarrow> rstore \<Rightarrow> bool" where
  "advances st st' \<longleftrightarrow> (\<forall>i. mark_grows i st st' \<and> (shield_mark st i = None \<longrightarrow> shield_mark st' i = None))"

lemma advances_refl [simp]: "advances st st" by (simp add: advances_def mark_grows_refl)

lemma advances_trans: "advances a b \<Longrightarrow> advances b c \<Longrightarrow> advances a c"
  unfolding advances_def using mark_grows_trans by blast

lemma advancesD: "advances st st' \<Longrightarrow> mark_grows i st st'" by (simp add: advances_def)

lemma advances_marks: "(\<And>i. shield_mark st' i = shield_mark st i) \<Longrightarrow> advances st st'"
  by (simp add: advances_def mark_grows_def)

lemma advances_shields: "rst_shields st' = rst_shields st \<Longrightarrow> advances st st'"
  by (rule advances_marks) (simp add: shield_mark_def find_shield_def)

lemma find_shield_Some: "find_shield st i = Some s \<Longrightarrow> s \<in> set (rst_shields st) \<and> Some (sh_id s) = i"
  unfolding find_shield_def by (drule select_one_Some) simp

lemma find_shield_update:
  assumes "rst_shields st' = update_where P f (rst_shields st)" and "\<And>s. sh_id (f s) = sh_id s"
  shows "find_shield st' i = map_option (\<lambda>s. if P s then f s else s) (find_shield st i)"
proof -
  have "select_one (\<lambda>s. Some (sh_id s) = i) (update_where P f ss) =
      map_option (\<lambda>s. if P s then f s else s) (select_one (\<lambda>s. Some (sh_id s) = i) ss)" for ss
    using assms(2) by (induction ss) (auto simp: select_one_def update_where_def)
  then show ?thesis by (simp add: find_shield_def assms(1))
qed

lemma advances_update:
  assumes "rst_shields st' = update_where P f (rst_shields st)" and "\<And>s. sh_id (f s) = sh_id s"
    and "\<And>s. sh_snapshot_generation (f s) = sh_snapshot_generation s \<and> sh_snapshot_fingerprint (f s) = sh_snapshot_fingerprint s"
  shows "advances st st'"
proof -
  have "shield_mark st' i = shield_mark st i" for i
    using assms(3) find_shield_update [OF assms(1,2)] by (cases "find_shield st (Some i)") (simp_all add: shield_mark_def)
  then show ?thesis by (rule advances_marks)
qed

lemma BuildShieldSnapshot_mark:
  assumes b: "BuildShieldSnapshot utext sha fails i st = (Inr (g, rows), st')"
  shows "rows = desired_rows i st \<and> shield_mark st' i = Some (g, fingerprintDesired utext sha rows)"
proof -
  from b obtain s where s: "find_shield st (Some i) = Some s" and rows: "rows = desired_rows i st"
    by (auto simp: BuildShieldSnapshot_def Let_def split: option.splits if_splits)
  let ?fp = "fingerprintDesired utext sha rows"
  show ?thesis
  proof (cases "?fp = sh_snapshot_fingerprint s")
    case True
    with b s rows have "st' = st" "g = sh_snapshot_generation s"
      by (auto simp: BuildShieldSnapshot_def Let_def split: if_splits)
    with s True rows show ?thesis by (simp add: shield_mark_def)
  next
    case False
    with b s rows have st': "rst_shields st' = update_where (\<lambda>x. sh_id x = i)
        (\<lambda>x. x\<lparr>sh_snapshot_generation := g, sh_snapshot_fingerprint := ?fp\<rparr>) (rst_shields st)"
      by (auto simp: BuildShieldSnapshot_def Let_def split: if_splits)
    show ?thesis using find_shield_update [OF st'] s find_shield_Some [OF s] rows by (simp add: shield_mark_def)
  qed
qed

lemma BuildShieldSnapshot_advances:
  assumes b: "BuildShieldSnapshot utext sha fails i st = (x, st')"
  shows "advances st st'"
proof (cases "st' = st")
  case False
  with b obtain s fp where s: "find_shield st (Some i) = Some s"
      and st': "rst_shields st' = update_where (\<lambda>x. sh_id x = i)
        (\<lambda>x. x\<lparr>sh_snapshot_generation := sh_snapshot_generation s + 1, sh_snapshot_fingerprint := fp\<rparr>) (rst_shields st)"
    by (auto simp: BuildShieldSnapshot_def Let_def split: option.splits if_splits)
  have new: "shield_mark st' j = None" if "shield_mark st j = None" for j
    using that find_shield_update [OF st'] by (simp add: shield_mark_def)
  show ?thesis unfolding advances_def mark_grows_def
  proof (intro allI impI conjI new)
    fix j g f assume m: "shield_mark st j = Some (g, f)"
    show "\<exists>g' f'. shield_mark st' j = Some (g', f') \<and> (g < g' \<or> g' = g \<and> f' = f)"
    proof (cases "j = i")
      case True
      with m s have "shield_mark st' j = Some (g + 1, fp)"
        using find_shield_Some [OF s] find_shield_update [OF st'] by (auto simp: shield_mark_def)
      then show ?thesis by simp
    next
      case False
      obtain y where y: "find_shield st (Some j) = Some y" using m by (auto simp: shield_mark_def)
      have "sh_id y \<noteq> i" using find_shield_Some [OF y] False by auto
      then have "shield_mark st' j = shield_mark st j"
        using y find_shield_update [OF st'] by (simp add: shield_mark_def)
      with m show ?thesis by auto
    qed
  qed
qed simp

lemma UpdateShieldHealth_advances: "UpdateShieldHealth fails now c rep st = (x, st') \<Longrightarrow> advances st st'"
  by (auto simp: UpdateShieldHealth_def Let_def reported_shield_def split: option.splits if_splits intro!: advances_update)

lemma markDisconnected_advances: "markDisconnected fails now d st = (x, st') \<Longrightarrow> advances st st'"
  by (auto simp: markDisconnected_def Let_def split: if_splits intro!: advances_update)

text \<open>The functions that leave the shields alone.\<close>

lemma delete_one_shields: "delete_one failed t i P st = (x, st') \<Longrightarrow> rst_shields st' = rst_shields st"
  by (auto simp: delete_one_def delete_resources_def Let_def split: option.splits if_splits)

lemma put_resource_shields [simp]: "rst_shields (put_resource t i f st) = rst_shields st"
  by (simp add: put_resource_def)

lemma store_shields:
  "Create fails now newid t ci st = (x1, st') \<Longrightarrow> rst_shields st' = rst_shields st"
  "Update fails now t i ui st = (x2, st') \<Longrightarrow> rst_shields st' = rst_shields st"
  "MarkProtecting fails now t i s st = (x3, st') \<Longrightarrow> rst_shields st' = rst_shields st"
  "MarkUnprotecting fails now t i st = (x3, st') \<Longrightarrow> rst_shields st' = rst_shields st"
  "MarkDeleting fails now t i st = (x3, st') \<Longrightarrow> rst_shields st' = rst_shields st"
  "DeleteRow fails t i st = (x4, st') \<Longrightarrow> rst_shields st' = rst_shields st"
  "DeleteIfShieldGone fails t i st = (x5, st') \<Longrightarrow> rst_shields st' = rst_shields st"
  "ForceDeleteRow fails t i st = (x5, st') \<Longrightarrow> rst_shields st' = rst_shields st"
  "ReapTombstone fails t sid i st = (x5, st') \<Longrightarrow> rst_shields st' = rst_shields st"
  "ReapStaleTombstones fails now d st = (x6, st') \<Longrightarrow> rst_shields st' = rst_shields st"
  "RecordAck fails now t ack st = (x5, st') \<Longrightarrow> rst_shields st' = rst_shields st"
proof -
  show "Create fails now newid t ci st = (x1, st') \<Longrightarrow> rst_shields st' = rst_shields st"
    by (auto simp: Create_def insert_row_def Let_def split: sum.splits prod.splits option.splits if_splits)
  show "Update fails now t i ui st = (x2, st') \<Longrightarrow> rst_shields st' = rst_shields st"
    by (auto simp: Update_def Let_def split: sum.splits prod.splits option.splits if_splits)
  show "MarkProtecting fails now t i s st = (x3, st') \<Longrightarrow> rst_shields st' = rst_shields st"
    by (auto simp: MarkProtecting_def Let_def split: option.splits if_splits bind_splits)
  show "MarkUnprotecting fails now t i st = (x3, st') \<Longrightarrow> rst_shields st' = rst_shields st"
    "MarkDeleting fails now t i st = (x3, st') \<Longrightarrow> rst_shields st' = rst_shields st"
    by (auto simp: MarkUnprotecting_def MarkDeleting_def row_transition_def Let_def split: option.splits if_splits)
  show "DeleteRow fails t i st = (x4, st') \<Longrightarrow> rst_shields st' = rst_shields st"
    by (auto simp: DeleteRow_def delete_one_shields split: prod.splits sum.splits if_splits)
  show "RecordAck fails now t ack st = (x5, st') \<Longrightarrow> rst_shields st' = rst_shields st"
    by (auto simp: RecordAck_def ack_update_def split: prod.splits sum.splits option.splits if_splits dest: delete_one_shields)
qed (auto simp: DeleteIfShieldGone_def ForceDeleteRow_def ReapTombstone_def ReapStaleTombstones_def delete_resources_def
    Let_def split: if_splits dest: delete_one_shields)

lemma send_snapshot_advances: "send_snapshot env c s st = (es, st') \<Longrightarrow> advances st st'"
  by (auto simp: send_snapshot_def split: prod.splits sum.splits dest: BuildShieldSnapshot_advances)

lemma PushSnapshotForShield_advances: "PushSnapshotForShield env c s st = (es, st') \<Longrightarrow> advances st st'"
  by (auto simp: PushSnapshotForShield_def split: option.splits if_splits dest: send_snapshot_advances)

text \<open>A handler changes the resources, leaves the shields alone, and pushes snapshots.\<close>

lemma then_push:
  assumes "rst_shields st1 = rst_shields st" and "st' = st1 \<or> (\<exists>c s es. PushSnapshotForShield env c s st1 = (es, st'))"
  shows "advances st st'"
  using assms PushSnapshotForShield_advances advances_shields advances_trans by blast

lemma push_snapshots_advances: "push_snapshots env ps st = (es, st') \<Longrightarrow> advances st st'"
proof (induction env ps st arbitrary: es rule: push_snapshots.induct)
  case (2 env c s ps st)
  obtain e1 st1 where p: "PushSnapshotForShield env (Some c) (Some s) st = (e1, st1)" by force
  obtain e2 st2 where q: "push_snapshots env ps st1 = (e2, st2)" by force
  from 2 p q show ?case using advances_trans [OF PushSnapshotForShield_advances [OF p]] by auto
qed simp

lemma CreateResource_advances: "CreateResource env t input st = (x, es, st') \<Longrightarrow> advances st st'"
  by (auto simp: CreateResource_def split: prod.splits sum.splits intro!: advances_shields dest: store_shields(1))

lemma UpdateResource_advances:
  assumes "UpdateResource env t i input st = (x, es, st')"
  shows "advances st st'"
proof -
  obtain y st1 where u: "Update (re_fails env) (re_now env) t i input st = (y, st1)" by force
  have "st' = st1 \<or> (\<exists>ps es'. push_snapshots env ps st1 = (es', st'))"
    using assms u by (cases y) (auto simp: UpdateResource_def Let_def split: if_splits prod.splits)
  then show ?thesis
    using advances_shields [OF store_shields(2) [OF u]] push_snapshots_advances advances_trans by blast
qed

lemma ProtectResource_advances:
  assumes "ProtectResource env t i s st = (x, es, st')"
  shows "advances st st'"
proof -
  obtain y st1 where u: "MarkProtecting (re_fails env) (re_now env) t i s st = (y, st1)" by force
  show ?thesis
    by (rule then_push [OF store_shields(3) [OF u]])
      (use assms u in \<open>cases y; auto simp: ProtectResource_def Let_def split: if_splits prod.splits\<close>)
qed

lemma UnprotectResource_advances:
  assumes "UnprotectResource env t i st = (x, es, st')"
  shows "advances st st'"
proof -
  obtain y st1 where u: "MarkUnprotecting (re_fails env) (re_now env) t i st = (y, st1)" by force
  show ?thesis
    by (rule then_push [OF store_shields(4) [OF u]])
      (use assms u in \<open>cases y; auto simp: UnprotectResource_def Let_def split: if_splits prod.splits\<close>)
qed

lemma delete_by_status_advances:
  assumes d: "delete_by_status env t i row st = (x, es, st')"
  shows "advances st st'"
proof -
  consider "st' = st"
    | y st1 where "MarkDeleting (re_fails env) (re_now env) t i st = (y, st1)"
        "st' = st1 \<or> (\<exists>c s es. PushSnapshotForShield env c s st1 = (es, st'))"
    | y where "DeleteRow (re_fails env) t i st = (y, st')"
    using d by (fastforce simp: delete_by_status_def Let_def split: if_splits prod.splits sum.splits option.splits)
  then show ?thesis
  proof cases
    case (2 y st1)
    then show ?thesis using then_push [OF store_shields(5)] by blast
  next
    case (3 y)
    then show ?thesis using advances_shields [OF store_shields(6)] by blast
  qed simp
qed

lemma DeleteResource_advances:
  assumes d: "DeleteResource env t i st = (x, es, st')"
  shows "advances st st'"
proof (cases "GetByID (re_fails env) t i st")
  case (Inl e)
  then show ?thesis using d by (simp add: DeleteResource_def)
next
  case (Inr row)
  obtain y st1 where y: "DeleteIfShieldGone (re_fails env) t i st = (y, st1)" by force
  have "st' = st1 \<or> (\<exists>x es. delete_by_status env t i row st1 = (x, es, st')) \<or> (\<exists>x es. delete_by_status env t i row st = (x, es, st'))"
    using d Inr y unfolding DeleteResource_def by (cases y) (auto split: if_splits)
  then show ?thesis
    using advances_shields [OF store_shields(7) [OF y]] delete_by_status_advances advances_trans by blast
qed

lemma ForceDeleteResource_advances:
  assumes d: "ForceDeleteResource env t i st = (x, es, st')"
  shows "advances st st'"
proof -
  obtain y st1 where y: "ForceDeleteRow (re_fails env) t i st = (y, st1)" by force
  show ?thesis
    by (rule then_push [OF store_shields(8) [OF y]])
      (use d y in \<open>cases y; auto simp: ForceDeleteResource_def Let_def split: if_splits prod.splits sum.splits\<close>)
qed

lemma record_acks_shields: "record_acks t acks st = (b, st') \<Longrightarrow> rst_shields st' = rst_shields st"
proof (induction t acks st arbitrary: b rule: record_acks.induct)
  case (2 t env ack acks st)
  obtain x st1 where r: "RecordAck (re_fails env) (re_now env) t ack st = (x, st1)" by force
  from 2 r store_shields(11) [OF r] show ?case by (cases x) (auto split: prod.splits)
qed simp

lemma on_reaped_advances: "on_reaped env ts st = (es, st') \<Longrightarrow> advances st st'"
proof (induction env ts st arbitrary: es rule: on_reaped.induct)
  case (2 env x ts st)
  obtain ps st1 where p: "PushSnapshotForShield env (rt_ConnectorID x) (rt_ShieldID x) st = (ps, st1)" by force
  obtain e2 st2 where q: "on_reaped env ts st1 = (e2, st2)" by force
  from 2 p q show ?case using advances_trans [OF PushSnapshotForShield_advances [OF p]] by fastforce
qed simp

lemma sweep_tombstones_advances:
  assumes "sweep_tombstones env st = (x, es, st')"
  shows "advances st st'"
proof -
  obtain y st1 where y: "ReapStaleTombstones (re_fails env) (re_now env) tombstone_grace st = (y, st1)" by force
  have "st' = st1 \<or> (\<exists>ts es. on_reaped env ts st1 = (es, st'))"
    using assms y by (cases y) (auto simp: sweep_tombstones_def Let_def split: prod.splits)
  then show ?thesis using advances_shields [OF store_shields(10) [OF y]] on_reaped_advances advances_trans by blast
qed

lemma shield_reports_advances: "shield_reports c reps st = (b, es, st') \<Longrightarrow> advances st st'"
proof (induction c reps st arbitrary: b es rule: shield_reports.induct)
  case (2 c env rep reps st)
  obtain x st1 where u: "UpdateShieldHealth (re_fails env) (re_now env) c rep st = (x, st1)" by force
  note a = UpdateShieldHealth_advances [OF u]
  show ?case
  proof (cases x)
    case (Inl e)
    with 2(1) [OF u [symmetric] Inl] 2(3) u a show ?thesis using advances_trans by auto
  next
    case (Inr p)
    obtain cc lc where p: "p = (cc, lc)" by force
    let ?q = "if lc then PushSnapshotForShield env (Some c) (hb_ShieldID rep) st1 else ([], st1)"
    obtain ps st2 where q: "?q = (ps, st2)" by force
    have "advances st1 st2" using q by (auto split: if_splits dest: PushSnapshotForShield_advances)
    moreover obtain b2 es2 st3 where r: "shield_reports c reps st2 = (b2, es2, st3)" by (cases "shield_reports c reps st2") auto
    moreover from 2(3) u Inr p q r have "st' = st3" by (auto simp: Let_def)
    ultimately show ?thesis
      using 2(2) [OF u [symmetric] Inr p [symmetric] refl refl q [symmetric]] a advances_trans by blast
  qed
qed simp

lemma reap_all_shields: "reap_all env t s is st = (b, st') \<Longrightarrow> rst_shields st' = rst_shields st"
proof (induction env t s "is" st arbitrary: b rule: reap_all.induct)
  case (2 env t s i "is" st)
  obtain x st1 where r: "ReapTombstone (re_fails env) t s (Some i) st = (x, st1)" by force
  from 2 r store_shields(9) [OF r] show ?case by (auto split: prod.splits)
qed simp

lemma reconcileShield_advances:
  assumes r: "reconcileShield env t c rep (rc, st) = (es, rc', st')"
  shows "advances st st'"
proof (cases "GetDesiredForShield (re_fails env) (sr_ShieldID rep) st")
  case (Inr desired)
  then have "\<exists>rs ps st1 b. (st1 = st \<or> send_snapshot env c (sr_ShieldID rep) st = (ps, st1)) \<and>
      reap_all env t (sr_ShieldID rep) rs st1 = (b, st')"
    using r by (auto simp: reconcileShield_def Let_def split: prod.splits if_splits)
  then show ?thesis using send_snapshot_advances advances_shields [OF reap_all_shields] advances_trans by blast
qed (use r in \<open>simp add: reconcileShield_def\<close>)

lemma handleResourceState_advances: "handleResourceState t c reps s = (es, s') \<Longrightarrow> advances (snd s) (snd s')"
proof (induction t c reps s arbitrary: es rule: handleResourceState.induct)
  case (2 t c env rep reps s)
  obtain rc st where s: "s = (rc, st)" by force
  show ?case
  proof (cases "re_fails env SShield \<or> \<not> list_ex (\<lambda>x. sh_id x = sr_ShieldID rep \<and> sh_connector_id x = Some c \<and> sh_tenant_id x = t) (rst_shields (snd s))")
    case True
    with 2(1) [OF True] 2(3) show ?thesis by simp
  next
    case False
    obtain es1 rc1 st1 where r: "reconcileShield env t c rep s = (es1, rc1, st1)"
      by (cases "reconcileShield env t c rep s") auto
    obtain es2 s2 where q: "handleResourceState t c reps (rc1, st1) = (es2, s2)"
      by (cases "handleResourceState t c reps (rc1, st1)")
    have "s' = s2" using 2(3) False r q by auto
    then have "advances st1 (snd s')" using 2(2) [OF False r [symmetric] refl] q by simp
    moreover have "advances (snd s) st1" using reconcileShield_advances [of env t c rep rc st es1 rc1 st1] r s by simp
    ultimately show ?thesis using advances_trans by blast
  qed
qed simp

lemma handle_advances:
  assumes h: "handle q s = (es, s')"
  shows "advances (snd s) (snd s')"
proof -
  obtain rc st where s: "s = (rc, st)" by force
  show ?thesis
  proof (cases q)
    case (QState t c reps)
    then show ?thesis using handleResourceState_advances h by simp
  next
    case (QStatus t c reps)
    obtain b es1 st1 where "shield_reports c reps st = (b, es1, st1)" by (cases "shield_reports c reps st") auto
    then show ?thesis using shield_reports_advances QStatus h s by (auto simp: handleShieldStatus_def)
  next
    case (QAcks t acks)
    then show ?thesis using h s advances_shields [OF record_acks_shields]
      by (auto simp: handleResourceAcks_def Let_def split: prod.splits)
  qed (use h s in \<open>auto split: prod.splits intro: CreateResource_advances UpdateResource_advances ProtectResource_advances
      UnprotectResource_advances DeleteResource_advances ForceDeleteResource_advances sweep_tombstones_advances
      markDisconnected_advances PushSnapshotForShield_advances\<close>)
qed

text \<open>Along a run in which the shield stays registered, only deletion is excluded.\<close>

definition shield_registered :: "uuid \<Rightarrow> res_state \<Rightarrow> bool" where
  "shield_registered i s \<longleftrightarrow> find_shield (snd s) (Some i) \<noteq> None"

lemma select_one_append: "select_one P xs = Some x \<Longrightarrow> select_one P (xs @ ys) = Some x"
  unfolding select_one_def by (induction xs) (auto split: if_splits)

lemma find_shield_append:
  "find_shield st (Some i) = Some s \<Longrightarrow> find_shield (st\<lparr>rst_shields := rst_shields st @ ss\<rparr>) (Some i) = Some s"
  by (simp add: find_shield_def select_one_append)

lemma find_filter_key:
  "List.find (\<lambda>s. sh_id s = i) (filter (\<lambda>s. sh_id s \<noteq> j) ss) =
     (if i = j then None else List.find (\<lambda>s. sh_id s = i) ss)"
  by (induction ss) auto

lemma res_step_mark:
  assumes "res_step s s'" and reg: "shield_registered i s'"
  shows "mark_grows i (snd s) (snd s')"
  using assms(1)
proof cases
  case (rq_request q es)
  then show ?thesis using handle_advances advancesD by blast
next
  case (rq_other st db ws rc)
  then show ?thesis by (auto intro!: advancesD advances_shields)
next
  case (rq_register y st rc)
  then show ?thesis using find_shield_append [of st i] by (auto simp: mark_grows_def shield_mark_def)
next
  case (rq_shield f rc st j)
  then show ?thesis by (auto intro!: advancesD advances_update [where f = f] simp: shield_kept_def)
next
  case (rq_unregister rc st j)
  have "i \<noteq> j" using reg rq_unregister
    by (auto simp: shield_registered_def find_shield_def delete_shield_def select_one_def find_filter_key)
  then have "shield_mark (delete_shield j st) i = shield_mark st i"
    by (simp add: shield_mark_def find_shield_def delete_shield_def select_one_def find_filter_key)
  then show ?thesis using rq_unregister by (simp add: mark_grows_def)
qed

definition res_run :: "uuid \<Rightarrow> res_state \<Rightarrow> res_state \<Rightarrow> bool" where
  "res_run i = (\<lambda>a b. res_step a b \<and> shield_registered i b)\<^sup>*\<^sup>*"

lemma res_run_mark: "res_run i s s' \<Longrightarrow> mark_grows i (snd s) (snd s')"
  unfolding res_run_def
proof (induction rule: rtranclp_induct)
  case (step y z)
  then show ?case using res_step_mark mark_grows_trans by blast
qed (rule mark_grows_refl)

lemma res_run_inv: "res_run i s s' \<Longrightarrow> res_inv (snd s) \<Longrightarrow> res_inv (snd s')"
  unfolding res_run_def by (induction rule: rtranclp_induct) (auto intro: res_step_inv)

text \<open>Generations start at zero.\<close>

lemma find_append: "List.find P (xs @ ys) = (case List.find P xs of None \<Rightarrow> List.find P ys | r \<Rightarrow> r)"
  by (induction xs) auto

definition marks_nonneg :: "rstore \<Rightarrow> bool" where
  "marks_nonneg st \<longleftrightarrow> (\<forall>i g f. shield_mark st i = Some (g, f) \<longrightarrow> 0 \<le> g)"

lemma marks_nonnegD: "marks_nonneg st \<Longrightarrow> shield_mark st i = Some (g, f) \<Longrightarrow> 0 \<le> g"
  unfolding marks_nonneg_def by blast

lemma advances_nonneg:
  assumes a: "advances st st'" and n: "marks_nonneg st"
  shows "marks_nonneg st'"
  unfolding marks_nonneg_def
proof (intro allI impI)
  fix i g f assume m: "shield_mark st' i = Some (g, f)"
  then obtain g0 f0 where "shield_mark st i = Some (g0, f0)"
    using a by (cases "shield_mark st i") (auto simp: advances_def)
  then show "0 \<le> g"
    using advancesD [OF a, of i] m marks_nonnegD [OF n] by (fastforce simp: mark_grows_def)
qed

lemma marks_nonneg_step:
  assumes "res_step s s'" and n: "marks_nonneg (snd s)"
  shows "marks_nonneg (snd s')"
  using assms(1)
proof cases
  case (rq_request q es)
  then show ?thesis using handle_advances advances_nonneg n by blast
next
  case (rq_other st db ws rc)
  have "advances (snd s) (snd s')" using rq_other by (intro advances_shields) simp
  then show ?thesis using n by (rule advances_nonneg)
next
  case (rq_register s1 st rc)
  have "shield_mark (snd s') i = (case shield_mark st i of None \<Rightarrow> if i = sh_id s1 then Some (0, []) else None | r \<Rightarrow> r)" for i
    using rq_register by (simp add: shield_mark_def find_shield_def select_one_def find_append split: option.split)
  then show ?thesis using n rq_register by (auto simp: marks_nonneg_def split: option.splits if_splits)
next
  case (rq_shield f rc st j)
  have "advances st (snd s')" by (rule advances_update [where f = f]) (use rq_shield in \<open>auto simp: shield_kept_def\<close>)
  then have "marks_nonneg (snd s')" by (rule advances_nonneg) (use n rq_shield in simp)
  then show ?thesis .
next
  case (rq_unregister rc st j)
  have "shield_mark (delete_shield j st) i = (if i = j then None else shield_mark st i)" for i
    by (auto simp: shield_mark_def find_shield_def delete_shield_def select_one_def find_filter_key find_None_iff)
  then show ?thesis using n rq_unregister by (simp add: marks_nonneg_def)
qed

lemma marks_nonneg_reach: "reach res_init res_step s \<Longrightarrow> marks_nonneg (snd s)"
proof (induction rule: reach.induct)
  case (reach_init s)
  then show ?case by (simp add: res_init_def marks_nonneg_def shield_mark_def find_shield_def select_one_def)
qed (rule marks_nonneg_step)

end
