(* ===== verification/Shield_Issue.thy ===== *)
theory Shield_Issue
  imports Shield_Machine Res_Snapshot
begin

text \<open>
  What the controller sends a shield (\<open>controller/internal/connector/peer_list.go\<close>, \<open>resource_set.go\<close>,
  \<open>control_stream.go\<close>, \<open>internal/pki/peer_list.go\<close>): the signed peer list and the signed resource set of a snapshot.

  The key of a workspace as loaded and decrypted, the digest, the signature over it and the two
  encoders are parameters. The \<open>action\<close> of an instruction is left out: no shield reads it in a signed set.
\<close>

section \<open>Signatures\<close>

record shield_signer =
  sg_key :: "uuid \<Rightarrow> string option"
  sg_sha384 :: "string \<Rightarrow> string"
  sg_ecdsa :: "string \<Rightarrow> string \<Rightarrow> string option"
  sg_marshal_peers :: "peer_list_payload \<Rightarrow> string option"
  sg_marshal_set :: "resource_set \<Rightarrow> string option"

definition ShieldPeerListContext :: string where "ShieldPeerListContext = ''zecurity/shield-peer-list/v1'' @ [CHR 0x00]"
definition ShieldResourceSetContext :: string where
  "ShieldResourceSetContext = ''zecurity/shield-resource-set/v1'' @ [CHR 0x00]"

definition shieldDigest :: "shield_signer \<Rightarrow> string \<Rightarrow> string \<Rightarrow> string" where
  "shieldDigest sg context payload = sg_sha384 sg (context @ payload)"

definition signWithWorkspaceCA :: "shield_signer \<Rightarrow> uuid \<Rightarrow> string \<Rightarrow> string option" where
  "signWithWorkspaceCA sg tenantID digest =
     (case sg_key sg tenantID of None \<Rightarrow> None | Some caPrivKey \<Rightarrow> sg_ecdsa sg caPrivKey digest)"

definition SignShieldPeerList :: "shield_signer \<Rightarrow> uuid \<Rightarrow> string \<Rightarrow> string option" where
  "SignShieldPeerList sg tenantID payload = signWithWorkspaceCA sg tenantID (shieldDigest sg ShieldPeerListContext payload)"

definition SignShieldResourceSet :: "shield_signer \<Rightarrow> uuid \<Rightarrow> string \<Rightarrow> string option" where
  "SignShieldResourceSet sg tenantID payload =
     signWithWorkspaceCA sg tenantID (shieldDigest sg ShieldResourceSetContext payload)"

section \<open>The signed resource set\<close>

datatype issue_stmt = IsShield | IsRows

text \<open>The join of a shield with its workspace: tenant, trust domain, network.\<close>

definition shield_workspace :: "rstore \<Rightarrow> uuid \<Rightarrow> (uuid \<times> string \<times> uuid) option" where
  "shield_workspace st shieldID =
     (case find_shield st (Some shieldID) of
        None \<Rightarrow> None
      | Some s \<Rightarrow>
          (case select_one (\<lambda>w. ws_id w = sh_tenant_id s) (db_workspaces (rst_db st)) of
             None \<Rightarrow> None
           | Some w \<Rightarrow> Some (sh_tenant_id s, coalesce (ws_trust_domain w), sh_remote_network_id s)))"

definition instruction_of :: "pending_row \<Rightarrow> resource_instruction" where
  "instruction_of row = \<lparr>si_resource_id = pr_ID row, si_host = pr_Host row, si_protocol = pr_Protocol row,
     si_port_from = int (pr_PortFrom row), si_port_to = int (pr_PortTo row)\<rparr>"

definition removes_for :: "uuid \<Rightarrow> rstore \<Rightarrow> resource_instruction list" where
  "removes_for shieldID st =
     map (\<lambda>r. instruction_of (pending_of st r))
       (sort_key rs_id (filter (\<lambda>r. rs_shield_id r = Some shieldID \<and>
          (rs_status r = ''protecting'' \<and> rs_pending_action r = ''remove'' \<or> rs_status r = ''deleting'')) (rst_resources st)))"

text \<open>\<open>Inr None\<close> is the nil set of a controller without a signer; \<open>Inl\<close> an error.\<close>

definition signResourceSet ::
  "shield_signer option \<Rightarrow> (issue_stmt \<Rightarrow> bool) \<Rightarrow> uuid \<Rightarrow> nat \<Rightarrow> resource_instruction list \<Rightarrow> rstore \<Rightarrow> unit + signed_blob option" where
  "signResourceSet signer fails shieldID generation resources st =
     (case signer of
        None \<Rightarrow> Inr None
      | Some sg \<Rightarrow>
          if fails IsShield then Inl ()
          else (case shield_workspace st shieldID of
             None \<Rightarrow> Inl ()
           | Some (tenantID, trustDomain, _) \<Rightarrow>
               if trustDomain = [] then Inl ()
               else if fails IsRows then Inl ()
               else
                 (case sg_marshal_set sg \<lparr>rz_trust_domain = trustDomain, rz_shield_id = shieldID, rz_generation = generation,
                         rz_resources = resources, rz_removes = removes_for shieldID st\<rparr> of
                    None \<Rightarrow> Inl ()
                  | Some raw \<Rightarrow>
                      (case SignShieldResourceSet sg tenantID raw of
                         None \<Rightarrow> Inl ()
                       | Some sig \<Rightarrow> Inr (Some \<lparr>sb_payload = raw, sb_signature = sig\<rparr>)))))"

section \<open>The signed peer list\<close>

definition shieldFacingAddr :: "string \<Rightarrow> string" where
  "shieldFacingAddr lanAddr =
     (let host = (case SplitHostPort lanAddr of Some (h, _) \<Rightarrow> h | None \<Rightarrow> lanAddr) in
      if host = [] then [] else JoinHostPort host ''9091'')"

definition peers_of :: "uuid \<Rightarrow> uuid \<Rightarrow> rstore \<Rightarrow> connector_ref list" where
  "peers_of rnID tenantID st =
     map (\<lambda>c. \<lparr>cf_connector_id = co_id c, cf_connector_addr = shieldFacingAddr (coalesce (co_lan_addr c))\<rparr>)
       (filter (\<lambda>c. shieldFacingAddr (coalesce (co_lan_addr c)) \<noteq> [])
         (sort_key co_id (filter (\<lambda>c. co_remote_network_id c = rnID \<and> co_tenant_id c = tenantID \<and>
            co_status c \<in> {''active'', ''disconnected''} \<and> co_revoked_at c = None) (db_connectors (rst_db st)))))"

text \<open>The issuer keeps the time of its last list in \<open>lastMS\<close>; \<open>now\<close> is the clock in milliseconds.\<close>

definition readPayload ::
  "shield_signer \<Rightarrow> (issue_stmt \<Rightarrow> bool) \<Rightarrow> int \<Rightarrow> uuid \<Rightarrow> rstore \<Rightarrow> int \<Rightarrow> (unit + (uuid \<times> string)) \<times> int" where
  "readPayload sg fails now shieldID st lastMS =
     (let issuedAt = (if now \<le> lastMS then lastMS + 1 else now) in
      if fails IsShield then (Inl (), lastMS)
      else case shield_workspace st shieldID of
        None \<Rightarrow> (Inl (), lastMS)
      | Some (tenantID, trustDomain, rnID) \<Rightarrow>
          if trustDomain = [] then (Inl (), lastMS)
          else if fails IsRows then (Inl (), lastMS)
          else
            (case sg_marshal_peers sg \<lparr>pl_trust_domain = trustDomain, pl_shield_id = shieldID,
                    pl_issued_at_unix_ms = nat (issuedAt mod 2 ^ 64), pl_peers = peers_of rnID tenantID st\<rparr> of
               None \<Rightarrow> (Inl (), lastMS)
             | Some raw \<Rightarrow> (Inr (tenantID, raw), issuedAt)))"

definition build_peer_list ::
  "shield_signer option \<Rightarrow> (issue_stmt \<Rightarrow> bool) \<Rightarrow> int \<Rightarrow> uuid \<Rightarrow> rstore \<Rightarrow> int \<Rightarrow> (unit + signed_blob option) \<times> int" where
  "build_peer_list signer fails now shieldID st lastMS =
     (case signer of
        None \<Rightarrow> (Inr None, lastMS)
      | Some sg \<Rightarrow>
          (case readPayload sg fails now shieldID st lastMS of
             (Inl _, ms) \<Rightarrow> (Inl (), ms)
           | (Inr (tenantID, raw), ms) \<Rightarrow>
               (case SignShieldPeerList sg tenantID raw of
                  None \<Rightarrow> (Inl (), ms)
                | Some sig \<Rightarrow> (Inr (Some \<lparr>sb_payload = raw, sb_signature = sig\<rparr>), ms))))"

section \<open>The snapshot message\<close>

text \<open>
  A list or set that cannot be built is left out. The three reads may see different states of the
  tables: the snapshot commits on \<open>st\<close>, the others read \<open>st_p\<close> and \<open>st_s\<close>.
\<close>

definition buildSnapshotMsg ::
  "shield_signer option \<Rightarrow> res_env \<Rightarrow> (issue_stmt \<Rightarrow> bool) \<Rightarrow> (issue_stmt \<Rightarrow> bool) \<Rightarrow> int \<Rightarrow> uuid \<Rightarrow> rstore \<Rightarrow> rstore \<Rightarrow> rstore \<Rightarrow> int
   \<Rightarrow> (res_error + (int \<times> resource_instruction list \<times> snapshot_msg)) \<times> rstore \<times> int" where
  "buildSnapshotMsg signer env fails_p fails_s now shieldID st st_p st_s lastMS =
     (case BuildShieldSnapshot (re_utext env) (re_sha env) (re_push_fails env) shieldID st of
        (Inl e, st') \<Rightarrow> (Inl e, st', lastMS)
      | (Inr (gen, rows), st') \<Rightarrow>
          let resources = map instruction_of rows;
              (peers, ms) = build_peer_list signer fails_p now shieldID st_p lastMS;
              signedSet = signResourceSet signer fails_s shieldID (nat (gen mod 2 ^ 64)) resources st_s in
          (Inr (gen, resources,
             \<lparr>sm_signed_peer_list = (case peers of Inl _ \<Rightarrow> None | Inr p \<Rightarrow> p),
              sm_signed_resource_set = (case signedSet of Inl _ \<Rightarrow> None | Inr s \<Rightarrow> s)\<rparr>), st', ms))"

text \<open>Lists are numbered in the order in which they are read.\<close>

lemma readPayload_order:
  "readPayload sg fails now i st ms = (Inr x, ms') \<Longrightarrow> ms < ms'"
  "readPayload sg fails now i st ms = (r, ms') \<Longrightarrow> ms \<le> ms'"
  by (auto simp: readPayload_def Let_def split: if_splits option.splits)

text \<open>The contexts separate the two kinds of payload under one key.\<close>

lemma contexts_agree: "ShieldPeerListContext = PEER_LIST_CONTEXT" "ShieldResourceSetContext = RESOURCE_SET_CONTEXT"
  by (simp_all add: ShieldPeerListContext_def PEER_LIST_CONTEXT_def ShieldResourceSetContext_def RESOURCE_SET_CONTEXT_def)

lemma contexts_apart: "PEER_LIST_CONTEXT @ a \<noteq> RESOURCE_SET_CONTEXT @ b"
  by (simp add: PEER_LIST_CONTEXT_def RESOURCE_SET_CONTEXT_def)

end
