(* ===== verification/Res_Acl.thy ===== *)
theory Res_Acl
  imports Res_Machine Acl_Compiler
begin

text \<open>
  What of the resources and shields tables the compiled snapshot of a workspace depends on. Of the
  status of a resource only its route class counts, of the status of a shield only whether it is
  revoked; rows of other workspaces do not count at all.
\<close>

section \<open>Route classes\<close>

definition erase_status :: "string \<Rightarrow> string" where
  "erase_status s = (if s \<in> {''protecting'', ''protected'', ''failed''} then ''protected''
                     else if s \<in> {''pending'', ''unprotected''} then ''unprotected'' else s)"

definition erase_row :: "compiler_row \<Rightarrow> compiler_row" where
  "erase_row row = row\<lparr>cp_Status := erase_status (cp_Status row)\<rparr>"

definition erase_acc :: "acl_acc \<Rightarrow> acl_acc" where
  "erase_acc acc = acc\<lparr>ac_first := (\<lambda>k. map_option (\<lambda>(rule, rt). (erase_row rule, rt)) (ac_first acc k))\<rparr>"

lemma erase_status_deleting [simp]: "erase_status s = ''deleting'' \<longleftrightarrow> s = ''deleting''"
  by (auto simp: erase_status_def)

lemma erase_row_sel [simp]:
  "entryKey (erase_row row) = entryKey row" "cp_GroupID (erase_row row) = cp_GroupID row"
  "cp_ResourceID (erase_row row) = cp_ResourceID row"
  "cp_RemoteNetworkID (erase_row row) = cp_RemoteNetworkID row"
  "cp_RemoteNetworkName (erase_row row) = cp_RemoteNetworkName row"
  "cp_Name (erase_row row) = cp_Name row" "cp_ShieldID (erase_row row) = cp_ShieldID row"
  "cp_ShieldConnectorID (erase_row row) = cp_ShieldConnectorID row"
  "shieldUnavailable (erase_row row) = shieldUnavailable row"
  "routeTypeForResource (cp_Status (erase_row row)) i = routeTypeForResource (cp_Status row) i"
  by (simp_all add: erase_row_def entryKey_def shieldUnavailable_def routeTypeForResource_def erase_status_def)

lemma erase_acc_sel [simp]:
  "ac_keys (erase_acc acc) = ac_keys acc" "ac_keyGroups (erase_acc acc) = ac_keyGroups acc"
  "ac_groupIDs (erase_acc acc) = ac_groupIDs acc" "ac_rnIDs (erase_acc acc) = ac_rnIDs acc"
  "ac_rnNames (erase_acc acc) = ac_rnNames acc"
  "ac_first (erase_acc acc) k = None \<longleftrightarrow> ac_first acc k = None"
  by (simp_all add: erase_acc_def)

lemma note_rule_erase: "note_rule (erase_row row) (erase_acc acc) = erase_acc (note_rule row acc)"
  by (simp add: note_rule_def erase_acc_def)

lemma first_rule_erase:
  "(erase_acc acc)\<lparr>ac_keys := ks, ac_first := (ac_first (erase_acc acc))(k \<mapsto> (erase_row row, rt))\<rparr> =
   erase_acc (acc\<lparr>ac_keys := ks, ac_first := (ac_first acc)(k \<mapsto> (row, rt))\<rparr>)"
  by (auto simp: erase_acc_def fun_eq_iff)

lemma collect_rules_erase:
  "collect_rules (erase_acc acc) (map erase_row rows) = map_sum id erase_acc (collect_rules acc rows)"
proof (induction rows arbitrary: acc)
  case (Cons row rows)
  show ?case
    by (simp add: note_rule_erase first_rule_erase Cons.IH split: option.split)
qed simp

lemma make_entry_erase [simp]: "make_entry (erase_acc acc) key allowed = make_entry acc key allowed"
  by (auto simp: make_entry_def erase_acc_def split: prod.splits option.splits)

lemma build_entries_erase [simp]:
  "build_entries now (erase_acc acc) g q e st keys = build_entries now acc g q e st keys"
  by (induction now acc g q e st keys rule: build_entries.induct) (simp_all add: Let_def split: prod.splits)

lemma make_remote_network_erase [simp]:
  "make_remote_network utext (erase_acc acc) rows = make_remote_network utext acc rows"
  by (simp add: make_remote_network_def fun_eq_iff)

lemma erase_acc_empty [simp]: "erase_acc acc_empty = acc_empty"
  by (simp add: erase_acc_def acc_empty_def)

text \<open>Rules that agree up to the route class give accumulators that agree up to it.\<close>

lemma collect_rules_cong:
  assumes "map erase_row rows = map erase_row rows'"
  shows "map_sum id erase_acc (collect_rules acc_empty rows) = map_sum id erase_acc (collect_rules acc_empty rows')"
  using assms collect_rules_erase [of acc_empty rows] collect_rules_erase [of acc_empty rows'] by simp

section \<open>Databases a snapshot does not tell apart\<close>

definition acl_same :: "resource_row \<Rightarrow> resource_row \<Rightarrow> bool" where
  "acl_same r r' \<longleftrightarrow> r'\<lparr>rs_status := ''''\<rparr> = r\<lparr>rs_status := ''''\<rparr> \<and> erase_status (rs_status r') = erase_status (rs_status r)"

definition shield_same :: "shield_row \<Rightarrow> shield_row \<Rightarrow> bool" where
  "shield_same s s' \<longleftrightarrow> sh_id s' = sh_id s \<and> sh_tenant_id s' = sh_tenant_id s \<and> sh_connector_id s' = sh_connector_id s
     \<and> (sh_status s' = ''revoked'' \<longleftrightarrow> sh_status s = ''revoked'')"

definition acl_equiv :: "uuid \<Rightarrow> zdb \<Rightarrow> zdb \<Rightarrow> bool" where
  "acl_equiv w db db' \<longleftrightarrow>
     db' = db\<lparr>db_access_rules := db_access_rules db', db_resources := db_resources db', db_shields := db_shields db'\<rparr>
     \<and> filter (\<lambda>a. ar_workspace_id a = w) (db_access_rules db') = filter (\<lambda>a. ar_workspace_id a = w) (db_access_rules db)
     \<and> list_all2 acl_same (filter (\<lambda>r. rs_tenant_id r = w) (db_resources db)) (filter (\<lambda>r. rs_tenant_id r = w) (db_resources db'))
     \<and> list_all2 shield_same (filter (\<lambda>s. sh_tenant_id s = w) (db_shields db)) (filter (\<lambda>s. sh_tenant_id s = w) (db_shields db'))"

lemma acl_same_sel:
  assumes "acl_same r r'"
  shows "rs_id r' = rs_id r" "rs_tenant_id r' = rs_tenant_id r" "rs_name r' = rs_name r" "rs_host r' = rs_host r"
    "rs_port_from r' = rs_port_from r" "rs_protocol r' = rs_protocol r" "rs_shield_id r' = rs_shield_id r"
    "rs_remote_network_id r' = rs_remote_network_id r" "rs_policy_id r' = rs_policy_id r"
    "erase_status (rs_status r') = erase_status (rs_status r)"
    "rs_status r' = ''deleting'' \<longleftrightarrow> rs_status r = ''deleting''"
proof -
  from assms have e: "r'\<lparr>rs_status := ''''\<rparr> = r\<lparr>rs_status := ''''\<rparr>"
    and s: "erase_status (rs_status r') = erase_status (rs_status r)" by (auto simp: acl_same_def)
  show "rs_status r' = ''deleting'' \<longleftrightarrow> rs_status r = ''deleting''" using s by (metis erase_status_deleting)
  show "rs_id r' = rs_id r" "rs_tenant_id r' = rs_tenant_id r" "rs_name r' = rs_name r" "rs_host r' = rs_host r"
    "rs_port_from r' = rs_port_from r" "rs_protocol r' = rs_protocol r" "rs_shield_id r' = rs_shield_id r"
    "rs_remote_network_id r' = rs_remote_network_id r" "rs_policy_id r' = rs_policy_id r"
    using e by (cases r; cases r'; simp)+
qed (use assms in \<open>simp add: acl_same_def\<close>)

lemma list_all2_filter_rel:
  "list_all2 R xs ys \<Longrightarrow> (\<And>x y. R x y \<Longrightarrow> P x = Q y) \<Longrightarrow> list_all2 R (filter P xs) (filter Q ys)"
  by (induction rule: list_all2_induct) auto

lemma list_all2_map_eq: "list_all2 R xs ys \<Longrightarrow> (\<And>x y. R x y \<Longrightarrow> f x = g y) \<Longrightarrow> map f xs = map g ys"
  by (induction rule: list_all2_induct) auto

lemma left_join_rel:
  assumes "list_all2 R xs ys" and "\<And>x y. R x y \<Longrightarrow> P x = Q y"
  shows "list_all2 (rel_option R) (left_join P xs) (left_join Q ys)"
proof -
  have "list_all2 R (filter P xs) (filter Q ys)" by (rule list_all2_filter_rel [OF assms])
  then show ?thesis unfolding left_join_def
    by (cases "filter P xs"; cases "filter Q ys") (auto simp: list_all2_map1 list_all2_map2 elim: list_all2_mono)
qed

lemma filter_sub: "(\<And>x. P x \<Longrightarrow> Q x) \<Longrightarrow> filter P (filter Q xs) = filter P xs"
  unfolding filter_filter by (metis (mono_tags, lifting) filter_cong)

lemma left_join_sub:
  assumes "\<And>x. P x \<Longrightarrow> Q x"
  shows "left_join P (filter Q xs) = left_join P xs"
  unfolding left_join_def by (subst filter_sub) (use assms in auto)

text \<open>The rows of one rule and one resource, over the shields of the workspace.\<close>

definition rule_rows :: "zdb \<Rightarrow> uuid \<Rightarrow> access_rule \<Rightarrow> resource_row \<Rightarrow> compiler_row list" where
  "rule_rows db w ar r =
     [rule_row db ar r rn s.
        g \<leftarrow> filter (\<lambda>g. gr_id g = ar_group_id ar \<and> gr_workspace_id g = w) (db_groups db),
        rn \<leftarrow> filter (\<lambda>n. rn_id n = rs_remote_network_id r \<and> rn_tenant_id n = w) (db_remote_networks db),
        s \<leftarrow> left_join (\<lambda>s. Some (sh_id s) = rs_shield_id r \<and> sh_tenant_id s = w)
              (filter (\<lambda>s. sh_tenant_id s = w) (db_shields db))]"

lemma ListEnabledRules_rows:
  "ListEnabledRulesWithResources db w =
     [row. ar \<leftarrow> filter ar_enabled (filter (\<lambda>a. ar_workspace_id a = w) (db_access_rules db)),
           r \<leftarrow> filter (\<lambda>r. rs_id r = ar_resource_id ar \<and> rs_status r \<noteq> ''deleting'')
                 (filter (\<lambda>r. rs_tenant_id r = w) (db_resources db)),
           row \<leftarrow> rule_rows db w ar r]"
proof -
  have f: "left_join (\<lambda>s. Some (sh_id s) = i \<and> sh_tenant_id s = w) (filter (\<lambda>s. sh_tenant_id s = w) xs) =
      left_join (\<lambda>s. Some (sh_id s) = i \<and> sh_tenant_id s = w) xs" for i and xs :: "shield_row list"
    by (rule left_join_sub) simp
  have g: "(\<lambda>r. (rs_id r = i \<and> rs_tenant_id r = w) \<and> rs_status r \<noteq> ''deleting'') =
      (\<lambda>r. rs_tenant_id r = w \<and> rs_id r = i \<and> rs_status r \<noteq> ''deleting'')" for i by auto
  show ?thesis
    unfolding ListEnabledRulesWithResources_def rule_rows_def f filter_filter
    by (simp add: conj_ac)
qed

lemma rule_row_erase:
  assumes "acl_same r r'" and "rel_option shield_same s s'" and "db_shield_revocations db' = db_shield_revocations db"
  shows "erase_row (rule_row db' ar r' rn s') = erase_row (rule_row db ar r rn s)"
  using assms(2,3) acl_same_sel [OF assms(1)]
  by (cases s; cases s'; cases "rs_shield_id r")
    (auto simp: erase_row_def rule_row_def shield_revoked_def shield_same_def)

lemma acl_equiv_tables:
  assumes "acl_equiv w db db'"
  shows "db_groups db' = db_groups db"
    "db_group_members db' = db_group_members db"
    "db_users db' = db_users db"
    "db_workspace_members db' = db_workspace_members db"
    "db_client_devices db' = db_client_devices db"
    "db_remote_networks db' = db_remote_networks db"
    "db_shield_revocations db' = db_shield_revocations db"
    "db_connectors db' = db_connectors db"
    "db_placements db' = db_placements db"
    "db_relays db' = db_relays db"
    "db_connector_certificates db' = db_connector_certificates db"
    "db_workspaces db' = db_workspaces db"
    "db_profiles db' = db_profiles db"
    "db_requirements db' = db_requirements db"
    "db_reports db' = db_reports db"
    "db_observations db' = db_observations db"
    "db_evaluations db' = db_evaluations db"
    "db_network_observations db' = db_network_observations db"
    "db_policies db' = db_policies db"
    "db_policy_profiles db' = db_policy_profiles db"
proof -
  from assms have e: "db' = db\<lparr>db_access_rules := db_access_rules db', db_resources := db_resources db', db_shields := db_shields db'\<rparr>"
    unfolding acl_equiv_def by (rule conjunct1)
  show "db_groups db' = db_groups db" by (subst e) simp
  show "db_group_members db' = db_group_members db" by (subst e) simp
  show "db_users db' = db_users db" by (subst e) simp
  show "db_workspace_members db' = db_workspace_members db" by (subst e) simp
  show "db_client_devices db' = db_client_devices db" by (subst e) simp
  show "db_remote_networks db' = db_remote_networks db" by (subst e) simp
  show "db_shield_revocations db' = db_shield_revocations db" by (subst e) simp
  show "db_connectors db' = db_connectors db" by (subst e) simp
  show "db_placements db' = db_placements db" by (subst e) simp
  show "db_relays db' = db_relays db" by (subst e) simp
  show "db_connector_certificates db' = db_connector_certificates db" by (subst e) simp
  show "db_workspaces db' = db_workspaces db" by (subst e) simp
  show "db_profiles db' = db_profiles db" by (subst e) simp
  show "db_requirements db' = db_requirements db" by (subst e) simp
  show "db_reports db' = db_reports db" by (subst e) simp
  show "db_observations db' = db_observations db" by (subst e) simp
  show "db_evaluations db' = db_evaluations db" by (subst e) simp
  show "db_network_observations db' = db_network_observations db" by (subst e) simp
  show "db_policies db' = db_policies db" by (subst e) simp
  show "db_policy_profiles db' = db_policy_profiles db" by (subst e) simp
qed

lemma rule_rows_erase:
  assumes e: "acl_equiv w db db'" and r: "acl_same r r'"
  shows "map erase_row (rule_rows db' w ar r') = map erase_row (rule_rows db w ar r)"
proof -
  note t = acl_equiv_tables [OF e]
  have sh: "list_all2 shield_same (filter (\<lambda>s. sh_tenant_id s = w) (db_shields db)) (filter (\<lambda>s. sh_tenant_id s = w) (db_shields db'))"
    using e unfolding acl_equiv_def by blast
  have "map (\<lambda>s. erase_row (rule_row db' ar r' rn s))
          (left_join (\<lambda>s. Some (sh_id s) = rs_shield_id r' \<and> sh_tenant_id s = w) (filter (\<lambda>s. sh_tenant_id s = w) (db_shields db'))) =
        map (\<lambda>s. erase_row (rule_row db ar r rn s))
          (left_join (\<lambda>s. Some (sh_id s) = rs_shield_id r \<and> sh_tenant_id s = w) (filter (\<lambda>s. sh_tenant_id s = w) (db_shields db)))" for rn
  proof (rule list_all2_map_eq [symmetric])
    show "list_all2 (rel_option shield_same)
        (left_join (\<lambda>s. Some (sh_id s) = rs_shield_id r \<and> sh_tenant_id s = w) (filter (\<lambda>s. sh_tenant_id s = w) (db_shields db)))
        (left_join (\<lambda>s. Some (sh_id s) = rs_shield_id r' \<and> sh_tenant_id s = w) (filter (\<lambda>s. sh_tenant_id s = w) (db_shields db')))"
      by (rule left_join_rel [OF sh]) (simp add: acl_same_sel [OF r] shield_same_def)
    show "erase_row (rule_row db ar r rn s) = erase_row (rule_row db' ar r' rn s')" if "rel_option shield_same s s'" for s s'
      using rule_row_erase [OF r that t(7)] by simp
  qed
  then show ?thesis unfolding rule_rows_def t acl_same_sel(8) [OF r] by (simp add: map_concat comp_def)
qed

lemma ListEnabledRules_erase:
  assumes e: "acl_equiv w db db'"
  shows "map erase_row (ListEnabledRulesWithResources db' w) = map erase_row (ListEnabledRulesWithResources db w)"
proof -
  let ?R = "\<lambda>db. filter (\<lambda>r. rs_tenant_id r = w) (db_resources db)"
  have a: "filter (\<lambda>a. ar_workspace_id a = w) (db_access_rules db') = filter (\<lambda>a. ar_workspace_id a = w) (db_access_rules db)"
    and rr: "list_all2 acl_same (?R db) (?R db')"
    using e unfolding acl_equiv_def by blast+
  have "map (\<lambda>r. map erase_row (rule_rows db' w ar r)) (filter (\<lambda>r. rs_id r = ar_resource_id ar \<and> rs_status r \<noteq> ''deleting'') (?R db')) =
        map (\<lambda>r. map erase_row (rule_rows db w ar r)) (filter (\<lambda>r. rs_id r = ar_resource_id ar \<and> rs_status r \<noteq> ''deleting'') (?R db))" for ar
  proof (rule list_all2_map_eq [symmetric])
    show "list_all2 acl_same (filter (\<lambda>r. rs_id r = ar_resource_id ar \<and> rs_status r \<noteq> ''deleting'') (?R db))
        (filter (\<lambda>r. rs_id r = ar_resource_id ar \<and> rs_status r \<noteq> ''deleting'') (?R db'))"
      by (rule list_all2_filter_rel [OF rr]) (simp add: acl_same_sel)
  qed (rule rule_rows_erase [OF e, symmetric])
  then show ?thesis unfolding ListEnabledRules_rows a by (simp add: map_concat comp_def)
qed

section \<open>The compiled snapshot\<close>

lemma acl_equiv_queries:
  assumes e: "acl_equiv w db db'"
  shows "ListActiveDeviceSPIFFEsForGroups db' w gs = ListActiveDeviceSPIFFEsForGroups db w gs"
    "GetConnectorsForRemoteNetworks db' w ns = GetConnectorsForRemoteNetworks db w ns"
    "ListProfiles db' w = ListProfiles db w"
    "EvaluationsForDevices db' w ds = EvaluationsForDevices db w ds"
    "GetActiveRelay db' = GetActiveRelay db"
    "GetRevokedConnectors db' now w = GetRevokedConnectors db now w"
proof -
  note t = acl_equiv_tables [OF e]
  have "device_active db' w = device_active db w" by (simp add: device_active_def fun_eq_iff t)
  then show "ListActiveDeviceSPIFFEsForGroups db' w gs = ListActiveDeviceSPIFFEsForGroups db w gs"
    by (simp add: ListActiveDeviceSPIFFEsForGroups_def fun_eq_iff t)
  have "placed_relays db' = placed_relays db" unfolding placed_relays_def fun_eq_iff t by simp
  then show "GetConnectorsForRemoteNetworks db' w ns = GetConnectorsForRemoteNetworks db w ns"
    by (simp add: GetConnectorsForRemoteNetworks_def t)
  show "ListProfiles db' w = ListProfiles db w" by (simp add: ListProfiles_def t)
  have "join_report db' = join_report db" unfolding join_report_def fun_eq_iff t by simp
  then show "EvaluationsForDevices db' w ds = EvaluationsForDevices db w ds"
    by (simp add: EvaluationsForDevices_def fun_eq_iff t)
  show "GetActiveRelay db' = GetActiveRelay db" by (simp add: GetActiveRelay_def t)
  have "connector_gone_or_revoked db' = connector_gone_or_revoked db"
    "revoked_trust_domain db' = revoked_trust_domain db"
    unfolding connector_gone_or_revoked_def revoked_trust_domain_def fun_eq_iff t by simp_all
  then show "GetRevokedConnectors db' now w = GetRevokedConnectors db now w"
    by (simp add: GetRevokedConnectors_def t)
qed

lemma acl_equiv_profiles:
  assumes e: "acl_equiv w db db'"
  shows "ResourceProfilesForWorkspace db' w = ResourceProfilesForWorkspace db w"
proof
  fix rid
  let ?F = "\<lambda>db. filter (\<lambda>r. rs_tenant_id r = w \<and> rs_id r = rid) (filter (\<lambda>r. rs_tenant_id r = w) (db_resources db))"
  let ?g = "\<lambda>db r. map rpp_profile_id (filter (\<lambda>p. rpp_policy_id p = rs_policy_id r) (db_policy_profiles db))"
  have F: "filter (\<lambda>r. rs_tenant_id r = w \<and> rs_id r = rid) (db_resources d) = ?F d" for d
    by (rule filter_sub [symmetric]) simp
  have "map (?g db) (?F db) = map (?g db') (?F db')"
  proof (rule list_all2_map_eq)
    have "list_all2 acl_same (filter (\<lambda>r. rs_tenant_id r = w) (db_resources db)) (filter (\<lambda>r. rs_tenant_id r = w) (db_resources db'))"
      using e unfolding acl_equiv_def by blast
    then show "list_all2 acl_same (?F db) (?F db')" by (rule list_all2_filter_rel) (simp add: acl_same_sel)
  qed (simp add: acl_same_sel acl_equiv_tables [OF e])
  then show "ResourceProfilesForWorkspace db' w rid = ResourceProfilesForWorkspace db w rid"
    unfolding ResourceProfilesForWorkspace_def F by simp
qed

lemma compile_acl_equiv:
  assumes e: "acl_equiv w db db'" and p: "parse ws = Some w"
  shows "CompileACLSnapshot parse utext fails v now dbnow ws db' = CompileACLSnapshot parse utext fails v now dbnow ws db"
proof -
  have c: "map_sum id erase_acc (collect_rules acc_empty (ListEnabledRulesWithResources db' w)) =
      map_sum id erase_acc (collect_rules acc_empty (ListEnabledRulesWithResources db w))"
    by (rule collect_rules_cong [OF ListEnabledRules_erase [OF e]])
  show ?thesis
  proof (cases "collect_rules acc_empty (ListEnabledRulesWithResources db w)")
    case (Inl x)
    with c have "collect_rules acc_empty (ListEnabledRulesWithResources db' w) = Inl x"
      by (cases "collect_rules acc_empty (ListEnabledRulesWithResources db' w)") simp_all
    with Inl show ?thesis by (simp add: CompileACLSnapshot_def p)
  next
    case (Inr acc)
    with c obtain acc' where r: "collect_rules acc_empty (ListEnabledRulesWithResources db' w) = Inr acc'"
      and a: "erase_acc acc' = erase_acc acc"
      by (cases "collect_rules acc_empty (ListEnabledRulesWithResources db' w)") simp_all
    have k: "ac_keys acc' = ac_keys acc" "ac_groupIDs acc' = ac_groupIDs acc" "ac_rnIDs acc' = ac_rnIDs acc"
      using a by (metis erase_acc_sel)+
    have b: "build_entries now acc' g q ev st keys = build_entries now acc g q ev st keys" for g q ev st keys
      using a build_entries_erase by metis
    have m: "make_remote_network utext acc' rows = make_remote_network utext acc rows" for rows
      using a make_remote_network_erase by metis
    show ?thesis
      by (simp add: CompileACLSnapshot_def p Inr r k b m acl_equiv_queries [OF e] acl_equiv_profiles [OF e])
  qed
qed

end
