(* ===== verification/Res_Notify.thy ===== *)
theory Res_Notify
  imports Res_Acl
begin

text \<open>
  Which requests must announce a policy change. Every handler either sends the notification for a workspace
  or leaves the compiled snapshot of that workspace as it was.
\<close>

section \<open>Stores a snapshot does not tell apart\<close>

definition quiet :: "uuid \<Rightarrow> rstore \<Rightarrow> rstore \<Rightarrow> bool" where
  "quiet w st st' \<longleftrightarrow> acl_equiv w (rst_view st) (rst_view st')"

lemma acl_same_refl [simp]: "acl_same r r" by (simp add: acl_same_def)
lemma shield_same_refl [simp]: "shield_same s s" by (simp add: shield_same_def)

lemma quiet_refl [simp]: "quiet w st st"
  by (simp add: quiet_def acl_equiv_def list_all2_same)

lemma quiet_trans:
  assumes "quiet w a b" and "quiet w b c"
  shows "quiet w a c"
proof -
  have r: "list_all2 acl_same xs zs" if "list_all2 acl_same xs ys" "list_all2 acl_same ys zs" for xs ys zs
    by (rule list_all2_trans [OF _ that]) (auto simp: acl_same_def)
  have s: "list_all2 shield_same xs zs" if "list_all2 shield_same xs ys" "list_all2 shield_same ys zs" for xs ys zs
    by (rule list_all2_trans [OF _ that]) (auto simp: shield_same_def)
  have e: "db3 = db1\<lparr>db_access_rules := db_access_rules db3, db_resources := db_resources db3, db_shields := db_shields db3\<rparr>"
    if "db2 = db1\<lparr>db_access_rules := db_access_rules db2, db_resources := db_resources db2, db_shields := db_shields db2\<rparr>"
      "db3 = db2\<lparr>db_access_rules := db_access_rules db3, db_resources := db_resources db3, db_shields := db_shields db3\<rparr>"
    for db1 db2 db3 :: zdb
    using that by (cases db1; cases db2; cases db3) simp
  show ?thesis using assms unfolding quiet_def acl_equiv_def by (auto intro: r s e)
qed

lemma truncate_sel [simp]:
  "rs_tenant_id (resource_row.truncate r) = rs_tenant_id r"
  "sh_tenant_id (shield_row.truncate s) = sh_tenant_id s"
  by (simp_all add: resource_row.truncate_def shield_row.truncate_def)

lemma update_where_rel:
  assumes "\<And>q. q \<in> set rows \<Longrightarrow> P q \<Longrightarrow> \<not> Q (t q) \<and> \<not> Q (t (f q)) \<or> Q (t q) = Q (t (f q)) \<and> R (t q) (t (f q))"
    and "\<And>x. R x x"
  shows "list_all2 R (filter Q (map t rows)) (filter Q (map t (update_where P f rows)))"
  using assms(1) by (induction rows) (auto simp: update_where_def assms(2))

lemma acl_same_tenant: "acl_same r r' \<Longrightarrow> rs_tenant_id r' = rs_tenant_id r"
  by (rule acl_same_sel)

text \<open>The resources and the shields change, the tables behind the view stay.\<close>

lemma quiet_update:
  assumes db: "rst_db st' = rst_db st"
    and r: "rst_resources st' = update_where P f (rst_resources st)"
    and s: "rst_shields st' = update_where Q g (rst_shields st)"
    and R: "\<And>q. q \<in> set (rst_resources st) \<Longrightarrow> P q \<Longrightarrow> rs_tenant_id q \<noteq> w \<and> rs_tenant_id (f q) \<noteq> w \<or>
        acl_same (resource_row.truncate q) (resource_row.truncate (f q))"
    and S: "\<And>x. x \<in> set (rst_shields st) \<Longrightarrow> Q x \<Longrightarrow> sh_tenant_id x \<noteq> w \<and> sh_tenant_id (g x) \<noteq> w \<or>
        shield_same (shield_row.truncate x) (shield_row.truncate (g x))"
  shows "quiet w st st'"
proof -
  have "list_all2 acl_same (filter (\<lambda>r. rs_tenant_id r = w) (map resource_row.truncate (rst_resources st)))
      (filter (\<lambda>r. rs_tenant_id r = w) (map resource_row.truncate (rst_resources st')))"
    unfolding r using R acl_same_tenant by (intro update_where_rel) (fastforce, simp)
  moreover have "list_all2 shield_same (filter (\<lambda>s. sh_tenant_id s = w) (map shield_row.truncate (rst_shields st)))
      (filter (\<lambda>s. sh_tenant_id s = w) (map shield_row.truncate (rst_shields st')))"
    unfolding s using S by (intro update_where_rel) (fastforce simp: shield_same_def, simp)
  ultimately show ?thesis unfolding quiet_def acl_equiv_def by (simp add: rst_view_def db)
qed

lemma update_where_False: "update_where (\<lambda>_. False) f xs = xs" by (simp add: update_where_def)

lemma quiet_put:
  assumes "\<And>q. q \<in> set (rst_resources st) \<Longrightarrow> rs_id q = i \<Longrightarrow> rs_tenant_id q = t \<Longrightarrow>
      w \<noteq> t \<and> rs_tenant_id (f q) = t \<or> acl_same (resource_row.truncate q) (resource_row.truncate (f q))"
  shows "quiet w st (put_resource t i f st)"
  by (rule quiet_update [where P = "\<lambda>r. rs_id r = i \<and> rs_tenant_id r = t" and f = f and Q = "\<lambda>_. False" and g = id])
    (use assms in \<open>auto simp: put_resource_def update_where_False\<close>)

lemma quiet_shields:
  assumes "\<And>x. x \<in> set (rst_shields st) \<Longrightarrow> Q x \<Longrightarrow> shield_same (shield_row.truncate x) (shield_row.truncate (g x))"
  shows "quiet w st (st\<lparr>rst_shields := update_where Q g (rst_shields st)\<rparr>)"
  by (rule quiet_update [where P = "\<lambda>_. False" and f = id and Q = Q and g = g])
    (use assms in \<open>auto simp: update_where_False\<close>)

lemma filter_truncate:
  "(\<And>x. x \<in> set xs \<Longrightarrow> P x \<Longrightarrow> rs_tenant_id x \<noteq> w) \<Longrightarrow>
   filter (\<lambda>r. rs_tenant_id r = w) (map resource_row.truncate (filter (\<lambda>x. \<not> P x) xs)) =
   filter (\<lambda>r. rs_tenant_id r = w) (map resource_row.truncate xs)"
  by (induction xs) auto

lemma quiet_delete:
  assumes inv: "res_inv st" and P: "\<And>r. r \<in> set (rst_resources st) \<Longrightarrow> P r \<Longrightarrow> rs_tenant_id r \<noteq> w"
  shows "quiet w st (delete_resources P st)"
proof -
  have a: "ar_resource_id a \<notin> rs_id ` {r \<in> set (rst_resources st). P r}"
    if aw: "a \<in> set (db_access_rules (rst_db st))" "ar_workspace_id a = w" for a
  proof
    assume "ar_resource_id a \<in> rs_id ` {r \<in> set (rst_resources st). P r}"
    then obtain r where r: "r \<in> set (rst_resources st)" "P r" "ar_resource_id a = rs_id r" by auto
    obtain x where x: "x \<in> set (rst_resources st)" "rs_id x = ar_resource_id a" "rs_tenant_id x = w"
      using res_inv_rules [OF inv] aw by (fastforce simp: rules_bound_def res_keys_def)
    have "x = r" using distinct_key_eq [OF res_inv_ids [OF inv] x(1) r(1)] x(2) r(3) by simp
    with P r x show False by simp
  qed
  have "filter (\<lambda>a. ar_workspace_id a = w)
      (filter (\<lambda>a. ar_resource_id a \<notin> rs_id ` {r \<in> set (rst_resources st). P r}) (db_access_rules (rst_db st))) =
      filter (\<lambda>a. ar_workspace_id a = w) (db_access_rules (rst_db st))"
    unfolding filter_filter using a by (intro filter_cong) auto
  then show ?thesis unfolding quiet_def acl_equiv_def rst_view_def delete_resources_def Let_def
    by (simp add: filter_truncate [OF P] list_all2_same)
qed

lemma delete_none: "\<forall>r\<in>set (rst_resources st). \<not> P r \<Longrightarrow> delete_resources P st = st"
  by (simp add: delete_resources_def)

lemma delete_one_quiet:
  assumes inv: "res_inv st" and d: "delete_one failed t i P st = (x, st')" and w: "w \<noteq> t \<or> x \<noteq> Inr True"
  shows "quiet w st st'"
proof (cases "w = t")
  case False
  then show ?thesis using d inv
    by (auto simp: delete_one_def one_resource_def split: option.splits if_splits intro!: quiet_delete)
next
  case True
  with w d have "st' = st"
    by (auto simp: delete_one_def count_where_def filter_empty_conv split: option.splits if_splits intro!: delete_none)
  then show ?thesis by simp
qed

section \<open>Functions of the store\<close>

text \<open>A row that is there is read back unless the read itself fails.\<close>

lemma find_resource_I:
  "r \<in> set (rst_resources st) \<Longrightarrow> rs_id r = i \<Longrightarrow> rs_tenant_id r = t \<Longrightarrow> \<exists>x. find_resource st t i = Some x"
  by (cases "find_resource st t i") (auto simp: find_resource_def select_one_None)

lemma GetByID_found: "find_resource st t i = Some r \<Longrightarrow> \<not> fails SGetResource \<Longrightarrow> GetByID fails t (Some i) st = Inr (scanRow st r)"
  by (simp add: GetByID_def)

lemma find_resource_put:
  assumes "distinct (map rs_id (rst_resources st))" and "find_resource st t i = Some r"
    and "rs_id (f r) = i" and "rs_tenant_id (f r) = t"
  shows "find_resource (put_resource t i f st) t i = Some (f r)"
proof -
  note r = find_resource_Some [OF assms(2)]
  have "put_resource t i f st = put_resource t i (\<lambda>_. f r) st" by (rule put_resource_const [OF assms(1,2)])
  moreover have "find_resource (put_resource t i (\<lambda>_. f r) st) t i = Some (f r)"
    unfolding find_resource_def
  proof (rule select_one_by_key [where k = rs_id])
    show "distinct (map rs_id (rst_resources (put_resource t i (\<lambda>_. f r) st)))"
    proof -
      have "map rs_id (rst_resources (put_resource t i (\<lambda>_. f r) st)) = map rs_id (rst_resources st)"
        using assms(3) by (auto simp: put_resource_def update_where_def)
      then show ?thesis using assms(1) by simp
    qed
    show "f r \<in> set (rst_resources (put_resource t i (\<lambda>_. f r) st))"
      using r by (auto simp: put_resource_def row_simps image_iff intro!: bexI [of _ r])
  qed (use assms(3,4) in auto)
  ultimately show ?thesis by simp
qed

lemma Create_quiet:
  assumes "Create fails now newid t input st = (x, st')" and "w \<noteq> t \<or> isl x \<and> \<not> fails SGetResource"
  shows "quiet w st st'"
proof (cases "st' = st")
  case False
  with assms(1) obtain n host sa where i: "insert_row now newid t n sa host input st = Inr st'"
      and x: "x = GetByID fails t (Some newid) st'"
    by (auto simp: Create_def Let_def split: sum.splits prod.splits option.splits if_splits)
  then obtain r where r: "st' = st\<lparr>rst_resources := rst_resources st @ [r]\<rparr>" "rs_tenant_id r = t" "rs_id r = newid"
    by (auto simp: insert_row_def Let_def split: option.splits if_splits)
  then obtain y where "find_resource st' t newid = Some y" using find_resource_I [of r st' newid t] by auto
  with x assms(2) have "w \<noteq> t" using GetByID_found by fastforce
  then show ?thesis using r by (simp add: quiet_def acl_equiv_def rst_view_def list_all2_same)
qed simp

text \<open>An update the compiler does not see.\<close>

lemma irrelevant_plan:
  assumes n: "normalize_update input0 = Inr input" and a: "\<not> ACLRelevantUpdate input0"
    and p: "plan_update fails now t i input r st = Inr (r', moved)"
  shows "acl_same (resource_row.truncate r) (resource_row.truncate r')"
proof -
  have i: "input = input0" "ui_Name input = None" "ui_Host input = None" "ui_Protocol input = None"
      "ui_PortFrom input = None" "ui_RemoteNetworkID input = None"
    using n a by (auto simp: normalize_update_def ACLRelevantUpdate_def)
  have "moved = None" "r' = updated_row now input (rs_host r) (rs_remote_network_id r) None r"
    using p i by (auto simp: plan_update_def new_network_def Let_def split: option.splits)
  then show ?thesis using i
    by (auto simp: updated_row_def Let_def acl_same_def resource_row.truncate_def or_else_def enforced_def erase_status_def)
qed

lemma Update_quiet:
  assumes inv: "res_inv st" and u: "Update fails now t i input0 st = (x, st')"
    and w: "w \<noteq> t \<or> isl x \<and> \<not> fails SGetResource \<or> \<not> ACLRelevantUpdate input0"
  shows "quiet w st st'"
proof (cases "st' = st")
  case False
  from u False obtain rid input r r' moved where "i = Some rid" and n: "normalize_update input0 = Inr input"
    and f: "find_resource st t rid = Some r" and p: "plan_update fails now t rid input r st = Inr (r', moved)"
    and "update_ports_ok input" "row_allowed st r'" and st': "st' = put_resource t rid (\<lambda>_. r') st"
    by (rule Update_changed)
  have r': "rs_id r' = rid" "rs_tenant_id r' = t"
    using plan_updateE [OF p] find_resource_Some [OF f] by (metis updated_row_sel(1), metis updated_row_sel(2))
  have fs: "find_resource st' t rid = Some r'"
    unfolding st' using find_resource_put [OF res_inv_ids [OF inv] f, of "\<lambda>_. r'"] r' by simp
  have one: "q = r" if "q \<in> set (rst_resources st)" "rs_id q = rid" for q
    using distinct_key_eq [OF res_inv_ids [OF inv] that(1), of r] find_resource_Some [OF f] that(2) by simp
  show ?thesis
  proof (cases "ACLRelevantUpdate input0")
    case True
    have "w \<noteq> t"
    proof
      assume "w = t"
      with w True have "isl x" "\<not> fails SGetResource" by auto
      with u f fs n p st' False show False
        by (auto simp: Update_def Let_def \<open>i = Some rid\<close> GetByID_found split: if_splits)
    qed
    with r' show ?thesis unfolding st' by (intro quiet_put) simp
  next
    case False
    then show ?thesis unfolding st' using one irrelevant_plan [OF n False p] by (intro quiet_put) auto
  qed
qed simp

lemma MarkProtecting_quiet:
  assumes inv: "res_inv st" and m: "MarkProtecting fails now t i s st = (x, st')"
    and w: "w \<noteq> t \<or> isl x \<and> \<not> fails SGetResource"
  shows "quiet w st st'"
proof (cases "st' = st")
  case False
  with m obtain rid r sh where f: "find_resource st t rid = Some r"
      and st': "st' = put_resource t rid (\<lambda>r. r\<lparr>rs_shield_id := Some (sh_id (sh :: shield_full)), rs_status := ''protecting'',
        rs_pending_action := ''apply'', rs_error_message := None, rs_updated_at := now\<rparr>) st"
      and x: "x = GetByID fails t (Some rid) st'"
    by (auto simp: MarkProtecting_def Let_def split: option.splits if_splits bind_splits)
  have "\<exists>y. find_resource st' t rid = Some y"
    unfolding st' using find_resource_put [OF res_inv_ids [OF inv] f] find_resource_Some [OF f] by fastforce
  with x w have "w \<noteq> t" using GetByID_found by fastforce
  then show ?thesis unfolding st' by (intro quiet_put) simp
qed simp

lemma row_transition_changed:
  assumes inv: "res_inv st" and m: "row_transition fails e t i P f st = (x, st')" and "st' \<noteq> st"
    and k: "\<And>r. same_rule r (f r)"
  obtains rid r where "i = Some rid" "find_resource st t rid = Some r" "P r" "st' = put_resource t rid f st"
    "x = GetByID fails t (Some rid) st'" "find_resource st' t rid = Some (f r)"
proof -
  from m \<open>st' \<noteq> st\<close> obtain rid r where f: "i = Some rid" "find_resource st t rid = Some r" "P r"
      "st' = put_resource t rid f st" "x = GetByID fails t (Some rid) st'"
    by (auto simp: row_transition_def Let_def split: option.splits if_splits)
  moreover have "rs_id (f r) = rid" "rs_tenant_id (f r) = t"
    using k [of r] find_resource_Some [OF f(2)] by (auto simp: same_rule_def)
  ultimately show thesis using that find_resource_put [OF res_inv_ids [OF inv] f(2)] by blast
qed

lemma row_transition_quiet:
  assumes inv: "res_inv st" and m: "row_transition fails e t i P f st = (x, st')" and k: "\<And>r. same_rule r (f r)"
    and w: "w \<noteq> t \<or> isl x \<and> \<not> fails SGetResource"
  shows "quiet w st st'"
proof (cases "st' = st")
  case False
  from inv m False k obtain rid r where st': "st' = put_resource t rid f st"
      and x: "x = GetByID fails t (Some rid) st'" "find_resource st' t rid = Some (f r)"
    by (rule row_transition_changed)
  with w have "w \<noteq> t" using GetByID_found by fastforce
  then show ?thesis unfolding st' using k by (intro quiet_put) (simp add: same_rule_def)
qed simp

lemma MarkDeleting_quiet:
  "res_inv st \<Longrightarrow> MarkDeleting fails now t i st = (x, st') \<Longrightarrow> w \<noteq> t \<or> isl x \<and> \<not> fails SGetResource \<Longrightarrow> quiet w st st'"
  unfolding MarkDeleting_def by (erule row_transition_quiet, assumption) (simp_all add: same_rule_def)

text \<open>An unprotect that waits for its shield stays in its route class.\<close>

lemma MarkUnprotecting_quiet:
  assumes inv: "res_inv st" and m: "MarkUnprotecting fails now t i st = (x, st')"
    and w: "w \<noteq> t \<or> isl x \<and> \<not> fails SGetResource \<or> (\<exists>row. x = Inr row \<and> rs_status (rv_row row) = ''protecting'')"
  shows "quiet w st st'"
proof (cases "st' = st \<or> w \<noteq> t \<or> isl x \<and> \<not> fails SGetResource")
  case True
  then show ?thesis using row_transition_quiet [OF inv m [unfolded MarkUnprotecting_def]] by (auto simp: same_rule_def)
next
  case F: False
  let ?f = "\<lambda>r. r\<lparr>rs_status := (if shield_gone st r then ''unprotected'' else ''protecting''),
      rs_pending_action := ''remove'', rs_updated_at := now\<rparr>"
  from F have ne: "st' \<noteq> st" by simp
  have k: "same_rule r (?f r)" for r by (simp add: same_rule_def)
  from inv m [unfolded MarkUnprotecting_def] ne k obtain rid r where f: "find_resource st t rid = Some r"
      "rs_status r = ''protected''" "st' = put_resource t rid ?f st"
      "x = GetByID fails t (Some rid) st'" "find_resource st' t rid = Some (?f r)"
    by (rule row_transition_changed)
  from F w obtain row where "x = Inr row" "rs_status (rv_row row) = ''protecting''" by auto
  with f(4,5) have "\<not> shield_gone st r" by (auto simp: GetByID_def scanRow_def Let_def split: if_splits)
  moreover have "q = r" if "q \<in> set (rst_resources st)" "rs_id q = rid" for q
    using distinct_key_eq [OF res_inv_ids [OF inv] that(1), of r] find_resource_Some [OF f(1)] that(2) by simp
  ultimately show ?thesis unfolding f(3) using f(2)
    by (intro quiet_put) (auto simp: acl_same_def resource_row.truncate_def erase_status_def)
qed

lemma erase_by_route:
  "s \<in> set resource_statuses \<Longrightarrow> s \<noteq> ''deleting'' \<Longrightarrow>
   erase_status s = (if connectorRouted s then ''unprotected'' else ''protected'')"
  by (auto simp: resource_statuses_def erase_status_def connectorRouted_def)

lemma ack_update_quiet:
  assumes inv: "res_inv st" and m: "ack_update fails now t rid ack st = (x, st')"
    and w: "w \<noteq> t \<or> x \<noteq> Inr True \<and> ak_Status ack \<noteq> ''deleting''"
  shows "quiet w st st'"
proof (cases "st' = st")
  case False
  with m obtain r where f: "find_resource st t rid = Some r" "ack_applies st ack r"
      "ak_Status ack \<in> set resource_statuses" "st' = put_resource t rid (acked_row now ack) st"
      "x = Inr (connectorRouted (rs_status r) \<noteq> connectorRouted (ak_Status ack))"
    by (auto simp: ack_update_def split: option.splits if_splits)
  have "rs_status r \<in> set resource_statuses" "rs_status r \<noteq> ''deleting''"
    using res_inv_typed [OF inv, of r] find_resource_Some [OF f(1)] f(2) by (auto simp: row_typed_def row_checks_def ack_applies_def)
  then have e: "erase_status (ak_Status ack) = erase_status (rs_status r)" if "w = t"
    using w f(3,5) that by (simp add: erase_by_route)
  have "q = r" if "q \<in> set (rst_resources st)" "rs_id q = rid" for q
    using distinct_key_eq [OF res_inv_ids [OF inv] that(1), of r] find_resource_Some [OF f(1)] that(2) by simp
  then show ?thesis unfolding f(4) using e
    by (intro quiet_put) (auto simp: acl_same_def resource_row.truncate_def acked_row_def)
qed simp

lemma RecordAck_quiet:
  assumes inv: "res_inv st" and m: "RecordAck fails now t ack st = (x, st')"
    and w: "w \<noteq> t \<or> x \<noteq> Inr True \<and> ak_Status ack \<noteq> ''deleting''"
  shows "quiet w st st'"
proof (cases "ak_ResourceID ack")
  case (Some rid)
  show ?thesis
  proof (cases "ak_Status ack = ''unprotected''")
    case True
    obtain y st1 where d: "delete_one (fails SReap) t (Some rid) (ack_tombstone ack) st = (y, st1)" by force
    show ?thesis
    proof (cases "y = Inr False")
      case F: True
      have "quiet w st st1" by (rule delete_one_quiet [OF inv d]) (simp add: F)
      moreover have "ack_update fails now t rid ack st1 = (x, st')" using m Some True d F by (simp add: RecordAck_def)
      then have "quiet w st1 st'" by (rule ack_update_quiet [OF res_inv_delete_one [OF inv d]]) (rule w)
      ultimately show ?thesis by (rule quiet_trans)
    next
      case False
      then have "st' = st1" "x = y" using m Some True d by (auto simp: RecordAck_def split: sum.splits if_splits)
      with delete_one_quiet [OF inv d] w show ?thesis by auto
    qed
  next
    case False
    then have "ack_update fails now t rid ack st = (x, st')" using m Some by (simp add: RecordAck_def)
    then show ?thesis by (rule ack_update_quiet [OF inv]) (rule w)
  qed
qed (use m in \<open>simp add: RecordAck_def\<close>)

lemma BuildShieldSnapshot_quiet:
  assumes b: "BuildShieldSnapshot utext sha fails s st = (x, st')"
  shows "quiet w st st'"
proof (cases "st' = st")
  case False
  show ?thesis
  proof (rule BuildShieldSnapshot_changed [OF b False])
    fix f
    assume st': "st' = st\<lparr>rst_shields := update_where (\<lambda>y. sh_id y = s) f (rst_shields st)\<rparr>"
      and k: "\<And>y. shield_row.truncate (f y) = shield_row.truncate y"
    show ?thesis unfolding st' by (rule quiet_shields) (simp add: k)
  qed
qed simp

text \<open>The connector whose stream reports belongs to the workspace of the stream.\<close>

definition stream_of :: "uuid \<Rightarrow> uuid \<Rightarrow> rstore \<Rightarrow> bool" where
  "stream_of t c st \<longleftrightarrow> (\<forall>x\<in>set (db_connectors (rst_db st)). co_id x = c \<longrightarrow> co_tenant_id x = t)"

lemma UpdateShieldHealth_changed:
  assumes "UpdateShieldHealth fails now c rep st = (x, st')" and "st' \<noteq> st"
  obtains sid s where "find_shield st (Some sid) = Some s" "report_accepted c st s"
    "x = Inr (sh_connector_id s \<noteq> Some c, sh_lan_ip s \<noteq> NULLIF_empty (hb_LanIP rep))"
    "st' = st\<lparr>rst_shields := update_where (\<lambda>x. sh_id x = sid) (reported_shield now c rep) (rst_shields st),
       rst_resources := update_where (synced_host s (hb_LanIP rep)) (\<lambda>r. r\<lparr>rs_host := hb_LanIP rep\<rparr>) (rst_resources st)\<rparr>"
  using assms by (auto simp: UpdateShieldHealth_def Let_def split: option.splits if_splits)

lemma UpdateShieldHealth_quiet:
  assumes inv: "res_inv st" and u: "UpdateShieldHealth fails now c rep st = (x, st')"
    and t: "stream_of t c st" and s: "hb_Status rep \<noteq> ''revoked''"
    and w: "w \<noteq> t \<or> x \<in> {Inr (False, False)} \<union> range Inl"
  shows "quiet w st st'"
proof (cases "st' = st")
  case False
  from u False obtain sid s where f: "find_shield st (Some sid) = Some s" and a: "report_accepted c st s"
    and x: "x = Inr (sh_connector_id s \<noteq> Some c, sh_lan_ip s \<noteq> NULLIF_empty (hb_LanIP rep))"
    and st': "st' = st\<lparr>rst_shields := update_where (\<lambda>x. sh_id x = sid) (reported_shield now c rep) (rst_shields st),
       rst_resources := update_where (synced_host s (hb_LanIP rep)) (\<lambda>r. r\<lparr>rs_host := hb_LanIP rep\<rparr>) (rst_resources st)\<rparr>"
    by (rule UpdateShieldHealth_changed)
  have sh: "s \<in> set (rst_shields st)" "sh_id s = sid" using select_one_Some [OF f [unfolded find_shield_def]] by auto
  have one: "y = s" if "y \<in> set (rst_shields st)" "sh_id y = sid" for y
    using distinct_key_eq [OF res_inv_shield_ids [OF inv] that(1) sh(1)] that(2) sh(2) by simp
  have st: "sh_tenant_id s = t" "sh_status s \<noteq> ''revoked''"
    using a t by (auto simp: report_accepted_def stream_of_def list_ex_iff)
  have rt: "rs_tenant_id q = t" if "q \<in> set (rst_resources st)" "rs_shield_id q = Some sid" for q
    using res_inv_typed [OF inv that(1)] that(2) one st(1) by (auto simp: row_typed_def owns_shield_def list_ex_iff)
  show ?thesis
  proof (rule quiet_update [where w = w])
    show "rs_tenant_id q \<noteq> w \<and> rs_tenant_id (q\<lparr>rs_host := hb_LanIP rep\<rparr>) \<noteq> w \<or>
        acl_same (resource_row.truncate q) (resource_row.truncate (q\<lparr>rs_host := hb_LanIP rep\<rparr>))"
      if "q \<in> set (rst_resources st)" "synced_host s (hb_LanIP rep) q" for q
      using w x that rt [OF that(1)] sh(2) by (auto simp: synced_host_def)
    show "sh_tenant_id y \<noteq> w \<and> sh_tenant_id (reported_shield now c rep y) \<noteq> w \<or>
        shield_same (shield_row.truncate y) (shield_row.truncate (reported_shield now c rep y))"
      if "y \<in> set (rst_shields st)" "sh_id y = sid" for y
      using w x one [OF that] st s by (auto simp: reported_shield_def shield_same_def shield_row.truncate_def)
  qed (simp_all add: st')
qed simp

lemma markDisconnected_quiet:
  assumes "markDisconnected fails now d st = (x, st')"
  shows "quiet w st st'"
proof (cases "st' = st")
  case False
  with assms obtain P where st': "st' = st\<lparr>rst_shields := update_where P
      (\<lambda>s. s\<lparr>sh_status := ''disconnected'', sh_updated_at := now\<rparr>) (rst_shields st)\<rparr>"
      and P: "\<And>s. P s \<Longrightarrow> sh_status s = ''active''"
    by (auto simp: markDisconnected_def Let_def split: if_splits)
  show ?thesis unfolding st'
    by (rule quiet_shields) (auto dest: P simp: shield_same_def shield_row.truncate_def)
qed simp

section \<open>The callers\<close>

lemma send_snapshot_quiet: "send_snapshot env c s st = (es, st') \<Longrightarrow> quiet w st st'"
  by (auto simp: send_snapshot_def split: prod.splits sum.splits dest: BuildShieldSnapshot_quiet)

lemma PushSnapshotForShield_quiet: "PushSnapshotForShield env c s st = (es, st') \<Longrightarrow> quiet w st st'"
  by (auto simp: PushSnapshotForShield_def split: option.splits if_splits dest: send_snapshot_quiet)

lemma push_snapshots_quiet: "push_snapshots env ps st = (es, st') \<Longrightarrow> quiet w st st'"
proof (induction env ps st arbitrary: es rule: push_snapshots.induct)
  case (2 env c s ps st)
  obtain e1 st1 where p: "PushSnapshotForShield env (Some c) (Some s) st = (e1, st1)" by force
  obtain e2 st2 where q: "push_snapshots env ps st1 = (e2, st2)" by force
  from 2 p q show ?case using quiet_trans [OF PushSnapshotForShield_quiet [OF p]] by auto
qed simp

lemma CreateResource_quiet:
  assumes "CreateResource env t input st = (x, es, st')" and "ENotify w \<notin> set es" and "\<not> re_fails env SGetResource"
  shows "quiet w st st'"
proof -
  obtain y st1 where c: "Create (re_fails env) (re_now env) (re_newid env) t input st = (y, st1)" by force
  have "quiet w st st1"
    by (rule Create_quiet [OF c]) (use assms c in \<open>cases y; auto simp: CreateResource_def\<close>)
  moreover have "st' = st1" using assms c by (cases y) (auto simp: CreateResource_def)
  ultimately show ?thesis by simp
qed

lemma UpdateResource_quiet:
  assumes inv: "res_inv st" and "UpdateResource env t i input st = (x, es, st')" and "ENotify w \<notin> set es"
    and "\<not> re_fails env SGetResource"
  shows "quiet w st st'"
proof -
  obtain y st1 where u: "Update (re_fails env) (re_now env) t i input st = (y, st1)" by force
  have q: "quiet w st st1"
    by (rule Update_quiet [OF inv u])
      (use assms u in \<open>cases y; auto simp: UpdateResource_def Let_def split: if_splits prod.splits\<close>)
  show ?thesis
  proof (cases "st' = st1")
    case False
    with assms u obtain ps es' where "push_snapshots env ps st1 = (es', st')"
      by (cases y) (auto simp: UpdateResource_def Let_def split: if_splits prod.splits)
    then show ?thesis using q push_snapshots_quiet quiet_trans by blast
  qed (use q in simp)
qed

lemma ProtectResource_quiet:
  assumes inv: "res_inv st" and "ProtectResource env t i s st = (x, es, st')" and "ENotify w \<notin> set es"
    and "\<not> re_fails env SGetResource"
  shows "quiet w st st'"
proof -
  obtain y st1 where u: "MarkProtecting (re_fails env) (re_now env) t i s st = (y, st1)" by force
  have q: "quiet w st st1"
    by (rule MarkProtecting_quiet [OF inv u])
      (use assms u in \<open>cases y; auto simp: ProtectResource_def Let_def split: if_splits prod.splits\<close>)
  show ?thesis
  proof (cases "st' = st1")
    case False
    with assms u obtain c s es' where "PushSnapshotForShield env c s st1 = (es', st')"
      by (cases y) (auto simp: ProtectResource_def Let_def split: if_splits prod.splits)
    then show ?thesis using q PushSnapshotForShield_quiet quiet_trans by blast
  qed (use q in simp)
qed

lemma UnprotectResource_quiet:
  assumes inv: "res_inv st" and "UnprotectResource env t i st = (x, es, st')" and "ENotify w \<notin> set es"
    and "\<not> re_fails env SGetResource"
  shows "quiet w st st'"
proof -
  obtain y st1 where u: "MarkUnprotecting (re_fails env) (re_now env) t i st = (y, st1)" by force
  have q: "quiet w st st1"
    by (rule MarkUnprotecting_quiet [OF inv u])
      (use assms u in \<open>cases y; auto simp: UnprotectResource_def Let_def split: if_splits prod.splits\<close>)
  show ?thesis
  proof (cases "st' = st1")
    case False
    with assms u obtain c s es' where "PushSnapshotForShield env c s st1 = (es', st')"
      by (cases y) (auto simp: UnprotectResource_def Let_def split: if_splits prod.splits)
    then show ?thesis using q PushSnapshotForShield_quiet quiet_trans by blast
  qed (use q in simp)
qed

lemma delete_by_status_quiet:
  assumes inv: "res_inv st" and d: "delete_by_status env t i row st = (x, es, st')" and n: "ENotify w \<notin> set es"
    and g: "\<not> re_fails env SGetResource"
  shows "quiet w st st'"
proof -
  consider "st' = st"
    | y st1 c s es' where "MarkDeleting (re_fails env) (re_now env) t i st = (y, st1)" "w \<noteq> t \<or> isl y"
        "st' = st1 \<or> PushSnapshotForShield env c s st1 = (es', st')"
    | y where "DeleteRow (re_fails env) t i st = (y, st')" "w \<noteq> t \<or> y \<noteq> None"
    using d n by (fastforce simp: delete_by_status_def Let_def split: if_splits prod.splits sum.splits option.splits)
  then show ?thesis
  proof cases
    case (2 y st1 c s es')
    have "quiet w st st1" by (rule MarkDeleting_quiet [OF inv 2(1)]) (use 2(2) g in auto)
    then show ?thesis using 2(3) PushSnapshotForShield_quiet quiet_trans by blast
  next
    case (3 y)
    let ?P = "\<lambda>r. rs_status r \<in> {''pending'', ''unprotected''}"
    obtain z st1 where z: "delete_one (re_fails env SDelete) t i ?P st = (z, st1)" by force
    show ?thesis
    proof (cases "i = None")
      case False
      with 3 z have "st' = st1" "w \<noteq> t \<or> z \<noteq> Inr True"
        by (auto simp: DeleteRow_def split: sum.splits if_splits)
      with delete_one_quiet [OF inv z] show ?thesis by simp
    qed (use 3 in \<open>simp add: DeleteRow_def\<close>)
  qed simp
qed

lemma DeleteResource_quiet:
  assumes inv: "res_inv st" and d: "DeleteResource env t i st = (x, es, st')" and n: "ENotify w \<notin> set es"
    and g: "\<not> re_fails env SGetResource"
  shows "quiet w st st'"
proof (cases "GetByID (re_fails env) t i st")
  case (Inl e)
  then show ?thesis using d by (simp add: DeleteResource_def)
next
  case (Inr row)
  show ?thesis
  proof (cases "rs_status (rv_row row) \<in> {''protected'', ''failed'', ''deleting''}")
    case True
    obtain y st1 where y: "DeleteIfShieldGone (re_fails env) t i st = (y, st1)" by force
    show ?thesis
    proof (cases "y = Inr False")
      case F: True
      have "quiet w st st1" using delete_one_quiet [OF inv y [unfolded DeleteIfShieldGone_def]] F by simp
      moreover have "delete_by_status env t i row st1 = (x, es, st')"
        using d Inr True y F unfolding DeleteResource_def by simp
      then have "quiet w st1 st'" by (rule delete_by_status_quiet [OF DeleteIfShieldGone_inv [OF inv y] _ n g])
      ultimately show ?thesis by (rule quiet_trans)
    next
      case False
      then have "st' = st1" "w \<noteq> t \<or> y \<noteq> Inr True"
        using d Inr True y n unfolding DeleteResource_def by (auto split: sum.splits if_splits)
      with delete_one_quiet [OF inv y [unfolded DeleteIfShieldGone_def]] show ?thesis by simp
    qed
  next
    case False
    then have "delete_by_status env t i row st = (x, es, st')" using d Inr unfolding DeleteResource_def by simp
    then show ?thesis by (rule delete_by_status_quiet [OF inv _ n g])
  qed
qed

lemma ForceDeleteResource_quiet:
  assumes inv: "res_inv st" and d: "ForceDeleteResource env t i st = (x, es, st')" and n: "ENotify w \<notin> set es"
  shows "quiet w st st'"
proof -
  obtain y st1 where y: "ForceDeleteRow (re_fails env) t i st = (y, st1)" by force
  have "quiet w st st1"
    by (rule delete_one_quiet [OF inv y [unfolded ForceDeleteRow_def]])
      (use d n y in \<open>cases y; auto simp: ForceDeleteResource_def Let_def split: if_splits prod.splits\<close>)
  moreover have "st' = st1 \<or> (\<exists>c s es'. PushSnapshotForShield env c s st1 = (es', st'))"
    using d y by (cases y) (auto simp: ForceDeleteResource_def Let_def split: if_splits prod.splits sum.splits)
  ultimately show ?thesis using PushSnapshotForShield_quiet quiet_trans by blast
qed

lemma record_acks_quiet:
  "res_inv st \<Longrightarrow> record_acks t acks st = (b, st') \<Longrightarrow> w \<noteq> t \<or> \<not> b \<Longrightarrow>
   \<forall>p\<in>set acks. ak_Status (snd p) \<noteq> ''deleting'' \<Longrightarrow> quiet w st st'"
proof (induction t acks st arbitrary: b rule: record_acks.induct)
  case (2 t env ack acks st)
  obtain x st1 where r: "RecordAck (re_fails env) (re_now env) t ack st = (x, st1)" by force
  obtain b2 st2 where s: "record_acks t acks st1 = (b2, st2)" by force
  have i1: "res_inv st1" by (rule RecordAck_inv [OF 2(3) r])
  have e: "st' = st2" "w \<noteq> t \<or> \<not> b2" "w \<noteq> t \<or> x \<noteq> Inr True"
    using 2(4,5) r s by (auto split: sum.splits)
  have "quiet w st st1" by (rule RecordAck_quiet [OF 2(3) r]) (use e(3) 2(6) in auto)
  moreover have "quiet w st1 st'"
  proof (cases x)
    case (Inl a)
    show ?thesis by (rule 2(1) [OF r [symmetric] Inl i1 s [folded e(1)] e(2)]) (use 2(6) in simp)
  next
    case (Inr a)
    show ?thesis by (rule 2(2) [OF r [symmetric] Inr i1 s [folded e(1)] e(2)]) (use 2(6) in simp)
  qed
  ultimately show ?case by (rule quiet_trans)
qed simp

lemma on_reaped_quiet:
  "on_reaped env ts st = (es, st') \<Longrightarrow> quiet w st st' \<and> (\<forall>x\<in>set ts. ENotify (rt_TenantID x) \<in> set es)"
proof (induction env ts st arbitrary: es rule: on_reaped.induct)
  case (2 env x ts st)
  obtain ps st1 where p: "PushSnapshotForShield env (rt_ConnectorID x) (rt_ShieldID x) st = (ps, st1)" by force
  obtain e2 st2 where q: "on_reaped env ts st1 = (e2, st2)" by force
  from 2 p q show ?case using quiet_trans [OF PushSnapshotForShield_quiet [OF p]] by fastforce
qed simp

lemma sweep_tombstones_quiet:
  assumes inv: "res_inv st" and s: "sweep_tombstones env st = (x, es, st')" and n: "ENotify w \<notin> set es"
  shows "quiet w st st'"
proof (cases "re_fails env SDelete")
  case False
  let ?P = "stale_tombstone (re_now env) tombstone_grace"
  obtain ts where r: "ReapStaleTombstones (re_fails env) (re_now env) tombstone_grace st = (Inr ts, delete_resources ?P st)"
      and ts: "map rt_TenantID ts = map rs_tenant_id (filter ?P (rst_resources st))"
    using False by (simp add: ReapStaleTombstones_def comp_def)
  obtain e2 st2 where o: "on_reaped env ts (delete_resources ?P st) = (e2, st2)" by force
  have e: "es = e2" "st' = st2" using s r o by (simp_all add: sweep_tombstones_def)
  have "rs_tenant_id q \<noteq> w" if "q \<in> set (rst_resources st)" "?P q" for q
  proof -
    have "rs_tenant_id q \<in> set (map rt_TenantID ts)" unfolding ts using that by simp
    then show ?thesis using on_reaped_quiet [OF o] n e by auto
  qed
  then have "quiet w st (delete_resources ?P st)" by (rule quiet_delete [OF inv])
  then show ?thesis using on_reaped_quiet [OF o] e quiet_trans by blast
qed (use s in \<open>simp add: sweep_tombstones_def ReapStaleTombstones_def\<close>)

lemma UpdateShieldHealth_db: "UpdateShieldHealth fails now c rep st = (x, st') \<Longrightarrow> rst_db st' = rst_db st"
  by (auto simp: UpdateShieldHealth_def Let_def split: option.splits if_splits)

lemma PushSnapshotForShield_db: "PushSnapshotForShield env c s st = (es, st') \<Longrightarrow> rst_db st' = rst_db st"
  by (auto simp: PushSnapshotForShield_def send_snapshot_def BuildShieldSnapshot_def Let_def
      split: option.splits if_splits sum.splits prod.splits)

lemma shield_reports_quiet:
  "res_inv st \<Longrightarrow> shield_reports c reps st = (b, es, st') \<Longrightarrow> w \<noteq> t \<or> \<not> b \<Longrightarrow> stream_of t c st \<Longrightarrow>
   \<forall>p\<in>set reps. report_typed (snd p) \<and> hb_Status (snd p) \<noteq> ''revoked'' \<Longrightarrow> quiet w st st'"
proof (induction c reps st arbitrary: b es rule: shield_reports.induct)
  case (2 c env rep reps st)
  obtain x st1 where u: "UpdateShieldHealth (re_fails env) (re_now env) c rep st = (x, st1)" by force
  have i1: "res_inv st1" by (rule UpdateShieldHealth_inv [OF 2(3) u]) (use 2(7) in simp)
  have s1: "stream_of t c st1" using 2(6) UpdateShieldHealth_db [OF u] by (simp add: stream_of_def)
  show ?case
  proof (cases x)
    case (Inl e)
    have q: "quiet w st st1" by (rule UpdateShieldHealth_quiet [OF 2(3) u 2(6)]) (use 2(7) Inl in auto)
    have "quiet w st1 st'" by (rule 2(1) [OF u [symmetric] Inl i1 _ 2(5) s1]) (use 2(4,7) u Inl in auto)
    with q show ?thesis by (rule quiet_trans)
  next
    case (Inr p)
    obtain cc lc where p: "p = (cc, lc)" by force
    let ?q = "if lc then PushSnapshotForShield env (Some c) (hb_ShieldID rep) st1 else ([], st1)"
    obtain ps st2 where q: "?q = (ps, st2)" by force
    obtain b2 es2 st3 where r: "shield_reports c reps st2 = (b2, es2, st3)" by (cases "shield_reports c reps st2") auto
    have e: "st' = st3" "w \<noteq> t \<or> \<not> cc \<and> \<not> lc" "w \<noteq> t \<or> \<not> b2" using 2(4,5) u Inr p q r by (auto simp: Let_def)
    have "quiet w st st1" by (rule UpdateShieldHealth_quiet [OF 2(3) u 2(6)]) (use 2(7) Inr p e(2) in auto)
    moreover have "quiet w st1 st2" using q by (auto split: if_splits dest: PushSnapshotForShield_quiet)
    moreover have "quiet w st2 st'"
    proof (rule 2(2) [OF u [symmetric] Inr p [symmetric] refl refl q [symmetric] _ r [folded e(1)] e(3)])
      show "res_inv st2" using q i1 by (auto split: if_splits dest: PushSnapshotForShield_inv)
      show "stream_of t c st2" using q s1 by (auto simp: stream_of_def split: if_splits dest: PushSnapshotForShield_db)
    qed (use 2(7) in simp)
    ultimately show ?thesis using quiet_trans by blast
  qed
qed simp

lemma reap_all_quiet:
  "res_inv st \<Longrightarrow> reap_all env t s is st = (b, st') \<Longrightarrow> w \<noteq> t \<or> \<not> b \<Longrightarrow> quiet w st st'"
proof (induction env t s "is" st arbitrary: b rule: reap_all.induct)
  case (2 env t s i "is" st)
  obtain x st1 where r: "ReapTombstone (re_fails env) t s (Some i) st = (x, st1)" by force
  obtain b2 st2 where q: "reap_all env t s is st1 = (b2, st2)" by force
  have e: "st' = st2" "w \<noteq> t \<or> x \<noteq> Inr True" "w \<noteq> t \<or> \<not> b2" using 2(3,4) r q by auto
  have "quiet w st st1" by (rule delete_one_quiet [OF 2(2) r [unfolded ReapTombstone_def] e(2)])
  moreover have "quiet w st1 st'"
    by (rule 2(1) [OF r [symmetric] ReapTombstone_inv [OF 2(2) r] q [folded e(1)] e(3)])
  ultimately show ?case by (rule quiet_trans)
qed simp

lemma reconcileShield_quiet:
  assumes inv: "res_inv st" and r: "reconcileShield env t c rep (rc, st) = (es, rc', st')" and n: "ENotify w \<notin> set es"
  shows "quiet w st st'"
proof (cases "GetDesiredForShield (re_fails env) (sr_ShieldID rep) st")
  case (Inr desired)
  let ?del = "case GetDeletingForShield (re_fails env) (sr_ShieldID rep) st of Inl _ \<Rightarrow> [] | Inr ds \<Rightarrow> ds"
  obtain resync dm where d: "note_drift (has_drift (map pr_ID desired) (sr_ActiveResourceIDs rep)) (sr_ShieldID rep) (rc_drift rc) = (resync, dm)"
    by force
  obtain rs am where a: "note_absent (sr_ActiveResourceIDs rep) ?del (rc_absent rc) = (rs, am)" by force
  obtain ps st1 where p: "(if resync then send_snapshot env c (sr_ShieldID rep) st else ([], st)) = (ps, st1)" by force
  obtain b st2 where q0: "reap_all env t (sr_ShieldID rep) rs st1 = (b, st2)" by force
  have "es = ps @ (if b then [ENotify t] else [])" "st' = st2"
    using r Inr d a p q0 by (simp_all add: reconcileShield_def Let_def)
  then have q: "reap_all env t (sr_ShieldID rep) rs st1 = (b, st')" and b: "w \<noteq> t \<or> \<not> b" using q0 n by auto
  have "quiet w st st1" "res_inv st1"
    using p inv by (auto split: if_splits dest: send_snapshot_quiet send_snapshot_inv)
  then show ?thesis using reap_all_quiet [OF _ q b] quiet_trans by blast
qed (use r in \<open>simp add: reconcileShield_def\<close>)

lemma handleResourceState_quiet:
  "res_inv (snd s) \<Longrightarrow> handleResourceState t c reps s = (es, s') \<Longrightarrow> ENotify w \<notin> set es \<Longrightarrow> quiet w (snd s) (snd s')"
proof (induction t c reps s arbitrary: es rule: handleResourceState.induct)
  case (2 t c env rep reps s)
  obtain rc st where s: "s = (rc, st)" by force
  show ?case
  proof (cases "re_fails env SShield \<or> \<not> list_ex (\<lambda>x. sh_id x = sr_ShieldID rep \<and> sh_connector_id x = Some c \<and> sh_tenant_id x = t) (rst_shields (snd s))")
    case True
    with 2(1) [OF True] 2(3,4,5) show ?thesis by simp
  next
    case False
    obtain es1 rc1 st1 where r: "reconcileShield env t c rep s = (es1, rc1, st1)"
      by (cases "reconcileShield env t c rep s") auto
    obtain es2 s2 where q: "handleResourceState t c reps (rc1, st1) = (es2, s2)"
      by (cases "handleResourceState t c reps (rc1, st1)")
    have e: "s' = s2" "ENotify w \<notin> set es1" "ENotify w \<notin> set es2" using 2(4,5) False r q by auto
    have i: "res_inv st1" using 2(3) s r reconcileShield_inv by auto
    have "quiet w (snd s) st1" using reconcileShield_quiet [of st env t c rep rc es1 rc1 st1 w] 2(3) s r e by simp
    moreover have "quiet w st1 (snd s')"
      using 2(2) [OF False r [symmetric] refl] i q e by simp
    ultimately show ?thesis by (rule quiet_trans)
  qed
qed simp

section \<open>Every request\<close>

text \<open>
  What the conclusion needs of a request: the row a mutation has written can be read back, no
  acknowledgement reports \<open>deleting\<close> and no shield report \<open>revoked\<close>, and the stream of a shield report
  belongs to its connector's workspace.
\<close>

fun request_regular :: "res_request \<Rightarrow> rstore \<Rightarrow> bool" where
  "request_regular (QCreate env t input) st \<longleftrightarrow> \<not> re_fails env SGetResource"
| "request_regular (QUpdate env t i input) st \<longleftrightarrow> \<not> re_fails env SGetResource"
| "request_regular (QProtect env t i s) st \<longleftrightarrow> \<not> re_fails env SGetResource"
| "request_regular (QUnprotect env t i) st \<longleftrightarrow> \<not> re_fails env SGetResource"
| "request_regular (QDelete env t i) st \<longleftrightarrow> \<not> re_fails env SGetResource"
| "request_regular (QAcks t acks) st \<longleftrightarrow> (\<forall>p\<in>set acks. ak_Status (snd p) \<noteq> ''deleting'')"
| "request_regular (QStatus t c reps) st \<longleftrightarrow> stream_of t c st \<and> (\<forall>p\<in>set reps. hb_Status (snd p) \<noteq> ''revoked'')"
| "request_regular _ st \<longleftrightarrow> True"

lemma handle_quiet:
  assumes inv: "res_inv (snd s)" and t: "request_typed q" "request_regular q (snd s)"
    and h: "handle q s = (es, s')" and n: "ENotify w \<notin> set es"
  shows "quiet w (snd s) (snd s')"
proof -
  obtain rc st where s: "s = (rc, st)" by force
  show ?thesis
  proof (cases q)
    case (QState t c reps)
    then show ?thesis using handleResourceState_quiet [OF inv _ n] h by simp
  next
    case (QStatus t c reps)
    obtain b es1 st1 where "shield_reports c reps st = (b, es1, st1)" by (cases "shield_reports c reps st") auto
    then show ?thesis using shield_reports_quiet [of st c reps b es1 st1 w t] QStatus assms s
      by (auto simp: handleShieldStatus_def)
  next
    case (QAcks t acks)
    then show ?thesis using assms s record_acks_quiet [of st t acks _ "snd s'" w]
      by (auto simp: handleResourceAcks_def Let_def split: prod.splits if_splits)
  qed (use assms s in \<open>auto split: prod.splits intro: CreateResource_quiet UpdateResource_quiet ProtectResource_quiet
      UnprotectResource_quiet DeleteResource_quiet ForceDeleteResource_quiet sweep_tombstones_quiet
      markDisconnected_quiet PushSnapshotForShield_quiet\<close>)
qed

end
