(* ===== verification/Res_Claims.thy ===== *)
theory Res_Claims
  imports Res_Notify Res_Snapshot
begin

text \<open>
  The properties of the resource component, and a small workspace that passes through the life of a
  protected resource as their witness: a shield registers and reports its address, a
  resource is created on that address, protected, and acknowledged.
\<close>

section \<open>Hosts\<close>

text \<open>
  C30. What \<open>NormalizeHost\<close> returns is canonical: normalising it again returns it with the same kind,
  and so does a name with a trailing dot. The pattern that the SQL statements use, digits and dots only,
  tells the two kinds of stored host apart.
\<close>

theorem normalize_host_canonical:
  assumes "NormalizeHost host = Inr (h, k)"
  shows "NormalizeHost h = Inr (h, k) \<and> (IsNameHost h \<longleftrightarrow> k = HostName) \<and>
         (k = HostName \<longrightarrow> NormalizeHost (h @ ''.'') = Inr (h, k))"
  using NormalizeHost_idem [OF assms] NormalizeHost_kind [OF assms] NormalizeHost_dot assms by blast

lemma ex_normalize: "NormalizeHost '' DB.Corp.Example. '' = Inr (''db.corp.example'', HostName)"
  by code_simp

theorem normalize_host_canonical_witness:
  "NormalizeHost '' DB.Corp.Example. '' = Inr (''db.corp.example'', HostName) \<and>
   NormalizeHost ''db.corp.example'' = Inr (''db.corp.example'', HostName) \<and>
   NormalizeHost ''db.corp.example.'' = Inr (''db.corp.example'', HostName)"
  using normalize_host_canonical [OF ex_normalize] ex_normalize by simp

section \<open>A workspace\<close>

definition ex_res_db :: zdb where
  "ex_res_db = \<lparr>db_access_rules = [], db_resources = [], db_groups = [], db_group_members = [], db_users = [],
     db_workspace_members = [], db_client_devices = [],
     db_remote_networks = [\<lparr>rn_id = 13, rn_tenant_id = 4, rn_name = ''lab'', rn_status = ''active''\<rparr>],
     db_shields = [], db_shield_revocations = [],
     db_connectors = [\<lparr>co_id = 50, co_tenant_id = 4, co_remote_network_id = 13, co_status = ''active'',
       co_lan_addr = None, co_trust_domain = None, co_last_heartbeat_at = None, co_revoked_at = None\<rparr>],
     db_placements = [], db_relays = [], db_connector_certificates = [],
     db_workspaces = [\<lparr>ws_id = 4, ws_trust_domain = Some ''ws.zt''\<rparr>], db_profiles = [],
     db_requirements = [], db_reports = [], db_observations = [], db_evaluations = [], db_network_observations = [],
     db_policies = [\<lparr>rpo_ID = 30, rpo_WorkspaceID = 4, rpo_Name = ''Default'', rpo_Description = None, rpo_IsDefault = True\<rparr>],
     db_policy_profiles = []\<rparr>"

definition ex_shield :: shield_full where
  "ex_shield = \<lparr>sh_id = 9, sh_tenant_id = 4, sh_status = ''active'', sh_connector_id = Some 50, sh_name = ''sh'',
     sh_remote_network_id = 13, sh_lan_ip = None, sh_version = None, sh_last_heartbeat_at = None,
     sh_created_at = 0, sh_updated_at = 0, sh_snapshot_generation = 0, sh_snapshot_fingerprint = []\<rparr>"

definition ex_env :: res_env where
  "ex_env = \<lparr>re_fails = (\<lambda>_. False), re_push_fails = (\<lambda>_. False), re_now = 7, re_newid = 70,
     re_notify_fails = False, re_connected = (\<lambda>_. False), re_send_ok = (\<lambda>_. True),
     re_utext = nat_to_string, re_sha = id\<rparr>"

definition ex_shield_report :: shield_report where
  "ex_shield_report = \<lparr>hb_ShieldID = Some 9, hb_Status = ''active'', hb_Version = ''1'', hb_LanIP = ''10.0.0.9'', hb_LastSeen = 5\<rparr>"

definition ex_create :: create_input where
  "ex_create = \<lparr>ci_RemoteNetworkID = Some 13, ci_Name = ''ssh'', ci_Description = None, ci_Host = ''10.0.0.9'',
     ci_Protocol = ''tcp'', ci_PortFrom = 22, ci_PortTo = 22\<rparr>"

definition ex_ack :: shield_ack where
  "ex_ack = \<lparr>ak_ResourceID = Some 70, ak_Status = ''protected'', ak_Error = [], ak_VerifiedAt = 6, ak_ShieldID = Some 9,
     ak_Host = ''10.0.0.9'', ak_Protocol = ''tcp'', ak_PortFrom = 22, ak_PortTo = 22\<rparr>"

definition ex_res0 :: res_state where
  "ex_res0 = (\<lparr>rc_drift = [], rc_absent = []\<rparr>,
     \<lparr>rst_db = ex_res_db, rst_active_workspaces = [4], rst_resources = [], rst_shields = []\<rparr>)"

definition ex_res1 :: res_state where
  "ex_res1 = (fst ex_res0, (snd ex_res0)\<lparr>rst_shields := rst_shields (snd ex_res0) @ [ex_shield]\<rparr>)"

definition ex_res2 :: res_state where "ex_res2 = snd (handle (QStatus 4 50 [(ex_env, ex_shield_report)]) ex_res1)"
definition ex_res3 :: res_state where "ex_res3 = snd (handle (QCreate ex_env 4 ex_create) ex_res2)"
definition ex_res4 :: res_state where "ex_res4 = snd (handle (QProtect ex_env 4 (Some 70) None) ex_res3)"

definition ex_protecting :: resource_full where
  "ex_protecting = \<lparr>rs_id = 70, rs_tenant_id = 4, rs_name = ''ssh'', rs_host = ''10.0.0.9'', rs_port_from = 22,
     rs_protocol = ''tcp'', rs_status = ''protecting'', rs_shield_id = Some 9, rs_remote_network_id = 13,
     rs_policy_id = 30, rs_description = None, rs_port_to = 22, rs_pending_action = ''apply'',
     rs_error_message = None, rs_applied_at = None, rs_last_verified_at = None, rs_created_at = 7, rs_updated_at = 7\<rparr>"

lemma ex_shield_report_typed: "report_typed ex_shield_report" by code_simp

lemma ex_res_db_sel:
  "db_access_rules ex_res_db = []" "db_remote_networks ex_res_db = [\<lparr>rn_id = 13, rn_tenant_id = 4, rn_name = ''lab'', rn_status = ''active''\<rparr>]"
  "db_connectors ex_res_db = [\<lparr>co_id = 50, co_tenant_id = 4, co_remote_network_id = 13, co_status = ''active'',
     co_lan_addr = None, co_trust_domain = None, co_last_heartbeat_at = None, co_revoked_at = None\<rparr>]"
  "default_policy ex_res_db 4 = Some \<lparr>rpo_ID = 30, rpo_WorkspaceID = 4, rpo_Name = ''Default'', rpo_Description = None, rpo_IsDefault = True\<rparr>"
  by (simp_all add: ex_res_db_def default_policy_def select_one_def)

definition ex_shield_up :: shield_full where
  "ex_shield_up = ex_shield\<lparr>sh_lan_ip := Some ''10.0.0.9'', sh_version := Some ''1'', sh_last_heartbeat_at := Some (5 * second),
     sh_updated_at := 7\<rparr>"

definition ex_store :: "resource_full list \<Rightarrow> rstore" where
  "ex_store rows = \<lparr>rst_db = ex_res_db, rst_active_workspaces = [4], rst_resources = rows, rst_shields = [ex_shield_up]\<rparr>"

definition ex_open :: resource_full where
  "ex_open = ex_protecting\<lparr>rs_status := ''unprotected'', rs_pending_action := ''remove''\<rparr>"

lemma ex_store_sel:
  "rst_db (ex_store rows) = ex_res_db" "rst_resources (ex_store rows) = rows" "rst_shields (ex_store rows) = [ex_shield_up]"
  "(ex_store rows)\<lparr>rst_resources := rows'\<rparr> = ex_store rows'"
  by (simp_all add: ex_store_def)

lemma ex_shield_up_sel:
  "sh_id ex_shield_up = 9" "sh_tenant_id ex_shield_up = 4" "sh_status ex_shield_up = ''active''"
  "sh_connector_id ex_shield_up = Some 50" "sh_remote_network_id ex_shield_up = 13"
  "sh_lan_ip ex_shield_up = Some ''10.0.0.9''" "sh_snapshot_generation ex_shield_up = 0"
  "sh_snapshot_fingerprint ex_shield_up = []"
  by (simp_all add: ex_shield_up_def ex_shield_def)

lemma ex_res2_val: "ex_res2 = (fst ex_res0, ex_store [])"
  by (simp add: ex_res2_def ex_res1_def ex_res0_def ex_store_def ex_shield_up_def ex_shield_def ex_env_def ex_shield_report_def
      handleShieldStatus_def UpdateShieldHealth_def find_shield_def select_one_def report_accepted_def ex_res_db_sel
      update_where_def shield_statuses_def slots_distinct_def NULLIF_empty_def PushSnapshotForShield_def reported_shield_def)

lemma ex_host: "NormalizeHost ''10.0.0.9'' = Inr (''10.0.0.9'', HostIPv4)" by code_simp

lemma ex_no_name: "\<not> IsNameHost ''10.0.0.9''" by code_simp

lemma ex_res3_val: "ex_res3 = (fst ex_res0, ex_store [ex_open])"
  by (simp add: ex_res3_def ex_res2_val CreateResource_def Create_def ex_create_def ex_host ex_env_def AutoMatchShield_def
      ex_store_sel select_one_def ex_shield_up_sel insert_row_def owns_network_def ex_res_db_sel port_ok_def row_allowed_def
      row_checks_def resource_statuses_def owns_shield_def GetByID_def find_resource_def notify_result_def ex_open_def ex_protecting_def)

lemma ex_push: "PushSnapshotForShield ex_env c s st = ([], st)"
  by (simp add: PushSnapshotForShield_def ex_env_def split: option.split)

lemma ex_env_sel:
  "re_fails ex_env = (\<lambda>_. False)" "re_now ex_env = 7" "re_notify_fails ex_env = False"
  by (simp_all add: ex_env_def)

lemma ex_res4_val: "ex_res4 = (fst ex_res0, ex_store [ex_protecting])"
  by (simp add: ex_res4_def ex_res3_val ProtectResource_def MarkProtecting_def ex_env_sel or_else_def find_resource_def
      ex_store_sel select_one_def ex_open_def ex_protecting_def protect_candidate_def protectable_def protect_fits_def
      ex_shield_up_sel ex_no_name put_resource_def update_where_def GetByID_def ex_push Let_def)

lemma ex_res4_resources: "rst_resources (snd ex_res4) = [ex_protecting]"
  by (simp add: ex_res4_val ex_store_sel)

lemma res_request_step: "request_typed q \<Longrightarrow> res_step s (snd (handle q s))"
  by (rule rq_request [of q s "fst (handle q s)"]) simp_all

lemma res_request_reach:
  "reach res_init res_step s \<Longrightarrow> request_typed q \<Longrightarrow> reach res_init res_step (snd (handle q s))"
  by (erule reach_step) (rule res_request_step)

lemma ex_res1_reach: "reach res_init res_step ex_res1"
proof (rule reach_step)
  show "reach res_init res_step ex_res0" by (rule reach_init) (simp add: res_init_def ex_res0_def ex_res_db_def)
  show "res_step ex_res0 ex_res1" unfolding ex_res1_def
    by (subst (1) surjective_pairing [of ex_res0], rule rq_register) (simp_all add: ex_res0_def ex_shield_def)
qed

lemma ex_res3_reach: "reach res_init res_step ex_res3"
  unfolding ex_res3_def ex_res2_def using ex_res1_reach ex_shield_report_typed by (intro res_request_reach) simp_all

lemma ex_res4_reach: "reach res_init res_step ex_res4"
  unfolding ex_res4_def using ex_res3_reach by (rule res_request_reach) simp

section \<open>The table\<close>



section \<open>Policy notifications\<close>


definition ex_protected :: resource_full where
  "ex_protected = ex_protecting\<lparr>rs_status := ''protected'', rs_applied_at := Some 7, rs_last_verified_at := Some (6 * second)\<rparr>"

lemma ex_acked: "handle (QAcks 4 [(ex_env, ex_ack)]) ex_res4 = ([], fst ex_res0, ex_store [ex_protected])"
  by (simp add: ex_res4_val handleResourceAcks_def RecordAck_def ack_update_def ex_ack_def ex_env_sel find_resource_def
      ex_store_sel select_one_def ex_protecting_def ack_applies_def current_rule_def shieldHost_def ex_no_name
      resource_statuses_def connectorRouted_def put_resource_def update_where_def acked_row_def ex_protected_def)


section \<open>Shield snapshots\<close>

text \<open>
  C33. While a shield stays registered, the snapshots built for it have generations that never fall, and two
  snapshots with the same generation list the same rules, unless two different texts have the same
  digest. A shield that drops a snapshot whose generation it already has therefore loses nothing, and one that
  takes a higher generation never goes back.
\<close>

theorem shield_generations_order_snapshots:
  assumes "reach res_init res_step (rc1, st1)" and "id_text utext"
    and "BuildShieldSnapshot utext sha fails1 i st1 = (Inr (g1, rows1), st1')"
    and "res_run i (rc1, st1') (rc2, st2)"
    and "BuildShieldSnapshot utext sha fails2 i st2 = (Inr (g2, rows2), st2')"
  shows "g1 \<le> g2 \<and>
    (g1 = g2 \<longrightarrow> map wire (sort_key pr_ID rows1) = map wire (sort_key pr_ID rows2) \<or>
      fingerprint_text utext rows1 \<noteq> fingerprint_text utext rows2 \<and>
      sha (fingerprint_text utext rows1) = sha (fingerprint_text utext rows2))"
proof -
  have i1: "res_inv st1" using resm.inv_reach [OF assms(1)] by simp
  have i2: "res_inv st2" using res_run_inv [OF assms(4)] BuildShieldSnapshot_inv [OF i1 assms(3)] by simp
  note m1 = BuildShieldSnapshot_mark [OF assms(3)] and m2 = BuildShieldSnapshot_mark [OF assms(5)]
  have "mark_grows i st1' st2'"
    using res_run_mark [OF assms(4)] advancesD [OF BuildShieldSnapshot_advances [OF assms(5)]] mark_grows_trans by auto
  then have g: "g1 < g2 \<or> g2 = g1 \<and> fingerprintDesired utext sha rows2 = fingerprintDesired utext sha rows1"
    using m1 m2 by (simp add: mark_grows_def)
  have "map wire (sort_key pr_ID rows1) = map wire (sort_key pr_ID rows2)"
    if "fingerprint_text utext rows1 = fingerprint_text utext rows2"
    using that assms(2) desired_rows_clean [OF i1, of i] desired_rows_clean [OF i2, of i] m1 m2
    by (intro fingerprint_text_inj) simp_all
  with g show ?thesis by (auto simp: fingerprintDesired_def)
qed

lemma id_text_decimal: "id_text nat_to_string"
  using nat_to_string_inj nat_to_string_digits by (fastforce simp: id_text_def inj_def digit_byte_def)

lemma ex_build3:
  "BuildShieldSnapshot nat_to_string id (\<lambda>_. False) 9 (ex_store [ex_open]) = (Inr (0, []), ex_store [ex_open])"
  by (simp add: BuildShieldSnapshot_def find_shield_def ex_store_sel select_one_def ex_shield_up_sel desired_rows_def
      enforced_def ex_open_def ex_protecting_def fingerprintDesired_def fingerprint_text_def)

lemma ex_build4:
  "fst (BuildShieldSnapshot nat_to_string id (\<lambda>_. False) 9 (ex_store [ex_protecting])) =
     Inr (1, [pending_of (ex_store [ex_protecting]) ex_protecting])"
  by (simp add: BuildShieldSnapshot_def find_shield_def ex_store_sel select_one_def ex_shield_up_sel desired_rows_def
      enforced_def ex_protecting_def fingerprintDesired_def fingerprint_text_def fingerprint_line_def Let_def)

lemma ex_run: "res_run 9 (fst ex_res0, ex_store [ex_open]) (fst ex_res0, ex_store [ex_protecting])"
  unfolding res_run_def
proof (rule r_into_rtranclp, intro conjI)
  show "res_step (fst ex_res0, ex_store [ex_open]) (fst ex_res0, ex_store [ex_protecting])"
    unfolding ex_res3_val [symmetric] ex_res4_val [symmetric] unfolding ex_res4_def by (rule res_request_step) simp
qed (simp add: shield_registered_def find_shield_def ex_store_sel select_one_def ex_shield_up_sel)

theorem shield_generations_order_snapshots_witness:
  "\<exists>st'. BuildShieldSnapshot nat_to_string id (\<lambda>_. False) 9 (ex_store [ex_open]) = (Inr (0, []), ex_store [ex_open]) \<and>
     res_run 9 (fst ex_res0, ex_store [ex_open]) (fst ex_res0, ex_store [ex_protecting]) \<and>
     BuildShieldSnapshot nat_to_string id (\<lambda>_. False) 9 (ex_store [ex_protecting]) =
       (Inr (1, [pending_of (ex_store [ex_protecting]) ex_protecting]), st') \<and> (0 :: int) \<le> 1"
proof -
  obtain st' where b: "BuildShieldSnapshot nat_to_string id (\<lambda>_. False) 9 (ex_store [ex_protecting]) =
      (Inr (1, [pending_of (ex_store [ex_protecting]) ex_protecting]), st')"
    using ex_build4 by (metis prod.collapse)
  have "reach res_init res_step (fst ex_res0, ex_store [ex_open])" using ex_res3_reach ex_res3_val by simp
  from shield_generations_order_snapshots [OF this id_text_decimal ex_build3 ex_run b]
  have "(0 :: int) \<le> 1" by (rule conjunct1)
  then show ?thesis using ex_build3 ex_run b by blast
qed

end
