(* ===== verification/Shield_Claims.thy ===== *)
theory Shield_Claims
  imports Shield_Issue Res_Claims
begin

text \<open>
  What holds of a shield over any run: its resource sets never go back, and at the generation of the
  controller it enforces what the controller wants enforced now. Two situations in which it does less
  than it reports follow.
\<close>

section \<open>Issued sets\<close>

text \<open>
  The payload \<open>raw\<close> of a snapshot message the controller built for the shield on the way to its state \<open>now\<close>, the shield
  being registered since.
\<close>

definition issued ::
  "(uuid \<Rightarrow> string) \<Rightarrow> (string \<Rightarrow> string) \<Rightarrow> shield_signer \<Rightarrow> uuid \<Rightarrow> res_state \<Rightarrow> string \<Rightarrow> bool" where
  "issued utext sha sg i now raw \<longleftrightarrow>
     (\<exists>env fails_p fails_s ms_now rc st rc_p st_p rc_s st_s ms gen res msg st' ms' sb.
        reach res_init res_step (rc, st) \<and> re_utext env = utext \<and> re_sha env = sha \<and>
        buildSnapshotMsg (Some sg) env fails_p fails_s ms_now i st st_p st_s ms = (Inr (gen, res, msg), st', ms') \<and>
        res_run i (rc, st') (rc_p, st_p) \<and> res_run i (rc_p, st_p) (rc_s, st_s) \<and> res_run i (rc_s, st_s) now \<and>
        sm_signed_resource_set msg = Some sb \<and> sb_payload sb = raw)"

lemma buildSnapshotMsg_set:
  assumes "buildSnapshotMsg (Some sg) env fails_p fails_s n i st st_p st_s ms = (Inr (gen, res, msg), st', ms')"
    and "sm_signed_resource_set msg = Some sb"
  obtains rows p where "BuildShieldSnapshot (re_utext env) (re_sha env) (re_push_fails env) i st = (Inr (gen, rows), st')"
    "sg_marshal_set sg p = Some (sb_payload sb)" "rz_generation p = nat (gen mod 2 ^ 64)" "rz_resources p = map instruction_of rows"
proof (cases "BuildShieldSnapshot (re_utext env) (re_sha env) (re_push_fails env) i st")
  case (Pair r s)
  show ?thesis
  proof (cases r)
    case (Inl e)
    then show ?thesis
      using assms Pair by (simp add: buildSnapshotMsg_def)
  next
    case (Inr gr)
    obtain g rows where gr: "gr = (g, rows)"
      by fastforce
    have "g = gen" "s = st'" and sgn: "signResourceSet (Some sg) fails_s i (nat (gen mod 2 ^ 64)) (map instruction_of rows) st_s = Inr (Some sb)"
      using assms Pair Inr gr by (auto simp: buildSnapshotMsg_def Let_def split: prod.splits sum.splits)
    moreover obtain p where "sg_marshal_set sg p = Some (sb_payload sb)" "rz_generation p = nat (gen mod 2 ^ 64)"
        "rz_resources p = map instruction_of rows"
      using sgn by (auto simp: signResourceSet_def split: if_splits option.splits)
    ultimately show ?thesis
      using that Pair Inr gr by blast
  qed
qed

text \<open>Two texts of desired rows have the same digest only if they are equal.\<close>

definition digest_tells :: "(uuid \<Rightarrow> string) \<Rightarrow> (string \<Rightarrow> string) \<Rightarrow> uuid \<Rightarrow> pending_row list \<Rightarrow> bool" where
  "digest_tells utext sha i rows \<longleftrightarrow>
     (\<forall>rc st. reach res_init res_step (rc, st) \<longrightarrow>
        sha (fingerprint_text utext (desired_rows i st)) = sha (fingerprint_text utext rows) \<longrightarrow>
        fingerprint_text utext (desired_rows i st) = fingerprint_text utext rows)"

lemma instruction_wire:
  assumes "mset (map wire xs) = mset (map wire ys)"
  shows "mset (map instruction_of xs) = mset (map instruction_of ys)"
proof -
  define f where "f = (\<lambda>(a, b, c, d, e). \<lparr>si_resource_id = a, si_host = b, si_protocol = c, si_port_from = int d, si_port_to = int e\<rparr>)"
  have "instruction_of = f \<circ> wire"
    by (simp add: fun_eq_iff instruction_of_def wire_def f_def)
  then have "image_mset instruction_of M = image_mset f (image_mset wire M)" for M
    by (simp add: multiset.map_comp)
  then show ?thesis
    using assms by simp
qed

text \<open>An issued set against the snapshot of now.\<close>

lemma issued_order:
  assumes iss: "issued utext sha sg i (rc2, st2) raw" and dec: "\<And>p r. sg_marshal_set sg p = Some r \<Longrightarrow> cy_set cy r = Some p"
    and p: "cy_set cy raw = Some p" and ut: "id_text utext"
    and build: "BuildShieldSnapshot utext sha fails i st2 = (Inr (g2, rows2), st2')" and bound: "g2 < 2 ^ 63"
    and tells: "digest_tells utext sha i rows2"
  shows "res_inv st2 \<and> int (rz_generation p) \<le> g2 \<and>
    (int (rz_generation p) = g2 \<longrightarrow> mset (rz_resources p) = mset (map instruction_of rows2))"
proof -
  obtain env rc st rc_p st_p rc_s st_s fails_p fails_s n ms gen res msg st' ms' sb where
    r: "reach res_init res_step (rc, st)" and e: "re_utext env = utext" "re_sha env = sha"
    and b: "buildSnapshotMsg (Some sg) env fails_p fails_s n i st st_p st_s ms = (Inr (gen, res, msg), st', ms')"
    and runs: "res_run i (rc, st') (rc_p, st_p)" "res_run i (rc_p, st_p) (rc_s, st_s)" "res_run i (rc_s, st_s) (rc2, st2)"
    and sb: "sm_signed_resource_set msg = Some sb" "sb_payload sb = raw"
    using iss unfolding issued_def by blast
  obtain rows q where b1: "BuildShieldSnapshot utext sha (re_push_fails env) i st = (Inr (gen, rows), st')"
    and q: "sg_marshal_set sg q = Some raw" "rz_generation q = nat (gen mod 2 ^ 64)" "rz_resources q = map instruction_of rows"
    using buildSnapshotMsg_set [OF b sb(1)] sb(2) e by metis
  have [simp]: "q = p"
    using dec [OF q(1)] p by simp
  have run: "res_run i (rc, st') (rc2, st2)"
    using runs unfolding res_run_def by (blast intro: rtranclp_trans)
  have i1: "res_inv st" using resm.inv_reach [OF r] by simp
  have i2: "res_inv st2" using res_run_inv [OF run] BuildShieldSnapshot_inv [OF i1 b1] by simp
  note m1 = BuildShieldSnapshot_mark [OF b1] and m2 = BuildShieldSnapshot_mark [OF build]
  have "marks_nonneg st'"
    using advances_nonneg [OF BuildShieldSnapshot_advances [OF b1]] marks_nonneg_reach [OF r] by simp
  then have nn: "0 \<le> gen"
    using m1 marks_nonnegD by blast
  have "mark_grows i st' st2'"
    using res_run_mark [OF run] advancesD [OF BuildShieldSnapshot_advances [OF build]] mark_grows_trans by auto
  then have g: "gen < g2 \<or> g2 = gen \<and> fingerprintDesired utext sha rows2 = fingerprintDesired utext sha rows"
    using m1 m2 by (simp add: mark_grows_def)
  then have gen: "int (rz_generation p) = gen"
    using q(2) nn bound by auto
  have "mset (rz_resources p) = mset (map instruction_of rows2)" if "gen = g2"
  proof -
    have "fingerprint_text utext rows = fingerprint_text utext rows2"
      using that g m1 tells r unfolding digest_tells_def fingerprintDesired_def by auto
    then have "map wire (sort_key pr_ID rows) = map wire (sort_key pr_ID rows2)"
      using ut desired_rows_clean [OF i1, of i] desired_rows_clean [OF i2, of i] m1 m2
      by (intro fingerprint_text_inj) simp_all
    then have "mset (map wire rows) = mset (map wire rows2)"
      by (metis mset_map mset_sort)
    from instruction_wire [OF this] show ?thesis
      using q(3) by simp
  qed
  then show ?thesis
    using g gen i2 by auto
qed

section \<open>A shield\<close>

definition ex_crypto :: "(string \<Rightarrow> resource_set option) \<Rightarrow> crypto" where
  "ex_crypto rd = \<lparr>cy_verify = (\<lambda>_ _ _. True), cy_peers = (\<lambda>_. None), cy_set = rd, cy_crl = (\<lambda>_. None)\<rparr>"

definition ex_senv :: "(string \<Rightarrow> resource_set option) \<Rightarrow> string option \<Rightarrow> shield_env" where
  "ex_senv rd nft = \<lparr>se_crypto = ex_crypto rd, se_ca_key = Some ''k'', se_now_unix = 100, se_now = 0, se_serial = Some ''sn'',
     se_ifaces = Some [\<lparr>fc_name = ''eth0'', fc_v4 = Some [10, 0, 0, 9]\<rparr>], se_port_open = (\<lambda>_ _. True), se_nft = nft,
     se_save_peers = True, se_save_floor = True, se_save_other = True, se_write_crl = True, se_send = True, se_open = True,
     se_renewed = None, se_hash = (\<lambda>_. 0)\<rparr>"

definition ex_state :: shield_state where
  "ex_state = \<lparr>ss_shield_id = 9, ss_trust_domain = ''ws.zt'', ss_connectors = [\<lparr>cf_connector_id = 50, cf_connector_addr = ''10.0.0.5:9091''\<rparr>],
     ss_interface_addr = [], ss_enrolled_at = [], ss_cert_not_after = 0, ss_peer_list_issued_at_ms = 0, ss_resource_generation_floor = 0\<rparr>"

definition ex_sd :: shield where
  "ex_sd = \<lparr>sd_state = ex_state, sd_shared = shared_new, sd_crl = \<lparr>cl_current = None, cl_no_valid_since = None\<rparr>, sd_debounce = None,
     sd_live = ss_connectors ex_state, sd_file = Some (save_state ex_state), sd_crl_file = None, sd_chain = None\<rparr>"

definition ex_set :: "nat \<Rightarrow> resource_instruction list \<Rightarrow> resource_set" where
  "ex_set g rs = \<lparr>rz_trust_domain = ''ws.zt'', rz_shield_id = 9, rz_generation = g, rz_resources = rs, rz_removes = []\<rparr>"

definition ex_snap :: "string \<Rightarrow> shield_msg" where
  "ex_snap raw = MResourceSnapshot \<lparr>sm_signed_peer_list = None, sm_signed_resource_set = Some \<lparr>sb_payload = raw, sb_signature = []\<rparr>\<rparr>"

lemma ex_env_of: "env_of (ex_crypto rd) ''k'' (ex_senv rd nft)"
  by (simp add: env_of_def ex_senv_def)

lemma ex_file_identity: "file_identity ex_sd" "identity ex_sd = (''ws.zt'', 9)"
  by (simp_all add: file_identity_def identity_def ex_sd_def ex_state_def save_state_def)

definition ex_rd :: "string \<Rightarrow> resource_set option" where
  "ex_rd raw = (if raw = ''a'' then Some (ex_set 1 []) else if raw = ''b'' then Some (ex_set 2 []) else None)"

definition ex_sd1 :: shield where "ex_sd1 = snd (snd (handle_connector_msg (ex_senv ex_rd None) (ex_snap ''a'') ex_sd))"
definition ex_sd2 :: shield where "ex_sd2 = the (shield_start (ex_senv ex_rd None) ex_sd1)"
definition ex_sd3 :: shield where "ex_sd3 = snd (snd (handle_connector_msg (ex_senv ex_rd None) (ex_snap ''b'') ex_sd2))"

lemmas ex_shield_simps =
  handle_connector_msg_def handle_snapshot_def ex_snap_def ex_senv_def ex_crypto_def connector_verdict_def crl_verdict_def
  crl_lookup_def crl_now_def without_valid_crl_def CRL_FIRST_WAIT_def apply_signed_resource_set_def verify_resource_set_def
  verify_in_context_def admit_resource_set_def apply_resource_set_def valid_part_def remove_acks_def save_now_def
  bump_state_seq_def ex_set_def ex_sd_def ex_state_def shared_new_def or_else_def second_def Let_def

lemma ex_first: "handle_connector_msg (ex_senv ex_rd None) (ex_snap ''a'') ex_sd =
    (GoOn, [FxRebuild (ex_set 1 []) [] True, FxSave True], ex_sd1)"
  by (simp add: ex_sd1_def ex_rd_def ex_shield_simps)

lemma ex_restart: "shield_start (ex_senv ex_rd None) ex_sd1 = Some ex_sd2"
  by (simp add: ex_sd2_def shield_start_def load_state_def shield_state_from_def save_state_def ex_sd1_def ex_rd_def ex_shield_simps)

lemma ex_second: "handle_connector_msg (ex_senv ex_rd None) (ex_snap ''b'') ex_sd2 =
    (GoOn, [FxRebuild (ex_set 2 []) [] True, FxSave True], ex_sd3)"
  by (simp add: ex_sd3_def ex_sd2_def shield_start_def load_state_def shield_state_from_def save_state_def ex_sd1_def crl_load_def
      ex_rd_def ex_shield_simps)

lemma ex_shield_run:
  "shield_run (ex_crypto ex_rd) ''k'' ex_sd
     ([] @ FxRebuild (ex_set 1 []) [] True # [FxSave True, FxRestart] @ FxRebuild (ex_set 2 []) [] True # [FxSave True]) ex_sd3"
  using run_step [OF run_step [OF run_step [OF run_none st_msg [OF ex_env_of ex_first]] st_restart [OF ex_env_of ex_restart]]
      st_msg [OF ex_env_of ex_second]] by simp

section \<open>Sets never go back\<close>

text \<open>
  C35. Over any run of a shield, with any connectors, messages, failed writes and restarts, every resource set it applies
  carries a valid signature and names it, and a set applied later has a higher generation. Only a restart between the two
  weakens this: then the later set may have the same generation, and it can be older only if no write of the state
  succeeded between the first set and that restart.
\<close>

theorem shield_sets_never_go_back:
  assumes "shield_run cy key sd (xs @ FxRebuild p a b # ys @ FxRebuild q c d # zs) sd'" and "file_identity sd"
  shows "accepted cy key (identity sd) p \<and> accepted cy key (identity sd) q \<and>
    (rz_generation p < rz_generation q \<or>
     (FxRestart \<in> set ys \<and>
      (rz_generation p \<le> rz_generation q \<or> FxSave True \<notin> set (takeWhile (\<lambda>e. e \<noteq> FxRestart) ys))))"
proof (rule gate_run_order)
  show "gate_run (accepted cy key (identity sd)) (gate_of sd) (xs @ FxRebuild p a b # ys @ FxRebuild q c d # zs) = Some (gate_of sd')"
    using shield_run_implements [OF assms] by (simp add: implements_def)
qed

theorem shield_sets_never_go_back_witness:
  "shield_run (ex_crypto ex_rd) ''k'' ex_sd
     ([] @ FxRebuild (ex_set 1 []) [] True # [FxSave True, FxRestart] @ FxRebuild (ex_set 2 []) [] True # [FxSave True]) ex_sd3 \<and>
   file_identity ex_sd \<and> rz_generation (ex_set 1 []) \<le> rz_generation (ex_set 2 [])"
  using shield_sets_never_go_back [OF ex_shield_run ex_file_identity(1)] ex_shield_run ex_file_identity(1) by auto

section \<open>A shield at the generation of the controller\<close>

definition active_of :: "pending_row \<Rightarrow> active_resource" where
  "active_of row = \<lparr>av_resource_id = pr_ID row, av_host = pr_Host row, av_protocol = pr_Protocol row,
     av_port_from = pr_PortFrom row, av_port_to = pr_PortTo row\<rparr>"

text \<open>Ports survive the way over \<open>int32\<close> to \<open>u16\<close>.\<close>

lemma active_instruction:
  "pr_PortFrom row \<le> 65535 \<Longrightarrow> pr_PortTo row \<le> 65535 \<Longrightarrow> to_active (instruction_of row) = active_of row"
  by (simp add: to_active_def instruction_of_def active_of_def as_u16_def nat_mod_distrib)

lemma instruction_host: "si_host (instruction_of row) = pr_Host row"
  by (simp add: instruction_of_def)

lemma desired_rows_ports:
  "res_inv st \<Longrightarrow> row \<in> set (desired_rows i st) \<Longrightarrow> pr_PortFrom row \<le> 65535 \<and> pr_PortTo row \<le> 65535"
  by (auto simp: desired_rows_def pending_of_def row_typed_def row_checks_def dest!: res_inv_typed)

lemma valid_part_rows:
  assumes "mset (rz_resources p) = mset (map instruction_of rows)"
    and "\<forall>row\<in>set rows. pr_PortFrom row \<le> 65535 \<and> pr_PortTo row \<le> 65535"
  shows "mset (valid_part ifaces p) = mset (map active_of (filter (\<lambda>row. validate_host ifaces (pr_Host row)) rows))"
proof -
  have "mset (valid_part ifaces p) = mset (map to_active (filter (\<lambda>res. validate_host ifaces (si_host res)) (map instruction_of rows)))"
    using assms(1) by (simp add: valid_part_def)
  also have "map to_active (filter (\<lambda>res. validate_host ifaces (si_host res)) (map instruction_of rows)) =
      map active_of (filter (\<lambda>row. validate_host ifaces (pr_Host row)) rows)"
    using assms(2) by (simp add: filter_map o_def instruction_host active_instruction)
  finally show ?thesis .
qed

lemma gate_run_took: "gate_run ok gt es = Some gt' \<Longrightarrow> FxRebuild p a b \<in> set es \<Longrightarrow> ok p"
  by (induction es arbitrary: gt) (auto split: if_splits)


section \<open>Controller and shield together\<close>

definition ex_row :: pending_row where
  "ex_row = \<lparr>pr_ID = 70, pr_Host = ''10.0.0.9'', pr_Protocol = ''tcp'', pr_PortFrom = 22, pr_PortTo = 22, pr_PendingAction = ''apply''\<rparr>"

definition ex_payload :: resource_set where "ex_payload = ex_set 1 [instruction_of ex_row]"

definition ex_signer :: shield_signer where
  "ex_signer = \<lparr>sg_key = (\<lambda>_. Some ''k''), sg_sha384 = id, sg_ecdsa = (\<lambda>_ _. Some []), sg_marshal_peers = (\<lambda>_. None),
     sg_marshal_set = (\<lambda>p. if p = ex_payload then Some ''a'' else None)\<rparr>"

definition ex_rd2 :: "string \<Rightarrow> resource_set option" where
  "ex_rd2 raw = (if raw = ''a'' then Some ex_payload else None)"

definition ex_built :: rstore where
  "ex_built = (ex_store [ex_protecting])\<lparr>rst_shields := [ex_shield_up\<lparr>sh_snapshot_generation := 1,
     sh_snapshot_fingerprint := fingerprint_text nat_to_string [ex_row]\<rparr>]\<rparr>"

lemma ex_desired: "desired_rows 9 (ex_store [ex_protecting]) = [ex_row]" "desired_rows 9 ex_built = [ex_row]"
  by (simp_all add: desired_rows_def pending_of_def ex_built_def ex_store_sel ex_protecting_def enforced_def shieldHost_def ex_no_name ex_row_def)

lemma ex_fp_nonempty: "fingerprint_text nat_to_string [ex_row] \<noteq> []"
  by (simp add: fingerprint_text_def fingerprint_line_def ex_row_def)

lemma ex_find:
  "find_shield (ex_store rows) (Some 9) = Some ex_shield_up"
  "find_shield ex_built (Some 9) = Some (ex_shield_up\<lparr>sh_snapshot_generation := 1,
     sh_snapshot_fingerprint := fingerprint_text nat_to_string [ex_row]\<rparr>)"
  by (simp_all add: find_shield_def select_one_def ex_built_def ex_store_sel ex_shield_up_sel)

lemma ex_now_build:
  "BuildShieldSnapshot nat_to_string id (\<lambda>_. False) 9 (ex_store [ex_protecting]) = (Inr (1, [ex_row]), ex_built)"
  "BuildShieldSnapshot nat_to_string id (\<lambda>_. False) 9 ex_built = (Inr (1, [ex_row]), ex_built)"
proof -
  have "update_where (\<lambda>x. sh_id x = 9) f [ex_shield_up] = [f ex_shield_up]" for f
    by (simp add: update_where_def ex_shield_up_sel)
  then show "BuildShieldSnapshot nat_to_string id (\<lambda>_. False) 9 (ex_store [ex_protecting]) = (Inr (1, [ex_row]), ex_built)"
    using ex_fp_nonempty
    by (simp add: BuildShieldSnapshot_def ex_find ex_desired fingerprintDesired_def Let_def ex_shield_up_sel ex_store_sel ex_built_def)
  show "BuildShieldSnapshot nat_to_string id (\<lambda>_. False) 9 ex_built = (Inr (1, [ex_row]), ex_built)"
    by (simp add: BuildShieldSnapshot_def ex_find ex_desired fingerprintDesired_def Let_def)
qed

lemma ex_workspace: "shield_workspace ex_built 9 = Some (4, ''ws.zt'', 13)"
  by (simp add: shield_workspace_def find_shield_def select_one_def ex_built_def ex_store_sel ex_shield_up_sel ex_res_db_def coalesce_def)

lemma ex_removes: "removes_for 9 ex_built = []"
  by (simp add: removes_for_def ex_built_def ex_store_sel ex_protecting_def)

lemma ex_signed: "signResourceSet (Some ex_signer) (\<lambda>_. False) 9 1 [instruction_of ex_row] ex_built = Inr (Some \<lparr>sb_payload = ''a'', sb_signature = []\<rparr>)"
  by (simp add: signResourceSet_def ex_workspace ex_removes ex_signer_def ex_payload_def ex_set_def SignShieldResourceSet_def signWithWorkspaceCA_def)

lemma ex_message:
  "buildSnapshotMsg (Some ex_signer) ex_env (\<lambda>_. False) (\<lambda>_. False) 0 9 (ex_store [ex_protecting]) ex_built ex_built 0 =
     (Inr (1, [instruction_of ex_row], \<lparr>sm_signed_peer_list = None, sm_signed_resource_set = Some \<lparr>sb_payload = ''a'', sb_signature = []\<rparr>\<rparr>),
      ex_built, 0)"
proof -
  have "re_utext ex_env = nat_to_string" "re_sha ex_env = id" "re_push_fails ex_env = (\<lambda>_. False)"
    by (simp_all add: ex_env_def)
  moreover have "build_peer_list (Some ex_signer) (\<lambda>_. False) 0 9 ex_built 0 = (Inl (), 0)"
    by (simp add: build_peer_list_def readPayload_def ex_workspace) (simp add: ex_signer_def)
  ultimately show ?thesis
    using ex_signed by (simp add: buildSnapshotMsg_def ex_now_build Let_def)
qed

lemma ex_issued: "issued nat_to_string id ex_signer 9 (fst ex_res0, ex_built) ''a''"
proof -
  have "reach res_init res_step (fst ex_res0, ex_store [ex_protecting])"
    using ex_res4_reach ex_res4_val by simp
  moreover have "re_utext ex_env = nat_to_string" "re_sha ex_env = id"
    by (simp_all add: ex_env_def)
  moreover have "res_run 9 (fst ex_res0, ex_built) (fst ex_res0, ex_built)"
    by (simp add: res_run_def)
  ultimately show ?thesis
    unfolding issued_def using ex_message by (metis snapshot_msg.select_convs(2) signed_blob.select_convs(1))
qed

definition ex_sd4 :: shield where "ex_sd4 = snd (snd (handle_connector_msg (ex_senv ex_rd2 None) (ex_snap ''a'') ex_sd))"

lemma ex_addr: "addr_String [10, 0, 0, 9] = ''10.0.0.9''"
  by code_simp

lemma ex_lan: "validate_host (Some [\<lparr>fc_name = ''eth0'', fc_v4 = Some [10, 0, 0, 9]\<rparr>]) ''10.0.0.9''"
  by (simp add: validate_host_def detect_lan_ip_def List.map_filter_def lan_candidate_def VIRTUAL_PREFIXES_def PREFERRED_PREFIXES_def
      starts_with_def is_rfc1918_def ex_addr)

lemma ex_active: "sx_active (sd_shared ex_sd4) = [active_of ex_row]" "sx_last_generation (sd_shared ex_sd4) = Some 1"
  using ex_lan
  by (simp_all add: ex_sd4_def ex_rd2_def ex_payload_def instruction_of_def ex_row_def active_of_def to_active_def as_u16_def
      ex_shield_simps)

lemma ex_run4: "\<exists>es. shield_run (ex_crypto ex_rd2) ''k'' ex_sd es ex_sd4"
proof -
  obtain act es where "handle_connector_msg (ex_senv ex_rd2 None) (ex_snap ''a'') ex_sd = (act, es, ex_sd4)"
    unfolding ex_sd4_def by (metis prod.collapse)
  then have "shield_run (ex_crypto ex_rd2) ''k'' ex_sd ([] @ es) ex_sd4"
    by (rule run_step [OF run_none st_msg [OF ex_env_of]])
  then show ?thesis
    by blast
qed

lemma ex_only: "verify_resource_set (ex_crypto ex_rd2) sb ''k'' ''ws.zt'' 9 = Some p \<Longrightarrow> sb_payload sb = ''a''"
  by (auto simp: verify_resource_set_def ex_crypto_def ex_rd2_def split: if_splits)

lemma ex_decodes: "sg_marshal_set ex_signer p = Some raw \<Longrightarrow> cy_set (ex_crypto ex_rd2) raw = Some p"
  by (auto simp: ex_signer_def ex_crypto_def ex_rd2_def split: if_splits)


section \<open>Where a shield does less than it reports\<close>

lemma store_ack_set: "set (sx_acks (store_ack a sx)) = insert a {b \<in> set (sx_acks sx). rk_resource_id b \<noteq> rk_resource_id a}"
  by (auto simp: store_ack_def)

lemma fold_store_ack_keep:
  "a \<in> set (sx_acks sx) \<Longrightarrow> \<forall>r\<in>set rs. rk_resource_id (f r) \<noteq> rk_resource_id a \<Longrightarrow>
     a \<in> set (sx_acks (fold (\<lambda>r. store_ack (f r)) rs sx))"
  by (induction rs arbitrary: sx) (auto simp: store_ack_set)

lemma fold_store_ack_mem:
  assumes "\<And>r. rk_resource_id (f r) = av_resource_id r"
  shows "distinct (map av_resource_id rs) \<Longrightarrow> r \<in> set rs \<Longrightarrow> f r \<in> set (sx_acks (fold (\<lambda>r. store_ack (f r)) rs sx))"
proof (induction rs arbitrary: sx)
  case (Cons x rs)
  show ?case
  proof (cases "r = x")
    case True
    have "\<forall>y\<in>set rs. av_resource_id y \<noteq> av_resource_id x"
      using Cons.prems(1) by (force simp: image_iff)
    then show ?thesis
      using True assms by (simp add: fold_store_ack_keep store_ack_set)
  next
    case False
    then show ?thesis
      using Cons by simp
  qed
qed simp

lemma health_check_mem:
  assumes "distinct (map av_resource_id (sx_active sx))" and "r \<in> set (sx_active sx)"
  shows "health_ack (active_rule r) (port_open (av_host r) (av_port_from r)) now \<in> set (sx_acks (health_check now port_open sx))"
  unfolding health_check_def
  by (rule fold_store_ack_mem [where f = "\<lambda>r. health_ack (active_rule r) (port_open (av_host r) (av_port_from r)) now"])
     (use assms in \<open>auto simp: health_ack_def make_ack_def active_rule_def\<close>)

text \<open>
  C37. When the kernel refuses the rules of a new set, the shield has already recorded the generation of the set and its resources.
  Delivering the set again therefore changes nothing, the chain stays the old one, and from the next health check on each of
  its resources whose port answers is acknowledged as protected, although no rule of the set was ever installed.
\<close>

theorem refused_ruleset_reported_protected:
  assumes verified: "verify_resource_set (se_crypto env) sb key (ss_trust_domain (sd_state sd)) (ss_shield_id (sd_state sd)) = Some p"
    and new: "fst (admit_resource_set (rz_generation p) (ss_resource_generation_floor (sd_state sd)) (sd_shared sd)) = AdmitApply"
    and refused: "se_nft env \<noteq> None"
    and first: "apply_signed_resource_set env key (Some sb) sd = (acks, es, sd1)"
    and again: "se_crypto env' = se_crypto env" "apply_signed_resource_set env' key (Some sb) sd1 = (acks', es', sd2)"
    and r: "r \<in> set (valid_part (se_ifaces env) p)" "distinct (map av_resource_id (valid_part (se_ifaces env) p))"
      "port_open (av_host r) (av_port_from r)"
  shows "sd_chain sd2 = sd_chain sd \<and>
    (\<exists>ack\<in>set (sx_acks (health_check now port_open (sd_shared sd2))).
       rk_resource_id ack = av_resource_id r \<and> rk_status ack = ''protected'')"
proof -
  obtain sx where adm: "admit_resource_set (rz_generation p) (ss_resource_generation_floor (sd_state sd)) (sd_shared sd) = (AdmitApply, sx)"
    using new by (metis prod.collapse)
  define sx' where "sx' = snd (apply_resource_set (se_now_unix env) (se_ifaces env) (se_port_open env) (se_nft env) p sx)"
  have sx': "sx_active sx' = valid_part (se_ifaces env) p" "sx_last_generation sx' = Some (rz_generation p)"
    using admit_cases [OF adm] by (simp_all add: sx'_def)
  have sd1: "sd_shared sd1 = sx'" "sd_chain sd1 = sd_chain sd" "ss_resource_generation_floor (sd_state sd1) \<le> rz_generation p"
      "ss_trust_domain (sd_state sd1) = ss_trust_domain (sd_state sd)" "ss_shield_id (sd_state sd1) = ss_shield_id (sd_state sd)"
    using first verified adm refused admit_cases [OF adm]
    by (auto simp: apply_signed_resource_set_def sx'_def Let_def save_now_def split: prod.splits if_splits)
  have "admit_resource_set (rz_generation p) (ss_resource_generation_floor (sd_state sd1)) (sd_shared sd1) = (AdmitSame, sx')"
    using sd1 sx' by (simp add: admit_resource_set_def)
  then have sd2: "sd_shared sd2 = sx'" "sd_chain sd2 = sd_chain sd"
    using again verified sd1 by (auto simp: apply_signed_resource_set_def)
  have "health_ack (active_rule r) (port_open (av_host r) (av_port_from r)) now \<in> set (sx_acks (health_check now port_open sx'))"
    by (rule health_check_mem) (use r sx' in simp_all)
  then show ?thesis
    using sd2 r(3) by (intro conjI bexI) (auto simp: health_ack_def make_ack_def active_rule_def)
qed

definition ex_sd5 :: shield where
  "ex_sd5 = snd (snd (apply_signed_resource_set (ex_senv ex_rd2 (Some ''no netlink'')) ''k'' (Some \<lparr>sb_payload = ''a'', sb_signature = []\<rparr>) ex_sd))"

theorem refused_ruleset_reported_protected_witness:
  "sd_chain ex_sd = None \<and>
   sd_chain (snd (snd (apply_signed_resource_set (ex_senv ex_rd2 None) ''k'' (Some \<lparr>sb_payload = ''a'', sb_signature = []\<rparr>) ex_sd5))) = None \<and>
   (\<exists>ack\<in>set (sx_acks (health_check 7 (\<lambda>_ _. True) (sd_shared
      (snd (snd (apply_signed_resource_set (ex_senv ex_rd2 None) ''k'' (Some \<lparr>sb_payload = ''a'', sb_signature = []\<rparr>) ex_sd5)))))).
      rk_resource_id ack = 70 \<and> rk_status ack = ''protected'')"
proof -
  have v: "valid_part (se_ifaces (ex_senv ex_rd2 (Some ''no netlink''))) ex_payload = [active_of ex_row]"
    using ex_lan by (simp add: ex_senv_def valid_part_def ex_payload_def ex_set_def instruction_of_def ex_row_def active_of_def
        to_active_def as_u16_def)
  have ok: "verify_resource_set (se_crypto (ex_senv ex_rd2 (Some ''no netlink''))) \<lparr>sb_payload = ''a'', sb_signature = []\<rparr> ''k''
      (ss_trust_domain (sd_state ex_sd)) (ss_shield_id (sd_state ex_sd)) = Some ex_payload"
    by (simp add: ex_rd2_def ex_payload_def ex_shield_simps)
  have new: "fst (admit_resource_set (rz_generation ex_payload) (ss_resource_generation_floor (sd_state ex_sd)) (sd_shared ex_sd)) = AdmitApply"
    by (simp add: ex_payload_def ex_shield_simps)
  have "se_crypto (ex_senv ex_rd2 None) = se_crypto (ex_senv ex_rd2 (Some ''no netlink''))" "se_nft (ex_senv ex_rd2 (Some ''no netlink'')) \<noteq> None"
    by (simp_all add: ex_senv_def)
  moreover obtain acks es where
    "apply_signed_resource_set (ex_senv ex_rd2 (Some ''no netlink'')) ''k'' (Some \<lparr>sb_payload = ''a'', sb_signature = []\<rparr>) ex_sd = (acks, es, ex_sd5)"
    unfolding ex_sd5_def by (metis prod.collapse)
  moreover obtain acks' es' sd6 where
    sd6: "apply_signed_resource_set (ex_senv ex_rd2 None) ''k'' (Some \<lparr>sb_payload = ''a'', sb_signature = []\<rparr>) ex_sd5 = (acks', es', sd6)"
    by (metis prod_cases3)
  ultimately have "sd_chain sd6 = sd_chain ex_sd \<and>
      (\<exists>ack\<in>set (sx_acks (health_check 7 (\<lambda>_ _. True) (sd_shared sd6))).
         rk_resource_id ack = av_resource_id (active_of ex_row) \<and> rk_status ack = ''protected'')"
    using refused_ruleset_reported_protected [OF ok new] v by simp
  then show ?thesis
    using sd6 by (simp add: ex_sd_def active_of_def ex_row_def)
qed

text \<open>
  C38. An empty peer list leaves \<open>state.json\<close> with the last connectors, so that the shield can start again. A newer resource set
  taken after it writes the state in memory, which has none, and the shield then no longer starts.
\<close>

theorem empty_peer_list_then_set_strands:
  assumes list: "verify_peer_list (se_crypto env) sb key (ss_trust_domain (sd_state sd)) (ss_shield_id (sd_state sd)) = Some pl"
      "pl_peers pl = []" "ss_peer_list_issued_at_ms (sd_state sd) < pl_issued_at_unix_ms pl" "load_state (sd_file sd) \<noteq> None"
      "apply_signed_peer_list env key sb sd = (es1, sd1)"
    and set: "apply_signed_resource_set env key (Some sb') sd1 = (acks, es2, sd2)" "FxSave True \<in> set es2"
  shows "shield_start env' sd1 \<noteq> None \<and> shield_start env' sd2 = None"
proof -
  obtain st where st: "load_state (sd_file sd) = Some st"
    using list(4) by blast
  have keep: "keep_head cs [] = []" for cs
    by (simp add: keep_head_def split: list.split)
  have conn: "ss_connectors (sd_state sd1) = []"
    using list st keep by (auto simp: apply_signed_peer_list_def Let_def)
  have "load_state (sd_file sd1) \<noteq> None"
    using list st keep load_state_fields [OF st] by (auto simp: apply_signed_peer_list_def Let_def load_save split: if_splits)
  moreover have "sd_file sd2 = Some (save_state (sd_state sd2))" "ss_connectors (sd_state sd2) = []"
    using set conn
    by (auto simp: apply_signed_resource_set_def Let_def save_now_def split: option.splits prod.splits admission.splits if_splits)
  ultimately show ?thesis
    by (simp add: shield_start_def load_save)
qed

definition ex_peers_env :: shield_env where
  "ex_peers_env = (ex_senv ex_rd None)\<lparr>se_crypto := (ex_crypto ex_rd)\<lparr>cy_peers :=
     (\<lambda>_. Some \<lparr>pl_trust_domain = ''ws.zt'', pl_shield_id = 9, pl_issued_at_unix_ms = 5, pl_peers = []\<rparr>)\<rparr>\<rparr>"

definition ex_sd6 :: shield where
  "ex_sd6 = snd (apply_signed_peer_list ex_peers_env ''k'' \<lparr>sb_payload = [], sb_signature = []\<rparr> ex_sd)"
definition ex_sd7 :: shield where
  "ex_sd7 = snd (snd (apply_signed_resource_set ex_peers_env ''k'' (Some \<lparr>sb_payload = ''a'', sb_signature = []\<rparr>) ex_sd6))"

lemmas ex_peers_simps =
  ex_peers_env_def ex_shield_simps apply_signed_peer_list_def verify_peer_list_def keep_head_def load_state_def shield_state_from_def
  save_state_def ex_rd_def

lemma ex_list_taken:
  "apply_signed_peer_list ex_peers_env ''k'' \<lparr>sb_payload = [], sb_signature = []\<rparr> ex_sd = ([], ex_sd6)"
  by (simp add: ex_sd6_def ex_peers_simps)

lemma ex_set_taken:
  "apply_signed_resource_set ex_peers_env ''k'' (Some \<lparr>sb_payload = ''a'', sb_signature = []\<rparr>) ex_sd6 =
     ([], [FxRebuild (ex_set 1 []) [] True, FxSave True], ex_sd7)"
  by (simp add: ex_sd7_def ex_sd6_def ex_peers_simps)

theorem empty_peer_list_then_set_strands_witness:
  "shield_start ex_peers_env ex_sd \<noteq> None \<and> shield_start ex_peers_env ex_sd6 \<noteq> None \<and> shield_start ex_peers_env ex_sd7 = None"
proof -
  have "verify_peer_list (se_crypto ex_peers_env) \<lparr>sb_payload = [], sb_signature = []\<rparr> ''k'' (ss_trust_domain (sd_state ex_sd))
      (ss_shield_id (sd_state ex_sd)) = Some \<lparr>pl_trust_domain = ''ws.zt'', pl_shield_id = 9, pl_issued_at_unix_ms = 5, pl_peers = []\<rparr>"
    by (simp add: ex_peers_simps)
  moreover have start: "load_state (sd_file ex_sd) \<noteq> None"
    by (simp add: ex_peers_simps)
  ultimately show ?thesis
    using empty_peer_list_then_set_strands [OF _ _ _ start ex_list_taken ex_set_taken, of _ ex_peers_env]
    by (simp add: shield_start_def ex_sd_def ex_state_def)
qed


end
