(* ===== verification/Ctl_Store.thy ===== *)
theory Ctl_Store
  imports Res_Flow "HOL-Library.Char_ord" "HOL-Library.List_Lexorder"
begin

text \<open>
  The connectors of a workspace as the controller keeps them: the rows with the trigger that records
  revocations (\<open>migrations/002\<close>, \<open>041_connector_revocations.sql\<close>), and every statement of the controller that
  inserts, changes or deletes one (\<open>connector.resolvers.go\<close>, \<open>internal/connector/enrollment.go\<close>, \<open>token_handler.go\<close>,
  \<open>goodbye.go\<close>, \<open>disconnect_watcher.go\<close>, \<open>stranded.go\<close>, \<open>standing.go\<close>), except those of the
  control stream, which are in \<open>Ctl_Streams\<close>.

  Signed certificates, enrollment tokens and request signatures are checked by third-party code; the operations take what
  those checks left.
\<close>

section \<open>Rows\<close>

record connector_full = connector_row +
  cx_name :: string
  cx_enrollment_token_jti :: "string option"
  cx_cert_serial :: "string option"
  cx_cert_not_after :: "time option"
  cx_version :: "string option"
  cx_hostname :: "string option"
  cx_public_ip :: "string option"
  cx_updated_at :: time

record revocation_row =
  cv_connector_id :: uuid
  cv_tenant_id :: uuid
  cv_revoked_at :: time

record cstore =
  cs_connectors :: "connector_full list"
  cs_revocations :: "revocation_row list"
  cs_workspaces :: "workspace_row list"
  cs_active_workspaces :: "uuid list"
  cs_remote_networks :: "remote_network list"
  cs_shields :: "shield_full list"
  cs_placements :: "relay_placement list"
  cs_shield_revocations :: "(uuid \<times> uuid) list"
  cs_shield_outbox :: "(uuid \<times> uuid) list"

text \<open>\<open>Revoked\<close>: either marker counts on its own.\<close>

definition revoked_row :: "connector_full \<Rightarrow> bool" where
  "revoked_row c \<longleftrightarrow> co_status c = ''revoked'' \<or> co_revoked_at c \<noteq> None"

definition tombstoned :: "cstore \<Rightarrow> uuid \<Rightarrow> bool" where
  "tombstoned st i \<longleftrightarrow> i \<in> cv_connector_id ` set (cs_revocations st)"

section \<open>Triggers\<close>

text \<open>\<open>connectors_record_revocation\<close>, for one row an insert or an update of its status has written.\<close>

definition record_revocation :: "time \<Rightarrow> connector_full \<Rightarrow> revocation_row list \<Rightarrow> revocation_row list" where
  "record_revocation now c rs =
     (if revoked_row c \<and> co_id c \<notin> cv_connector_id ` set rs
      then rs @ [\<lparr>cv_connector_id = co_id c, cv_tenant_id = co_tenant_id c, cv_revoked_at = or_else (co_revoked_at c) now\<rparr>]
      else rs)"

text \<open>An \<open>UPDATE\<close> that sets the status or \<open>revoked_at\<close> of the rows that match, with the trigger.\<close>

definition update_status :: "time \<Rightarrow> (connector_full \<Rightarrow> bool) \<Rightarrow> (connector_full \<Rightarrow> connector_full) \<Rightarrow> cstore \<Rightarrow> cstore" where
  "update_status now P f st =
     st\<lparr>cs_connectors := update_where P f (cs_connectors st),
        cs_revocations := fold (record_revocation now) (map f (filter P (cs_connectors st))) (cs_revocations st)\<rparr>"

text \<open>An \<open>UPDATE\<close> of other columns.\<close>

definition update_other :: "(connector_full \<Rightarrow> bool) \<Rightarrow> (connector_full \<Rightarrow> connector_full) \<Rightarrow> cstore \<Rightarrow> cstore" where
  "update_other P f st = st\<lparr>cs_connectors := update_where P f (cs_connectors st)\<rparr>"

section \<open>Life of a connector\<close>

datatype conn_stmt =
    SqNetwork | SqInsert | SqStranded | SqRevoke | SqDelete | SqClaim | SqWorkspace | SqEnroll | SqCommit | SqRenewRead | SqRenew
  | SqGoodbye | SqWatch | SqToken | SqLookup | SqTombstone | SqActivate | SqRetire | SqHealth | SqStanding | SqShields | SqPlacement
  | SqShieldRevoke uuid | SqShieldTombstone uuid | SqShieldOutbox uuid | SqShieldCommit uuid

datatype conn_error =
    ErrNetworkNotFound | ErrNetworkInactive | ErrConnDB | ErrNotRevocable | ErrStranded "uuid list" | ErrNotDeletable
  | ErrNotClaimed | ErrTenantMismatch | ErrWorkspaceInactive | ErrConnNotFound | ErrConnRevoked | ErrNotPending | ErrNotify

definition new_connector :: "time \<Rightarrow> uuid \<Rightarrow> uuid \<Rightarrow> uuid \<Rightarrow> string \<Rightarrow> connector_full" where
  "new_connector now newid tenantID rn name =
     \<lparr>co_id = newid, co_tenant_id = tenantID, co_remote_network_id = rn, co_status = ''pending'', co_lan_addr = None,
      co_trust_domain = None, co_last_heartbeat_at = None, co_revoked_at = None, cx_name = name, cx_enrollment_token_jti = None,
      cx_cert_serial = None, cx_cert_not_after = None, cx_version = None, cx_hostname = None, cx_public_ip = None, cx_updated_at = now\<rparr>"

text \<open>
  \<open>GenerateConnectorToken\<close> with the valid name \<open>name\<close>. The insert is refused for an identifier in use, and
  for a revoked one by \<open>connectors_reject_revoked_identity\<close>.
\<close>

definition GenerateConnectorToken ::
  "(conn_stmt \<Rightarrow> bool) \<Rightarrow> time \<Rightarrow> uuid \<Rightarrow> uuid \<Rightarrow> uuid \<Rightarrow> string \<Rightarrow> cstore \<Rightarrow> (conn_error + uuid) \<times> cstore" where
  "GenerateConnectorToken fails now newid tenantID rn name st =
     (if fails SqNetwork then (Inl ErrNetworkNotFound, st)
      else case select_one (\<lambda>n. rn_id n = rn \<and> rn_tenant_id n = tenantID) (cs_remote_networks st) of
        None \<Rightarrow> (Inl ErrNetworkNotFound, st)
      | Some n \<Rightarrow>
          if rn_status n \<noteq> ''active'' then (Inl ErrNetworkInactive, st)
          else if fails SqInsert \<or> tombstoned st newid \<or> newid \<in> co_id ` set (cs_connectors st) then (Inl ErrConnDB, st)
          else (Inr newid, st\<lparr>cs_connectors := cs_connectors st @ [new_connector now newid tenantID rn name]\<rparr>))"

text \<open>A new enrollment token replaces the current one of a pending connector.\<close>

definition issue_token :: "(conn_stmt \<Rightarrow> bool) \<Rightarrow> time \<Rightarrow> string \<Rightarrow> uuid \<Rightarrow> uuid \<Rightarrow> cstore \<Rightarrow> (conn_error + string option) \<times> cstore" where
  "issue_token fails now jti tenantID i st =
     (let P = (\<lambda>c. co_id c = i \<and> co_tenant_id c = tenantID \<and> co_status c = ''pending'') in
      if fails SqToken then (Inl ErrConnDB, st)
      else case select_one P (cs_connectors st) of
        None \<Rightarrow> (Inl ErrNotPending, st)
      | Some c \<Rightarrow> (Inr (cx_enrollment_token_jti c),
                   update_other P (\<lambda>c. c\<lparr>cx_enrollment_token_jti := Some jti, cx_updated_at := now\<rparr>) st))"

text \<open>
  The transaction of \<open>Enroll\<close>, for a token with the claims \<open>i\<close>, \<open>workspaceID\<close>, \<open>trustDomain\<close> and \<open>jti\<close>. Nothing is kept unless the
  commit succeeds. \<open>cert\<close> is what signing and loading the anchors returned.
\<close>

definition enroll_tx ::
  "(conn_stmt \<Rightarrow> bool) \<Rightarrow> time \<Rightarrow> uuid \<Rightarrow> uuid \<Rightarrow> string \<Rightarrow> string \<Rightarrow> (string \<times> time) option \<Rightarrow> string \<Rightarrow> string \<Rightarrow> cstore
   \<Rightarrow> conn_error option \<times> cstore" where
  "enroll_tx fails now i workspaceID trustDomain jti cert hostname version st =
     (let P = (\<lambda>c. co_id c = i \<and> co_status c = ''pending'' \<and> cx_enrollment_token_jti c = Some jti) in
      if fails SqClaim then (Some ErrConnDB, st)
      else case select_one P (cs_connectors st) of
        None \<Rightarrow> (Some ErrNotClaimed, st)
      | Some c \<Rightarrow>
          if co_tenant_id c \<noteq> workspaceID then (Some ErrTenantMismatch, st)
          else if fails SqWorkspace then (Some ErrConnDB, st)
          else if workspaceID \<notin> set (cs_active_workspaces st) then (Some ErrWorkspaceInactive, st)
          else case cert of
            None \<Rightarrow> (Some ErrConnDB, st)
          | Some (serial, notAfter) \<Rightarrow>
              if fails SqEnroll \<or> fails SqCommit then (Some ErrConnDB, st)
              else (None, update_status now P
                      (\<lambda>c. c\<lparr>co_status := ''active'', co_trust_domain := Some trustDomain, cx_cert_serial := Some serial,
                             cx_cert_not_after := Some notAfter, cx_hostname := Some hostname, cx_version := Some version,
                             co_last_heartbeat_at := Some now, cx_enrollment_token_jti := None, cx_updated_at := now\<rparr>) st))"

text \<open>\<open>RenewCert\<close>: the row is read, a certificate is signed, and the row is updated unless it was revoked meanwhile.\<close>

definition renew_read :: "(conn_stmt \<Rightarrow> bool) \<Rightarrow> string \<Rightarrow> uuid \<Rightarrow> cstore \<Rightarrow> conn_error + uuid" where
  "renew_read fails trustDomain i st =
     (if fails SqRenewRead then Inl ErrConnNotFound
      else case select_one (\<lambda>c. co_id c = i \<and> co_trust_domain c = Some trustDomain) (cs_connectors st) of
        None \<Rightarrow> Inl ErrConnNotFound
      | Some c \<Rightarrow> if revoked_row c then Inl ErrConnRevoked else Inr (co_tenant_id c))"

definition renew_write :: "(conn_stmt \<Rightarrow> bool) \<Rightarrow> time \<Rightarrow> string \<times> time \<Rightarrow> uuid \<Rightarrow> uuid \<Rightarrow> cstore \<Rightarrow> conn_error option \<times> cstore" where
  "renew_write fails now cert tenantID i st =
     (let P = (\<lambda>c. co_id c = i \<and> co_tenant_id c = tenantID \<and> co_status c \<noteq> ''revoked'' \<and> co_revoked_at c = None) in
      if fails SqRenew then (Some ErrConnDB, st)
      else if count_where P (cs_connectors st) = 0 then (Some ErrConnRevoked, st)
      else (None, update_other P (\<lambda>c. c\<lparr>cx_cert_serial := Some (fst cert), cx_cert_not_after := Some (snd cert), cx_updated_at := now\<rparr>) st))"

text \<open>\<open>Goodbye\<close>; the result is the tenant to notify, if the row changed.\<close>

definition Goodbye :: "(conn_stmt \<Rightarrow> bool) \<Rightarrow> time \<Rightarrow> string \<Rightarrow> uuid \<Rightarrow> cstore \<Rightarrow> (conn_error + uuid option) \<times> cstore" where
  "Goodbye fails now trustDomain i st =
     (let P = (\<lambda>c. co_id c = i \<and> co_trust_domain c = Some trustDomain \<and> co_status c = ''active'' \<and> co_revoked_at c = None) in
      if fails SqGoodbye then (Inl ErrConnDB, st)
      else (Inr (map_option co_tenant_id (select_one P (cs_connectors st))),
            update_status now P (\<lambda>c. c\<lparr>co_status := ''disconnected'', cx_updated_at := now\<rparr>) st))"

text \<open>The watcher; the result lists tenant and connector of every row it changed.\<close>

definition connectors_markDisconnected ::
  "(conn_stmt \<Rightarrow> bool) \<Rightarrow> time \<Rightarrow> duration \<Rightarrow> cstore \<Rightarrow> (conn_error + (uuid \<times> uuid) list) \<times> cstore" where
  "connectors_markDisconnected fails now threshold st =
     (let late = (\<lambda>c. co_status c = ''active''
            \<and> (case co_last_heartbeat_at c of None \<Rightarrow> False | Some t \<Rightarrow> t < now - threshold div second * second)
            \<and> co_tenant_id c \<in> set (cs_active_workspaces st)) in
      if fails SqWatch then (Inl ErrConnDB, st)
      else (Inr (map (\<lambda>c. (co_tenant_id c, co_id c)) (filter late (cs_connectors st))),
            update_status now late (\<lambda>c. c\<lparr>co_status := ''disconnected'', cx_updated_at := now\<rparr>) st))"

section \<open>Revocation and deletion\<close>

text \<open>\<open>StrandedShields\<close>, by name; names compare byte by byte.\<close>

definition StrandedShields :: "uuid \<Rightarrow> uuid \<Rightarrow> cstore \<Rightarrow> shield_full list" where
  "StrandedShields tenantID i st =
     sort_key sh_name (filter (\<lambda>s. sh_tenant_id s = tenantID \<and> sh_connector_id s = Some i \<and> sh_status s \<in> {''active'', ''disconnected''} \<and>
        \<not> list_ex (\<lambda>c. co_tenant_id c = tenantID \<and> co_remote_network_id c = sh_remote_network_id s \<and> co_id c \<noteq> i \<and>
              co_status c \<in> {''active'', ''disconnected''} \<and> co_revoked_at c = None) (cs_connectors st)) (cs_shields st))"

definition revocable :: "uuid \<Rightarrow> uuid \<Rightarrow> connector_full \<Rightarrow> bool" where
  "revocable tenantID i c \<longleftrightarrow> co_id c = i \<and> co_tenant_id c = tenantID \<and> co_status c \<in> {''active'', ''disconnected''} \<and> co_revoked_at c = None"

text \<open>The statement of \<open>RevokeConnector\<close>, after the check for stranded shields.\<close>

definition revoke_tx :: "(conn_stmt \<Rightarrow> bool) \<Rightarrow> time \<Rightarrow> uuid \<Rightarrow> uuid \<Rightarrow> bool \<Rightarrow> cstore \<Rightarrow> conn_error option \<times> cstore" where
  "revoke_tx fails now tenantID i alsoRevokeShields st =
     (if fails SqStranded then (Some ErrConnDB, st)
      else if StrandedShields tenantID i st \<noteq> [] \<and> \<not> alsoRevokeShields
      then (Some (ErrStranded (map sh_id (StrandedShields tenantID i st))), st)
      else if fails SqRevoke then (Some ErrConnDB, st)
      else if count_where (revocable tenantID i) (cs_connectors st) = 0 then (Some ErrNotRevocable, st)
      else (None, update_status now (revocable tenantID i)
              (\<lambda>c. c\<lparr>co_status := ''revoked'', co_revoked_at := Some now, cx_updated_at := now\<rparr>) st))"

text \<open>
  \<open>shield.Revoke\<close> (\<open>internal/shield/revocation.go\<close>): the status, the tombstone and the propagation work in one transaction. The
  tombstones and the outbox rows are pairs of tenant and shield.
\<close>

definition shield_Revoke :: "(conn_stmt \<Rightarrow> bool) \<Rightarrow> time \<Rightarrow> uuid \<Rightarrow> uuid \<Rightarrow> cstore \<Rightarrow> conn_error option \<times> cstore" where
  "shield_Revoke fails now tenantID s st =
     (let P = (\<lambda>x. sh_id x = s \<and> sh_tenant_id x = tenantID \<and> sh_status x \<in> {''active'', ''disconnected''}) in
      if fails (SqShieldRevoke s) then (Some ErrConnDB, st)
      else if count_where P (cs_shields st) = 0 then (Some ErrNotRevocable, st)
      else if fails (SqShieldTombstone s) \<or> fails (SqShieldOutbox s) \<or> fails (SqShieldCommit s) then (Some ErrConnDB, st)
      else (None, st\<lparr>
        cs_shields := update_where P (\<lambda>x. x\<lparr>sh_status := ''revoked'', sh_updated_at := now\<rparr>) (cs_shields st),
        cs_shield_revocations := (if s \<in> snd ` set (cs_shield_revocations st) then cs_shield_revocations st
                                  else cs_shield_revocations st @ [(tenantID, s)]),
        cs_shield_outbox := cs_shield_outbox st @ [(tenantID, s)]\<rparr>))"

text \<open>The shields \<open>RevokeConnector\<close> stranded: one that is no longer revocable is passed over.\<close>

fun revoke_stranded :: "(conn_stmt \<Rightarrow> bool) \<Rightarrow> time \<Rightarrow> uuid \<Rightarrow> uuid list \<Rightarrow> cstore \<Rightarrow> conn_error option \<times> cstore" where
  "revoke_stranded fails now tenantID [] st = (None, st)"
| "revoke_stranded fails now tenantID (s # ss) st =
     (case shield_Revoke fails now tenantID s st of
        (Some e, st') \<Rightarrow> if e \<noteq> ErrNotRevocable then (Some e, st') else revoke_stranded fails now tenantID ss st'
      | (None, st') \<Rightarrow> revoke_stranded fails now tenantID ss st')"

definition RevokedShieldIDs :: "uuid \<Rightarrow> cstore \<Rightarrow> uuid list" where
  "RevokedShieldIDs tenantID st = sort (map snd (filter (\<lambda>x. fst x = tenantID) (cs_shield_revocations st)))"

definition deletable :: "cstore \<Rightarrow> uuid \<Rightarrow> uuid \<Rightarrow> connector_full \<Rightarrow> bool" where
  "deletable st tenantID i c \<longleftrightarrow> co_id c = i \<and> co_tenant_id c = tenantID \<and> co_status c \<in> {''pending'', ''revoked''} \<and>
     \<not> list_ex (\<lambda>s. sh_connector_id s = Some i \<and> sh_status s \<in> {''active'', ''disconnected''}) (cs_shields st)"

text \<open>\<open>DeleteConnector\<close>; the shields of the row go with it.\<close>

definition DeleteConnector :: "(conn_stmt \<Rightarrow> bool) \<Rightarrow> uuid \<Rightarrow> uuid \<Rightarrow> cstore \<Rightarrow> conn_error option \<times> cstore" where
  "DeleteConnector fails tenantID i st =
     (if fails SqDelete then (Some ErrConnDB, st)
      else if count_where (deletable st tenantID i) (cs_connectors st) = 0 then (Some ErrNotDeletable, st)
      else (None, st\<lparr>cs_connectors := filter (\<lambda>c. \<not> deletable st tenantID i c) (cs_connectors st),
                     cs_shields := filter (\<lambda>s. sh_connector_id s \<noteq> Some i) (cs_shields st),
                     cs_placements := filter (\<lambda>p. crp_connector_id p \<noteq> i) (cs_placements st)\<rparr>))"

text \<open>\<open>LoadConnectorStanding\<close>: the state of the row, if there is one.\<close>

definition LoadConnectorStanding :: "(conn_stmt \<Rightarrow> bool) \<Rightarrow> string \<Rightarrow> uuid option \<Rightarrow> cstore \<Rightarrow> conn_error + bool option" where
  "LoadConnectorStanding fails trustDomain i st =
     (case i of
        None \<Rightarrow> Inr None
      | Some i \<Rightarrow>
          if fails SqStanding then Inl ErrConnDB
          else Inr (map_option revoked_row (select_one (\<lambda>c. co_id c = i \<and> co_trust_domain c = Some trustDomain) (cs_connectors st))))"

section \<open>Relay placement\<close>

definition UpsertPlacement :: "(conn_stmt \<Rightarrow> bool) \<Rightarrow> uuid \<Rightarrow> uuid \<Rightarrow> cstore \<Rightarrow> (conn_error + bool) \<times> cstore" where
  "UpsertPlacement fails i relayID st =
     (if fails SqPlacement then (Inl ErrConnDB, st)
      else let old = select_one (\<lambda>p. crp_connector_id p = i) (cs_placements st) in
        (Inr (case old of None \<Rightarrow> True | Some p \<Rightarrow> crp_relay_id p \<noteq> relayID),
         st\<lparr>cs_placements := filter (\<lambda>p. crp_connector_id p \<noteq> i) (cs_placements st) @
              [\<lparr>crp_connector_id = i, crp_relay_id = relayID\<rparr>]\<rparr>))"

definition DeletePlacement :: "(conn_stmt \<Rightarrow> bool) \<Rightarrow> uuid \<Rightarrow> cstore \<Rightarrow> (conn_error + bool) \<times> cstore" where
  "DeletePlacement fails i st =
     (if fails SqPlacement then (Inl ErrConnDB, st)
      else (Inr (list_ex (\<lambda>p. crp_connector_id p = i) (cs_placements st)),
            st\<lparr>cs_placements := filter (\<lambda>p. crp_connector_id p \<noteq> i) (cs_placements st)\<rparr>))"

section \<open>Revocation is terminal\<close>

text \<open>Identifiers are unique, and a row is revoked exactly if its identifier has a tombstone.\<close>

definition cstore_ok :: "cstore \<Rightarrow> bool" where
  "cstore_ok st \<longleftrightarrow> distinct (map co_id (cs_connectors st)) \<and>
     (\<forall>c\<in>set (cs_connectors st). revoked_row c \<longleftrightarrow> tombstoned st (co_id c))"

lemma record_revocation_ids:
  "cv_connector_id ` set (record_revocation now c rs) = cv_connector_id ` set rs \<union> (if revoked_row c then {co_id c} else {})"
  by (auto simp: record_revocation_def)

lemma fold_record_ids:
  "cv_connector_id ` set (fold (record_revocation now) cs rs) = cv_connector_id ` set rs \<union> co_id ` {c \<in> set cs. revoked_row c}"
  by (induction cs arbitrary: rs) (auto simp: record_revocation_ids)

lemma tombstoned_update:
  "tombstoned (update_status now P f st) i \<longleftrightarrow>
     tombstoned st i \<or> (\<exists>c\<in>set (cs_connectors st). P c \<and> revoked_row (f c) \<and> co_id (f c) = i)"
  by (auto simp: tombstoned_def update_status_def fold_record_ids)

text \<open>Statements that keep the identifier, and take no mark of revocation away.\<close>

lemma update_status_ok:
  assumes ok: "cstore_ok st" and f: "\<And>c. P c \<Longrightarrow> co_id (f c) = co_id c" "\<And>c. P c \<Longrightarrow> revoked_row c \<Longrightarrow> revoked_row (f c)"
  shows "cstore_ok (update_status now P f st)"
proof -
  have ids: "map co_id (update_where P f (cs_connectors st)) = map co_id (cs_connectors st)"
    using f(1) by (simp add: update_where_def)
  have "revoked_row d \<longleftrightarrow> tombstoned (update_status now P f st) (co_id d)"
    if d: "d \<in> set (update_where P f (cs_connectors st))" for d
  proof -
    obtain c where c: "c \<in> set (cs_connectors st)" "d = (if P c then f c else c)"
      using d unfolding update_where_def by fastforce
    have same: "c' = c" if "c' \<in> set (cs_connectors st)" "co_id c' = co_id c" for c'
      using ok c(1) that by (auto simp: cstore_ok_def intro: distinct_key_eq)
    have "co_id d = co_id c"
      using c(2) f(1) by simp
    then have "tombstoned (update_status now P f st) (co_id d) \<longleftrightarrow> tombstoned st (co_id c) \<or> P c \<and> revoked_row (f c)"
      using c(1) f(1) same unfolding tombstoned_update by metis
    moreover have "revoked_row c \<longleftrightarrow> tombstoned st (co_id c)"
      using ok c(1) by (simp add: cstore_ok_def)
    ultimately show ?thesis
      using c(2) f(2) by auto
  qed
  then show ?thesis
    using ok ids by (simp add: cstore_ok_def update_status_def)
qed

lemma update_other_ok:
  assumes ok: "cstore_ok st" and f: "\<And>c. co_id (f c) = co_id c" "\<And>c. revoked_row (f c) = revoked_row c"
  shows "cstore_ok (update_other P f st)"
proof -
  have "map co_id (update_where P f (cs_connectors st)) = map co_id (cs_connectors st)"
    using f(1) by (simp add: update_where_def)
  then show ?thesis
    using ok f by (auto simp: cstore_ok_def update_other_def tombstoned_def set_update_where)
qed

lemma new_connector_sel [simp]: "co_id (new_connector now newid t rn name) = newid" "\<not> revoked_row (new_connector now newid t rn name)"
  by (simp_all add: new_connector_def revoked_row_def)

lemma GenerateConnectorToken_ok:
  assumes "cstore_ok st" "GenerateConnectorToken fails now newid t rn name st = (r, st')"
  shows "cstore_ok st'"
  using assms by (auto simp: GenerateConnectorToken_def cstore_ok_def tombstoned_def split: if_splits option.splits)

lemma DeleteConnector_ok:
  assumes "cstore_ok st" "DeleteConnector fails t i st = (r, st')"
  shows "cstore_ok st'"
  using assms by (auto simp: DeleteConnector_def cstore_ok_def tombstoned_def distinct_map_filter split: if_splits)


text \<open>
  Nothing keeps two connectors of a workspace from having one name: a second creation with the name succeeds although the resolver
  has an answer for that case.
\<close>

lemma duplicate_connector_name:
  assumes "GenerateConnectorToken fails now a t rn name st = (Inr a, st')" "b \<noteq> a" "b \<notin> co_id ` set (cs_connectors st)" "\<not> tombstoned st b"
  shows "fst (GenerateConnectorToken fails now b t rn name st') = Inr b"
  using assms by (auto simp: GenerateConnectorToken_def tombstoned_def split: if_splits option.splits)

end
