(* ===== verification/Ctl_Streams.thy ===== *)
theory Ctl_Streams
  imports Ctl_Store
begin

text \<open>
  The controller's side of the control streams (\<open>internal/connector/control_stream.go\<close>, \<open>authorization.go\<close>,
  \<open>shield_revocations.go\<close>): the authoritative lookup, the stream objects with their mailboxes, the registry, opening and
  ending of a stream, the health report that is acknowledged, and the signal of a revocation.

  A stream object is a number. Its mailbox holds at most 128 messages; \<open>cc_wire\<close> is what its writer has sent. What the
  policy cache returned is an argument where the code pushes an access list.
\<close>

section \<open>The authoritative lookup\<close>

datatype conn_auth_state = AuthAuthorized | AuthRevoked | AuthAbsent

definition lookupConnector :: "(conn_stmt \<Rightarrow> bool) \<Rightarrow> uuid \<Rightarrow> string \<Rightarrow> cstore \<Rightarrow> (conn_auth_state \<times> uuid option) option" where
  "lookupConnector fails i trustDomain st =
     (if fails SqLookup then None
      else case select_one (\<lambda>c. co_id c = i \<and> co_trust_domain c = Some trustDomain) (cs_connectors st) of
        None \<Rightarrow>
          if fails SqTombstone then None
          else if list_ex (\<lambda>v. cv_connector_id v = i \<and>
                  list_ex (\<lambda>w. ws_id w = cv_tenant_id v \<and> ws_trust_domain w = Some trustDomain) (cs_workspaces st)) (cs_revocations st)
          then Some (AuthRevoked, None) else Some (AuthAbsent, None)
      | Some c \<Rightarrow> Some (if revoked_row c then AuthRevoked else AuthAuthorized, Some (co_tenant_id c)))"

datatype grpc_code = CodePermissionDenied | CodeNotFound | CodeUnavailable | CodeFailedPrecondition

record authz_reject =
  rj_code :: grpc_code
  rj_msg :: string
  rj_marker :: string

definition rejectRevoked :: authz_reject where
  "rejectRevoked = \<lparr>rj_code = CodePermissionDenied, rj_msg = ''connector is revoked'', rj_marker = ''revoked''\<rparr>"

definition rejectUnknown :: authz_reject where
  "rejectUnknown = \<lparr>rj_code = CodeNotFound, rj_msg = ''connector not found'', rj_marker = ''unknown''\<rparr>"

definition rejectUnavailable :: authz_reject where
  "rejectUnavailable = \<lparr>rj_code = CodeUnavailable, rj_msg = ''connector authorization state unavailable'', rj_marker = []\<rparr>"

definition rejectMissingSeq :: authz_reject where
  "rejectMissingSeq = \<lparr>rj_code = CodeFailedPrecondition,
     rj_msg = ''connector health report lacks heartbeat_seq (authorization contract required)'', rj_marker = []\<rparr>"

definition rejectionFor :: "conn_auth_state option \<Rightarrow> authz_reject" where
  "rejectionFor s = (case s of Some AuthRevoked \<Rightarrow> rejectRevoked | Some AuthAbsent \<Rightarrow> rejectUnknown | _ \<Rightarrow> rejectUnavailable)"

definition classifyRefusal :: "(conn_stmt \<Rightarrow> bool) \<Rightarrow> uuid \<Rightarrow> string \<Rightarrow> cstore \<Rightarrow> authz_reject" where
  "classifyRefusal fails i trustDomain st = rejectionFor (map_option fst (lookupConnector fails i trustDomain st))"

text \<open>\<open>rejectStream\<close>: the trailer, set only for a marker, and the code.\<close>

definition rejectStream :: "authz_reject \<Rightarrow> string option \<times> grpc_code" where
  "rejectStream rej = (if rj_marker rej \<noteq> [] then Some (rj_marker rej) else None, rj_code rej)"

section \<open>Stream objects\<close>

datatype ctl_msg =
    CmAgentPolicy nat bool | CmPing | CmAuthorizationAck nat | CmConnectorRevoked | CmAclSnapshot nat | CmReEnroll
  | CmShieldRevocations "uuid list" | CmRelayList nat | CmOther

record stream_client =
  cc_connectorID :: uuid
  cc_tenantID :: uuid
  cc_trustDomain :: string
  cc_outbound :: "ctl_msg list"
  cc_revoked :: bool
  cc_terminal :: bool
  cc_terminalSent :: bool
  cc_lastReEnrollAt :: "time option"
  cc_presentedCertNotAfter :: "time option"
  cc_relayListVersion :: "nat option"
  cc_wire :: "ctl_msg list"

definition new_client :: "uuid \<Rightarrow> uuid \<Rightarrow> string \<Rightarrow> time option \<Rightarrow> stream_client" where
  "new_client i tenantID trustDomain presented =
     \<lparr>cc_connectorID = i, cc_tenantID = tenantID, cc_trustDomain = trustDomain, cc_outbound = [], cc_revoked = False,
      cc_terminal = False, cc_terminalSent = False, cc_lastReEnrollAt = None, cc_presentedCertNotAfter = presented,
      cc_relayListVersion = None, cc_wire = []\<rparr>"

definition connectorSendQueueSize :: nat where "connectorSendQueueSize = 128"

definition send :: "ctl_msg \<Rightarrow> stream_client \<Rightarrow> bool \<times> stream_client" where
  "send m c = (if length (cc_outbound c) < connectorSendQueueSize then (True, c\<lparr>cc_outbound := cc_outbound c @ [m]\<rparr>) else (False, c))"

definition sendAuthorizationAck :: "nat \<Rightarrow> stream_client \<Rightarrow> bool \<times> stream_client" where
  "sendAuthorizationAck seq c = (if cc_revoked c then (False, c) else send (CmAuthorizationAck seq) c)"

text \<open>The one-slot mailbox is full exactly if \<open>cc_terminal\<close> holds.\<close>

definition markRevoked :: "stream_client \<Rightarrow> bool \<times> stream_client" where
  "markRevoked c =
     (if cc_revoked c then (False, c)
      else if cc_terminal c then (False, c\<lparr>cc_revoked := True\<rparr>)
      else (True, c\<lparr>cc_revoked := True, cc_terminal := True\<rparr>))"

definition sendRelayList :: "nat \<Rightarrow> bool \<Rightarrow> stream_client \<Rightarrow> bool \<times> stream_client" where
  "sendRelayList version onlyIfBehind c =
     (if onlyIfBehind \<and> cc_relayListVersion c = Some version then (False, c)
      else case send (CmRelayList version) c of
        (True, c') \<Rightarrow> (True, c'\<lparr>cc_relayListVersion := Some version\<rparr>)
      | (False, c') \<Rightarrow> (False, c'))"

text \<open>
  The writer: one message at a time, the terminal one before anything it finds waiting, after which it stops. A message taken
  from the mailbox just before the terminal one arrived still goes out.
\<close>

definition write_outbound :: "stream_client \<Rightarrow> stream_client" where
  "write_outbound c =
     (case cc_outbound c of
        m # ms \<Rightarrow> if cc_terminalSent c then c else c\<lparr>cc_outbound := ms, cc_wire := cc_wire c @ [m]\<rparr>
      | [] \<Rightarrow> c)"

definition write_terminal :: "stream_client \<Rightarrow> stream_client" where
  "write_terminal c =
     (if cc_terminal c \<and> \<not> cc_terminalSent c
      then c\<lparr>cc_terminal := False, cc_terminalSent := True, cc_wire := cc_wire c @ [CmConnectorRevoked]\<rparr> else c)"

section \<open>Renewal\<close>

definition renewalExpiry :: "time option \<Rightarrow> time option \<Rightarrow> time option" where
  "renewalExpiry stored presented =
     (case presented of
        None \<Rightarrow> stored
      | Some p \<Rightarrow> (case stored of None \<Rightarrow> Some p | Some s \<Rightarrow> if p < s then Some p else Some s))"

definition renewalDue :: "time option \<Rightarrow> time \<Rightarrow> duration \<Rightarrow> bool" where
  "renewalDue certNotAfter now window \<longleftrightarrow>
     (case certNotAfter of None \<Rightarrow> False | Some t \<Rightarrow> \<not> window \<le> 0 \<and> t - now < window)"

definition reEnrollResendInterval :: duration where "reEnrollResendInterval = 10 * minute"

definition maybeSendReEnroll :: "duration \<Rightarrow> time option \<Rightarrow> time \<Rightarrow> stream_client \<Rightarrow> bool \<times> stream_client" where
  "maybeSendReEnroll window certNotAfter now c =
     (if \<not> renewalDue certNotAfter now window then (False, c)
      else if (case cc_lastReEnrollAt c of None \<Rightarrow> False | Some t \<Rightarrow> now - t < reEnrollResendInterval) then (False, c)
      else case send CmReEnroll c of
        (False, c') \<Rightarrow> (False, c')
      | (True, c') \<Rightarrow> (True, c'\<lparr>cc_lastReEnrollAt := Some now\<rparr>))"

text \<open>The capability is asserted on every stream; the window is in whole seconds.\<close>

definition agentPolicyMessage :: "duration \<Rightarrow> ctl_msg" where
  "agentPolicyMessage shieldRenewalWindow = CmAgentPolicy (nat (max 0 (shieldRenewalWindow div second))) True"

section \<open>The registry\<close>

text \<open>
  The tables, the stream objects, the current stream of each connector and every activated stream that has not been
  retired.
\<close>

datatype health_outcome = HealthNoRow | HealthDbError | HealthOk bool "time option"

record ctl =
  kt_store :: cstore
  kt_streams :: "nat \<rightharpoonup> stream_client"
  kt_clients :: "uuid \<rightharpoonup> nat"
  kt_live :: "(uuid \<times> nat) list"

definition set_stream :: "nat \<Rightarrow> stream_client \<Rightarrow> ctl \<Rightarrow> ctl" where
  "set_stream j c k = k\<lparr>kt_streams := (kt_streams k)(j \<mapsto> c)\<rparr>"

definition registry_add :: "uuid \<Rightarrow> nat \<Rightarrow> ctl \<Rightarrow> ctl" where
  "registry_add i j k = k\<lparr>kt_clients := (kt_clients k)(i \<mapsto> j)\<rparr>"

definition removeIfCurrent :: "uuid \<Rightarrow> nat \<Rightarrow> ctl \<Rightarrow> bool \<times> ctl" where
  "removeIfCurrent i j k = (if kt_clients k i \<noteq> Some j then (False, k) else (True, k\<lparr>kt_clients := (kt_clients k)(i := None)\<rparr>))"

definition trackLive :: "uuid \<Rightarrow> nat \<Rightarrow> ctl \<Rightarrow> ctl" where
  "trackLive i j k = k\<lparr>kt_live := (if (i, j) \<in> set (kt_live k) then kt_live k else kt_live k @ [(i, j)])\<rparr>"

definition untrackLive :: "uuid \<Rightarrow> nat \<Rightarrow> ctl \<Rightarrow> ctl" where
  "untrackLive i j k = k\<lparr>kt_live := filter (\<lambda>x. x \<noteq> (i, j)) (kt_live k)\<rparr>"

text \<open>A message for the current stream of a connector, from the pushers and resolvers.\<close>

definition push :: "uuid \<Rightarrow> ctl_msg \<Rightarrow> ctl \<Rightarrow> ctl" where
  "push i m k =
     (case kt_clients k i of
        None \<Rightarrow> k
      | Some j \<Rightarrow> (case kt_streams k j of None \<Rightarrow> k | Some c \<Rightarrow> set_stream j (snd (send m c)) k))"

text \<open>\<open>PushScanCommand\<close> reaches connectors of the caller's workspace only.\<close>

definition PushScanCommand :: "uuid \<Rightarrow> uuid \<Rightarrow> ctl \<Rightarrow> bool \<times> ctl" where
  "PushScanCommand workspaceID i k =
     (case kt_clients k i of
        None \<Rightarrow> (False, k)
      | Some j \<Rightarrow>
          (case kt_streams k j of
             None \<Rightarrow> (False, k)
           | Some c \<Rightarrow> if cc_tenantID c \<noteq> workspaceID then (False, k)
                       else let (ok, c') = send CmOther c in (ok, set_stream j c' k)))"

text \<open>\<open>SignalRevoked\<close> marks every live stream of the connector.\<close>

definition mark_stream :: "uuid \<Rightarrow> (uuid \<times> nat) \<Rightarrow> ctl \<Rightarrow> ctl" where
  "mark_stream i x k =
     (if fst x \<noteq> i then k
      else case kt_streams k (snd x) of None \<Rightarrow> k | Some c \<Rightarrow> set_stream (snd x) (snd (markRevoked c)) k)"

definition SignalRevoked :: "uuid \<Rightarrow> ctl \<Rightarrow> ctl" where
  "SignalRevoked i k = fold (mark_stream i) (kt_live k) k"

section \<open>Opening and ending a stream\<close>

text \<open>The start of \<open>Control\<close>: the lookup, and the object of an authorized connector.\<close>

definition control_open :: "(conn_stmt \<Rightarrow> bool) \<Rightarrow> uuid \<Rightarrow> string \<Rightarrow> time option \<Rightarrow> cstore \<Rightarrow> authz_reject + stream_client" where
  "control_open fails i trustDomain presented st =
     (case lookupConnector fails i trustDomain st of
        None \<Rightarrow> Inl rejectUnavailable
      | Some (AuthAuthorized, Some tenantID) \<Rightarrow> Inr (new_client i tenantID trustDomain presented)
      | Some (s, _) \<Rightarrow> Inl (rejectionFor (Some s)))"

definition unrevoked :: "uuid \<Rightarrow> connector_full \<Rightarrow> bool" where
  "unrevoked i c \<longleftrightarrow> co_id c = i \<and> co_status c \<noteq> ''revoked'' \<and> co_revoked_at c = None"

text \<open>
  \<open>activateStream\<close>, under the lifecycle lock: the result is a refusal, or whether the connector became active. When the
  update itself fails, the stream is registered all the same.
\<close>

definition activateStream :: "(conn_stmt \<Rightarrow> bool) \<Rightarrow> time \<Rightarrow> nat \<Rightarrow> stream_client \<Rightarrow> ctl \<Rightarrow> (authz_reject + bool) \<times> ctl" where
  "activateStream fails now j c k =
     (let i = cc_connectorID c; st = kt_store k;
          register = (\<lambda>k. trackLive i j (registry_add i j (set_stream j c k))) in
      if fails SqActivate then (Inr False, register k)
      else case select_one (unrevoked i) (cs_connectors st) of
        None \<Rightarrow> (Inl (classifyRefusal fails i (cc_trustDomain c) st), k)
      | Some row \<Rightarrow>
          (Inr (co_status row \<noteq> ''active''),
           register (k\<lparr>kt_store := update_status now (unrevoked i)
             (\<lambda>c. c\<lparr>co_status := ''active'', co_last_heartbeat_at := Some now, cx_updated_at := now\<rparr>) st\<rparr>)))"

definition retireStream :: "(conn_stmt \<Rightarrow> bool) \<Rightarrow> time \<Rightarrow> nat \<Rightarrow> stream_client \<Rightarrow> ctl \<Rightarrow> (bool \<times> bool) \<times> ctl" where
  "retireStream fails now j c k =
     (let i = cc_connectorID c; P = (\<lambda>c. co_id c = i \<and> co_status c = ''active'') in
      case removeIfCurrent i j (untrackLive i j k) of
        (False, k') \<Rightarrow> ((False, False), k')
      | (True, k') \<Rightarrow>
          if fails SqRetire \<or> count_where P (cs_connectors (kt_store k')) = 0 then ((True, False), k')
          else ((True, True), k'\<lparr>kt_store := update_status now P
                  (\<lambda>c. c\<lparr>co_status := ''disconnected'', cx_updated_at := now\<rparr>) (kt_store k')\<rparr>))"

text \<open>
  What \<open>Control\<close> queues on a new stream before it reads: the policy with the capability, a ping, the list of revoked shields and
  the relay list. Without the list of shields the stream ends. The pending resource instructions that follow belong to the resource
  store.
\<close>

definition greet :: "duration \<Rightarrow> uuid list option \<Rightarrow> nat option \<Rightarrow> stream_client \<Rightarrow> bool \<times> stream_client" where
  "greet shieldRenewalWindow revoked_shields relay_list c =
     (let c1 = snd (send (agentPolicyMessage shieldRenewalWindow) c); c2 = snd (send CmPing c1) in
      case revoked_shields of
        None \<Rightarrow> (False, c2)
      | Some ids \<Rightarrow>
          (case send (CmShieldRevocations ids) c2 of
             (False, c3) \<Rightarrow> (False, c3)
           | (True, c3) \<Rightarrow> (True, case relay_list of None \<Rightarrow> c3 | Some v \<Rightarrow> snd (sendRelayList v False c3))))"

section \<open>Health reports\<close>

record health_report =
  hr_HeartbeatSeq :: nat
  hr_Version :: string
  hr_Hostname :: string
  hr_PublicIp :: string
  hr_LanAddr :: string
  hr_AclVersion :: nat
  hr_RelayId :: "uuid option"

text \<open>The guarded statement of \<open>handleConnectorHealth\<close>.\<close>

definition reporting :: "uuid \<Rightarrow> connector_full \<Rightarrow> bool" where
  "reporting i c \<longleftrightarrow> co_id c = i \<and> co_status c \<noteq> ''revoked'' \<and> co_status c \<noteq> ''deleted'' \<and> co_revoked_at c = None"

definition health_update :: "(conn_stmt \<Rightarrow> bool) \<Rightarrow> time \<Rightarrow> uuid \<Rightarrow> health_report \<Rightarrow> cstore \<Rightarrow> health_outcome \<times> cstore" where
  "health_update fails now i r st =
     (if fails SqHealth then (HealthDbError, st)
      else case select_one (reporting i) (cs_connectors st) of
        None \<Rightarrow> (HealthNoRow, st)
      | Some row \<Rightarrow>
          (HealthOk (co_status row \<noteq> ''active'' \<or> coalesce (co_lan_addr row) \<noteq> hr_LanAddr r) (cx_cert_not_after row),
           update_status now (reporting i)
             (\<lambda>c. c\<lparr>co_status := ''active'', cx_version := Some (hr_Version r), cx_hostname := Some (hr_Hostname r),
                    cx_public_ip := Some (hr_PublicIp r), co_lan_addr := NULLIF_empty (hr_LanAddr r),
                    co_last_heartbeat_at := Some now, cx_updated_at := now\<rparr>) st))"

datatype ctl_effect = EfPolicy uuid | EfTopology uuid "uuid list" | EfPeerLists uuid | EfWakeShieldRevocations

text \<open>What \<open>Control\<close> notifies after a stream was activated, and after it was retired.\<close>

definition activated_effects :: "stream_client \<Rightarrow> authz_reject + bool \<Rightarrow> ctl_effect list" where
  "activated_effects c x = (case x of Inr True \<Rightarrow> [EfPolicy (cc_tenantID c), EfTopology (cc_tenantID c) [cc_connectorID c]] | _ \<Rightarrow> [])"

definition retired_effects :: "stream_client \<Rightarrow> bool \<times> bool \<Rightarrow> ctl_effect list" where
  "retired_effects c x = (if fst x \<and> snd x then [EfPolicy (cc_tenantID c), EfTopology (cc_tenantID c) [cc_connectorID c]] else [])"

text \<open>What the policy cache returned to \<open>pushACLSnapshot\<close>.\<close>

datatype acl_result = AclUnwired | AclError | AclVersion nat

definition pushACLSnapshot :: "acl_result \<Rightarrow> nat \<Rightarrow> stream_client \<Rightarrow> bool \<times> stream_client" where
  "pushACLSnapshot acl connectorVersion c =
     (case acl of
        AclUnwired \<Rightarrow> (True, c)
      | AclError \<Rightarrow> (False, c)
      | AclVersion v \<Rightarrow> if connectorVersion \<noteq> 0 \<and> connectorVersion = v then (True, c) else send (CmAclSnapshot v) c)"

definition relay_report :: "(conn_stmt \<Rightarrow> bool) \<Rightarrow> uuid \<Rightarrow> uuid \<Rightarrow> uuid option \<Rightarrow> cstore \<Rightarrow> ctl_effect list \<times> cstore" where
  "relay_report fails i tenantID relayID st =
     (case (case relayID of Some rl \<Rightarrow> UpsertPlacement fails i rl st | None \<Rightarrow> DeletePlacement fails i st) of
        (Inr True, st') \<Rightarrow> ([EfTopology tenantID [i]], st')
      | (_, st') \<Rightarrow> ([], st'))"

text \<open>The rest of the handler after the statement: \<open>Some\<close> refusal ends the stream.\<close>

definition health_finish ::
  "(conn_stmt \<Rightarrow> bool) \<Rightarrow> time \<Rightarrow> duration \<Rightarrow> acl_result \<Rightarrow> health_report \<Rightarrow> health_outcome \<Rightarrow> stream_client \<Rightarrow> cstore
   \<Rightarrow> authz_reject option \<times> ctl_effect list \<times> stream_client \<times> cstore" where
  "health_finish fails now window acl r outcome c st =
     (let i = cc_connectorID c; t = cc_tenantID c; (es, st') = relay_report fails i t (hr_RelayId r) st in
      case outcome of
        HealthNoRow \<Rightarrow> (Some (classifyRefusal fails i (cc_trustDomain c) st), [], c, st)
      | HealthDbError \<Rightarrow> (None, es, c, st')
      | HealthOk changed certNotAfter \<Rightarrow>
          let c1 = snd (maybeSendReEnroll window (renewalExpiry certNotAfter (cc_presentedCertNotAfter c)) now c);
              es0 = (if changed then [EfPolicy t, EfTopology t [i], EfPeerLists i] else []);
              (pushed, c2) = pushACLSnapshot acl (hr_AclVersion r) c1 in
          (None, es0 @ es, if pushed then snd (sendAuthorizationAck (hr_HeartbeatSeq r) c2) else c2, st'))"

definition handleConnectorHealth ::
  "(conn_stmt \<Rightarrow> bool) \<Rightarrow> time \<Rightarrow> duration \<Rightarrow> acl_result \<Rightarrow> health_report \<Rightarrow> stream_client \<Rightarrow> cstore
   \<Rightarrow> authz_reject option \<times> ctl_effect list \<times> stream_client \<times> cstore" where
  "handleConnectorHealth fails now window acl r c st =
     (if hr_HeartbeatSeq r = 0 then (Some rejectMissingSeq, [], c, st)
      else let (outcome, st') = health_update fails now (cc_connectorID c) r st in
        health_finish fails now window acl r outcome c st')"

text \<open>\<open>handleConnectorRelayState\<close>: an event of the connector about its relay.\<close>

datatype relay_reason = RelayConnected | RelayDisconnected | RelayUnknownReason

definition handleConnectorRelayState ::
  "(conn_stmt \<Rightarrow> bool) \<Rightarrow> stream_client \<Rightarrow> uuid option \<Rightarrow> relay_reason \<Rightarrow> uuid option \<Rightarrow> cstore \<Rightarrow> ctl_effect list \<times> cstore" where
  "handleConnectorRelayState fails c body_id reason relayID st =
     (if body_id \<noteq> None \<and> body_id \<noteq> Some (cc_connectorID c) then ([], st)
      else case reason of
        RelayConnected \<Rightarrow> (if relayID = None then ([], st) else relay_report fails (cc_connectorID c) (cc_tenantID c) relayID st)
      | RelayDisconnected \<Rightarrow> relay_report fails (cc_connectorID c) (cc_tenantID c) None st
      | RelayUnknownReason \<Rightarrow> ([], st))"

section \<open>Revoking a connector\<close>

text \<open>
  \<open>RevokeConnector\<close>: the statement, the signal on every live stream, the notifications, and the shields that would be left
  without a connector. \<open>nfails\<close> says which notification fails; one that fails ends the call after the revocation.
\<close>

definition RevokeConnector ::
  "(conn_stmt \<Rightarrow> bool) \<Rightarrow> (ctl_effect \<Rightarrow> bool) \<Rightarrow> time \<Rightarrow> uuid \<Rightarrow> uuid \<Rightarrow> bool \<Rightarrow> ctl \<Rightarrow> conn_error option \<times> ctl_effect list \<times> ctl" where
  "RevokeConnector fails nfails now tenantID i alsoRevokeShields k =
     (let stranded = map sh_id (StrandedShields tenantID i (kt_store k)) in
      case revoke_tx fails now tenantID i alsoRevokeShields (kt_store k) of
        (Some e, st') \<Rightarrow> (Some e, [], k\<lparr>kt_store := st'\<rparr>)
      | (None, st') \<Rightarrow>
          let k1 = SignalRevoked i (k\<lparr>kt_store := st'\<rparr>); es = [EfPolicy tenantID, EfTopology tenantID [i], EfPeerLists i] in
          if nfails (EfPolicy tenantID) then (Some ErrNotify, [], k1)
          else if nfails (EfTopology tenantID [i]) then (Some ErrNotify, [EfPolicy tenantID], k1)
          else if \<not> alsoRevokeShields \<or> stranded = [] then (None, es, k1)
          else case revoke_stranded fails now tenantID stranded (kt_store k1) of
            (Some e, st'') \<Rightarrow> (Some e, es, k1\<lparr>kt_store := st''\<rparr>)
          | (None, st'') \<Rightarrow> (None, es @ [EfWakeShieldRevocations], k1\<lparr>kt_store := st''\<rparr>))"

lemma mark_stream_live [simp]: "kt_live (mark_stream i x k) = kt_live k" "kt_store (mark_stream i x k) = kt_store k"
  by (simp_all add: mark_stream_def set_stream_def split: option.split)

lemma fold_mark_kept [simp]:
  "kt_live (fold (mark_stream i) xs k) = kt_live k" "kt_store (fold (mark_stream i) xs k) = kt_store k"
  by (induction xs arbitrary: k) simp_all

lemma SignalRevoked_kept [simp]: "kt_live (SignalRevoked i k) = kt_live k" "kt_store (SignalRevoked i k) = kt_store k"
  by (simp_all add: SignalRevoked_def)

lemma markRevoked_revoked [simp]: "cc_revoked (snd (markRevoked c))" "cc_outbound (snd (markRevoked c)) = cc_outbound c"
  "cc_wire (snd (markRevoked c)) = cc_wire c" "cc_connectorID (snd (markRevoked c)) = cc_connectorID c"
  by (simp_all add: markRevoked_def)

lemma fold_mark_marks:
  assumes "(i, j) \<in> set xs \<or> (\<forall>c. kt_streams k j = Some c \<longrightarrow> cc_revoked c)" "kt_streams (fold (mark_stream i) xs k) j = Some c"
  shows "cc_revoked c"
  using assms
proof (induction xs arbitrary: k)
  case (Cons x xs)
  have "(i, j) \<in> set xs \<or> (\<forall>c. kt_streams (mark_stream i x k) j = Some c \<longrightarrow> cc_revoked c)"
    using Cons.prems(1) by (auto simp: mark_stream_def set_stream_def split: option.splits)
  then show ?case
    using Cons.IH [of "mark_stream i x k"] Cons.prems(2) by simp
qed simp

text \<open>Every stream that is live when a revocation is signalled acknowledges nothing from then on.\<close>

lemma SignalRevoked_marks: "(i, j) \<in> set (kt_live k) \<Longrightarrow> kt_streams (SignalRevoked i k) j = Some c \<Longrightarrow> cc_revoked c"
  unfolding SignalRevoked_def by (rule fold_mark_marks) auto

end
