(* ===== verification/Ctl_Machine.thy ===== *)
theory Ctl_Machine
  imports Ctl_Streams Zec_Interfaces
begin

text \<open>
  The controller with all its control streams at once. A handler is cut where another one can come between: before and after
  each statement, and where it takes the lock of a stream. Everything may happen in any order.
\<close>

section \<open>Steps\<close>

text \<open>The statements of \<open>Ctl_Store\<close>, and changes of tables the streams only read.\<close>

inductive store_step :: "time \<Rightarrow> cstore \<Rightarrow> cstore \<Rightarrow> bool" for now where
  ss_create: "GenerateConnectorToken fails now newid t rn name st = (x, st') \<Longrightarrow> store_step now st st'"
| ss_token: "issue_token fails now jti t i st = (x, st') \<Longrightarrow> store_step now st st'"
| ss_enroll: "enroll_tx fails now i t td jti cert hostname version st = (x, st') \<Longrightarrow> store_step now st st'"
| ss_renew: "renew_write fails now cert t i st = (x, st') \<Longrightarrow> store_step now st st'"
| ss_goodbye: "Goodbye fails now td i st = (x, st') \<Longrightarrow> store_step now st st'"
| ss_watch: "connectors_markDisconnected fails now threshold st = (x, st') \<Longrightarrow> store_step now st st'"
| ss_revoke: "revoke_tx fails now t i also_shields st = (x, st') \<Longrightarrow> store_step now st st'"
| ss_shield: "shield_Revoke fails now t s st = (x, st') \<Longrightarrow> store_step now st st'"
| ss_delete: "DeleteConnector fails t i st = (x, st') \<Longrightarrow> store_step now st st'"
| ss_other: "store_step now st (st\<lparr>cs_workspaces := ws, cs_active_workspaces := aw, cs_remote_networks := rns, cs_shields := shs\<rparr>)"

text \<open>
  \<open>cm_opened\<close> are stream objects not yet activated, \<open>cm_ready\<close> the streams that read messages, \<open>cm_health\<close> the reports
  whose statement has run and whose handler has not finished.
\<close>

record machine =
  cm_ctl :: ctl
  cm_opened :: "nat \<rightharpoonup> stream_client"
  cm_ready :: "nat list"
  cm_health :: "nat \<rightharpoonup> health_report \<times> health_outcome"

abbreviation "cm_store m \<equiv> kt_store (cm_ctl m)"
abbreviation "cm_streams m \<equiv> kt_streams (cm_ctl m)"

definition with_ctl :: "ctl \<Rightarrow> machine \<Rightarrow> machine" where
  "with_ctl k m = m\<lparr>cm_ctl := k\<rparr>"

definition with_store :: "cstore \<Rightarrow> machine \<Rightarrow> machine" where
  "with_store st m = m\<lparr>cm_ctl := (cm_ctl m)\<lparr>kt_store := st\<rparr>\<rparr>"

text \<open>What other components queue: neither acknowledgements nor revocations.\<close>

fun pushable :: "ctl_msg \<Rightarrow> bool" where
  "pushable (CmAuthorizationAck n) = False"
| "pushable CmConnectorRevoked = False"
| "pushable _ = True"

inductive ctl_step :: "time \<Rightarrow> machine \<Rightarrow> machine \<Rightarrow> bool" for now where
  k_store: "store_step now (cm_store m) st' \<Longrightarrow> ctl_step now m (with_store st' m)"
| k_open: "control_open fails i td presented (cm_store m) = Inr c \<Longrightarrow> cm_opened m j = None \<Longrightarrow> cm_streams m j = None \<Longrightarrow>
    ctl_step now m (m\<lparr>cm_opened := (cm_opened m)(j \<mapsto> c)\<rparr>)"
| k_activate: "cm_opened m j = Some c \<Longrightarrow> activateStream fails now j c (cm_ctl m) = (x, k') \<Longrightarrow>
    ctl_step now m (with_ctl k' (m\<lparr>cm_opened := (cm_opened m)(j := None)\<rparr>))"
| k_greet: "cm_streams m j = Some c \<Longrightarrow> j \<notin> set (cm_ready m) \<Longrightarrow> greet window shields relays c = (ok, c') \<Longrightarrow>
    ctl_step now m (with_ctl (set_stream j c' (cm_ctl m)) (m\<lparr>cm_ready := (if ok then j # cm_ready m else cm_ready m)\<rparr>))"
| k_push: "pushable msg \<Longrightarrow> ctl_step now m (with_ctl (push i msg (cm_ctl m)) m)"
| k_sync: "cm_streams m j = Some c \<Longrightarrow> ctl_step now m (with_ctl (set_stream j (snd (sendRelayList v b c)) (cm_ctl m)) m)"
| k_finish: "cm_health m j = Some (r, outcome) \<Longrightarrow> cm_streams m j = Some c \<Longrightarrow>
    health_finish fails now window acl r outcome c (cm_store m) = (x, es, c', st') \<Longrightarrow>
    ctl_step now m (with_ctl ((set_stream j c' (cm_ctl m))\<lparr>kt_store := st'\<rparr>) (m\<lparr>cm_health := (cm_health m)(j := None)\<rparr>))"
| k_relay: "cm_streams m j = Some c \<Longrightarrow> handleConnectorRelayState fails c body reason relay (cm_store m) = (es, st') \<Longrightarrow>
    ctl_step now m (with_store st' m)"
| k_write: "cm_streams m j = Some c \<Longrightarrow> ctl_step now m (with_ctl (set_stream j (write_outbound c) (cm_ctl m)) m)"
| k_terminal: "cm_streams m j = Some c \<Longrightarrow> ctl_step now m (with_ctl (set_stream j (write_terminal c) (cm_ctl m)) m)"
| k_retire: "cm_streams m j = Some c \<Longrightarrow> retireStream fails now j c (cm_ctl m) = (x, k') \<Longrightarrow>
    ctl_step now m (with_ctl k' (m\<lparr>cm_ready := removeAll j (cm_ready m), cm_health := (cm_health m)(j := None)\<rparr>))"
| k_signal: "tombstoned (cm_store m) i \<Longrightarrow> ctl_step now m (with_ctl (SignalRevoked i (cm_ctl m)) m)"

text \<open>A report arrives on a stream that reads: the first part of its handler, up to the statement.\<close>

inductive ctl_report :: "time \<Rightarrow> nat \<Rightarrow> health_report \<Rightarrow> machine \<Rightarrow> machine \<Rightarrow> bool" for now j r where
  k_report: "cm_streams m j = Some c \<Longrightarrow> j \<in> set (cm_ready m) \<Longrightarrow> cm_health m j = None \<Longrightarrow> hr_HeartbeatSeq r \<noteq> 0 \<Longrightarrow>
    health_update fails now (cc_connectorID c) r (cm_store m) = (outcome, st') \<Longrightarrow>
    ctl_report now j r m (with_store st' (m\<lparr>cm_health := (cm_health m)(j \<mapsto> (r, outcome))\<rparr>))"

section \<open>The tables\<close>

text \<open>The rows stay consistent, and a tombstone appears only at a revocation, with its time.\<close>

definition store_kept :: "time \<Rightarrow> cstore \<Rightarrow> cstore \<Rightarrow> bool" where
  "store_kept now st st' \<longleftrightarrow> cstore_ok st' \<and> set (cs_revocations st) \<subseteq> set (cs_revocations st') \<and>
     (\<forall>v\<in>set (cs_revocations st'). v \<in> set (cs_revocations st) \<or> cv_revoked_at v = now)"

lemma store_kept_refl: "cstore_ok st \<Longrightarrow> store_kept now st st"
  by (simp add: store_kept_def)

lemma store_keptD: "store_kept now st st' \<Longrightarrow> cstore_ok st'"
  by (simp add: store_kept_def)

lemma fold_record_new:
  assumes "\<And>c. c \<in> set cs \<Longrightarrow> revoked_row c \<Longrightarrow> co_id c \<in> cv_connector_id ` set rs \<or> co_revoked_at c = Some now"
  shows "set rs \<subseteq> set (fold (record_revocation now) cs rs) \<and>
    (\<forall>v\<in>set (fold (record_revocation now) cs rs). v \<in> set rs \<or> cv_revoked_at v = now)"
  using assms
proof (induction cs arbitrary: rs)
  case (Cons c cs)
  have "set rs \<subseteq> set (record_revocation now c rs)"
    by (auto simp: record_revocation_def)
  moreover have "v \<in> set rs \<or> cv_revoked_at v = now" if "v \<in> set (record_revocation now c rs)" for v
    using that Cons.prems [of c] by (auto simp: record_revocation_def or_else_def split: if_splits)
  moreover have "co_id d \<in> cv_connector_id ` set (record_revocation now c rs) \<or> co_revoked_at d = Some now"
    if "d \<in> set cs" "revoked_row d" for d
    using Cons.prems [of d] that by (auto simp: record_revocation_ids)
  ultimately show ?case
    using Cons.IH [of "record_revocation now c rs"] by (simp, blast)
qed simp

lemma update_status_kept:
  assumes ok: "cstore_ok st" and f: "\<And>c. P c \<Longrightarrow> co_id (f c) = co_id c"
      "\<And>c. P c \<Longrightarrow> revoked_row (f c) \<Longrightarrow> revoked_row c \<or> co_revoked_at (f c) = Some now" "\<And>c. P c \<Longrightarrow> revoked_row c \<Longrightarrow> revoked_row (f c)"
  shows "store_kept now st (update_status now P f st)"
proof -
  have "co_id d \<in> cv_connector_id ` set (cs_revocations st) \<or> co_revoked_at d = Some now"
    if d: "d \<in> set (map f (filter P (cs_connectors st)))" "revoked_row d" for d
  proof -
    obtain c where "c \<in> set (cs_connectors st)" "P c" "d = f c"
      using d(1) by auto
    then show ?thesis
      using d(2) ok f(1) [of c] f(2) [of c] by (auto simp: cstore_ok_def tombstoned_def)
  qed
  then show ?thesis
    using fold_record_new [of "map f (filter P (cs_connectors st))" "cs_revocations st" now] update_status_ok [OF ok f(1,3)]
    by (auto simp: store_kept_def update_status_def)
qed

lemma update_other_kept:
  "cstore_ok st \<Longrightarrow> (\<And>c. co_id (f c) = co_id c) \<Longrightarrow> (\<And>c. revoked_row (f c) = revoked_row c) \<Longrightarrow> store_kept now st (update_other P f st)"
  using update_other_ok by (simp add: store_kept_def update_other_def)

lemma store_step_kept:
  assumes ok: "cstore_ok st" and step: "store_step now st st'"
  shows "store_kept now st st'"
  using step
proof cases
  case (ss_create fails newid t rn name x)
  have "cs_revocations st' = cs_revocations st"
    using ss_create by (auto simp: GenerateConnectorToken_def split: if_splits option.splits)
  then show ?thesis
    using GenerateConnectorToken_ok [OF ok ss_create] by (simp add: store_kept_def)
next
  case (ss_delete fails t i x)
  have "cs_revocations st' = cs_revocations st"
    using ss_delete by (auto simp: DeleteConnector_def split: if_splits)
  then show ?thesis
    using DeleteConnector_ok [OF ok ss_delete] by (simp add: store_kept_def)
next
  case (ss_token fails jti t i x)
  then show ?thesis
    using ok store_kept_refl
    by (auto simp: issue_token_def Let_def revoked_row_def split: if_splits option.splits intro!: update_other_kept)
next
  case (ss_renew fails cert t i x)
  then show ?thesis
    using ok store_kept_refl
    by (auto simp: renew_write_def Let_def revoked_row_def split: if_splits intro!: update_other_kept)
next
  case (ss_enroll fails i t td jti cert hostname version x)
  then show ?thesis
    using ok store_kept_refl
    by (auto simp: enroll_tx_def Let_def revoked_row_def split: if_splits option.splits intro!: update_status_kept)
next
  case (ss_goodbye fails td i x)
  then show ?thesis
    using ok store_kept_refl by (auto simp: Goodbye_def Let_def revoked_row_def split: if_splits intro!: update_status_kept)
next
  case (ss_watch fails threshold x)
  then show ?thesis
    using ok store_kept_refl by (auto simp: connectors_markDisconnected_def Let_def revoked_row_def split: if_splits intro!: update_status_kept)
next
  case (ss_revoke fails t i also_shields x)
  then show ?thesis
    using ok store_kept_refl by (auto simp: revoke_tx_def revoked_row_def revocable_def split: if_splits intro!: update_status_kept)
next
  case (ss_shield fails t s x)
  then show ?thesis
    using ok by (auto simp: shield_Revoke_def Let_def store_kept_def cstore_ok_def tombstoned_def split: if_splits)
next
  case ss_other
  then show ?thesis
    using ok by (simp add: store_kept_def cstore_ok_def tombstoned_def)
qed


section \<open>Acknowledgements\<close>

text \<open>The reports acknowledged on a stream, queued or sent. \<open>client_kept S\<close>: the stream is the same, and acknowledges more only in \<open>S\<close>.\<close>

definition acks :: "stream_client \<Rightarrow> nat set" where
  "acks c = {n. CmAuthorizationAck n \<in> set (cc_outbound c) \<union> set (cc_wire c)}"

definition client_kept :: "nat set \<Rightarrow> stream_client \<Rightarrow> stream_client \<Rightarrow> bool" where
  "client_kept S c c' \<longleftrightarrow> cc_connectorID c' = cc_connectorID c \<and> acks c' \<subseteq> acks c \<union> S"

lemma client_kept_refl [simp]: "client_kept S c c"
  by (simp add: client_kept_def)

lemma client_kept_trans: "client_kept S c d \<Longrightarrow> client_kept S d e \<Longrightarrow> client_kept S c e"
  by (auto simp: client_kept_def)

lemma client_kept_mono: "client_kept {} c d \<Longrightarrow> client_kept S c d"
  by (auto simp: client_kept_def)

lemma send_kept: "(\<And>n. m = CmAuthorizationAck n \<Longrightarrow> n \<in> S) \<Longrightarrow> client_kept S c (snd (send m c))"
  by (auto simp: client_kept_def send_def acks_def)

lemma sendRelayList_kept: "client_kept S c (snd (sendRelayList v b c))"
  by (auto simp: client_kept_def sendRelayList_def send_def acks_def)

lemma maybeSendReEnroll_kept: "client_kept S c (snd (maybeSendReEnroll w t now c))"
  by (auto simp: client_kept_def maybeSendReEnroll_def send_def acks_def)

lemma pushACLSnapshot_kept: "client_kept S c (snd (pushACLSnapshot acl v c))"
  using send_kept [of _ S c] by (auto simp: pushACLSnapshot_def split: acl_result.split)

lemma sendAuthorizationAck_kept: "n \<in> S \<Longrightarrow> client_kept S c (snd (sendAuthorizationAck n c))"
  by (auto simp: sendAuthorizationAck_def intro: send_kept)

lemma write_kept: "client_kept S c (write_outbound c)" "client_kept S c (write_terminal c)"
  by (auto simp: client_kept_def write_outbound_def write_terminal_def acks_def split: list.split)

lemma markRevoked_kept: "client_kept S c (snd (markRevoked c))"
  by (simp add: client_kept_def acks_def)

lemma greet_kept: "greet w shields relays c = (ok, c') \<Longrightarrow> client_kept S c c'"
proof -
  assume g: "greet w shields relays c = (ok, c')"
  let ?c2 = "snd (send CmPing (snd (send (agentPolicyMessage w) c)))"
  have c2: "client_kept S c ?c2"
    by (rule client_kept_trans; rule send_kept) (simp_all add: agentPolicyMessage_def)
  have c3: "client_kept S c (snd (send (CmShieldRevocations ids) ?c2))" for ids
    by (rule client_kept_trans [OF c2 send_kept]) simp
  show ?thesis
    using g c2 c3 client_kept_trans [OF c3 sendRelayList_kept]
    by (auto simp: greet_def Let_def split: option.splits prod.splits bool.splits) (metis snd_conv)+
qed

lemma health_finish_kept:
  assumes "health_finish fails now w acl r outcome c st = (x, es, c', st')"
  shows "client_kept {n. n = hr_HeartbeatSeq r \<and> (\<exists>b t. outcome = HealthOk b t)} c c'"
proof (cases outcome)
  case (HealthOk b t)
  let ?S = "{n. n = hr_HeartbeatSeq r \<and> (\<exists>b t. outcome = HealthOk b t)}"
  let ?c1 = "snd (maybeSendReEnroll w (renewalExpiry t (cc_presentedCertNotAfter c)) now c)"
  let ?c2 = "snd (pushACLSnapshot acl (hr_AclVersion r) ?c1)"
  have c2: "client_kept ?S c ?c2"
    by (rule client_kept_trans [OF maybeSendReEnroll_kept pushACLSnapshot_kept])
  have "client_kept ?S c (snd (sendAuthorizationAck (hr_HeartbeatSeq r) ?c2))"
    using client_kept_trans [OF c2 sendAuthorizationAck_kept] HealthOk by simp
  moreover have "c' = ?c2 \<or> c' = snd (sendAuthorizationAck (hr_HeartbeatSeq r) ?c2)"
    using assms HealthOk by (auto simp: health_finish_def Let_def split: prod.splits if_splits)
  ultimately show ?thesis
    using c2 by auto
qed (use assms in \<open>auto simp: health_finish_def Let_def split: prod.splits\<close>)

section \<open>The registry keeps its streams\<close>

text \<open>\<open>streams_kept S k k'\<close>: every stream of \<open>k'\<close> is one of \<open>k\<close>, kept in the sense of \<open>S\<close>.\<close>

definition streams_kept :: "(nat \<Rightarrow> nat set) \<Rightarrow> ctl \<Rightarrow> ctl \<Rightarrow> bool" where
  "streams_kept S k k' \<longleftrightarrow>
     (\<forall>j. case kt_streams k j of None \<Rightarrow> kt_streams k' j = None
                               | Some c \<Rightarrow> (\<exists>c'. kt_streams k' j = Some c' \<and> client_kept (S j) c c'))"

lemma streams_kept_refl [simp]: "streams_kept S k k"
  by (simp add: streams_kept_def split: option.split)

lemma streams_kept_store [simp]: "streams_kept S k (k'\<lparr>kt_store := st\<rparr>) = streams_kept S k k'"
  by (simp add: streams_kept_def split: option.split)

lemma streams_kept_trans:
  assumes "streams_kept S k k'" "streams_kept S k' k''"
  shows "streams_kept S k k''"
proof -
  have "case kt_streams k j of None \<Rightarrow> kt_streams k'' j = None | Some c \<Rightarrow> (\<exists>c'. kt_streams k'' j = Some c' \<and> client_kept (S j) c c')" for j
    using assms(1) [unfolded streams_kept_def, rule_format, of j] assms(2) [unfolded streams_kept_def, rule_format, of j]
    by (auto split: option.splits intro: client_kept_trans)
  then show ?thesis
    by (simp add: streams_kept_def)
qed

lemma streams_kept_set: "kt_streams k j = Some c \<Longrightarrow> client_kept (S j) c c' \<Longrightarrow> streams_kept S k (set_stream j c' k)"
  by (simp add: streams_kept_def set_stream_def split: option.split)

lemma streams_kept_push: "pushable msg \<Longrightarrow> streams_kept S k (push i msg k)"
  unfolding push_def by (auto split: option.split intro!: streams_kept_set send_kept)

lemma streams_kept_signal: "streams_kept S k (SignalRevoked i k)"
proof -
  have "streams_kept S k (fold (mark_stream i) xs k)" for xs
  proof (induction xs arbitrary: k)
    case (Cons x xs)
    have "streams_kept S k (mark_stream i x k)"
      unfolding mark_stream_def by (auto split: option.split intro!: streams_kept_set markRevoked_kept)
    then show ?case
      using Cons streams_kept_trans by fastforce
  qed simp
  then show ?thesis
    by (simp add: SignalRevoked_def)
qed

lemma streams_kept_retire: "retireStream fails now j c k = (x, k') \<Longrightarrow> streams_kept S k k'"
  by (auto simp: retireStream_def removeIfCurrent_def untrackLive_def Let_def streams_kept_def split: if_splits option.split)


section \<open>The machine keeps its tables and its streams\<close>

lemma relay_report_kept: "cstore_ok st \<Longrightarrow> relay_report fails i t relay st = (es, st') \<Longrightarrow> store_kept now st st'"
  by (auto simp: relay_report_def UpsertPlacement_def DeletePlacement_def Let_def store_kept_def cstore_ok_def tombstoned_def
      split: option.splits prod.splits sum.splits bool.splits if_splits)

lemma handleConnectorRelayState_kept:
  "cstore_ok st \<Longrightarrow> handleConnectorRelayState fails c body reason relay st = (es, st') \<Longrightarrow> store_kept now st st'"
  by (auto simp: handleConnectorRelayState_def split: if_splits relay_reason.splits intro: relay_report_kept store_kept_refl)

lemma health_finish_store_kept:
  assumes "cstore_ok st" "health_finish fails now w acl r outcome c st = (x, es, c', st')"
  shows "store_kept now st st'"
proof -
  obtain es' st1 where rr: "relay_report fails (cc_connectorID c) (cc_tenantID c) (hr_RelayId r) st = (es', st1)"
    by force
  have "st' = st \<or> st' = st1"
    using assms(2) rr by (auto simp: health_finish_def Let_def split: health_outcome.splits prod.splits)
  then show ?thesis
    using relay_report_kept [OF assms(1) rr] store_kept_refl [OF assms(1)] by auto
qed

lemma retireStream_store_kept:
  assumes "cstore_ok (kt_store k)" "retireStream fails now j c k = (x, k')"
  shows "store_kept now (kt_store k) (kt_store k')"
  using assms store_kept_refl [OF assms(1)]
  by (auto simp: retireStream_def removeIfCurrent_def untrackLive_def Let_def revoked_row_def split: if_splits intro!: update_status_kept)

lemma activateStream_cases:
  assumes "cstore_ok (kt_store k)" "activateStream fails now j c k = (x, k')"
  shows "store_kept now (kt_store k) (kt_store k') \<and> (kt_streams k' = kt_streams k \<or> kt_streams k' = (kt_streams k)(j \<mapsto> c))"
  using assms store_kept_refl [OF assms(1)]
  by (auto simp: activateStream_def Let_def trackLive_def registry_add_def set_stream_def unrevoked_def revoked_row_def
      split: if_splits option.splits intro!: update_status_kept)

lemma health_update_kept:
  assumes "cstore_ok st" "health_update fails now i r st = (outcome, st')"
  shows "store_kept now st st'"
  using assms store_kept_refl [OF assms(1)]
  by (auto simp: health_update_def reporting_def revoked_row_def split: if_splits option.splits intro!: update_status_kept)

text \<open>The statement of a report succeeds only for a connector without tombstone.\<close>

lemma health_update_ok:
  assumes "cstore_ok st" "health_update fails now i r st = (HealthOk b t, st')"
  shows "\<not> tombstoned st i"
proof -
  obtain c where c: "select_one (reporting i) (cs_connectors st) = Some c"
    using assms(2) by (auto simp: health_update_def split: if_splits option.splits)
  then have "c \<in> set (cs_connectors st)" "reporting i c"
    by (auto dest: select_one_Some)
  then show ?thesis
    using assms(1) by (auto simp: cstore_ok_def reporting_def revoked_row_def)
qed

definition cm_ok :: "machine \<Rightarrow> bool" where
  "cm_ok m \<longleftrightarrow> cstore_ok (cm_store m) \<and>
     (\<forall>j c. cm_opened m j = Some c \<longrightarrow> cm_streams m j = None \<and> cc_outbound c = [] \<and> cc_wire c = []) \<and>
     (\<forall>j. cm_health m j \<noteq> None \<longrightarrow> cm_streams m j \<noteq> None)"

text \<open>What the handler in progress on a stream may acknowledge.\<close>

definition ackable :: "machine \<Rightarrow> nat \<Rightarrow> nat set" where
  "ackable m j = {n. \<exists>r b t. cm_health m j = Some (r, HealthOk b t) \<and> n = hr_HeartbeatSeq r}"

definition machine_kept :: "time \<Rightarrow> machine \<Rightarrow> machine \<Rightarrow> bool" where
  "machine_kept now m m' \<longleftrightarrow> cm_ok m' \<and> store_kept now (cm_store m) (cm_store m') \<and> cm_health m' \<subseteq>\<^sub>m cm_health m \<and>
     (\<forall>j c'. cm_streams m' j = Some c' \<longrightarrow>
        (case cm_streams m j of None \<Rightarrow> acks c' = {} | Some c \<Rightarrow> client_kept (ackable m j) c c'))"

lemma machine_keptI:
  assumes ok: "cm_ok m" and st: "store_kept now (cm_store m) (cm_store m')"
    and ss: "streams_kept (ackable m) (cm_ctl m) (cm_ctl m')" and h: "cm_health m' \<subseteq>\<^sub>m cm_health m"
    and op: "\<And>j c. cm_opened m' j = Some c \<Longrightarrow> cm_opened m j = Some c \<or> cm_streams m j = None \<and> cc_outbound c = [] \<and> cc_wire c = []"
  shows "machine_kept now m m'"
proof -
  have none: "cm_streams m' j = None \<longleftrightarrow> cm_streams m j = None" for j
    using ss [unfolded streams_kept_def, rule_format, of j] by (auto split: option.splits)
  have kept: "case cm_streams m j of None \<Rightarrow> acks c' = {} | Some c \<Rightarrow> client_kept (ackable m j) c c'"
    if "cm_streams m' j = Some c'" for j c'
    using ss [unfolded streams_kept_def, rule_format, of j] that by (auto split: option.splits)
  have dom: "cm_health m j \<noteq> None" if "cm_health m' j \<noteq> None" for j
    using h that by (auto simp: map_le_def dom_def)
  have "cm_ok m'"
    using ok op none dom store_keptD [OF st] unfolding cm_ok_def by metis
  then show ?thesis
    using st h kept by (simp add: machine_kept_def)
qed

lemma with_simps [simp]:
  "cm_ctl (with_ctl k m) = k" "cm_opened (with_ctl k m) = cm_opened m" "cm_health (with_ctl k m) = cm_health m"
  "cm_ready (with_ctl k m) = cm_ready m"
  "cm_ctl (with_store st m) = (cm_ctl m)\<lparr>kt_store := st\<rparr>" "cm_opened (with_store st m) = cm_opened m"
  "cm_health (with_store st m) = cm_health m" "cm_ready (with_store st m) = cm_ready m"
  by (simp_all add: with_ctl_def with_store_def)

lemma set_stream_store [simp]: "kt_store (set_stream j c k) = kt_store k"
  by (simp add: set_stream_def)

lemma push_store [simp]: "kt_store (push i msg k) = kt_store k"
  by (simp add: push_def split: option.split)

lemma activate_kept:
  assumes ok: "cm_ok m" and j: "cm_opened m j = Some c" and act: "activateStream fails now j c (cm_ctl m) = (x, k')"
  shows "machine_kept now m (with_ctl k' (m\<lparr>cm_opened := (cm_opened m)(j := None)\<rparr>))"
proof -
  have st: "store_kept now (cm_store m) (kt_store k')"
    and ss: "kt_streams k' = cm_streams m \<or> kt_streams k' = (cm_streams m)(j \<mapsto> c)"
    using activateStream_cases [OF _ act] ok by (auto simp: cm_ok_def)
  have c: "cm_streams m j = None" "acks c = {}"
    using ok j by (auto simp: cm_ok_def acks_def)
  have "cm_ok (with_ctl k' (m\<lparr>cm_opened := (cm_opened m)(j := None)\<rparr>))"
    using ok ss store_keptD [OF st] unfolding cm_ok_def by auto
  moreover have "case cm_streams m i of None \<Rightarrow> acks c' = {} | Some c \<Rightarrow> client_kept (ackable m i) c c'"
    if "kt_streams k' i = Some c'" for i c'
    using ss c that by (auto split: option.split if_splits)
  ultimately show ?thesis
    using st by (simp add: machine_kept_def)
qed

lemma control_open_empty: "control_open fails i td presented st = Inr c \<Longrightarrow> cc_outbound c = [] \<and> cc_wire c = []"
  by (auto simp: control_open_def new_client_def split: option.splits prod.splits conn_auth_state.splits)

lemma ctl_step_kept:
  assumes ok: "cm_ok m" and step: "ctl_step now m m'"
  shows "machine_kept now m m'"
proof -
  have st: "cstore_ok (cm_store m)" and self: "store_kept now (cm_store m) (cm_store m)"
    using ok store_kept_refl by (auto simp: cm_ok_def)
  from step show ?thesis
  proof cases
    case (k_store st')
    then show ?thesis
      using store_step_kept [OF st] by (intro machine_keptI [OF ok]) simp_all
  next
    case (k_open fails i td presented c j)
    then show ?thesis
      using self control_open_empty [OF k_open(2)] by (intro machine_keptI [OF ok]) (auto split: if_splits)
  next
    case (k_activate j c fails x k')
    then show ?thesis
      using activate_kept [OF ok k_activate(2,3)] by simp
  next
    case (k_greet j c w shields relays okay c')
    then show ?thesis
      using self streams_kept_set [OF k_greet(2) greet_kept [OF k_greet(4)]] by (intro machine_keptI [OF ok]) simp_all
  next
    case (k_push msg i)
    then show ?thesis
      using self streams_kept_push by (intro machine_keptI [OF ok]) simp_all
  next
    case (k_sync j c v b)
    then show ?thesis
      using self streams_kept_set [OF k_sync(2) sendRelayList_kept] by (intro machine_keptI [OF ok]) simp_all
  next
    case (k_finish j r outcome c fails w acl x es c' st')
    have "client_kept (ackable m j) c c'"
      using health_finish_kept [OF k_finish(4)] k_finish(2) by (auto simp: client_kept_def ackable_def)
    then show ?thesis
      using k_finish(1) health_finish_store_kept [OF st k_finish(4)] streams_kept_set [OF k_finish(3)]
      by (intro machine_keptI [OF ok]) (simp_all add: map_le_def)
  next
    case (k_relay j c fails body reason relay es st')
    then show ?thesis
      using handleConnectorRelayState_kept [OF st] by (intro machine_keptI [OF ok]) simp_all
  next
    case (k_write j c)
    then show ?thesis
      using self streams_kept_set [OF k_write(2) write_kept(1)] by (intro machine_keptI [OF ok]) simp_all
  next
    case (k_terminal j c)
    then show ?thesis
      using self streams_kept_set [OF k_terminal(2) write_kept(2)] by (intro machine_keptI [OF ok]) simp_all
  next
    case (k_retire j c fails x k')
    then show ?thesis
      using retireStream_store_kept [OF st k_retire(3)] streams_kept_retire [OF k_retire(3)]
      by (intro machine_keptI [OF ok]) (simp_all add: map_le_def)
  next
    case (k_signal i)
    then show ?thesis
      using self streams_kept_signal by (intro machine_keptI [OF ok]) simp_all
  qed
qed


lemma ctl_report_kept:
  assumes ok: "cm_ok m" and step: "ctl_report now j r m m'"
  shows "cm_ok m'" "store_kept now (cm_store m) (cm_store m')" "cm_streams m' = cm_streams m"
    "i \<noteq> j \<Longrightarrow> ackable m' i = ackable m i"
    "n \<in> ackable m' j \<Longrightarrow> cm_streams m j = Some c \<Longrightarrow> n = hr_HeartbeatSeq r \<and> \<not> tombstoned (cm_store m) (cc_connectorID c)"
proof -
  obtain c0 fails outcome st' where c0: "cm_streams m j = Some c0"
    and upd: "health_update fails now (cc_connectorID c0) r (cm_store m) = (outcome, st')"
    and m': "m' = with_store st' (m\<lparr>cm_health := (cm_health m)(j \<mapsto> (r, outcome))\<rparr>)"
    using step by (auto elim: ctl_report.cases)
  have st: "cstore_ok (cm_store m)"
    using ok by (simp add: cm_ok_def)
  show kept: "store_kept now (cm_store m) (cm_store m')"
    using health_update_kept [OF st upd] by (simp add: m')
  show "cm_ok m'"
    using ok c0 store_keptD [OF kept] by (auto simp: m' cm_ok_def)
  show "cm_streams m' = cm_streams m"
    by (simp add: m')
  show "i \<noteq> j \<Longrightarrow> ackable m' i = ackable m i"
    by (simp add: m' ackable_def)
  show "n \<in> ackable m' j \<Longrightarrow> cm_streams m j = Some c \<Longrightarrow> n = hr_HeartbeatSeq r \<and> \<not> tombstoned (cm_store m) (cc_connectorID c)"
    using health_update_ok [OF st] upd c0 by (auto simp: m' ackable_def)
qed

section \<open>Revoking is a run of the machine\<close>

lemma steps_with_store:
  assumes "(store_step now)\<^sup>*\<^sup>* (cm_store m) st'"
  shows "(ctl_step now)\<^sup>*\<^sup>* m (with_store st' m)"
  using assms
proof (induction rule: rtranclp_induct)
  case base
  then show ?case
    by (simp add: with_store_def)
next
  case (step y z)
  have "ctl_step now (with_store y m) (with_store z (with_store y m))"
    using step(2) by (intro k_store) simp
  moreover have "with_store z (with_store y m) = with_store z m"
    by (simp add: with_store_def)
  ultimately show ?case
    using step(3) by simp
qed

lemma revoke_stranded_steps: "revoke_stranded fails now t ss st = (x, st') \<Longrightarrow> (store_step now)\<^sup>*\<^sup>* st st'"
proof (induction ss arbitrary: st)
  case (Cons s ss)
  obtain y st1 where y: "shield_Revoke fails now t s st = (y, st1)"
    by force
  have "store_step now st st1"
    using y by (rule ss_shield)
  moreover have "(store_step now)\<^sup>*\<^sup>* st1 st'"
    using Cons y by (auto split: option.splits if_splits)
  ultimately show ?case
    by (rule converse_rtranclp_into_rtranclp)
qed simp

text \<open>The handler that revokes does what the machine can do, statement by statement.\<close>

lemma RevokeConnector_steps:
  assumes rev: "RevokeConnector fails nfails now t i also_shields (cm_ctl m) = (x, es, k')"
  shows "(ctl_step now)\<^sup>*\<^sup>* m (with_ctl k' m)"
proof -
  obtain y st1 where tx: "revoke_tx fails now t i also_shields (cm_store m) = (y, st1)"
    by force
  let ?m1 = "with_store st1 m"
  have s1: "ctl_step now m ?m1"
    using tx by (intro k_store ss_revoke)
  show ?thesis
  proof (cases y)
    case (Some e)
    then have "with_ctl k' m = ?m1"
      using rev tx by (auto simp: RevokeConnector_def Let_def with_store_def with_ctl_def)
    then show ?thesis
      using s1 by auto
  next
    case None
    let ?k1 = "SignalRevoked i (cm_ctl ?m1)"
    have "tombstoned st1 i"
      using tx None by (auto simp: revoke_tx_def tombstoned_update count_where_def filter_empty_conv revocable_def revoked_row_def split: if_splits)
    then have s2: "ctl_step now ?m1 (with_ctl ?k1 ?m1)"
      by (intro k_signal) simp
    have m2: "with_ctl ?k1 ?m1 = with_ctl ?k1 m"
      by (simp add: with_ctl_def with_store_def)
    have "k' = ?k1 \<or> (\<exists>x st''. revoke_stranded fails now t (map sh_id (StrandedShields t i (cm_store m))) (kt_store ?k1) = (x, st'')
        \<and> k' = ?k1\<lparr>kt_store := st''\<rparr>)"
      using rev tx None by (auto simp: RevokeConnector_def Let_def split: if_splits prod.splits option.splits)
    then have "(ctl_step now)\<^sup>*\<^sup>* (with_ctl ?k1 m) (with_ctl k' m)"
    proof
      assume "\<exists>x st''. revoke_stranded fails now t (map sh_id (StrandedShields t i (cm_store m))) (kt_store ?k1) = (x, st'')
        \<and> k' = ?k1\<lparr>kt_store := st''\<rparr>"
      then obtain x st'' where st'': "(store_step now)\<^sup>*\<^sup>* (cm_store (with_ctl ?k1 m)) st''" "k' = ?k1\<lparr>kt_store := st''\<rparr>"
        using revoke_stranded_steps by fastforce
      show ?thesis
        using steps_with_store [OF st''(1)] st''(2) by (simp add: with_store_def with_ctl_def)
    qed simp
    then show ?thesis
      using s1 s2 m2 by (metis converse_rtranclp_into_rtranclp)
  qed
qed

end
