(* ===== verification/Ctl_System.thy ===== *)
theory Ctl_System
  imports Ctl_Machine Conn_Authz_Correct
begin

text \<open>
  The controller of \<open>Ctl_Machine\<close> and one connector with the serving state machine of \<open>Conn_Authz\<close>, joined by the control
  streams between them. Messages are delayed and lost freely; a restart of the connector leaves its old streams behind. Both
  sides read one clock.
\<close>

section \<open>What the tracker remembers of its sends\<close>

definition first_sends :: "duration \<Rightarrow> authz_event list \<Rightarrow> time \<Rightarrow> ack_tracker \<Rightarrow> bool" where
  "first_sends h es now t \<longleftrightarrow>
     (\<forall>k a. EvSent k a \<in> set es \<longrightarrow> a \<le> now) \<and>
     (\<forall>k a b. at_sent t k = Some a \<longrightarrow> at_highest_accepted t < k \<longrightarrow> EvSent k b \<in> set es \<longrightarrow> a \<le> b) \<and>
     (\<forall>k b. at_sent t k = None \<longrightarrow> at_highest_accepted t < k \<longrightarrow> EvSent k b \<in> set es \<longrightarrow>
        (\<exists>a. EvSent k a \<in> set es \<and> a + h \<le> now))"

lemma first_sendsI:
  assumes "\<And>k a. EvSent k a \<in> set es \<Longrightarrow> a \<le> now"
    and "\<And>k a b. at_sent t k = Some a \<Longrightarrow> at_highest_accepted t < k \<Longrightarrow> EvSent k b \<in> set es \<Longrightarrow> a \<le> b"
    and "\<And>k b. at_sent t k = None \<Longrightarrow> at_highest_accepted t < k \<Longrightarrow> EvSent k b \<in> set es \<Longrightarrow> \<exists>a. EvSent k a \<in> set es \<and> a + h \<le> now"
  shows "first_sends h es now t"
  using assms unfolding first_sends_def by blast

lemma first_sendsD:
  assumes "first_sends h es now t"
  shows "EvSent k a \<in> set es \<Longrightarrow> a \<le> now"
    and "at_sent t k = Some a \<Longrightarrow> at_highest_accepted t < k \<Longrightarrow> EvSent k b \<in> set es \<Longrightarrow> a \<le> b"
    and "at_sent t k = None \<Longrightarrow> at_highest_accepted t < k \<Longrightarrow> EvSent k b \<in> set es \<Longrightarrow> \<exists>a. EvSent k a \<in> set es \<and> a + h \<le> now"
  using assms unfolding first_sends_def by blast+

fun is_send :: "authz_event \<Rightarrow> bool" where
  "is_send (EvSent k a) = True"
| "is_send _ = False"

text \<open>Every event but a send leaves the remembered sends alone, or accepts one and forgets it and the older ones.\<close>

definition sends_shrink :: "ack_tracker \<Rightarrow> ack_tracker \<Rightarrow> bool" where
  "sends_shrink t t' \<longleftrightarrow> at_sent t' = at_sent t \<and> at_highest_accepted t' = at_highest_accepted t \<or>
     at_highest_accepted t < at_highest_accepted t' \<and>
     (\<forall>j. at_sent t' j = (if at_highest_accepted t' < j then at_sent t j else None))"

lemma sends_same [simp]:
  "at_sent (expire now t) = at_sent t" "at_highest_accepted (expire now t) = at_highest_accepted t"
  "at_sent (stream_up now t) = at_sent t" "at_highest_accepted (stream_up now t) = at_highest_accepted t"
  "at_sent (stream_down now t) = at_sent t" "at_highest_accepted (stream_down now t) = at_highest_accepted t"
  "at_sent (snd (on_terminal sig t)) = at_sent t" "at_highest_accepted (snd (on_terminal sig t)) = at_highest_accepted t"
  by (simp_all add: expire_def stream_up_def stream_down_def on_terminal_def Let_def split: option.split serving_state.split)

lemma on_ack_shrinks: "sends_shrink t (snd (on_ack k capable now t))"
  unfolding on_ack_def sends_shrink_def Let_def by (auto split: option.split)

lemma sends_shrink_refl [simp]: "sends_shrink t t"
  by (simp add: sends_shrink_def)

lemma apply_shrinks:
  assumes "\<not> is_send e"
  shows "sends_shrink (aw_tracker w) (aw_tracker (authz_apply e w))"
proof (cases e)
  case (EvMsg i m now1 now2)
  let ?t = "if sa_first_seen (aw_streams w i) then aw_tracker w else stream_up now1 (aw_tracker w)"
  have t: "sends_shrink (aw_tracker w) t'" if "sends_shrink ?t t'" for t'
    using that by (auto simp: sends_shrink_def split: if_splits)
  have "sends_shrink ?t (snd (on_terminal TsRevoked ?t))"
    by (simp add: sends_shrink_def)
  then show ?thesis
    using EvMsg t [of ?t] t [of "snd (on_terminal TsRevoked ?t)"] t [OF on_ack_shrinks]
    by (cases m) (simp_all add: observe_controller_msg_def Let_def)
next
  case (EvStatus m)
  then show ?thesis
    by (simp add: observe_status_def sends_shrink_def split: status_class.split)
qed (use assms in \<open>simp_all add: sends_shrink_def next_seq_def seq_for_replacement_def\<close>)

lemma first_sends_shrink:
  assumes "first_sends h es now t" "sends_shrink t t'" "\<not> is_send e" "now \<le> now'"
  shows "first_sends h (es @ [e]) now' t'"
proof -
  have mem: "EvSent k a \<in> set (es @ [e]) \<longleftrightarrow> EvSent k a \<in> set es" for k a
    using assms(3) by auto
  have hi: "at_highest_accepted t < k" "at_sent t' k = at_sent t k" if "at_highest_accepted t' < k" for k
    using assms(2) that by (auto simp: sends_shrink_def)
  show ?thesis
  proof (rule first_sendsI, unfold mem)
    fix k a
    assume "EvSent k a \<in> set es"
    then show "a \<le> now'"
      using first_sendsD(1) [OF assms(1)] assms(4) by fastforce
  next
    fix k a b
    assume "at_sent t' k = Some a" "at_highest_accepted t' < k" "EvSent k b \<in> set es"
    then show "a \<le> b"
      using first_sendsD(2) [OF assms(1)] hi [of k] by simp
  next
    fix k b
    assume "at_sent t' k = None" "at_highest_accepted t' < k" "EvSent k b \<in> set es"
    then have "\<exists>a. EvSent k a \<in> set es \<and> a + h \<le> now"
      using first_sendsD(3) [OF assms(1)] hi [of k] by simp
    then show "\<exists>a. EvSent k a \<in> set es \<and> a + h \<le> now'"
      using assms(4) by fastforce
  qed
qed

lemma first_sends_later: "first_sends h es now t \<Longrightarrow> now \<le> now' \<Longrightarrow> first_sends h es now' t"
  unfolding first_sends_def by fastforce

text \<open>
  A number may be sent again, on the stream that replaces another, only while the first send of it is younger than the
  freshness bound.
\<close>

definition first_send_counts :: "duration \<Rightarrow> authz_event list \<Rightarrow> nat \<Rightarrow> time \<Rightarrow> bool" where
  "first_send_counts h es k now \<longleftrightarrow> list_all (\<lambda>e. case e of EvSent j a \<Rightarrow> j = k \<longrightarrow> now < a + h | _ \<Rightarrow> True) es"

lemma first_send_countsD: "first_send_counts h es k now \<Longrightarrow> EvSent k a \<in> set es \<Longrightarrow> now < a + h"
  by (force simp: first_send_counts_def list_all_iff)

lemma first_sends_send:
  assumes ok: "first_sends h es now t" and h: "at_freshness t = h" and mem: "\<And>j a. at_sent t j = Some a \<Longrightarrow> EvSent j a \<in> set es"
    and again: "first_send_counts h es k now"
  shows "first_sends h (es @ [EvSent k now]) now (stamp_send (Some k) now t)"
proof (cases "k = 0")
  case True
  then show ?thesis
    using ok unfolding first_sends_def stamp_send_def by auto
next
  case False
  let ?t = "record_sent k now t"
  have hi: "at_highest_accepted ?t = at_highest_accepted t"
    by (simp add: record_sent_def Let_def)
  have sent: "at_sent ?t j = (case (if at_sent t k = None then (at_sent t)(k \<mapsto> now) else at_sent t) j of
      None \<Rightarrow> None | Some a \<Rightarrow> if now < a + h then Some a else None)" for j
    using False h by (simp add: record_sent_def Let_def split: option.split)
  have new: "\<not> EvSent k b \<in> set es" if "at_sent t k = None" "at_highest_accepted t < k" for b
    using first_sendsD(3) [OF ok that, of b] first_send_countsD [OF again] by fastforce
  have min: "a \<le> b" if j: "at_sent ?t j = Some a" "at_highest_accepted t < j" "EvSent j b \<in> set (es @ [EvSent k now])" for j a b
  proof (cases "at_sent t j")
    case None
    then have "j = k" "a = now"
      using j(1) unfolding sent by (auto split: if_splits option.splits)
    then show ?thesis
      using new None j by auto
  next
    case (Some a')
    then have "a' = a"
      using j(1) unfolding sent by (auto split: if_splits)
    then show ?thesis
      using first_sendsD(2) [OF ok Some j(2)] first_sendsD(1) [OF ok mem [OF Some]] j(3) by auto
  qed
  have gone: "\<exists>a. EvSent j a \<in> set (es @ [EvSent k now]) \<and> a + h \<le> now"
    if j: "at_sent ?t j = None" "at_highest_accepted t < j" "EvSent j b \<in> set (es @ [EvSent k now])" for j b
  proof (cases "at_sent t j")
    case None
    then show ?thesis
      using first_sendsD(3) [OF ok None j(2)] j unfolding sent by (auto split: if_splits)
  next
    case (Some a)
    then have "a + h \<le> now"
      using j(1) unfolding sent by (auto split: if_splits)
    then show ?thesis
      using mem [OF Some] by auto
  qed
  have "first_sends h (es @ [EvSent k now]) now ?t"
    using first_sendsD(1) [OF ok] min gone by (intro first_sendsI) (auto simp: hi)
  then show ?thesis
    using False by (simp add: stamp_send_def)
qed


text \<open>A deadline is an old one, or comes from the remembered send of the request that is acknowledged.\<close>

lemma expire_deadline: "at_deadline (expire now t) = Some d \<Longrightarrow> at_deadline t = Some d"
  by (auto simp: expire_def split: option.splits if_splits)

lemma transition_deadline: "at_deadline (transition to t) = Some d \<Longrightarrow> at_deadline t = Some d"
  by (simp split: if_splits)

lemma deadline_kept:
  "at_deadline (stream_up now t) = Some d \<Longrightarrow> at_deadline t = Some d"
  "at_deadline (stream_down now t) = Some d \<Longrightarrow> at_deadline t = Some d"
  "at_deadline (snd (on_terminal sig t)) = Some d \<Longrightarrow> at_deadline t = Some d"
proof -
  show "at_deadline (stream_up now t) = Some d \<Longrightarrow> at_deadline t = Some d"
    using expire_deadline [of now t d] by (auto simp: stream_up_def Let_def split: if_splits)
  show "at_deadline (stream_down now t) = Some d \<Longrightarrow> at_deadline t = Some d"
    using expire_deadline [of now t d] by (cases "at_state (expire now t)") (simp_all add: stream_down_def Let_def)
  show "at_deadline (snd (on_terminal sig t)) = Some d \<Longrightarrow> at_deadline t = Some d"
    by (cases "at_terminal t"; cases sig) (simp_all add: on_terminal_def)
qed

lemma on_ack_deadline:
  assumes "at_deadline (snd (on_ack k capable now t)) = Some d" "at_freshness (expire now t) = h"
  shows "at_deadline t = Some d \<or> (\<exists>a. at_sent t k = Some a \<and> at_highest_accepted t < k \<and> d = a + h)"
proof (cases "on_ack k capable now t")
  case (Pair x t')
  show ?thesis
  proof (cases x)
    case (Inl e)
    then show ?thesis
      using assms(1) Pair on_ack_rejects [of k capable now t e t'] expire_deadline [of now t d] by simp
  next
    case (Inr u)
    then have "on_ack k capable now t = (Inr (), t')" "at_highest_accepted t < k"
      using Pair by (auto simp: on_ack_def Let_def split: option.splits if_splits)
    then show ?thesis
      using assms Pair expire_deadline [of now t d]
      by (elim on_ack_accepts) (auto simp: max_def split: option.splits if_splits)
  qed
qed

lemma observe_deadline:
  assumes d: "at_deadline (snd (observe_controller_msg m now1 now2 a t0)) = Some d"
    and h: "at_freshness (expire now2 t0) = h" "at_freshness (expire now2 (stream_up now1 t0)) = h"
  shows "at_deadline t0 = Some d \<or>
    (\<exists>k b. m = MsgAuthorizationAck k \<and> at_sent t0 k = Some b \<and> at_highest_accepted t0 < k \<and> d = b + h)"
proof -
  define t where "t = (if sa_first_seen a then t0 else stream_up now1 t0)"
  have t: "at_deadline t = Some d \<Longrightarrow> at_deadline t0 = Some d" "at_sent t = at_sent t0"
    "at_highest_accepted t = at_highest_accepted t0" "at_freshness (expire now2 t) = h"
    using deadline_kept(1) [of now1 t0 d] h by (simp_all add: t_def split: if_splits)
  show ?thesis
  proof (cases m)
    case (MsgAuthorizationAck k)
    then have "at_deadline (snd (on_ack k (sa_capable a) now2 t)) = Some d"
      using d by (simp add: observe_controller_msg_def Let_def t_def)
    then show ?thesis
      using on_ack_deadline [OF _ t(4)] t(1-3) MsgAuthorizationAck by metis
  next
    case MsgConnectorRevoked
    then have "at_deadline (snd (on_terminal TsRevoked t)) = Some d"
      using d by (simp add: observe_controller_msg_def Let_def t_def)
    then show ?thesis
      using deadline_kept(3) t(1) by blast
  qed (use d t(1) in \<open>simp_all add: observe_controller_msg_def Let_def t_def\<close>)
qed

lemma apply_deadline:
  assumes d: "at_deadline (aw_tracker (authz_apply e w)) = Some d"
    and h: "\<And>now1 now2. at_freshness (expire now2 (aw_tracker w)) = h \<and> at_freshness (expire now2 (stream_up now1 (aw_tracker w))) = h"
  shows "at_deadline (aw_tracker w) = Some d \<or>
    (\<exists>i k now1 now2 a. e = EvMsg i (MsgAuthorizationAck k) now1 now2 \<and> at_sent (aw_tracker w) k = Some a \<and>
       at_highest_accepted (aw_tracker w) < k \<and> d = a + h)"
proof (cases e)
  case (EvMsg i m now1 now2)
  then have "at_deadline (snd (observe_controller_msg m now1 now2 (aw_streams w i) (aw_tracker w))) = Some d"
    using d by (simp split: prod.splits)
  then show ?thesis
    using observe_deadline [of m now1 now2 "aw_streams w i" "aw_tracker w" d h] h EvMsg by blast
next
  case (EvStatus m)
  then show ?thesis
    using d deadline_kept(3) [of TsRevoked "aw_tracker w" d] deadline_kept(3) [of TsUnknownIdentity "aw_tracker w" d]
    by (simp add: observe_status_def split: status_class.splits)
next
  case (EvSent k now)
  then show ?thesis
    using d by (auto simp: stamp_send_def split: if_splits)
next
  case (EvDown now)
  then show ?thesis
    using d deadline_kept(2) [of now "aw_tracker w" d] by simp
next
  case (EvExpire now)
  then show ?thesis
    using d expire_deadline [of now "aw_tracker w" d] by simp
qed (use d in \<open>simp_all add: next_seq_def seq_for_replacement_def split: if_splits\<close>)

lemma run_freshness:
  "at_freshness (expire now2 (aw_tracker (authz_run h es))) = h \<and> at_freshness (expire now2 (stream_up now1 (aw_tracker (authz_run h es)))) = h"
  using tracker_okD(1) tracker_ok_expire tracker_ok_stream_up tracker_ok_run by blast

section \<open>The two sides together\<close>

text \<open>How the connector reads a message of the controller.\<close>

fun msg_of :: "ctl_msg \<Rightarrow> controller_msg" where
  "msg_of (CmAgentPolicy n capable) = MsgAgentPolicy capable"
| "msg_of (CmAuthorizationAck k) = MsgAuthorizationAck k"
| "msg_of CmConnectorRevoked = MsgConnectorRevoked"
| "msg_of _ = MsgOther"

text \<open>
  \<open>sy_up\<close> are reports on their way, with the stream they were written to; \<open>sy_dead\<close> are streams of processes of the connector that
  are gone; \<open>sy_hist\<close> is what the present process has seen.
\<close>

record sys =
  sy_m :: machine
  sy_up :: "(nat \<times> health_report) list"
  sy_dead :: "nat set"
  sy_hist :: "authz_event list"
  sy_now :: time

fun local_event :: "time \<Rightarrow> authz_event \<Rightarrow> bool" where
  "local_event now (EvMsg i m t1 t2) = False"
| "local_event now (EvSent k t) = False"
| "local_event now (EvDown t) = (t = now)"
| "local_event now (EvExpire t) = (t = now)"
| "local_event now _ = True"

inductive sys_step :: "duration \<Rightarrow> uuid \<Rightarrow> sys \<Rightarrow> sys \<Rightarrow> bool" for h me where
  y_tick: "sy_now s \<le> t \<Longrightarrow> sys_step h me s (s\<lparr>sy_now := t\<rparr>)"
| y_ctl: "ctl_step (sy_now s) (sy_m s) m' \<Longrightarrow> sys_step h me s (s\<lparr>sy_m := m'\<rparr>)"
| y_report: "ctl_report (sy_now s) j r (sy_m s) m' \<Longrightarrow> cm_streams (sy_m s) j = Some c \<Longrightarrow>
    cc_connectorID c \<noteq> me \<or> j \<in> sy_dead s \<or> (j, r) \<in> set (sy_up s) \<Longrightarrow>
    sys_step h me s (s\<lparr>sy_m := m', sy_up := remove1 (j, r) (sy_up s)\<rparr>)"
| y_send: "first_send_counts h (sy_hist s) (hr_HeartbeatSeq r) (sy_now s) \<Longrightarrow>
    sys_step h me s (s\<lparr>sy_hist := sy_hist s @ [EvSent (hr_HeartbeatSeq r) (sy_now s)], sy_up := sy_up s @ [(j, r)]\<rparr>)"
| y_deliver: "cm_streams (sy_m s) j = Some c \<Longrightarrow> cc_connectorID c = me \<Longrightarrow> j \<notin> sy_dead s \<Longrightarrow> cc_wire c = x # ms \<Longrightarrow>
    sy_now s \<le> t \<Longrightarrow>
    sys_step h me s (s\<lparr>sy_m := with_ctl (set_stream j (c\<lparr>cc_wire := ms\<rparr>) (cm_ctl (sy_m s))) (sy_m s),
      sy_hist := sy_hist s @ [EvMsg j (msg_of x) (sy_now s) t], sy_now := t\<rparr>)"
| y_local: "local_event (sy_now s) e \<Longrightarrow> sys_step h me s (s\<lparr>sy_hist := sy_hist s @ [e]\<rparr>)"
| y_restart: "sys_step h me s (s\<lparr>sy_hist := [], sy_up := [], sy_dead := sy_dead s \<union> dom (cm_streams (sy_m s)) \<union> dom (cm_opened (sy_m s))\<rparr>)"

definition sys_init :: "sys \<Rightarrow> bool" where
  "sys_init s \<longleftrightarrow> cstore_ok (cm_store (sy_m s)) \<and> cm_streams (sy_m s) = Map.empty \<and> cm_opened (sy_m s) = Map.empty \<and>
     cm_health (sy_m s) = Map.empty \<and> sy_up s = [] \<and> sy_hist s = []"

abbreviation sy_tracker :: "duration \<Rightarrow> sys \<Rightarrow> ack_tracker" where
  "sy_tracker h s \<equiv> aw_tracker (authz_run h (sy_hist s))"

section \<open>The invariant\<close>

text \<open>Request \<open>k\<close> of the present process was sent, and not after a revocation of the connector.\<close>

definition backed :: "uuid \<Rightarrow> sys \<Rightarrow> nat \<Rightarrow> bool" where
  "backed me s k \<longleftrightarrow> (\<exists>a. EvSent k a \<in> set (sy_hist s) \<and> a \<le> sy_now s \<and>
     (\<forall>v\<in>set (cs_revocations (cm_store (sy_m s))). cv_connector_id v = me \<longrightarrow> a \<le> cv_revoked_at v))"

definition acks_backed :: "uuid \<Rightarrow> sys \<Rightarrow> bool" where
  "acks_backed me s \<longleftrightarrow> (\<forall>j c. cm_streams (sy_m s) j = Some c \<longrightarrow> cc_connectorID c = me \<longrightarrow> j \<notin> sy_dead s \<longrightarrow>
     (\<forall>k\<in>acks c \<union> ackable (sy_m s) j. backed me s k))"

definition bounded :: "duration \<Rightarrow> uuid \<Rightarrow> sys \<Rightarrow> bool" where
  "bounded h me s \<longleftrightarrow> (\<forall>d. at_deadline (sy_tracker h s) = Some d \<longrightarrow> d \<le> sy_now s + h \<and>
     (\<forall>v\<in>set (cs_revocations (cm_store (sy_m s))). cv_connector_id v = me \<longrightarrow> d \<le> cv_revoked_at v + h))"

definition sys_inv :: "duration \<Rightarrow> uuid \<Rightarrow> sys \<Rightarrow> bool" where
  "sys_inv h me s \<longleftrightarrow> cm_ok (sy_m s) \<and> first_sends h (sy_hist s) (sy_now s) (sy_tracker h s) \<and>
     (\<forall>x\<in>set (sy_up s). \<exists>a. EvSent (hr_HeartbeatSeq (snd x)) a \<in> set (sy_hist s)) \<and> acks_backed me s \<and> bounded h me s"


lemma backed_later:
  assumes "backed me s k" "set (sy_hist s) \<subseteq> set (sy_hist s')" "sy_now s \<le> sy_now s'"
    "store_kept (sy_now s) (cm_store (sy_m s)) (cm_store (sy_m s'))"
  shows "backed me s' k"
proof -
  obtain a where a: "EvSent k a \<in> set (sy_hist s)" "a \<le> sy_now s"
    "\<And>v. v \<in> set (cs_revocations (cm_store (sy_m s))) \<Longrightarrow> cv_connector_id v = me \<Longrightarrow> a \<le> cv_revoked_at v"
    using assms(1) unfolding backed_def by blast
  have "a \<le> cv_revoked_at v" if "v \<in> set (cs_revocations (cm_store (sy_m s')))" "cv_connector_id v = me" for v
    using a assms(4) that unfolding store_kept_def by auto
  moreover have "EvSent k a \<in> set (sy_hist s')" "a \<le> sy_now s'"
    using a assms(2,3) by auto
  ultimately show ?thesis
    unfolding backed_def by blast
qed

lemma bounded_later:
  assumes b: "bounded h me s" and d: "\<And>d. at_deadline (sy_tracker h s') = Some d \<Longrightarrow> at_deadline (sy_tracker h s) = Some d"
    and t: "sy_now s \<le> sy_now s'" and st: "store_kept (sy_now s) (cm_store (sy_m s)) (cm_store (sy_m s'))"
  shows "bounded h me s'"
  unfolding bounded_def
proof (intro allI impI conjI ballI)
  fix d
  assume "at_deadline (sy_tracker h s') = Some d"
  then have D: "d \<le> sy_now s + h"
    "\<And>v. v \<in> set (cs_revocations (cm_store (sy_m s))) \<Longrightarrow> cv_connector_id v = me \<Longrightarrow> d \<le> cv_revoked_at v + h"
    using b d unfolding bounded_def by blast+
  then show "d \<le> sy_now s' + h"
    using t by simp
  fix v
  assume "v \<in> set (cs_revocations (cm_store (sy_m s')))" "cv_connector_id v = me"
  then show "d \<le> cv_revoked_at v + h"
    using D st unfolding store_kept_def by auto
qed

lemma acks_backed_later:
  assumes b: "acks_backed me s" and dead: "sy_dead s \<subseteq> sy_dead s'"
    and later: "set (sy_hist s) \<subseteq> set (sy_hist s')" "sy_now s \<le> sy_now s'"
      "store_kept (sy_now s) (cm_store (sy_m s)) (cm_store (sy_m s'))"
    and ss: "\<And>j c' k. cm_streams (sy_m s') j = Some c' \<Longrightarrow> cc_connectorID c' = me \<Longrightarrow> j \<notin> sy_dead s' \<Longrightarrow> k \<in> acks c' \<union> ackable (sy_m s') j \<Longrightarrow>
      backed me s' k \<or> (\<exists>c. cm_streams (sy_m s) j = Some c \<and> cc_connectorID c = me \<and> k \<in> acks c \<union> ackable (sy_m s) j)"
  shows "acks_backed me s'"
  unfolding acks_backed_def
proof (intro allI impI ballI)
  fix j c' k
  assume "cm_streams (sy_m s') j = Some c'" "cc_connectorID c' = me" and j: "j \<notin> sy_dead s'" and "k \<in> acks c' \<union> ackable (sy_m s') j"
  then consider "backed me s' k" | c where "cm_streams (sy_m s) j = Some c" "cc_connectorID c = me" "k \<in> acks c \<union> ackable (sy_m s) j"
    using ss by blast
  then show "backed me s' k"
  proof cases
    case 2
    then have "backed me s k"
      using b j dead unfolding acks_backed_def by blast
    then show ?thesis
      using later by (rule backed_later)
  qed
qed

lemma sys_invD:
  assumes "sys_inv h me s"
  shows "cm_ok (sy_m s)" "first_sends h (sy_hist s) (sy_now s) (sy_tracker h s)"
    "\<And>x. x \<in> set (sy_up s) \<Longrightarrow> \<exists>a. EvSent (hr_HeartbeatSeq (snd x)) a \<in> set (sy_hist s)" "acks_backed me s" "bounded h me s"
    "store_kept now (cm_store (sy_m s)) (cm_store (sy_m s))"
  using assms store_kept_refl unfolding sys_inv_def cm_ok_def by blast+

section \<open>Every step keeps it\<close>

lemma inv_tick:
  assumes inv: "sys_inv h me s" and t: "sy_now s \<le> t"
  shows "sys_inv h me (s\<lparr>sy_now := t\<rparr>)"
proof -
  note I = sys_invD [OF inv]
  have "acks_backed me (s\<lparr>sy_now := t\<rparr>)"
    by (rule acks_backed_later [OF I(4)]) (use t I(6) in auto)
  moreover have "bounded h me (s\<lparr>sy_now := t\<rparr>)"
    by (rule bounded_later [OF I(5)]) (use t I(6) in simp_all)
  ultimately show ?thesis
    using I(1,3) first_sends_later [OF I(2) t] by (simp add: sys_inv_def)
qed

lemma inv_ctl:
  assumes inv: "sys_inv h me s" and step: "ctl_step (sy_now s) (sy_m s) m'"
  shows "sys_inv h me (s\<lparr>sy_m := m'\<rparr>)"
proof -
  note I = sys_invD [OF inv]
  have kept: "machine_kept (sy_now s) (sy_m s) m'"
    using I(1) step by (rule ctl_step_kept)
  have st: "store_kept (sy_now s) (cm_store (sy_m s)) (cm_store m')" and ok: "cm_ok m'"
    using kept by (simp_all add: machine_kept_def)
  have "cm_health (sy_m s) j = Some x" if "cm_health m' j = Some x" for j x
  proof -
    have "cm_health m' \<subseteq>\<^sub>m cm_health (sy_m s)"
      using kept by (simp add: machine_kept_def)
    then have "cm_health m' j = cm_health (sy_m s) j"
      unfolding map_le_def using domI [of "cm_health m'" j, OF that] by (rule bspec)
    then show ?thesis
      using that by simp
  qed
  then have h: "ackable m' j \<subseteq> ackable (sy_m s) j" for j
    unfolding ackable_def by blast
  have ss: "\<exists>c. cm_streams (sy_m s) j = Some c \<and> cc_connectorID c = me \<and> k \<in> acks c \<union> ackable (sy_m s) j"
    if j: "cm_streams m' j = Some c'" "cc_connectorID c' = me" "k \<in> acks c' \<union> ackable m' j" for j c' k
  proof (cases "cm_streams (sy_m s) j")
    case None
    have "case cm_streams (sy_m s) j of None \<Rightarrow> acks c' = {} | Some c \<Rightarrow> client_kept (ackable (sy_m s) j) c c'"
      using kept j(1) by (simp add: machine_kept_def)
    moreover have "cm_health (sy_m s) j = None"
      using None I(1) unfolding cm_ok_def by blast
    then have "ackable (sy_m s) j = {}"
      by (simp add: ackable_def)
    ultimately show ?thesis
      using None j(3) h [of j] by simp
  next
    case (Some c)
    have "case cm_streams (sy_m s) j of None \<Rightarrow> acks c' = {} | Some c \<Rightarrow> client_kept (ackable (sy_m s) j) c c'"
      using kept j(1) by (simp add: machine_kept_def)
    then show ?thesis
      using Some j(2,3) h [of j] by (auto simp: client_kept_def)
  qed
  have "acks_backed me (s\<lparr>sy_m := m'\<rparr>)"
    by (rule acks_backed_later [OF I(4)]) (use st ss in simp_all)
  moreover have "bounded h me (s\<lparr>sy_m := m'\<rparr>)"
    by (rule bounded_later [OF I(5)]) (use st in simp_all)
  ultimately show ?thesis
    using I(2,3) ok by (simp add: sys_inv_def)
qed

lemma inv_report:
  assumes inv: "sys_inv h me s" and step: "ctl_report (sy_now s) j r (sy_m s) m'" and c: "cm_streams (sy_m s) j = Some c"
    and up: "cc_connectorID c \<noteq> me \<or> j \<in> sy_dead s \<or> (j, r) \<in> set (sy_up s)"
  shows "sys_inv h me (s\<lparr>sy_m := m', sy_up := remove1 (j, r) (sy_up s)\<rparr>)"
proof -
  let ?s = "s\<lparr>sy_m := m', sy_up := remove1 (j, r) (sy_up s)\<rparr>"
  note I = sys_invD [OF inv]
  note R = ctl_report_kept [OF I(1) step]
  have fresh: "backed me ?s k" if k: "k \<in> ackable m' j" "cc_connectorID c = me" "j \<notin> sy_dead s" for k
  proof -
    have r: "k = hr_HeartbeatSeq r" and none: "\<not> tombstoned (cm_store (sy_m s)) me"
      using R(5) [OF k(1) c] k(2) by simp_all
    obtain a where "EvSent k a \<in> set (sy_hist s)"
      using I(3) [of "(j, r)"] up k(2,3) r by auto
    then have "backed me s k"
      using none first_sendsD(1) [OF I(2)] unfolding backed_def tombstoned_def by blast
    then show ?thesis
      using R(2) by (rule_tac backed_later) auto
  qed
  have ss: "backed me ?s k \<or> (\<exists>d. cm_streams (sy_m s) i = Some d \<and> cc_connectorID d = me \<and> k \<in> acks d \<union> ackable (sy_m s) i)"
    if i: "cm_streams m' i = Some d" "cc_connectorID d = me" "i \<notin> sy_dead s" "k \<in> acks d \<union> ackable m' i" for i d k
  proof (cases "i = j")
    case True
    then show ?thesis
      using i R(3) c fresh by auto
  next
    case False
    then show ?thesis
      using i R(3) R(4) [of i] by simp
  qed
  have "acks_backed me ?s"
    by (rule acks_backed_later [OF I(4)]) (use R(2) ss in simp_all)
  moreover have "bounded h me ?s"
    by (rule bounded_later [OF I(5)]) (use R(2) in simp_all)
  moreover have "\<exists>a. EvSent (hr_HeartbeatSeq (snd x)) a \<in> set (sy_hist s)" if "x \<in> set (remove1 (j, r) (sy_up s))" for x
    using I(3) that set_remove1_subset [of "(j, r)" "sy_up s"] by blast
  ultimately show ?thesis
    using I(2) R(1) by (simp add: sys_inv_def)
qed

lemma inv_send:
  assumes inv: "sys_inv h me s" and again: "first_send_counts h (sy_hist s) (hr_HeartbeatSeq r) (sy_now s)"
  shows "sys_inv h me (s\<lparr>sy_hist := sy_hist s @ [EvSent (hr_HeartbeatSeq r) (sy_now s)], sy_up := sy_up s @ [(j, r)]\<rparr>)"
    (is "sys_inv h me ?s")
proof -
  note I = sys_invD [OF inv] and T = tracker_okD [OF tracker_ok_run [of h "sy_hist s"]]
  have "first_sends h (sy_hist ?s) (sy_now s) (stamp_send (Some (hr_HeartbeatSeq r)) (sy_now s) (sy_tracker h s))"
    using first_sends_send [OF I(2) T(1,5) again] by simp
  moreover have "acks_backed me ?s"
    by (rule acks_backed_later [OF I(4)]) (use I(6) in auto)
  moreover have "bounded h me ?s"
    by (rule bounded_later [OF I(5)]) (use I(6) in \<open>simp_all add: stamp_send_def split: if_splits\<close>)
  moreover have "\<exists>a. EvSent (hr_HeartbeatSeq (snd x)) a \<in> set (sy_hist ?s)" if "x \<in> set (sy_up ?s)" for x
    using I(3) [of x] that by auto
  ultimately show ?thesis
    using I(1) by (simp add: sys_inv_def)
qed

lemma local_not_send: "local_event now e \<Longrightarrow> \<not> is_send e"
  by (cases e) auto

lemma inv_local:
  assumes inv: "sys_inv h me s" and e: "local_event (sy_now s) e"
  shows "sys_inv h me (s\<lparr>sy_hist := sy_hist s @ [e]\<rparr>)" (is "sys_inv h me ?s")
proof -
  note I = sys_invD [OF inv] and ns = local_not_send [OF e]
  have "first_sends h (sy_hist ?s) (sy_now s) (sy_tracker h ?s)"
    using first_sends_shrink [OF I(2) apply_shrinks [OF ns] ns order_refl] by simp
  moreover have "acks_backed me ?s"
    by (rule acks_backed_later [OF I(4)]) (use I(6) in auto)
  moreover have "bounded h me ?s"
  proof (rule bounded_later [OF I(5)])
    fix d
    assume "at_deadline (sy_tracker h ?s) = Some d"
    then show "at_deadline (sy_tracker h s) = Some d"
      using apply_deadline [OF _ run_freshness, of e h "sy_hist s" d] e by auto
  qed (use I(6) in simp_all)
  ultimately show ?thesis
    using I(1,3) by (auto simp: sys_inv_def)
qed

lemma inv_restart:
  assumes inv: "sys_inv h me s"
  shows "sys_inv h me (s\<lparr>sy_hist := [], sy_up := [], sy_dead := sy_dead s \<union> dom (cm_streams (sy_m s)) \<union> dom (cm_opened (sy_m s))\<rparr>)"
  using sys_invD(1) [OF inv]
  by (auto simp: sys_inv_def acks_backed_def bounded_def first_sends_def aw_init_def AckTracker_new_def)

text \<open>
  The step that matters: an acknowledgement that is delivered extends the deadline by the remembered send, which is the first one
  and so not after the send the controller acknowledged.
\<close>

lemma inv_deliver:
  assumes inv: "sys_inv h me s" and c: "cm_streams (sy_m s) j = Some c" "cc_connectorID c = me" "j \<notin> sy_dead s"
    and x: "cc_wire c = x # ms" and t: "sy_now s \<le> t"
  shows "sys_inv h me (s\<lparr>sy_m := with_ctl (set_stream j (c\<lparr>cc_wire := ms\<rparr>) (cm_ctl (sy_m s))) (sy_m s),
      sy_hist := sy_hist s @ [EvMsg j (msg_of x) (sy_now s) t], sy_now := t\<rparr>)" (is "sys_inv h me ?s")
proof -
  note I = sys_invD [OF inv]
  let ?e = "EvMsg j (msg_of x) (sy_now s) t"
  have ns: "\<not> is_send ?e"
    by simp
  have "cm_opened (sy_m s) j = None"
    using I(1) c(1) unfolding cm_ok_def by (cases "cm_opened (sy_m s) j") auto
  then have ok: "cm_ok (sy_m ?s)"
    using I(1) by (auto simp: cm_ok_def set_stream_def)
  have fs: "first_sends h (sy_hist ?s) t (sy_tracker h ?s)"
    using first_sends_shrink [OF I(2) apply_shrinks [OF ns] ns t] by simp
  have st: "store_kept (sy_now s) (cm_store (sy_m s)) (cm_store (sy_m ?s))"
    using I(6) by simp
  have acks: "acks_backed me ?s"
    by (rule acks_backed_later [OF I(4)])
      (use t st c x in \<open>auto simp: set_stream_def acks_def ackable_def split: if_splits\<close>)
  have "d \<le> t + h \<and> (\<forall>v\<in>set (cs_revocations (cm_store (sy_m s))). cv_connector_id v = me \<longrightarrow> d \<le> cv_revoked_at v + h)"
    if d: "at_deadline (sy_tracker h ?s) = Some d" for d
  proof -
    consider "at_deadline (sy_tracker h s) = Some d"
      | k a where "msg_of x = MsgAuthorizationAck k" "at_sent (sy_tracker h s) k = Some a"
          "at_highest_accepted (sy_tracker h s) < k" "d = a + h"
      using apply_deadline [OF _ run_freshness, of ?e h "sy_hist s" d] d by auto
    then show ?thesis
    proof cases
      case 1
      then show ?thesis
        using I(5) t by (fastforce simp: bounded_def)
    next
      case (2 k a)
      then have "k \<in> acks c"
        using x by (cases x) (auto simp: acks_def)
      then have "backed me s k"
        using I(4) c unfolding acks_backed_def by blast
      then obtain b where b: "EvSent k b \<in> set (sy_hist s)" "b \<le> sy_now s"
        "\<And>v. v \<in> set (cs_revocations (cm_store (sy_m s))) \<Longrightarrow> cv_connector_id v = me \<Longrightarrow> b \<le> cv_revoked_at v"
        unfolding backed_def by blast
      have "a \<le> b"
        using first_sendsD(2) [OF I(2) 2(2,3) b(1)] .
      then show ?thesis
        using b(2,3) t 2(4) by fastforce
    qed
  qed
  then have "bounded h me ?s"
    by (simp add: bounded_def)
  then show ?thesis
    using I(3) ok fs acks by (auto simp: sys_inv_def)
qed

interpretation rvk: inductive_invariant sys_init "sys_step h me" "sys_inv h me" for h me
proof
  fix s
  assume "sys_init s"
  then show "sys_inv h me s"
    by (auto simp: sys_init_def sys_inv_def cm_ok_def first_sends_def acks_backed_def bounded_def aw_init_def AckTracker_new_def)
next
  fix s t
  assume inv: "sys_inv h me s" and step: "sys_step h me s t"
  from step show "sys_inv h me t"
  proof cases
    case (y_report j r m' c)
    then show ?thesis
      using inv_report [OF inv y_report(2-4)] by simp
  next
    case (y_deliver j c x ms t')
    then show ?thesis
      using inv_deliver [OF inv y_deliver(2-6)] by simp
  qed (use inv in \<open>auto intro: inv_tick inv_ctl inv_send inv_local inv_restart\<close>)
qed

end
