(* ===== verification/Ctl_Claims.thy ===== *)
theory Ctl_Claims
  imports Ctl_System
begin

text \<open>
  What a revocation achieves: a revoked connector stops serving within the freshness bound even if every message to it is lost, and
  one that comes back is told so for good.
\<close>

section \<open>Runs that can be evaluated\<close>

text \<open>A run of the system in which no statement fails, event by event; \<open>None\<close> if the event is not possible.\<close>

datatype ctl_event = DoOpen nat uuid string | DoActivate nat | DoGreet nat | DoWrite nat | DoRevoke uuid uuid | DoFinish nat

datatype sys_event =
    DoTick time | DoCtl ctl_event | DoReport nat health_report | DoSend nat health_report | DoDeliver nat | DoLocal authz_event

abbreviation no_fail :: "conn_stmt \<Rightarrow> bool" where
  "no_fail \<equiv> (\<lambda>_. False)"

fun ctl_do :: "time \<Rightarrow> ctl_event \<Rightarrow> machine \<Rightarrow> machine option" where
  "ctl_do now (DoOpen j i td) m =
     (case control_open no_fail i td None (cm_store m) of
        Inl rej \<Rightarrow> None
      | Inr c \<Rightarrow> if cm_opened m j = None \<and> cm_streams m j = None then Some (m\<lparr>cm_opened := (cm_opened m)(j \<mapsto> c)\<rparr>) else None)"
| "ctl_do now (DoActivate j) m =
     map_option (\<lambda>c. with_ctl (snd (activateStream no_fail now j c (cm_ctl m))) (m\<lparr>cm_opened := (cm_opened m)(j := None)\<rparr>)) (cm_opened m j)"
| "ctl_do now (DoGreet j) m =
     (case cm_streams m j of
        None \<Rightarrow> None
      | Some c \<Rightarrow>
          if j \<in> set (cm_ready m) then None
          else let (ok, c') = greet 0 (Some (RevokedShieldIDs (cc_tenantID c) (cm_store m))) None c in
            Some (with_ctl (set_stream j c' (cm_ctl m)) (m\<lparr>cm_ready := (if ok then j # cm_ready m else cm_ready m)\<rparr>)))"
| "ctl_do now (DoWrite j) m = map_option (\<lambda>c. with_ctl (set_stream j (write_outbound c) (cm_ctl m)) m) (cm_streams m j)"
| "ctl_do now (DoRevoke t i) m = Some (with_store (snd (revoke_tx no_fail now t i False (cm_store m))) m)"
| "ctl_do now (DoFinish j) m =
     (case (cm_health m j, cm_streams m j) of
        (Some (r, outcome), Some c) \<Rightarrow>
          let (x, es, c', st') = health_finish no_fail now 0 AclUnwired r outcome c (cm_store m) in
          Some (with_ctl ((set_stream j c' (cm_ctl m))\<lparr>kt_store := st'\<rparr>) (m\<lparr>cm_health := (cm_health m)(j := None)\<rparr>))
      | _ \<Rightarrow> None)"

fun sys_do :: "duration \<Rightarrow> uuid \<Rightarrow> sys_event \<Rightarrow> sys \<Rightarrow> sys option" where
  "sys_do h me (DoTick t) s = (if sy_now s \<le> t then Some (s\<lparr>sy_now := t\<rparr>) else None)"
| "sys_do h me (DoReport j r) s =
     (case cm_streams (sy_m s) j of
        None \<Rightarrow> None
      | Some c \<Rightarrow>
          if j \<in> set (cm_ready (sy_m s)) \<and> cm_health (sy_m s) j = None \<and> hr_HeartbeatSeq r \<noteq> 0 \<and> (j, r) \<in> set (sy_up s)
          then let (outcome, st') = health_update no_fail (sy_now s) (cc_connectorID c) r (cm_store (sy_m s)) in
            Some (s\<lparr>sy_m := with_store st' ((sy_m s)\<lparr>cm_health := (cm_health (sy_m s))(j \<mapsto> (r, outcome))\<rparr>),
                    sy_up := remove1 (j, r) (sy_up s)\<rparr>)
          else None)"
| "sys_do h me (DoSend j r) s =
     (if first_send_counts h (sy_hist s) (hr_HeartbeatSeq r) (sy_now s)
      then Some (s\<lparr>sy_hist := sy_hist s @ [EvSent (hr_HeartbeatSeq r) (sy_now s)], sy_up := sy_up s @ [(j, r)]\<rparr>) else None)"
| "sys_do h me (DoDeliver j) s =
     (case cm_streams (sy_m s) j of
        None \<Rightarrow> None
      | Some c \<Rightarrow>
          (case cc_wire c of
             [] \<Rightarrow> None
           | x # ms \<Rightarrow>
               if cc_connectorID c = me \<and> j \<notin> sy_dead s
               then Some (s\<lparr>sy_m := with_ctl (set_stream j (c\<lparr>cc_wire := ms\<rparr>) (cm_ctl (sy_m s))) (sy_m s),
                            sy_hist := sy_hist s @ [EvMsg j (msg_of x) (sy_now s) (sy_now s)], sy_now := sy_now s\<rparr>)
               else None))"
| "sys_do h me (DoLocal e) s = (if local_event (sy_now s) e then Some (s\<lparr>sy_hist := sy_hist s @ [e]\<rparr>) else None)"
| "sys_do h me (DoCtl e) s = map_option (\<lambda>m. s\<lparr>sy_m := m\<rparr>) (ctl_do (sy_now s) e (sy_m s))"

lemma ctl_do_step: "ctl_do now e m = Some m' \<Longrightarrow> ctl_step now m m'"
proof (induction now e m rule: ctl_do.induct)
  case (1 now j i td m)
  then show ?case
    by (auto split: sum.splits if_splits intro!: k_open)
next
  case (2 now j m)
  then show ?case
    by (auto intro!: k_activate [OF _ surjective_pairing])
next
  case (3 now j m)
  then obtain c ok c' where c: "cm_streams m j = Some c" "j \<notin> set (cm_ready m)"
    "greet 0 (Some (RevokedShieldIDs (cc_tenantID c) (cm_store m))) None c = (ok, c')"
    and "m' = with_ctl (set_stream j c' (cm_ctl m)) (m\<lparr>cm_ready := (if ok then j # cm_ready m else cm_ready m)\<rparr>)"
    by (simp split: option.splits if_split_asm prod.splits)
  then show ?case
    using k_greet [OF c] by simp
next
  case (4 now j m)
  then show ?case
    by (auto intro!: k_write)
next
  case (5 now t i m)
  then show ?case
    by (auto intro!: k_store ss_revoke [OF surjective_pairing])
next
  case (6 now j m)
  then show ?case
    using k_finish [of m j _ _ _ no_fail now 0 AclUnwired] by (auto simp: Let_def split: option.splits prod.splits)
qed

lemma sys_do_step: "sys_do h me e s = Some s' \<Longrightarrow> sys_step h me s s'"
proof (cases e)
  case (DoReport j r)
  assume "sys_do h me e s = Some s'"
  then show ?thesis
    using DoReport by (fastforce simp: Let_def split: option.splits if_splits prod.splits intro: y_report k_report)
next
  case (DoDeliver j)
  assume "sys_do h me e s = Some s'"
  then show ?thesis
    using DoDeliver y_deliver [of s j _ me _ _ "sy_now s" h] by (auto split: option.splits list.splits if_splits)
qed (auto split: if_splits intro: y_tick y_send y_local y_ctl ctl_do_step)

fun sys_exec :: "duration \<Rightarrow> uuid \<Rightarrow> sys_event list \<Rightarrow> sys \<Rightarrow> sys option" where
  "sys_exec h me [] s = Some s"
| "sys_exec h me (e # es) s = (case sys_do h me e s of None \<Rightarrow> None | Some s' \<Rightarrow> sys_exec h me es s')"

lemma sys_exec_reach:
  assumes "reach sys_init (sys_step h me) s" "sys_exec h me es s = Some s'"
  shows "reach sys_init (sys_step h me) s'"
  using assms
proof (induction es arbitrary: s)
  case (Cons e es)
  then obtain t where t: "sys_do h me e s = Some t" "sys_exec h me es t = Some s'"
    by (auto split: option.splits)
  then have "reach sys_init (sys_step h me) t"
    using Cons.prems(1) by (blast intro: reach_step sys_do_step)
  then show ?case
    using t(2) by (rule Cons.IH)
qed simp

section \<open>Serving ends\<close>


definition ex_connector :: connector_full where
  "ex_connector = (new_connector 0 7 1 3 ''c'')\<lparr>co_status := ''active'', co_trust_domain := Some ''td'', co_last_heartbeat_at := Some 0\<rparr>"

definition ex_cstore :: cstore where
  "ex_cstore = \<lparr>cs_connectors = [ex_connector], cs_revocations = [],
     cs_workspaces = [\<lparr>ws_id = 1, ws_trust_domain = Some ''td''\<rparr>], cs_active_workspaces = [1],
     cs_remote_networks = [], cs_shields = [], cs_placements = [], cs_shield_revocations = [], cs_shield_outbox = []\<rparr>"

definition ex_ctl :: ctl where
  "ex_ctl = \<lparr>kt_store = ex_cstore, kt_streams = Map.empty, kt_clients = Map.empty, kt_live = []\<rparr>"

definition ex_machine :: machine where
  "ex_machine = \<lparr>cm_ctl = ex_ctl, cm_opened = Map.empty, cm_ready = [], cm_health = Map.empty\<rparr>"

definition ex_sys :: sys where
  "ex_sys = \<lparr>sy_m = ex_machine, sy_up = [], sy_dead = {}, sy_hist = [], sy_now = 0\<rparr>"

definition ex_report :: health_report where
  "ex_report = \<lparr>hr_HeartbeatSeq = 1, hr_Version = ''1'', hr_Hostname = ''c'', hr_PublicIp = [], hr_LanAddr = [], hr_AclVersion = 0, hr_RelayId = None\<rparr>"

text \<open>A report sent at 10 is acknowledged; the connector is revoked at 40 and hears nothing of it.\<close>

definition ex_revocation :: "sys_event list" where
  "ex_revocation =
     [DoCtl (DoOpen 0 7 ''td''), DoCtl (DoActivate 0), DoLocal (EvOpen 0), DoCtl (DoGreet 0), DoCtl (DoWrite 0), DoDeliver 0,
      DoTick 10, DoLocal EvSeq, DoSend 0 ex_report, DoTick 12, DoReport 0 ex_report, DoCtl (DoFinish 0), DoCtl (DoWrite 0),
      DoCtl (DoWrite 0), DoCtl (DoWrite 0), DoTick 15, DoDeliver 0, DoDeliver 0, DoDeliver 0, DoTick 40, DoCtl (DoRevoke 1 7)]"

lemma ex_sys_init: "sys_init ex_sys"
  by (simp add: sys_init_def ex_sys_def ex_machine_def ex_ctl_def ex_cstore_def cstore_ok_def tombstoned_def ex_connector_def
      revoked_row_def new_connector_def)


section \<open>Coming back\<close>

text \<open>Any step of the controller, at any time.\<close>

definition ctl_any :: "machine \<Rightarrow> machine \<Rightarrow> bool" where
  "ctl_any m m' \<longleftrightarrow> (\<exists>now. ctl_step now m m' \<or> (\<exists>j r. ctl_report now j r m m'))"

lemma ctl_any_kept:
  assumes "cm_ok m" "ctl_any m m'"
  shows "cm_ok m' \<and> set (cs_revocations (cm_store m)) \<subseteq> set (cs_revocations (cm_store m'))"
  using assms ctl_step_kept ctl_report_kept(1,2) unfolding ctl_any_def machine_kept_def store_kept_def by blast

lemma ctl_run_kept:
  assumes "ctl_any\<^sup>*\<^sup>* m m'" "cm_ok m"
  shows "cm_ok m' \<and> set (cs_revocations (cm_store m)) \<subseteq> set (cs_revocations (cm_store m'))"
  using assms
proof (induction rule: rtranclp_induct)
  case (step y z)
  then show ?case
    using ctl_any_kept [of y z] by blast
qed simp

lemma lookup_tombstone:
  assumes ok: "cstore_ok st" and v: "v \<in> set (cs_revocations st)" "cv_connector_id v = i"
    and w: "w \<in> set (cs_workspaces st)" "ws_id w = cv_tenant_id v" "ws_trust_domain w = Some td"
    and fails: "\<not> fails SqLookup" "\<not> fails SqTombstone"
  shows "control_open fails i td presented st = Inl rejectRevoked"
proof (cases "select_one (\<lambda>c. co_id c = i \<and> co_trust_domain c = Some td) (cs_connectors st)")
  case None
  have "list_ex (\<lambda>v. cv_connector_id v = i \<and>
      list_ex (\<lambda>w. ws_id w = cv_tenant_id v \<and> ws_trust_domain w = Some td) (cs_workspaces st)) (cs_revocations st)"
    using v w by (auto simp: list_ex_iff)
  then show ?thesis
    using None fails by (simp add: control_open_def lookupConnector_def rejectionFor_def)
next
  case (Some c)
  then have "revoked_row c"
    using select_one_Some [OF Some] ok v by (auto simp: cstore_ok_def tombstoned_def)
  then show ?thesis
    using Some fails(1) by (simp add: control_open_def lookupConnector_def rejectionFor_def)
qed

lemma fold_record_first:
  assumes "v \<in> set (record_revocation now c rs)"
  shows "v \<in> set (fold (record_revocation now) (c # cs) rs)"
proof -
  have one: "set rs \<subseteq> set (record_revocation now d rs)" for d rs
    by (auto simp: record_revocation_def)
  have "set rs \<subseteq> set (fold (record_revocation now) cs rs)" for rs
    by (induction cs arbitrary: rs) (simp, metis fold_simps(2) one order_trans)
  then show ?thesis
    using assms by auto
qed

text \<open>The statement leaves a tombstone with the tenant of the connector and the time.\<close>

lemma revoke_tx_tombstone:
  assumes ok: "cstore_ok st" and tx: "revoke_tx fails now t i also_shields st = (None, st')"
  obtains v where "v \<in> set (cs_revocations st')" "cv_connector_id v = i" "cv_tenant_id v = t" "cv_revoked_at v = now"
proof -
  let ?f = "\<lambda>c. c\<lparr>co_status := ''revoked'', co_revoked_at := Some now, cx_updated_at := now\<rparr>"
  have st': "st' = update_status now (revocable t i) ?f st" "filter (revocable t i) (cs_connectors st) \<noteq> []"
    using tx by (auto simp: revoke_tx_def count_where_def split: if_splits)
  then obtain c cs where cs: "filter (revocable t i) (cs_connectors st) = c # cs"
    by (cases "filter (revocable t i) (cs_connectors st)") auto
  then have c: "c \<in> set (cs_connectors st)" "revocable t i c"
    using filter_eq_ConsD [OF cs] by auto
  have "i \<notin> cv_connector_id ` set (cs_revocations st)"
    using ok c by (auto simp: cstore_ok_def tombstoned_def revocable_def revoked_row_def)
  then have "\<lparr>cv_connector_id = i, cv_tenant_id = t, cv_revoked_at = now\<rparr> \<in> set (record_revocation now (?f c) (cs_revocations st))"
    using c(2) by (simp add: record_revocation_def revocable_def revoked_row_def or_else_def)
  then have "\<lparr>cv_connector_id = i, cv_tenant_id = t, cv_revoked_at = now\<rparr> \<in> set (cs_revocations st')"
    using fold_record_first st'(1) cs by (simp add: update_status_def)
  then show ?thesis
    using that by fastforce
qed

lemma terminal_never_admits:
  assumes "e \<in> set es" "terminal_event e"
  shows "\<not> admits (at_publish (aw_tracker (authz_run h es))) now"
proof -
  note T = tracker_okD [OF tracker_ok_run [of h es]]
  have "at_terminal (aw_tracker (authz_run h es)) \<noteq> None"
    using run_terminal assms by blast
  then have "\<not> is_open (at_state (aw_tracker (authz_run h es)))"
    using T(6) is_terminal_not_open by metis
  then show ?thesis
    unfolding T(2) by (simp add: admits_def at_snapshot_def)
qed


lemma store_steps_kept:
  assumes "(store_step now)\<^sup>*\<^sup>* st st'" "cstore_ok st"
  shows "cstore_ok st' \<and> set (cs_revocations st) \<subseteq> set (cs_revocations st')"
  using assms
proof (induction rule: rtranclp_induct)
  case (step y z)
  then show ?case
    using store_step_kept [of y now z] unfolding store_kept_def by blast
qed simp

lemma RevokeConnector_effects:
  assumes ok: "cm_ok m" and rev: "RevokeConnector fails nfails now tenantID i also_shields (cm_ctl m) = (None, es, k')"
  obtains v where "v \<in> set (cs_revocations (kt_store k'))" "cv_connector_id v = i" "cv_tenant_id v = tenantID"
    and "\<And>j c. (i, j) \<in> set (kt_live k') \<Longrightarrow> kt_streams k' j = Some c \<Longrightarrow> cc_revoked c" and "cm_ok (with_ctl k' m)"
proof -
  obtain st1 where tx: "revoke_tx fails now tenantID i also_shields (cm_store m) = (None, st1)"
    using rev by (auto simp: RevokeConnector_def Let_def split: prod.splits option.splits)
  have st: "cstore_ok (cm_store m)"
    using ok by (simp add: cm_ok_def)
  obtain v where v: "v \<in> set (cs_revocations st1)" "cv_connector_id v = i" "cv_tenant_id v = tenantID"
    using revoke_tx_tombstone [OF st tx] by metis
  let ?k1 = "SignalRevoked i ((cm_ctl m)\<lparr>kt_store := st1\<rparr>)"
  have k': "kt_live k' = kt_live ?k1 \<and> kt_streams k' = kt_streams ?k1 \<and> (store_step now)\<^sup>*\<^sup>* st1 (kt_store k')"
    using rev tx revoke_stranded_steps [of fails now tenantID]
    by (auto simp: RevokeConnector_def Let_def split: if_splits prod.splits option.splits)
  have "cstore_ok st1"
    using store_keptD [OF store_step_kept [OF st ss_revoke [OF tx]]] .
  then have "v \<in> set (cs_revocations (kt_store k'))"
    using store_steps_kept [of now st1 "kt_store k'"] k' v(1) by blast
  moreover have "cc_revoked c" if "(i, j) \<in> set (kt_live k')" "kt_streams k' j = Some c" for j c
    using SignalRevoked_marks [of i j "(cm_ctl m)\<lparr>kt_store := st1\<rparr>" c] k' that by simp
  moreover have "ctl_any\<^sup>*\<^sup>* m (with_ctl k' m)"
    using RevokeConnector_steps [OF rev] by (rule rtranclp_mono [THEN predicate2D, rotated]) (auto simp: ctl_any_def)
  then have "cm_ok (with_ctl k' m)"
    using ctl_run_kept ok by blast
  ultimately show ?thesis
    using that v(2,3) by blast
qed


definition ex_live :: machine where
  "ex_live = (case sys_exec 100 7 (take 4 ex_revocation) ex_sys of None \<Rightarrow> ex_machine | Some s \<Rightarrow> sy_m s)"

lemma ex_live_ok: "cm_ok ex_live"
proof -
  have "case sys_exec 100 7 (take 4 ex_revocation) ex_sys of None \<Rightarrow> False | Some s \<Rightarrow> True"
    by code_simp
  then obtain s where s: "sys_exec 100 7 (take 4 ex_revocation) ex_sys = Some s"
    by (auto split: option.splits)
  have "reach sys_init (sys_step 100 7) s"
    using reach_init [of sys_init ex_sys "sys_step 100 7", OF ex_sys_init] s by (rule sys_exec_reach)
  then show ?thesis
    using sys_invD(1) [OF rvk.inv_reach] s by (simp add: ex_live_def)
qed

text \<open>The connector is revoked while its stream is open, and its row is deleted afterwards.\<close>

definition ex_revoked :: ctl where
  "ex_revoked = snd (snd (RevokeConnector no_fail (\<lambda>_. False) 40 1 7 False (cm_ctl ex_live)))"

definition ex_deleted :: machine where
  "ex_deleted = with_store (snd (DeleteConnector no_fail 1 7 (kt_store ex_revoked))) (with_ctl ex_revoked ex_live)"


end
