(* ===== verification/Spec2Isabelle.thy ===== *)
theory Spec2Isabelle
  imports Outbox_Progress Posture_Correct Posture_Reports Acl_Isolation Transport_Correct Rbac_Correct Policy_Effects Conn_Claims Group_Access Shield_Claims Ctl_Claims
begin

text \<open>
  Zecurity: a verification of the controller's authorization path, of the connector's data plane and of the shield.

  \<^bold>\<open>The program.\<close> Zecurity is a zero-trust network. A controller (Go, \<open>src/controller\<close>) keeps the
  tables of each workspace in PostgreSQL: users, devices, groups, access rules, resources, shields,
  connectors, device profiles and posture. From them it compiles two snapshots per workspace, an access
  list (who may reach which resource, and how) and a transport snapshot (which connector serves which
  network), caches both, and pushes them to connectors (Rust, \<open>src/connector\<close>), which admit or
  refuse the streams of devices. Shields (Rust, \<open>src/shield\<close>) protect the ports of a resource's host
  by sets of rules that the controller signs and connectors carry. Events that must survive a crash go through an outbox table.

  \<^bold>\<open>Shared theories.\<close>
  \<^item> \<open>Zec_Prelude\<close>: representation of Go values. A time is an \<open>int\<close> in nanoseconds, a string a list
    of bytes, a pointer or NULL an option, an error the left side of a sum, a table a list of rows
    changed by \<open>update_where\<close>. An identifier is a \<open>nat\<close> that stands for the canonical text of a UUID; an
    argument that does not parse is \<open>None\<close>.
  \<^item> \<open>Zec_Interfaces\<close>: the locale \<open>inductive_invariant\<close>, interpreted as \<open>obm\<close> (outbox), \<open>adm\<close> (roles),
    \<open>pol\<close> (policies), \<open>conn\<close> (sessions of a connector), \<open>resm\<close> (resources) and \<open>rvk\<close> (controller and connector). \<open>Zec_Caches\<close>: the locale
    \<open>guarded_cache\<close> of a cache whose stores carry an invalidation token, interpreted as \<open>pc\<close> (policy),
    \<open>tcc\<close> (transport) and \<open>rcc\<close> (roles).
  \<^item> \<open>Zec_Net\<close>: \<open>net.SplitHostPort\<close> and \<open>net.JoinHostPort\<close> as the controller uses them.
  \<^item> \<open>Zec_Db\<close>: the rows of \<open>migrations/*.sql\<close> that the components read and write.

  \<^bold>\<open>Components.\<close> Each entry names the sources, the theories, and what the lemmas show.

  \<^item> \<^emph>\<open>Outbox\<close> (\<open>internal/outbox\<close>). \<open>Outbox\<close> holds the store methods, the dispatcher, the poll and
    reaper ticks and the retry policy. \<open>Outbox_Machine\<close> is the step relation in which one step is one
    SQL statement of one worker. \<open>Outbox_Refine\<close> shows that ticks under any interference are runs of it.
    \<open>Outbox_Correct\<close> and \<open>Outbox_Progress\<close> show the lease discipline, that a finished event is final,
    the retry bookkeeping, progress, dead-lettering, recovery, and that the
    clamped float computation of the backoff is the intended minimum (C1 to C7).
  \<^item> \<^emph>\<open>Posture\<close> (\<open>internal/posture\<close>). \<open>Posture\<close> has report validation, country rules and the evaluation
    of one profile, \<open>Posture_Eval\<close> the evaluation of a device over the tables. \<open>Posture_Correct\<close> and
    \<open>Posture_Reports\<close> show what is accepted, when a profile is satisfied, what is stored, that evaluation
    is idempotent, and which checks a device cannot speak for (C8 to C11).
  \<^item> \<^emph>\<open>Access list compiler\<close> (\<open>internal/policy/compiler.go\<close>, \<open>preview.go\<close>, the queries of \<open>store.go\<close>).
    \<open>Acl_Store\<close> and \<open>Acl_Compiler\<close> follow the loops of the code. \<open>Acl_Correct\<close>, \<open>Acl_Claims\<close> and
    \<open>Acl_Isolation\<close> compare the result with a declarative reading of the tables, and show its validity
    over time, its errors and its independence of other workspaces (C12 to C15).
  \<^item> \<^emph>\<open>Policy cache and notifier\<close> (\<open>cache.go\<close>, \<open>notifier.go\<close>, \<open>invalidation.go\<close>). \<open>Policy_Cache\<close> has the
    locked sections with the epoch at its 64 bits, \<open>Policy_Serve\<close> the compiler and the cache together
    with readers, writers and expiry in any order (C16 to C18).
  \<^item> \<^emph>\<open>Transport\<close> (\<open>internal/transport\<close>). \<open>Transport\<close> has queries, assembly, cache and notifier;
    \<open>Transport_Correct\<close> its agreement with the policy plane and the coherence of its cache (C19, C20).
  \<^item> \<^emph>\<open>Roles\<close> (\<open>internal/rbac\<close>, \<open>graph/resolvers/member_role.go\<close>). \<open>Rbac\<close> and \<open>Rbac_Correct\<close>:
    the role lookup agrees with the users table, the last active Admin survives (C21, C22).
  \<^item> \<^emph>\<open>Policies and profiles\<close> (\<open>resource_policy.go\<close>, \<open>store.go\<close>, \<open>country.go\<close> of \<open>internal/posture\<close>, triggers of
    \<open>049_resource_policies.sql\<close>). \<open>Resource_Policy\<close> and \<open>Profile_Admin\<close> have every operation, with any
    of its statements failing. \<open>Policy_Invariant\<close> shows that they keep the policies well formed,
    \<open>Policy_Effects\<close> what they do to the snapshots compiled afterwards (C23 to C25).
  \<^item> \<^emph>\<open>Connector\<close> (\<open>authorization.rs\<close>, \<open>policy/mod.rs\<close>, \<open>session_registry.rs\<close>, \<open>device_tunnel.rs\<close>,
    \<open>fail_closed.rs\<close>, \<open>crl.rs\<close> of \<open>src/connector/src\<close>). \<open>Conn_Authz\<close> is the serving state machine,
    \<open>Conn_Policy\<close> the cached access list, the session index and the stages of a stream, \<open>Conn_Sessions\<close>
    all tasks interleaved, one critical section a step. \<open>Conn_Authz_Correct\<close> and \<open>Conn_Claims\<close>:
    traffic is admitted only under an acknowledgement, no session survives the loss of what admitted it, and,
    composed with the compiler, a live session is one the tables of the controller grant (C26 to C29).
  \<^item> \<^emph>\<open>Resources\<close> (\<open>internal/resource/store.go\<close>, \<open>graph/resolvers/resource.resolvers.go\<close>,
    \<open>internal/connector/reconcile.go\<close> and the shield messages of \<open>control_stream.go\<close>,
    \<open>internal/shield/heartbeat.go\<close>). \<open>Res_Host\<close> normalises hosts, \<open>Res_Store\<close> has the tables
    and their constraints, \<open>Res_Ops\<close> the functions of the store, \<open>Res_Flow\<close> their callers with the
    notifications and pushes they send. \<open>Res_Invariant\<close> and \<open>Res_Machine\<close> show the table well formed in every
    reachable state; \<open>Res_Acl\<close> and \<open>Res_Notify\<close> that a handler which sends no notification leaves
    the compiled access list as it was; \<open>Res_Snapshot\<close> that the generations of a shield order its
    snapshots. The properties are in \<open>Res_Claims\<close> (C30 to C33).
  \<^item> \<^emph>\<open>Groups and rules\<close> (the administration part of \<open>internal/policy/store.go\<close>,
    \<open>policy.resolvers.go\<close>, \<open>policy_helpers.go\<close>, \<open>group_name.go\<close>, \<open>directives.go\<close> and the self-access guards of
    \<open>member_role.go\<close> in \<open>graph/resolvers\<close>). \<open>Group_Admin\<close> has the store functions, the seven mutations and the
    \<open>@requires\<close> directive. \<open>Group_Access\<close> shows that a mutation either leaves no trace or makes one of a
    few changes inside the caller's workspace and announces it, that foreign keys and the snapshots of
    other workspaces are kept, and that nobody but an Admin can extend their own access (C34).
  \<^item> \<^emph>\<open>Shield\<close> (\<open>types.rs\<close>, \<open>crl.rs\<close>, \<open>resources.rs\<close>, \<open>util.rs\<close>, \<open>peer_list.rs\<close>, \<open>control_stream.rs\<close>, \<open>renewal.rs\<close>
    of \<open>src/shield/src\<close>). \<open>Shield_State\<close> has the saved state and the revocation list, \<open>Shield_Resources\<close> the
    admission of a set, its ruleset and the acknowledgements, \<open>Shield_Control\<close> every message of the control
    stream, the reconnect loop and the restart. \<open>Shield_Machine\<close> lets all of them happen in any
    order and shows that the shield implements a small gate of generations, and that a revoked
    connector gets nothing done. \<open>Shield_Issue\<close> is the side of the controller (\<open>peer_list.go\<close>, \<open>resource_set.go\<close> and
    \<open>buildSnapshotMsg\<close> of \<open>internal/connector\<close>, \<open>internal/pki/peer_list.go\<close>). \<open>Shield_Claims\<close> shows that sets never go back,
    composes controller and shield, and states two situations in which a shield does less than it reports (C35 to C38).
  \<^item> \<^emph>\<open>Control streams\<close> (\<open>control_stream.go\<close>, \<open>authorization.go\<close>, \<open>enrollment.go\<close>, \<open>token_handler.go\<close>, \<open>goodbye.go\<close>,
    \<open>disconnect_watcher.go\<close>, \<open>stranded.go\<close> and \<open>standing.go\<close> of \<open>internal/connector\<close>, \<open>internal/shield/revocation.go\<close>,
    \<open>connector.resolvers.go\<close>, \<open>041_connector_revocations.sql\<close>). \<open>Ctl_Store\<close> has the rows with the trigger that records revocations
    and every statement on them, \<open>Ctl_Streams\<close> the lookup, the stream objects, the registry, the health report that is acknowledged
    and the revocation. \<open>Ctl_Machine\<close> interleaves the handlers of all streams and shows what every step keeps. \<open>Ctl_System\<close> joins
    it with the serving state machine of \<open>Conn_Authz\<close> by streams that delay and lose messages; \<open>Ctl_Claims\<close> shows that a revoked
    connector stops serving within the freshness bound whatever is lost, and is refused for good afterwards (C39, C40).

  \<^bold>\<open>Bounds.\<close> No definition takes fuel. The only loop whose length the data does not give, the retry of
  \<open>GetOrCompile\<close>, is bounded in the code by its three attempts. Counters that may wrap are words of their width:
  the epochs and versions of the two caches and the generations of the role cache. C18 states its bound of fewer
  than \<open>2 ^ 64\<close> changes. The sequence number of a state report is a 64-bit word; ports are cut to 16 bits on the
  shield, and C36 shows that nothing is lost. Generations of shields and SQL integers are unbounded or carry the column's
  range as a constraint whose violation is an error of the statement.

  \<^bold>\<open>Parameters.\<close> Third-party and external code is an argument of the definitions: jitter, handlers of outbox
  events, replies of the database (which statements fail), SHA-256, signatures, X.509 and protobuf decoders, netlink, the random identifiers and the clock. A property that
  relies on one states what it needs as a hypothesis, and its witness instantiates it.

  \<^bold>\<open>Not modelled.\<close> Sessions and OIDC (\<open>internal/auth\<close>, \<open>identity\<close>, \<open>idp\<close>), certificates (the rest of \<open>pki\<close>,
  \<open>spiffe\<close>), SCIM, invitations and the provider console rest on third-party cryptography, HTTP and mail.
  Enrollment of shields and devices, the relay service, and of the connector service the interceptor, the fan-out of relay lists, scans,
  logs and the dispatcher of shield revocations are gRPC streaming over the same tables. C39 takes one clock for both sides, and that
  a connector sends a number again only while its first send is younger than the freshness bound, as the code means to
  (\<open>resend_after_pruning\<close> shows what happens otherwise). Of IPv6, only that \<open>NormalizeHost\<close> refuses a text with a colon is used. The agents of
  device and relay drive tunnels, TLS and QUIC. Of the shield, enrollment, discovery, the tunnels, the handover of
  a stream after a renewal and the goodbye are left out: they do not change what the shield enforces or saves, apart from
  messages the handover reads, which the machine takes like any others. Metrics and logs have no effect on what
  is modelled; \<open>singleflight\<close>, which only shares the work of equal compilations, is left out.
  The consoles, generated code and deployment files hold no logic of the components above.
\<close>

end
